(* ===== verification/Prelude.thy ===== *)
theory Prelude
  imports Main "HOL-Library.Sublist" "HOL-Library.Word" "HOL-Library.Char_ord"
    "HOL-Library.Code_Target_Nat"
begin

text \<open>
  The vocabulary the component theories share.

  Rust strings and byte slices are both \<open>string\<close>: a HOL \<open>char\<close> is one byte, so a
  Rust \<open>str\<close> is the list of its UTF-8 bytes, \<open>length\<close> is \<open>str::len\<close> and every ASCII
  test is a test on bytes (UTF-8 never uses an ASCII byte inside a multi-byte
  sequence).  \<open>char::is_whitespace\<close> is the only non-ASCII classification the program
  uses; \<open>ws_encodings\<close> lists the UTF-8 encodings of the Unicode \<open>White_Space\<close> set.

  A \<open>Result<A, E>\<close> is \<open>'e + 'a\<close> with \<open>Inl\<close> the error; \<open>rbind\<close> is the \<open>?\<close> operator,
  \<open>vthen\<close> the same for \<open>Result<(), E>\<close>, \<open>ensure\<close> an early return guarded by a
  condition and \<open>check_all\<close> a loop whose body ends in \<open>?\<close>.

  Unsigned machine integers are \<open>nat\<close> with the width written out in every operation
  whose result the source bounds (checked, saturating, parsing); hashes, where the
  source wraps, are \<open>64 word\<close>.
\<close>

named_theorems valid_simps \<open>when a validator accepts\<close>

section \<open>Results\<close>

definition rbind :: "'e + 'a \<Rightarrow> ('a \<Rightarrow> 'e + 'b) \<Rightarrow> 'e + 'b" where
  "rbind m f = (case m of Inl e \<Rightarrow> Inl e | Inr x \<Rightarrow> f x)"

definition vthen :: "'e + unit \<Rightarrow> 'e + 'b \<Rightarrow> 'e + 'b" where
  "vthen m k = (case m of Inl e \<Rightarrow> Inl e | Inr _ \<Rightarrow> k)"

definition ensure :: "bool \<Rightarrow> 'e \<Rightarrow> 'e + unit" where
  "ensure b e = (if b then Inr () else Inl e)"

fun check_all :: "('a \<Rightarrow> 'e + unit) \<Rightarrow> 'a list \<Rightarrow> 'e + unit" where
  "check_all f [] = Inr ()"
| "check_all f (x # xs) = vthen (f x) (check_all f xs)"

definition check_opt :: "('a \<Rightarrow> 'e + unit) \<Rightarrow> 'a option \<Rightarrow> 'e + unit" where
  "check_opt f m = (case m of None \<Rightarrow> Inr () | Some x \<Rightarrow> f x)"

fun try_map :: "('a \<Rightarrow> 'e + 'b) \<Rightarrow> 'a list \<Rightarrow> 'e + 'b list" where
  "try_map f [] = Inr []"
| "try_map f (x # xs) = rbind (f x) (\<lambda>y. rbind (try_map f xs) (\<lambda>ys. Inr (y # ys)))"

definition map_err :: "('e \<Rightarrow> 'f) \<Rightarrow> 'e + 'a \<Rightarrow> 'f + 'a" where
  "map_err g m = (case m of Inl e \<Rightarrow> Inl (g e) | Inr x \<Rightarrow> Inr x)"

definition ok_or :: "'e \<Rightarrow> 'a option \<Rightarrow> 'e + 'a" where
  "ok_or e m = (case m of None \<Rightarrow> Inl e | Some x \<Rightarrow> Inr x)"

definition is_ok :: "'e + 'a \<Rightarrow> bool" where
  "is_ok m = (case m of Inl _ \<Rightarrow> False | Inr _ \<Rightarrow> True)"

lemma rbind_simps [simp]: "rbind (Inl e) f = Inl e" "rbind (Inr x) f = f x"
  by (simp_all add: rbind_def)

lemma vthen_simps [simp]: "vthen (Inl e) k = Inl e" "vthen (Inr u) k = k"
  by (simp_all add: vthen_def)

lemma rbind_eq_Inr [simp]: "rbind m f = Inr y \<longleftrightarrow> (\<exists>x. m = Inr x \<and> f x = Inr y)"
  by (cases m) auto

lemma rbind_cong [fundef_cong]:
  "m = m' \<Longrightarrow> (\<And>x. m' = Inr x \<Longrightarrow> f x = f' x) \<Longrightarrow> rbind m f = rbind m' f'"
  by (cases m') auto

lemma vthen_eq_Inr [simp]: "vthen m k = Inr y \<longleftrightarrow> m = Inr () \<and> k = Inr y"
  by (cases m) auto

lemma vthen_eq_Inl: "vthen m k = Inl e \<longleftrightarrow> m = Inl e \<or> (m = Inr () \<and> k = Inl e)"
  by (cases m) auto

lemma ensure_eq_Inr [simp]: "ensure b e = Inr u \<longleftrightarrow> b"
  by (simp add: ensure_def)

lemma ensure_eq_Inl [simp]: "ensure b e = Inl e' \<longleftrightarrow> \<not> b \<and> e' = e"
  by (auto simp: ensure_def)

lemma ensure_True [simp]: "ensure True e = Inr ()"
  by (simp add: ensure_def)

lemma check_all_eq_Inr [simp]: "check_all f xs = Inr u \<longleftrightarrow> (\<forall>x\<in>set xs. f x = Inr ())"
  by (induction xs) auto

lemma check_opt_eq_Inr [simp]: "check_opt f m = Inr u \<longleftrightarrow> (\<forall>x. m = Some x \<longrightarrow> f x = Inr ())"
  by (auto simp: check_opt_def split: option.splits)

lemma check_all_Inl_D: "check_all f xs = Inl e \<Longrightarrow> \<exists>x\<in>set xs. f x = Inl e"
  by (induction xs) (auto simp: vthen_eq_Inl)

lemma check_all_append: "check_all f (xs @ ys) = vthen (check_all f xs) (check_all f ys)"
proof (induction xs)
  case (Cons a xs)
  then show ?case by (cases "f a") simp_all
qed simp

lemma try_map_eq_Inr:
  "try_map f xs = Inr ys \<longleftrightarrow> list_all2 (\<lambda>x y. f x = Inr y) xs ys"
  by (induction xs arbitrary: ys) (auto simp: list_all2_Cons1)

lemma map_err_eq_Inr [simp]: "map_err g m = Inr x \<longleftrightarrow> m = Inr x"
  by (cases m) (auto simp: map_err_def)

lemma ok_or_eq_Inr [simp]: "ok_or e m = Inr x \<longleftrightarrow> m = Some x"
  by (cases m) (auto simp: ok_or_def)

lemma is_ok_iff: "is_ok m \<longleftrightarrow> (\<exists>x. m = Inr x)"
  by (cases m) (auto simp: is_ok_def)

lemma is_ok_simps [simp]: "is_ok (Inr x)" "\<not> is_ok (Inl e)"
  by (simp_all add: is_ok_def)

section \<open>Effects\<close>

text \<open>A fallible operation on a state: the result with the state it leaves, also when it
  fails.\<close>

definition io_bind ::
  "('s \<Rightarrow> ('e + 'a) \<times> 's) \<Rightarrow> ('a \<Rightarrow> 's \<Rightarrow> ('e + 'b) \<times> 's) \<Rightarrow> 's \<Rightarrow> ('e + 'b) \<times> 's" where
  "io_bind m k s = (case m s of (Inl e, s') \<Rightarrow> (Inl e, s') | (Inr x, s') \<Rightarrow> k x s')"

definition io_return :: "'e + 'a \<Rightarrow> 's \<Rightarrow> ('e + 'a) \<times> 's" where
  "io_return r s = (r, s)"

fun io_map :: "('a \<Rightarrow> 's \<Rightarrow> ('e + 'b) \<times> 's) \<Rightarrow> 'a list \<Rightarrow> 's \<Rightarrow> ('e + 'b list) \<times> 's" where
  "io_map f [] = io_return (Inr [])"
| "io_map f (x # xs) =
    io_bind (f x) (\<lambda>y. io_bind (io_map f xs) (\<lambda>ys. io_return (Inr (y # ys))))"

lemma io_bind_eq_Inr [simp]:
  "io_bind m k s = (Inr y, s') \<longleftrightarrow> (\<exists>x s1. m s = (Inr x, s1) \<and> k x s1 = (Inr y, s'))"
  by (auto simp: io_bind_def split: prod.splits sum.splits)

lemma io_return_eq [simp]: "io_return r s = (r', s') \<longleftrightarrow> r' = r \<and> s' = s"
  by (auto simp: io_return_def)

text \<open>An operation that may not return: \<open>None\<close> is a call that goes on for ever.  \<open>run_loop\<close>
  repeats a step that gives the next state of the loop (\<open>Inl\<close>) or its result (\<open>Inr\<close>).\<close>

type_synonym ('s, 'e, 'a) run = "'s \<Rightarrow> (('e + 'a) \<times> 's) option"

definition run_io :: "('s \<Rightarrow> ('e + 'a) \<times> 's) \<Rightarrow> ('s, 'e, 'a) run" where
  "run_io m s = Some (m s)"

definition run_return :: "'e + 'a \<Rightarrow> ('s, 'e, 'a) run" where
  "run_return r s = Some (r, s)"

definition run_bind :: "('s, 'e, 'a) run \<Rightarrow> ('a \<Rightarrow> ('s, 'e, 'b) run) \<Rightarrow> ('s, 'e, 'b) run" where
  "run_bind m k s = (case m s of
      None \<Rightarrow> None
    | Some (Inl e, s') \<Rightarrow> Some (Inl e, s')
    | Some (Inr x, s') \<Rightarrow> k x s')"

fun run_map :: "('a \<Rightarrow> ('s, 'e, 'b) run) \<Rightarrow> 'a list \<Rightarrow> ('s, 'e, 'b list) run" where
  "run_map f [] = run_return (Inr [])"
| "run_map f (x # xs) =
    run_bind (f x) (\<lambda>y. run_bind (run_map f xs) (\<lambda>ys. run_return (Inr (y # ys))))"

fun loop_again :: "('c \<Rightarrow> 's \<Rightarrow> (('e + 'a) \<times> 's) option) \<Rightarrow> ('e + ('c + 'a)) \<times> 's \<Rightarrow> (('e + 'a) \<times> 's) option" where
  "loop_again k (Inl e, s) = Some (Inl e, s)"
| "loop_again k (Inr (Inr x), s) = Some (Inr x, s)"
| "loop_again k (Inr (Inl c), s) = k c s"

lemma loop_again_mono [partial_function_mono]:
  "(\<And>c s. mono_option (\<lambda>f. k f c s)) \<Longrightarrow> mono_option (\<lambda>f. loop_again (k f) r)"
proof -
  assume k: "\<And>c s. mono_option (\<lambda>f. k f c s)"
  show ?thesis
  proof (cases r)
    case (Pair x s)
    then show ?thesis using k by (cases x; cases "projr x") (auto intro: option.const_mono)
  qed
qed

partial_function (option) run_loop ::
  "('c \<Rightarrow> ('s, 'e, 'c + 'a) run) \<Rightarrow> 'c \<Rightarrow> 's \<Rightarrow> (('e + 'a) \<times> 's) option" where
  "run_loop step c s = Option.bind (step c s) (loop_again (run_loop step))"

declare run_loop.simps [code]

lemma run_bind_simps:
  "m s = None \<Longrightarrow> run_bind m k s = None"
  "m s = Some (Inl e, s') \<Longrightarrow> run_bind m k s = Some (Inl e, s')"
  "m s = Some (Inr x, s') \<Longrightarrow> run_bind m k s = k x s'"
  by (simp_all add: run_bind_def)

lemma run_bind_Some:
  "run_bind m k s = Some (r, s') \<longleftrightarrow>
    (\<exists>e. m s = Some (Inl e, s') \<and> r = Inl e) \<or> (\<exists>x s1. m s = Some (Inr x, s1) \<and> k x s1 = Some (r, s'))"
  by (auto simp: run_bind_def split: option.splits prod.splits sum.splits)

lemma run_io_bind: "run_io (io_bind m k) = run_bind (run_io m) (\<lambda>x. run_io (k x))"
  by (auto simp: run_io_def run_bind_def io_bind_def fun_eq_iff split: prod.splits sum.splits)

text \<open>A loop returns when its steps do and each that goes on lowers a measure.\<close>

lemma run_loop_returns:
  assumes step: "\<And>c s. I c s \<Longrightarrow> step c s \<noteq> None"
    and less: "\<And>c s c' s'. I c s \<Longrightarrow> step c s = Some (Inr (Inl c'), s') \<Longrightarrow> I c' s' \<and> (m c' s' :: nat) < m c s"
    and start: "I c s"
  shows "\<exists>r s'. run_loop step c s = Some (r, s')"
  using start
proof (induction "m c s" arbitrary: c s rule: less_induct)
  case less': less
  obtain r s1 where r: "step c s = Some (r, s1)" using step [OF less'.prems] by auto
  show ?case
  proof (cases "(run_loop step, (r, s1))" rule: loop_again.cases)
    case (3 k c' s')
    with less [OF less'.prems] less'.hyps r show ?thesis by (auto simp: run_loop.simps [of step c s])
  qed (use r in \<open>auto simp: run_loop.simps [of step c s]\<close>)
qed

text \<open>What every step keeps holds when the loop has returned.\<close>

lemma run_loop_keeps:
  assumes run: "run_loop step c s = Some (r, s')" and start: "I c s"
    and again: "\<And>c s c' s'. I c s \<Longrightarrow> step c s = Some (Inr (Inl c'), s') \<Longrightarrow> I c' s'"
    and fail: "\<And>c s e s'. I c s \<Longrightarrow> step c s = Some (Inl e, s') \<Longrightarrow> Q (Inl e) s'"
    and stop: "\<And>c s x s'. I c s \<Longrightarrow> step c s = Some (Inr (Inr x), s') \<Longrightarrow> Q (Inr x) s'"
  shows "Q r s'"
proof -
  define P where "P f c s y \<longleftrightarrow> f = step \<longrightarrow> I c s \<longrightarrow> Q (fst y) (snd y)" for f c s y
  have "P step c s (r, s')"
  proof (rule run_loop.raw_induct [where P = P, OF _ run])
    fix loop f c s y
    assume ind: "\<And>f c s y. loop f c s = Some y \<Longrightarrow> P f c s y"
      and bind: "Option.bind (f c s) (loop_again (loop f)) = Some y"
    from bind obtain out where out: "f c s = Some out" "loop_again (loop f) out = Some y"
      by (auto simp: bind_eq_Some_conv)
    have "Q (fst y) (snd y)" if f: "f = step" and I: "I c s"
    proof (cases "(loop f, out)" rule: loop_again.cases)
      case (3 k c' s')
      then show ?thesis using ind [of f c' s' y] again [OF I, of c' s'] out f by (auto simp: P_def)
    qed (use fail [OF I] stop [OF I] out f in auto)
    then show "P f c s y" by (simp add: P_def)
  qed
  with start show ?thesis by (simp add: P_def)
qed

section \<open>Bytes\<close>

abbreviation byte :: "char \<Rightarrow> nat" where "byte c \<equiv> of_char c"

definition is_digit :: "char \<Rightarrow> bool" where
  "is_digit c = (48 \<le> byte c \<and> byte c \<le> 57)"

definition is_ascii_lower :: "char \<Rightarrow> bool" where
  "is_ascii_lower c = (97 \<le> byte c \<and> byte c \<le> 122)"

definition is_ascii_upper :: "char \<Rightarrow> bool" where
  "is_ascii_upper c = (65 \<le> byte c \<and> byte c \<le> 90)"

definition is_alnum :: "char \<Rightarrow> bool" where
  "is_alnum c = (is_digit c \<or> is_ascii_lower c \<or> is_ascii_upper c)"

definition is_hexdigit :: "char \<Rightarrow> bool" where
  "is_hexdigit c = (is_digit c \<or> (97 \<le> byte c \<and> byte c \<le> 102) \<or> (65 \<le> byte c \<and> byte c \<le> 70))"

definition ascii_lower :: "char \<Rightarrow> char" where
  "ascii_lower c = (if is_ascii_upper c then char_of (byte c + 32) else c)"

definition to_ascii_lowercase :: "string \<Rightarrow> string" where
  "to_ascii_lowercase s = map ascii_lower s"

definition eq_ignore_ascii_case :: "string \<Rightarrow> string \<Rightarrow> bool" where
  "eq_ignore_ascii_case s t = (to_ascii_lowercase s = to_ascii_lowercase t)"

abbreviation NUL :: char where "NUL \<equiv> CHR 0x00"
abbreviation TAB :: char where "TAB \<equiv> CHR 0x09"
abbreviation NL :: char where "NL \<equiv> CHR 0x0A"
abbreviation CR :: char where "CR \<equiv> CHR 0x0D"
abbreviation BACKSLASH :: char where "BACKSLASH \<equiv> CHR 0x5C"
abbreviation QUOTE :: char where "QUOTE \<equiv> CHR 0x22"

lemma byte_inject: "byte c = byte d \<longleftrightarrow> c = d"
  by simp

lemma ascii_lower_idem [simp]: "ascii_lower (ascii_lower c) = ascii_lower c"
  by (auto simp: ascii_lower_def is_ascii_upper_def)

lemma to_ascii_lowercase_idem [simp]:
  "to_ascii_lowercase (to_ascii_lowercase s) = to_ascii_lowercase s"
  by (simp add: to_ascii_lowercase_def)

lemma length_to_ascii_lowercase [simp]: "length (to_ascii_lowercase s) = length s"
  by (simp add: to_ascii_lowercase_def)

lemma is_hexdigit_lower: "is_hexdigit c \<Longrightarrow> is_hexdigit (ascii_lower c)"
  by (auto simp: ascii_lower_def is_ascii_upper_def is_hexdigit_def is_digit_def)

end
