(* ===== verification/Rust_Text.thy ===== *)
theory Rust_Text
  imports Prelude
begin

text \<open>
  The operations of \<open>str\<close>, \<open>[u8]\<close>, \<open>std::path::Path\<close> and integer parsing the program
  calls, on the byte strings of \<open>Prelude\<close>, with the facts about them the component
  theories rest on: splitting and joining are inverse, trimming leaves no white
  space at either end, and a path without a root or parent component never leaves
  the directory it is joined to.
\<close>

section \<open>Searching and splitting\<close>

definition starts_with :: "string \<Rightarrow> string \<Rightarrow> bool" where
  "starts_with s p = prefix p s"

definition ends_with :: "string \<Rightarrow> string \<Rightarrow> bool" where
  "ends_with s p = suffix p s"

fun contains_str :: "string \<Rightarrow> string \<Rightarrow> bool" where
  "contains_str [] p = (p = [])"
| "contains_str (c # s) p = (prefix p (c # s) \<or> contains_str s p)"

definition contains_char :: "string \<Rightarrow> char \<Rightarrow> bool" where
  "contains_char s c = list_ex (\<lambda>d. d = c) s"

definition strip_prefix :: "string \<Rightarrow> string \<Rightarrow> string option" where
  "strip_prefix p s = (if prefix p s then Some (drop (length p) s) else None)"

definition strip_suffix :: "string \<Rightarrow> string \<Rightarrow> string option" where
  "strip_suffix p s = (if suffix p s then Some (take (length s - length p) s) else None)"

fun split_on :: "'a \<Rightarrow> 'a list \<Rightarrow> 'a list list" where
  "split_on d [] = [[]]"
| "split_on d (c # s) =
    (if c = d then [] # split_on d s
     else (case split_on d s of [] \<Rightarrow> [[c]] | p # ps \<Rightarrow> (c # p) # ps))"

fun join_on :: "'a \<Rightarrow> 'a list list \<Rightarrow> 'a list" where
  "join_on d [] = []"
| "join_on d [p] = p"
| "join_on d (p # q # ps) = p @ d # join_on d (q # ps)"

fun split_once :: "'a \<Rightarrow> 'a list \<Rightarrow> ('a list \<times> 'a list) option" where
  "split_once d [] = None"
| "split_once d (c # s) =
    (if c = d then Some ([], s)
     else map_option (\<lambda>(a, b). (c # a, b)) (split_once d s))"

definition rsplit_once :: "'a \<Rightarrow> 'a list \<Rightarrow> ('a list \<times> 'a list) option" where
  "rsplit_once d s = map_option (\<lambda>(a, b). (rev b, rev a)) (split_once d (rev s))"

fun find_str :: "string \<Rightarrow> string \<Rightarrow> nat option" where
  "find_str p [] = (if p = [] then Some 0 else None)"
| "find_str p (c # s) =
    (if prefix p (c # s) then Some 0 else map_option Suc (find_str p s))"

definition split_once_str :: "string \<Rightarrow> string \<Rightarrow> (string \<times> string) option" where
  "split_once_str p s =
    map_option (\<lambda>n. (take n s, drop (n + length p) s)) (find_str p s)"

text \<open>\<open>split_once\<close> with a set of separators, and \<open>trim_end_matches\<close> of one byte.\<close>

fun split_once_any :: "char list \<Rightarrow> string \<Rightarrow> (string \<times> string) option" where
  "split_once_any ds [] = None"
| "split_once_any ds (c # s) =
    (if List.member ds c then Some ([], s)
     else map_option (\<lambda>(a, b). (c # a, b)) (split_once_any ds s))"

definition trim_end_char :: "char \<Rightarrow> string \<Rightarrow> string" where
  "trim_end_char d s = rev (dropWhile (\<lambda>c. c = d) (rev s))"

lemma trim_end_char_id: "s = [] \<or> last s \<noteq> d \<Longrightarrow> trim_end_char d s = s"
  by (cases s rule: rev_cases) (auto simp: trim_end_char_def)

lemma split_once_any_None: "split_once_any ds s = None \<longleftrightarrow> (\<forall>c\<in>set s. c \<notin> set ds)"
  by (induction s) auto

lemma starts_with_iff: "starts_with s p \<longleftrightarrow> (\<exists>t. s = p @ t)"
  by (auto simp: starts_with_def prefix_def)

lemma contains_str_iff: "contains_str s p \<longleftrightarrow> sublist p s"
  by (induction s) (auto simp: sublist_Cons_right)

lemma contains_char_iff [simp]: "contains_char s c \<longleftrightarrow> c \<in> set s"
  by (auto simp: contains_char_def list_ex_iff)

lemma strip_prefix_eq_Some [simp]: "strip_prefix p s = Some t \<longleftrightarrow> s = p @ t"
  by (auto simp: strip_prefix_def prefix_def)

lemma strip_suffix_eq_Some [simp]: "strip_suffix p s = Some t \<longleftrightarrow> s = t @ p"
  by (auto simp: strip_suffix_def suffix_def)

lemma split_on_not_Nil [simp]: "split_on d s \<noteq> []"
  by (induction s) (auto split: list.splits)

lemma join_split_on [simp]: "join_on d (split_on d s) = s"
proof (induction s)
  case (Cons c s)
  then show ?case
    by (cases "split_on d s"; cases "tl (split_on d s)") auto
qed simp

lemma split_on_no_sep: "p \<in> set (split_on d s) \<Longrightarrow> d \<notin> set p"
proof (induction s arbitrary: p)
  case (Cons c s)
  then show ?case by (cases "split_on d s") (auto split: if_splits)
qed simp

lemma split_on_single: "d \<notin> set p \<Longrightarrow> split_on d p = [p]"
  by (induction p) auto

lemma split_on_append: "d \<notin> set p \<Longrightarrow> split_on d (p @ d # s) = p # split_on d s"
  by (induction p) auto

lemma split_on_join_on:
  assumes "ps \<noteq> []" "\<And>p. p \<in> set ps \<Longrightarrow> d \<notin> set p"
  shows "split_on d (join_on d ps) = ps"
  using assms by (induction d ps rule: join_on.induct) (auto simp: split_on_single split_on_append)

lemma split_once_eq_Some: "split_once d s = Some (a, b) \<longleftrightarrow> s = a @ d # b \<and> d \<notin> set a"
proof (induction s arbitrary: a)
  case (Cons c s)
  then show ?case by (cases a) auto
qed simp

lemma split_once_eq_None: "split_once d s = None \<longleftrightarrow> d \<notin> set s"
  by (induction s) auto

lemma split_once_app [simp]: "d \<notin> set a \<Longrightarrow> split_once d (a @ d # b) = Some (a, b)"
  by (simp add: split_once_eq_Some)

lemma rsplit_once_eq_Some: "rsplit_once d s = Some (a, b) \<longleftrightarrow> s = a @ d # b \<and> d \<notin> set b"
proof -
  have "rsplit_once d s = Some (a, b) \<longleftrightarrow> split_once d (rev s) = Some (rev b, rev a)"
    by (auto simp: rsplit_once_def)
  also have "\<dots> \<longleftrightarrow> rev s = rev (a @ d # b) \<and> d \<notin> set b"
    by (simp add: split_once_eq_Some)
  finally show ?thesis by (simp only: rev_is_rev_conv)
qed

section \<open>White space\<close>

definition ws_encodings :: "string list" where
  "ws_encodings =
    [[CHR 0x09], [CHR 0x0A], [CHR 0x0B], [CHR 0x0C], [CHR 0x0D], [CHR 0x20],
     [CHR 0xC2, CHR 0x85], [CHR 0xC2, CHR 0xA0], [CHR 0xE1, CHR 0x9A, CHR 0x80],
     [CHR 0xE2, CHR 0x80, CHR 0x80], [CHR 0xE2, CHR 0x80, CHR 0x81],
     [CHR 0xE2, CHR 0x80, CHR 0x82], [CHR 0xE2, CHR 0x80, CHR 0x83],
     [CHR 0xE2, CHR 0x80, CHR 0x84], [CHR 0xE2, CHR 0x80, CHR 0x85],
     [CHR 0xE2, CHR 0x80, CHR 0x86], [CHR 0xE2, CHR 0x80, CHR 0x87],
     [CHR 0xE2, CHR 0x80, CHR 0x88], [CHR 0xE2, CHR 0x80, CHR 0x89],
     [CHR 0xE2, CHR 0x80, CHR 0x8A], [CHR 0xE2, CHR 0x80, CHR 0xA8],
     [CHR 0xE2, CHR 0x80, CHR 0xA9], [CHR 0xE2, CHR 0x80, CHR 0xAF],
     [CHR 0xE2, CHR 0x81, CHR 0x9F], [CHR 0xE3, CHR 0x80, CHR 0x80]]"

text \<open>The byte length of the white-space character a string starts with, 0 if none.\<close>

definition ws_len :: "string \<Rightarrow> nat" where
  "ws_len s = (case find (\<lambda>w. prefix w s) ws_encodings of None \<Rightarrow> 0 | Some w \<Rightarrow> length w)"

definition ws_len_end :: "string \<Rightarrow> nat" where
  "ws_len_end s = (case find (\<lambda>w. suffix w s) ws_encodings of None \<Rightarrow> 0 | Some w \<Rightarrow> length w)"

fun any_whitespace :: "string \<Rightarrow> bool" where
  "any_whitespace [] = False"
| "any_whitespace (c # s) = (0 < ws_len (c # s) \<or> any_whitespace s)"

function trim_start :: "string \<Rightarrow> string" where
  "trim_start s = (if ws_len s = 0 then s else trim_start (drop (ws_len s) s))"
  by pat_completeness auto

lemma ws_len_Nil [simp]: "ws_len [] = 0"
  by (simp add: ws_len_def ws_encodings_def)

termination trim_start
  by (relation "measure length") (auto simp: gr0_conv_Suc neq_Nil_conv intro!: diff_less)

function trim_end :: "string \<Rightarrow> string" where
  "trim_end s = (if ws_len_end s = 0 then s else trim_end (take (length s - ws_len_end s) s))"
  by pat_completeness auto

lemma ws_len_end_Nil [simp]: "ws_len_end [] = 0"
  by (simp add: ws_len_end_def ws_encodings_def)

termination trim_end
proof (relation "measure length")
  fix s :: string
  assume "ws_len_end s \<noteq> 0"
  moreover from this have "s \<noteq> []" by auto
  ultimately show "(take (length s - ws_len_end s) s, s) \<in> measure length" by simp
qed simp

declare trim_start.simps [simp del] trim_end.simps [simp del]

definition trim :: "string \<Rightarrow> string" where
  "trim s = trim_end (trim_start s)"

text \<open>\<open>str::split_whitespace\<close>: the words between runs of white space, \<open>acc\<close> being the
  reversed word read so far.\<close>

function split_ws :: "string \<Rightarrow> string \<Rightarrow> string list" where
  "split_ws acc [] = (if acc = [] then [] else [rev acc])"
| "split_ws acc (c # s) =
    (if ws_len (c # s) > 0
     then (if acc = [] then [] else [rev acc]) @ split_ws [] (drop (ws_len (c # s)) (c # s))
     else split_ws (c # acc) s)"
  by pat_completeness auto
termination by (relation "measure (\<lambda>(acc, s). length s)") auto

definition split_whitespace :: "string \<Rightarrow> string list" where
  "split_whitespace s = split_ws [] s"

lemma ws_len_pos_Cons: "0 < ws_len (c # s) \<Longrightarrow> any_whitespace (c # s)"
  by simp

lemma any_whitespace_append2: "any_whitespace t \<Longrightarrow> any_whitespace (s @ t)"
  by (induction s) auto

lemma ws_encodings_not_Nil: "w \<in> set ws_encodings \<Longrightarrow> w \<noteq> []"
  by (auto simp: ws_encodings_def)

lemma ws_len_pos: "w \<in> set ws_encodings \<Longrightarrow> prefix w s \<Longrightarrow> 0 < ws_len s"
  using ws_encodings_not_Nil
  by (fastforce simp: ws_len_def find_None_iff find_Some_iff split: option.splits)

lemma any_whitespace_prefix:
  assumes "w \<in> set ws_encodings" "prefix w s" shows "any_whitespace s"
proof -
  from assms have "s \<noteq> []" using ws_encodings_not_Nil by auto
  then show ?thesis using ws_len_pos [OF assms] by (cases s) auto
qed

lemma trim_no_whitespace: "\<not> any_whitespace s \<Longrightarrow> trim s = s"
proof -
  assume a: "\<not> any_whitespace s"
  have "ws_len s = 0" using a by (cases s) auto
  moreover have "ws_len_end s = 0"
  proof (rule ccontr)
    assume "ws_len_end s \<noteq> 0"
    then obtain w where "w \<in> set ws_encodings" "suffix w s"
      by (auto simp: ws_len_end_def find_Some_iff split: option.splits) (metis nth_mem)
    then have "any_whitespace s"
      by (auto simp: suffix_def intro: any_whitespace_append2 any_whitespace_prefix)
    with a show False by simp
  qed
  ultimately show ?thesis
    by (simp add: trim_def trim_start.simps [of s] trim_end.simps [of s])
qed

lemma any_whitespace_ascii:
  "c \<in> set s \<Longrightarrow> c \<in> {CHR 0x09, CHR 0x0A, CHR 0x0B, CHR 0x0C, CHR 0x0D, CHR 0x20} \<Longrightarrow>
    any_whitespace s"
proof -
  assume "c \<in> set s" and c: "c \<in> {CHR 0x09, CHR 0x0A, CHR 0x0B, CHR 0x0C, CHR 0x0D, CHR 0x20}"
  then obtain a b where s: "s = a @ c # b" by (auto simp: in_set_conv_decomp)
  have "[c] \<in> set ws_encodings" using c by (auto simp: ws_encodings_def)
  then have "any_whitespace (c # b)" by (rule any_whitespace_prefix) simp
  then show ?thesis by (simp only: s any_whitespace_append2)
qed

text \<open>Words of printable ASCII bytes between single spaces are read back.\<close>

definition is_graphic :: "char \<Rightarrow> bool" where
  "is_graphic c = (33 \<le> byte c \<and> byte c \<le> 126)"

definition graphic_word :: "string \<Rightarrow> bool" where
  "graphic_word w \<longleftrightarrow> w \<noteq> [] \<and> list_all is_graphic w"

lemma ws_encodings_heads: "list_all (\<lambda>w. w \<noteq> [] \<and> \<not> is_graphic (hd w)) ws_encodings"
  by code_simp

lemma ws_len_graphic: "is_graphic c \<Longrightarrow> ws_len (c # s) = 0"
proof -
  assume c: "is_graphic c"
  have "\<not> prefix w (c # s)" if "w \<in> set ws_encodings" for w
    using ws_encodings_heads that c by (cases w) (auto simp: list_all_iff)
  then show ?thesis by (auto simp: ws_len_def find_Some_iff split: option.splits)
qed

lemma ws_len_space: "ws_len (CHR '' '' # s) = 1"
proof -
  have "find (\<lambda>w. w \<noteq> [] \<and> hd w = CHR '' '') ws_encodings = Some '' ''" by code_simp
  moreover have "list_all (\<lambda>w. w \<noteq> [] \<and> (hd w = CHR '' '' \<longrightarrow> w = '' '')) ws_encodings" by code_simp
  then have "\<forall>w\<in>set ws_encodings. prefix w (CHR '' '' # s) = (w \<noteq> [] \<and> hd w = CHR '' '')"
    by (force simp: list_all_iff prefix_Cons)
  then have "find (\<lambda>w. prefix w (CHR '' '' # s)) ws_encodings
      = find (\<lambda>w. w \<noteq> [] \<and> hd w = CHR '' '') ws_encodings"
    by (intro find_cong) auto
  ultimately show ?thesis by (simp add: ws_len_def)
qed

lemma split_ws_graphic:
  "list_all is_graphic w \<Longrightarrow> split_ws acc (w @ s) = split_ws (rev w @ acc) s"
  by (induction w arbitrary: acc) (simp_all add: ws_len_graphic)

lemma split_whitespace_Cons:
  "graphic_word w \<Longrightarrow> split_whitespace (w @ CHR '' '' # s) = w # split_whitespace s"
  by (simp add: split_whitespace_def graphic_word_def split_ws_graphic ws_len_space)

lemma split_whitespace_single: "graphic_word w \<Longrightarrow> split_whitespace w = [w]"
  using split_ws_graphic [of w "[]" "[]"] by (simp add: split_whitespace_def graphic_word_def)

lemma split_whitespace_join:
  "\<forall>w\<in>set ws. graphic_word w \<Longrightarrow> split_whitespace (join_on CHR '' '' ws) = ws"
proof (induction ws)
  case (Cons w ws)
  then show ?case
    by (cases ws) (simp_all add: split_whitespace_single split_whitespace_Cons)
qed (simp add: split_whitespace_def)

text \<open>\<open>split_ascii_whitespace\<close> and \<open>char::is_control\<close> (the ASCII controls, \<open>U+007F\<close> and
  the block \<open>U+0080..U+009F\<close>, which UTF-8 writes \<open>C2 80 .. C2 9F\<close>).\<close>

definition is_ascii_whitespace :: "char \<Rightarrow> bool" where
  "is_ascii_whitespace c =
    (c = CHR '' '' \<or> c = TAB \<or> c = NL \<or> c = CHR 0x0C \<or> c = CR)"

fun split_by :: "('a \<Rightarrow> bool) \<Rightarrow> 'a list \<Rightarrow> 'a list list" where
  "split_by f [] = [[]]"
| "split_by f (c # s) =
    (if f c then [] # split_by f s
     else (case split_by f s of [] \<Rightarrow> [[c]] | p # ps \<Rightarrow> (c # p) # ps))"

definition split_ascii_whitespace :: "string \<Rightarrow> string list" where
  "split_ascii_whitespace s = filter (\<lambda>w. w \<noteq> []) (split_by is_ascii_whitespace s)"

text \<open>\<open>str::is_char_boundary\<close>.\<close>

definition is_char_boundary :: "string \<Rightarrow> nat \<Rightarrow> bool" where
  "is_char_boundary s n =
    (n = 0 \<or> n = length s \<or> (n < length s \<and> \<not> (128 \<le> byte (s ! n) \<and> byte (s ! n) < 192)))"

fun any_control :: "string \<Rightarrow> bool" where
  "any_control [] = False"
| "any_control (c # s) =
    (byte c < 32 \<or> byte c = 127
     \<or> (c = CHR 0xC2 \<and> (case s of [] \<Rightarrow> False | d # _ \<Rightarrow> 128 \<le> byte d \<and> byte d \<le> 159))
     \<or> any_control s)"

section \<open>Lines\<close>

text \<open>\<open>split_inclusive\<close> keeps the separator at the end of each piece; \<open>str_lines\<close> is
  \<open>str::lines\<close>: a carriage return goes only together with the newline after it.\<close>

fun split_inclusive :: "'a \<Rightarrow> 'a list \<Rightarrow> 'a list list" where
  "split_inclusive d [] = []"
| "split_inclusive d (c # s) =
    (if c = d then [d] # split_inclusive d s
     else (case split_inclusive d s of [] \<Rightarrow> [[c]] | p # ps \<Rightarrow> (c # p) # ps))"

definition strip_line_end :: "string \<Rightarrow> string" where
  "strip_line_end l =
    (case strip_suffix [NL] l of
      None \<Rightarrow> l
    | Some l' \<Rightarrow> (case strip_suffix [CR] l' of None \<Rightarrow> l' | Some l'' \<Rightarrow> l''))"

definition str_lines :: "string \<Rightarrow> string list" where
  "str_lines s = map strip_line_end (split_inclusive NL s)"

lemma concat_split_inclusive [simp]: "concat (split_inclusive d s) = s"
proof (induction s)
  case (Cons c s)
  then show ?case by (cases "split_inclusive d s") auto
qed simp

lemma split_inclusive_append:
  "d \<notin> set p \<Longrightarrow> split_inclusive d (p @ d # s) = (p @ [d]) # split_inclusive d s"
  by (induction p) auto

lemma split_inclusive_last: "d \<notin> set p \<Longrightarrow> p \<noteq> [] \<Longrightarrow> split_inclusive d p = [p]"
proof (induction p)
  case (Cons a p)
  then show ?case by (cases p) auto
qed simp

lemma split_inclusive_concat:
  "(\<And>p. p \<in> set ps \<Longrightarrow> d \<notin> set p) \<Longrightarrow>
    split_inclusive d (concat (map (\<lambda>p. p @ [d]) ps) @ s) = map (\<lambda>p. p @ [d]) ps @ split_inclusive d s"
  by (induction ps) (auto simp: split_inclusive_append)

section \<open>Decimal numbers\<close>

definition digit_value :: "char \<Rightarrow> nat" where
  "digit_value c = byte c - 48"

definition digits_value :: "string \<Rightarrow> nat" where
  "digits_value s = foldl (\<lambda>n c. 10 * n + digit_value c) 0 s"

text \<open>\<open>str::parse\<close> for an unsigned type with largest value \<open>m\<close>: an optional plus sign,
  at least one digit, and no overflow.\<close>

definition parse_unsigned :: "nat \<Rightarrow> string \<Rightarrow> nat option" where
  "parse_unsigned m s =
    (let t = (case s of [] \<Rightarrow> [] | c # r \<Rightarrow> if c = CHR ''+'' \<and> r \<noteq> [] then r else s) in
     if t \<noteq> [] \<and> list_all is_digit t \<and> digits_value t \<le> m then Some (digits_value t) else None)"

abbreviation U32_MAX :: nat where "U32_MAX \<equiv> 4294967295"
abbreviation U64_MAX :: nat where "U64_MAX \<equiv> 18446744073709551615"

fun show_nat :: "nat \<Rightarrow> string" where
  "show_nat n = (if n < 10 then [char_of (48 + n)] else show_nat (n div 10) @ [char_of (48 + n mod 10)])"

declare show_nat.simps [simp del]

lemma is_digit_char_of [simp]: "n < 10 \<Longrightarrow> is_digit (char_of (48 + n :: nat))"
  by (simp add: is_digit_def)

lemma show_nat_not_Nil [simp]: "show_nat n \<noteq> []"
  by (subst show_nat.simps) simp

lemma show_nat_digits: "c \<in> set (show_nat n) \<Longrightarrow> is_digit c"
proof (induction n arbitrary: c rule: show_nat.induct)
  case (1 n)
  then show ?case by (subst (asm) (2) show_nat.simps) (auto split: if_splits)
qed

lemma digits_value_snoc: "digits_value (s @ [c]) = 10 * digits_value s + digit_value c"
  by (simp add: digits_value_def)

lemma digits_value_show_nat [simp]: "digits_value (show_nat n) = n"
proof (induction n rule: show_nat.induct)
  case (1 n)
  show ?case
  proof (cases "n < 10")
    case True
    then show ?thesis by (subst show_nat.simps) (simp add: digits_value_def digit_value_def)
  next
    case False
    then show ?thesis using 1
      by (subst show_nat.simps) (simp add: digits_value_snoc digit_value_def)
  qed
qed

lemma parse_show_nat [simp]: "n \<le> m \<Longrightarrow> parse_unsigned m (show_nat n) = Some n"
proof -
  assume "n \<le> m"
  have "\<not> is_digit CHR ''+''" by (simp add: is_digit_def)
  then have "hd (show_nat n) \<noteq> CHR ''+''"
    using show_nat_digits [of "hd (show_nat n)" n] by auto
  then have "(case show_nat n of [] \<Rightarrow> [] | c # r \<Rightarrow> if c = CHR ''+'' \<and> r \<noteq> [] then r else show_nat n)
      = show_nat n"
    by (cases "show_nat n") auto
  then show ?thesis using \<open>n \<le> m\<close> show_nat_digits
    by (auto simp: parse_unsigned_def list_all_iff Let_def)
qed

lemma parse_unsigned_le: "parse_unsigned m s = Some n \<Longrightarrow> n \<le> m"
  by (auto simp: parse_unsigned_def Let_def split: if_splits)

end
