(* ===== verification/Rust_Path.thy ===== *)
theory Rust_Path
  imports Rust_Text
begin

text \<open>
  \<open>std::path::Path\<close> on Unix and \<open>String::from_utf8_lossy\<close>.  A path is its byte
  string; \<open>path_components\<close> is the iterator \<open>Path::components\<close>, \<open>path_join\<close> is
  \<open>Path::join\<close>.  \<open>resolve\<close> is the specification the safety results are stated against:
  the directory stack a path denotes when it is walked lexically.
\<close>

section \<open>Components\<close>

datatype path_component = RootDir | CurDir | ParentDir | Normal string

definition segment_component :: "string \<Rightarrow> path_component option" where
  "segment_component s =
    (if s = [] \<or> s = ''.'' then None
     else if s = ''..'' then Some ParentDir else Some (Normal s))"

definition path_is_absolute :: "string \<Rightarrow> bool" where
  "path_is_absolute p = starts_with p ''/''"

definition path_components :: "string \<Rightarrow> path_component list" where
  "path_components p =
    (let segments = split_on CHR ''/'' p;
         rest = List.map_filter segment_component segments
     in if path_is_absolute p then RootDir # rest
        else if hd segments = ''.'' then CurDir # rest else rest)"

definition path_join :: "string \<Rightarrow> string \<Rightarrow> string" where
  "path_join base p =
    (if path_is_absolute p then p
     else if base = [] \<or> ends_with base ''/'' then base @ p
     else base @ ''/'' @ p)"

definition starts_with_path :: "string \<Rightarrow> string \<Rightarrow> bool" where
  "starts_with_path p base = prefix (path_components base) (path_components p)"

text \<open>Lexical resolution: the stack of directory names a component list leads to.\<close>

fun resolve :: "path_component list \<Rightarrow> string list \<Rightarrow> string list" where
  "resolve [] st = st"
| "resolve (RootDir # cs) st = resolve cs []"
| "resolve (CurDir # cs) st = resolve cs st"
| "resolve (ParentDir # cs) st = resolve cs (butlast st)"
| "resolve (Normal s # cs) st = resolve cs (st @ [s])"

lemma resolve_append: "resolve (xs @ ys) st = resolve ys (resolve xs st)"
  by (induction xs st rule: resolve.induct) auto

lemma resolve_descends:
  "\<lbrakk>RootDir \<notin> set cs; ParentDir \<notin> set cs\<rbrakk> \<Longrightarrow> prefix st (resolve cs st)"
proof (induction cs st rule: resolve.induct)
  case (5 s cs st)
  then have "prefix (st @ [s]) (resolve cs (st @ [s]))" by simp
  then show ?case by (simp add: append_prefixD)
qed auto

lemma split_on_append_general:
  "split_on d (a @ d # b) = split_on d a @ split_on d b"
proof (induction a)
  case (Cons c a)
  then show ?case by (cases "split_on d a") auto
qed simp

lemma map_filter_append [simp]:
  "List.map_filter f (xs @ ys) = List.map_filter f xs @ List.map_filter f ys"
  by (induction xs) (auto simp: List.map_filter_def)

lemma segment_component_not_Root: "segment_component s \<noteq> Some RootDir"
  by (simp add: segment_component_def)

lemma path_components_join:
  assumes "path_is_absolute base" "\<not> path_is_absolute p"
  shows "path_components (path_join base p) =
    path_components base @ List.map_filter segment_component (split_on CHR ''/'' p)"
proof -
  have abs: "path_is_absolute (base @ t)" for t
    using assms(1) by (auto simp: path_is_absolute_def starts_with_iff)
  have ne: "base \<noteq> []" using assms(1) by (auto simp: path_is_absolute_def starts_with_iff)
  show ?thesis
  proof (cases "ends_with base ''/''")
    case True
    then obtain b where b: "base = b @ ''/''" by (auto simp: ends_with_def suffix_def)
    have "split_on CHR ''/'' (base @ p) = split_on CHR ''/'' b @ split_on CHR ''/'' p"
      by (simp add: b split_on_append_general)
    moreover have "split_on CHR ''/'' base = split_on CHR ''/'' b @ [[]]"
      by (simp add: b split_on_append_general)
    ultimately show ?thesis
      using True assms abs
      by (simp add: path_join_def path_components_def Let_def segment_component_def
          List.map_filter_def)
  next
    case False
    have "split_on CHR ''/'' (base @ CHR ''/'' # p) = split_on CHR ''/'' base @ split_on CHR ''/'' p"
      by (simp add: split_on_append_general)
    then show ?thesis
      using False ne assms abs
      by (simp add: path_join_def path_components_def Let_def)
  qed
qed

lemma path_components_filter:
  "c \<in> set (List.map_filter segment_component (split_on CHR ''/'' p)) \<Longrightarrow>
    c \<in> set (path_components p)"
  by (auto simp: path_components_def Let_def)

lemma map_filter_segments_no_Root:
  "RootDir \<notin> set (List.map_filter segment_component xs)"
  by (auto simp: List.map_filter_def segment_component_def split: if_splits)

text \<open>The directory names a path denotes after its \<open>..\<close> components are resolved.\<close>

definition directory_of :: "string \<Rightarrow> string list" where
  "directory_of p = resolve (path_components p) []"

text \<open>Joining a relative path without parent components to an absolute directory stays
  below that directory.\<close>

lemma join_stays_below:
  assumes "path_is_absolute base" "\<not> path_is_absolute p" "ParentDir \<notin> set (path_components p)"
  shows "prefix (resolve (path_components base) []) (resolve (path_components (path_join base p)) [])"
  using assms path_components_filter
  by (auto simp: path_components_join resolve_append intro!: resolve_descends
      dest: map_filter_segments_no_Root [THEN notE])

section \<open>Lossy UTF-8 decoding\<close>

definition in_range :: "nat \<Rightarrow> nat \<Rightarrow> char \<Rightarrow> bool" where
  "in_range lo hi c = (lo \<le> byte c \<and> byte c \<le> hi)"

text \<open>The continuation ranges of a multi-byte sequence, by its first byte.\<close>

definition utf8_tail :: "char \<Rightarrow> (nat \<times> nat) list option" where
  "utf8_tail c =
    (let b = byte c in
     if b < 0x80 then Some []
     else if 0xC2 \<le> b \<and> b \<le> 0xDF then Some [(0x80, 0xBF)]
     else if b = 0xE0 then Some [(0xA0, 0xBF), (0x80, 0xBF)]
     else if b = 0xED then Some [(0x80, 0x9F), (0x80, 0xBF)]
     else if 0xE1 \<le> b \<and> b \<le> 0xEF then Some [(0x80, 0xBF), (0x80, 0xBF)]
     else if b = 0xF0 then Some [(0x90, 0xBF), (0x80, 0xBF), (0x80, 0xBF)]
     else if 0xF1 \<le> b \<and> b \<le> 0xF3 then Some [(0x80, 0xBF), (0x80, 0xBF), (0x80, 0xBF)]
     else if b = 0xF4 then Some [(0x80, 0x8F), (0x80, 0xBF), (0x80, 0xBF)]
     else None)"

fun take_ranges :: "(nat \<times> nat) list \<Rightarrow> string \<Rightarrow> string \<times> bool" where
  "take_ranges [] s = ([], True)"
| "take_ranges (r # rs) [] = ([], False)"
| "take_ranges (r # rs) (c # s) =
    (if in_range (fst r) (snd r) c
     then (let (t, ok) = take_ranges rs s in (c # t, ok)) else ([], False))"

definition replacement_char :: string where
  "replacement_char = [CHR 0xEF, CHR 0xBF, CHR 0xBD]"

text \<open>\<open>from_utf8_lossy\<close>: each maximal invalid prefix becomes one replacement character.\<close>

function utf8_lossy :: "string \<Rightarrow> string" where
  "utf8_lossy [] = []"
| "utf8_lossy (c # s) =
    (case utf8_tail c of
      None \<Rightarrow> replacement_char @ utf8_lossy s
    | Some rs \<Rightarrow>
        (let (t, ok) = take_ranges rs s
         in (if ok then c # t else replacement_char) @ utf8_lossy (drop (length t) s)))"
  by pat_completeness auto
termination by (relation "measure length") auto

function is_utf8 :: "string \<Rightarrow> bool" where
  "is_utf8 [] = True"
| "is_utf8 (c # s) =
    (case utf8_tail c of
      None \<Rightarrow> False
    | Some rs \<Rightarrow>
        (let (t, ok) = take_ranges rs s in ok \<and> is_utf8 (drop (length t) s)))"
  by pat_completeness auto
termination by (relation "measure length") auto

lemma take_ranges_prefix: "take_ranges rs s = (t, ok) \<Longrightarrow> take (length t) s = t"
  by (induction rs s arbitrary: t ok rule: take_ranges.induct)
     (auto split: if_splits prod.splits)

lemma utf8_lossy_valid [simp]: "is_utf8 s \<Longrightarrow> utf8_lossy s = s"
proof (induction s rule: is_utf8.induct)
  case (2 c s)
  then obtain rs t where *: "utf8_tail c = Some rs" "take_ranges rs s = (t, True)"
      "is_utf8 (drop (length t) s)"
    by (auto split: option.splits prod.splits)
  with 2 have "utf8_lossy (drop (length t) s) = drop (length t) s" by simp
  moreover have "t @ drop (length t) s = s"
    using take_ranges_prefix [OF *(2)] by (metis append_take_drop_id)
  ultimately show ?case using * by simp
qed simp

lemma is_utf8_ascii: "(\<And>c. c \<in> set s \<Longrightarrow> byte c < 128) \<Longrightarrow> is_utf8 s"
  by (induction s) (auto simp: utf8_tail_def Let_def)

end
