(* ===== verification/Domain.thy ===== *)
theory Domain
  imports Rust_Path "HOL-Library.List_Lexorder"
begin

text \<open>
  \<open>crates/domain/src/lib.rs\<close>: the durable review records and their validation
  boundary.  Identifiers are UUIDs (\<open>128 word\<close>), time stamps are \<open>int\<close>; the BLAKE3 hash
  of a content fingerprint is a parameter (\<open>blake3\<close>, bytes to hex text) of the
  operations that build one.
\<close>

section \<open>Identifiers and simple values\<close>

type_synonym uuid = "128 word"
type_synonym timestamp = int

datatype WorkspaceId = WorkspaceId uuid
datatype RepositoryId = RepositoryId uuid
datatype ReviewSessionId = ReviewSessionId uuid
datatype ComparisonId = ComparisonId uuid
datatype ReviewFileId = ReviewFileId uuid
datatype AnnotationSetId = AnnotationSetId uuid
datatype AnnotationId = AnnotationId uuid
datatype PromptExportId = PromptExportId uuid
datatype PublicationId = PublicationId uuid

section \<open>Text of identifiers\<close>

definition hex_digit :: "nat \<Rightarrow> char" where
  "hex_digit n = char_of (if n < 10 then 48 + n else 87 + n)"

definition hex_digits :: "nat \<Rightarrow> nat \<Rightarrow> string" where
  "hex_digits w n = map (\<lambda>k. hex_digit (n div 16 ^ k mod 16)) (rev [0..<w])"

text \<open>\<open>Uuid\<close> prints five hyphenated groups of lower-case digits.\<close>

definition show_uuid :: "uuid \<Rightarrow> string" where
  "show_uuid u = (let h = hex_digits 32 (unat u) in
    take 8 h @ ''-'' @ take 4 (drop 8 h) @ ''-'' @ take 4 (drop 12 h) @ ''-'' @
    take 4 (drop 16 h) @ ''-'' @ drop 20 h)"

lemma hex_digit_inject: "hex_digit m = hex_digit n \<Longrightarrow> m < 16 \<Longrightarrow> n < 16 \<Longrightarrow> m = n"
  by (auto simp: hex_digit_def split: if_splits dest!: arg_cong [where f = "of_char :: char \<Rightarrow> nat"])

lemma hex_digits_Suc: "hex_digits (Suc w) n = hex_digit (n div 16 ^ w mod 16) # hex_digits w n"
  by (simp add: hex_digits_def)

lemma hex_digits_inject: "hex_digits w m = hex_digits w n \<Longrightarrow> m mod 16 ^ w = n mod 16 ^ w"
proof (induction w)
  case (Suc w)
  then have "m div 16 ^ w mod 16 = n div 16 ^ w mod 16" "m mod 16 ^ w = n mod 16 ^ w"
    using hex_digit_inject by (auto simp: hex_digits_Suc)
  then show ?case by (simp add: mod_mult2_eq mult.commute [of 16])
qed simp

lemma length_hex_digits [simp]: "length (hex_digits w n) = w"
  by (simp add: hex_digits_def)

lemma show_uuid_inject: "show_uuid u = show_uuid v \<longleftrightarrow> u = v"
proof
  let ?h = "\<lambda>u. hex_digits 32 (unat (u :: uuid))"
  assume "show_uuid u = show_uuid v"
  then have "take 8 (?h u) = take 8 (?h v)" "take 4 (drop 8 (?h u)) = take 4 (drop 8 (?h v))"
    "take 4 (drop 12 (?h u)) = take 4 (drop 12 (?h v))" "take 4 (drop 16 (?h u)) = take 4 (drop 16 (?h v))"
    "drop 20 (?h u) = drop 20 (?h v)"
    by (auto simp: show_uuid_def Let_def append_eq_append_conv)
  moreover have "h = take 8 h @ take 4 (drop 8 h) @ take 4 (drop 12 h) @ take 4 (drop 16 h) @ drop 20 h"
    for h :: string
    using append_take_drop_id [of 8 h] append_take_drop_id [of 4 "drop 8 h"] append_take_drop_id [of 4 "drop 12 h"]
      append_take_drop_id [of 4 "drop 16 h"] by (simp add: drop_drop)
  ultimately have "?h u = ?h v" by metis
  then have "unat u mod 16 ^ 32 = unat v mod 16 ^ 32" by (rule hex_digits_inject)
  moreover have "unat x < 16 ^ 32" for x :: uuid using unsigned_less [of x] by simp
  ultimately show "u = v" by (metis mod_less unsigned_word_eqI)
qed simp

fun show_repository_id :: "RepositoryId \<Rightarrow> string" where
  "show_repository_id (RepositoryId u) = show_uuid u"

fun show_annotation_id :: "AnnotationId \<Rightarrow> string" where
  "show_annotation_id (AnnotationId u) = show_uuid u"

fun show_session_id :: "ReviewSessionId \<Rightarrow> string" where
  "show_session_id (ReviewSessionId u) = show_uuid u"

fun annotation_uuid :: "AnnotationId \<Rightarrow> uuid" where
  "annotation_uuid (AnnotationId u) = u"

fun show_comparison_id :: "ComparisonId \<Rightarrow> string" where
  "show_comparison_id (ComparisonId u) = show_uuid u"

fun show_file_id :: "ReviewFileId \<Rightarrow> string" where
  "show_file_id (ReviewFileId u) = show_uuid u"

section \<open>Paths and references\<close>

datatype StoredPath = StoredPath (path_str: string)

definition StoredPath_new :: "string \<Rightarrow> StoredPath" where
  "StoredPath_new p = StoredPath (utf8_lossy p)"

text \<open>The derived order of paths is the order of their bytes.\<close>

instantiation StoredPath :: linorder
begin

definition less_eq_StoredPath :: "StoredPath \<Rightarrow> StoredPath \<Rightarrow> bool" where
  "less_eq_StoredPath p q = (path_str p \<le> path_str q)"

definition less_StoredPath :: "StoredPath \<Rightarrow> StoredPath \<Rightarrow> bool" where
  "less_StoredPath p q = (path_str p < path_str q)"

instance
  by standard (auto simp: less_eq_StoredPath_def less_StoredPath_def StoredPath.expand)

end

definition stored_is_absolute :: "StoredPath \<Rightarrow> bool" where
  "stored_is_absolute p = path_is_absolute (path_str p)"

datatype BaseReference = BaseReference (base_str: string)
datatype GitSha = GitSha (sha_str: string)
datatype ContentFingerprint = ContentFingerprint (fingerprint_str: string)

datatype DomainError =
    InvalidBaseReference
  | InvalidGitSha
  | InvalidLineRange
  | InvalidComparisonPathFilter StoredPath
  | TooManyComparisonPathFilters nat

section \<open>Workspaces and repositories\<close>

datatype WorkspaceSource =
    LocalDirectory StoredPath
  | PullRequest string string string nat StoredPath
  | RemoteDirectory string StoredPath
  | RemotePullRequest string string string string nat StoredPath

datatype WorkspaceSourceTag = TagGitHub | TagLocal | TagSsh

fun source_tags :: "WorkspaceSource \<Rightarrow> WorkspaceSourceTag list" where
  "source_tags (LocalDirectory _) = [TagLocal]"
| "source_tags (PullRequest _ _ _ _ _) = [TagGitHub]"
| "source_tags (RemoteDirectory _ _) = [TagSsh]"
| "source_tags (RemotePullRequest _ _ _ _ _ _) = [TagGitHub, TagSsh]"

fun source_root :: "WorkspaceSource \<Rightarrow> StoredPath" where
  "source_root (LocalDirectory root) = root"
| "source_root (RemoteDirectory _ root) = root"
| "source_root (RemotePullRequest _ _ _ _ _ root) = root"
| "source_root (PullRequest _ _ _ _ worktree) = worktree"

record Workspace =
  workspace_id :: WorkspaceId
  workspace_display_name :: string
  workspace_source :: WorkspaceSource
  workspace_default_base :: BaseReference
  workspace_pinned :: bool
  workspace_archived_at :: "timestamp option"
  workspace_created_at :: timestamp
  workspace_updated_at :: timestamp

datatype HeadState = Branch string | Detached GitSha | Unborn

record Repository =
  repository_id :: RepositoryId
  repository_workspace_id :: WorkspaceId
  repository_relative_path :: StoredPath
  repository_worktree_path :: StoredPath
  repository_git_common_dir :: "StoredPath option"
  repository_primary_remote :: "string option"
  repository_enabled :: bool
  repository_base_override :: "BaseReference option"
  repository_current_branch :: HeadState
  repository_last_base_sha :: "GitSha option"
  repository_last_fetch_at :: "timestamp option"
  repository_last_fetch_error :: "string option"
  repository_discovery_error :: "string option"
  repository_comparison_error :: "string option"

section \<open>Validated values\<close>

definition DEFAULT_BASE :: string where
  "DEFAULT_BASE = ''origin/master''"

abbreviation AT_BRACE :: string where "AT_BRACE \<equiv> [CHR 0x40, CHR 0x7B]"

definition revision_special :: "char \<Rightarrow> bool" where
  "revision_special c =
    (c = CHR ''~'' \<or> c = CHR ''^'' \<or> c = CHR '':'' \<or> c = BACKSLASH \<or> c = CHR ''?''
      \<or> c = CHR ''*'' \<or> c = CHR ''['')"

definition BaseReference_new :: "string \<Rightarrow> DomainError + BaseReference" where
  "BaseReference_new value =
    (if trim value = []
        \<or> length value > 512
        \<or> starts_with value ''-''
        \<or> contains_char value NUL
        \<or> contains_str value ''..''
        \<or> ends_with value ''.''
        \<or> contains_str value AT_BRACE
        \<or> (any_whitespace value \<or> list_ex revision_special value)
     then Inl InvalidBaseReference
     else Inr (BaseReference value))"

definition BaseReference_default :: BaseReference where
  "BaseReference_default = BaseReference DEFAULT_BASE"

definition GitSha_new :: "string \<Rightarrow> DomainError + GitSha" where
  "GitSha_new value =
    (if 7 \<le> length value \<and> length value \<le> 64 \<and> list_all is_hexdigit value
     then Inr (GitSha (to_ascii_lowercase value))
     else Inl InvalidGitSha)"

section \<open>Comparison options\<close>

record ComparisonOptions =
  ignore_all_whitespace :: bool
  ignore_space_at_eol :: bool
  ignore_cr_at_eol :: bool
  path_filters :: "StoredPath list"

datatype WhitespaceComparisonMode = Exact | IgnoreAll | IgnoreSpaceAtEol
datatype LineEndingComparisonMode = Respect | IgnoreCarriageReturnAtEol

definition whitespace_mode :: "ComparisonOptions \<Rightarrow> WhitespaceComparisonMode" where
  "whitespace_mode opts =
    (if ignore_all_whitespace opts then IgnoreAll
     else if ignore_space_at_eol opts then IgnoreSpaceAtEol else Exact)"

definition line_ending_mode :: "ComparisonOptions \<Rightarrow> LineEndingComparisonMode" where
  "line_ending_mode opts =
    (if ignore_cr_at_eol opts then IgnoreCarriageReturnAtEol else Respect)"

record ReviewFileClassification =
  class_generated :: bool
  class_vendored :: bool
  class_lockfile :: bool
  class_binary :: bool
  class_lfs_pointer :: bool
  class_submodule :: bool

definition requires_non_text_presentation :: "ReviewFileClassification \<Rightarrow> bool" where
  "requires_non_text_presentation c = (class_binary c \<or> class_lfs_pointer c \<or> class_submodule c)"

definition has_review_attention_hint :: "ReviewFileClassification \<Rightarrow> bool" where
  "has_review_attention_hint c =
    (class_generated c \<or> class_vendored c \<or> class_lockfile c \<or> requires_non_text_presentation c)"

definition MAX_PATH_FILTERS :: nat where
  "MAX_PATH_FILTERS = 2048"

definition is_safe_repository_relative_path :: "StoredPath \<Rightarrow> bool" where
  "is_safe_repository_relative_path path =
    (path_str path \<noteq> []
      \<and> \<not> contains_char (path_str path) NUL
      \<and> \<not> starts_with (path_str path) '':''
      \<and> \<not> path_is_absolute (path_str path)
      \<and> \<not> list_ex (\<lambda>c. c = ParentDir \<or> c = RootDir) (path_components (path_str path)))"

definition validate_comparison_options :: "ComparisonOptions \<Rightarrow> DomainError + unit" where
  "validate_comparison_options opts =
    (if length (path_filters opts) > MAX_PATH_FILTERS
     then Inl (TooManyComparisonPathFilters MAX_PATH_FILTERS)
     else check_all
       (\<lambda>path. ensure (is_safe_repository_relative_path path) (InvalidComparisonPathFilter path))
       (path_filters opts))"

section \<open>Baselines and comparisons\<close>

datatype BaselineSource =
    TemporaryReviewOverride | RepositoryOverride | WorkspaceDefault | ApplicationDefault

record ResolvedBaseline =
  baseline_reference :: BaseReference
  baseline_source :: BaselineSource

record BaselineRequest =
  application_default :: BaseReference
  workspace_default :: "BaseReference option"
  repository_override :: "BaseReference option"
  temporary_override :: "BaseReference option"

definition effective_baseline :: "BaselineRequest \<Rightarrow> ResolvedBaseline" where
  "effective_baseline r =
    (case temporary_override r of
      Some reference \<Rightarrow>
        \<lparr>baseline_reference = reference, baseline_source = TemporaryReviewOverride\<rparr>
    | None \<Rightarrow> (case repository_override r of
        Some reference \<Rightarrow>
          \<lparr>baseline_reference = reference, baseline_source = RepositoryOverride\<rparr>
      | None \<Rightarrow> (case workspace_default r of
          Some reference \<Rightarrow>
            \<lparr>baseline_reference = reference, baseline_source = WorkspaceDefault\<rparr>
        | None \<Rightarrow>
            \<lparr>baseline_reference = application_default r, baseline_source = ApplicationDefault\<rparr>)))"

record ComparisonRequest =
  request_id :: ComparisonId
  request_repository_id :: RepositoryId
  request_base :: ResolvedBaseline
  request_options :: ComparisonOptions
  request_captured_at :: timestamp

record UntrackedFile =
  untracked_path :: StoredPath
  untracked_fingerprint :: ContentFingerprint
  untracked_byte_len :: nat
  untracked_binary :: bool

record RepositoryComparison =
  comparison_id :: ComparisonId
  comparison_repository_id :: RepositoryId
  comparison_requested_base :: BaseReference
  comparison_base_tip_sha :: GitSha
  comparison_merge_base_sha :: GitSha
  comparison_head_sha :: "GitSha option"
  comparison_head :: HeadState
  comparison_index_fingerprint :: ContentFingerprint
  comparison_working_tree_fingerprint :: ContentFingerprint
  comparison_untracked_files :: "UntrackedFile list"
  comparison_options :: ComparisonOptions
  comparison_captured_at :: timestamp

definition fingerprint_from_bytes :: "(string \<Rightarrow> string) \<Rightarrow> string \<Rightarrow> ContentFingerprint" where
  "fingerprint_from_bytes blake3 value = ContentFingerprint (blake3 value)"

section \<open>Sessions, anchors and annotations\<close>

datatype ReviewSessionStatus = SessionActive | SessionArchived | SessionCompleted

record ReviewSession =
  session_id :: ReviewSessionId
  session_workspace_id :: WorkspaceId
  session_status :: ReviewSessionStatus
  session_started_at :: timestamp
  session_refreshed_at :: "timestamp option"
  session_archived_at :: "timestamp option"
  session_completed_at :: "timestamp option"

datatype DiffSide = Old | New
datatype AnnotationKind = Comment | Question | Suggestion | FileNote | ReviewNote
datatype AnnotationState = Open | Resolved | Deleted
datatype PublicationState = LocalOnly | IncludedInNextReview | Published

definition actionable :: "AnnotationKind \<Rightarrow> bool" where
  "actionable k = (k = Comment \<or> k = Suggestion)"

record AnnotationAnchor =
  anchor_comparison_id :: ComparisonId
  anchor_repository_id :: RepositoryId
  anchor_file_path :: StoredPath
  anchor_old_path :: "StoredPath option"
  anchor_side :: "DiffSide option"
  anchor_start_line :: "nat option"
  anchor_end_line :: "nat option"
  anchor_selected_source :: string
  anchor_surrounding_context :: string
  anchor_fingerprint :: ContentFingerprint
  anchor_outdated :: bool

record LineAnchorInput =
  input_comparison_id :: ComparisonId
  input_repository_id :: RepositoryId
  input_file_path :: StoredPath
  input_side :: DiffSide
  input_start_line :: nat
  input_end_line :: nat
  input_selected_source :: string
  input_surrounding_context :: string

definition show_side :: "DiffSide \<Rightarrow> string" where
  "show_side s = (case s of Old \<Rightarrow> ''Old'' | New \<Rightarrow> ''New'')"

definition file_seed :: "StoredPath \<Rightarrow> string" where
  "file_seed path = path_str path @ [NUL] @ ''file''"

definition line_seed :: "LineAnchorInput \<Rightarrow> string" where
  "line_seed i =
    path_str (input_file_path i) @ [NUL] @ show_side (input_side i) @ [NUL] @
    show_nat (input_start_line i) @ [NUL] @ show_nat (input_end_line i) @ [NUL] @
    input_selected_source i @ [NUL] @ input_surrounding_context i"

definition anchor_from_file ::
  "(string \<Rightarrow> string) \<Rightarrow> ComparisonId \<Rightarrow> RepositoryId \<Rightarrow> StoredPath \<Rightarrow> AnnotationAnchor" where
  "anchor_from_file blake3 comparison repository path =
    \<lparr>anchor_comparison_id = comparison, anchor_repository_id = repository,
     anchor_file_path = path, anchor_old_path = None, anchor_side = None,
     anchor_start_line = None, anchor_end_line = None, anchor_selected_source = [],
     anchor_surrounding_context = [],
     anchor_fingerprint = fingerprint_from_bytes blake3 (file_seed path),
     anchor_outdated = False\<rparr>"

definition anchor_from_line ::
  "(string \<Rightarrow> string) \<Rightarrow> LineAnchorInput \<Rightarrow> DomainError + AnnotationAnchor" where
  "anchor_from_line blake3 i =
    (if input_start_line i = 0 \<or> input_end_line i < input_start_line i
     then Inl InvalidLineRange
     else Inr
       \<lparr>anchor_comparison_id = input_comparison_id i,
        anchor_repository_id = input_repository_id i,
        anchor_file_path = input_file_path i, anchor_old_path = None,
        anchor_side = Some (input_side i),
        anchor_start_line = Some (input_start_line i),
        anchor_end_line = Some (input_end_line i),
        anchor_selected_source = input_selected_source i,
        anchor_surrounding_context = input_surrounding_context i,
        anchor_fingerprint = fingerprint_from_bytes blake3 (line_seed i),
        anchor_outdated = False\<rparr>)"

record Annotation =
  annotation_id :: AnnotationId
  annotation_set :: AnnotationSetId
  annotation_kind :: AnnotationKind
  annotation_state :: AnnotationState
  annotation_publication :: PublicationState
  annotation_labels :: "string list"
  annotation_body :: string
  annotation_anchor :: "AnnotationAnchor option"
  annotation_created_at :: timestamp
  annotation_updated_at :: timestamp

record AnnotationSet =
  set_id :: AnnotationSetId
  set_review_session :: ReviewSessionId
  set_sequence :: nat
  set_active :: bool
  set_archived_at :: "timestamp option"
  set_created_at :: timestamp

datatype PromptScope =
    AllActionable
  | AllQuestions
  | CommentsAndQuestions
  | Selected "AnnotationId list"
  | FocusedQuestion AnnotationId

record PromptExportRecord =
  export_id :: PromptExportId
  export_review_session :: ReviewSessionId
  export_set :: AnnotationSetId
  export_sets :: "AnnotationSetId list"
  export_scope :: PromptScope
  export_annotation_ids :: "AnnotationId list"
  export_template_version :: nat
  export_markdown :: "string option"
  export_title :: "string option"
  export_annotation_count :: "nat option"
  export_estimated_tokens :: "nat option"
  export_created_at :: timestamp

end
