(* ===== verification/Protocol_Text.thy ===== *)
theory Protocol_Text
  imports Domain
begin

text \<open>
  The validators of \<open>crates/protocol/src/local.rs\<close>, the protocol's error type and its
  size limits (\<open>crates/protocol/src/lib.rs\<close>).  Each validator returns
  \<open>ProtocolError + unit\<close>; error texts are the source's format strings.
\<close>

definition PROTOCOL_VERSION :: nat where "PROTOCOL_VERSION = 5"
definition MAX_FRAME_BYTES :: nat where "MAX_FRAME_BYTES = 8 * 1024 * 1024"
definition MAX_UNCOMPRESSED_FRAME_BYTES :: nat where
  "MAX_UNCOMPRESSED_FRAME_BYTES = 32 * 1024 * 1024"
definition FRAME_COMPRESSION_THRESHOLD_BYTES :: nat where
  "FRAME_COMPRESSION_THRESHOLD_BYTES = 64 * 1024"

datatype ProtocolError =
    UnsupportedVersion nat nat
  | InvalidInput string
  | AuthenticationFailed
  | FrameTooLarge nat
  | MalformedFrame string
  | Compression string
  | ProtocolIo string
  | ProtocolSerialization string

datatype RpcErrorCode =
    RpcAuthenticationFailed | RpcInvalidRequest | RpcNotFound
  | RpcUnsupportedVersion | RpcUnavailable | RpcInternal

definition validate_text :: "string \<Rightarrow> string \<Rightarrow> nat \<Rightarrow> ProtocolError + unit" where
  "validate_text value label max_bytes =
    (if value = [] then Inl (InvalidInput (label @ '' cannot be empty''))
     else if length value > max_bytes
       then Inl (InvalidInput (label @ '' exceeds '' @ show_nat max_bytes @ '' bytes''))
     else if contains_char value NUL then Inl (InvalidInput (label @ '' contains NUL''))
     else Inr ())"

definition identifier_byte :: "char \<Rightarrow> bool" where
  "identifier_byte c = (is_alnum c \<or> c = CHR ''-'' \<or> c = CHR ''_'' \<or> c = CHR ''.'')"

definition validate_identifier :: "string \<Rightarrow> string \<Rightarrow> ProtocolError + unit" where
  "validate_identifier value label =
    vthen (validate_text value label 128)
      (ensure (list_all identifier_byte value)
        (InvalidInput (label @ '' contains unsupported characters'')))"

definition validate_path :: "string \<Rightarrow> string \<Rightarrow> ProtocolError + unit" where
  "validate_path value label =
    vthen (validate_text value label 4096)
      (if contains_char value NUL then Inl (InvalidInput (label @ '' contains NUL'')) else Inr ())"

definition validate_relative_path :: "string \<Rightarrow> ProtocolError + unit" where
  "validate_relative_path value =
    vthen (validate_path value ''repository relative path'')
      (if starts_with value ''/''
          \<or> value = ''.''
          \<or> list_ex (\<lambda>segment. segment = ''..'') (split_on CHR ''/'' value)
          \<or> list_ex (\<lambda>segment. segment = ''..'') (split_on BACKSLASH value)
       then Inl (InvalidInput ''repository relative path must stay beneath its workspace'')
       else Inr ())"

definition validate_ref :: "string \<Rightarrow> string \<Rightarrow> ProtocolError + unit" where
  "validate_ref value label =
    vthen (validate_text value label 512)
      (if starts_with value ''-''
          \<or> contains_char value NUL
          \<or> contains_str value ''..''
          \<or> ends_with value ''.''
          \<or> contains_str value AT_BRACE
          \<or> contains_char value CHR '' ''
          \<or> contains_char value CHR ''~''
          \<or> contains_char value CHR ''^''
          \<or> contains_char value CHR '':''
          \<or> contains_char value BACKSLASH
          \<or> contains_char value CHR ''?''
          \<or> contains_char value CHR ''*''
          \<or> contains_char value CHR ''[''
       then Inl (InvalidInput (label @ '' is not a safe Git revision''))
       else Inr ())"

definition validate_github_pr_url :: "string \<Rightarrow> ProtocolError + unit" where
  "validate_github_pr_url value =
    vthen (validate_text value ''GitHub pull request URL'' 2048)
      (case strip_prefix ''https://github.com/'' (trim value) of
        None \<Rightarrow> Inl (InvalidInput ''pull request URL must use https://github.com'')
      | Some rest \<Rightarrow>
          (let path = trim_end_char CHR ''/''
                 (case split_once_any ''?#'' rest of None \<Rightarrow> rest | Some (path, _) \<Rightarrow> path);
               parts = split_on CHR ''/'' path
           in if length parts < 4
                 \<or> parts ! 0 = []
                 \<or> parts ! 1 = []
                 \<or> parts ! 2 \<noteq> ''pull''
                 \<or> (case parse_unsigned U64_MAX (parts ! 3) of None \<Rightarrow> True | Some n \<Rightarrow> n = 0)
              then Inl (InvalidInput
                ''pull request URL must be github.com/<owner>/<repo>/pull/<number>'')
              else Inr ()))"

definition unsafe_host_byte :: "char \<Rightarrow> bool" where
  "unsafe_host_byte c =
    (is_ascii_whitespace c \<or> c = NUL \<or> c = CHR ''/'' \<or> c = CHR '';'' \<or> c = CHR ''|'' \<or> c = CHR ''&'')"

definition validate_ssh_target :: "string \<Rightarrow> ProtocolError + unit" where
  "validate_ssh_target value =
    vthen (validate_text value ''SSH workspace target'' 4096)
      (case split_once CHR '':'' value of
        None \<Rightarrow> Inl (InvalidInput ''SSH target must be host:/absolute/path'')
      | Some (host, path) \<Rightarrow>
          if host = [] \<or> length path < 2 \<or> \<not> starts_with path ''/'' \<or> list_ex unsafe_host_byte host
          then Inl (InvalidInput ''SSH target must be a safe host:/absolute/path value'')
          else Inr ())"

section \<open>What the validators accept\<close>

lemma validate_text_Ok [valid_simps]:
  "validate_text v l m = Inr u \<longleftrightarrow> v \<noteq> [] \<and> length v \<le> m \<and> NUL \<notin> set v"
  by (auto simp: validate_text_def)

lemma validate_identifier_Ok [valid_simps]:
  "validate_identifier v l = Inr u \<longleftrightarrow>
    v \<noteq> [] \<and> length v \<le> 128 \<and> NUL \<notin> set v \<and> (\<forall>c\<in>set v. identifier_byte c)"
  by (auto simp: validate_identifier_def valid_simps list_all_iff)

lemma validate_path_Ok [valid_simps]:
  "validate_path v l = Inr u \<longleftrightarrow> v \<noteq> [] \<and> length v \<le> 4096 \<and> NUL \<notin> set v"
  by (auto simp: validate_path_def valid_simps)

lemma validate_relative_path_Ok [valid_simps]:
  "validate_relative_path v = Inr u \<longleftrightarrow>
    v \<noteq> [] \<and> length v \<le> 4096 \<and> NUL \<notin> set v \<and> \<not> path_is_absolute v \<and> v \<noteq> ''.'' \<and>
    ''..'' \<notin> set (split_on CHR ''/'' v) \<and> ''..'' \<notin> set (split_on BACKSLASH v)"
  by (auto simp: validate_relative_path_def valid_simps list_ex_iff path_is_absolute_def)

definition ref_ok :: "string \<Rightarrow> bool" where
  "ref_ok v \<longleftrightarrow>
    v \<noteq> [] \<and> length v \<le> 512 \<and> NUL \<notin> set v \<and> \<not> starts_with v ''-'' \<and> \<not> contains_str v ''..'' \<and>
    \<not> ends_with v ''.'' \<and> \<not> contains_str v AT_BRACE \<and> CHR '' '' \<notin> set v \<and>
    (\<forall>c\<in>set v. \<not> revision_special c)"

lemma validate_ref_Ok [valid_simps]: "validate_ref v l = Inr u \<longleftrightarrow> ref_ok v"
  unfolding validate_ref_def revision_special_def ref_ok_def
  by (auto simp: valid_simps split: if_splits)

lemma validate_ssh_target_Ok [valid_simps]:
  "validate_ssh_target v = Inr u \<longleftrightarrow>
    length v \<le> 4096 \<and> NUL \<notin> set v \<and>
    (\<exists>host path. v = host @ '':/'' @ path \<and> CHR '':'' \<notin> set host \<and> host \<noteq> [] \<and> path \<noteq> [] \<and>
      (\<forall>c\<in>set host. \<not> unsafe_host_byte c))"
proof (cases "split_once CHR '':'' v")
  case None
  then have "CHR '':'' \<notin> set v" by (simp add: split_once_eq_None)
  moreover have "validate_ssh_target v \<noteq> Inr u"
    using None by (simp add: validate_ssh_target_def)
  ultimately show ?thesis by auto
next
  case (Some ab)
  obtain host path where ab: "ab = (host, path)" by (cases ab)
  with Some have v: "v = host @ CHR '':'' # path" "CHR '':'' \<notin> set host"
    by (simp_all add: split_once_eq_Some)
  have "(\<exists>h p. v = h @ '':/'' @ p \<and> CHR '':'' \<notin> set h \<and> h \<noteq> [] \<and> p \<noteq> [] \<and>
      (\<forall>c\<in>set h. \<not> unsafe_host_byte c)) \<longleftrightarrow>
    (\<exists>p. path = CHR ''/'' # p \<and> p \<noteq> []) \<and> host \<noteq> [] \<and> (\<forall>c\<in>set host. \<not> unsafe_host_byte c)"
    (is "?L = ?R")
  proof
    assume ?L
    then obtain h p where hp: "v = h @ CHR '':'' # (CHR ''/'' # p)" "CHR '':'' \<notin> set h" "h \<noteq> []"
      "p \<noteq> []" "\<forall>c\<in>set h. \<not> unsafe_host_byte c" by auto
    then have "split_once CHR '':'' v = Some (h, CHR ''/'' # p)"
      by (simp add: split_once_eq_Some)
    with Some ab hp show ?R by auto
  qed (use v in auto)
  then show ?thesis using Some ab v
    by (cases path; cases "tl path")
       (auto simp: validate_ssh_target_def valid_simps list_ex_iff starts_with_iff)
qed

lemma dotdot_segment:
  "ParentDir \<in> set (path_components v) \<longleftrightarrow> ''..'' \<in> set (split_on CHR ''/'' v)"
  by (auto simp: path_components_def Let_def List.map_filter_def segment_component_def
      split: if_splits)

lemma rootdir_absolute: "RootDir \<in> set (path_components v) \<longleftrightarrow> path_is_absolute v"
  using map_filter_segments_no_Root by (auto simp: path_components_def Let_def)

lemma safe_path_iff:
  "is_safe_repository_relative_path p \<longleftrightarrow>
    path_str p \<noteq> [] \<and> NUL \<notin> set (path_str p) \<and> \<not> starts_with (path_str p) '':'' \<and>
    \<not> path_is_absolute (path_str p) \<and> ''..'' \<notin> set (split_on CHR ''/'' (path_str p))"
  by (auto simp: is_safe_repository_relative_path_def list_ex_iff simp flip: dotdot_segment
      simp add: rootdir_absolute)

end
