(* ===== verification/Protocol_Local.thy ===== *)
theory Protocol_Local
  imports Protocol_Text
begin

text \<open>
  \<open>crates/protocol/src/local.rs\<close>: the closed command set of the local desktop endpoint,
  its validation, and the request and response envelopes.  The HMAC proof and the JSON
  value type belong to other crates and are type parameters (\<open>'proof\<close>, \<open>'json\<close>).
\<close>

record RepositoryBaseOverride =
  override_relative_path :: string
  override_base :: string

record ProgrammaticRepositoryBase =
  pbase_repository_id :: "string option"
  pbase_relative_path :: "string option"
  pbase_base :: "string option"

record ProgrammaticAnnotation =
  pann_id :: "string option"
  pann_file_id :: string
  pann_kind :: string
  pann_side :: string
  pann_start_line :: nat
  pann_end_line :: nat
  pann_body :: string
  pann_labels :: "string list"
  pann_local_only :: bool

definition default_diff_mode :: string where "default_diff_mode = ''unified''"
definition default_annotation_side :: string where "default_annotation_side = ''new''"
definition default_true :: bool where "default_true = True"
definition default_symbol_kind :: string where "default_symbol_kind = ''all''"

datatype ProgrammaticOperation =
    ShowWorkspace string
  | ListArchivedWorkspaces
  | ReopenArchivedWorkspace string
  | LoadReview string
  | ReviewFiles string
  | ListAnnotations string
  | ReviewRows string string
  | ReviewHunks string
  | RepositorySetup string
  | ConfigureBaselines string "string option" "ProgrammaticRepositoryBase list"
  | SetRepositoryInclusion string "string list" bool
  | StartReview string bool
  | RefreshReview string bool
  | AddAnnotation string ProgrammaticAnnotation
  | DeleteAnnotation string string
  | SetAnnotationState string string string
  | MarkFileViewed string string bool
  | QuerySymbols string string string string "nat option"
  | GeneratePrompt string string "string list" "string option" bool bool "string option"
  | ReviewHistory string
  | ArchiveWorkspace string string
  | DeleteWorkspace string string
  | GithubInspect string
  | GithubPreviewReview string "string list" string string
  | GithubSubmitReview string string bool
  | SshStatus string bool
  | EffectiveSettings string

datatype LocalCommand =
    OpenWorkspace string "string option" "RepositoryBaseOverride list"
  | FocusWorkspace string
  | OpenPullRequest string
  | OpenSshWorkspace string
  | ListWorkspaces
  | Doctor
  | Programmatic ProgrammaticOperation

abbreviation v_workspace :: "string \<Rightarrow> ProtocolError + unit" where
  "v_workspace value \<equiv> validate_identifier value ''workspace id''"
abbreviation v_repository :: "string \<Rightarrow> ProtocolError + unit" where
  "v_repository value \<equiv> validate_identifier value ''repository id''"
abbreviation v_file :: "string \<Rightarrow> ProtocolError + unit" where
  "v_file value \<equiv> validate_identifier value ''file id''"

definition validate_repository_base :: "ProgrammaticRepositoryBase \<Rightarrow> ProtocolError + unit" where
  "validate_repository_base item =
    vthen (check_opt v_repository (pbase_repository_id item))
    (vthen (check_opt validate_relative_path (pbase_relative_path item))
    (vthen (ensure (\<not> (pbase_repository_id item = None \<and> pbase_relative_path item = None))
       (InvalidInput ''repository base requires repositoryId or relativePath''))
    (check_opt (\<lambda>base. validate_ref base ''repository base'') (pbase_base item))))"

definition validate_annotation :: "ProgrammaticAnnotation \<Rightarrow> ProtocolError + unit" where
  "validate_annotation annotation =
    vthen (v_file (pann_file_id annotation))
    (vthen (validate_text (pann_kind annotation) ''annotation kind'' 32)
    (vthen (validate_text (pann_side annotation) ''annotation side'' 8)
    (vthen (validate_text (pann_body annotation) ''annotation body'' (1024 * 1024))
    (vthen (ensure (length (pann_labels annotation) \<le> 100)
       (InvalidInput ''annotation may contain at most 100 labels''))
    (vthen (check_all (\<lambda>label. validate_text label ''annotation label'' 128) (pann_labels annotation))
    (check_opt (\<lambda>id. validate_identifier id ''annotation id'') (pann_id annotation)))))))"

fun validate_operation :: "ProgrammaticOperation \<Rightarrow> ProtocolError + unit" where
  "validate_operation (ShowWorkspace selector) = validate_text selector ''workspace selector'' 256"
| "validate_operation ListArchivedWorkspaces = Inr ()"
| "validate_operation (ReopenArchivedWorkspace w) = v_workspace w"
| "validate_operation (LoadReview w) = v_workspace w"
| "validate_operation (ReviewFiles w) = v_workspace w"
| "validate_operation (ListAnnotations w) = v_workspace w"
| "validate_operation (RepositorySetup w) = v_workspace w"
| "validate_operation (StartReview w _) = v_workspace w"
| "validate_operation (RefreshReview w _) = v_workspace w"
| "validate_operation (ReviewHistory w) = v_workspace w"
| "validate_operation (ArchiveWorkspace w _) = v_workspace w"
| "validate_operation (DeleteWorkspace w _) = v_workspace w"
| "validate_operation (GithubInspect w) = v_workspace w"
| "validate_operation (GithubSubmitReview w _ _) = v_workspace w"
| "validate_operation (SshStatus w _) = v_workspace w"
| "validate_operation (EffectiveSettings w) = v_workspace w"
| "validate_operation (ReviewRows f mode) =
    vthen (v_file f)
      (ensure (List.member [''unified'', ''split'', ''full'', ''difftastic''] mode)
        (InvalidInput ''diff mode must be unified, split, full, or difftastic''))"
| "validate_operation (ReviewHunks f) = v_file f"
| "validate_operation (ConfigureBaselines w default_base bases) =
    vthen (v_workspace w)
    (vthen (check_opt (\<lambda>base. validate_ref base ''default base'') default_base)
    (vthen (ensure (length bases \<le> 10000) (InvalidInput ''too many repository base overrides''))
    (check_all validate_repository_base bases)))"
| "validate_operation (SetRepositoryInclusion w ids _) =
    vthen (v_workspace w)
    (vthen (ensure (\<not> (ids = [] \<or> length ids > 10000))
       (InvalidInput ''repositoryIds must contain between 1 and 10000 values''))
    (check_all v_repository ids))"
| "validate_operation (AddAnnotation w annotation) =
    vthen (v_workspace w) (validate_annotation annotation)"
| "validate_operation (DeleteAnnotation w a) =
    vthen (v_workspace w) (validate_identifier a ''annotation id'')"
| "validate_operation (SetAnnotationState w a state) =
    vthen (v_workspace w)
    (vthen (validate_identifier a ''annotation id'')
    (ensure (List.member [''open'', ''resolved''] state)
      (InvalidInput ''annotation state must be open or resolved'')))"
| "validate_operation (MarkFileViewed w f _) = vthen (v_workspace w) (v_file f)"
| "validate_operation (QuerySymbols w r symbol kind limit) =
    vthen (v_workspace w)
    (vthen (v_repository r)
    (vthen (validate_text symbol ''symbol'' 256)
    (vthen (ensure (List.member [''all'', ''definitions'', ''references''] kind)
       (InvalidInput ''symbol kind must be all, definitions, or references''))
    (check_opt (\<lambda>l. ensure (\<not> (l = 0 \<or> l > 500))
       (InvalidInput ''symbol limit must be between 1 and 500'')) limit))))"
| "validate_operation (GeneratePrompt w scope ids path_style _ _ history) =
    vthen (v_workspace w)
    (vthen (validate_text scope ''prompt scope'' 64)
    (vthen (ensure (length ids \<le> 10000) (InvalidInput ''too many annotation ids''))
    (vthen (check_all (\<lambda>id. validate_identifier id ''annotation id'') ids)
    (vthen (check_opt (\<lambda>style. ensure (List.member [''portable'', ''qualified'', ''absolute''] style)
       (InvalidInput ''path style must be portable, qualified, or absolute'')) path_style)
    (check_opt (\<lambda>h. validate_text h ''history id'' 256) history)))))"
| "validate_operation (GithubPreviewReview w ids summary conclusion) =
    vthen (v_workspace w)
    (vthen (validate_text summary ''review summary'' 100000)
    (vthen (ensure (List.member [''comment'', ''approve'', ''request_changes''] conclusion)
       (InvalidInput ''conclusion must be comment, approve, or request_changes''))
    (check_all (\<lambda>id. validate_identifier id ''annotation id'') ids)))"

fun validate_command :: "LocalCommand \<Rightarrow> ProtocolError + unit" where
  "validate_command (OpenWorkspace path base repository_bases) =
    vthen (validate_path path ''workspace path'')
    (vthen (check_opt (\<lambda>b. validate_ref b ''base reference'') base)
    (check_all (\<lambda>o'. vthen (validate_relative_path (override_relative_path o'))
        (validate_ref (override_base o') ''repository base reference'')) repository_bases))"
| "validate_command (FocusWorkspace selector) = validate_text selector ''workspace selector'' 256"
| "validate_command (OpenPullRequest url) = validate_github_pr_url url"
| "validate_command (OpenSshWorkspace target) = validate_ssh_target target"
| "validate_command (Programmatic command) = validate_operation command"
| "validate_command ListWorkspaces = Inr ()"
| "validate_command Doctor = Inr ()"

section \<open>Envelopes\<close>

record 'proof LocalRequest =
  req_version :: nat
  req_request_id :: string
  req_issued_at :: nat
  req_command :: LocalCommand
  req_authentication :: 'proof

record LocalSigningPayload =
  payload_version :: nat
  payload_request_id :: string
  payload_issued_at :: nat
  payload_command :: LocalCommand

definition signing_payload :: "'proof LocalRequest \<Rightarrow> LocalSigningPayload" where
  "signing_payload r =
    \<lparr>payload_version = req_version r, payload_request_id = req_request_id r,
     payload_issued_at = req_issued_at r, payload_command = req_command r\<rparr>"

definition validate_shape :: "'proof LocalRequest \<Rightarrow> ProtocolError + unit" where
  "validate_shape r =
    (if req_version r \<noteq> PROTOCOL_VERSION
     then Inl (UnsupportedVersion (req_version r) PROTOCOL_VERSION)
     else vthen (validate_identifier (req_request_id r) ''request id'')
       (validate_command (req_command r)))"

datatype ProtoSourceTag = ProtoGithub | ProtoLocal | ProtoSsh

record WorkspaceSummary =
  summary_id :: string
  summary_name :: string
  summary_source_tags :: "ProtoSourceTag list"
  summary_available :: bool
  summary_location :: "string option"

record DoctorReport =
  doctor_desktop_reachable :: bool
  doctor_protocol_version :: nat
  doctor_message :: string

datatype 'json LocalResponse =
    RespOpened string WorkspaceSummary bool
  | RespFocused string WorkspaceSummary
  | RespPullRequestRequested string string
  | RespSshWorkspaceRequested string string
  | RespForwardedRemoteWorkspace string string
  | RespWorkspaces string "WorkspaceSummary list"
  | RespDoctor string DoctorReport
  | RespProgrammatic string string 'json
  | RespError "string option" RpcErrorCode string

section \<open>Consequences of validation\<close>

text \<open>The references and workspace-relative paths a command carries.\<close>

fun operation_refs :: "ProgrammaticOperation \<Rightarrow> string list" where
  "operation_refs (ConfigureBaselines _ default_base bases) =
    (case default_base of None \<Rightarrow> [] | Some b \<Rightarrow> [b]) @ List.map_filter pbase_base bases"
| "operation_refs _ = []"

fun operation_paths :: "ProgrammaticOperation \<Rightarrow> string list" where
  "operation_paths (ConfigureBaselines _ _ bases) = List.map_filter pbase_relative_path bases"
| "operation_paths _ = []"

fun command_refs :: "LocalCommand \<Rightarrow> string list" where
  "command_refs (OpenWorkspace _ base overrides) =
    (case base of None \<Rightarrow> [] | Some b \<Rightarrow> [b]) @ map override_base overrides"
| "command_refs (Programmatic op) = operation_refs op"
| "command_refs _ = []"

fun command_paths :: "LocalCommand \<Rightarrow> string list" where
  "command_paths (OpenWorkspace _ _ overrides) = map override_relative_path overrides"
| "command_paths (Programmatic op) = operation_paths op"
| "command_paths _ = []"

lemma validate_repository_base_Ok [valid_simps]:
  "validate_repository_base b = Inr u \<longleftrightarrow>
    (\<forall>i. pbase_repository_id b = Some i \<longrightarrow> v_repository i = Inr ()) \<and>
    (\<forall>p. pbase_relative_path b = Some p \<longrightarrow> validate_relative_path p = Inr ()) \<and>
    (pbase_repository_id b \<noteq> None \<or> pbase_relative_path b \<noteq> None) \<and>
    (\<forall>r. pbase_base b = Some r \<longrightarrow> ref_ok r)"
  by (auto simp: validate_repository_base_def validate_ref_Ok)

lemma operation_refs_valid:
  "validate_operation op = Inr () \<Longrightarrow> r \<in> set (operation_refs op) \<Longrightarrow> ref_ok r"
  by (cases op)
     (auto simp: validate_repository_base_Ok validate_ref_Ok List.map_filter_def
       split: option.splits)

lemma operation_paths_valid:
  "validate_operation op = Inr () \<Longrightarrow> p \<in> set (operation_paths op) \<Longrightarrow>
    validate_relative_path p = Inr ()"
  by (cases op)
     (auto simp: validate_repository_base_Ok List.map_filter_def split: option.splits)

lemma command_refs_valid:
  "validate_command c = Inr () \<Longrightarrow> r \<in> set (command_refs c) \<Longrightarrow> ref_ok r"
  by (cases c) (auto simp: validate_ref_Ok operation_refs_valid split: option.splits)

lemma command_paths_valid:
  "validate_command c = Inr () \<Longrightarrow> p \<in> set (command_paths c) \<Longrightarrow> validate_relative_path p = Inr ()"
  by (cases c) (auto intro: operation_paths_valid)

end
