(* ===== verification/Rust_Net.thy ===== *)
theory Rust_Net
  imports Rust_Text
begin

text \<open>
  \<open>std::net::SocketAddr::from_str\<close>, the recursive-descent parser of \<open>core::net\<close>: a
  parser takes the remaining bytes and returns a value with the rest, \<open>None\<close> leaving
  the input where it was (\<open>read_atomically\<close>).  Used by the validation of the managed
  forwarding endpoint.
\<close>

type_synonym 'a reader = "string \<Rightarrow> ('a \<times> string) option"

definition hex_value :: "char \<Rightarrow> nat" where
  "hex_value c =
    (if is_digit c then byte c - 48
     else if is_ascii_lower c then byte c - 87 else byte c - 55)"

definition radix_digit :: "nat \<Rightarrow> char \<Rightarrow> bool" where
  "radix_digit radix c = (if radix = 16 then is_hexdigit c else is_digit c)"

fun read_given_char :: "char \<Rightarrow> unit reader" where
  "read_given_char d [] = None"
| "read_given_char d (c # s) = (if c = d then Some ((), s) else None)"

definition read_number :: "nat \<Rightarrow> nat option \<Rightarrow> bool \<Rightarrow> nat \<Rightarrow> nat reader" where
  "read_number radix max_digits allow_zero_prefix max_value s =
    (let ds = takeWhile (radix_digit radix) s;
         n = foldl (\<lambda>n c. radix * n + hex_value c) 0 ds
     in if (case max_digits of None \<Rightarrow> False | Some m \<Rightarrow> length ds > m) then None
        else if ds = [] then None
        else if \<not> allow_zero_prefix \<and> hd ds = CHR ''0'' \<and> length ds > 1 then None
        else if n > max_value then None
        else Some (n, drop (length ds) s))"

definition read_separator :: "char \<Rightarrow> nat \<Rightarrow> 'a reader \<Rightarrow> 'a reader" where
  "read_separator sep i inner s =
    (if i > 0 then Option.bind (read_given_char sep s) (\<lambda>(_, r). inner r) else inner s)"

fun read_ipv4_groups :: "nat \<Rightarrow> nat \<Rightarrow> nat list reader" where
  "read_ipv4_groups i 0 s = Some ([], s)"
| "read_ipv4_groups i (Suc k) s =
    Option.bind (read_separator CHR ''.'' i (read_number 10 (Some 3) False 255) s)
      (\<lambda>(g, r). map_option (\<lambda>(gs, r'). (g # gs, r')) (read_ipv4_groups (Suc i) k r))"

definition read_ipv4_addr :: "nat list reader" where
  "read_ipv4_addr = read_ipv4_groups 0 4"

text \<open>\<open>read_groups i k\<close> reads up to \<open>k\<close> more groups, the next being group \<open>i\<close>; the flag
  tells that the last two came from an embedded IPv4 address.\<close>

fun read_groups :: "nat \<Rightarrow> nat \<Rightarrow> string \<Rightarrow> (nat list \<times> bool) \<times> string" where
  "read_groups i 0 s = (([], False), s)"
| "read_groups i (Suc k) s =
    (case (if k > 0 then read_separator CHR '':'' i read_ipv4_addr s else None) of
      Some (v4, r) \<Rightarrow> (([v4 ! 0 * 256 + v4 ! 1, v4 ! 2 * 256 + v4 ! 3], True), r)
    | None \<Rightarrow>
        (case read_separator CHR '':'' i (read_number 16 (Some 4) True 65535) s of
          None \<Rightarrow> (([], False), s)
        | Some (g, r) \<Rightarrow>
            (let ((gs, v4), r') = read_groups (Suc i) k r in ((g # gs, v4), r'))))"

definition read_ipv6_addr :: "nat list reader" where
  "read_ipv6_addr s =
    (let ((head, head_ipv4), r) = read_groups 0 8 s
     in if length head = 8 then Some (head, r)
        else if head_ipv4 then None
        else Option.bind (read_given_char CHR '':'' r) (\<lambda>(_, r1).
          Option.bind (read_given_char CHR '':'' r1) (\<lambda>(_, r2).
            (let ((tail, _), r3) = read_groups 0 (8 - (length head + 1)) r2
             in Some (head @ replicate (8 - length head - length tail) 0 @ tail, r3)))))"

definition read_port :: "nat reader" where
  "read_port s = Option.bind (read_given_char CHR '':'' s)
    (\<lambda>(_, r). read_number 10 None True 65535 r)"

definition read_scope_id :: "nat reader" where
  "read_scope_id s = Option.bind (read_given_char CHR ''%'' s)
    (\<lambda>(_, r). read_number 10 None True U32_MAX r)"

datatype SocketAddr = SocketV4 "nat list" nat | SocketV6 "nat list" nat nat

definition read_socket_addr_v4 :: "SocketAddr reader" where
  "read_socket_addr_v4 s = Option.bind (read_ipv4_addr s)
    (\<lambda>(ip, r). map_option (\<lambda>(port, r'). (SocketV4 ip port, r')) (read_port r))"

definition read_socket_addr_v6 :: "SocketAddr reader" where
  "read_socket_addr_v6 s =
    Option.bind (read_given_char CHR ''['' s) (\<lambda>(_, r1).
      Option.bind (read_ipv6_addr r1) (\<lambda>(ip, r2).
        (let (scope, r3) = (case read_scope_id r2 of None \<Rightarrow> (0, r2) | Some x \<Rightarrow> x)
         in Option.bind (read_given_char CHR '']'' r3) (\<lambda>(_, r4).
              map_option (\<lambda>(port, r5). (SocketV6 ip port scope, r5)) (read_port r4)))))"

definition parse_socket_addr :: "string \<Rightarrow> SocketAddr option" where
  "parse_socket_addr s =
    (case (case read_socket_addr_v4 s of Some x \<Rightarrow> Some x | None \<Rightarrow> read_socket_addr_v6 s) of
      Some (addr, []) \<Rightarrow> Some addr
    | _ \<Rightarrow> None)"

fun socket_is_loopback :: "SocketAddr \<Rightarrow> bool" where
  "socket_is_loopback (SocketV4 ip _) = (ip ! 0 = 127)"
| "socket_is_loopback (SocketV6 ip _ _) = (ip = [0, 0, 0, 0, 0, 0, 0, 1])"

fun socket_port :: "SocketAddr \<Rightarrow> nat" where
  "socket_port (SocketV4 _ port) = port"
| "socket_port (SocketV6 _ port _) = port"

lemma parse_socket_addr_examples:
  "parse_socket_addr ''127.0.0.1:8080'' = Some (SocketV4 [127, 0, 0, 1] 8080)"
  "parse_socket_addr ''[::1]:80'' = Some (SocketV6 [0, 0, 0, 0, 0, 0, 0, 1] 80 0)"
  "parse_socket_addr ''127.0.0.01:80'' = None"
  by code_simp+

end
