(* ===== verification/Protocol_Agent.thy ===== *)
theory Protocol_Agent
  imports Protocol_Local Rust_Net
begin

text \<open>
  \<open>crates/protocol/src/agent.rs\<close> and \<open>reverse.rs\<close>: the bounded operations an SSH
  companion accepts, and the reverse-forwarding messages.  The loop of
  \<open>WatchWorkspaceChanges\<close> carries its \<open>seen\<close> set and \<open>root\<close> as arguments.
\<close>

definition MAX_REMOTE_DISCOVERY_DEPTH :: nat where "MAX_REMOTE_DISCOVERY_DEPTH = 32"
definition MAX_REMOTE_SOURCE_WINDOW_LINES :: nat where "MAX_REMOTE_SOURCE_WINDOW_LINES = 4096"
definition MAX_REMOTE_SOURCE_WINDOW_BYTES :: nat where
  "MAX_REMOTE_SOURCE_WINDOW_BYTES = 2 * 1024 * 1024"
definition MAX_REMOTE_CAPTURE_FILES :: nat where "MAX_REMOTE_CAPTURE_FILES = 50000"

datatype AgentCapability =
    RepositoryDiscovery | ComparisonCapture | SourceWindows | ChangeNotifications
  | Cancellation | ZstdCompression | ReverseForwarding

record AgentHello =
  hello_protocol_versions :: "nat list"
  hello_agent_version :: string
  hello_capabilities :: "AgentCapability list"
  hello_platform :: string
  hello_architecture :: string

definition agent_hello_current :: "string \<Rightarrow> string \<Rightarrow> string \<Rightarrow> AgentHello" where
  "agent_hello_current version platform architecture =
    \<lparr>hello_protocol_versions = [PROTOCOL_VERSION], hello_agent_version = version,
     hello_capabilities = [RepositoryDiscovery, ComparisonCapture, SourceWindows,
       ChangeNotifications, Cancellation, ZstdCompression, ReverseForwarding],
     hello_platform = platform, hello_architecture = architecture\<rparr>"

record RemoteRepositoryRef =
  remote_workspace_root :: string
  remote_relative_path :: string

definition validate_absolute_remote_path :: "string \<Rightarrow> string \<Rightarrow> ProtocolError + unit" where
  "validate_absolute_remote_path value label =
    vthen (validate_path value label)
      (if \<not> starts_with value ''/''
       then Inl (InvalidInput (label @ '' must be an absolute POSIX path'')) else Inr ())"

definition validate_remote_ref :: "RemoteRepositoryRef \<Rightarrow> ProtocolError + unit" where
  "validate_remote_ref r =
    vthen (validate_absolute_remote_path (remote_workspace_root r) ''remote workspace root'')
      (if remote_relative_path r = ''.'' then Inr ()
       else validate_relative_path (remote_relative_path r))"

datatype RemoteHead = RemoteBranch string | RemoteDetached string | RemoteUnborn

record RemoteRepository =
  remote_reference :: RemoteRepositoryRef
  remote_canonical_worktree :: string
  remote_git_common_dir :: "string option"
  remote_primary_remote :: "string option"
  remote_head :: RemoteHead

record RemoteComparisonOptions =
  remote_ignore_all_whitespace :: bool
  remote_ignore_space_at_eol :: bool
  remote_ignore_cr_at_eol :: bool
  remote_path_filters :: "string list"

definition validate_remote_options :: "RemoteComparisonOptions \<Rightarrow> ProtocolError + unit" where
  "validate_remote_options opts =
    (if length (remote_path_filters opts) > 4096
     then Inl (InvalidInput ''too many remote comparison path filters'')
     else check_all validate_relative_path (remote_path_filters opts))"

datatype RemoteChangeLayer = LayerCommitted | LayerStaged | LayerUnstaged | LayerUntracked

datatype RemoteFileStatus =
    RemoteAdded | RemoteModified | RemoteDeleted | RemoteRenamed | RemoteCopied
  | RemoteModeChanged | RemoteTypeChanged | RemoteSubmodule | RemoteUntracked

record RemoteCapturedFile =
  captured_path :: string
  captured_old_path :: "string option"
  captured_status :: RemoteFileStatus
  captured_similarity :: "nat option"
  captured_old_mode :: nat
  captured_new_mode :: nat
  captured_old_object :: "string option"
  captured_new_object :: "string option"
  captured_untracked :: bool
  captured_binary :: bool
  captured_lfs_pointer :: bool
  captured_byte_len :: "nat option"
  captured_layers :: "RemoteChangeLayer list"

record RemoteLayerSummary =
  layer_changed_files :: nat

record RemoteComparisonCapture =
  capture_id :: string
  capture_generation :: nat
  capture_repository :: RemoteRepositoryRef
  capture_requested_base :: string
  capture_base_tip_sha :: string
  capture_merge_base_sha :: string
  capture_head_sha :: "string option"
  capture_head :: RemoteHead
  capture_committed :: RemoteLayerSummary
  capture_staged :: RemoteLayerSummary
  capture_unstaged :: RemoteLayerSummary
  capture_untracked :: RemoteLayerSummary
  capture_files :: "RemoteCapturedFile list"

datatype RemoteSourceRevision = RevWorktree | RevHead | RevMergeBase

record RemoteSourceWindow =
  window_capture_id :: string
  window_capture_generation :: nat
  window_repository :: RemoteRepositoryRef
  window_path :: string
  window_revision :: RemoteSourceRevision
  window_start_line :: nat
  window_total_lines :: nat
  window_byte_len :: nat
  window_sha256_hex :: string
  window_bytes :: string
  window_end_of_file :: bool

datatype AgentOperation =
    OpHandshake "nat list"
  | OpPing
  | OpConfigureManagedForwardRelay string string string
  | OpDiscoverRepositories string nat
  | OpCaptureComparison RemoteRepositoryRef string RemoteComparisonOptions
  | OpReadSourceWindow string nat RemoteRepositoryRef string RemoteSourceRevision nat nat
  | OpWatchRepositoryChanges RemoteRepositoryRef nat
  | OpWatchWorkspaceChanges "RemoteRepositoryRef list" nat
  | OpCancel string

definition valid_token_hex :: "string \<Rightarrow> bool" where
  "valid_token_hex t = (length t = 64 \<and> list_all is_hexdigit t)"

definition session_id_byte :: "char \<Rightarrow> bool" where
  "session_id_byte c = (is_alnum c \<or> c = CHR ''-'' \<or> c = CHR ''_'')"

definition validate_relay :: "string \<Rightarrow> string \<Rightarrow> string \<Rightarrow> ProtocolError + unit" where
  "validate_relay endpoint token_hex session =
    (case parse_socket_addr endpoint of
      None \<Rightarrow> Inl (InvalidInput ''managed forward endpoint must be a loopback socket address'')
    | Some address \<Rightarrow>
        if \<not> socket_is_loopback address
           \<or> socket_port address = 0
           \<or> \<not> valid_token_hex token_hex
           \<or> session = []
           \<or> length session > 64
           \<or> \<not> list_all session_id_byte session
        then Inl (InvalidInput ''managed forward relay configuration is invalid'')
        else Inr ())"

definition validate_interval :: "nat \<Rightarrow> ProtocolError + unit" where
  "validate_interval ms =
    ensure (250 \<le> ms \<and> ms \<le> 60000)
      (InvalidInput ''remote watcher interval must be between 250ms and 60s'')"

fun validate_watched ::
  "(string \<times> string) list \<Rightarrow> string option \<Rightarrow> RemoteRepositoryRef list \<Rightarrow> ProtocolError + unit"
where
  "validate_watched seen root [] = Inr ()"
| "validate_watched seen root (r # rs) =
    vthen (validate_remote_ref r)
    (if (case root of None \<Rightarrow> False | Some w \<Rightarrow> w \<noteq> remote_workspace_root r)
     then Inl (InvalidInput ''remote workspace watcher repositories must share one root'')
     else if List.member seen (remote_workspace_root r, remote_relative_path r)
     then Inl (InvalidInput ''remote workspace watcher has duplicate repositories'')
     else validate_watched ((remote_workspace_root r, remote_relative_path r) # seen)
       (case root of None \<Rightarrow> Some (remote_workspace_root r) | Some w \<Rightarrow> Some w) rs)"

fun validate_agent_operation :: "AgentOperation \<Rightarrow> ProtocolError + unit" where
  "validate_agent_operation (OpHandshake versions) =
    ensure (\<not> (versions = [] \<or> length versions > 16))
      (InvalidInput ''desktop protocol versions must contain 1..=16 entries'')"
| "validate_agent_operation OpPing = Inr ()"
| "validate_agent_operation (OpConfigureManagedForwardRelay endpoint token session) =
    validate_relay endpoint token session"
| "validate_agent_operation (OpDiscoverRepositories root max_depth) =
    vthen (validate_absolute_remote_path root ''remote workspace root'')
      (ensure (max_depth \<le> MAX_REMOTE_DISCOVERY_DEPTH)
        (InvalidInput (''remote discovery depth exceeds '' @ show_nat MAX_REMOTE_DISCOVERY_DEPTH)))"
| "validate_agent_operation (OpCaptureComparison repository base options) =
    vthen (validate_remote_ref repository)
    (vthen (validate_ref base ''remote comparison base'')
      (validate_remote_options options))"
| "validate_agent_operation
    (OpReadSourceWindow capture generation repository path _ start_line line_count) =
    vthen (validate_identifier capture ''remote capture id'')
    (vthen (ensure (generation \<noteq> 0) (InvalidInput ''remote capture generation must be non-zero''))
    (vthen (validate_remote_ref repository)
    (vthen (validate_relative_path path)
    (ensure (\<not> (start_line = 0 \<or> line_count = 0 \<or> line_count > MAX_REMOTE_SOURCE_WINDOW_LINES))
      (InvalidInput (''remote source window must request 1..='' @
        show_nat MAX_REMOTE_SOURCE_WINDOW_LINES @ '' lines''))))))"
| "validate_agent_operation (OpWatchRepositoryChanges repository ms) =
    vthen (validate_remote_ref repository) (validate_interval ms)"
| "validate_agent_operation (OpWatchWorkspaceChanges repositories ms) =
    vthen (ensure (\<not> (repositories = [] \<or> length repositories > 1024))
      (InvalidInput ''remote workspace watcher must include 1..=1024 repositories''))
    (vthen (validate_watched [] None repositories) (validate_interval ms))"
| "validate_agent_operation (OpCancel request) = validate_identifier request ''cancel request id''"

record AgentRequest =
  agent_request_id :: string
  agent_generation :: nat
  agent_operation :: AgentOperation

definition generation_exempt :: "AgentOperation \<Rightarrow> bool" where
  "generation_exempt op =
    (case op of OpHandshake _ \<Rightarrow> True | OpPing \<Rightarrow> True
      | OpConfigureManagedForwardRelay _ _ _ \<Rightarrow> True | _ \<Rightarrow> False)"

definition validate_agent_request :: "AgentRequest \<Rightarrow> ProtocolError + unit" where
  "validate_agent_request r =
    vthen (validate_identifier (agent_request_id r) ''agent request id'')
    (if agent_generation r = 0 \<and> \<not> generation_exempt (agent_operation r)
     then Inl (InvalidInput ''review operations require a non-zero generation'')
     else validate_agent_operation (agent_operation r))"

section \<open>Responses\<close>

datatype AgentErrorCode =
    CodeInvalidRequest | CodeUnsupportedVersion | CodeNotFound | CodePathDenied | CodeGitFailed
  | CodeBinaryContent | CodeStaleCapture | CodeStaleGeneration | CodeTooLarge | CodeCancelled
  | CodeTimedOut | CodeUnavailable | CodeInternal

datatype AgentErrorScope =
    ScopeRequest
  | ScopeWorkspaceRoot string
  | ScopeRepository RemoteRepositoryRef
  | ScopeSourcePath RemoteRepositoryRef string

record AgentError =
  agent_error_code :: AgentErrorCode
  agent_error_scope :: AgentErrorScope
  agent_error_message :: string
  agent_error_retryable :: bool

definition agent_error_request :: "AgentErrorCode \<Rightarrow> string \<Rightarrow> bool \<Rightarrow> AgentError" where
  "agent_error_request code message retryable =
    \<lparr>agent_error_code = code, agent_error_scope = ScopeRequest,
     agent_error_message = message, agent_error_retryable = retryable\<rparr>"

datatype AgentResult =
    ResHandshake nat AgentHello
  | ResPong
  | ResManagedForwardRelayConfigured
  | ResRepositories "RemoteRepository list"
  | ResComparisonCapture RemoteComparisonCapture
  | ResSourceWindow RemoteSourceWindow
  | ResWatching
  | ResCancelAccepted string
  | ResCancelled
  | ResError AgentError

record AgentResponse =
  response_id :: string
  response_generation :: nat
  response_result :: AgentResult

datatype AgentProgressPhase =
    PhaseValidating | PhaseDiscovering | PhaseResolvingBase | PhaseCapturing
  | PhaseReadingSource | PhaseWatching | PhaseComplete

record AgentProgress =
  progress_id :: string
  progress_generation :: nat
  progress_phase :: AgentProgressPhase
  progress_completed :: nat
  progress_total :: "nat option"

datatype AgentNotification =
    FilesystemChangesAvailable RemoteRepositoryRef nat
  | ConnectionStatus bool string

datatype AgentMessage =
    MessageRequest AgentRequest
  | MessageResponse AgentResponse
  | MessageProgress AgentProgress
  | MessageNotification AgentNotification

section \<open>Reverse forwarding\<close>

definition REVERSE_FORWARD_VERSION :: nat where "REVERSE_FORWARD_VERSION = 1"

datatype ManagedForwardCommand =
  ForwardOpenRemoteWorkspace string "string option" "RepositoryBaseOverride list"

datatype ManagedForwardRelayCommand =
    RelayProbe
  | RelayOpenRemoteWorkspace string "string option" "RepositoryBaseOverride list"

datatype ManagedForwardResponse = ForwardAccepted | ForwardError string

record ManagedForwardRequest =
  forward_version :: nat
  forward_token_hex :: string
  forward_command :: ManagedForwardCommand

record ManagedForwardRelayRequest =
  relay_version :: nat
  relay_command :: ManagedForwardRelayCommand

fun validate_forward_command :: "ManagedForwardCommand \<Rightarrow> ProtocolError + unit" where
  "validate_forward_command (ForwardOpenRemoteWorkspace path base overrides) =
    vthen (validate_path path ''managed remote workspace path'')
    (vthen (ensure (starts_with path ''/'')
       (InvalidInput ''managed remote workspace path must be absolute''))
    (vthen (check_opt (\<lambda>b. validate_ref b ''managed remote base'') base)
    (vthen (ensure (length overrides \<le> 4096)
       (InvalidInput ''too many managed remote base overrides''))
    (check_all (\<lambda>o'. vthen (validate_relative_path (override_relative_path o'))
        (validate_ref (override_base o') ''managed repository base'')) overrides))))"

fun validate_relay_command :: "ManagedForwardRelayCommand \<Rightarrow> ProtocolError + unit" where
  "validate_relay_command RelayProbe = Inr ()"
| "validate_relay_command (RelayOpenRemoteWorkspace path base overrides) =
    validate_forward_command (ForwardOpenRemoteWorkspace path base overrides)"

definition validate_forward_request :: "ManagedForwardRequest \<Rightarrow> ProtocolError + unit" where
  "validate_forward_request r =
    (if forward_version r \<noteq> REVERSE_FORWARD_VERSION
     then Inl (UnsupportedVersion (forward_version r) REVERSE_FORWARD_VERSION)
     else vthen (ensure (valid_token_hex (forward_token_hex r))
         (InvalidInput ''managed forward token must be exactly 32 bytes of hex''))
       (validate_forward_command (forward_command r)))"

definition validate_relay_request :: "ManagedForwardRelayRequest \<Rightarrow> ProtocolError + unit" where
  "validate_relay_request r =
    (if relay_version r \<noteq> REVERSE_FORWARD_VERSION
     then Inl (UnsupportedVersion (relay_version r) REVERSE_FORWARD_VERSION)
     else validate_relay_command (relay_command r))"

end
