(* ===== verification/Protocol_Frame.thy ===== *)
theory Protocol_Frame
  imports Protocol_Local
begin

text \<open>
  \<open>crates/protocol/src/frame.rs\<close> (the length-prefixed frame codec) and \<open>auth.rs\<close> (the
  HMAC proof of a local request).  CBOR, zstd, hex and HMAC-SHA256 are other crates:
  they are the fields of the parameter records \<open>wire\<close> and \<open>crypto\<close>, and every theorem
  names the behaviour of them it relies on.  A writer is the bytes written so far; a
  reader is the bytes still to come, and a short read is the I/O error of
  \<open>read_exact\<close>.
\<close>

section \<open>Prefix codecs\<close>

text \<open>A prefix codec reads back one encoded value and leaves the rest of the stream.\<close>

locale prefix_codec =
  fixes enc :: "'a \<Rightarrow> 'b list" and dec :: "'b list \<Rightarrow> ('a \<times> 'b list) option"
    and ok :: "'a \<Rightarrow> bool"
  assumes dec_enc: "ok x \<Longrightarrow> dec (enc x @ rest) = Some (x, rest)"
begin

lemma enc_prefix_free:
  assumes "ok x" "ok y" "enc x @ r = enc y @ s"
  shows "x = y \<and> r = s"
proof -
  have "Some (x, r) = dec (enc x @ r)" using dec_enc [OF assms(1)] by (rule sym)
  also have "\<dots> = dec (enc y @ s)" by (simp only: assms(3))
  also have "\<dots> = Some (y, s)" by (rule dec_enc [OF assms(2)])
  finally show ?thesis by simp
qed

lemma enc_inj_on: "inj_on enc (Collect ok)"
proof (rule inj_onI)
  fix x y
  assume "x \<in> Collect ok" "y \<in> Collect ok" "enc x = enc y"
  then show "x = y" using enc_prefix_free [of x y "[]" "[]"] by simp
qed

lemma concat_inj:
  assumes "list_all ok xs" "list_all ok ys" "length xs = length ys"
    "concat (map enc xs) = concat (map enc ys)"
  shows "xs = ys"
  using assms(3,1,2,4)
proof (induction xs ys rule: list_induct2)
  case (Cons x xs y ys)
  then show ?case using enc_prefix_free [of x y "concat (map enc xs)" "concat (map enc ys)"]
    by simp
qed simp

end

section \<open>Frames\<close>

definition be32 :: "nat \<Rightarrow> string" where
  "be32 n = map char_of [n div 16777216 mod 256, n div 65536 mod 256, n div 256 mod 256, n mod 256]"

definition from_be32 :: "string \<Rightarrow> nat" where
  "from_be32 s = foldl (\<lambda>n c. 256 * n + byte c) 0 s"

definition read_exact :: "nat \<Rightarrow> string \<Rightarrow> ProtocolError + (string \<times> string)" where
  "read_exact n s =
    (if length s < n then Inl (ProtocolIo ''failed to fill whole buffer'')
     else Inr (take n s, drop n s))"

definition read_be32 :: "string \<Rightarrow> (nat \<times> string) option" where
  "read_be32 s =
    (case read_exact 4 s of Inl _ \<Rightarrow> None | Inr (header, rest) \<Rightarrow> Some (from_be32 header, rest))"

lemma from_be32_be32: "n < 4294967296 \<Longrightarrow> from_be32 (be32 n) = n"
proof -
  assume n: "n < 4294967296"
  define a b c where "a = n div 256" and "b = a div 256" and "c = b div 256"
  have "n = 256 * a + n mod 256" "a = 256 * b + a mod 256" "b = 256 * c + b mod 256"
    by (simp_all add: a_def b_def c_def)
  moreover have "n div 65536 = b" "n div 16777216 = c" "c mod 256 = c"
    using n by (simp_all add: a_def b_def c_def flip: div_mult2_eq)
  ultimately show "from_be32 (be32 n) = n"
    by (simp add: from_be32_def be32_def flip: a_def)
qed

lemma length_be32 [simp]: "length (be32 n) = 4"
  by (simp add: be32_def)

interpretation be32_codec: prefix_codec be32 read_be32 "\<lambda>n. n < 4294967296"
  by unfold_locales (simp add: read_be32_def read_exact_def from_be32_be32)

datatype FrameEnvelope = EnvelopeRaw string | EnvelopeZstd string

text \<open>The third-party codecs: CBOR of the message and of the envelope, zstd compression,
  whether a decoder opens, and the bytes a decoder yields with a flag telling whether
  it then ends cleanly.\<close>

record 'a wire =
  cbor_to_vec :: "'a \<Rightarrow> string option"
  cbor_from_slice :: "string \<Rightarrow> 'a option"
  envelope_to_vec :: "FrameEnvelope \<Rightarrow> string option"
  envelope_from_slice :: "string \<Rightarrow> FrameEnvelope option"
  zstd_encode :: "string \<Rightarrow> string option"
  zstd_open :: "string \<Rightarrow> bool"
  zstd_stream :: "string \<Rightarrow> string \<times> bool"

abbreviation serialization_error :: ProtocolError where
  "serialization_error \<equiv> ProtocolSerialization ''cbor''"

definition frame_envelope :: "'a wire \<Rightarrow> string \<Rightarrow> ProtocolError + FrameEnvelope" where
  "frame_envelope w payload =
    (if length payload \<ge> FRAME_COMPRESSION_THRESHOLD_BYTES
     then rbind (ok_or (Compression ''zstd'') (zstd_encode w payload)) (\<lambda>z. Inr (EnvelopeZstd z))
     else Inr (EnvelopeRaw payload))"

definition write_frame :: "'a wire \<Rightarrow> string \<Rightarrow> 'a \<Rightarrow> ProtocolError + string" where
  "write_frame w written value =
    rbind (ok_or serialization_error (cbor_to_vec w value)) (\<lambda>payload.
    if length payload > MAX_UNCOMPRESSED_FRAME_BYTES then Inl (FrameTooLarge (length payload))
    else rbind (frame_envelope w payload) (\<lambda>envelope.
    rbind (ok_or serialization_error (envelope_to_vec w envelope)) (\<lambda>body.
    if length body > MAX_FRAME_BYTES then Inl (FrameTooLarge (length body))
    else if length body > U32_MAX then Inl (FrameTooLarge (length body))
    else Inr (written @ be32 (length body) @ body))))"

definition decompress_bounded :: "'a wire \<Rightarrow> string \<Rightarrow> ProtocolError + string" where
  "decompress_bounded w payload =
    (if \<not> zstd_open w payload then Inl (Compression ''zstd'')
     else (let (bytes, clean) = zstd_stream w payload;
               output = take (MAX_UNCOMPRESSED_FRAME_BYTES + 1) bytes
           in if length bytes \<le> MAX_UNCOMPRESSED_FRAME_BYTES \<and> \<not> clean then Inl (ProtocolIo ''zstd'')
              else if length output > MAX_UNCOMPRESSED_FRAME_BYTES
                then Inl (FrameTooLarge (length output))
              else Inr output))"

definition open_envelope :: "'a wire \<Rightarrow> FrameEnvelope \<Rightarrow> ProtocolError + string" where
  "open_envelope w envelope =
    (case envelope of
      EnvelopeRaw payload \<Rightarrow>
        if length payload > MAX_UNCOMPRESSED_FRAME_BYTES
        then Inl (FrameTooLarge (length payload)) else Inr payload
    | EnvelopeZstd payload \<Rightarrow> decompress_bounded w payload)"

definition read_frame :: "'a wire \<Rightarrow> string \<Rightarrow> ProtocolError + ('a \<times> string)" where
  "read_frame w input =
    rbind (read_exact 4 input) (\<lambda>(header, rest).
    let len = from_be32 header in
    if len > MAX_FRAME_BYTES then Inl (FrameTooLarge len)
    else rbind (read_exact len rest) (\<lambda>(body, rest').
    rbind (ok_or serialization_error (envelope_from_slice w body)) (\<lambda>envelope.
    rbind (open_envelope w envelope) (\<lambda>payload.
    rbind (ok_or serialization_error (cbor_from_slice w payload)) (\<lambda>value.
    Inr (value, rest'))))))"

text \<open>The behaviour of the codecs the round trip relies on.\<close>

definition faithful_wire :: "'a wire \<Rightarrow> bool" where
  "faithful_wire w \<longleftrightarrow>
    (\<forall>v b. cbor_to_vec w v = Some b \<longrightarrow> cbor_from_slice w b = Some v) \<and>
    (\<forall>e b. envelope_to_vec w e = Some b \<longrightarrow> envelope_from_slice w b = Some e) \<and>
    (\<forall>p z. zstd_encode w p = Some z \<longrightarrow> zstd_open w z \<and> zstd_stream w z = (p, True))"

lemma open_frame_envelope:
  assumes "faithful_wire w" "length p \<le> MAX_UNCOMPRESSED_FRAME_BYTES" "frame_envelope w p = Inr e"
  shows "open_envelope w e = Inr p"
  using assms
  by (auto simp: frame_envelope_def open_envelope_def decompress_bounded_def faithful_wire_def
      split: if_splits)

lemma open_envelope_bound:
  "open_envelope w e = Inr p \<Longrightarrow> length p \<le> MAX_UNCOMPRESSED_FRAME_BYTES"
  by (auto simp: open_envelope_def decompress_bounded_def Let_def
      split: FrameEnvelope.splits if_splits prod.splits)

section \<open>Authentication\<close>

record crypto =
  hex_encode :: "string \<Rightarrow> string"
  hex_decode :: "string \<Rightarrow> string option"
  hmac_sha256 :: "string \<Rightarrow> string \<Rightarrow> string"
  payload_cbor :: "LocalSigningPayload \<Rightarrow> string option"

record AuthProof =
  mac_hex :: string

definition SECRET_LEN :: nat where "SECRET_LEN = 32"

datatype InstallationSecret = InstallationSecret (secret_bytes: string)

definition secret_from_hex :: "crypto \<Rightarrow> string \<Rightarrow> ProtocolError + InstallationSecret" where
  "secret_from_hex c value =
    rbind (ok_or (InvalidInput ''installation secret is not hex'') (hex_decode c value)) (\<lambda>bytes.
    if length bytes \<noteq> SECRET_LEN
    then Inl (InvalidInput ''installation secret has an invalid length'')
    else Inr (InstallationSecret bytes))"

definition secret_to_hex :: "crypto \<Rightarrow> InstallationSecret \<Rightarrow> string" where
  "secret_to_hex c s = hex_encode c (secret_bytes s)"

definition sign_request ::
  "crypto \<Rightarrow> InstallationSecret \<Rightarrow> AuthProof LocalRequest \<Rightarrow> ProtocolError + AuthProof" where
  "sign_request c secret request =
    rbind (ok_or serialization_error (payload_cbor c (signing_payload request))) (\<lambda>bytes.
    Inr \<lparr>mac_hex = hex_encode c (hmac_sha256 c (secret_bytes secret) bytes)\<rparr>)"

definition verify_request ::
  "crypto \<Rightarrow> InstallationSecret \<Rightarrow> AuthProof LocalRequest \<Rightarrow> ProtocolError + unit" where
  "verify_request c secret request =
    rbind (ok_or AuthenticationFailed (hex_decode c (mac_hex (req_authentication request))))
      (\<lambda>received.
    rbind (ok_or serialization_error (payload_cbor c (signing_payload request))) (\<lambda>bytes.
    if hmac_sha256 c (secret_bytes secret) bytes = received then Inr ()
    else Inl AuthenticationFailed))"

definition with_proof :: "AuthProof LocalRequest \<Rightarrow> AuthProof \<Rightarrow> AuthProof LocalRequest" where
  "with_proof r p = r\<lparr>req_authentication := p\<rparr>"

lemma signing_payload_with_proof [simp]: "signing_payload (with_proof r p) = signing_payload r"
  by (simp add: signing_payload_def with_proof_def)

lemma req_authentication_with_proof [simp]: "req_authentication (with_proof r p) = p"
  by (simp add: with_proof_def)

end
