(* ===== verification/Protocol_Paths.thy ===== *)
theory Protocol_Paths
  imports Protocol_Frame
begin

unbundle bit_operations_syntax

text \<open>
  \<open>crates/protocol/src/paths.rs\<close>: where the desktop and the command line keep their
  state, and the private files that hold the installation secret and the runtime
  record.  The file system is a map from paths to files and directories with their
  permission bits; an operation takes it and returns its result with the new one.
  Environment variables, the platform flag, the temporary directory, the umask and the
  process id are the fields of \<open>host\<close>; crashes in the middle of a write and permission
  checks against the calling user are not modelled.
\<close>

section \<open>Files\<close>

datatype node = Dir "32 word" | File "32 word" string

type_synonym fs = "string \<Rightarrow> node option"
type_synonym 'a io = "fs \<Rightarrow> (ProtocolError + 'a) \<times> fs"

record host =
  host_env :: "string \<Rightarrow> string option"
  host_macos :: bool
  host_temp_dir :: string
  host_umask :: "32 word"
  host_pid :: nat

function trim_tail :: "string \<Rightarrow> string" where
  "trim_tail p =
    (if length p > 1 \<and> ends_with p ''/'' then trim_tail (butlast p)
     else if length p > 2 \<and> ends_with p ''/.'' then trim_tail (butlast p)
     else p)"
  by pat_completeness auto
termination by (relation "measure length") auto

declare trim_tail.simps [simp del]

definition path_parent :: "string \<Rightarrow> string option" where
  "path_parent p =
    (let q = trim_tail p in
     if q = [] \<or> q = ''/'' then None
     else (case rsplit_once CHR ''/'' q of
        None \<Rightarrow> Some []
      | Some (a, _) \<Rightarrow> Some (if a = [] then ''/'' else trim_tail a)))"

definition path_file_name :: "string \<Rightarrow> string" where
  "path_file_name p =
    (case rsplit_once CHR ''/'' (trim_tail p) of
      None \<Rightarrow> if trim_tail p = ''..'' then [] else trim_tail p
    | Some (_, b) \<Rightarrow> if b = ''..'' then [] else b)"

definition path_exists :: "string \<Rightarrow> fs \<Rightarrow> bool" where
  "path_exists p s = (s p \<noteq> None)"

definition metadata_mode :: "string \<Rightarrow> (32 word) io" where
  "metadata_mode p s =
    (case s p of
      None \<Rightarrow> (Inl (ProtocolIo ''not found''), s)
    | Some (Dir m) \<Rightarrow> (Inr m, s)
    | Some (File m _) \<Rightarrow> (Inr m, s))"

definition create_new_file :: "host \<Rightarrow> 32 word \<Rightarrow> string \<Rightarrow> string \<Rightarrow> unit io" where
  "create_new_file h mode p contents s =
    (if path_exists p s then (Inl (ProtocolIo ''already exists''), s)
     else if (case path_parent p of
          None \<Rightarrow> True
        | Some d \<Rightarrow> d \<noteq> [] \<and> \<not> (case s d of Some (Dir _) \<Rightarrow> True | _ \<Rightarrow> False))
       then (Inl (ProtocolIo ''not found''), s)
     else (Inr (), s(p \<mapsto> File (mode AND NOT (host_umask h)) contents)))"

definition remove_file :: "string \<Rightarrow> unit io" where
  "remove_file p s =
    (case s p of Some (File _ _) \<Rightarrow> (Inr (), s(p := None))
     | _ \<Rightarrow> (Inl (ProtocolIo ''cannot remove''), s))"

definition rename_file :: "string \<Rightarrow> string \<Rightarrow> unit io" where
  "rename_file a b s =
    (case (s a, s b) of
      (Some (File m d), Some (Dir _)) \<Rightarrow> (Inl (ProtocolIo ''is a directory''), s)
    | (Some (File m d), _) \<Rightarrow> (Inr (), (s(a := None))(b \<mapsto> File m d))
    | _ \<Rightarrow> (Inl (ProtocolIo ''not found''), s))"

definition read_file :: "string \<Rightarrow> string io" where
  "read_file p s =
    (case s p of Some (File _ d) \<Rightarrow> (Inr d, s) | _ \<Rightarrow> (Inl (ProtocolIo ''cannot read''), s))"

text \<open>\<open>create_dir_all\<close>: missing ancestors first; the fuel is the length of the path, which
  shrinks with every parent.\<close>

fun create_dir_all :: "host \<Rightarrow> nat \<Rightarrow> string \<Rightarrow> unit io" where
  "create_dir_all h n p s =
    (case s p of
      Some (Dir _) \<Rightarrow> (Inr (), s)
    | Some (File _ _) \<Rightarrow> (Inl (ProtocolIo ''already exists''), s)
    | None \<Rightarrow>
        if p = [] then (Inr (), s)
        else (case n of 0 \<Rightarrow> (Inl (ProtocolIo ''not found''), s)
          | Suc m \<Rightarrow>
            (case (case path_parent p of None \<Rightarrow> (Inr (), s) | Some d \<Rightarrow> create_dir_all h m d s) of
              (Inl e, s') \<Rightarrow> (Inl e, s')
            | (Inr _, s') \<Rightarrow> (Inr (), s'(p \<mapsto> Dir (0x1FF AND NOT (host_umask h)))))))"

declare create_dir_all.simps [simp del]

definition set_permissions :: "string \<Rightarrow> 32 word \<Rightarrow> unit io" where
  "set_permissions p m s =
    (case s p of
      None \<Rightarrow> (Inl (ProtocolIo ''not found''), s)
    | Some (Dir _) \<Rightarrow> (Inr (), s(p \<mapsto> Dir m))
    | Some (File _ d) \<Rightarrow> (Inr (), s(p \<mapsto> File m d)))"

section \<open>Locations\<close>

record AppPaths =
  data_dir :: string
  config_dir :: string
  runtime_dir :: string

definition FNV_OFFSET :: "64 word" where "FNV_OFFSET = 0xCBF29CE484222325"
definition FNV_PRIME :: "64 word" where "FNV_PRIME = 0x00000100000001B3"

definition stable_path_hash :: "string \<Rightarrow> 64 word" where
  "stable_path_hash path =
    foldl (\<lambda>hash c. (hash XOR word_of_nat (byte c)) * FNV_PRIME) FNV_OFFSET path"

definition hex16 :: "64 word \<Rightarrow> string" where
  "hex16 w = hex_digits 16 (unat w)"

definition discover :: "host \<Rightarrow> ProtocolError + AppPaths" where
  "discover h =
    (case host_env h ''HOME'' of
      None \<Rightarrow> Inl (InvalidInput ''HOME is not available'')
    | Some home \<Rightarrow>
      (let data_override = host_env h ''LOCALREVIEW_DATA_DIR'';
           data = (case data_override of
              Some root \<Rightarrow> root
            | None \<Rightarrow>
                if host_macos h then path_join home ''Library/Application Support/LocalReview''
                else (case host_env h ''XDG_DATA_HOME'' of
                    Some xdg \<Rightarrow> path_join xdg ''localreview''
                  | None \<Rightarrow> path_join home ''.local/share/localreview''));
           config = (case host_env h ''LOCALREVIEW_CONFIG_DIR'' of
              Some root \<Rightarrow> root
            | None \<Rightarrow>
                if data_override \<noteq> None then data
                else if host_macos h then path_join home ''Library/Application Support/LocalReview''
                else (case host_env h ''XDG_CONFIG_HOME'' of
                    Some xdg \<Rightarrow> path_join xdg ''localreview''
                  | None \<Rightarrow> path_join home ''.config/localreview''));
           runtime_base = (case host_env h ''XDG_RUNTIME_DIR'' of
              Some base \<Rightarrow> base | None \<Rightarrow> host_temp_dir h)
       in Inr \<lparr>data_dir = data, config_dir = config,
            runtime_dir = path_join runtime_base (''localreview-'' @ hex16 (stable_path_hash data))\<rparr>))"

definition with_roots :: "string \<Rightarrow> string \<Rightarrow> AppPaths" where
  "with_roots data runtime = \<lparr>data_dir = data, config_dir = data, runtime_dir = runtime\<rparr>"

definition global_config_path :: "AppPaths \<Rightarrow> string" where
  "global_config_path a = path_join (config_dir a) ''config.toml''"
definition secret_path :: "AppPaths \<Rightarrow> string" where
  "secret_path a = path_join (data_dir a) ''ipc-secret''"
definition runtime_record_path :: "AppPaths \<Rightarrow> string" where
  "runtime_record_path a = path_join (data_dir a) ''desktop-runtime.json''"
definition socket_path :: "AppPaths \<Rightarrow> string" where
  "socket_path a = path_join (runtime_dir a) ''desktop.sock''"

section \<open>Private files\<close>

definition create_private_directory :: "host \<Rightarrow> string \<Rightarrow> unit io" where
  "create_private_directory h p =
    io_bind (create_dir_all h (length p) p) (\<lambda>_. set_permissions p 0x1C0)"

definition ensure_private_directories :: "host \<Rightarrow> AppPaths \<Rightarrow> unit io" where
  "ensure_private_directories h a =
    io_bind (create_private_directory h (data_dir a)) (\<lambda>_.
      create_private_directory h (runtime_dir a))"

definition assert_private_file :: "string \<Rightarrow> unit io" where
  "assert_private_file p =
    io_bind (metadata_mode p) (\<lambda>m.
      io_return (if (m AND 0x1FF) AND 0x3F \<noteq> 0
        then Inl (InvalidInput (utf8_lossy p @ '' must not be accessible to other users''))
        else Inr ()))"

definition write_private_new_file :: "host \<Rightarrow> string \<Rightarrow> string \<Rightarrow> unit io" where
  "write_private_new_file h p contents =
    io_bind (create_new_file h 0x180 p contents) (\<lambda>_. assert_private_file p)"

definition write_private_atomic :: "host \<Rightarrow> string \<Rightarrow> string \<Rightarrow> unit io" where
  "write_private_atomic h p contents =
    (case path_parent p of
      None \<Rightarrow> io_return (Inl (InvalidInput ''runtime record does not have a parent directory''))
    | Some parent \<Rightarrow>
      (let temporary = path_join parent
             (''.'' @ utf8_lossy (path_file_name p) @ ''.'' @ show_nat (host_pid h) @ ''.tmp'')
       in io_bind (\<lambda>s. if path_exists temporary s then remove_file temporary s else (Inr (), s)) (\<lambda>_.
          io_bind (write_private_new_file h temporary contents) (\<lambda>_.
          io_bind (rename_file temporary p) (\<lambda>_.
          assert_private_file p)))))"

definition read_secret :: "crypto \<Rightarrow> string \<Rightarrow> InstallationSecret io" where
  "read_secret c p =
    io_bind (assert_private_file p) (\<lambda>_.
    io_bind (read_file p) (\<lambda>raw.
    io_return (if is_utf8 raw then secret_from_hex c (trim raw)
      else Inl (ProtocolIo ''stream did not contain valid UTF-8''))))"

definition load_secret :: "crypto \<Rightarrow> AppPaths \<Rightarrow> InstallationSecret io" where
  "load_secret c a = read_secret c (secret_path a)"

text \<open>\<open>others\<close> is what other processes do to the file system between the check that the
  secret is missing and the attempt to create it.\<close>

definition load_or_create_secret ::
  "host \<Rightarrow> crypto \<Rightarrow> (fs \<Rightarrow> fs) \<Rightarrow> AppPaths \<Rightarrow> string \<Rightarrow> InstallationSecret io" where
  "load_or_create_secret h c others a generated =
    io_bind (ensure_private_directories h a) (\<lambda>_ s.
    let path = secret_path a in
    if path_exists path s then read_secret c path s
    else (let secret = InstallationSecret generated in
      case write_private_new_file h path (secret_to_hex c secret) (others s) of
        (Inr _, s') \<Rightarrow> (Inr secret, s')
      | (Inl e, s') \<Rightarrow> if path_exists path s' then read_secret c path s' else (Inl e, s')))"

record RuntimeRecord =
  runtime_protocol_version :: nat
  runtime_socket_path :: string
  runtime_process_id :: nat
  runtime_started_at :: nat

definition runtime_record_current :: "host \<Rightarrow> string \<Rightarrow> nat \<Rightarrow> RuntimeRecord" where
  "runtime_record_current h socket now =
    \<lparr>runtime_protocol_version = PROTOCOL_VERSION, runtime_socket_path = socket,
     runtime_process_id = host_pid h, runtime_started_at = now\<rparr>"

definition write_runtime_record ::
  "host \<Rightarrow> (RuntimeRecord \<Rightarrow> string option) \<Rightarrow> AppPaths \<Rightarrow> RuntimeRecord \<Rightarrow> unit io" where
  "write_runtime_record h json_to a record =
    io_bind (ensure_private_directories h a) (\<lambda>_.
    io_bind (io_return (ok_or (MalformedFrame ''json'') (json_to record))) (\<lambda>bytes.
    write_private_atomic h (runtime_record_path a) bytes))"

definition read_runtime_record ::
  "(string \<Rightarrow> RuntimeRecord option) \<Rightarrow> AppPaths \<Rightarrow> RuntimeRecord io" where
  "read_runtime_record json_from a =
    io_bind (read_file (runtime_record_path a)) (\<lambda>bytes.
    io_bind (io_return (ok_or (MalformedFrame ''json'') (json_from bytes))) (\<lambda>record.
    io_return
      (if runtime_protocol_version record \<noteq> PROTOCOL_VERSION
       then Inl (UnsupportedVersion (runtime_protocol_version record) PROTOCOL_VERSION)
       else if runtime_socket_path record = []
       then Inl (InvalidInput ''runtime record does not contain a socket path'')
       else Inr record)))"

section \<open>What a private file guarantees\<close>

definition private_file :: "string \<Rightarrow> fs \<Rightarrow> bool" where
  "private_file p s \<longleftrightarrow> (\<exists>m d. s p = Some (File m d) \<and> m AND 0x3F = 0)"

definition holds_data :: "string \<Rightarrow> string \<Rightarrow> fs \<Rightarrow> bool" where
  "holds_data p d s \<longleftrightarrow> (\<exists>m. s p = Some (File m d) \<and> m AND 0x3F = 0)"

lemma and_mask_simp [simp]: "(m AND 0x1FF) AND 0x3F = m AND (0x3F :: 32 word)"
  by (simp add: and.assoc)

lemma metadata_mode_Inr:
  "metadata_mode p s = (Inr m, s') \<longleftrightarrow>
    s' = s \<and> (s p = Some (Dir m) \<or> (\<exists>d. s p = Some (File m d)))"
  by (auto simp: metadata_mode_def split: option.splits node.splits)

lemma assert_private_file_Inr:
  "assert_private_file p s = (Inr u, s') \<longleftrightarrow>
    s' = s \<and> (\<exists>m. (s p = Some (Dir m) \<or> (\<exists>d. s p = Some (File m d))) \<and> m AND 0x3F = 0)"
  by (auto simp: assert_private_file_def metadata_mode_Inr split: if_splits)

lemma read_file_Inr: "read_file p s = (Inr d, s') \<longleftrightarrow> s' = s \<and> (\<exists>m. s p = Some (File m d))"
  by (auto simp: read_file_def split: option.splits node.splits)

lemma read_secret_Inr:
  "read_secret c p s = (Inr k, s') \<longleftrightarrow>
    s' = s \<and> (\<exists>d. holds_data p d s \<and> is_utf8 d \<and> secret_from_hex c (trim d) = Inr k)"
  by (auto simp: read_secret_def assert_private_file_Inr read_file_Inr holds_data_def
      split: if_splits)

lemma write_private_new_file_Inr:
  "write_private_new_file h p d s = (Inr u, s') \<Longrightarrow>
    holds_data p d s' \<and> (\<forall>q. q \<noteq> p \<longrightarrow> s' q = s q)"
  by (auto simp: write_private_new_file_def create_new_file_def assert_private_file_Inr
      holds_data_def split: if_splits)

lemma created_mode_private: "((0x180 AND NOT u) AND 0x3F :: 32 word) = 0"
proof -
  have "(0x180 AND NOT u) AND 0x3F = (0x180 AND 0x3F) AND NOT u"
    by (simp only: and.assoc and.commute and.left_commute)
  also have "\<dots> = 0" by simp
  finally show ?thesis .
qed

end
