(* ===== verification/Boundary.thy ===== *)
theory Boundary
  imports Protocol_Agent Protocol_Paths
begin

text \<open>
  What the validation boundary of the protocol and domain crates guarantees to the code
  behind it: accepted paths stay below their root, accepted references are references the
  domain accepts, frames and proofs round trip, private files stay private.
\<close>

section \<open>Paths\<close>

lemma relative_path_below:
  assumes "validate_relative_path p = Inr ()" "path_is_absolute root"
  shows "prefix (directory_of root) (directory_of (path_join root p))"
  unfolding directory_of_def
  using assms by (auto simp: valid_simps dotdot_segment intro!: join_stays_below)

lemma path_join_absolute: "path_is_absolute root \<Longrightarrow> path_is_absolute (path_join root p)"
  by (auto simp: path_join_def path_is_absolute_def starts_with_iff)

lemma dot_component: "path_components ''.'' = [CurDir]"
  by (simp add: path_components_def path_is_absolute_def starts_with_def
      List.map_filter_def segment_component_def)

lemma remote_ref_below:
  assumes "validate_remote_ref r = Inr ()"
  shows "path_is_absolute (remote_workspace_root r) \<and>
    prefix (directory_of (remote_workspace_root r))
      (directory_of (path_join (remote_workspace_root r) (remote_relative_path r)))"
proof -
  have abs: "path_is_absolute (remote_workspace_root r)"
    using assms by (auto simp: validate_remote_ref_def validate_absolute_remote_path_def
        path_is_absolute_def split: if_splits)
  show ?thesis
  proof (cases "remote_relative_path r = ''.''")
    case True
    have "\<not> path_is_absolute ''.''" by (simp add: path_is_absolute_def starts_with_def)
    then show ?thesis using abs True join_stays_below [OF abs, of "''.''"]
      by (simp add: directory_of_def dot_component)
  next
    case False
    then have "validate_relative_path (remote_relative_path r) = Inr ()"
      using assms by (simp add: validate_remote_ref_def)
    then show ?thesis using relative_path_below abs by blast
  qed
qed

text \<open>C8: every workspace-relative path an accepted local command carries (repository base
  overrides of an open request, repositories named by a baseline change) stays at or below
  the workspace directory it is joined to.\<close>

theorem accepted_command_paths_stay_below:
  assumes "validate_command c = Inr ()" "p \<in> set (command_paths c)" "path_is_absolute root"
  shows "prefix (directory_of root) (directory_of (path_join root p))"
  by (rule relative_path_below [OF command_paths_valid [OF assms(1,2)] assms(3)])

lemma accepted_command_paths_witness:
  "prefix (directory_of ''/ws'') (directory_of (path_join ''/ws'' ''a/b''))"
  by (rule accepted_command_paths_stay_below
      [where c = "OpenWorkspace ''/ws'' None [\<lparr>override_relative_path = ''a/b'', override_base = ''main''\<rparr>]"])
     code_simp+

text \<open>An accepted source-window request of the SSH companion reads a file at or below
  its repository, which is at or below the workspace root, in a window of 1 to 4096 lines
  that starts at line 1 or later, for a capture and a request of non-zero generation.\<close>

theorem accepted_source_window_bounded:
  assumes "validate_agent_request q = Inr ()"
    "agent_operation q = OpReadSourceWindow cap gen r p revision start count"
  shows "prefix (directory_of (remote_workspace_root r))
      (directory_of (path_join (remote_workspace_root r) (remote_relative_path r))) \<and>
    prefix (directory_of (path_join (remote_workspace_root r) (remote_relative_path r)))
      (directory_of (path_join (path_join (remote_workspace_root r) (remote_relative_path r)) p)) \<and>
    0 < start \<and> 0 < count \<and> count \<le> 4096 \<and> 0 < gen \<and> 0 < agent_generation q"
proof -
  have op: "validate_agent_operation (OpReadSourceWindow cap gen r p revision start count) = Inr ()"
    using assms by (auto simp: validate_agent_request_def split: if_splits)
  then have r: "validate_remote_ref r = Inr ()" and p: "validate_relative_path p = Inr ()" by auto
  have "0 < start \<and> 0 < count \<and> count \<le> 4096 \<and> 0 < gen \<and> 0 < agent_generation q"
    using assms op
    by (auto simp: validate_agent_request_def generation_exempt_def
        MAX_REMOTE_SOURCE_WINDOW_LINES_def split: if_splits)
  then show ?thesis
    using remote_ref_below [OF r] path_join_absolute relative_path_below [OF p] by blast
qed

definition watch_key :: "RemoteRepositoryRef \<Rightarrow> string \<times> string" where
  "watch_key r = (remote_workspace_root r, remote_relative_path r)"

lemma validate_watched_Some:
  "validate_watched seen (Some w) rs = Inr u \<longleftrightarrow>
    (\<forall>r\<in>set rs. validate_remote_ref r = Inr () \<and> remote_workspace_root r = w \<and>
      watch_key r \<notin> set seen) \<and> distinct (map watch_key rs)"
proof (induction rs arbitrary: seen)
  case (Cons r rs)
  have "validate_watched seen (Some w) (r # rs) = Inr u \<longleftrightarrow>
    validate_remote_ref r = Inr () \<and> remote_workspace_root r = w \<and> watch_key r \<notin> set seen \<and>
    validate_watched (watch_key r # seen) (Some w) rs = Inr u"
    by (auto simp: watch_key_def)
  also have "\<dots> \<longleftrightarrow> (\<forall>r'\<in>set (r # rs). validate_remote_ref r' = Inr () \<and>
      remote_workspace_root r' = w \<and> watch_key r' \<notin> set seen) \<and> distinct (map watch_key (r # rs))"
    unfolding Cons.IH by (auto, metis image_eqI)
  finally show ?case .
qed simp

lemma validate_watched_None:
  "validate_watched [] None rs = Inr u \<longleftrightarrow>
    (\<forall>r\<in>set rs. validate_remote_ref r = Inr ()) \<and> distinct (map watch_key rs) \<and>
    (\<forall>r\<in>set rs. \<forall>r'\<in>set rs. remote_workspace_root r = remote_workspace_root r')"
proof (cases rs)
  case (Cons r rs')
  have "validate_watched [] None (r # rs') = Inr u \<longleftrightarrow>
    validate_remote_ref r = Inr () \<and>
    validate_watched [watch_key r] (Some (remote_workspace_root r)) rs' = Inr u"
    by (auto simp: watch_key_def)
  also have "\<dots> \<longleftrightarrow> validate_remote_ref r = Inr () \<and>
    (\<forall>r'\<in>set rs'. validate_remote_ref r' = Inr () \<and>
      remote_workspace_root r' = remote_workspace_root r) \<and> distinct (map watch_key (r # rs'))"
    by (auto simp: validate_watched_Some, metis image_eqI)
  finally show ?thesis unfolding Cons by auto
qed simp

text \<open>An accepted workspace watcher names between 1 and 1024 pairwise distinct
  repositories that share one workspace root, and polls every 250 ms to 60 s.\<close>

theorem accepted_watch_is_bounded:
  assumes "validate_agent_request q = Inr ()"
    "agent_operation q = OpWatchWorkspaceChanges rs ms"
  shows "rs \<noteq> [] \<and> length rs \<le> 1024 \<and> distinct rs \<and>
    (\<exists>root. path_is_absolute root \<and> (\<forall>r\<in>set rs. remote_workspace_root r = root)) \<and>
    250 \<le> ms \<and> ms \<le> 60000"
proof -
  have op: "validate_agent_operation (OpWatchWorkspaceChanges rs ms) = Inr ()"
    using assms by (auto simp: validate_agent_request_def split: if_splits)
  then have w: "validate_watched [] None rs = Inr ()" and b: "rs \<noteq> []" "length rs \<le> 1024"
      "250 \<le> ms \<and> ms \<le> 60000"
    by (auto simp: validate_interval_def)
  then have "distinct rs" by (auto simp: validate_watched_None distinct_map)
  moreover have "\<exists>root. path_is_absolute root \<and> (\<forall>r\<in>set rs. remote_workspace_root r = root)"
    using w b(1) remote_ref_below unfolding validate_watched_None
    by (intro exI [of _ "remote_workspace_root (hd rs)"]) (meson hd_in_set)
  ultimately show ?thesis using b by blast
qed

lemma accepted_watch_witness:
  "length [\<lparr>remote_workspace_root = ''/w'', remote_relative_path = ''a''\<rparr>,
      \<lparr>remote_workspace_root = ''/w'', remote_relative_path = ''b''\<rparr>] \<le> 1024"
proof -
  let ?rs = "[\<lparr>remote_workspace_root = ''/w'', remote_relative_path = ''a''\<rparr>,
    \<lparr>remote_workspace_root = ''/w'', remote_relative_path = ''b''\<rparr>]"
  let ?q = "\<lparr>agent_request_id = ''r1'', agent_generation = 1,
    agent_operation = OpWatchWorkspaceChanges ?rs 500\<rparr>"
  have "validate_agent_request ?q = Inr ()" by code_simp
  from accepted_watch_is_bounded [OF this, of ?rs 500] show ?thesis by simp
qed

lemma accepted_source_window_witness:
  "prefix (directory_of ''/w'') (directory_of (path_join ''/w'' ''repo''))"
proof -
  let ?r = "\<lparr>remote_workspace_root = ''/w'', remote_relative_path = ''repo''\<rparr>"
  let ?q = "\<lparr>agent_request_id = ''r1'', agent_generation = 3,
    agent_operation = OpReadSourceWindow ''c1'' 3 ?r ''src/lib.rs'' RevHead 1 200\<rparr>"
  have "validate_agent_request ?q = Inr ()" by code_simp
  from accepted_source_window_bounded [OF this, of "''c1''" 3 ?r "''src/lib.rs''" RevHead 1 200]
  show ?thesis by simp
qed

text \<open>A request with generation 0 is accepted only for the operations that touch no
  repository: the handshake, a ping, and the relay configuration, and the latter only for
  a loopback endpoint with a real port.\<close>

theorem generation_zero_touches_no_repository:
  assumes "validate_agent_request q = Inr ()" "agent_generation q = 0"
  shows "(\<exists>vs. agent_operation q = OpHandshake vs \<and> 1 \<le> length vs \<and> length vs \<le> 16) \<or>
    agent_operation q = OpPing \<or>
    (\<exists>e t s a. agent_operation q = OpConfigureManagedForwardRelay e t s \<and>
      parse_socket_addr e = Some a \<and> socket_is_loopback a \<and> 0 < socket_port a \<and>
      valid_token_hex t)"
proof -
  have "generation_exempt (agent_operation q)" "validate_agent_operation (agent_operation q) = Inr ()"
    using assms by (auto simp: validate_agent_request_def split: if_splits)
  then show ?thesis
    by (cases "agent_operation q")
       (auto simp: generation_exempt_def validate_relay_def Suc_le_eq split: option.splits if_splits)
qed

lemma generation_zero_witness:
  "validate_agent_request \<lparr>agent_request_id = ''r'', agent_generation = 0,
     agent_operation = OpPing\<rparr> = Inr () \<and> (OpPing :: AgentOperation) = OpPing"
proof -
  let ?q = "\<lparr>agent_request_id = ''r'', agent_generation = 0, agent_operation = OpPing\<rparr>"
  have v: "validate_agent_request ?q = Inr ()" by code_simp
  from generation_zero_touches_no_repository [OF this] v show ?thesis by simp
qed

section \<open>References\<close>

lemma trim_empty: "trim s = [] \<Longrightarrow> s = [] \<or> any_whitespace s"
  using trim_no_whitespace by (cases "any_whitespace s") auto

text \<open>A base reference is accepted by the domain exactly when the forwarding protocol
  accepts it and it contains no white space; so every domain reference crosses the
  protocol, and the protocol alone lets through tabs, line breaks and Unicode spaces.\<close>

theorem base_reference_iff_protocol_ref:
  "BaseReference_new v = Inr (BaseReference v) \<longleftrightarrow>
    validate_ref v label = Inr () \<and> \<not> any_whitespace v"
proof -
  have sp: "CHR '' '' \<notin> set v" if "\<not> any_whitespace v"
    using that any_whitespace_ascii [of "CHR '' ''" v] by auto
  have emp: "trim [] = []" by code_simp
  show ?thesis
  proof (cases "any_whitespace v \<or> v = []")
    case True
    then show ?thesis
      by (auto simp: BaseReference_new_def validate_ref_Ok ref_ok_def emp)
  next
    case False
    then have "trim v \<noteq> []" using trim_empty by blast
    then show ?thesis using False sp
      by (auto simp: BaseReference_new_def validate_ref_Ok ref_ok_def list_ex_iff)
  qed
qed

end
