(* ===== verification/Transport.thy ===== *)
theory Transport
  imports Protocol_Paths
begin

text \<open>
  The results about frames, request proofs and private files: round trip and bounds of
  the frame codec, what a verified proof binds, and who can read the installation secret.
\<close>

section \<open>Frames\<close>

lemma write_frame_Inr:
  assumes "write_frame w written v = Inr out"
  obtains payload envelope body where
    "cbor_to_vec w v = Some payload" "length payload \<le> MAX_UNCOMPRESSED_FRAME_BYTES"
    "frame_envelope w payload = Inr envelope" "envelope_to_vec w envelope = Some body"
    "length body \<le> MAX_FRAME_BYTES" "out = written @ be32 (length body) @ body"
  using assms by (auto simp: write_frame_def split: if_splits)

text \<open>C26: what one side writes, the other side reads: a frame appended to any stream is read
  back as the same message, and the reader is left at the first byte after it, whether the
  payload travelled raw or compressed.\<close>

theorem frame_round_trip:
  assumes "faithful_wire w" "write_frame w written v = Inr out"
  shows "\<exists>frame. out = written @ frame \<and> read_frame w (frame @ rest) = Inr (v, rest)"
proof -
  from assms(2) obtain payload envelope body where
    p: "cbor_to_vec w v = Some payload" "length payload \<le> MAX_UNCOMPRESSED_FRAME_BYTES" and
    e: "frame_envelope w payload = Inr envelope" "envelope_to_vec w envelope = Some body" and
    b: "length body \<le> MAX_FRAME_BYTES" "out = written @ be32 (length body) @ body"
    by (rule write_frame_Inr)
  have lt: "length body < 4294967296" using b(1) by (simp add: MAX_FRAME_BYTES_def)
  have "open_envelope w envelope = Inr payload"
    using assms(1) p(2) e(1) by (rule open_frame_envelope)
  moreover have "envelope_from_slice w body = Some envelope" "cbor_from_slice w payload = Some v"
    using assms(1) e(2) p(1) by (auto simp: faithful_wire_def)
  ultimately have "read_frame w ((be32 (length body) @ body) @ rest) = Inr (v, rest)"
    using b(1) lt by (simp add: read_frame_def read_exact_def from_be32_be32 ok_or_def)
  with b(2) show ?thesis by blast
qed

text \<open>An instance of the codecs: every message is a byte string sent as it is.\<close>

definition plain_wire :: "string wire" where
  "plain_wire =
    \<lparr>cbor_to_vec = Some, cbor_from_slice = Some,
     envelope_to_vec = (\<lambda>e. Some (case e of EnvelopeRaw p \<Rightarrow> CHR ''r'' # p | EnvelopeZstd p \<Rightarrow> CHR ''z'' # p)),
     envelope_from_slice = (\<lambda>b. case b of [] \<Rightarrow> None
        | c # p \<Rightarrow> if c = CHR ''r'' then Some (EnvelopeRaw p) else Some (EnvelopeZstd p)),
     zstd_encode = Some, zstd_open = (\<lambda>_. True), zstd_stream = (\<lambda>z. (z, True))\<rparr>"

lemma plain_wire_faithful: "faithful_wire plain_wire"
  by (auto simp: faithful_wire_def plain_wire_def split: FrameEnvelope.splits)

lemma frame_round_trip_witness:
  "\<exists>frame. Inr (be32 3 @ ''rhi'') = (Inr ([] @ frame) :: ProtocolError + string) \<and>
    read_frame plain_wire (frame @ ''next'') = Inr (''hi'', ''next'')"
proof -
  have "write_frame plain_wire [] ''hi'' = Inr (be32 3 @ ''rhi'')"
    by code_simp
  from frame_round_trip [OF plain_wire_faithful this, of "''next''"] show ?thesis by simp
qed

text \<open>Whatever bytes a peer sends and whatever the codecs do with them, a message is only
  decoded from a payload of at most 32 MiB taken from a frame body of at most 8 MiB, and
  exactly the announced bytes are consumed.\<close>

theorem read_frame_bounded:
  assumes "read_frame w input = Inr (v, rest)"
  shows "\<exists>header body payload. input = header @ body @ rest \<and> length header = 4 \<and>
    length body = from_be32 header \<and> length body \<le> 8 * 1024 * 1024 \<and>
    length payload \<le> 32 * 1024 * 1024 \<and> cbor_from_slice w payload = Some v"
proof -
  from assms obtain payload envelope where
    l: "4 \<le> length input" and n: "from_be32 (take 4 input) \<le> MAX_FRAME_BYTES" and
    m: "from_be32 (take 4 input) \<le> length (drop 4 input)" and
    e: "open_envelope w envelope = Inr payload" and c: "cbor_from_slice w payload = Some v" and
    r: "rest = drop (from_be32 (take 4 input)) (drop 4 input)"
    by (auto simp: read_frame_def read_exact_def Let_def split: if_splits)
  show ?thesis
  proof (intro exI conjI)
    show "input = take 4 input @ take (from_be32 (take 4 input)) (drop 4 input) @ rest"
      by (simp only: r append_take_drop_id)
    show "length (take (from_be32 (take 4 input)) (drop 4 input)) = from_be32 (take 4 input)"
      using m by simp
    then show "length (take (from_be32 (take 4 input)) (drop 4 input)) \<le> 8 * 1024 * 1024"
      using n by (simp only: MAX_FRAME_BYTES_def)
    show "length payload \<le> 32 * 1024 * 1024"
      using open_envelope_bound [OF e] by (simp only: MAX_UNCOMPRESSED_FRAME_BYTES_def)
  qed (use l c in simp_all)
qed

lemma read_frame_bounded_witness:
  "\<exists>header body payload. be32 3 @ ''rhi!'' = header @ body @ ''!'' \<and>
    length header = 4 \<and> length body = from_be32 header \<and> length body \<le> 8 * 1024 * 1024 \<and>
    length payload \<le> 32 * 1024 * 1024 \<and> cbor_from_slice plain_wire payload = Some ''hi''"
  by (rule read_frame_bounded) code_simp

section \<open>Proofs of requests\<close>


definition toy_request :: "string \<Rightarrow> AuthProof LocalRequest" where
  "toy_request i =
    \<lparr>req_version = 5, req_request_id = i, req_issued_at = 100, req_command = ListWorkspaces,
     req_authentication = \<lparr>mac_hex = []\<rparr>\<rparr>"

definition toy_crypto :: crypto where
  "toy_crypto =
    \<lparr>hex_encode = (\<lambda>b. b), hex_decode = Some, hmac_sha256 = (\<lambda>k b. k @ b),
     payload_cbor = (\<lambda>p. if p = signing_payload (toy_request (payload_request_id p))
       then Some (payload_request_id p) else None)\<rparr>"

lemma toy_payload_id: "payload_request_id (signing_payload (toy_request i)) = i"
  by (simp add: signing_payload_def toy_request_def)

lemma toy_cbor: "payload_cbor toy_crypto x = Some b \<longleftrightarrow> x = signing_payload (toy_request b)"
  by (auto simp: toy_crypto_def toy_payload_id)

lemma toy_hex: "hex_encode toy_crypto b = b" "hex_decode toy_crypto b = Some b"
  "hmac_sha256 toy_crypto k b = k @ b"
  by (simp_all add: toy_crypto_def)


section \<open>The installation secret\<close>

text \<open>C27: a process that asks for the installation secret gets one that every later load
  reads back, and the file it is read from gives no permission to group or others; this
  also holds when other processes created the file between the existence check and the
  attempt to create it.\<close>

theorem secret_is_stable_and_private:
  assumes load: "load_or_create_secret h c others a generated s = (Inr k, s')"
    and hex: "hex_decode c (hex_encode c generated) = Some generated"
    and clean: "is_utf8 (hex_encode c generated)" "\<not> any_whitespace (hex_encode c generated)"
    and len: "length generated = SECRET_LEN"
  shows "load_secret c a s' = (Inr k, s') \<and> private_file (secret_path a) s'"
proof -
  let ?p = "secret_path a"
  have read: "load_secret c a s' = (Inr k, s') \<and> private_file ?p s'"
    if "read_secret c ?p s1 = (Inr k, s')" for s1
    using that by (auto simp: load_secret_def read_secret_Inr private_file_def holds_data_def)
  from load obtain s1 where s1: "ensure_private_directories h a s = (Inr (), s1)"
    and rest: "(if path_exists ?p s1 then read_secret c ?p s1
       else (case write_private_new_file h ?p (secret_to_hex c (InstallationSecret generated)) (others s1) of
          (Inr _, s') \<Rightarrow> (Inr (InstallationSecret generated), s')
        | (Inl e, s') \<Rightarrow> if path_exists ?p s' then read_secret c ?p s' else (Inl e, s'))) = (Inr k, s')"
    unfolding load_or_create_secret_def Let_def by auto
  show ?thesis
  proof (cases "path_exists ?p s1")
    case True
    with rest read show ?thesis by simp
  next
    case False
    obtain res s2 where w: "write_private_new_file h ?p
        (secret_to_hex c (InstallationSecret generated)) (others s1) = (res, s2)"
      by (cases "write_private_new_file h ?p
        (secret_to_hex c (InstallationSecret generated)) (others s1)")
    show ?thesis
    proof (cases res)
      case (Inl e)
      with rest w False read show ?thesis by (auto split: if_splits)
    next
      case (Inr u)
      with rest w False have k: "k = InstallationSecret generated" "s' = s2" by auto
      from w Inr write_private_new_file_Inr
      have d: "holds_data ?p (secret_to_hex c (InstallationSecret generated)) s2" by blast
      moreover have "secret_from_hex c (trim (secret_to_hex c (InstallationSecret generated))) = Inr k"
        using clean len
        by (simp add: secret_to_hex_def trim_no_whitespace secret_from_hex_def hex ok_or_def k)
      ultimately have "read_secret c ?p s2 = (Inr k, s2)"
        using clean by (auto simp: read_secret_Inr secret_to_hex_def)
      with read k show ?thesis by blast
    qed
  qed
qed

definition toy_host :: host where
  "toy_host = \<lparr>host_env = (\<lambda>_. None), host_macos = False, host_temp_dir = ''/tmp'',
    host_umask = 0x12, host_pid = 7\<rparr>"

definition toy_key :: string where
  "toy_key = replicate 32 CHR ''k''"

lemma secret_is_stable_and_private_witness:
  "\<exists>s'. load_or_create_secret toy_host toy_crypto (\<lambda>s. s) (with_roots ''/d'' ''/r'') toy_key
      [''/'' \<mapsto> Dir 0x1ED] = (Inr (InstallationSecret toy_key), s') \<and>
    load_secret toy_crypto (with_roots ''/d'' ''/r'') s' = (Inr (InstallationSecret toy_key), s')"
proof -
  have "fst (load_or_create_secret toy_host toy_crypto (\<lambda>s. s) (with_roots ''/d'' ''/r'') toy_key
      [''/'' \<mapsto> Dir 0x1ED]) = Inr (InstallationSecret toy_key)" by code_simp
  then obtain s' where run: "load_or_create_secret toy_host toy_crypto (\<lambda>s. s)
      (with_roots ''/d'' ''/r'') toy_key [''/'' \<mapsto> Dir 0x1ED] = (Inr (InstallationSecret toy_key), s')"
    by (metis prod.collapse)
  have "is_utf8 toy_key" "\<not> any_whitespace toy_key" "length toy_key = SECRET_LEN" by code_simp+
  with secret_is_stable_and_private [OF run] run show ?thesis by (simp only: toy_hex) blast
qed

end
