(* ===== verification/Diff_Model.thy ===== *)
theory Diff_Model
  imports Domain
begin

text \<open>
  \<open>crates/diff/src/lib.rs\<close>, the canonical side-aware document and its projections:
  building it from whole-file sources, the split rows of a hunk and the two full-file
  projections.  BLAKE3 (\<open>blake3\<close>) and the line diff of the \<open>similar\<close> crate (\<open>grouped\<close>:
  the changes of each group of three-line context) are parameters; a \<open>RoaringBitmap\<close> is
  the set of the line numbers in it.  \<open>u32\<close> increments wrap as in a release build
  (\<open>inc32\<close>), conversions that fall back to \<open>u32::MAX\<close> are \<open>to_u32\<close>.
\<close>

definition inc32 :: "nat \<Rightarrow> nat" where "inc32 n = (n + 1) mod 4294967296"
definition to_u32 :: "nat \<Rightarrow> nat" where "to_u32 n = min n U32_MAX"

section \<open>Data\<close>

datatype ReviewFileStatus =
    FileAdded | FileModified | FileDeleted | FileRenamed | FileCopied | FileBinary
  | FileModeChanged | FileTypeChanged | FileSubmodule | FileLfsPointer

record ReviewFile =
  file_id :: ReviewFileId
  file_path :: StoredPath
  file_old_path :: "StoredPath option"
  file_status :: ReviewFileStatus

record SourceDocument =
  content :: string
  source_fingerprint :: string
  line_count :: nat
  has_final_newline :: bool

definition SourceDocument_new :: "(string \<Rightarrow> string) \<Rightarrow> string \<Rightarrow> SourceDocument" where
  "SourceDocument_new blake3 text =
    \<lparr>content = text, source_fingerprint = blake3 text,
     line_count = to_u32 (length (str_lines text)),
     has_final_newline = (text = [] \<or> ends_with text [NL])\<rparr>"

definition source_lines :: "SourceDocument \<Rightarrow> string list" where
  "source_lines d = str_lines (content d)"

datatype StableHunkId = StableHunkId (hunk_id_str: string)

record HunkHeader =
  old_start :: nat
  old_count :: nat
  new_start :: nat
  new_count :: nat
  header_context :: "string option"

datatype DiffLineKind = Context | Addition | Removal

record DiffCell =
  cell_side :: DiffSide
  line_number :: nat
  cell_kind :: DiffLineKind
  source_line_index :: nat
  cell_text :: string
  has_trailing_newline :: bool

record UnifiedRow =
  row_id :: string
  row_kind :: DiffLineKind
  row_old :: "DiffCell option"
  row_new :: "DiffCell option"

record SplitRow =
  split_row_id :: string
  split_old :: "DiffCell option"
  split_new :: "DiffCell option"

record FullFileRow =
  full_side :: DiffSide
  full_line_number :: nat
  full_text :: string
  full_changed :: bool
  full_trailing_newline :: bool

record ReviewHunk =
  hunk_id :: StableHunkId
  hunk_header :: HunkHeader
  unified_rows :: "UnifiedRow list"
  split_rows :: "SplitRow list"

record ReviewDiffDocument =
  doc_comparison :: ComparisonId
  doc_file :: ReviewFile
  doc_old :: SourceDocument
  doc_new :: SourceDocument
  doc_hunks :: "ReviewHunk list"
  changed_old_lines :: "nat set"
  changed_new_lines :: "nat set"

datatype DiffError =
    MissingFileHeader
  | InvalidHunkHeader string
  | InvalidHunkLine
  | HunkLineCountMismatch nat nat nat nat
  | MissingNoNewlineTarget

section \<open>Rows and hunks\<close>

definition make_cell :: "DiffSide \<Rightarrow> nat \<Rightarrow> DiffLineKind \<Rightarrow> string \<Rightarrow> bool \<Rightarrow> DiffCell" where
  "make_cell side index kind text newline =
    \<lparr>cell_side = side, line_number = inc32 index, cell_kind = kind, source_line_index = index,
     cell_text = text, has_trailing_newline = newline\<rparr>"

definition show_kind :: "DiffLineKind \<Rightarrow> string" where
  "show_kind k = (case k of Context \<Rightarrow> ''Context'' | Addition \<Rightarrow> ''Addition'' | Removal \<Rightarrow> ''Removal'')"

definition show_bool :: "bool \<Rightarrow> string" where
  "show_bool b = (if b then ''true'' else ''false'')"

definition opt_line :: "DiffCell option \<Rightarrow> nat" where
  "opt_line c = (case c of None \<Rightarrow> 0 | Some x \<Rightarrow> line_number x)"

definition opt_newline :: "DiffCell option \<Rightarrow> bool" where
  "opt_newline c = (case c of None \<Rightarrow> False | Some x \<Rightarrow> has_trailing_newline x)"

definition stable_row_id ::
  "(string \<Rightarrow> string) \<Rightarrow> StoredPath \<Rightarrow> DiffCell option \<Rightarrow> DiffCell option \<Rightarrow> DiffLineKind \<Rightarrow> nat \<Rightarrow> string"
where
  "stable_row_id blake3 path old new kind ordinal =
    blake3 (path_str path @ [NUL] @ show_kind kind @ [NUL] @
      show_nat (opt_line old) @ [NUL] @ show_nat (opt_line new) @ [NUL] @
      (case old of Some c \<Rightarrow> cell_text c
        | None \<Rightarrow> (case new of Some c \<Rightarrow> cell_text c | None \<Rightarrow> [])) @ [NUL] @
      show_bool (opt_newline old) @ [NUL] @ show_bool (opt_newline new) @ [NUL] @ show_nat ordinal)"

definition split_id ::
  "(string \<Rightarrow> string) \<Rightarrow> StableHunkId \<Rightarrow> nat \<Rightarrow> DiffCell option \<Rightarrow> DiffCell option \<Rightarrow> string" where
  "split_id blake3 hid ordinal old new =
    blake3 (hunk_id_str hid @ [NUL] @ show_nat ordinal @ [NUL] @
      show_nat (opt_line old) @ [NUL] @ show_nat (opt_line new))"

definition nth_opt :: "'a list \<Rightarrow> nat \<Rightarrow> 'a option" where
  "nth_opt xs i = (if i < length xs then Some (xs ! i) else None)"

text \<open>The \<open>flush\<close> closure: pending removals and additions side by side.\<close>

definition flush_split ::
  "(string \<Rightarrow> string) \<Rightarrow> StableHunkId \<Rightarrow> SplitRow list \<Rightarrow> DiffCell list \<Rightarrow> DiffCell list \<Rightarrow> SplitRow list"
where
  "flush_split blake3 hid result removals additions =
    foldl (\<lambda>acc i.
        let old = nth_opt removals i; new = nth_opt additions i
        in acc @ [\<lparr>split_row_id = split_id blake3 hid (length acc) old new,
                  split_old = old, split_new = new\<rparr>])
      result [0..<max (length removals) (length additions)]"

fun build_split_loop ::
  "(string \<Rightarrow> string) \<Rightarrow> StableHunkId \<Rightarrow> SplitRow list \<Rightarrow> DiffCell list \<Rightarrow> DiffCell list \<Rightarrow>
    UnifiedRow list \<Rightarrow> SplitRow list"
where
  "build_split_loop blake3 hid result removals additions [] =
    flush_split blake3 hid result removals additions"
| "build_split_loop blake3 hid result removals additions (row # rows) =
    (case row_kind row of
      Removal \<Rightarrow> build_split_loop blake3 hid result
        (removals @ (case row_old row of None \<Rightarrow> [] | Some c \<Rightarrow> [c])) additions rows
    | Addition \<Rightarrow> build_split_loop blake3 hid result removals
        (additions @ (case row_new row of None \<Rightarrow> [] | Some c \<Rightarrow> [c])) rows
    | Context \<Rightarrow>
        (let flushed = flush_split blake3 hid result removals additions
         in build_split_loop blake3 hid
              (flushed @ [\<lparr>split_row_id = split_id blake3 hid (length flushed) (row_old row) (row_new row),
                          split_old = row_old row, split_new = row_new row\<rparr>]) [] [] rows))"

definition build_split_rows ::
  "(string \<Rightarrow> string) \<Rightarrow> StableHunkId \<Rightarrow> UnifiedRow list \<Rightarrow> SplitRow list" where
  "build_split_rows blake3 hid rows = build_split_loop blake3 hid [] [] [] rows"

definition make_hunk ::
  "(string \<Rightarrow> string) \<Rightarrow> StoredPath \<Rightarrow> HunkHeader \<Rightarrow> UnifiedRow list \<Rightarrow> ReviewHunk" where
  "make_hunk blake3 path header rows =
    (let hid = StableHunkId (blake3 (path_str path @ [NUL] @
           show_nat (old_start header) @ [NUL] @ show_nat (old_count header) @ [NUL] @
           show_nat (new_start header) @ [NUL] @ show_nat (new_count header) @
           concat (map row_id rows)))
     in \<lparr>hunk_id = hid, hunk_header = header, unified_rows = rows,
         split_rows = build_split_rows blake3 hid rows\<rparr>)"

section \<open>Documents from sources\<close>

datatype ChangeTag = TagEqual | TagDelete | TagInsert

record LineChange =
  change_tag :: ChangeTag
  change_old_index :: "nat option"
  change_new_index :: "nat option"
  change_value :: string

record GroupState =
  g_rows :: "UnifiedRow list"
  g_old_start :: "nat option"
  g_new_start :: "nat option"
  g_old_empty :: "nat option"
  g_new_empty :: "nat option"
  g_old_count :: nat
  g_new_count :: nat
  g_changed_old :: "nat set"
  g_changed_new :: "nat set"

definition get_or_insert :: "nat option \<Rightarrow> nat \<Rightarrow> nat option" where
  "get_or_insert m n = (case m of None \<Rightarrow> Some n | Some x \<Rightarrow> Some x)"

definition unwrap_or :: "nat option \<Rightarrow> nat \<Rightarrow> nat" where
  "unwrap_or m n = (case m of None \<Rightarrow> n | Some x \<Rightarrow> x)"

definition push_row ::
  "(string \<Rightarrow> string) \<Rightarrow> StoredPath \<Rightarrow> DiffLineKind \<Rightarrow> DiffCell option \<Rightarrow> DiffCell option \<Rightarrow>
    UnifiedRow list \<Rightarrow> UnifiedRow list" where
  "push_row blake3 path kind old new rows =
    rows @ [\<lparr>row_id = stable_row_id blake3 path old new kind (length rows), row_kind = kind,
             row_old = old, row_new = new\<rparr>]"

definition group_step ::
  "(string \<Rightarrow> string) \<Rightarrow> StoredPath \<Rightarrow> SourceDocument \<Rightarrow> SourceDocument \<Rightarrow>
    GroupState \<Rightarrow> LineChange \<Rightarrow> GroupState" where
  "group_step blake3 path old new g change =
    (let newline = ends_with (change_value change) [NL];
         text = (case strip_suffix [NL] (change_value change) of
            None \<Rightarrow> change_value change | Some t \<Rightarrow> t)
     in case change_tag change of
      TagEqual \<Rightarrow>
        (let old_index = to_u32 (unwrap_or (change_old_index change) 0);
             new_index = to_u32 (unwrap_or (change_new_index change) 0)
         in g\<lparr>g_old_start := get_or_insert (g_old_start g) (inc32 old_index),
              g_new_start := get_or_insert (g_new_start g) (inc32 new_index),
              g_old_count := inc32 (g_old_count g),
              g_new_count := inc32 (g_new_count g),
              g_rows := push_row blake3 path Context
                (Some (make_cell Old old_index Context text newline))
                (Some (make_cell New new_index Context text newline)) (g_rows g)\<rparr>)
    | TagDelete \<Rightarrow>
        (let old_index = to_u32 (unwrap_or (change_old_index change) 0)
         in g\<lparr>g_old_start := get_or_insert (g_old_start g) (inc32 old_index),
              g_new_empty := get_or_insert (g_new_empty g)
                (to_u32 (unwrap_or (change_new_index change) (length (source_lines new)))),
              g_old_count := inc32 (g_old_count g),
              g_changed_old := insert (inc32 old_index) (g_changed_old g),
              g_rows := push_row blake3 path Removal
                (Some (make_cell Old old_index Removal text newline)) None (g_rows g)\<rparr>)
    | TagInsert \<Rightarrow>
        (let new_index = to_u32 (unwrap_or (change_new_index change) 0)
         in g\<lparr>g_old_empty := get_or_insert (g_old_empty g)
                (to_u32 (unwrap_or (change_old_index change) (length (source_lines old)))),
              g_new_start := get_or_insert (g_new_start g) (inc32 new_index),
              g_new_count := inc32 (g_new_count g),
              g_changed_new := insert (inc32 new_index) (g_changed_new g),
              g_rows := push_row blake3 path Addition None
                (Some (make_cell New new_index Addition text newline)) (g_rows g)\<rparr>))"

definition group_start :: "nat set \<Rightarrow> nat set \<Rightarrow> GroupState" where
  "group_start co cn =
    \<lparr>g_rows = [], g_old_start = None, g_new_start = None, g_old_empty = None, g_new_empty = None,
     g_old_count = 0, g_new_count = 0, g_changed_old = co, g_changed_new = cn\<rparr>"

definition group_header :: "GroupState \<Rightarrow> HunkHeader" where
  "group_header g =
    \<lparr>old_start = (if g_old_count g = 0 then unwrap_or (g_old_empty g) 0 else unwrap_or (g_old_start g) 1),
     old_count = g_old_count g,
     new_start = (if g_new_count g = 0 then unwrap_or (g_new_empty g) 0 else unwrap_or (g_new_start g) 1),
     new_count = g_new_count g, header_context = None\<rparr>"

fun document_groups ::
  "(string \<Rightarrow> string) \<Rightarrow> StoredPath \<Rightarrow> SourceDocument \<Rightarrow> SourceDocument \<Rightarrow> LineChange list list \<Rightarrow>
    nat set \<Rightarrow> nat set \<Rightarrow> ReviewHunk list \<times> nat set \<times> nat set" where
  "document_groups blake3 path old new [] co cn = ([], co, cn)"
| "document_groups blake3 path old new (grp # groups) co cn =
    (let g = foldl (group_step blake3 path old new) (group_start co cn) grp;
         (hunks, co', cn') = document_groups blake3 path old new groups (g_changed_old g) (g_changed_new g)
     in (if g_rows g \<noteq> [] then make_hunk blake3 path (group_header g) (g_rows g) # hunks else hunks,
         co', cn'))"

definition document_from_sources ::
  "(string \<Rightarrow> string) \<Rightarrow> (string \<Rightarrow> string \<Rightarrow> LineChange list list) \<Rightarrow> ComparisonId \<Rightarrow> ReviewFile \<Rightarrow>
    string \<Rightarrow> string \<Rightarrow> ReviewDiffDocument" where
  "document_from_sources blake3 grouped comparison file old_content new_content =
    (let old = SourceDocument_new blake3 old_content;
         new = SourceDocument_new blake3 new_content;
         (hunks, co, cn) = document_groups blake3 (file_path file) old new
           (grouped old_content new_content) {} {}
     in \<lparr>doc_comparison = comparison, doc_file = file, doc_old = old, doc_new = new,
         doc_hunks = hunks, changed_old_lines = co, changed_new_lines = cn\<rparr>)"

section \<open>Full-file projections\<close>

definition full_file_row :: "DiffSide \<Rightarrow> SourceDocument \<Rightarrow> nat set \<Rightarrow> nat \<times> string \<Rightarrow> FullFileRow" where
  "full_file_row side source changed = (\<lambda>(index, text).
    let number = to_u32 (index + 1) in
    \<lparr>full_side = side, full_line_number = number, full_text = text,
     full_changed = (number \<in> changed),
     full_trailing_newline = (number < line_count source \<or> has_final_newline source)\<rparr>)"

definition full_file_rows :: "ReviewDiffDocument \<Rightarrow> DiffSide \<Rightarrow> FullFileRow list" where
  "full_file_rows document side =
    (let (source, changed) = (case side of
        Old \<Rightarrow> (doc_old document, changed_old_lines document)
      | New \<Rightarrow> (doc_new document, changed_new_lines document))
     in map (full_file_row side source changed) (enumerate 0 (source_lines source)))"

fun first_line :: "(UnifiedRow \<Rightarrow> DiffCell option) \<Rightarrow> UnifiedRow list \<Rightarrow> nat option" where
  "first_line side [] = None"
| "first_line side (row # rows) =
    (case side row of Some c \<Rightarrow> Some (line_number c) | None \<Rightarrow> first_line side rows)"

definition tombstone_anchor ::
  "(UnifiedRow \<Rightarrow> DiffCell option) \<Rightarrow> nat \<Rightarrow> nat \<Rightarrow> UnifiedRow list \<Rightarrow> UnifiedRow list \<Rightarrow> nat" where
  "tombstone_anchor kept header_start buckets before after =
    min (case first_line kept after of
          Some line \<Rightarrow> line - 1
        | None \<Rightarrow> (case first_line kept (rev before) of Some line \<Rightarrow> line | None \<Rightarrow> header_start))
      (buckets - 1)"

definition tombstone :: "DiffSide \<Rightarrow> DiffCell \<Rightarrow> FullFileRow" where
  "tombstone side c =
    \<lparr>full_side = side, full_line_number = line_number c, full_text = cell_text c,
     full_changed = True, full_trailing_newline = has_trailing_newline c\<rparr>"

text \<open>The buckets of one hunk: every row of kind \<open>gone\<close> with a cell on the other side is
  appended to the bucket of its anchor.\<close>

fun hunk_tombstones ::
  "DiffSide \<Rightarrow> DiffLineKind \<Rightarrow> (UnifiedRow \<Rightarrow> DiffCell option) \<Rightarrow> (UnifiedRow \<Rightarrow> DiffCell option) \<Rightarrow> nat \<Rightarrow>
    UnifiedRow list \<Rightarrow> UnifiedRow list \<Rightarrow> FullFileRow list list \<Rightarrow> FullFileRow list list" where
  "hunk_tombstones side gone lost kept header_start before [] buckets = buckets"
| "hunk_tombstones side gone lost kept header_start before (row # after) buckets =
    hunk_tombstones side gone lost kept header_start (before @ [row]) after
      (if row_kind row \<noteq> gone then buckets
       else (case lost row of
          None \<Rightarrow> buckets
        | Some c \<Rightarrow>
            (let anchor = tombstone_anchor kept header_start (length buckets) before after
             in buckets[anchor := buckets ! anchor @ [tombstone side c]])))"

fun interleave :: "FullFileRow list list \<Rightarrow> FullFileRow list \<Rightarrow> FullFileRow list" where
  "interleave (b # bs) (row # rows) = b @ row # interleave bs rows"
| "interleave bs [] = (if bs = [] then [] else last bs)"
| "interleave [] rows = rows"

definition full_file_current_rows :: "ReviewDiffDocument \<Rightarrow> FullFileRow list" where
  "full_file_current_rows document =
    (let buckets = foldl (\<lambda>b hunk. hunk_tombstones Old Removal row_old row_new
             (new_start (hunk_header hunk)) [] (unified_rows hunk) b)
           (replicate (length (source_lines (doc_new document)) + 1) []) (doc_hunks document)
     in interleave buckets (full_file_rows document New))"

definition full_file_base_rows :: "ReviewDiffDocument \<Rightarrow> FullFileRow list" where
  "full_file_base_rows document =
    (let buckets = foldl (\<lambda>b hunk. hunk_tombstones New Addition row_new row_old
             (old_start (hunk_header hunk)) [] (unified_rows hunk) b)
           (replicate (length (source_lines (doc_old document)) + 1) []) (doc_hunks document)
     in interleave buckets (full_file_rows document Old))"

end
