(* ===== verification/Diff_Views.thy ===== *)
theory Diff_Views
  imports Diff_Model "HOL-Library.Multiset"
begin

text \<open>
  The presentations of a canonical document are projections of the same hunk.  The
  interface \<open>hunk_view\<close> states what a presentation owes (the cells of each side in source
  order); it is interpreted on the unified rows and on the split rows the code builds,
  and gives each of them unique anchor rows.  The full-file projections keep one side
  whole and add the other side's lines to it without losing or inventing one.
\<close>

section \<open>Well-formed rows and hunks\<close>

definition row_ok :: "UnifiedRow \<Rightarrow> bool" where
  "row_ok r =
    (case (row_kind r, row_old r, row_new r) of
      (Context, Some a, Some b) \<Rightarrow> cell_kind a = Context \<and> cell_kind b = Context \<and>
        cell_side a = Old \<and> cell_side b = New \<and> cell_text a = cell_text b
    | (Removal, Some a, None) \<Rightarrow> cell_kind a = Removal \<and> cell_side a = Old
    | (Addition, None, Some b) \<Rightarrow> cell_kind b = Addition \<and> cell_side b = New
    | _ \<Rightarrow> False)"

abbreviation cells_of :: "('r \<Rightarrow> DiffCell option) \<Rightarrow> 'r list \<Rightarrow> DiffCell list" where
  "cells_of \<equiv> List.map_filter"

definition consecutive :: "nat \<Rightarrow> nat \<Rightarrow> DiffCell list \<Rightarrow> bool" where
  "consecutive start n cells =
    (length cells = n \<and> (n > 0 \<longrightarrow> map line_number cells = [start..<start + n]))"

definition hunk_ok :: "(string \<Rightarrow> string) \<Rightarrow> ReviewHunk \<Rightarrow> bool" where
  "hunk_ok blake3 h =
    (list_all row_ok (unified_rows h) \<and>
     split_rows h = build_split_rows blake3 (hunk_id h) (unified_rows h) \<and>
     consecutive (old_start (hunk_header h)) (old_count (hunk_header h))
       (cells_of row_old (unified_rows h)) \<and>
     consecutive (new_start (hunk_header h)) (new_count (hunk_header h))
       (cells_of row_new (unified_rows h)))"

lemma row_ok_cases:
  assumes "row_ok r"
  obtains (ctx) a b where "row_kind r = Context" "row_old r = Some a" "row_new r = Some b"
      "cell_kind a = Context" "cell_kind b = Context" "cell_text a = cell_text b"
  | (rem) a where "row_kind r = Removal" "row_old r = Some a" "row_new r = None" "cell_kind a = Removal"
  | (add) b where "row_kind r = Addition" "row_old r = None" "row_new r = Some b" "cell_kind b = Addition"
  using assms
  by (auto simp: row_ok_def split: DiffLineKind.splits option.splits)

lemma map_filter_simps [simp]:
  "List.map_filter f [] = []"
  "List.map_filter f (x # xs) = (case f x of None \<Rightarrow> List.map_filter f xs | Some y \<Rightarrow> y # List.map_filter f xs)"
  by (auto simp: List.map_filter_def split: option.splits)

section \<open>Split rows\<close>

definition pair_ok :: "SplitRow \<Rightarrow> bool" where
  "pair_ok r =
    (case (split_old r, split_new r) of
      (Some a, Some b) \<Rightarrow> (cell_kind a = Context \<and> cell_kind b = Context \<and> cell_text a = cell_text b) \<or>
        (cell_kind a = Removal \<and> cell_kind b = Addition)
    | (Some a, None) \<Rightarrow> cell_kind a = Removal
    | (None, Some b) \<Rightarrow> cell_kind b = Addition
    | (None, None) \<Rightarrow> False)"

lemma take_Suc_nth_opt:
  "take (Suc k) xs = take k xs @ (case nth_opt xs k of None \<Rightarrow> [] | Some x \<Rightarrow> [x])"
  by (auto simp: nth_opt_def take_Suc_conv_app_nth)

definition flush_upto where
  "flush_upto blake3 hid result removals additions k =
    foldl (\<lambda>acc i.
        let old = nth_opt removals i; new = nth_opt additions i
        in acc @ [\<lparr>split_row_id = split_id blake3 hid (length acc) old new,
                  split_old = old, split_new = new\<rparr>])
      result [0..<k]"

lemma flush_upto_0 [simp]: "flush_upto b h result rs ads 0 = result"
  by (simp add: flush_upto_def)

lemma flush_upto_Suc:
  "flush_upto b h result rs ads (Suc k) =
    flush_upto b h result rs ads k @ [\<lparr>split_row_id =
      split_id b h (length (flush_upto b h result rs ads k)) (nth_opt rs k) (nth_opt ads k),
      split_old = nth_opt rs k, split_new = nth_opt ads k\<rparr>]"
  by (simp add: flush_upto_def Let_def)

lemma flush_split_upto:
  "flush_split b h result rs ads = flush_upto b h result rs ads (max (length rs) (length ads))"
  by (simp add: flush_split_def flush_upto_def)

lemma flush_upto_cells:
  "cells_of split_old (flush_upto b h result rs ads k) = cells_of split_old result @ take k rs"
  "cells_of split_new (flush_upto b h result rs ads k) = cells_of split_new result @ take k ads"
  by (induction k) (auto simp: flush_upto_Suc take_Suc_nth_opt split: option.splits)

lemma flush_upto_pairs:
  assumes "\<forall>c\<in>set rs. cell_kind c = Removal" "\<forall>c\<in>set ads. cell_kind c = Addition"
    "list_all pair_ok result" "k \<le> max (length rs) (length ads)"
  shows "list_all pair_ok (flush_upto b h result rs ads k)"
  using assms(4)
proof (induction k)
  case (Suc k)
  then have "nth_opt rs k \<noteq> None \<or> nth_opt ads k \<noteq> None" by (auto simp: nth_opt_def)
  moreover have "cell_kind c = Removal" if "nth_opt rs k = Some c" for c
    using that assms(1) by (auto simp: nth_opt_def split: if_splits)
  moreover have "cell_kind c = Addition" if "nth_opt ads k = Some c" for c
    using that assms(2) by (auto simp: nth_opt_def split: if_splits)
  ultimately show ?case using Suc
    by (auto simp: flush_upto_Suc pair_ok_def split: option.splits)
qed (use assms(3) in simp)

lemma split_loop_cells:
  "list_all row_ok rows \<Longrightarrow>
    cells_of split_old (build_split_loop b h result rs ads rows) =
      cells_of split_old result @ rs @ cells_of row_old rows \<and>
    cells_of split_new (build_split_loop b h result rs ads rows) =
      cells_of split_new result @ ads @ cells_of row_new rows"
proof (induction rows arbitrary: result rs ads)
  case Nil
  then show ?case by (simp add: flush_split_upto flush_upto_cells)
next
  case (Cons row rows)
  from Cons.prems have "row_ok row" by simp
  then show ?case
  proof (cases rule: row_ok_cases)
    case ctx
    then show ?thesis using Cons
      by (simp add: Let_def flush_split_upto flush_upto_cells)
  qed (use Cons in simp_all)
qed

lemma split_loop_pairs:
  "\<lbrakk>list_all row_ok rows; list_all pair_ok result;
    \<forall>c\<in>set rs. cell_kind c = Removal; \<forall>c\<in>set ads. cell_kind c = Addition\<rbrakk> \<Longrightarrow>
    list_all pair_ok (build_split_loop b h result rs ads rows)"
proof (induction rows arbitrary: result rs ads)
  case Nil
  then show ?case by (simp add: flush_split_upto flush_upto_pairs)
next
  case (Cons row rows)
  from Cons.prems have "row_ok row" by simp
  then show ?case
  proof (cases rule: row_ok_cases)
    case (ctx a c)
    let ?f = "flush_split b h result rs ads"
    have "list_all pair_ok ?f" using Cons.prems by (simp add: flush_split_upto flush_upto_pairs)
    moreover have "pair_ok \<lparr>split_row_id = i, split_old = Some a, split_new = Some c\<rparr>" for i
      using ctx by (simp add: pair_ok_def)
    ultimately show ?thesis using Cons.prems ctx by (simp add: Let_def Cons.IH)
  qed (use Cons in simp_all)
qed

text \<open>C7: the side-by-side rows of a hunk are a lossless rearrangement of its unified rows:
  read down the left column they give exactly the base lines in order, read down the right
  column exactly the current lines, no row is empty, and a row that shows both sides shows
  either the same context line twice or a removal beside an addition.\<close>

theorem split_rows_lossless:
  assumes "list_all row_ok rows"
  shows "cells_of split_old (build_split_rows b h rows) = cells_of row_old rows \<and>
    cells_of split_new (build_split_rows b h rows) = cells_of row_new rows \<and>
    list_all pair_ok (build_split_rows b h rows)"
  using split_loop_cells [OF assms] split_loop_pairs [OF assms]
  by (simp add: build_split_rows_def)

definition sample_rows :: "UnifiedRow list" where
  "sample_rows =
    push_row (\<lambda>_. []) (StoredPath ''f'') Addition None (Some (make_cell New 2 Addition ''new'' True))
    (push_row (\<lambda>_. []) (StoredPath ''f'') Removal (Some (make_cell Old 2 Removal ''old'' True)) None
    (push_row (\<lambda>_. []) (StoredPath ''f'') Context (Some (make_cell Old 1 Context ''same'' True))
      (Some (make_cell New 1 Context ''same'' True)) []))"

lemma split_rows_lossless_witness:
  "length (cells_of split_old (build_split_rows (\<lambda>_. []) (StableHunkId []) sample_rows)) = 2"
proof -
  have "list_all row_ok sample_rows" by code_simp
  from split_rows_lossless [OF this, of "\<lambda>_. []" "StableHunkId []"]
  have "cells_of split_old (build_split_rows (\<lambda>_. []) (StableHunkId []) sample_rows) =
      cells_of row_old sample_rows" by blast
  moreover have "length (cells_of row_old sample_rows) = 2" by code_simp
  ultimately show ?thesis by simp
qed

section \<open>Presentations\<close>

locale hunk_view =
  fixes view_rows :: "ReviewHunk \<Rightarrow> 'r list"
    and old_of :: "'r \<Rightarrow> DiffCell option" and new_of :: "'r \<Rightarrow> DiffCell option"
  assumes old_cells: "hunk_ok b h \<Longrightarrow> cells_of old_of (view_rows h) = cells_of row_old (unified_rows h)"
    and new_cells: "hunk_ok b h \<Longrightarrow> cells_of new_of (view_rows h) = cells_of row_new (unified_rows h)"
begin

lemma old_line_numbers:
  assumes "hunk_ok b h" "0 < old_count (hunk_header h)"
  shows "map line_number (cells_of old_of (view_rows h)) =
    [old_start (hunk_header h)..<old_start (hunk_header h) + old_count (hunk_header h)]"
  using assms by (simp add: old_cells) (simp add: hunk_ok_def consecutive_def)

lemma new_line_numbers:
  assumes "hunk_ok b h" "0 < new_count (hunk_header h)"
  shows "map line_number (cells_of new_of (view_rows h)) =
    [new_start (hunk_header h)..<new_start (hunk_header h) + new_count (hunk_header h)]"
  using assms by (simp add: new_cells) (simp add: hunk_ok_def consecutive_def)

end

lemma unique_anchor:
  assumes "distinct (map f (List.map_filter g xs))" "l \<in> set (map f (List.map_filter g xs))"
  shows "\<exists>!i. i < length xs \<and> (\<exists>c. g (xs ! i) = Some c \<and> f c = l)"
  using assms
proof (induction xs)
  case (Cons x xs)
  show ?case
  proof (cases "\<exists>c. g x = Some c \<and> f c = l")
    case True
    then obtain c where c: "g x = Some c" "f c = l" by blast
    have no: "\<not> (\<exists>c. g (xs ! j) = Some c \<and> f c = l)" if "j < length xs" for j
    proof
      assume "\<exists>c. g (xs ! j) = Some c \<and> f c = l"
      then obtain d where "g (xs ! j) = Some d" "f d = l" by blast
      then have "d \<in> set (List.map_filter g xs)"
        using that by (force simp: List.map_filter_def)
      then have "f c \<in> f ` set (List.map_filter g xs)"
        using c(2) \<open>f d = l\<close> by (metis imageI)
      then show False using Cons.prems(1) c(1) by simp
    qed
    show ?thesis
    proof (rule ex1I [of _ 0])
      fix i assume "i < length (x # xs) \<and> (\<exists>c. g ((x # xs) ! i) = Some c \<and> f c = l)"
      then show "i = 0" using no by (cases i) auto
    qed (use c in auto)
  next
    case False
    then have "distinct (map f (List.map_filter g xs))" "l \<in> set (map f (List.map_filter g xs))"
      using Cons.prems by (auto split: option.splits)
    from Cons.IH [OF this] obtain i where
      i: "i < length xs" "\<exists>c. g (xs ! i) = Some c \<and> f c = l" and
      u: "\<And>j. j < length xs \<and> (\<exists>c. g (xs ! j) = Some c \<and> f c = l) \<Longrightarrow> j = i"
      by blast
    show ?thesis
    proof (rule ex1I [of _ "Suc i"])
      fix j assume "j < length (x # xs) \<and> (\<exists>c. g ((x # xs) ! j) = Some c \<and> f c = l)"
      then show "j = Suc i" using False u by (cases j) auto
    qed (use i in auto)
  qed
qed simp

context hunk_view begin

lemma old_anchor_unique:
  assumes "hunk_ok b h"
    "old_start (hunk_header h) \<le> l" "l < old_start (hunk_header h) + old_count (hunk_header h)"
  shows "\<exists>!i. i < length (view_rows h) \<and> (\<exists>c. old_of (view_rows h ! i) = Some c \<and> line_number c = l)"
  using assms old_line_numbers [OF assms(1)] by (intro unique_anchor) auto

lemma new_anchor_unique:
  assumes "hunk_ok b h"
    "new_start (hunk_header h) \<le> l" "l < new_start (hunk_header h) + new_count (hunk_header h)"
  shows "\<exists>!i. i < length (view_rows h) \<and> (\<exists>c. new_of (view_rows h ! i) = Some c \<and> line_number c = l)"
  using assms new_line_numbers [OF assms(1)] by (intro unique_anchor) auto

end

interpretation unified_view: hunk_view unified_rows row_old row_new
  by unfold_locales simp_all

interpretation split_view: hunk_view split_rows split_old split_new
  by unfold_locales
    (auto simp: hunk_ok_def build_split_rows_def split_loop_cells)

text \<open>An annotation anchor of a well-formed hunk (a side and a line number inside the
  range of its header) designates exactly one row of the unified presentation and exactly
  one row of the side-by-side presentation, so anchors need no row identifiers.\<close>

theorem anchors_independent_of_presentation:
  assumes "hunk_ok b h"
    "old_start (hunk_header h) \<le> l" "l < old_start (hunk_header h) + old_count (hunk_header h)"
  shows "(\<exists>!i. i < length (unified_rows h) \<and>
      (\<exists>c. row_old (unified_rows h ! i) = Some c \<and> line_number c = l)) \<and>
    (\<exists>!i. i < length (split_rows h) \<and>
      (\<exists>c. split_old (split_rows h ! i) = Some c \<and> line_number c = l))"
  using unified_view.old_anchor_unique [OF assms] split_view.old_anchor_unique [OF assms] by blast

definition sample_hunk :: ReviewHunk where
  "sample_hunk = make_hunk (\<lambda>_. []) (StoredPath ''f'')
    \<lparr>old_start = 2, old_count = 2, new_start = 2, new_count = 2, header_context = None\<rparr> sample_rows"

lemma anchors_independent_of_presentation_witness:
  "\<exists>!i. i < length (split_rows sample_hunk) \<and>
      (\<exists>c. split_old (split_rows sample_hunk ! i) = Some c \<and> line_number c = 3)"
proof -
  have "hunk_ok (\<lambda>_. []) sample_hunk" by code_simp
  moreover have "old_start (hunk_header sample_hunk) \<le> 3" by code_simp
  moreover have "3 < old_start (hunk_header sample_hunk) + old_count (hunk_header sample_hunk)" by code_simp
  ultimately show ?thesis using anchors_independent_of_presentation by blast
qed

section \<open>Full-file projections\<close>

lemma interleave_kept:
  assumes "\<forall>b\<in>set buckets. \<forall>r\<in>set b. full_side r \<noteq> side" "\<forall>r\<in>set rows. full_side r = side"
  shows "filter (\<lambda>r. full_side r = side) (interleave buckets rows) = rows"
proof -
  have none: "filter (\<lambda>r. full_side r = side) b = []" if "b \<in> set buckets" for b
    using assms(1) that by (auto simp: filter_empty_conv)
  show ?thesis
    using none assms(2)
  proof (induction buckets rows rule: interleave.induct)
    case (3 row rows)
    then show ?case by (simp add: filter_id_conv)
  qed auto
qed

lemma interleave_mset:
  "length buckets = Suc (length rows) \<Longrightarrow>
    mset (interleave buckets rows) = mset rows + mset (concat buckets)"
proof (induction buckets rows rule: interleave.induct)
  case (2 bs)
  then show ?case by (cases bs) auto
qed auto

lemma mset_concat_update:
  "i < length bs \<Longrightarrow> mset (concat (bs[i := bs ! i @ [x]])) = add_mset x (mset (concat bs))"
  by (induction bs arbitrary: i) (auto split: nat.splits)

lemma hunk_tombstones_length [simp]:
  "length (hunk_tombstones side gone lost kept start before rows buckets) = length buckets"
  by (induction rows arbitrary: before buckets) (auto simp: Let_def split: option.splits)

definition lost_cells ::
  "DiffLineKind \<Rightarrow> (UnifiedRow \<Rightarrow> DiffCell option) \<Rightarrow> UnifiedRow list \<Rightarrow> DiffCell list" where
  "lost_cells gone lost rows = cells_of lost (filter (\<lambda>r. row_kind r = gone) rows)"

lemma hunk_tombstones_mset:
  assumes "buckets \<noteq> []"
  shows "mset (concat (hunk_tombstones side gone lost kept start before rows buckets)) =
    mset (map (tombstone side) (lost_cells gone lost rows)) + mset (concat buckets)"
  using assms
proof (induction rows arbitrary: before buckets)
  case (Cons row rows)
  define buckets' where "buckets' =
    (if row_kind row \<noteq> gone then buckets
     else (case lost row of None \<Rightarrow> buckets
      | Some c \<Rightarrow> (let anchor = tombstone_anchor kept start (length buckets) before rows
             in buckets[anchor := buckets ! anchor @ [tombstone side c]])))"
  have ne: "buckets' \<noteq> []" using Cons.prems by (auto simp: buckets'_def Let_def split: option.splits)
  have anchor: "tombstone_anchor kept start (length buckets) before rows < length buckets"
    using Cons.prems by (cases buckets) (auto simp: tombstone_anchor_def)
  have "mset (concat buckets') = mset (map (tombstone side) (lost_cells gone lost [row])) + mset (concat buckets)"
    using mset_concat_update [OF anchor]
    by (auto simp: buckets'_def lost_cells_def Let_def split: option.splits)
  moreover have "hunk_tombstones side gone lost kept start before (row # rows) buckets =
      hunk_tombstones side gone lost kept start (before @ [row]) rows buckets'"
    by (simp add: buckets'_def)
  moreover have "lost_cells gone lost (row # rows) = lost_cells gone lost [row] @ lost_cells gone lost rows"
    by (auto simp: lost_cells_def split: option.splits)
  ultimately show ?case using Cons.IH [OF ne] by simp
qed (simp add: lost_cells_def)

definition all_tombstones ::
  "DiffSide \<Rightarrow> DiffLineKind \<Rightarrow> (UnifiedRow \<Rightarrow> DiffCell option) \<Rightarrow> ReviewHunk list \<Rightarrow> FullFileRow list" where
  "all_tombstones side gone lost hunks =
    concat (map (\<lambda>h. map (tombstone side) (lost_cells gone lost (unified_rows h))) hunks)"

lemma fold_tombstones:
  fixes side gone lost kept hunks and start :: "ReviewHunk \<Rightarrow> nat"
  assumes "buckets \<noteq> []"
  defines "final \<equiv> foldl (\<lambda>b h. hunk_tombstones side gone lost kept (start h) [] (unified_rows h) b) buckets hunks"
  shows "length final = length buckets \<and>
    mset (concat final) = mset (all_tombstones side gone lost hunks) + mset (concat buckets)"
  unfolding final_def using assms(1)
proof (induction hunks arbitrary: buckets)
  case (Cons h hunks)
  let ?b = "hunk_tombstones side gone lost kept (start h) [] (unified_rows h) buckets"
  have "?b \<noteq> []" using Cons.prems by (metis hunk_tombstones_length length_0_conv)
  from Cons.IH [OF this] hunk_tombstones_mset [OF Cons.prems] show ?case
    by (simp add: all_tombstones_def)
qed (simp add: all_tombstones_def)

lemma all_tombstones_side: "r \<in> set (all_tombstones side gone lost hunks) \<Longrightarrow> full_side r = side"
  by (auto simp: all_tombstones_def tombstone_def)

lemma full_file_rows_side: "r \<in> set (full_file_rows d side) \<Longrightarrow> full_side r = side"
  by (auto simp: full_file_rows_def full_file_row_def Let_def split: DiffSide.splits prod.splits)

lemma length_full_file_rows:
  "length (full_file_rows d side) =
    length (source_lines (case side of Old \<Rightarrow> doc_old d | New \<Rightarrow> doc_new d))"
  by (simp add: full_file_rows_def split: DiffSide.splits)

text \<open>Both projections at once: interleaving tombstones of the other side.\<close>

lemma projection_lossless:
  fixes side gone lost kept hunks d and start :: "ReviewHunk \<Rightarrow> nat"
  assumes "side \<noteq> other"
  defines "buckets \<equiv> foldl (\<lambda>b h. hunk_tombstones other gone lost kept (start h) [] (unified_rows h) b)
      (replicate (length (full_file_rows d side) + 1) []) hunks"
  shows "filter (\<lambda>r. full_side r = side) (interleave buckets (full_file_rows d side)) = full_file_rows d side \<and>
    mset (filter (\<lambda>r. full_side r = other) (interleave buckets (full_file_rows d side))) =
      mset (all_tombstones other gone lost hunks)"
proof -
  let ?rows = "full_file_rows d side"
  have len: "length buckets = Suc (length ?rows)"
    and ms: "mset (concat buckets) = mset (all_tombstones other gone lost hunks)"
    unfolding buckets_def
    using fold_tombstones [of "replicate (length ?rows + 1) []" other gone lost kept start hunks]
    by (simp_all del: replicate.simps add: concat_replicate_trivial)
  have others: "full_side r = other" if "b \<in> set buckets" "r \<in> set b" for b r
  proof -
    have "r \<in># mset (concat buckets)" using that by auto
    then show ?thesis unfolding ms using all_tombstones_side by simp
  qed
  have "filter (\<lambda>r. full_side r = side) (interleave buckets ?rows) = ?rows"
    using others full_file_rows_side assms(1) by (intro interleave_kept) auto
  moreover have "mset (filter (\<lambda>r. full_side r = other) (interleave buckets ?rows)) =
      filter_mset (\<lambda>r. full_side r = other) (mset ?rows + mset (concat buckets))"
    by (simp add: mset_filter interleave_mset len)
  moreover have "filter_mset (\<lambda>r. full_side r = other) (mset ?rows) = {#}"
  proof -
    have "filter (\<lambda>r. full_side r = other) ?rows = []"
      using full_file_rows_side assms(1) by (auto simp: filter_empty_conv)
    then show ?thesis by (metis mset_filter mset.simps(1))
  qed
  moreover have "filter_mset (\<lambda>r. full_side r = other) (mset (concat buckets)) = mset (concat buckets)"
    using others by (auto simp: filter_mset_eq_conv)
  ultimately show ?thesis using ms by simp
qed

text \<open>C6: the Full File projection of the current side contains the complete current source,
  every line once and in order, and besides it exactly the removed base lines of all hunks,
  each once; the projection of the base side does the same with the added lines.\<close>

theorem full_file_projections_lossless:
  "filter (\<lambda>r. full_side r = New) (full_file_current_rows d) = full_file_rows d New \<and>
    mset (filter (\<lambda>r. full_side r = Old) (full_file_current_rows d)) =
      mset (all_tombstones Old Removal row_old (doc_hunks d)) \<and>
    filter (\<lambda>r. full_side r = Old) (full_file_base_rows d) = full_file_rows d Old \<and>
    mset (filter (\<lambda>r. full_side r = New) (full_file_base_rows d)) =
      mset (all_tombstones New Addition row_new (doc_hunks d))"
  using projection_lossless [of New Old Removal row_old row_new "\<lambda>h. new_start (hunk_header h)" d "doc_hunks d"]
    projection_lossless [of Old New Addition row_new row_old "\<lambda>h. old_start (hunk_header h)" d "doc_hunks d"]
  by (simp add: full_file_current_rows_def full_file_base_rows_def Let_def length_full_file_rows)

end
