(* ===== verification/Diff_Patch.thy ===== *)
theory Diff_Patch
  imports Diff_Model Protocol_Text
begin

text \<open>
  \<open>crates/diff/src/lib.rs\<close>, the parser of Git's unified patches: header tokens with
  C-style quoting, hunk headers, and the \<open>PatchFileBuilder\<close> the line loop drives.  The
  random file identifiers are a supply \<open>fresh\<close> indexed by the number of documents
  finished.
\<close>

section \<open>Header tokens\<close>

definition is_octal :: "char \<Rightarrow> bool" where
  "is_octal c = (48 \<le> byte c \<and> byte c \<le> 55)"

definition sat_octal :: "nat \<Rightarrow> char \<Rightarrow> nat" where
  "sat_octal v d = min 255 (min 255 (v * 8) + (byte d - 48))"

fun quoted_token :: "string \<Rightarrow> string \<Rightarrow> DiffError + (string \<times> string)" where
  "quoted_token raw [] = Inl MissingFileHeader"
| "quoted_token raw (c # s) =
    (if c = QUOTE then Inr (raw, s)
     else if c = BACKSLASH then
       (case s of
         [] \<Rightarrow> Inl MissingFileHeader
       | escaped # r \<Rightarrow>
           if escaped = BACKSLASH \<or> escaped = QUOTE then quoted_token (raw @ [escaped]) r
           else if escaped = CHR ''n'' then quoted_token (raw @ [NL]) r
           else if escaped = CHR ''t'' then quoted_token (raw @ [TAB]) r
           else if escaped = CHR ''r'' then quoted_token (raw @ [CR]) r
           else if is_octal escaped then
             (case r of
               d1 # r1 \<Rightarrow>
                 if \<not> is_octal d1 then Inl MissingFileHeader
                 else (case r1 of
                   d2 # r2 \<Rightarrow>
                     if \<not> is_octal d2 then Inl MissingFileHeader
                     else quoted_token
                       (raw @ [char_of (sat_octal (sat_octal (byte escaped - 48) d1) d2)]) r2
                 | [] \<Rightarrow> Inl MissingFileHeader)
             | [] \<Rightarrow> Inl MissingFileHeader)
           else quoted_token (raw @ [escaped]) r)
     else quoted_token (raw @ [c]) s)"

lemma quoted_token_shorter:
  "quoted_token raw s = Inr (t, rest) \<Longrightarrow> length rest < length s"
  by (induction raw s rule: quoted_token.induct)
     (fastforce split: if_splits list.splits)+

function parse_git_header_tokens :: "string \<Rightarrow> DiffError + string list" where
  "parse_git_header_tokens s =
    (let t = dropWhile is_ascii_whitespace s in
     if t = [] then Inr []
     else if hd t \<noteq> QUOTE then
       rbind (parse_git_header_tokens (dropWhile (\<lambda>c. \<not> is_ascii_whitespace c) t))
         (\<lambda>tokens. Inr (takeWhile (\<lambda>c. \<not> is_ascii_whitespace c) t # tokens))
     else
       rbind (quoted_token [] (tl t)) (\<lambda>(raw, rest).
         rbind (parse_git_header_tokens rest) (\<lambda>tokens. Inr (utf8_lossy raw # tokens))))"
  by pat_completeness auto

lemma dropWhile_shorter:
  assumes "dropWhile P s \<noteq> []" "\<not> P (hd (dropWhile P s)) \<Longrightarrow> Q (hd (dropWhile P s))"
  shows "length (dropWhile Q (dropWhile P s)) < length s"
proof -
  have "Q (hd (dropWhile P s))" using assms hd_dropWhile by blast
  then have "length (dropWhile Q (dropWhile P s)) < length (dropWhile P s)"
    using assms(1) by (cases "dropWhile P s") (auto simp: length_dropWhile_le le_imp_less_Suc)
  also have "\<dots> \<le> length s" by (rule length_dropWhile_le)
  finally show ?thesis .
qed

termination parse_git_header_tokens
proof (relation "measure length")
  fix s t :: string
  assume t: "t = dropWhile is_ascii_whitespace s" "t \<noteq> []"
  show "(dropWhile (\<lambda>c. \<not> is_ascii_whitespace c) t, s) \<in> measure length"
    using t dropWhile_shorter [of is_ascii_whitespace s "\<lambda>c. \<not> is_ascii_whitespace c"] by simp
next
  fix s t raw rest :: string and x
  assume t: "t = dropWhile is_ascii_whitespace s" "t \<noteq> []"
    and q: "quoted_token [] (tl t) = Inr x" "(raw, rest) = x"
  have "length rest < length (tl t)" using q quoted_token_shorter by metis
  also have "\<dots> \<le> length s" using t(1) length_dropWhile_le [of is_ascii_whitespace s] by simp
  finally show "(rest, s) \<in> measure length" by simp
qed simp

declare parse_git_header_tokens.simps [simp del]

definition strip_patch_prefix :: "string \<Rightarrow> string" where
  "strip_patch_prefix path =
    (case strip_prefix ''a/'' path of
      Some p \<Rightarrow> p
    | None \<Rightarrow> (case strip_prefix ''b/'' path of Some p \<Rightarrow> p | None \<Rightarrow> path))"

definition join_with_space :: "string list \<Rightarrow> string" where
  "join_with_space ts = join_on CHR '' '' ts"

definition parse_diff_git_paths :: "string \<Rightarrow> DiffError + (StoredPath \<times> StoredPath)" where
  "parse_diff_git_paths value =
    rbind (parse_git_header_tokens value) (\<lambda>values.
    rbind (if length values = 2 then Inr (values ! 0, values ! 1)
       else (case find (\<lambda>i. starts_with (values ! i) ''b/'') [1..<length values] of
          None \<Rightarrow> Inl MissingFileHeader
        | Some i \<Rightarrow> Inr (join_with_space (take i values), join_with_space (drop i values))))
      (\<lambda>(old, new).
    Inr (StoredPath (strip_patch_prefix old), StoredPath (strip_patch_prefix new))))"

definition parse_git_path :: "string \<Rightarrow> DiffError + StoredPath" where
  "parse_git_path value =
    (if \<not> starts_with value [QUOTE] then Inr (StoredPath value)
     else rbind (parse_git_header_tokens value) (\<lambda>tokens.
       case tokens of [path] \<Rightarrow> Inr (StoredPath path) | _ \<Rightarrow> Inl MissingFileHeader))"

definition strip_git_patch_prefix :: "string \<Rightarrow> DiffError + StoredPath" where
  "strip_git_patch_prefix value =
    rbind (parse_git_path value) (\<lambda>path. Inr (StoredPath (strip_patch_prefix (path_str path))))"

section \<open>Hunk headers\<close>

definition parse_range :: "string \<Rightarrow> char \<Rightarrow> DiffError + (nat \<times> nat)" where
  "parse_range raw prefix_char =
    (case strip_prefix [prefix_char] raw of
      None \<Rightarrow> Inl (InvalidHunkHeader raw)
    | Some value \<Rightarrow>
        (let (start, cnt) = (case split_once CHR '','' value of None \<Rightarrow> (value, ''1'') | Some p \<Rightarrow> p)
         in rbind (ok_or (InvalidHunkHeader raw) (parse_unsigned U32_MAX start)) (\<lambda>s.
            rbind (ok_or (InvalidHunkHeader raw) (parse_unsigned U32_MAX cnt)) (\<lambda>c.
            Inr (s, c)))))"

definition parse_hunk_header :: "string \<Rightarrow> DiffError + HunkHeader" where
  "parse_hunk_header line =
    rbind (ok_or (InvalidHunkHeader line) (strip_prefix ''@@ '' line)) (\<lambda>body.
    rbind (ok_or (InvalidHunkHeader line) (split_once_str '' @@'' body)) (\<lambda>(ranges, context).
    let words = split_whitespace ranges in
    rbind (ok_or (InvalidHunkHeader line) (nth_opt words 0)) (\<lambda>w0.
    rbind (parse_range w0 CHR ''-'') (\<lambda>old.
    rbind (ok_or (InvalidHunkHeader line) (nth_opt words 1)) (\<lambda>w1.
    rbind (parse_range w1 CHR ''+'') (\<lambda>new.
    if nth_opt words 2 \<noteq> None then Inl (InvalidHunkHeader line)
    else (let ctx = (case strip_prefix '' '' context of None \<Rightarrow> context | Some c \<Rightarrow> c)
          in Inr \<lparr>old_start = fst old, old_count = snd old, new_start = fst new, new_count = snd new,
                  header_context = (if ctx \<noteq> [] then Some ctx else None)\<rparr>)))))))"

section \<open>The builder of one file\<close>

record PatchFileBuilder =
  b_path :: StoredPath
  b_old_path :: "StoredPath option"
  b_status :: ReviewFileStatus
  b_hunks :: "(HunkHeader \<times> UnifiedRow list) list"
  b_active_header :: "HunkHeader option"
  b_active_rows :: "UnifiedRow list"
  b_old_snippet :: string
  b_new_snippet :: string
  b_old_line :: nat
  b_new_line :: nat
  b_changed_old :: "nat set"
  b_changed_new :: "nat set"

definition PatchFileBuilder_new :: "StoredPath \<Rightarrow> StoredPath \<Rightarrow> PatchFileBuilder" where
  "PatchFileBuilder_new old_path new_path =
    \<lparr>b_path = new_path, b_old_path = Some old_path, b_status = FileModified, b_hunks = [],
     b_active_header = None, b_active_rows = [], b_old_snippet = [], b_new_snippet = [],
     b_old_line = 0, b_new_line = 0, b_changed_old = {}, b_changed_new = {}\<rparr>"

definition hunk_line_counts :: "UnifiedRow list \<Rightarrow> nat \<times> nat" where
  "hunk_line_counts rows =
    (to_u32 (length (filter (\<lambda>r. row_old r \<noteq> None) rows)),
     to_u32 (length (filter (\<lambda>r. row_new r \<noteq> None) rows)))"

definition finish_active_hunk :: "PatchFileBuilder \<Rightarrow> DiffError + PatchFileBuilder" where
  "finish_active_hunk b =
    (case b_active_header b of
      None \<Rightarrow> Inr b
    | Some header \<Rightarrow>
        (let (old_actual, new_actual) = hunk_line_counts (b_active_rows b) in
         if old_actual \<noteq> old_count header \<or> new_actual \<noteq> new_count header
         then Inl (HunkLineCountMismatch (old_count header) (new_count header) old_actual new_actual)
         else Inr (b\<lparr>b_active_header := None, b_hunks := b_hunks b @ [(header, b_active_rows b)],
                    b_active_rows := []\<rparr>)))"

definition start_hunk :: "string \<Rightarrow> PatchFileBuilder \<Rightarrow> DiffError + PatchFileBuilder" where
  "start_hunk line b =
    rbind (finish_active_hunk b) (\<lambda>b.
    rbind (parse_hunk_header line) (\<lambda>header.
    Inr (b\<lparr>b_old_line := old_start header, b_new_line := new_start header,
          b_active_header := Some header\<rparr>)))"

definition add_row ::
  "(string \<Rightarrow> string) \<Rightarrow> DiffLineKind \<Rightarrow> DiffCell option \<Rightarrow> DiffCell option \<Rightarrow> PatchFileBuilder \<Rightarrow>
    PatchFileBuilder" where
  "add_row blake3 kind old new b =
    b\<lparr>b_active_rows := push_row blake3 (b_path b) kind old new (b_active_rows b)\<rparr>"

definition push_hunk_line ::
  "(string \<Rightarrow> string) \<Rightarrow> string \<Rightarrow> PatchFileBuilder \<Rightarrow> DiffError + PatchFileBuilder" where
  "push_hunk_line blake3 line b =
    (if b_active_header b = None then Inr b
     else (let prefix = take 1 line; text = drop 1 line;
               old_index = b_old_line b - 1; new_index = b_new_line b - 1 in
       if prefix = '' '' then
         Inr (add_row blake3 Context
           (Some (make_cell Old old_index Context text True))
           (Some (make_cell New new_index Context text True))
           (b\<lparr>b_old_line := inc32 (b_old_line b), b_new_line := inc32 (b_new_line b),
             b_old_snippet := b_old_snippet b @ text @ [NL],
             b_new_snippet := b_new_snippet b @ text @ [NL]\<rparr>))
       else if prefix = ''-'' then
         Inr (add_row blake3 Removal (Some (make_cell Old old_index Removal text True)) None
           (b\<lparr>b_changed_old := insert (b_old_line b) (b_changed_old b),
             b_old_line := inc32 (b_old_line b),
             b_old_snippet := b_old_snippet b @ text @ [NL]\<rparr>))
       else if prefix = ''+'' then
         Inr (add_row blake3 Addition None (Some (make_cell New new_index Addition text True))
           (b\<lparr>b_changed_new := insert (b_new_line b) (b_changed_new b),
             b_new_line := inc32 (b_new_line b),
             b_new_snippet := b_new_snippet b @ text @ [NL]\<rparr>))
       else Inl InvalidHunkLine))"

definition remove_final_newline :: "string \<Rightarrow> DiffError + string" where
  "remove_final_newline snippet =
    (if snippet \<noteq> [] \<and> last snippet = NL then Inr (butlast snippet) else Inl MissingNoNewlineTarget)"

definition clear_newline :: "DiffCell option \<Rightarrow> DiffCell option" where
  "clear_newline c = map_option (\<lambda>x. x\<lparr>has_trailing_newline := False\<rparr>) c"

definition mark_last_line_missing_newline ::
  "(string \<Rightarrow> string) \<Rightarrow> PatchFileBuilder \<Rightarrow> DiffError + PatchFileBuilder" where
  "mark_last_line_missing_newline blake3 b =
    (if b_active_rows b = [] then Inl MissingNoNewlineTarget
     else (let row = last (b_active_rows b);
               old = clear_newline (row_old row); new = clear_newline (row_new row) in
       if old = None \<and> new = None then Inl MissingNoNewlineTarget
       else rbind (if old \<noteq> None then remove_final_newline (b_old_snippet b) else Inr (b_old_snippet b))
         (\<lambda>old_snippet.
       rbind (if new \<noteq> None then remove_final_newline (b_new_snippet b) else Inr (b_new_snippet b))
         (\<lambda>new_snippet.
       Inr (b\<lparr>b_old_snippet := old_snippet, b_new_snippet := new_snippet,
             b_active_rows := butlast (b_active_rows b) @
               [row\<lparr>row_old := old, row_new := new,
                    row_id := stable_row_id blake3 (b_path b) old new (row_kind row)
                      (length (b_active_rows b) - 1)\<rparr>]\<rparr>)))))"

definition finish_builder ::
  "(string \<Rightarrow> string) \<Rightarrow> ComparisonId \<Rightarrow> ReviewFileId \<Rightarrow> PatchFileBuilder \<Rightarrow>
    DiffError + ReviewDiffDocument" where
  "finish_builder blake3 comparison fid b =
    rbind (finish_active_hunk b) (\<lambda>b.
    Inr \<lparr>doc_comparison = comparison,
         doc_file = \<lparr>file_id = fid, file_path = b_path b, file_old_path = b_old_path b,
                     file_status = b_status b\<rparr>,
         doc_old = SourceDocument_new blake3 (b_old_snippet b),
         doc_new = SourceDocument_new blake3 (b_new_snippet b),
         doc_hunks = map (\<lambda>(header, rows). make_hunk blake3 (b_path b) header rows) (b_hunks b),
         changed_old_lines = b_changed_old b, changed_new_lines = b_changed_new b\<rparr>)"

section \<open>The line loop\<close>

definition NO_NEWLINE_MARKER :: string where
  "NO_NEWLINE_MARKER = BACKSLASH # '' No newline at end of file''"

definition patch_line ::
  "(string \<Rightarrow> string) \<Rightarrow> string \<Rightarrow> PatchFileBuilder \<Rightarrow> DiffError + PatchFileBuilder" where
  "patch_line blake3 line b =
    (case strip_prefix ''rename from '' line of
      Some path \<Rightarrow> rbind (parse_git_path path) (\<lambda>p. Inr (b\<lparr>b_old_path := Some p\<rparr>))
    | None \<Rightarrow>
    (case strip_prefix ''rename to '' line of
      Some path \<Rightarrow> rbind (parse_git_path path) (\<lambda>p. Inr (b\<lparr>b_path := p, b_status := FileRenamed\<rparr>))
    | None \<Rightarrow>
    (case strip_prefix ''--- '' line of
      Some path \<Rightarrow>
        if path = ''/dev/null'' then Inr (b\<lparr>b_status := FileAdded\<rparr>)
        else rbind (strip_git_patch_prefix path) (\<lambda>p. Inr (b\<lparr>b_old_path := Some p\<rparr>))
    | None \<Rightarrow>
    (case strip_prefix ''+++ '' line of
      Some path \<Rightarrow>
        if path = ''/dev/null'' then Inr (b\<lparr>b_status := FileDeleted\<rparr>)
        else rbind (strip_git_patch_prefix path) (\<lambda>p. Inr (b\<lparr>b_path := p\<rparr>))
    | None \<Rightarrow>
      if starts_with line ''@@ '' then start_hunk line b
      else if starts_with line '' '' \<or> starts_with line ''+'' \<or> starts_with line ''-''
        then push_hunk_line blake3 line b
      else if line = NO_NEWLINE_MARKER then mark_last_line_missing_newline blake3 b
      else Inr b))))"

definition chomp :: "string \<Rightarrow> string" where
  "chomp raw_line = (case strip_suffix [NL] raw_line of None \<Rightarrow> raw_line | Some l \<Rightarrow> l)"

type_synonym patch_state = "ReviewDiffDocument list \<times> PatchFileBuilder option"

definition finish_current ::
  "(string \<Rightarrow> string) \<Rightarrow> ComparisonId \<Rightarrow> (nat \<Rightarrow> ReviewFileId) \<Rightarrow> patch_state \<Rightarrow>
    DiffError + ReviewDiffDocument list" where
  "finish_current blake3 comparison fresh st =
    (case st of
      (documents, None) \<Rightarrow> Inr documents
    | (documents, Some b) \<Rightarrow>
        rbind (finish_builder blake3 comparison (fresh (length documents)) b) (\<lambda>d.
        Inr (documents @ [d])))"

definition patch_step ::
  "(string \<Rightarrow> string) \<Rightarrow> ComparisonId \<Rightarrow> (nat \<Rightarrow> ReviewFileId) \<Rightarrow> string \<Rightarrow> patch_state \<Rightarrow>
    DiffError + patch_state" where
  "patch_step blake3 comparison fresh raw_line st =
    (case strip_prefix ''diff --git '' (chomp raw_line) of
       Some paths \<Rightarrow>
         rbind (finish_current blake3 comparison fresh st) (\<lambda>documents.
         rbind (parse_diff_git_paths paths) (\<lambda>(old_path, new_path).
         Inr (documents, Some (PatchFileBuilder_new old_path new_path))))
     | None \<Rightarrow>
         (case st of
           (documents, None) \<Rightarrow> Inr (documents, None)
         | (documents, Some b) \<Rightarrow>
             rbind (patch_line blake3 (chomp raw_line) b) (\<lambda>b'. Inr (documents, Some b'))))"

fun patch_lines ::
  "(string \<Rightarrow> string) \<Rightarrow> ComparisonId \<Rightarrow> (nat \<Rightarrow> ReviewFileId) \<Rightarrow> string list \<Rightarrow> patch_state \<Rightarrow>
    DiffError + patch_state" where
  "patch_lines blake3 comparison fresh [] st = Inr st"
| "patch_lines blake3 comparison fresh (line # lines) st =
    rbind (patch_step blake3 comparison fresh line st)
      (patch_lines blake3 comparison fresh lines)"

definition parse_unified_patch ::
  "(string \<Rightarrow> string) \<Rightarrow> (nat \<Rightarrow> ReviewFileId) \<Rightarrow> string \<Rightarrow> ComparisonId \<Rightarrow>
    DiffError + ReviewDiffDocument list" where
  "parse_unified_patch blake3 fresh patch comparison =
    rbind (patch_lines blake3 comparison fresh (split_inclusive NL patch) ([], None)) (\<lambda>st.
    rbind (finish_current blake3 comparison fresh st) (\<lambda>documents.
    if documents = [] \<and> patch \<noteq> [] then Inl MissingFileHeader else Inr documents))"

end
