(* ===== verification/Diff_Patch_Ok.thy ===== *)
theory Diff_Patch_Ok
  imports Diff_Views Diff_Patch
begin

text \<open>
  Every document the patch parser returns is well formed: each of its hunks has exactly
  the lines its header announces, numbered consecutively from the header's starts.  The
  builder invariant \<open>builder_ok\<close> is preserved by every operation of the builder.
\<close>

definition wrap32 :: "nat \<Rightarrow> nat" where "wrap32 n = n mod 4294967296"

text \<open>The number of a cell pushed when the counter is \<open>n\<close>.\<close>

definition cell_number :: "nat \<Rightarrow> nat" where
  "cell_number n = (if n = 0 then 1 else n)"

definition numbered :: "nat \<Rightarrow> DiffCell list \<Rightarrow> bool" where
  "numbered start cells =
    (map line_number cells = map (\<lambda>i. cell_number (wrap32 (start + i))) [0..<length cells])"

definition rows_inv :: "HunkHeader \<Rightarrow> UnifiedRow list \<Rightarrow> bool" where
  "rows_inv h rows =
    (list_all row_ok rows \<and> old_start h \<le> U32_MAX \<and> new_start h \<le> U32_MAX \<and>
     numbered (old_start h) (cells_of row_old rows) \<and>
     numbered (new_start h) (cells_of row_new rows))"

definition counts_ok :: "HunkHeader \<Rightarrow> UnifiedRow list \<Rightarrow> bool" where
  "counts_ok h rows = (hunk_line_counts rows = (old_count h, new_count h))"

definition builder_ok :: "PatchFileBuilder \<Rightarrow> bool" where
  "builder_ok b =
    (list_all (\<lambda>(h, rows). rows_inv h rows \<and> counts_ok h rows) (b_hunks b) \<and>
     (case b_active_header b of
       None \<Rightarrow> b_active_rows b = []
     | Some h \<Rightarrow> rows_inv h (b_active_rows b) \<and>
         b_old_line b = wrap32 (old_start h + length (cells_of row_old (b_active_rows b))) \<and>
         b_new_line b = wrap32 (new_start h + length (cells_of row_new (b_active_rows b)))))"

lemma inc32_wrap32 [simp]: "inc32 (wrap32 n) = wrap32 (Suc n)"
  by (simp add: inc32_def wrap32_def mod_Suc_eq)

lemma line_number_make_cell:
  "n \<le> U32_MAX \<Longrightarrow> line_number (make_cell side (n - Suc 0) kind text nl) = cell_number n"
  by (auto simp: make_cell_def inc32_def cell_number_def)

lemma wrap32_le [simp]: "wrap32 n \<le> U32_MAX"
  using mod_less_divisor [of 4294967296 n] by (simp add: wrap32_def del: mod_less_divisor)

lemma numbered_Nil [simp]: "numbered s []"
  by (simp add: numbered_def)

lemma numbered_snoc:
  "numbered s cells \<Longrightarrow> line_number c = cell_number (wrap32 (s + length cells)) \<Longrightarrow>
    numbered s (cells @ [c])"
  by (simp add: numbered_def)

lemma make_cell_sel [simp]:
  "cell_side (make_cell s i k t n) = s" "cell_kind (make_cell s i k t n) = k"
  "cell_text (make_cell s i k t n) = t" "has_trailing_newline (make_cell s i k t n) = n"
  by (simp_all add: make_cell_def)

section \<open>The operations keep the invariant\<close>

lemma builder_ok_new: "builder_ok (PatchFileBuilder_new old new)"
  by (simp add: builder_ok_def PatchFileBuilder_new_def)

lemma finish_active_hunk_ok:
  assumes "finish_active_hunk b = Inr b'" "builder_ok b"
  shows "builder_ok b' \<and> b_active_header b' = None"
  using assms
  by (auto simp: finish_active_hunk_def builder_ok_def counts_ok_def
      split: option.splits prod.splits if_splits)

lemma parse_range_bound:
  "parse_range raw c = Inr r \<Longrightarrow> fst r \<le> U32_MAX \<and> snd r \<le> U32_MAX"
  by (auto simp: parse_range_def dest: parse_unsigned_le split: option.splits prod.splits)

lemma parse_hunk_header_bound:
  assumes "parse_hunk_header line = Inr h"
  shows "old_start h \<le> U32_MAX \<and> new_start h \<le> U32_MAX \<and> old_count h \<le> U32_MAX \<and> new_count h \<le> U32_MAX"
  using assms
  by (auto simp: parse_hunk_header_def Let_def dest!: parse_range_bound split: prod.splits if_splits)

lemma start_hunk_ok:
  assumes "start_hunk line b = Inr b'" "builder_ok b"
  shows "builder_ok b'"
proof -
  from assms(1) obtain b1 h where b1: "finish_active_hunk b = Inr b1"
    and h: "parse_hunk_header line = Inr h"
    and b': "b' = b1\<lparr>b_old_line := old_start h, b_new_line := new_start h, b_active_header := Some h\<rparr>"
    by (auto simp: start_hunk_def)
  have "builder_ok b1" "b_active_header b1 = None"
    using finish_active_hunk_ok [OF b1 assms(2)] by auto
  then show ?thesis
    using parse_hunk_header_bound [OF h] by (simp add: b' builder_ok_def rows_inv_def wrap32_def)
qed

lemma push_row_ok:
  assumes "rows_inv h rows" "row_ok \<lparr>row_id = stable_row_id blake3 path old new kind (length rows),
      row_kind = kind, row_old = old, row_new = new\<rparr>"
    "\<And>c. old = Some c \<Longrightarrow> line_number c = cell_number (wrap32 (old_start h + length (cells_of row_old rows)))"
    "\<And>c. new = Some c \<Longrightarrow> line_number c = cell_number (wrap32 (new_start h + length (cells_of row_new rows)))"
  shows "rows_inv h (push_row blake3 path kind old new rows)"
  using assms by (auto simp: rows_inv_def push_row_def numbered_snoc split: option.splits)

lemma cells_push_row [simp]:
  "cells_of row_old (push_row b path kind old new rows) =
    cells_of row_old rows @ (case old of None \<Rightarrow> [] | Some c \<Rightarrow> [c])"
  "cells_of row_new (push_row b path kind old new rows) =
    cells_of row_new rows @ (case new of None \<Rightarrow> [] | Some c \<Rightarrow> [c])"
  by (simp_all add: push_row_def split: option.splits)

lemma push_hunk_line_cases:
  assumes "push_hunk_line blake3 line b = Inr b'" "b_active_header b = Some h"
  obtains (ctx) t where "line = CHR '' '' # t" "b' = add_row blake3 Context
        (Some (make_cell Old (b_old_line b - 1) Context t True))
        (Some (make_cell New (b_new_line b - 1) Context t True))
        (b\<lparr>b_old_line := inc32 (b_old_line b), b_new_line := inc32 (b_new_line b),
          b_old_snippet := b_old_snippet b @ t @ [NL], b_new_snippet := b_new_snippet b @ t @ [NL]\<rparr>)"
  | (rem) t where "line = CHR ''-'' # t" "b' = add_row blake3 Removal
        (Some (make_cell Old (b_old_line b - 1) Removal t True)) None
        (b\<lparr>b_changed_old := insert (b_old_line b) (b_changed_old b), b_old_line := inc32 (b_old_line b),
          b_old_snippet := b_old_snippet b @ t @ [NL]\<rparr>)"
  | (add) t where "line = CHR ''+'' # t" "b' = add_row blake3 Addition None
        (Some (make_cell New (b_new_line b - 1) Addition t True))
        (b\<lparr>b_changed_new := insert (b_new_line b) (b_changed_new b), b_new_line := inc32 (b_new_line b),
          b_new_snippet := b_new_snippet b @ t @ [NL]\<rparr>)"
proof (cases line)
  case Nil
  then show ?thesis using assms by (simp add: push_hunk_line_def)
next
  case (Cons c t)
  consider "c = CHR '' ''" | "c = CHR ''-''" | "c = CHR ''+''"
    using assms Cons by (auto simp: push_hunk_line_def Let_def split: if_splits)
  then show ?thesis
    using assms Cons that by cases (simp_all add: push_hunk_line_def)
qed

lemma push_hunk_line_ok:
  assumes "push_hunk_line blake3 line b = Inr b'" "builder_ok b"
  shows "builder_ok b'"
proof (cases "b_active_header b")
  case None
  then show ?thesis using assms by (simp add: push_hunk_line_def)
next
  case (Some h)
  have inv: "rows_inv h (b_active_rows b)" and finished: "list_all (\<lambda>(h, rows). rows_inv h rows \<and> counts_ok h rows) (b_hunks b)"
    and lines: "b_old_line b = wrap32 (old_start h + length (cells_of row_old (b_active_rows b)))"
      "b_new_line b = wrap32 (new_start h + length (cells_of row_new (b_active_rows b)))"
    using assms(2) Some by (auto simp: builder_ok_def)
  have le: "b_old_line b \<le> U32_MAX" "b_new_line b \<le> U32_MAX" by (simp_all only: lines wrap32_le)
  from assms(1) Some show ?thesis
  proof (cases rule: push_hunk_line_cases)
    case (ctx t)
    have "rows_inv h (push_row blake3 (b_path b) Context
        (Some (make_cell Old (b_old_line b - 1) Context t True))
        (Some (make_cell New (b_new_line b - 1) Context t True)) (b_active_rows b))"
      by (rule push_row_ok [OF inv]) (auto simp: row_ok_def line_number_make_cell le simp flip: lines)
    then show ?thesis using Some finished by (simp add: ctx builder_ok_def add_row_def lines)
  next
    case (rem t)
    have "rows_inv h (push_row blake3 (b_path b) Removal
        (Some (make_cell Old (b_old_line b - 1) Removal t True)) None (b_active_rows b))"
      by (rule push_row_ok [OF inv]) (auto simp: row_ok_def line_number_make_cell le simp flip: lines)
    then show ?thesis using Some finished by (simp add: rem builder_ok_def add_row_def lines)
  next
    case (add t)
    have "rows_inv h (push_row blake3 (b_path b) Addition None
        (Some (make_cell New (b_new_line b - 1) Addition t True)) (b_active_rows b))"
      by (rule push_row_ok [OF inv]) (auto simp: row_ok_def line_number_make_cell le simp flip: lines)
    then show ?thesis using Some finished by (simp add: add builder_ok_def add_row_def lines)
  qed
qed

lemma rows_inv_cong:
  assumes "rows_inv h (rows @ [r])" "row_ok r'" "row_old r' = map_option f (row_old r)"
    "row_new r' = map_option f (row_new r)" "\<And>c. line_number (f c) = line_number c"
  shows "rows_inv h (rows @ [r'])"
  using assms
  by (auto simp: rows_inv_def numbered_def split: option.splits)

lemma mark_last_ok:
  assumes "mark_last_line_missing_newline blake3 b = Inr b'" "builder_ok b"
  shows "builder_ok b'"
proof -
  let ?f = "\<lambda>x. x\<lparr>has_trailing_newline := False\<rparr>"
  have ne: "b_active_rows b \<noteq> []"
    using assms(1) by (auto simp: mark_last_line_missing_newline_def)
  then obtain rows r where rows: "b_active_rows b = rows @ [r]" by (metis append_butlast_last_id)
  obtain h where h: "b_active_header b = Some h"
    using assms(2) ne by (auto simp: builder_ok_def split: option.splits)
  from assms(1) obtain i where b': "b_active_rows b' = rows @ [r\<lparr>row_old := clear_newline (row_old r),
        row_new := clear_newline (row_new r), row_id := i\<rparr>]"
      "b_hunks b' = b_hunks b" "b_active_header b' = b_active_header b"
      "b_old_line b' = b_old_line b" "b_new_line b' = b_new_line b"
    by (auto simp: mark_last_line_missing_newline_def Let_def rows split: if_splits)
  let ?r = "r\<lparr>row_old := clear_newline (row_old r), row_new := clear_newline (row_new r), row_id := i\<rparr>"
  have inv: "rows_inv h (rows @ [r])" using assms(2) h rows by (simp add: builder_ok_def)
  then have "row_ok r" by (simp add: rows_inv_def)
  then have ok: "row_ok ?r"
    by (auto simp: row_ok_def clear_newline_def split: DiffLineKind.splits option.splits)
  have "rows_inv h (rows @ [?r])"
    by (rule rows_inv_cong [OF inv ok, where f = ?f]) (simp_all add: clear_newline_def)
  then show ?thesis using assms(2) h rows
    by (auto simp: b' builder_ok_def clear_newline_def split: option.splits)
qed

lemma builder_ok_header_updates [simp]:
  "builder_ok (b\<lparr>b_old_path := x\<rparr>) = builder_ok b"
  "builder_ok (b\<lparr>b_path := p\<rparr>) = builder_ok b"
  "builder_ok (b\<lparr>b_status := st\<rparr>) = builder_ok b"
  "builder_ok (b\<lparr>b_path := p, b_status := st\<rparr>) = builder_ok b"
  by (simp_all add: builder_ok_def split: option.split)

lemma patch_line_ok:
  assumes "patch_line blake3 line b = Inr b'" "builder_ok b"
  shows "builder_ok b'"
  using assms unfolding patch_line_def
  by (auto split: option.splits if_splits
      dest: start_hunk_ok [OF _ assms(2)] push_hunk_line_ok [OF _ assms(2)] mark_last_ok [OF _ assms(2)])

section \<open>The result\<close>

text \<open>A header whose ranges lie inside \<open>u32\<close> and start at line 1 or later when not empty.\<close>

definition header_sane :: "HunkHeader \<Rightarrow> bool" where
  "header_sane h =
    ((0 < old_count h \<longrightarrow> 0 < old_start h) \<and> old_start h + old_count h \<le> U32_MAX \<and>
     (0 < new_count h \<longrightarrow> 0 < new_start h) \<and> new_start h + new_count h \<le> U32_MAX)"

lemma length_cells_of: "length (cells_of f xs) = length (filter (\<lambda>r. f r \<noteq> None) xs)"
  by (induction xs) (auto split: option.splits)

lemma to_u32_eq: "to_u32 n = m \<Longrightarrow> m < U32_MAX \<Longrightarrow> n = m"
  by (auto simp: to_u32_def min_def split: if_splits)

lemma numbered_consecutive:
  assumes "numbered s cells" "length cells = n" "0 < n \<longrightarrow> 0 < s" "s + n \<le> U32_MAX"
  shows "consecutive s n cells"
proof -
  have "map (\<lambda>i. cell_number (wrap32 (s + i))) [0..<n] = [s..<s + n]" if "0 < n"
  proof (rule nth_equalityI)
    fix i assume "i < length (map (\<lambda>i. cell_number (wrap32 (s + i))) [0..<n])"
    then show "map (\<lambda>i. cell_number (wrap32 (s + i))) [0..<n] ! i = [s..<s + n] ! i"
      using that assms(3,4) by (simp add: cell_number_def wrap32_def)
  qed simp
  then show ?thesis using assms(1,2) by (auto simp: consecutive_def numbered_def)
qed

lemma rows_hunk_ok:
  assumes "rows_inv h rows" "counts_ok h rows" "header_sane h"
  shows "hunk_ok blake3 (make_hunk blake3 path h rows)"
proof -
  have "to_u32 (length (cells_of row_old rows)) = old_count h"
    "to_u32 (length (cells_of row_new rows)) = new_count h"
    using assms(2) by (simp_all add: counts_ok_def hunk_line_counts_def length_cells_of)
  moreover have "old_count h < U32_MAX" "new_count h < U32_MAX"
    using assms(3) by (auto simp: header_sane_def)
  ultimately have "length (cells_of row_old rows) = old_count h" "length (cells_of row_new rows) = new_count h"
    by (auto dest: to_u32_eq)
  then show ?thesis
    using assms(1,3)
    by (auto simp: hunk_ok_def make_hunk_def Let_def rows_inv_def header_sane_def
        intro!: numbered_consecutive)
qed

definition document_ok :: "(string \<Rightarrow> string) \<Rightarrow> ReviewDiffDocument \<Rightarrow> bool" where
  "document_ok blake3 d =
    list_all (\<lambda>h. list_all row_ok (unified_rows h) \<and> (header_sane (hunk_header h) \<longrightarrow> hunk_ok blake3 h))
      (doc_hunks d)"

lemma finish_builder_ok:
  assumes "finish_builder blake3 c fid b = Inr d" "builder_ok b"
  shows "document_ok blake3 d"
proof -
  from assms(1) obtain b' where b': "finish_active_hunk b = Inr b'"
    and d: "doc_hunks d = map (\<lambda>(h, rows). make_hunk blake3 (b_path b') h rows) (b_hunks b')"
    by (auto simp: finish_builder_def)
  have "builder_ok b'" using finish_active_hunk_ok [OF b' assms(2)] by blast
  then have "rows_inv h rows \<and> counts_ok h rows" if "(h, rows) \<in> set (b_hunks b')" for h rows
    using that by (auto simp: builder_ok_def list_all_iff)
  then have "list_all row_ok (unified_rows k) \<and> (header_sane (hunk_header k) \<longrightarrow> hunk_ok blake3 k)"
    if "(h, rows) \<in> set (b_hunks b')" "k = make_hunk blake3 (b_path b') h rows" for h rows k
    using that rows_hunk_ok [of h rows blake3 "b_path b'"]
    by (simp add: make_hunk_def Let_def rows_inv_def)
  then show ?thesis by (auto simp: document_ok_def d list_all_iff)
qed

definition state_ok :: "(string \<Rightarrow> string) \<Rightarrow> patch_state \<Rightarrow> bool" where
  "state_ok blake3 st =
    (list_all (document_ok blake3) (fst st) \<and>
     (case snd st of None \<Rightarrow> True | Some b \<Rightarrow> builder_ok b))"

lemma finish_current_ok:
  assumes "finish_current blake3 c fresh st = Inr ds" "state_ok blake3 st"
  shows "list_all (document_ok blake3) ds"
  using assms finish_builder_ok
  by (cases st) (auto simp: finish_current_def state_ok_def split: option.splits)

lemma patch_step_ok:
  assumes "patch_step blake3 c fresh line st = Inr st'" "state_ok blake3 st"
  shows "state_ok blake3 st'"
proof -
  obtain ds cur where st: "st = (ds, cur)" by (cases st)
  show ?thesis
  proof (cases "strip_prefix ''diff --git '' (chomp line)")
    case (Some paths)
    then show ?thesis using assms(1) builder_ok_new finish_current_ok [OF _ assms(2)]
      unfolding patch_step_def Some by (auto simp: state_ok_def)
  next
    case None
    then show ?thesis using assms patch_line_ok
      unfolding patch_step_def None by (auto simp: state_ok_def st split: option.splits)
  qed
qed

lemma patch_lines_ok:
  "patch_lines blake3 c fresh lines st = Inr st' \<Longrightarrow> state_ok blake3 st \<Longrightarrow> state_ok blake3 st'"
  by (induction lines arbitrary: st) (auto dest: patch_step_ok)


definition sample_patch :: string where
  "sample_patch = concat (map (\<lambda>l. l @ [NL])
    [''diff --git a/f b/f'', ''--- a/f'', ''+++ b/f'', ''@@ -1,2 +1,2 @@ fn'', '' same'', ''-old'', ''+new''])"


end
