(* ===== verification/Diff_Patch_Roundtrip.thy ===== *)
theory Diff_Patch_Roundtrip
  imports Diff_Patch
begin

text \<open>
  The patch parser inverts Git's rendering.  A specification file is a path with hunks of
  kinded lines; \<open>render_patch\<close> prints it in Git's unified format; parsing the text gives
  back documents with the same paths, headers, lines and missing-newline marks.  The side
  conditions of \<open>good_line\<close> are where the parser does not: inside a hunk a removed line
  that starts with two dashes and a space, or an added line that starts with two pluses
  and a space, reads as a file header.
\<close>

section \<open>Rendering\<close>

type_synonym spec_line = "DiffLineKind \<times> string \<times> bool"
type_synonym spec_hunk = "HunkHeader \<times> spec_line list"
type_synonym spec_file = "string \<times> spec_hunk list"

definition line_prefix :: "DiffLineKind \<Rightarrow> char" where
  "line_prefix k = (case k of Context \<Rightarrow> CHR '' '' | Removal \<Rightarrow> CHR ''-'' | Addition \<Rightarrow> CHR ''+'')"

definition render_line :: "spec_line \<Rightarrow> string list" where
  "render_line = (\<lambda>(k, t, newline).
    (line_prefix k # t) # (if newline then [] else [NO_NEWLINE_MARKER]))"

definition render_range :: "nat \<Rightarrow> nat \<Rightarrow> string" where
  "render_range start cnt = show_nat start @ '','' @ show_nat cnt"

definition render_header :: "HunkHeader \<Rightarrow> string" where
  "render_header h =
    ''@@ -'' @ render_range (old_start h) (old_count h) @
    '' +'' @ render_range (new_start h) (new_count h) @ '' @@'' @
    (case header_context h of None \<Rightarrow> [] | Some c \<Rightarrow> '' '' @ c)"

definition render_hunk :: "spec_hunk \<Rightarrow> string list" where
  "render_hunk = (\<lambda>(h, lines). render_header h # concat (map render_line lines))"

definition render_file :: "spec_file \<Rightarrow> string list" where
  "render_file = (\<lambda>(p, hunks).
    [''diff --git a/'' @ p @ '' b/'' @ p, ''--- a/'' @ p, ''+++ b/'' @ p] @
    concat (map render_hunk hunks))"

definition render_patch :: "spec_file list \<Rightarrow> string" where
  "render_patch fs = concat (map (\<lambda>l. l @ [NL]) (concat (map render_file fs)))"

definition good_line :: "spec_line \<Rightarrow> bool" where
  "good_line = (\<lambda>(k, t, newline). NL \<notin> set t \<and>
    (k = Removal \<longrightarrow> \<not> starts_with t ''-- '') \<and> (k = Addition \<longrightarrow> \<not> starts_with t ''++ ''))"

definition good_hunk :: "spec_hunk \<Rightarrow> bool" where
  "good_hunk = (\<lambda>(h, lines). list_all good_line lines \<and>
    old_start h \<le> U32_MAX \<and> new_start h \<le> U32_MAX \<and> old_count h \<le> U32_MAX \<and> new_count h \<le> U32_MAX \<and>
    old_count h = length (filter (\<lambda>l. fst l \<noteq> Addition) lines) \<and>
    new_count h = length (filter (\<lambda>l. fst l \<noteq> Removal) lines) \<and>
    header_context h \<noteq> Some [] \<and> (case header_context h of None \<Rightarrow> True | Some c \<Rightarrow> NL \<notin> set c))"

definition good_file :: "spec_file \<Rightarrow> bool" where
  "good_file = (\<lambda>(p, hunks). list_all (\<lambda>c. \<not> is_ascii_whitespace c) p \<and> list_all good_hunk hunks)"

section \<open>Views\<close>

definition cell_view :: "DiffCell \<Rightarrow> string \<times> bool" where
  "cell_view c = (cell_text c, has_trailing_newline c)"

definition row_view :: "UnifiedRow \<Rightarrow> DiffLineKind \<times> (string \<times> bool) option \<times> (string \<times> bool) option" where
  "row_view r = (row_kind r, map_option cell_view (row_old r), map_option cell_view (row_new r))"

definition line_view :: "spec_line \<Rightarrow> DiffLineKind \<times> (string \<times> bool) option \<times> (string \<times> bool) option" where
  "line_view = (\<lambda>(k, t, newline).
    (k, if k = Addition then None else Some (t, newline), if k = Removal then None else Some (t, newline)))"

definition document_view where
  "document_view d =
    (path_str (file_path (doc_file d)), map_option path_str (file_old_path (doc_file d)),
     file_status (doc_file d),
     map (\<lambda>h. (hunk_header h, map row_view (unified_rows h))) (doc_hunks d))"

definition file_view where
  "file_view = (\<lambda>(p, hunks).
    (p, Some p, FileModified, map (\<lambda>(h, lines). (h, map line_view lines)) hunks))"

section \<open>Hunk headers\<close>

definition plain_char :: "char \<Rightarrow> bool" where
  "plain_char c = list_all (\<lambda>w. hd w \<noteq> c) ws_encodings"

lemma plain_ws_len: "plain_char c \<Longrightarrow> ws_len (c # s) = 0"
  by (auto simp: ws_len_def plain_char_def find_Some_iff list_all_length prefix_Cons
      split: option.splits)

lemma split_ws_plain: "list_all plain_char w \<Longrightarrow> split_ws acc (w @ s) = split_ws (rev w @ acc) s"
  by (induction w arbitrary: acc) (auto simp: plain_ws_len)

lemma split_whitespace_two:
  assumes "list_all plain_char v" "list_all plain_char w" "v \<noteq> []" "w \<noteq> []"
  shows "split_whitespace (v @ CHR '' '' # w) = [v, w]"
  using assms split_ws_plain [OF assms(1), of "[]" "CHR '' '' # w"] split_ws_plain [OF assms(2), of "[]" "[]"]
  by (simp add: split_whitespace_def ws_len_space)

lemma plain_digit: "is_digit c \<Longrightarrow> plain_char c"
  by (auto simp: plain_char_def ws_encodings_def is_digit_def)

lemma plain_show_nat: "list_all plain_char (show_nat n)"
  using show_nat_digits plain_digit by (auto simp: list_all_iff)

lemma plain_range: "list_all plain_char (render_range s c)"
  by (auto simp: render_range_def plain_show_nat plain_char_def ws_encodings_def)

lemma no_char_show_nat: "\<not> is_digit d \<Longrightarrow> d \<notin> set (show_nat n)"
  using show_nat_digits by blast

lemma parse_range_render:
  assumes "s \<le> U32_MAX" "c \<le> U32_MAX"
  shows "parse_range (d # render_range s c) d = Inr (s, c)"
proof -
  have "CHR '','' \<notin> set (show_nat s)" by (rule no_char_show_nat) (simp add: is_digit_def)
  then show ?thesis using assms
    by (simp add: parse_range_def render_range_def strip_prefix_def ok_or_def)
qed

lemma find_str_marker:
  assumes "CHR ''@'' \<notin> set r"
  shows "find_str '' @@'' (r @ '' @@'' @ c) = Some (length r)"
  using assms
proof (induction r)
  case (Cons x r)
  have "\<not> prefix '' @@'' ((x # r) @ '' @@'' @ c)"
    using Cons.prems by (cases r) auto
  then show ?case using Cons by simp
qed simp

lemma split_once_marker:
  "CHR ''@'' \<notin> set r \<Longrightarrow> split_once_str '' @@'' (r @ '' @@'' @ c) = Some (r, c)"
  using find_str_marker [of r c] by (simp add: split_once_str_def)

lemma parse_hunk_header_render:
  assumes "old_start h \<le> U32_MAX" "new_start h \<le> U32_MAX" "old_count h \<le> U32_MAX" "new_count h \<le> U32_MAX"
    "header_context h \<noteq> Some []"
  shows "parse_hunk_header (render_header h) = Inr h"
proof -
  let ?v = "CHR ''-'' # render_range (old_start h) (old_count h)"
  let ?w = "CHR ''+'' # render_range (new_start h) (new_count h)"
  let ?c = "case header_context h of None \<Rightarrow> [] | Some c \<Rightarrow> '' '' @ c"
  have no: "CHR ''@'' \<notin> set (?v @ CHR '' '' # ?w)"
    using no_char_show_nat [of "CHR ''@''"] by (simp add: render_range_def is_digit_def)
  have body: "strip_prefix ''@@ '' (render_header h) = Some ((?v @ CHR '' '' # ?w) @ '' @@'' @ ?c)"
    by (simp add: render_header_def strip_prefix_def)
  have split: "split_once_str '' @@'' ((?v @ CHR '' '' # ?w) @ '' @@'' @ ?c) = Some (?v @ CHR '' '' # ?w, ?c)"
    by (rule split_once_marker [OF no])
  have words: "split_whitespace (?v @ CHR '' '' # ?w) = [?v, ?w]"
    by (rule split_whitespace_two) (simp_all add: plain_range plain_char_def ws_encodings_def)
  show ?thesis
    unfolding parse_hunk_header_def body split ok_or_def option.case rbind_simps prod.case words Let_def
    using assms
    by (simp add: nth_opt_def parse_range_render strip_prefix_def split: option.split)
qed

section \<open>Running the loop\<close>

lemma chomp_line: "chomp (l @ [NL]) = l"
proof -
  have "strip_suffix [NL] (l @ [NL]) = Some l" by simp
  then show ?thesis by (simp only: chomp_def option.case)
qed

lemma patch_lines_append:
  "patch_lines b c fresh (xs @ ys) st = rbind (patch_lines b c fresh xs st) (patch_lines b c fresh ys)"
proof (induction xs arbitrary: st)
  case (Cons x xs)
  show ?case by (cases "patch_step b c fresh x st") (simp_all add: Cons.IH)
qed simp

abbreviation with_nl :: "string list \<Rightarrow> string list" where
  "with_nl \<equiv> map (\<lambda>l. l @ [NL])"

text \<open>A line that is not a file header steps the current builder.\<close>

lemma patch_lines_builder:
  assumes "strip_prefix ''diff --git '' l = None" "patch_line b l cur = Inr cur'"
  shows "patch_lines b c fresh (with_nl (l # ls)) (ds, Some cur) =
    patch_lines b c fresh (with_nl ls) (ds, Some cur')"
  using assms by (simp add: patch_step_def chomp_line)

lemma strip_prefix_Cons_ne: "x \<noteq> y \<Longrightarrow> strip_prefix (x # xs) (y # ys) = None"
  by (simp add: strip_prefix_def)

lemma starts_with_Cons_ne: "x \<noteq> y \<Longrightarrow> \<not> starts_with (y # ys) (x # xs)"
  by (simp add: starts_with_def)

lemma patch_line_body:
  assumes "good_line (k, t, newline)" "b_active_header cur \<noteq> None"
  shows "patch_line b (line_prefix k # t) cur = push_hunk_line b (line_prefix k # t) cur"
proof -
  have m: "strip_prefix ''--- '' (line_prefix k # t) = None"
    using assms(1) by (cases k) (auto simp: good_line_def line_prefix_def strip_prefix_def starts_with_def)
  have p: "strip_prefix ''+++ '' (line_prefix k # t) = None"
    using assms(1) by (cases k) (auto simp: good_line_def line_prefix_def strip_prefix_def starts_with_def)
  show ?thesis
    unfolding patch_line_def m p
    by (cases k) (simp_all add: line_prefix_def strip_prefix_def starts_with_def)
qed

lemma patch_line_marker:
  "patch_line b NO_NEWLINE_MARKER cur = mark_last_line_missing_newline b cur"
  by (simp add: patch_line_def NO_NEWLINE_MARKER_def strip_prefix_def starts_with_def)

definition grown :: "PatchFileBuilder \<Rightarrow> PatchFileBuilder \<Rightarrow> spec_line \<Rightarrow> bool" where
  "grown cur cur' l =
    (b_path cur' = b_path cur \<and> b_old_path cur' = b_old_path cur \<and> b_status cur' = b_status cur \<and>
     b_hunks cur' = b_hunks cur \<and> b_active_header cur' = b_active_header cur \<and>
     map row_view (b_active_rows cur') = map row_view (b_active_rows cur) @ [line_view l])"

lemma push_line_grown:
  assumes "b_active_header cur \<noteq> None"
  shows "case push_hunk_line b (line_prefix k # t) cur of
      Inl _ \<Rightarrow> False
    | Inr cur' \<Rightarrow> grown cur cur' (k, t, True) \<and> b_active_rows cur' \<noteq> [] \<and>
        (row_old (last (b_active_rows cur')) \<noteq> None \<longrightarrow>
          remove_final_newline (b_old_snippet cur') = Inr (b_old_snippet cur @ t)) \<and>
        (row_new (last (b_active_rows cur')) \<noteq> None \<longrightarrow>
          remove_final_newline (b_new_snippet cur') = Inr (b_new_snippet cur @ t))"
  using assms
  by (cases k)
     (simp_all add: push_hunk_line_def line_prefix_def grown_def add_row_def push_row_def row_view_def
        line_view_def cell_view_def make_cell_def remove_final_newline_def butlast_append Let_def)

lemma mark_last_grown:
  assumes "grown cur cur1 (k, t, True)" "b_active_rows cur1 \<noteq> []"
    "row_old (last (b_active_rows cur1)) \<noteq> None \<longrightarrow> remove_final_newline (b_old_snippet cur1) = Inr os"
    "row_new (last (b_active_rows cur1)) \<noteq> None \<longrightarrow> remove_final_newline (b_new_snippet cur1) = Inr ns"
  shows "\<exists>cur'. mark_last_line_missing_newline b cur1 = Inr cur' \<and> grown cur cur' (k, t, False)"
proof -
  obtain rows r where rows: "b_active_rows cur1 = rows @ [r]"
    using assms(2) by (metis append_butlast_last_id)
  have views: "map row_view rows = map row_view (b_active_rows cur)" "row_view r = line_view (k, t, True)"
    using assms(1) by (auto simp: grown_def rows)
  then have some: "row_old r \<noteq> None \<or> row_new r \<noteq> None"
    by (cases k) (auto simp: row_view_def line_view_def)
  have marked: "row_view (r\<lparr>row_old := clear_newline (row_old r), row_new := clear_newline (row_new r),
      row_id := i\<rparr>) = line_view (k, t, False)" for i
    using views(2)
    by (cases "row_old r"; cases "row_new r")
       (auto simp: row_view_def line_view_def clear_newline_def cell_view_def split: if_splits)
  show ?thesis
    using assms some marked views
    by (cases "row_old r"; cases "row_new r")
       (auto simp: mark_last_line_missing_newline_def Let_def rows clear_newline_def grown_def)
qed

lemma run_line:
  assumes "good_line l" "b_active_header cur \<noteq> None"
  shows "\<exists>cur'. grown cur cur' l \<and> patch_lines b c fresh (with_nl (render_line l @ ls)) (ds, Some cur) =
    patch_lines b c fresh (with_nl ls) (ds, Some cur')"
proof -
  obtain k t newline where l: "l = (k, t, newline)" by (cases l)
  from push_line_grown [OF assms(2), where b = b and k = k and t = t] obtain cur1 where
    push: "push_hunk_line b (line_prefix k # t) cur = Inr cur1" and
    g: "grown cur cur1 (k, t, True)" "b_active_rows cur1 \<noteq> []" and
    o': "row_old (last (b_active_rows cur1)) \<noteq> None \<longrightarrow>
      remove_final_newline (b_old_snippet cur1) = Inr (b_old_snippet cur @ t)" and
    n': "row_new (last (b_active_rows cur1)) \<noteq> None \<longrightarrow>
      remove_final_newline (b_new_snippet cur1) = Inr (b_new_snippet cur @ t)"
    by (auto split: sum.splits)
  have nd: "strip_prefix ''diff --git '' (line_prefix k # t) = None"
    by (cases k) (simp_all add: line_prefix_def strip_prefix_def)
  have step: "patch_line b (line_prefix k # t) cur = Inr cur1"
    using patch_line_body assms push by (simp add: l)
  show ?thesis
  proof (cases newline)
    case True
    with g(1) patch_lines_builder [OF nd step] show ?thesis
      by (auto simp: l render_line_def)
  next
    case False
    from mark_last_grown [OF g o' n'] obtain cur2 where
      m: "mark_last_line_missing_newline b cur1 = Inr cur2" and g2: "grown cur cur2 (k, t, False)" by blast
    have nd2: "strip_prefix ''diff --git '' NO_NEWLINE_MARKER = None"
      by (simp add: NO_NEWLINE_MARKER_def strip_prefix_def)
    have "patch_lines b c fresh (with_nl (render_line l @ ls)) (ds, Some cur) =
        patch_lines b c fresh (with_nl (NO_NEWLINE_MARKER # ls)) (ds, Some cur1)"
      using patch_lines_builder [OF nd step, where ls = "NO_NEWLINE_MARKER # ls"]
      by (simp add: l False render_line_def del: patch_lines.simps)
    also have "\<dots> = patch_lines b c fresh (with_nl ls) (ds, Some cur2)"
      by (rule patch_lines_builder [OF nd2]) (simp add: patch_line_marker m)
    finally show ?thesis using g2 by (auto simp: l False)
  qed
qed

definition body_grown :: "PatchFileBuilder \<Rightarrow> PatchFileBuilder \<Rightarrow> spec_line list \<Rightarrow> bool" where
  "body_grown cur cur' ls =
    (b_path cur' = b_path cur \<and> b_old_path cur' = b_old_path cur \<and> b_status cur' = b_status cur \<and>
     b_hunks cur' = b_hunks cur \<and> b_active_header cur' = b_active_header cur \<and>
     map row_view (b_active_rows cur') = map row_view (b_active_rows cur) @ map line_view ls)"

lemma run_body:
  assumes "list_all good_line lns" "b_active_header cur \<noteq> None"
  shows "\<exists>cur'. body_grown cur cur' lns \<and>
    patch_lines b c fresh (with_nl (concat (map render_line lns) @ ls)) (ds, Some cur) =
    patch_lines b c fresh (with_nl ls) (ds, Some cur')"
  using assms
proof (induction lns arbitrary: cur)
  case Nil
  then show ?case by (auto simp: body_grown_def)
next
  case (Cons l lns)
  from run_line [where l = l and cur = cur and b = b and c = c and fresh = fresh and ls = "concat (map render_line lns) @ ls" and ds = ds] Cons.prems
  obtain cur1 where g: "grown cur cur1 l" and
    r: "patch_lines b c fresh (with_nl (render_line l @ concat (map render_line lns) @ ls)) (ds, Some cur) =
      patch_lines b c fresh (with_nl (concat (map render_line lns) @ ls)) (ds, Some cur1)"
    by auto
  have "b_active_header cur1 \<noteq> None" using g Cons.prems by (simp add: grown_def)
  with Cons obtain cur' where
    g': "body_grown cur1 cur' lns" and
    r': "patch_lines b c fresh (with_nl (concat (map render_line lns) @ ls)) (ds, Some cur1) =
      patch_lines b c fresh (with_nl ls) (ds, Some cur')"
    by auto
  have "body_grown cur cur' (l # lns)" using g g' by (auto simp: grown_def body_grown_def)
  with r r' show ?case by auto
qed

section \<open>Hunks and files\<close>

definition hunk_view where
  "hunk_view = (\<lambda>(h, lns). (h, map line_view lns))"

definition rows_view where
  "rows_view = (\<lambda>(h, rows). (h, map row_view rows))"

text \<open>After the hunks \<open>hs\<close> of file \<open>p\<close> the builder can be finished and then holds them.\<close>

definition holds :: "PatchFileBuilder \<Rightarrow> string \<Rightarrow> spec_hunk list \<Rightarrow> bool" where
  "holds cur p hs =
    ((b_active_header cur = None \<longrightarrow> b_active_rows cur = []) \<and>
     (\<exists>cur1. finish_active_hunk cur = Inr cur1 \<and> b_active_header cur1 = None \<and> b_active_rows cur1 = [] \<and>
       path_str (b_path cur1) = p \<and> map_option path_str (b_old_path cur1) = Some p \<and>
       b_status cur1 = FileModified \<and> map rows_view (b_hunks cur1) = map hunk_view hs))"

lemma length_filter_map: "length (filter (\<lambda>x. P (f x)) xs) = length (filter P (map f xs))"
  by (simp add: filter_map o_def)

lemma view_counts:
  assumes "map row_view rows = map line_view lns"
  shows "length (filter (\<lambda>r. row_old r \<noteq> None) rows) = length (filter (\<lambda>l. fst l \<noteq> Addition) lns) \<and>
    length (filter (\<lambda>r. row_new r \<noteq> None) rows) = length (filter (\<lambda>l. fst l \<noteq> Removal) lns)"
proof -
  have o: "row_old r \<noteq> None \<longleftrightarrow> fst (snd (row_view r)) \<noteq> None" for r by (simp add: row_view_def)
  have n: "row_new r \<noteq> None \<longleftrightarrow> snd (snd (row_view r)) \<noteq> None" for r by (simp add: row_view_def)
  have o': "fst l \<noteq> Addition \<longleftrightarrow> fst (snd (line_view l)) \<noteq> None" for l
    by (cases l) (simp add: line_view_def)
  have n': "fst l \<noteq> Removal \<longleftrightarrow> snd (snd (line_view l)) \<noteq> None" for l
    by (cases l) (simp add: line_view_def)
  show ?thesis
    unfolding o n o' n'
    unfolding length_filter_map [where f = row_view and P = "\<lambda>v. fst (snd v) \<noteq> None"]
      length_filter_map [where f = line_view and P = "\<lambda>v. fst (snd v) \<noteq> None"]
      length_filter_map [where f = row_view and P = "\<lambda>v. snd (snd v) \<noteq> None"]
      length_filter_map [where f = line_view and P = "\<lambda>v. snd (snd v) \<noteq> None"] assms
    by simp
qed

lemma run_hunk:
  assumes "good_hunk (h, lns)" "holds cur p hs"
  shows "\<exists>cur'. holds cur' p (hs @ [(h, lns)]) \<and>
    patch_lines b c fresh (with_nl (render_hunk (h, lns) @ ls)) (ds, Some cur) =
    patch_lines b c fresh (with_nl ls) (ds, Some cur')"
proof -
  from assms(2) obtain cur1 where fin: "finish_active_hunk cur = Inr cur1" and
    c1: "b_active_header cur1 = None" "b_active_rows cur1 = []" "path_str (b_path cur1) = p"
      "map_option path_str (b_old_path cur1) = Some p" "b_status cur1 = FileModified"
      "map rows_view (b_hunks cur1) = map hunk_view hs"
    by (auto simp: holds_def)
  have good: "list_all good_line lns" "old_start h \<le> U32_MAX" "new_start h \<le> U32_MAX"
    "old_count h \<le> U32_MAX" "new_count h \<le> U32_MAX" "header_context h \<noteq> Some []"
    "old_count h = length (filter (\<lambda>l. fst l \<noteq> Addition) lns)"
    "new_count h = length (filter (\<lambda>l. fst l \<noteq> Removal) lns)"
    using assms(1) by (auto simp: good_hunk_def)
  define cur2 where "cur2 = cur1\<lparr>b_old_line := old_start h, b_new_line := new_start h,
    b_active_header := Some h\<rparr>"
  have "start_hunk (render_header h) cur = Inr cur2"
    using fin parse_hunk_header_render [OF good(2-6)] by (simp add: start_hunk_def cur2_def)
  then have step: "patch_line b (render_header h) cur = Inr cur2"
    by (simp add: patch_line_def render_header_def strip_prefix_def starts_with_def)
  have nd: "strip_prefix ''diff --git '' (render_header h) = None"
    by (simp add: render_header_def strip_prefix_def)
  have "b_active_header cur2 \<noteq> None" by (simp add: cur2_def)
  from run_body [OF good(1) this, where b = b and c = c and fresh = fresh and ls = ls and ds = ds]
  obtain cur3 where g: "body_grown cur2 cur3 lns" and
    r: "patch_lines b c fresh (with_nl (concat (map render_line lns) @ ls)) (ds, Some cur2) =
      patch_lines b c fresh (with_nl ls) (ds, Some cur3)" by blast
  have rows: "map row_view (b_active_rows cur3) = map line_view lns" "b_active_header cur3 = Some h"
    using g c1 by (simp_all add: body_grown_def cur2_def)
  have "hunk_line_counts (b_active_rows cur3) = (old_count h, new_count h)"
    using view_counts [OF rows(1)] good by (simp add: hunk_line_counts_def to_u32_def)
  then have "holds cur3 p (hs @ [(h, lns)])"
    using g c1 rows by (auto simp: holds_def finish_active_hunk_def body_grown_def cur2_def
        rows_view_def hunk_view_def)
  moreover have "patch_lines b c fresh (with_nl (render_hunk (h, lns) @ ls)) (ds, Some cur) =
      patch_lines b c fresh (with_nl ls) (ds, Some cur3)"
    using patch_lines_builder [OF nd step, where ls = "concat (map render_line lns) @ ls"] r
    by (simp add: render_hunk_def del: patch_lines.simps)
  ultimately show ?thesis by blast
qed

lemma run_hunks:
  assumes "list_all good_hunk new" "holds cur p hs"
  shows "\<exists>cur'. holds cur' p (hs @ new) \<and>
    patch_lines b c fresh (with_nl (concat (map render_hunk new) @ ls)) (ds, Some cur) =
    patch_lines b c fresh (with_nl ls) (ds, Some cur')"
  using assms
proof (induction new arbitrary: cur hs)
  case (Cons k new)
  obtain h lns where k: "k = (h, lns)" by (cases k)
  from Cons.prems run_hunk [of h lns cur p hs b c fresh "concat (map render_hunk new) @ ls" ds]
  obtain cur1 where h1: "holds cur1 p (hs @ [k])" and
    r1: "patch_lines b c fresh (with_nl (render_hunk k @ concat (map render_hunk new) @ ls)) (ds, Some cur) =
      patch_lines b c fresh (with_nl (concat (map render_hunk new) @ ls)) (ds, Some cur1)"
    by (auto simp: k)
  from Cons.IH [OF _ h1] Cons.prems obtain cur2 where
    h2: "holds cur2 p ((hs @ [k]) @ new)" and
    r2: "patch_lines b c fresh (with_nl (concat (map render_hunk new) @ ls)) (ds, Some cur1) =
      patch_lines b c fresh (with_nl ls) (ds, Some cur2)" by auto
  have "holds cur2 p (hs @ k # new)" using h2 by simp
  moreover have "patch_lines b c fresh (with_nl (concat (map render_hunk (k # new)) @ ls)) (ds, Some cur) =
      patch_lines b c fresh (with_nl ls) (ds, Some cur2)"
    using r1 r2 by simp
  ultimately show ?case by blast
qed auto

lemma holds_finish:
  assumes "holds cur p hs"
  shows "\<exists>d. finish_builder b c fid cur = Inr d \<and> document_view d = file_view (p, hs)"
proof -
  from assms obtain cur1 where fin: "finish_active_hunk cur = Inr cur1" and
    c1: "path_str (b_path cur1) = p" "map_option path_str (b_old_path cur1) = Some p"
      "b_status cur1 = FileModified" "map rows_view (b_hunks cur1) = map hunk_view hs"
    by (auto simp: holds_def)
  have "map (\<lambda>h. (hunk_header h, map row_view (unified_rows h)))
      (map (\<lambda>(header, rows). make_hunk b (b_path cur1) header rows) (b_hunks cur1)) =
    map rows_view (b_hunks cur1)"
    by (auto simp: rows_view_def make_hunk_def Let_def)
  then show ?thesis using fin c1
    by (auto simp: finish_builder_def document_view_def file_view_def hunk_view_def[abs_def])
qed

section \<open>The file headers\<close>

lemma not_ws_dropWhile:
  "list_all (\<lambda>c. \<not> is_ascii_whitespace c) w \<Longrightarrow> w \<noteq> [] \<Longrightarrow>
    dropWhile is_ascii_whitespace (w @ s) = w @ s"
  by (cases w) auto

lemma takeWhile_word:
  assumes "list_all (\<lambda>c. \<not> is_ascii_whitespace c) w"
  shows "takeWhile (\<lambda>c. \<not> is_ascii_whitespace c) (w @ CHR '' '' # s) = w"
    and "dropWhile (\<lambda>c. \<not> is_ascii_whitespace c) (w @ CHR '' '' # s) = CHR '' '' # s"
    and "takeWhile (\<lambda>c. \<not> is_ascii_whitespace c) w = w"
    and "dropWhile (\<lambda>c. \<not> is_ascii_whitespace c) w = []"
proof -
  have space: "is_ascii_whitespace CHR '' ''" by (simp add: is_ascii_whitespace_def)
  have all: "\<forall>c\<in>set w. \<not> is_ascii_whitespace c" using assms by (simp add: list_all_iff)
  show "takeWhile (\<lambda>c. \<not> is_ascii_whitespace c) (w @ CHR '' '' # s) = w"
    "dropWhile (\<lambda>c. \<not> is_ascii_whitespace c) (w @ CHR '' '' # s) = CHR '' '' # s"
    "takeWhile (\<lambda>c. \<not> is_ascii_whitespace c) w = w"
    "dropWhile (\<lambda>c. \<not> is_ascii_whitespace c) w = []"
    using all by (simp_all add: takeWhile_append2 dropWhile_append2 space)
qed

lemma tokens_two:
  assumes "list_all (\<lambda>c. \<not> is_ascii_whitespace c) v" "list_all (\<lambda>c. \<not> is_ascii_whitespace c) w"
    "v \<noteq> []" "w \<noteq> []" "hd v \<noteq> QUOTE" "hd w \<noteq> QUOTE"
  shows "parse_git_header_tokens (v @ CHR '' '' # w) = Inr [v, w]"
proof -
  have space: "is_ascii_whitespace CHR '' ''" by (simp add: is_ascii_whitespace_def)
  have "parse_git_header_tokens [] = Inr []" by (simp add: parse_git_header_tokens.simps)
  then have "parse_git_header_tokens (CHR '' '' # w) = Inr [w]"
    using not_ws_dropWhile [OF assms(2,4), of "[]"] assms(3-6)
    by (subst parse_git_header_tokens.simps) (simp add: space takeWhile_word [OF assms(2)])
  then show ?thesis
    using not_ws_dropWhile [OF assms(1,3), of "CHR '' '' # w"] assms(3-6)
    by (subst parse_git_header_tokens.simps) (simp add: takeWhile_word [OF assms(1)])
qed

lemma parse_git_path_plain:
  "x \<noteq> QUOTE \<Longrightarrow> parse_git_path (x # s) = Inr (StoredPath (x # s))"
  by (simp add: parse_git_path_def starts_with_def)

lemma run_file:
  assumes "good_file (p, hs)" "finish_current b c fresh st = Inr ds"
  shows "\<exists>cur. holds cur p hs \<and>
    patch_lines b c fresh (with_nl (render_file (p, hs) @ ls)) st =
    patch_lines b c fresh (with_nl ls) (ds, Some cur)"
proof -
  have p: "list_all (\<lambda>c. \<not> is_ascii_whitespace c) p" and hs: "list_all good_hunk hs"
    using assms(1) by (auto simp: good_file_def)
  let ?l1 = "''diff --git a/'' @ p @ '' b/'' @ p"
  let ?l2 = "''--- a/'' @ p"
  let ?l3 = "''+++ b/'' @ p"
  define b0 where "b0 = PatchFileBuilder_new (StoredPath p) (StoredPath p)"
  have "parse_git_header_tokens ((''a/'' @ p) @ CHR '' '' # (''b/'' @ p)) = Inr [''a/'' @ p, ''b/'' @ p]"
    by (rule tokens_two) (use p in \<open>simp_all add: is_ascii_whitespace_def\<close>)
  then have paths: "parse_diff_git_paths (''a/'' @ p @ '' b/'' @ p) = Inr (StoredPath p, StoredPath p)"
    by (simp add: parse_diff_git_paths_def strip_patch_prefix_def strip_prefix_def)
  have sp: "strip_prefix ''diff --git '' ?l1 = Some (''a/'' @ p @ '' b/'' @ p)"
    by (simp add: strip_prefix_def)
  have s1: "patch_lines b c fresh (with_nl (?l1 # xs)) st = patch_lines b c fresh (with_nl xs) (ds, Some b0)" for xs
  proof -
    have "patch_step b c fresh (?l1 @ [NL]) st = Inr (ds, Some b0)"
      unfolding patch_step_def chomp_line sp using assms(2) paths by (simp add: b0_def)
    then show ?thesis by (simp only: list.map patch_lines.simps rbind_simps)
  qed
  have l2: "strip_prefix ''diff --git '' ?l2 = None" "patch_line b ?l2 b0 = Inr b0"
    by (simp_all add: patch_line_def strip_prefix_def strip_git_patch_prefix_def parse_git_path_def
        starts_with_def strip_patch_prefix_def b0_def PatchFileBuilder_new_def)
  have l3: "strip_prefix ''diff --git '' ?l3 = None" "patch_line b ?l3 b0 = Inr b0"
    by (simp_all add: patch_line_def strip_prefix_def strip_git_patch_prefix_def parse_git_path_def
        starts_with_def strip_patch_prefix_def b0_def PatchFileBuilder_new_def)
  have "holds b0 p []"
    by (simp add: holds_def b0_def PatchFileBuilder_new_def finish_active_hunk_def)
  from run_hunks [OF hs this, of b c fresh ls ds] obtain cur where
    h: "holds cur p hs" and
    r: "patch_lines b c fresh (with_nl (concat (map render_hunk hs) @ ls)) (ds, Some b0) =
      patch_lines b c fresh (with_nl ls) (ds, Some cur)" by auto
  have "render_file (p, hs) @ ls = ?l1 # ?l2 # ?l3 # (concat (map render_hunk hs) @ ls)"
    by (simp add: render_file_def)
  then have "patch_lines b c fresh (with_nl (render_file (p, hs) @ ls)) st =
      patch_lines b c fresh (with_nl ls) (ds, Some cur)"
    by (simp only: s1 patch_lines_builder [OF l2] patch_lines_builder [OF l3] r)
  with h show ?thesis by blast
qed

lemma run_files:
  assumes "list_all good_file fs" "finish_current b c fresh st = Inr ds"
  shows "\<exists>st' ds'. patch_lines b c fresh (with_nl (concat (map render_file fs))) st = Inr st' \<and>
    finish_current b c fresh st' = Inr (ds @ ds') \<and> map document_view ds' = map file_view fs"
  using assms
proof (induction fs arbitrary: st ds)
  case (Cons f fs)
  obtain p hs where f: "f = (p, hs)" by (cases f)
  from Cons.prems run_file [of p hs b c fresh st ds "concat (map render_file fs)"] obtain cur where
    h: "holds cur p hs" and
    r: "patch_lines b c fresh (with_nl (render_file f @ concat (map render_file fs))) st =
      patch_lines b c fresh (with_nl (concat (map render_file fs))) (ds, Some cur)"
    by (auto simp: f)
  from holds_finish [OF h, where b = b and c = c and fid = "fresh (length ds)"] obtain d where
    d: "finish_builder b c (fresh (length ds)) cur = Inr d" "document_view d = file_view f"
    by (auto simp: f)
  have "finish_current b c fresh (ds, Some cur) = Inr (ds @ [d])"
    by (simp add: finish_current_def d)
  from Cons.IH [OF _ this] Cons.prems r d(2) show ?case by fastforce
qed auto

lemma good_lines_no_newline:
  assumes "list_all good_file fs" "l \<in> set (concat (map render_file fs))"
  shows "NL \<notin> set l"
proof -
  from assms(2) obtain p hs where f: "(p, hs) \<in> set fs" "l \<in> set (render_file (p, hs))" by auto
  then have g: "good_file (p, hs)" using assms(1) by (auto simp: list_all_iff)
  have nlp: "NL \<notin> set p" using g by (auto simp: good_file_def list_all_iff is_ascii_whitespace_def)
  have num: "NL \<notin> set (show_nat n)" for n using show_nat_digits by (force simp: is_digit_def)
  show ?thesis
  proof (cases "l \<in> set (concat (map render_hunk hs))")
    case True
    then obtain h lns where k: "(h, lns) \<in> set hs" "l \<in> set (render_hunk (h, lns))" by auto
    have gk: "good_hunk (h, lns)" using g k(1) by (auto simp: good_file_def list_all_iff)
    show ?thesis
    proof (cases "l = render_header h")
      case True
      then show ?thesis using gk num
        by (auto simp: render_header_def render_range_def good_hunk_def split: option.splits)
    next
      case False
      then obtain k t n where kt: "(k, t, n) \<in> set lns" "l \<in> set (render_line (k, t, n))"
        using k(2) by (auto simp: render_hunk_def)
      then have "good_line (k, t, n)" using gk by (auto simp: good_hunk_def list_all_iff)
      then show ?thesis using kt(2)
        by (cases k) (auto simp: render_line_def good_line_def line_prefix_def NO_NEWLINE_MARKER_def
            split: if_splits)
    qed
  next
    case False
    then show ?thesis using f(2) nlp by (auto simp: render_file_def)
  qed
qed


definition sample_files :: "spec_file list" where
  "sample_files = [(''src/a.rs'', [(\<lparr>old_start = 1, old_count = 2, new_start = 1, new_count = 2,
      header_context = Some ''fn f''\<rparr>,
    [(Context, ''x'', True), (Removal, ''- y'', True), (Addition, ''z'', False)])])]"

lemma sample_files_good: "list_all good_file sample_files"
  by (simp add: sample_files_def good_file_def good_hunk_def good_line_def is_ascii_whitespace_def
      starts_with_def)


lemma removed_dash_lines:
  assumes "list_all (\<lambda>c. \<not> is_ascii_whitespace c) p" "NL \<notin> set t"
  defines "h \<equiv> \<lparr>old_start = 1, old_count = 1, new_start = 0, new_count = 0, header_context = None\<rparr>"
  shows "split_inclusive NL (render_patch [(p, [(h, [(Removal, ''-- '' @ t, True)])])]) =
    with_nl (render_file (p, []) @ [render_header h, ''--- '' @ t])"
proof -
  have nl: "NL \<notin> set x" if "x \<in> set (render_file (p, []) @ [render_header h, (''--- '' @ t)])" for x
  proof -
    have good: "list_all good_file [(p, [(h, [(Removal, ''x'', True)])])]"
      using assms(1) by (simp add: good_file_def good_hunk_def good_line_def starts_with_def h_def)
    have "x \<in> set (concat (map render_file [(p, [(h, [(Removal, ''x'', True)])])])) \<or> x = (''--- '' @ t)"
      using that by (auto simp: render_file_def render_hunk_def)
    then show ?thesis
    proof
      assume "x \<in> set (concat (map render_file [(p, [(h, [(Removal, ''x'', True)])])]))"
      then show ?thesis by (rule good_lines_no_newline [OF good])
    qed (use assms(2) in simp)
  qed
  have "render_patch [(p, [(h, [(Removal, ''-- '' @ t, True)])])] =
      concat (with_nl (render_file (p, []) @ [render_header h, (''--- '' @ t)])) @ []"
    by (simp add: render_patch_def render_file_def render_hunk_def render_line_def line_prefix_def)
  then show ?thesis using split_inclusive_concat [OF nl, where s = "[]"] by (simp only: split_inclusive.simps append_Nil2)
qed

text \<open>A well-formed patch that removes one line whose text starts with \<open>-- \<close> (an SQL, Lua
  or Haskell comment) is rejected as a whole: inside the hunk the line reads as the file
  header \<open>--- \<close>, so the hunk is one line short.  The text after the dashes is arbitrary
  apart from a leading quote.\<close>

theorem removed_dash_line_rejected:
  assumes "list_all (\<lambda>c. \<not> is_ascii_whitespace c) p" "NL \<notin> set t" "\<not> starts_with t [QUOTE]"
  defines "h \<equiv> \<lparr>old_start = 1, old_count = 1, new_start = 0, new_count = 0, header_context = None\<rparr>"
  shows "parse_unified_patch blake3 fresh
      (render_patch [(p, [(h, [(Removal, ''-- '' @ t, True)])])]) c =
    Inl (HunkLineCountMismatch 1 0 0 0)"
proof -
  let ?l = "''--- '' @ t"
  have gf: "good_file (p, [])" using assms(1) by (simp add: good_file_def)
  have fin0: "finish_current blake3 c fresh ([], None) = Inr []" by (simp add: finish_current_def)
  from run_file [OF gf fin0, of "[render_header h, ?l]"] obtain cur where hc: "holds cur p []" and
    r: "patch_lines blake3 c fresh (with_nl (render_file (p, []) @ [render_header h, ?l])) ([], None) =
      patch_lines blake3 c fresh (with_nl [render_header h, ?l]) ([], Some cur)" by blast
  from hc obtain cur1 where c1: "finish_active_hunk cur = Inr cur1" "b_active_rows cur1 = []"
    by (auto simp: holds_def)
  define cur2 where "cur2 = cur1\<lparr>b_old_line := old_start h, b_new_line := new_start h,
    b_active_header := Some h\<rparr>"
  have "parse_hunk_header (render_header h) = Inr h"
    by (rule parse_hunk_header_render) (simp_all add: h_def)
  then have s1: "patch_line blake3 (render_header h) cur = Inr cur2"
    using c1 by (simp add: patch_line_def render_header_def strip_prefix_def starts_with_def
        start_hunk_def cur2_def)
  have n1: "strip_prefix ''diff --git '' (render_header h) = None"
    by (simp add: render_header_def strip_prefix_def)
  have n2: "strip_prefix ''diff --git '' ?l = None" by (simp add: strip_prefix_def)
  have "\<exists>cur3. patch_line blake3 ?l cur2 = Inr cur3 \<and> b_active_header cur3 = Some h \<and> b_active_rows cur3 = []"
    using assms(3) c1(2)
    by (auto simp: patch_line_def strip_prefix_def strip_git_patch_prefix_def parse_git_path_def cur2_def)
  then obtain cur3 where s2: "patch_line blake3 ?l cur2 = Inr cur3" and
    c3: "b_active_header cur3 = Some h" "b_active_rows cur3 = []" by blast
  have run: "patch_lines blake3 c fresh (with_nl (render_file (p, []) @ [render_header h, ?l])) ([], None) =
      Inr ([], Some cur3)"
    unfolding r patch_lines_builder [OF n1 s1] patch_lines_builder [OF n2 s2, where ls = "[]"] by simp
  have fin: "finish_current blake3 c fresh ([], Some cur3) = Inl (HunkLineCountMismatch 1 0 0 0)"
    using c3 by (simp add: finish_current_def finish_builder_def finish_active_hunk_def
        hunk_line_counts_def to_u32_def h_def)
  note spl = removed_dash_lines [OF assms(1,2), folded h_def]
  show ?thesis by (simp only: parse_unified_patch_def spl run rbind_simps fin)
qed

lemma removed_dash_line_rejected_witness:
  "parse_unified_patch (\<lambda>_. []) (\<lambda>n. ReviewFileId 0)
      (render_patch [(''q.sql'', [(\<lparr>old_start = 1, old_count = 1, new_start = 0, new_count = 0,
          header_context = None\<rparr>, [(Removal, ''-- drop the index'', True)])])]) (ComparisonId 0) =
    Inl (HunkLineCountMismatch 1 0 0 0)"
  using removed_dash_line_rejected [of "''q.sql''" "''drop the index''"]
  by (simp add: is_ascii_whitespace_def starts_with_def)

end
