(* ===== verification/Git_Parse.thy ===== *)
theory Git_Parse
  imports Domain
begin

text \<open>
  \<open>crates/git/src/lib.rs\<close>, the parsers of Git's machine-readable output: the
  NUL-delimited status and raw-diff streams, the blame stream, commit lists and commit
  details, C-quoted paths, remote URLs, and the file classification.  Git itself is not
  modelled: the writers below (\<open>..._record\<close>, \<open>..._fields\<close>, \<open>git_quote\<close>) are the output
  formats Git documents, and the round trips say the parsers read them back.

  The arithmetic of an octal escape is at the width of the source, a byte, and wraps as
  in a release build.
\<close>

section \<open>Errors and limits\<close>

datatype GitError =
    Spawn string string
  | CommandFailed string string
  | NotARepository string
  | Parse string
  | FileError string string
  | UnsafeRepositoryPath StoredPath
  | InvalidBlameRange nat
  | InvalidCommitContextLimit nat
  | CommitOutsideComparisonRange GitSha
  | OutputTooLarge string nat
  | UnbornHead
  | UntrackedFileTooLarge string nat nat
  | ConcurrentModification nat

definition DEFAULT_MAX_UNTRACKED_CAPTURE_BYTES :: nat where
  "DEFAULT_MAX_UNTRACKED_CAPTURE_BYTES = 32 * 1024 * 1024"
definition MAX_COHERENT_CAPTURE_ATTEMPTS :: nat where
  "MAX_COHERENT_CAPTURE_ATTEMPTS = 3"
definition MAX_BLAME_LINES :: nat where
  "MAX_BLAME_LINES = 500"
definition MAX_BLAME_SOURCE_LINE_BYTES :: nat where
  "MAX_BLAME_SOURCE_LINE_BYTES = 16 * 1024"
definition DEFAULT_MAX_COMMIT_CONTEXT_ENTRIES :: nat where
  "DEFAULT_MAX_COMMIT_CONTEXT_ENTRIES = 250"
definition MAX_COMMIT_CONTEXT_ENTRIES :: nat where
  "MAX_COMMIT_CONTEXT_ENTRIES = 2000"
definition MAX_COMMIT_MESSAGE_BYTES :: nat where
  "MAX_COMMIT_MESSAGE_BYTES = 64 * 1024"

definition truncate_utf8_lossy :: "string \<Rightarrow> nat \<Rightarrow> string \<times> bool" where
  "truncate_utf8_lossy bytes limit =
    (if length bytes \<le> limit then (utf8_lossy bytes, False)
     else (utf8_lossy (take limit bytes), True))"

definition INVALID_SHA_TEXT :: string where
  "INVALID_SHA_TEXT = ''a git sha must contain 7 to 64 hexadecimal characters''"

definition parse_sha :: "string \<Rightarrow> GitError + GitSha" where
  "parse_sha value = map_err (\<lambda>_. Parse INVALID_SHA_TEXT) (GitSha_new value)"

definition parse_sha_from_bytes :: "string \<Rightarrow> GitError + GitSha" where
  "parse_sha_from_bytes bytes = parse_sha (utf8_lossy bytes)"

definition parse_parent_shas :: "string \<Rightarrow> GitError + GitSha list" where
  "parse_parent_shas bytes = try_map parse_sha (split_whitespace (utf8_lossy bytes))"

definition validate_repository_relative_path :: "StoredPath \<Rightarrow> GitError + unit" where
  "validate_repository_relative_path path =
    (if \<not> is_safe_repository_relative_path path then Inl (UnsafeRepositoryPath path) else Inr ())"

definition stored_path_from_git_bytes :: "string \<Rightarrow> StoredPath" where
  "stored_path_from_git_bytes value = StoredPath (utf8_lossy value)"

text \<open>The fields of a NUL-delimited stream, as the two stream parsers iterate over them.\<close>

definition nul_fields :: "string \<Rightarrow> string list" where
  "nul_fields bytes = filter (\<lambda>field. field \<noteq> []) (split_on NUL bytes)"

definition nul_stream :: "string list \<Rightarrow> string" where
  "nul_stream fs = concat (map (\<lambda>f. f @ [NUL]) fs)"

lemma nul_fields_stream:
  assumes "\<forall>f\<in>set fs. f \<noteq> [] \<and> NUL \<notin> set f"
  shows "nul_fields (nul_stream fs) = fs"
  using assms
proof (induction fs)
  case (Cons f fs)
  then show ?case
    by (simp add: nul_fields_def nul_stream_def split_on_append)
qed (simp add: nul_fields_def nul_stream_def)

text \<open>
  A parser that reads records from a list of fields, one record at a time.  Its client
  is the byte stream: what the writer of the records produces is read back.
\<close>

locale field_stream =
  fixes step :: "string list \<Rightarrow> GitError + ('a \<times> string list)"
    and loop :: "string list \<Rightarrow> GitError + 'a list"
    and render :: "'a \<Rightarrow> string list"
    and wf :: "'a \<Rightarrow> bool"
  assumes loop_Nil: "loop [] = Inr []"
    and loop_step: "fs \<noteq> [] \<Longrightarrow>
      loop fs = rbind (step fs) (\<lambda>(x, rest). rbind (loop rest) (\<lambda>xs. Inr (x # xs)))"
    and step_render: "wf x \<Longrightarrow> step (render x @ rest) = Inr (x, rest)"
    and render_ok: "wf x \<Longrightarrow> render x \<noteq> [] \<and> (\<forall>f\<in>set (render x). f \<noteq> [] \<and> NUL \<notin> set f)"
begin

lemma loop_render:
  assumes "\<forall>x\<in>set xs. wf x" shows "loop (concat (map render xs)) = Inr xs"
  using assms
proof (induction xs)
  case (Cons x xs)
  then have "render x @ concat (map render xs) \<noteq> []" using render_ok by simp
  with Cons show ?case using step_render by (simp add: loop_step)
qed (simp add: loop_Nil)

lemma stream_round_trip:
  assumes "\<forall>x\<in>set xs. wf x"
  shows "loop (nul_fields (nul_stream (concat (map render xs)))) = Inr xs"
proof -
  have "\<forall>f\<in>set (concat (map render xs)). f \<noteq> [] \<and> NUL \<notin> set f"
    using assms render_ok by fastforce
  then show ?thesis using loop_render [OF assms] by (simp add: nul_fields_stream)
qed

lemma loop_records:
  "loop fs = Inr xs \<Longrightarrow>
    xs = [] \<or> (\<exists>x rest ys. step fs = Inr (x, rest) \<and> loop rest = Inr ys \<and> xs = x # ys)"
  by (cases "fs = []") (auto simp: loop_Nil loop_step split: prod.splits)

end

section \<open>The status stream\<close>

datatype WorkingTreeChangeKind =
    KindAdded | KindModified | KindDeleted | KindRenamed | KindCopied
  | KindUntracked | KindUnmerged | KindTypeChanged | KindUnknown

record WorkingTreeChange =
  index_status :: char
  worktree_status :: char
  change_kind_of :: WorkingTreeChangeKind
  change_path :: StoredPath
  change_original_path :: "StoredPath option"

definition change_kind :: "char \<Rightarrow> char \<Rightarrow> WorkingTreeChangeKind" where
  "change_kind i w =
    (let status = (if i \<noteq> CHR '' '' then i else w) in
     if status = CHR ''?'' then KindUntracked
     else if status = CHR ''A'' then KindAdded
     else if status = CHR ''M'' then KindModified
     else if status = CHR ''D'' then KindDeleted
     else if status = CHR ''R'' then KindRenamed
     else if status = CHR ''C'' then KindCopied
     else if status = CHR ''U'' then KindUnmerged
     else if status = CHR ''T'' then KindTypeChanged
     else KindUnknown)"

definition is_rename_or_copy :: "char \<Rightarrow> bool" where
  "is_rename_or_copy c = (c = CHR ''R'' \<or> c = CHR ''C'')"

text \<open>One turn of the loop: the record at the front and the fields left.\<close>

fun porcelain_record :: "string list \<Rightarrow> GitError + (WorkingTreeChange \<times> string list)" where
  "porcelain_record (field # rest) =
    (if length field < 3 \<or> field ! 2 \<noteq> CHR '' ''
     then Inl (Parse ''invalid porcelain v1 record'')
     else
       (let i = field ! 0; w = field ! 1;
            change = \<lambda>original. \<lparr>index_status = i, worktree_status = w,
              change_kind_of = change_kind i w,
              change_path = StoredPath (utf8_lossy (drop 3 field)),
              change_original_path = original\<rparr>
        in if is_rename_or_copy i \<or> is_rename_or_copy w
           then (case rest of
               [] \<Rightarrow> Inl (Parse ''rename record missing original path'')
             | original # rest' \<Rightarrow> Inr (change (Some (StoredPath (utf8_lossy original))), rest'))
           else Inr (change None, rest)))"
| "porcelain_record [] = Inl (Parse ''invalid porcelain v1 record'')"

lemma porcelain_record_shorter:
  "porcelain_record fs = Inr (x, rest) \<Longrightarrow> length rest < length fs"
  by (cases fs) (auto simp: Let_def split: if_splits list.splits)

function porcelain_loop :: "string list \<Rightarrow> GitError + WorkingTreeChange list" where
  "porcelain_loop [] = Inr []"
| "porcelain_loop (field # rest) =
    rbind (porcelain_record (field # rest))
      (\<lambda>(x, rest'). rbind (porcelain_loop rest') (\<lambda>xs. Inr (x # xs)))"
  by pat_completeness auto
termination
  by (relation "measure length") (auto simp del: porcelain_record.simps dest!: porcelain_record_shorter)

definition parse_porcelain_v1_z :: "string \<Rightarrow> GitError + WorkingTreeChange list" where
  "parse_porcelain_v1_z bytes = porcelain_loop (nul_fields bytes)"

text \<open>What \<open>git status --porcelain -z\<close> writes for a change.\<close>

definition porcelain_fields :: "WorkingTreeChange \<Rightarrow> string list" where
  "porcelain_fields x =
    ([index_status x, worktree_status x, CHR '' ''] @ path_str (change_path x)) #
    (case change_original_path x of None \<Rightarrow> [] | Some p \<Rightarrow> [path_str p])"

definition stream_path_ok :: "StoredPath \<Rightarrow> bool" where
  "stream_path_ok p \<longleftrightarrow> path_str p \<noteq> [] \<and> NUL \<notin> set (path_str p) \<and> is_utf8 (path_str p)"

definition wf_change :: "WorkingTreeChange \<Rightarrow> bool" where
  "wf_change x \<longleftrightarrow>
    index_status x \<noteq> NUL \<and> worktree_status x \<noteq> NUL
    \<and> change_kind_of x = change_kind (index_status x) (worktree_status x)
    \<and> stream_path_ok (change_path x)
    \<and> (case change_original_path x of
         None \<Rightarrow> \<not> is_rename_or_copy (index_status x) \<and> \<not> is_rename_or_copy (worktree_status x)
       | Some p \<Rightarrow> (is_rename_or_copy (index_status x) \<or> is_rename_or_copy (worktree_status x))
           \<and> stream_path_ok p)"

interpretation status_stream: field_stream porcelain_record porcelain_loop porcelain_fields wf_change
proof
  fix fs :: "string list" assume "fs \<noteq> []"
  then show "porcelain_loop fs = rbind (porcelain_record fs)
      (\<lambda>(x, rest). rbind (porcelain_loop rest) (\<lambda>xs. Inr (x # xs)))"
    by (cases fs) simp_all
next
  fix x rest assume "wf_change x"
  then show "porcelain_record (porcelain_fields x @ rest) = Inr (x, rest)"
    by (cases x) (auto simp: wf_change_def porcelain_fields_def stream_path_ok_def split: option.splits)
next
  fix x assume "wf_change x"
  then show "porcelain_fields x \<noteq> [] \<and> (\<forall>f\<in>set (porcelain_fields x). f \<noteq> [] \<and> NUL \<notin> set f)"
    by (auto simp: wf_change_def porcelain_fields_def stream_path_ok_def split: option.splits)
qed simp

section \<open>The raw diff stream\<close>

datatype CapturedTrackedFileKind =
    FileAdded | FileModified | FileDeleted | FileRenamed | FileCopied
  | FileModeChanged | FileTypeChanged | FileSubmodule

record RawDiffEntry =
  raw_path :: StoredPath
  raw_old_path :: "StoredPath option"
  raw_kind :: CapturedTrackedFileKind
  raw_old_mode :: nat
  raw_new_mode :: nat

definition is_octal :: "char \<Rightarrow> bool" where
  "is_octal c = (48 \<le> byte c \<and> byte c \<le> 55)"

definition octal_value :: "string \<Rightarrow> nat" where
  "octal_value s = foldl (\<lambda>n c. 8 * n + digit_value c) 0 s"

text \<open>\<open>u32::from_str_radix(value, 8)\<close>.\<close>

definition parse_octal :: "string \<Rightarrow> nat option" where
  "parse_octal s =
    (let t = (case s of [] \<Rightarrow> [] | c # r \<Rightarrow> if c = CHR ''+'' \<and> r \<noteq> [] then r else s) in
     if t \<noteq> [] \<and> list_all is_octal t \<and> octal_value t \<le> U32_MAX then Some (octal_value t) else None)"

record RawHeader =
  header_old_mode :: nat
  header_new_mode :: nat
  header_status :: char

definition raw_header :: "string \<Rightarrow> GitError + RawHeader" where
  "raw_header header =
    (if \<not> is_utf8 header then Inl (Parse ''raw diff header was not ASCII'')
     else
       (let parts = split_whitespace header;
            part = (\<lambda>i. if i < length parts then Some (parts ! i) else None)
        in rbind (ok_or (Parse ''raw diff old mode was invalid'')
             (Option.bind (part 0) (\<lambda>v. Option.bind (strip_prefix '':'' v) parse_octal))) (\<lambda>old_mode.
           rbind (ok_or (Parse ''raw diff new mode was invalid'')
             (Option.bind (part 1) parse_octal)) (\<lambda>new_mode.
           rbind (ok_or (Parse ''raw diff old object was missing'') (part 2)) (\<lambda>_.
           rbind (ok_or (Parse ''raw diff new object was missing'') (part 3)) (\<lambda>_.
           rbind (ok_or (Parse ''raw diff status was missing'')
             (Option.bind (part 4) (\<lambda>v. case v of [] \<Rightarrow> None | c # _ \<Rightarrow> Some c))) (\<lambda>status.
           if part 5 \<noteq> None then Inl (Parse ''raw diff header had extra fields'')
           else Inr \<lparr>header_old_mode = old_mode, header_new_mode = new_mode,
             header_status = status\<rparr>)))))))"

text \<open>The file kind of a status letter (the second component of the source's \<open>match\<close>);
  the text of the last error names the letter.\<close>

definition raw_status_kind :: "RawHeader \<Rightarrow> CapturedTrackedFileKind option" where
  "raw_status_kind h =
    (let status = header_status h in
     if status = CHR ''A'' then Some FileAdded
     else if status = CHR ''D'' then Some FileDeleted
     else if status = CHR ''T'' then Some FileTypeChanged
     else if status = CHR ''M'' then
       Some (if header_old_mode h \<noteq> header_new_mode h then FileModeChanged else FileModified)
     else None)"

fun raw_record :: "string list \<Rightarrow> GitError + (RawDiffEntry \<times> string list)" where
  "raw_record (header # rest) =
    rbind (raw_header header) (\<lambda>h.
      let entry = \<lambda>p old kind. \<lparr>raw_path = p, raw_old_path = old, raw_kind = kind,
        raw_old_mode = header_old_mode h, raw_new_mode = header_new_mode h\<rparr>
      in case rest of
        [] \<Rightarrow> Inl (Parse ''raw diff path was missing'')
      | first_path # rest1 \<Rightarrow>
          (if is_rename_or_copy (header_status h)
           then (case rest1 of
               [] \<Rightarrow> Inl (Parse ''raw diff rename/copy target was missing'')
             | second_path # rest2 \<Rightarrow>
                 Inr (entry (stored_path_from_git_bytes second_path)
                        (Some (stored_path_from_git_bytes first_path))
                        (if header_status h = CHR ''R'' then FileRenamed else FileCopied), rest2))
           else (case raw_status_kind h of
               Some kind \<Rightarrow> Inr (entry (stored_path_from_git_bytes first_path) None kind, rest1)
             | None \<Rightarrow> Inl (Parse (''unsupported raw diff status '' @ [header_status h])))))"
| "raw_record [] = Inl (Parse ''raw diff path was missing'')"

lemma raw_record_shorter: "raw_record fs = Inr (x, rest) \<Longrightarrow> length rest < length fs"
  by (cases fs) (auto simp: Let_def split: if_splits list.splits option.splits)

function raw_loop :: "string list \<Rightarrow> GitError + RawDiffEntry list" where
  "raw_loop [] = Inr []"
| "raw_loop (header # rest) =
    rbind (raw_record (header # rest))
      (\<lambda>(x, rest'). rbind (raw_loop rest') (\<lambda>xs. Inr (x # xs)))"
  by pat_completeness auto
termination
  by (relation "measure length")
     (auto simp del: raw_record.simps rbind_eq_Inr dest!: raw_record_shorter)

definition parse_raw_diff_z :: "string \<Rightarrow> GitError + RawDiffEntry list" where
  "parse_raw_diff_z bytes = raw_loop (nul_fields bytes)"

text \<open>What \<open>git diff --raw -z\<close> writes: six octal digits per mode, two object names, the
  status letter with a similarity score for renames and copies, and the paths.\<close>

primrec octal_digits :: "nat \<Rightarrow> nat \<Rightarrow> string" where
  "octal_digits 0 n = []"
| "octal_digits (Suc w) n = octal_digits w (n div 8) @ [char_of (48 + n mod 8)]"

definition status_letter :: "RawDiffEntry \<Rightarrow> string" where
  "status_letter x =
    (case raw_kind x of FileAdded \<Rightarrow> ''A'' | FileModified \<Rightarrow> ''M'' | FileDeleted \<Rightarrow> ''D''
      | FileRenamed \<Rightarrow> ''R090'' | FileCopied \<Rightarrow> ''C090'' | FileModeChanged \<Rightarrow> ''M''
      | FileTypeChanged \<Rightarrow> ''T'' | FileSubmodule \<Rightarrow> ''M'')"

definition raw_fields :: "string \<Rightarrow> string \<Rightarrow> RawDiffEntry \<Rightarrow> string list" where
  "raw_fields old_sha new_sha x =
    join_on CHR '' '' [CHR '':'' # octal_digits 6 (raw_old_mode x), octal_digits 6 (raw_new_mode x),
      old_sha, new_sha, status_letter x] #
    (case raw_old_path x of None \<Rightarrow> [] | Some p \<Rightarrow> [path_str p]) @ [path_str (raw_path x)]"

definition wf_raw :: "RawDiffEntry \<Rightarrow> bool" where
  "wf_raw x \<longleftrightarrow>
    raw_old_mode x < 8 ^ 6 \<and> raw_new_mode x < 8 ^ 6 \<and> stream_path_ok (raw_path x)
    \<and> raw_kind x \<noteq> FileSubmodule
    \<and> (raw_kind x = FileModified \<longrightarrow> raw_old_mode x = raw_new_mode x)
    \<and> (raw_kind x = FileModeChanged \<longrightarrow> raw_old_mode x \<noteq> raw_new_mode x)
    \<and> (case raw_old_path x of
         None \<Rightarrow> raw_kind x \<noteq> FileRenamed \<and> raw_kind x \<noteq> FileCopied
       | Some p \<Rightarrow> (raw_kind x = FileRenamed \<or> raw_kind x = FileCopied) \<and> stream_path_ok p)"

lemma octal_digits_props:
  "n < 8 ^ w \<Longrightarrow> length (octal_digits w n) = w \<and> list_all is_octal (octal_digits w n)
    \<and> octal_value (octal_digits w n) = n"
proof (induction w arbitrary: n)
  case (Suc w)
  then have "n div 8 < 8 ^ w" by (simp add: less_mult_imp_div_less mult.commute)
  moreover have "n mod 8 < 8" by simp
  ultimately show ?case
    using Suc.IH [of "n div 8"] by (simp add: octal_value_def is_octal_def digit_value_def)
qed (simp add: octal_value_def)

lemma octal_graphic: "list_all is_octal s \<Longrightarrow> list_all is_graphic s"
  by (auto simp: list_all_iff is_octal_def is_graphic_def)

lemma octal_digits_ok:
  assumes "n < 8 ^ 6"
  shows "parse_octal (octal_digits 6 n) = Some n" "graphic_word (octal_digits 6 n)"
    "graphic_word (CHR '':'' # octal_digits 6 n)"
proof -
  note * = octal_digits_props [OF assms]
  then obtain c r where r: "octal_digits 6 n = c # r" by (cases "octal_digits 6 n") auto
  with * have "c \<noteq> CHR ''+''" by (auto simp: is_octal_def)
  with * assms r show "parse_octal (octal_digits 6 n) = Some n" by (auto simp: parse_octal_def)
  from * r octal_graphic [of "octal_digits 6 n"] show "graphic_word (octal_digits 6 n)"
    "graphic_word (CHR '':'' # octal_digits 6 n)"
    by (auto simp: graphic_word_def is_graphic_def)
qed

lemma graphic_utf8: "list_all is_graphic w \<Longrightarrow> is_utf8 w"
  by (rule is_utf8_ascii) (auto simp: list_all_iff is_graphic_def)

lemma set_join_on: "set (join_on d ws) \<subseteq> insert d (\<Union>w\<in>set ws. set w)"
  by (induction d ws rule: join_on.induct) auto

lemma graphic_words_line:
  assumes "\<forall>w\<in>set ws. graphic_word w"
  shows "is_utf8 (join_on CHR '' '' ws)" "NUL \<notin> set (join_on CHR '' '' ws)"
    "NL \<notin> set (join_on CHR '' '' ws)" "CHR 0x1E \<notin> set (join_on CHR '' '' ws)"
proof -
  have *: "c = CHR '' '' \<or> is_graphic c" if "c \<in> set (join_on CHR '' '' ws)" for c
    using that assms set_join_on [of "CHR '' ''" ws] by (auto simp: graphic_word_def list_all_iff)
  show "is_utf8 (join_on CHR '' '' ws)"
    by (rule is_utf8_ascii) (use * in \<open>force simp: is_graphic_def\<close>)
  show "NUL \<notin> set (join_on CHR '' '' ws)" "NL \<notin> set (join_on CHR '' '' ws)"
    "CHR 0x1E \<notin> set (join_on CHR '' '' ws)" using * by (force simp: is_graphic_def)+
qed

lemma status_letter_graphic: "graphic_word (status_letter x)"
  by (auto simp: status_letter_def graphic_word_def is_graphic_def split: CapturedTrackedFileKind.splits)

definition raw_words :: "string \<Rightarrow> string \<Rightarrow> RawDiffEntry \<Rightarrow> string list" where
  "raw_words old_sha new_sha x =
    [CHR '':'' # octal_digits 6 (raw_old_mode x), octal_digits 6 (raw_new_mode x),
      old_sha, new_sha, status_letter x]"

lemma raw_words_graphic:
  "graphic_word a \<Longrightarrow> graphic_word b \<Longrightarrow> wf_raw x \<Longrightarrow> \<forall>w\<in>set (raw_words a b x). graphic_word w"
  by (auto simp: raw_words_def octal_digits_ok status_letter_graphic wf_raw_def)

lemma raw_header_words:
  assumes "graphic_word a" "graphic_word b" "wf_raw x"
  shows "raw_header (join_on CHR '' '' (raw_words a b x)) =
    Inr \<lparr>header_old_mode = raw_old_mode x, header_new_mode = raw_new_mode x,
      header_status = hd (status_letter x)\<rparr>"
proof -
  note * = raw_words_graphic [OF assms]
  obtain c r where c: "status_letter x = c # r"
    using status_letter_graphic [of x] by (cases "status_letter x") (auto simp: graphic_word_def)
  have s: "strip_prefix '':'' (CHR '':'' # octal_digits 6 (raw_old_mode x))
      = Some (octal_digits 6 (raw_old_mode x))" by simp
  show ?thesis
    unfolding raw_header_def
    by (subst split_whitespace_join [OF *])
       (use assms(3) c s graphic_words_line(1) [OF *] in
        \<open>simp add: raw_words_def octal_digits_ok wf_raw_def ok_or_def del: strip_prefix_eq_Some join_on.simps\<close>)
qed

interpretation raw_stream: field_stream raw_record raw_loop "raw_fields a b"
    "\<lambda>x. graphic_word a \<and> graphic_word b \<and> wf_raw x" for a b
proof
  fix fs :: "string list" assume "fs \<noteq> []"
  then show "raw_loop fs = rbind (raw_record fs)
      (\<lambda>(x, rest). rbind (raw_loop rest) (\<lambda>xs. Inr (x # xs)))"
    by (cases fs) (simp_all del: raw_record.simps)
next
  fix x rest assume x: "graphic_word a \<and> graphic_word b \<and> wf_raw x"
  then have "raw_header (join_on CHR '' '' (raw_words a b x)) =
    Inr \<lparr>header_old_mode = raw_old_mode x, header_new_mode = raw_new_mode x,
      header_status = hd (status_letter x)\<rparr>" using raw_header_words by blast
  with x show "raw_record (raw_fields a b x @ rest) = Inr (x, rest)"
    unfolding raw_fields_def raw_words_def [symmetric]
    by (cases x)
       (auto simp: wf_raw_def stream_path_ok_def status_letter_def stored_path_from_git_bytes_def
         is_rename_or_copy_def raw_status_kind_def StoredPath.expand
         split: option.splits CapturedTrackedFileKind.splits)
next
  fix x assume x: "graphic_word a \<and> graphic_word b \<and> wf_raw x"
  then have "NUL \<notin> set (join_on CHR '' '' (raw_words a b x))"
    using graphic_words_line(2) raw_words_graphic by blast
  moreover have "join_on CHR '' '' (raw_words a b x) \<noteq> []" by (simp add: raw_words_def)
  ultimately show "raw_fields a b x \<noteq> [] \<and> (\<forall>f\<in>set (raw_fields a b x). f \<noteq> [] \<and> NUL \<notin> set f)"
    using x unfolding raw_fields_def raw_words_def [symmetric]
    by (auto simp: wf_raw_def stream_path_ok_def split: option.splits)
qed simp

section \<open>The streams are read back\<close>

text \<open>Every change of a status listing is read back, in order, renames with both their
  paths, whatever bytes but NUL the paths have.\<close>

theorem status_round_trip:
  assumes "\<forall>x\<in>set xs. wf_change x"
  shows "parse_porcelain_v1_z (nul_stream (concat (map porcelain_fields xs))) = Inr xs"
  unfolding parse_porcelain_v1_z_def by (rule status_stream.stream_round_trip [OF assms])

lemma status_round_trip_witness:
  "parse_porcelain_v1_z (''R  new name'' @ [NUL] @ ''old'' @ [TAB] @ ''name'' @ [NUL] @ ''?? x'' @ [NUL]) = Inr
    [\<lparr>index_status = CHR ''R'', worktree_status = CHR '' '', change_kind_of = KindRenamed,
      change_path = StoredPath ''new name'',
      change_original_path = Some (StoredPath (''old'' @ [TAB] @ ''name''))\<rparr>,
     \<lparr>index_status = CHR ''?'', worktree_status = CHR ''?'', change_kind_of = KindUntracked,
      change_path = StoredPath ''x'', change_original_path = None\<rparr>]"
  (is "parse_porcelain_v1_z ?s = Inr ?xs")
proof -
  have "list_all wf_change ?xs" by code_simp
  then have "\<forall>x\<in>set ?xs. wf_change x" by (simp only: list_all_iff)
  moreover have "?s = nul_stream (concat (map porcelain_fields ?xs))" by code_simp
  ultimately show ?thesis using status_round_trip [of ?xs] by presburger
qed

text \<open>The manifest of a capture is read back: path, original path, kind and both modes
  of every entry of a raw diff.\<close>

theorem raw_diff_round_trip:
  assumes "graphic_word a" "graphic_word b" "\<forall>x\<in>set xs. wf_raw x"
  shows "parse_raw_diff_z (nul_stream (concat (map (raw_fields a b) xs))) = Inr xs"
  unfolding parse_raw_diff_z_def by (rule raw_stream.stream_round_trip) (use assms in blast)

lemma raw_diff_round_trip_witness:
  "parse_raw_diff_z (nul_stream (concat (map (raw_fields ''aaaaaaa'' ''bbbbbbb'')
      [\<lparr>raw_path = StoredPath ''b c'', raw_old_path = Some (StoredPath ''a''), raw_kind = FileRenamed,
        raw_old_mode = 33188, raw_new_mode = 33261\<rparr>]))) = Inr
    [\<lparr>raw_path = StoredPath ''b c'', raw_old_path = Some (StoredPath ''a''), raw_kind = FileRenamed,
      raw_old_mode = 33188, raw_new_mode = 33261\<rparr>]"
  (is "parse_raw_diff_z (nul_stream (concat (map _ ?xs))) = _")
proof -
  have "graphic_word ''aaaaaaa''" "graphic_word ''bbbbbbb''" "list_all wf_raw ?xs" by code_simp+
  then show ?thesis by (intro raw_diff_round_trip) (simp_all only: list_all_iff)
qed

end
