(* ===== verification/Git_Metadata.thy ===== *)
theory Git_Metadata
  imports Git_Parse
begin

text \<open>
  \<open>crates/git/src/lib.rs\<close>, the review metadata Git prints: blame entries, commit lists
  and commit details, the C-style path quoting, the classification of a captured file
  and the normal form of a remote URL.
\<close>

section \<open>C-quoted paths\<close>

definition unescape :: "char \<Rightarrow> char" where
  "unescape c =
    (if c = CHR ''a'' then CHR 0x07 else if c = CHR ''b'' then CHR 0x08
     else if c = CHR ''f'' then CHR 0x0C else if c = CHR ''n'' then NL
     else if c = CHR ''r'' then CR else if c = CHR ''t'' then TAB else c)"

text \<open>The byte of three octal digits, in \<open>u8\<close> arithmetic.\<close>

definition octal_byte :: "char \<Rightarrow> char \<Rightarrow> char \<Rightarrow> char" where
  "octal_byte a b c =
    char_of (((digit_value a * 64) mod 256 + digit_value b * 8 + digit_value c) mod 256)"

text \<open>The bytes between the quotes; the source's index runs over \<open>1 .. len - 1\<close>, so the
  list here ends where its loop does.\<close>

fun decode_quoted :: "string \<Rightarrow> string" where
  "decode_quoted [] = []"
| "decode_quoted (c # s) =
    (if c \<noteq> BACKSLASH then c # decode_quoted s
     else (case s of
         [] \<Rightarrow> [BACKSLASH]
       | a # b # d # s' \<Rightarrow>
           (if is_octal a \<and> is_octal b \<and> is_octal d then octal_byte a b d # decode_quoted s'
            else unescape a # decode_quoted (b # d # s'))
       | a # s' \<Rightarrow> unescape a # decode_quoted s'))"

definition decode_git_quoted_path :: "string \<Rightarrow> StoredPath" where
  "decode_git_quoted_path value =
    (if length value < 2 \<or> hd value \<noteq> QUOTE \<or> last value \<noteq> QUOTE then StoredPath value
     else StoredPath (utf8_lossy (decode_quoted (butlast (tl value)))))"

text \<open>What Git writes (\<open>quote_c_style\<close> with \<open>core.quotePath\<close>): a path with a control byte, a
  quote, a backslash or a non-ASCII byte is written between quotes, with the short escapes
  of C and octal escapes for the rest.\<close>

definition needs_quote :: "char \<Rightarrow> bool" where
  "needs_quote c = (byte c < 32 \<or> c = QUOTE \<or> c = BACKSLASH \<or> 127 \<le> byte c)"

definition quote_char :: "char \<Rightarrow> string" where
  "quote_char c =
    (if \<not> needs_quote c then [c]
     else if c = CHR 0x07 then [BACKSLASH, CHR ''a'']
     else if c = CHR 0x08 then [BACKSLASH, CHR ''b'']
     else if c = TAB then [BACKSLASH, CHR ''t'']
     else if c = NL then [BACKSLASH, CHR ''n'']
     else if c = CHR 0x0B then [BACKSLASH, CHR ''v'']
     else if c = CHR 0x0C then [BACKSLASH, CHR ''f'']
     else if c = CR then [BACKSLASH, CHR ''r'']
     else if c = QUOTE \<or> c = BACKSLASH then [BACKSLASH, c]
     else BACKSLASH # octal_digits 3 (byte c))"

definition git_quote :: "string \<Rightarrow> string" where
  "git_quote path =
    (if list_ex needs_quote path then [QUOTE] @ concat (map quote_char path) @ [QUOTE] else path)"

lemma octal_split: "(n :: nat) div 64 * 64 + n div 8 mod 8 * 8 + n mod 8 = n"
proof -
  have "n div 64 = n div 8 div 8" by (simp add: div_mult2_eq [symmetric])
  then show ?thesis using div_mult_mod_eq [of "n div 8" 8] div_mult_mod_eq [of n 8] by linarith
qed

lemma decode_octal_digits: "decode_quoted (BACKSLASH # octal_digits 3 (byte c) @ s) = c # decode_quoted s"
proof -
  have b: "byte c < 256" by simp
  have q: "byte c div 64 < 4" using b by (simp add: less_mult_imp_div_less)
  obtain x y z where d: "octal_digits 3 (byte c) = [x, y, z]"
    "x = char_of (48 + byte c div 64)" "y = char_of (48 + byte c div 8 mod 8)"
    "z = char_of (48 + byte c mod 8)"
    using q by (auto simp: numeral_3_eq_3 div_mult2_eq [symmetric])
  have v: "digit_value x = byte c div 64" "digit_value y = byte c div 8 mod 8"
    "digit_value z = byte c mod 8" "is_octal x" "is_octal y" "is_octal z"
    using q by (auto simp: d(2-) digit_value_def is_octal_def)
  have "byte c div 64 * 64 mod 256 = byte c div 64 * 64" using q by simp
  then have "octal_byte x y z = c"
    by (simp only: octal_byte_def v octal_split) simp
  with v(4-) show ?thesis by (simp add: d(1))
qed

lemma decode_short:
  "\<not> is_octal a \<Longrightarrow> decode_quoted (BACKSLASH # a # s) = unescape a # decode_quoted s"
  by (cases s; cases "tl s") auto

lemma decode_quote_char:
  assumes "c \<noteq> CHR 0x0B" shows "decode_quoted (quote_char c @ s) = c # decode_quoted s"
proof (cases "c \<in> {CHR 0x07, CHR 0x08, TAB, NL, CHR 0x0C, CR, QUOTE, BACKSLASH}")
  case True
  then show ?thesis
    by (auto simp: quote_char_def needs_quote_def decode_short unescape_def is_octal_def
      simp del: decode_quoted.simps)
next
  case False
  with assms show ?thesis
    using decode_octal_digits [of c s] by (auto simp: quote_char_def needs_quote_def)
qed

lemma decode_quote: "CHR 0x0B \<notin> set path \<Longrightarrow> decode_quoted (concat (map quote_char path)) = path"
proof (induction path)
  case (Cons c path)
  then have "c \<noteq> CHR 0x0B" by auto
  with Cons decode_quote_char [OF this] show ?case by simp
qed simp

lemma decode_git_quote:
  assumes "CHR 0x0B \<notin> set path" "is_utf8 path"
  shows "decode_git_quoted_path (git_quote path) = StoredPath path"
proof (cases "list_ex needs_quote path")
  case True
  with assms decode_quote [of path] show ?thesis
    by (simp add: git_quote_def decode_git_quoted_path_def butlast_append)
next
  case False
  then have "path = [] \<or> hd path \<noteq> QUOTE" by (cases path) (auto simp: needs_quote_def)
  with False show ?thesis by (auto simp: git_quote_def decode_git_quoted_path_def)
qed

text \<open>A path is read back from the C-style quoting Git writes it in, whatever its bytes,
  except that the decoder does not know the escape of the vertical tab.\<close>

theorem quoted_path_round_trip:
  assumes "CHR 0x0B \<notin> set path" "is_utf8 path"
  shows "decode_git_quoted_path (git_quote path) = StoredPath path"
  by (rule decode_git_quote [OF assms])

lemma quoted_path_round_trip_witness:
  "decode_git_quoted_path (git_quote (''a b'' @ [QUOTE, TAB, CHR 0xC3, CHR 0xA9])) =
    StoredPath (''a b'' @ [QUOTE, TAB, CHR 0xC3, CHR 0xA9])"
proof -
  have "is_utf8 (''a b'' @ [QUOTE, TAB, CHR 0xC3, CHR 0xA9])" by code_simp
  then show ?thesis by (intro quoted_path_round_trip) auto
qed

section \<open>Blame\<close>

record GitBlameRequest =
  blame_request_revision :: GitSha
  blame_request_path :: StoredPath
  blame_start_line :: nat
  blame_end_line :: nat

record GitBlameLine =
  blame_revision :: GitSha
  blame_original_line :: nat
  blame_final_line :: nat
  blame_source_path :: StoredPath
  blame_author_name :: string
  blame_author_email :: string
  blame_author_time :: string
  blame_summary :: string
  blame_source :: string
  blame_source_truncated :: bool

record GitBlameResult =
  blame_request :: GitBlameRequest
  blame_lines_of :: "GitBlameLine list"

record ParsedBlameLine =
  parsed_revision :: "GitSha option"
  parsed_original_line :: "nat option"
  parsed_final_line :: "nat option"
  parsed_source_path :: "StoredPath option"
  parsed_author_name :: string
  parsed_author_email :: string
  parsed_author_time :: string
  parsed_summary :: string

definition ParsedBlameLine_default :: ParsedBlameLine where
  "ParsedBlameLine_default =
    \<lparr>parsed_revision = None, parsed_original_line = None, parsed_final_line = None,
     parsed_source_path = None, parsed_author_name = [], parsed_author_email = [],
     parsed_author_time = [], parsed_summary = []\<rparr>"

definition parse_blame_header :: "string \<Rightarrow> GitError + ParsedBlameLine option" where
  "parse_blame_header raw =
    (if \<not> is_utf8 raw then Inr None
     else (case split_whitespace raw of
         [] \<Rightarrow> Inr None
       | revision # words \<Rightarrow>
           (case GitSha_new (case strip_prefix ''^'' revision of None \<Rightarrow> revision | Some r \<Rightarrow> r) of
             Inl _ \<Rightarrow> Inr None
           | Inr sha \<Rightarrow>
               (let part = (\<lambda>i. if i < length words then parse_unsigned U32_MAX (words ! i) else None)
                in rbind (ok_or (Parse ''blame header original line was invalid'') (part 0)) (\<lambda>original.
                   rbind (ok_or (Parse ''blame header final line was invalid'') (part 1)) (\<lambda>final.
                   Inr (Some (ParsedBlameLine_default
                     \<lparr>parsed_revision := Some sha, parsed_original_line := Some original,
                      parsed_final_line := Some final\<rparr>))))))))"

definition trim_start_char :: "char \<Rightarrow> string \<Rightarrow> string" where
  "trim_start_char d s = dropWhile (\<lambda>c. c = d) s"

definition blame_metadata :: "string \<Rightarrow> string \<Rightarrow> ParsedBlameLine \<Rightarrow> ParsedBlameLine" where
  "blame_metadata key raw_value current =
    (let value = utf8_lossy raw_value in
     if key = ''author'' then current\<lparr>parsed_author_name := value\<rparr>
     else if key = ''author-mail'' then
       current\<lparr>parsed_author_email := trim_end_char CHR ''>'' (trim_start_char CHR ''<'' value)\<rparr>
     else if key = ''author-time'' then current\<lparr>parsed_author_time := value\<rparr>
     else if key = ''summary'' then current\<lparr>parsed_summary := value\<rparr>
     else if key = ''filename'' then
       current\<lparr>parsed_source_path := Some (decode_git_quoted_path value)\<rparr>
     else current)"

text \<open>The source line that ends an entry.\<close>

definition finish_blame :: "StoredPath \<Rightarrow> ParsedBlameLine \<Rightarrow> string \<Rightarrow> GitError + GitBlameLine" where
  "finish_blame requested current raw_source =
    rbind (ok_or (Parse ''blame header had no revision'') (parsed_revision current)) (\<lambda>revision.
    rbind (ok_or (Parse ''blame header had no original line'') (parsed_original_line current)) (\<lambda>original.
    rbind (ok_or (Parse ''blame header had no final line'') (parsed_final_line current)) (\<lambda>final.
    let (source, truncated) = truncate_utf8_lossy raw_source MAX_BLAME_SOURCE_LINE_BYTES in
    Inr \<lparr>blame_revision = revision, blame_original_line = original, blame_final_line = final,
      blame_source_path = (case parsed_source_path current of None \<Rightarrow> requested | Some p \<Rightarrow> p),
      blame_author_name = parsed_author_name current,
      blame_author_email = parsed_author_email current,
      blame_author_time = parsed_author_time current,
      blame_summary = parsed_summary current,
      blame_source = source, blame_source_truncated = truncated\<rparr>)))"

text \<open>One turn of the loop on a non-empty line: the entry being read, and the finished
  line when there is one.\<close>

definition blame_line ::
  "StoredPath \<Rightarrow> ParsedBlameLine option \<Rightarrow> string \<Rightarrow>
    GitError + (ParsedBlameLine option \<times> GitBlameLine list)" where
  "blame_line requested current raw_line =
    (if hd raw_line = TAB then
       rbind (ok_or (Parse ''blame source line appeared before a header'') current) (\<lambda>entry.
       rbind (finish_blame requested entry (tl raw_line)) (\<lambda>line. Inr (None, [line])))
     else
       rbind (parse_blame_header raw_line) (\<lambda>header.
       case header of
         Some h \<Rightarrow>
           (if current \<noteq> None then Inl (Parse ''blame entry was missing its source line'')
            else Inr (Some h, []))
       | None \<Rightarrow>
           rbind (ok_or (Parse ''blame metadata line was malformed'')
             (split_once CHR '' '' raw_line)) (\<lambda>(key, value).
           rbind (ok_or (Parse ''blame metadata appeared before a header'') current) (\<lambda>entry.
           Inr (Some (blame_metadata key value entry), [])))))"

fun blame_loop ::
  "StoredPath \<Rightarrow> ParsedBlameLine option \<Rightarrow> string list \<Rightarrow> GitError + GitBlameLine list" where
  "blame_loop requested current [] =
    (if current \<noteq> None then Inl (Parse ''blame output ended before an entry source line'') else Inr [])"
| "blame_loop requested current (raw_line # rest) =
    (if raw_line = [] then blame_loop requested current rest
     else rbind (blame_line requested current raw_line) (\<lambda>(current', lines).
       rbind (blame_loop requested current' rest) (\<lambda>lines'. Inr (lines @ lines'))))"

definition parse_blame_porcelain :: "string \<Rightarrow> StoredPath \<Rightarrow> GitError + GitBlameLine list" where
  "parse_blame_porcelain bytes requested = blame_loop requested None (split_on NL bytes)"

section \<open>Commits\<close>

record GitCommitSummary =
  commit_sha :: GitSha
  commit_parent_shas :: "GitSha list"
  commit_author_name :: string
  commit_author_email :: string
  commit_authored_at :: string
  commit_subject :: string

record GitCommitDetails =
  details_summary :: GitCommitSummary
  details_committer_name :: string
  details_committer_email :: string
  details_committed_at :: string
  details_body :: string
  details_body_truncated :: bool

record GitCommitRange =
  range_merge_base :: GitSha
  range_head :: GitSha

record GitCommitContextRequest =
  context_max_entries :: nat
  context_include_merge_commits :: bool
  context_author_contains :: "string option"
  context_subject_contains :: "string option"
  context_selected_commit :: "GitSha option"

record GitCommitContext =
  context_range :: GitCommitRange
  context_commits :: "GitCommitSummary list"
  context_truncated :: bool
  context_selected :: "GitCommitDetails option"

definition GitCommitContextRequest_default :: GitCommitContextRequest where
  "GitCommitContextRequest_default =
    \<lparr>context_max_entries = DEFAULT_MAX_COMMIT_CONTEXT_ENTRIES,
     context_include_merge_commits = True, context_author_contains = None,
     context_subject_contains = None, context_selected_commit = None\<rparr>"

abbreviation RS :: char where "RS \<equiv> CHR 0x1E"

definition commit_summary_of_fields :: "string list \<Rightarrow> GitError + GitCommitSummary" where
  "commit_summary_of_fields fs =
    rbind (parse_sha_from_bytes (fs ! 0)) (\<lambda>sha.
    rbind (parse_parent_shas (fs ! 1)) (\<lambda>parents.
    Inr \<lparr>commit_sha = sha, commit_parent_shas = parents,
      commit_author_name = utf8_lossy (fs ! 2), commit_author_email = utf8_lossy (fs ! 3),
      commit_authored_at = utf8_lossy (fs ! 4), commit_subject = utf8_lossy (fs ! 5)\<rparr>))"

definition strip_nul_ends :: "string \<Rightarrow> string" where
  "strip_nul_ends record_bytes =
    (let r = (if record_bytes \<noteq> [] \<and> last record_bytes = NUL then butlast record_bytes
              else record_bytes)
     in if r \<noteq> [] \<and> hd r = NUL then tl r else r)"

definition parse_commit_record :: "string \<Rightarrow> GitError + GitCommitSummary" where
  "parse_commit_record record_bytes =
    (let fs = split_on NUL (strip_nul_ends record_bytes) in
     if length fs \<noteq> 6
     then Inl (Parse (''commit list output had an incomplete metadata record ('' @
       show_nat (length fs) @ '' fields)''))
     else commit_summary_of_fields fs)"

definition parse_commit_summaries :: "string \<Rightarrow> GitError + GitCommitSummary list" where
  "parse_commit_summaries bytes =
    try_map parse_commit_record
      (filter (\<lambda>r. list_ex (\<lambda>c. c \<noteq> NUL) r) (split_on RS bytes))"

text \<open>\<open>splitn(10, NUL)\<close>: nine separators at most.\<close>

definition splitn :: "nat \<Rightarrow> 'a \<Rightarrow> 'a list \<Rightarrow> 'a list list" where
  "splitn n d s =
    (let pieces = split_on d s in
     if length pieces \<le> n then pieces
     else take (n - 1) pieces @ [join_on d (drop (n - 1) pieces)])"

definition parse_commit_details :: "string \<Rightarrow> GitError + GitCommitDetails" where
  "parse_commit_details bytes =
    (let fs = splitn 10 NUL bytes in
     if length fs < 9 then Inl (Parse ''commit detail output was incomplete'')
     else (let (body, truncated) =
             truncate_utf8_lossy (if length fs = 10 then fs ! 9 else []) MAX_COMMIT_MESSAGE_BYTES
       in rbind (commit_summary_of_fields (take 9 fs)) (\<lambda>summary.
          Inr \<lparr>details_summary = summary,
            details_committer_name = utf8_lossy (fs ! 6),
            details_committer_email = utf8_lossy (fs ! 7),
            details_committed_at = utf8_lossy (fs ! 8),
            details_body = body, details_body_truncated = truncated\<rparr>)))"

section \<open>Classification of a captured file\<close>

definition is_lfs_pointer :: "string \<Rightarrow> bool" where
  "is_lfs_pointer bytes =
    (starts_with bytes (''version https://git-lfs.github.com/spec/v1'' @ [NL])
      \<and> contains_str bytes ''oid sha256:'')"

definition generated_directories :: "string list" where
  "generated_directories =
    [''generated'', ''__generated__'', ''gen'', ''dist'', ''build'', ''target'', ''.next'', ''coverage'']"

definition generated_suffixes :: "string list" where
  "generated_suffixes =
    [''.generated.rs'', ''.generated.ts'', ''.generated.tsx'', ''.generated.js'', ''.generated.go'',
     ''.g.dart'', ''.pb.go'', ''.min.js'', ''.min.css'']"

definition generated_markers :: "string list" where
  "generated_markers =
    [CHR 0x40 # ''generated'', ''code generated'', ''do not edit'', ''automatically generated'']"

definition vendored_directories :: "string list" where
  "vendored_directories =
    [''vendor'', ''vendors'', ''third_party'', ''third-party'', ''node_modules'', ''pods'',
     ''carthage'', ''external'', ''deps'']"

definition lockfile_names :: "string list" where
  "lockfile_names =
    [''cargo.lock'', ''package-lock.json'', ''npm-shrinkwrap.json'', ''yarn.lock'',
     ''pnpm-lock.yaml'', ''bun.lock'', ''bun.lockb'', ''poetry.lock'', ''pipfile.lock'', ''uv.lock'',
     ''gemfile.lock'', ''composer.lock'', ''podfile.lock'', ''mix.lock'', ''flake.lock'', ''go.sum'',
     ''gradle.lockfile'']"

definition normal_components :: "string \<Rightarrow> string list" where
  "normal_components p =
    map to_ascii_lowercase
      (concat (map (\<lambda>c. case c of Normal n \<Rightarrow> [n] | _ \<Rightarrow> []) (path_components p)))"

definition classify_review_file ::
  "StoredPath \<Rightarrow> string option \<Rightarrow> bool \<Rightarrow> GitError + ReviewFileClassification" where
  "classify_review_file relative_path content submodule =
    vthen (validate_repository_relative_path relative_path)
      (let components = normal_components (path_str relative_path);
           filename = (if components = [] then [] else last components);
           content_is = (\<lambda>f. case content of None \<Rightarrow> False | Some bytes \<Rightarrow> f bytes);
           generated_by_path =
             (list_ex (\<lambda>c. c \<in> set generated_directories) components
              \<or> list_ex (ends_with filename) generated_suffixes
              \<or> contains_str filename ''_generated.'' \<or> contains_str filename ''.designer.'');
           generated_by_header = content_is (\<lambda>bytes.
             let header = to_ascii_lowercase (utf8_lossy (take (16 * 1024) bytes))
             in list_ex (contains_str header) generated_markers)
       in Inr \<lparr>class_generated = (generated_by_path \<or> generated_by_header),
         class_vendored = list_ex (\<lambda>c. c \<in> set vendored_directories) components,
         class_lockfile = (filename \<in> set lockfile_names \<or> ends_with filename ''.lock''),
         class_binary = content_is (\<lambda>bytes. contains_char bytes NUL),
         class_lfs_pointer = content_is is_lfs_pointer,
         class_submodule = submodule\<rparr>)"

section \<open>Remote URLs\<close>

function trim_end_str :: "string \<Rightarrow> string \<Rightarrow> string" where
  "trim_end_str p s =
    (if p \<noteq> [] \<and> suffix p s then trim_end_str p (take (length s - length p) s) else s)"
  by pat_completeness auto
termination
  by (relation "measure (\<lambda>(p, s). length s)") (auto dest: suffix_length_le simp: suffix_def)

declare trim_end_str.simps [simp del]

definition normalize_remote_url :: "string \<Rightarrow> string" where
  "normalize_remote_url raw =
    (let without_scheme = trim_end_str ''.git'' (trim_end_char CHR ''/'' (trim raw));
         rest = (case strip_prefix (''git'' @ [CHR 0x40])
             (case split_once_str ''://'' without_scheme of None \<Rightarrow> without_scheme | Some (_, r) \<Rightarrow> r) of
           None \<Rightarrow> without_scheme | Some r \<Rightarrow> r);
         rest' = (case rsplit_once CHR 0x40 rest of None \<Rightarrow> rest | Some (_, remainder) \<Rightarrow> remainder);
         normalized = (case split_once CHR '':'' rest' of
             None \<Rightarrow> rest' | Some (host, path) \<Rightarrow> host @ ''/'' @ path)
     in (case split_once CHR ''/'' normalized of
           None \<Rightarrow> to_ascii_lowercase normalized
         | Some (host, path) \<Rightarrow> to_ascii_lowercase host @ ''/'' @ path))"

end
