(* ===== verification/Git_Repository.thy ===== *)
theory Git_Repository
  imports Git_Metadata
begin

text \<open>
  \<open>crates/git/src/lib.rs\<close>: the operations of a repository.  Git, the file system and the
  clock belong to a world \<open>'w\<close> that every operation takes and returns; \<open>git_env\<close> holds the
  operations on it (the \<open>GitExecutor\<close> trait, \<open>fs::symlink_metadata\<close>, \<open>fs::read\<close>,
  \<open>Utc::now\<close>) and the BLAKE3 hash.  The world may change between two observations, also
  without the program: that is why a capture observes twice.
\<close>

section \<open>Commands\<close>

record GitCommand =
  working_directory :: string
  command_arguments :: "string list"

record GitOutput =
  output_success :: bool
  output_stdout :: string
  output_stderr :: string

definition stdout_trimmed :: "GitOutput \<Rightarrow> string" where
  "stdout_trimmed out = trim (utf8_lossy (output_stdout out))"

definition stderr_trimmed :: "GitOutput \<Rightarrow> string" where
  "stderr_trimmed out = trim (utf8_lossy (output_stderr out))"

definition display_command :: "GitCommand \<Rightarrow> string" where
  "display_command c = ''git -C '' @ utf8_lossy (working_directory c) @ '' '' @
    join_on CHR '' '' (map utf8_lossy (command_arguments c))"

datatype file_failure = FileNotFound | FileFailure string

record file_metadata =
  meta_is_file :: bool
  meta_is_symlink :: bool
  meta_len :: nat

record 'w git_env =
  env_execute :: "GitCommand \<Rightarrow> 'w \<Rightarrow> (GitError + GitOutput) \<times> 'w"
  env_symlink_metadata :: "string \<Rightarrow> 'w \<Rightarrow> (file_failure + file_metadata) \<times> 'w"
  env_read :: "string \<Rightarrow> 'w \<Rightarrow> (file_failure + string) \<times> 'w"
  env_now :: "'w \<Rightarrow> timestamp \<times> 'w"
  env_blake3 :: "string \<Rightarrow> string"

record 'w GitRepository =
  repo_root :: string
  repo_env :: "'w git_env"

type_synonym ('w, 'a) git = "'w \<Rightarrow> (GitError + 'a) \<times> 'w"

definition GitCommand_new :: "'w GitRepository \<Rightarrow> string list \<Rightarrow> GitCommand" where
  "GitCommand_new r args = \<lparr>working_directory = repo_root r, command_arguments = args\<rparr>"

definition execute :: "'w GitRepository \<Rightarrow> string list \<Rightarrow> ('w, GitOutput) git" where
  "execute r args = env_execute (repo_env r) (GitCommand_new r args)"

definition require_success :: "'w GitRepository \<Rightarrow> string list \<Rightarrow> ('w, GitOutput) git" where
  "require_success r args =
    io_bind (execute r args) (\<lambda>output. io_return
      (if output_success output then Inr output
       else Inl (CommandFailed (display_command (GitCommand_new r args)) (stderr_trimmed output))))"

section \<open>Identity\<close>

record RepositoryIdentity =
  identity_worktree :: string
  identity_common_dir :: "string option"
  identity_primary_remote :: "string option"
  identity_head :: HeadState

record AheadBehind =
  ahead :: nat
  behind :: nat

definition inspect_head :: "'w GitRepository \<Rightarrow> ('w, HeadState) git" where
  "inspect_head r =
    io_bind (execute r [''symbolic-ref'', ''-q'', ''--short'', ''HEAD'']) (\<lambda>output.
      if output_success output then io_return (Inr (Branch (stdout_trimmed output)))
      else io_bind (execute r [''rev-parse'', ''--verify'', ''HEAD'']) (\<lambda>output.
        if output_success output
        then io_return (rbind (parse_sha (stdout_trimmed output)) (\<lambda>sha. Inr (Detached sha)))
        else io_return (Inr Unborn)))"

definition inspect :: "'w GitRepository \<Rightarrow> ('w, RepositoryIdentity) git" where
  "inspect r =
    io_bind (execute r [''rev-parse'', ''--is-inside-work-tree'']) (\<lambda>inside.
    if \<not> output_success inside \<or> stdout_trimmed inside \<noteq> ''true''
    then io_return (Inl (NotARepository (repo_root r)))
    else
      io_bind (require_success r [''rev-parse'', ''--show-toplevel'']) (\<lambda>worktree.
      io_bind (require_success r [''rev-parse'', ''--path-format=absolute'', ''--git-common-dir'']) (\<lambda>common.
      io_bind (inspect_head r) (\<lambda>head.
      io_bind (execute r [''remote'', ''get-url'', ''origin'']) (\<lambda>origin.
      io_return (Inr \<lparr>identity_worktree = stdout_trimmed worktree,
        identity_common_dir = Some (stdout_trimmed common),
        identity_primary_remote = (if output_success origin
          then Some (normalize_remote_url (stdout_trimmed origin)) else None),
        identity_head = head\<rparr>))))))"

definition primary_remote_head :: "'w GitRepository \<Rightarrow> ('w, string option) git" where
  "primary_remote_head r =
    io_bind (execute r [''symbolic-ref'', ''-q'', ''--short'', ''refs/remotes/origin/HEAD'']) (\<lambda>output.
    io_return
      (if \<not> output_success output then Inr None
       else (let reference = stdout_trimmed output in
         if starts_with reference ''origin/'' \<and> length reference \<le> 512 \<and> \<not> any_control reference
         then Inr (Some reference)
         else Inl (Parse ''origin/HEAD did not resolve to a safe remote branch''))))"

definition MAX_ATTRIBUTE_OUTPUT_BYTES :: nat where
  "MAX_ATTRIBUTE_OUTPUT_BYTES = 4 * 1024"
definition MAX_LANGUAGE_BYTES :: nat where
  "MAX_LANGUAGE_BYTES = 128"

definition parse_linguist :: "StoredPath \<Rightarrow> string \<Rightarrow> GitError + string option" where
  "parse_linguist path out =
    (if length out > MAX_ATTRIBUTE_OUTPUT_BYTES
     then Inl (OutputTooLarge ''linguist-language attribute'' MAX_ATTRIBUTE_OUTPUT_BYTES)
     else (case nul_fields out of
         [reported_path, attribute, value] \<Rightarrow>
           (if reported_path \<noteq> path_str path \<or> attribute \<noteq> ''linguist-language''
            then Inl (Parse ''git check-attr returned a mismatched linguist-language record'')
            else if value \<in> {''unspecified'', ''unset'', ''set''} then Inr None
            else if value = [] \<or> length value > MAX_LANGUAGE_BYTES then Inr None
            else if \<not> is_utf8 value then Inl (Parse ''linguist-language was not UTF-8'')
            else (let v = trim value in if v = [] \<or> any_control v then Inr None else Inr (Some v)))
       | _ \<Rightarrow> Inl (Parse ''git check-attr returned an incomplete linguist-language record'')))"

definition linguist_language :: "'w GitRepository \<Rightarrow> StoredPath \<Rightarrow> ('w, string option) git" where
  "linguist_language r path =
    io_bind (io_return (validate_repository_relative_path path)) (\<lambda>_.
    io_bind (require_success r [''check-attr'', ''-z'', ''linguist-language'', ''--'', path_str path]) (\<lambda>output.
    io_return (parse_linguist path (output_stdout output))))"

record ResolvedLocalComparison =
  resolved_repository_id :: RepositoryId
  resolved_comparison_id :: ComparisonId
  resolved_requested_base :: BaseReference
  resolved_base_tip_sha :: GitSha
  resolved_merge_base_sha :: GitSha
  resolved_head_sha :: GitSha
  resolved_head :: HeadState
  resolved_options :: ComparisonOptions

definition show_domain_error :: "DomainError \<Rightarrow> string" where
  "show_domain_error e = (case e of
      InvalidBaseReference \<Rightarrow> ''a base reference must be a safe branch, tag, remote ref, or object ID''
    | InvalidGitSha \<Rightarrow> INVALID_SHA_TEXT
    | InvalidLineRange \<Rightarrow> ''line annotations require a one-based, non-empty range''
    | InvalidComparisonPathFilter p \<Rightarrow>
        ''comparison path filter is not a safe repository-relative path: '' @ path_str p
    | TooManyComparisonPathFilters n \<Rightarrow>
        ''comparison has more path filters than the supported limit ('' @ show_nat n @ '')'')"

definition resolve_sha :: "'w GitRepository \<Rightarrow> string list \<Rightarrow> ('w, GitSha) git" where
  "resolve_sha r args =
    io_bind (require_success r args) (\<lambda>output. io_return (parse_sha (stdout_trimmed output)))"

definition resolve_comparison ::
  "'w GitRepository \<Rightarrow> RepositoryId \<Rightarrow> ComparisonId \<Rightarrow> BaseReference \<Rightarrow> ComparisonOptions \<Rightarrow>
    ('w, ResolvedLocalComparison) git" where
  "resolve_comparison r repository comparison base opts =
    io_bind (io_return (map_err (\<lambda>e. Parse (show_domain_error e)) (validate_comparison_options opts))) (\<lambda>_.
    io_bind (inspect r) (\<lambda>identity.
    io_bind (case identity_head identity of
        Unborn \<Rightarrow> io_return (Inl UnbornHead)
      | _ \<Rightarrow> resolve_sha r [''rev-parse'', ''--verify'', ''HEAD'']) (\<lambda>head_sha.
    io_bind (resolve_sha r [''rev-parse'', ''--verify'', base_str base]) (\<lambda>base_tip.
    io_bind (resolve_sha r [''merge-base'', base_str base, ''HEAD'']) (\<lambda>merge_base.
    io_return (Inr \<lparr>resolved_repository_id = repository, resolved_comparison_id = comparison,
      resolved_requested_base = base, resolved_base_tip_sha = base_tip,
      resolved_merge_base_sha = merge_base, resolved_head_sha = head_sha,
      resolved_head = identity_head identity, resolved_options = opts\<rparr>))))))"

section \<open>Reading files and blobs\<close>

definition read_blob_at :: "'w GitRepository \<Rightarrow> GitSha \<Rightarrow> StoredPath \<Rightarrow> ('w, string option) git" where
  "read_blob_at r revision path =
    io_bind (io_return (validate_repository_relative_path path)) (\<lambda>_.
    let object = sha_str revision @ '':'' @ path_str path in
    io_bind (execute r [''cat-file'', ''-e'', object]) (\<lambda>exists.
    if \<not> output_success exists then io_return (Inr None)
    else io_bind (require_success r [''show'', ''--no-ext-diff'', ''--format='', object]) (\<lambda>output.
      io_return (Inr (Some (output_stdout output))))))"

definition file_error :: "string \<Rightarrow> file_failure \<Rightarrow> GitError" where
  "file_error path e =
    (case e of FileNotFound \<Rightarrow> FileError path ''not found'' | FileFailure t \<Rightarrow> FileError path t)"

definition read_file :: "'w GitRepository \<Rightarrow> string \<Rightarrow> ('w, string) git" where
  "read_file r path w =
    (case env_read (repo_env r) path w of (res, w') \<Rightarrow> (map_err (file_error path) res, w'))"

text \<open>A look at the metadata of a path, and the time.\<close>

definition with_metadata ::
  "'w GitRepository \<Rightarrow> string \<Rightarrow> (file_failure + file_metadata \<Rightarrow> ('w, 'a) git) \<Rightarrow> ('w, 'a) git" where
  "with_metadata r path k w =
    (case env_symlink_metadata (repo_env r) path w of (res, w') \<Rightarrow> k res w')"

definition with_now :: "'w GitRepository \<Rightarrow> (timestamp \<Rightarrow> ('w, 'a) git) \<Rightarrow> ('w, 'a) git" where
  "with_now r k w = (case env_now (repo_env r) w of (now, w') \<Rightarrow> k now w')"

definition read_worktree_file :: "'w GitRepository \<Rightarrow> StoredPath \<Rightarrow> ('w, string option) git" where
  "read_worktree_file r relative_path =
    io_bind (io_return (validate_repository_relative_path relative_path)) (\<lambda>_.
    let path = path_join (repo_root r) (path_str relative_path) in
    with_metadata r path (\<lambda>res.
      case res of
        Inl e \<Rightarrow> io_return (if e = FileNotFound then Inr None else Inl (file_error path e))
      | Inr meta \<Rightarrow>
          (if meta_is_symlink meta \<or> \<not> meta_is_file meta
           then io_return (Inl (UnsafeRepositoryPath relative_path))
           else io_bind (read_file r path) (\<lambda>bytes. io_return (Inr (Some bytes))))))"

record CapturedUntrackedFile =
  captured_metadata :: UntrackedFile
  captured_content :: string

definition untracked_capture :: "(string \<Rightarrow> string) \<Rightarrow> StoredPath \<Rightarrow> string \<Rightarrow> CapturedUntrackedFile" where
  "untracked_capture blake3 relative_path content =
    \<lparr>captured_metadata = \<lparr>untracked_path = relative_path,
       untracked_fingerprint = fingerprint_from_bytes blake3 content,
       untracked_byte_len = length content, untracked_binary = contains_char content NUL\<rparr>,
     captured_content = content\<rparr>"

definition capture_untracked_file ::
  "'w GitRepository \<Rightarrow> StoredPath \<Rightarrow> ('w, CapturedUntrackedFile) git" where
  "capture_untracked_file r relative_path =
    io_bind (io_return (validate_repository_relative_path relative_path)) (\<lambda>_.
    let path = path_join (repo_root r) (path_str relative_path) in
    with_metadata r path (\<lambda>res.
      case res of
        Inl e \<Rightarrow> io_return (Inl (file_error path e))
      | Inr meta \<Rightarrow>
          (if meta_is_symlink meta \<or> \<not> meta_is_file meta
           then io_return (Inl (UnsafeRepositoryPath relative_path))
           else if meta_len meta > DEFAULT_MAX_UNTRACKED_CAPTURE_BYTES
           then io_return (Inl (UntrackedFileTooLarge path (meta_len meta) DEFAULT_MAX_UNTRACKED_CAPTURE_BYTES))
           else io_bind (read_file r path) (\<lambda>content.
             io_return (Inr (untracked_capture (env_blake3 (repo_env r)) relative_path content))))))"

section \<open>Diffs\<close>

definition option_flags :: "ComparisonOptions \<Rightarrow> string list" where
  "option_flags opts =
    (if ignore_all_whitespace opts then [''--ignore-all-space''] else []) @
    (if ignore_space_at_eol opts then [''--ignore-space-at-eol''] else []) @
    (if ignore_cr_at_eol opts then [''--ignore-cr-at-eol''] else [])"

definition filter_arguments :: "ComparisonOptions \<Rightarrow> string list" where
  "filter_arguments opts =
    (if path_filters opts = [] then [] else ''--'' # map path_str (path_filters opts))"

definition diff_arguments :: "string list \<Rightarrow> ComparisonOptions \<Rightarrow> string list" where
  "diff_arguments revs opts =
    [''diff'', ''--binary'', ''--find-renames'', ''--find-copies'', ''--find-copies-harder'',
     ''--no-ext-diff''] @ option_flags opts @ revs @ filter_arguments opts"

definition diff_bytes ::
  "'w GitRepository \<Rightarrow> string list \<Rightarrow> ComparisonOptions \<Rightarrow> ('w, string) git" where
  "diff_bytes r revs opts =
    io_bind (require_success r (diff_arguments revs opts)) (\<lambda>output.
    io_return (Inr (output_stdout output)))"

record CapturedTrackedFile =
  tracked_path :: StoredPath
  tracked_old_path :: "StoredPath option"
  tracked_content :: "string option"
  tracked_kind :: CapturedTrackedFileKind
  tracked_old_mode :: nat
  tracked_new_mode :: nat
  tracked_binary :: bool
  tracked_lfs_pointer :: bool
  tracked_classification :: ReviewFileClassification

definition GITLINK_MODE :: nat where "GITLINK_MODE = 57344"

definition raw_arguments :: "GitSha \<Rightarrow> ComparisonOptions \<Rightarrow> string list" where
  "raw_arguments merge_base opts =
    [''diff'', ''--raw'', ''-z'', ''--find-renames'', ''--find-copies'', ''--find-copies-harder'',
     ''--no-ext-diff''] @ option_flags opts @ [sha_str merge_base] @ filter_arguments opts"

definition capture_tracked_entry :: "'w GitRepository \<Rightarrow> RawDiffEntry \<Rightarrow> ('w, CapturedTrackedFile) git" where
  "capture_tracked_entry r entry =
    (let is_gitlink = (raw_old_mode entry = GITLINK_MODE \<or> raw_new_mode entry = GITLINK_MODE) in
     io_bind (if is_gitlink \<or> raw_kind entry = FileDeleted then io_return (Inr None)
       else read_worktree_file r (raw_path entry)) (\<lambda>content.
     io_return (rbind (classify_review_file (raw_path entry) content is_gitlink) (\<lambda>classification.
       Inr \<lparr>tracked_path = raw_path entry, tracked_old_path = raw_old_path entry,
         tracked_content = content,
         tracked_kind = (if is_gitlink then FileSubmodule else raw_kind entry),
         tracked_old_mode = raw_old_mode entry, tracked_new_mode = raw_new_mode entry,
         tracked_binary = (case content of None \<Rightarrow> False | Some b \<Rightarrow> contains_char b NUL),
         tracked_lfs_pointer = (case content of None \<Rightarrow> False | Some b \<Rightarrow> is_lfs_pointer b),
         tracked_classification = classification\<rparr>))))"

definition capture_tracked_files ::
  "'w GitRepository \<Rightarrow> GitSha \<Rightarrow> ComparisonOptions \<Rightarrow> ('w, CapturedTrackedFile list) git" where
  "capture_tracked_files r merge_base opts =
    io_bind (require_success r (raw_arguments merge_base opts)) (\<lambda>output.
    io_bind (io_return (parse_raw_diff_z (output_stdout output))) (io_map (capture_tracked_entry r)))"

section \<open>Coherent captures\<close>

definition status_arguments :: "string list" where
  "status_arguments = [''status'', ''--porcelain=v1'', ''-z'', ''--untracked-files=all'']"

definition status :: "'w GitRepository \<Rightarrow> ('w, WorkingTreeChange list) git" where
  "status r = io_bind (require_success r status_arguments) (\<lambda>output.
    io_return (parse_porcelain_v1_z (output_stdout output)))"

definition be64 :: "nat \<Rightarrow> string" where
  "be64 n = map (\<lambda>k. char_of (n div 256 ^ k)) (rev [0..<8])"

definition snapshot_bytes :: "string \<Rightarrow> UntrackedFile list \<Rightarrow> string" where
  "snapshot_bytes patch files =
    be64 (length patch) @ patch @
    concat (map (\<lambda>f. path_str (untracked_path f) @ [NUL] @ fingerprint_str (untracked_fingerprint f) @
      be64 (untracked_byte_len f)) (sort_key untracked_path files))"

definition fingerprint_snapshot ::
  "(string \<Rightarrow> string) \<Rightarrow> string \<Rightarrow> UntrackedFile list \<Rightarrow> ContentFingerprint" where
  "fingerprint_snapshot blake3 patch files = fingerprint_from_bytes blake3 (snapshot_bytes patch files)"

record CapturedLocalComparison =
  captured_comparison :: RepositoryComparison
  captured_working_tree_patch :: string
  captured_committed_patch :: string
  captured_staged_patch :: string
  captured_unstaged_patch :: string
  captured_tracked_files :: "CapturedTrackedFile list"
  captured_untracked_files :: "CapturedUntrackedFile list"
  captured_status :: "WorkingTreeChange list"

definition untracked_paths :: "WorkingTreeChange list \<Rightarrow> StoredPath list" where
  "untracked_paths statuses = map change_path (filter (\<lambda>e. change_kind_of e = KindUntracked) statuses)"

definition capture_local_comparison_once ::
  "'w GitRepository \<Rightarrow> ResolvedLocalComparison \<Rightarrow> ('w, CapturedLocalComparison) git" where
  "capture_local_comparison_once r resolved =
    (let base = sha_str (resolved_merge_base_sha resolved); opts = resolved_options resolved;
         blake3 = env_blake3 (repo_env r) in
     io_bind (status r) (\<lambda>statuses.
     io_bind (io_map (capture_untracked_file r) (untracked_paths statuses)) (\<lambda>untracked.
     io_bind (diff_bytes r [base @ ''..HEAD''] opts) (\<lambda>committed.
     io_bind (diff_bytes r [''--cached''] opts) (\<lambda>staged.
     io_bind (diff_bytes r [] opts) (\<lambda>unstaged.
     io_bind (diff_bytes r [base] opts) (\<lambda>working_tree.
     io_bind (capture_tracked_files r (resolved_merge_base_sha resolved) opts) (\<lambda>tracked.
     with_now r (\<lambda>now.
      io_return (Inr \<lparr>captured_comparison =
          \<lparr>comparison_id = resolved_comparison_id resolved,
           comparison_repository_id = resolved_repository_id resolved,
           comparison_requested_base = resolved_requested_base resolved,
           comparison_base_tip_sha = resolved_base_tip_sha resolved,
           comparison_merge_base_sha = resolved_merge_base_sha resolved,
           comparison_head_sha = Some (resolved_head_sha resolved),
           comparison_head = resolved_head resolved,
           comparison_index_fingerprint = fingerprint_from_bytes blake3 staged,
           comparison_working_tree_fingerprint =
             fingerprint_snapshot blake3 working_tree (map captured_metadata untracked),
           comparison_untracked_files = map captured_metadata untracked,
           comparison_options = opts, comparison_captured_at = now\<rparr>,
         captured_working_tree_patch = working_tree, captured_committed_patch = committed,
         captured_staged_patch = staged, captured_unstaged_patch = unstaged,
         captured_tracked_files = tracked, captured_untracked_files = untracked,
         captured_status = statuses\<rparr>))))))))))"

text \<open>\<open>if_then b k\<close>: the early \<open>return Ok(false)\<close> of the second observation.\<close>

definition if_current :: "bool \<Rightarrow> ('w, bool) git \<Rightarrow> ('w, bool) git" where
  "if_current b k = (if b then k else io_return (Inr False))"

definition capture_still_current ::
  "'w GitRepository \<Rightarrow> ResolvedLocalComparison \<Rightarrow> CapturedLocalComparison \<Rightarrow> ('w, bool) git" where
  "capture_still_current r resolved captured =
    (let base = sha_str (resolved_merge_base_sha resolved); opts = resolved_options resolved in
     io_bind (require_success r [''rev-parse'', ''--verify'', ''HEAD'']) (\<lambda>output.
     if_current (stdout_trimmed output = sha_str (resolved_head_sha resolved)) (
     io_bind (status r) (\<lambda>statuses.
     if_current (statuses = captured_status captured) (
     io_bind (io_map (capture_untracked_file r) (untracked_paths statuses)) (\<lambda>untracked.
     if_current (untracked = captured_untracked_files captured) (
     io_bind (diff_bytes r [base @ ''..HEAD''] opts) (\<lambda>committed.
     io_bind (diff_bytes r [''--cached''] opts) (\<lambda>staged.
     io_bind (diff_bytes r [] opts) (\<lambda>unstaged.
     io_bind (diff_bytes r [base] opts) (\<lambda>aggregate.
     if_current (committed = captured_committed_patch captured \<and> staged = captured_staged_patch captured
       \<and> unstaged = captured_unstaged_patch captured
       \<and> aggregate = captured_working_tree_patch captured) (
     io_bind (capture_tracked_files r (resolved_merge_base_sha resolved) opts) (\<lambda>tracked.
     io_return (Inr (tracked = captured_tracked_files captured)))))))))))))))"

fun capture_attempts ::
  "nat \<Rightarrow> 'w GitRepository \<Rightarrow> ResolvedLocalComparison \<Rightarrow> ('w, CapturedLocalComparison) git" where
  "capture_attempts 0 r resolved =
    io_return (Inl (ConcurrentModification MAX_COHERENT_CAPTURE_ATTEMPTS))"
| "capture_attempts (Suc n) r resolved =
    io_bind (capture_local_comparison_once r resolved) (\<lambda>captured.
    io_bind (capture_still_current r resolved captured) (\<lambda>current.
    if current then io_return (Inr captured) else capture_attempts n r resolved))"

definition capture_local_comparison ::
  "'w GitRepository \<Rightarrow> ResolvedLocalComparison \<Rightarrow> ('w, CapturedLocalComparison) git" where
  "capture_local_comparison r = capture_attempts MAX_COHERENT_CAPTURE_ATTEMPTS r"

section \<open>Fetch, divergence, blame and commits\<close>

definition fetch_remote :: "'w GitRepository \<Rightarrow> string \<Rightarrow> ('w, unit) git" where
  "fetch_remote r remote =
    (if trim remote = [] \<or> contains_char remote NUL then io_return (Inl (Parse ''remote name is invalid''))
     else io_bind (require_success r [''fetch'', ''--prune'', ''--no-tags'', remote]) (\<lambda>_.
       io_return (Inr ())))"

definition parse_ahead_behind :: "string \<Rightarrow> GitError + AheadBehind" where
  "parse_ahead_behind text =
    (let values = split_ascii_whitespace text in
     case values of
       [] \<Rightarrow> Inl (Parse ''ahead/behind output is missing behind count'')
     | b # rest \<Rightarrow>
         rbind (ok_or (Parse ''ahead/behind output has an invalid behind count'')
           (parse_unsigned U32_MAX b)) (\<lambda>behind_count.
         case rest of
           [] \<Rightarrow> Inl (Parse ''ahead/behind output is missing ahead count'')
         | a # rest' \<Rightarrow>
             rbind (ok_or (Parse ''ahead/behind output has an invalid ahead count'')
               (parse_unsigned U32_MAX a)) (\<lambda>ahead_count.
             if rest' \<noteq> [] then Inl (Parse ''ahead/behind output has unexpected fields'')
             else Inr \<lparr>ahead = ahead_count, behind = behind_count\<rparr>)))"

definition ahead_behind :: "'w GitRepository \<Rightarrow> BaseReference \<Rightarrow> ('w, AheadBehind) git" where
  "ahead_behind r base =
    io_bind (require_success r
      [''rev-list'', ''--left-right'', ''--count'', base_str base @ ''...HEAD'']) (\<lambda>output.
    io_return (parse_ahead_behind (stdout_trimmed output)))"

definition blame_line_count :: "GitBlameRequest \<Rightarrow> nat option" where
  "blame_line_count q =
    (if blame_end_line q < blame_start_line q then None
     else (let count = blame_end_line q - blame_start_line q + 1 in
       if count \<le> U32_MAX \<and> blame_start_line q > 0 \<and> count \<le> MAX_BLAME_LINES then Some count else None))"

definition blame_at :: "'w GitRepository \<Rightarrow> GitBlameRequest \<Rightarrow> ('w, GitBlameResult) git" where
  "blame_at r q =
    io_bind (io_return (validate_repository_relative_path (blame_request_path q))) (\<lambda>_.
    io_bind (io_return (ok_or (InvalidBlameRange MAX_BLAME_LINES) (blame_line_count q))) (\<lambda>line_count.
    io_bind (require_success r [''blame'', ''--line-porcelain'', ''--no-progress'', ''-L'',
      show_nat (blame_start_line q) @ '','' @ show_nat (blame_end_line q),
      sha_str (blame_request_revision q), ''--'', path_str (blame_request_path q)]) (\<lambda>output.
    io_return (rbind (parse_blame_porcelain (output_stdout output) (blame_request_path q)) (\<lambda>lines.
      if length lines > line_count
      then Inl (Parse ''blame returned more lines than the selected range'')
      else Inr \<lparr>blame_request = q, blame_lines_of = lines\<rparr>)))))"

definition commit_details :: "'w GitRepository \<Rightarrow> GitSha \<Rightarrow> ('w, GitCommitDetails) git" where
  "commit_details r revision =
    io_bind (require_success r [''show'', ''--no-patch'', ''--no-notes'',
      ''--format=%H%x00%P%x00%an%x00%ae%x00%aI%x00%s%x00%cn%x00%ce%x00%cI%x00%B'',
      sha_str revision]) (\<lambda>output.
    io_return (parse_commit_details (output_stdout output)))"

definition commit_is_in_range ::
  "'w GitRepository \<Rightarrow> GitSha \<Rightarrow> GitCommitRange \<Rightarrow> ('w, bool) git" where
  "commit_is_in_range r candidate rng =
    io_bind (execute r [''merge-base'', ''--is-ancestor'', sha_str (range_merge_base rng),
      sha_str candidate]) (\<lambda>after_base.
    if \<not> output_success after_base then io_return (Inr False)
    else io_bind (execute r [''merge-base'', ''--is-ancestor'', sha_str candidate,
        sha_str (range_head rng)]) (\<lambda>before_head.
      io_return (Inr (output_success before_head \<and> candidate \<noteq> range_merge_base rng))))"

definition log_arguments :: "GitCommitRange \<Rightarrow> GitCommitContextRequest \<Rightarrow> string list" where
  "log_arguments rng q =
    [''log'', ''-z'', ''--no-decorate'', ''--no-notes'', ''--topo-order'', ''--reverse'',
     ''--max-count='' @ show_nat (min (context_max_entries q + 1) U64_MAX),
     ''--format=%H%x00%P%x00%an%x00%ae%x00%aI%x00%s%x00%x1e''] @
    (if context_include_merge_commits q then [] else [''--no-merges'']) @
    [sha_str (range_merge_base rng) @ ''..'' @ sha_str (range_head rng)]"

definition commit_matches :: "GitCommitContextRequest \<Rightarrow> GitCommitSummary \<Rightarrow> bool" where
  "commit_matches q c =
    ((case context_author_contains q of None \<Rightarrow> True
      | Some t \<Rightarrow> contains_str (to_ascii_lowercase (commit_author_name c)) (to_ascii_lowercase t)
          \<or> contains_str (to_ascii_lowercase (commit_author_email c)) (to_ascii_lowercase t))
     \<and> (case context_subject_contains q of None \<Rightarrow> True
      | Some t \<Rightarrow> contains_str (to_ascii_lowercase (commit_subject c)) (to_ascii_lowercase t)))"

definition select_commit ::
  "'w GitRepository \<Rightarrow> GitCommitRange \<Rightarrow> GitSha option \<Rightarrow> ('w, GitCommitDetails option) git" where
  "select_commit r rng selected =
    (case selected of None \<Rightarrow> io_return (Inr None)
     | Some sha \<Rightarrow>
        io_bind (commit_is_in_range r sha rng) (\<lambda>inside.
        if \<not> inside then io_return (Inl (CommitOutsideComparisonRange sha))
        else io_bind (commit_details r sha) (\<lambda>d. io_return (Inr (Some d)))))"

definition commit_context ::
  "'w GitRepository \<Rightarrow> GitCommitRange \<Rightarrow> GitCommitContextRequest \<Rightarrow> ('w, GitCommitContext) git" where
  "commit_context r rng q =
    (if context_max_entries q = 0 \<or> context_max_entries q > MAX_COMMIT_CONTEXT_ENTRIES
     then io_return (Inl (InvalidCommitContextLimit MAX_COMMIT_CONTEXT_ENTRIES))
     else
       io_bind (require_success r (log_arguments rng q)) (\<lambda>output.
       io_bind (io_return (parse_commit_summaries (output_stdout output))) (\<lambda>commits.
       io_bind (select_commit r rng (context_selected_commit q)) (\<lambda>selected.
       io_return (Inr \<lparr>context_range = rng,
         context_commits = filter (commit_matches q) (take (context_max_entries q) commits),
         context_truncated = (length commits > context_max_entries q),
         context_selected = selected\<rparr>)))))"

end
