(* ===== verification/Git_Effects.thy ===== *)
theory Git_Effects
  imports Git_Repository
begin

text \<open>
  What the operations of a repository do to the world.  \<open>keeps P m\<close> says \<open>m\<close> preserves
  \<open>P\<close>; the locale \<open>git_world\<close> derives, for any \<open>P\<close> that the read-only Git commands, the file
  reads below the worktree and the clock preserve, that every operation but \<open>fetch_remote\<close>
  preserves it.  Its interpretation is on the repository of the model with an environment
  that logs what is asked of it, so the theorems say which commands are run and which files
  are opened.
\<close>

named_theorems keeps_intros \<open>operations that preserve a predicate of the world\<close>

definition keeps :: "('w \<Rightarrow> bool) \<Rightarrow> ('w \<Rightarrow> 'r \<times> 'w) \<Rightarrow> bool" where
  "keeps P m \<longleftrightarrow> (\<forall>w. P w \<longrightarrow> P (snd (m w)))"

lemma keeps_bind [keeps_intros]:
  "keeps P m \<Longrightarrow> (\<And>x. keeps P (k x)) \<Longrightarrow> keeps P (io_bind m k)"
  by (fastforce simp: keeps_def io_bind_def split: prod.splits sum.splits)

lemma keeps_return [keeps_intros]: "keeps P (io_return r)"
  by (simp add: keeps_def io_return_def)

lemma keeps_map [keeps_intros]: "(\<And>x. keeps P (f x)) \<Longrightarrow> keeps P (io_map f xs)"
  by (induction xs) (auto intro!: keeps_intros)

lemma keeps_if [keeps_intros]: "(b \<Longrightarrow> keeps P m) \<Longrightarrow> (\<not> b \<Longrightarrow> keeps P n) \<Longrightarrow> keeps P (if b then m else n)"
  by simp

lemma keeps_Let [keeps_intros]: "(\<And>x. keeps P (f x)) \<Longrightarrow> keeps P (Let a f)"
  by simp

lemma keeps_check_bind [keeps_intros]:
  "(res = Inr () \<Longrightarrow> keeps P (k ())) \<Longrightarrow> keeps P (io_bind (io_return res) k)"
  by (cases res) (auto simp: keeps_def io_bind_def io_return_def)

section \<open>Read-only commands\<close>

text \<open>The Git commands that change no ref, index, configuration or worktree file, by the
  arguments the code passes.\<close>

definition read_only_arguments :: "string list \<Rightarrow> bool" where
  "read_only_arguments args =
    (case args of [] \<Rightarrow> False
     | c # rest \<Rightarrow>
        c \<in> {''rev-parse'', ''status'', ''diff'', ''merge-base'', ''cat-file'', ''show'',
          ''check-attr'', ''rev-list'', ''blame'', ''log''}
        \<or> (c = ''symbolic-ref'' \<and> length rest = 3 \<and> take 2 rest = [''-q'', ''--short''])
        \<or> (c = ''remote'' \<and> length rest = 2 \<and> hd rest = ''get-url''))"

locale git_world =
  fixes r :: "'w GitRepository" and P :: "'w \<Rightarrow> bool"
  assumes runs: "read_only_arguments args \<Longrightarrow> keeps P (execute r args)"
    and stats: "is_safe_repository_relative_path p \<Longrightarrow>
      keeps P (env_symlink_metadata (repo_env r) (path_join (repo_root r) (path_str p)))"
    and reads: "is_safe_repository_relative_path p \<Longrightarrow>
      keeps P (env_read (repo_env r) (path_join (repo_root r) (path_str p)))"
    and clock: "keeps P (env_now (repo_env r))"
begin

lemma keeps_require [keeps_intros]: "read_only_arguments args \<Longrightarrow> keeps P (require_success r args)"
  unfolding require_success_def by (intro keeps_intros runs)

lemmas command_simps = read_only_arguments_def diff_arguments_def raw_arguments_def
  status_arguments_def log_arguments_def

lemma keeps_read: "is_safe_repository_relative_path p \<Longrightarrow>
    keeps P (read_file r (path_join (repo_root r) (path_str p)))"
  using reads [of p] by (auto simp: keeps_def read_file_def split: prod.splits)

lemma safe_check: "validate_repository_relative_path p = Inr u \<longleftrightarrow> is_safe_repository_relative_path p"
  by (simp add: validate_repository_relative_path_def)

lemma keeps_with_metadata [keeps_intros]:
  assumes "is_safe_repository_relative_path p" "\<And>res. keeps P (k res)"
  shows "keeps P (with_metadata r (path_join (repo_root r) (path_str p)) k)"
  using stats [OF assms(1)] assms(2) by (fastforce simp: keeps_def with_metadata_def split: prod.splits)

lemma keeps_sum_case [keeps_intros]:
  "(\<And>e. keeps P (f e)) \<Longrightarrow> (\<And>x. keeps P (g x)) \<Longrightarrow> keeps P (case res of Inl e \<Rightarrow> f e | Inr x \<Rightarrow> g x)"
  by (cases res) simp_all

lemma keeps_with_now [keeps_intros]: "(\<And>t. keeps P (k t)) \<Longrightarrow> keeps P (with_now r k)"
  using clock by (fastforce simp: keeps_def with_now_def split: prod.splits)

lemma keeps_worktree_file [keeps_intros]: "keeps P (read_worktree_file r p)"
  unfolding read_worktree_file_def Let_def by (intro keeps_intros keeps_read) (simp_all add: safe_check)

lemma keeps_untracked_file [keeps_intros]: "keeps P (capture_untracked_file r p)"
  unfolding capture_untracked_file_def Let_def by (intro keeps_intros keeps_read) (simp_all add: safe_check)

lemma keeps_inspect [keeps_intros]: "keeps P (inspect r)" "keeps P (primary_remote_head r)"
  unfolding inspect_def inspect_head_def primary_remote_head_def
  by (intro keeps_intros runs; simp add: command_simps)+

lemma keeps_resolve_sha [keeps_intros]: "read_only_arguments args \<Longrightarrow> keeps P (resolve_sha r args)"
  unfolding resolve_sha_def by (intro keeps_intros)

lemma keeps_head_case [keeps_intros]:
  "keeps P u \<Longrightarrow> keeps P m \<Longrightarrow> keeps P (case h of Unborn \<Rightarrow> u | _ \<Rightarrow> m)"
  by (cases h) simp_all

lemma keeps_resolve [keeps_intros]: "keeps P (resolve_comparison r repository comparison base opts)"
  unfolding resolve_comparison_def by (intro keeps_intros; simp add: command_simps)

lemma keeps_status [keeps_intros]: "keeps P (status r)"
  unfolding status_def by (intro keeps_intros) (simp add: command_simps)

lemma keeps_diff [keeps_intros]: "keeps P (diff_bytes r revs opts)"
  unfolding diff_bytes_def by (intro keeps_intros) (simp add: command_simps)

lemma keeps_tracked [keeps_intros]: "keeps P (capture_tracked_files r base opts)"
  unfolding capture_tracked_files_def capture_tracked_entry_def
  by (intro keeps_intros) (simp add: command_simps)

lemma keeps_if_current [keeps_intros]: "keeps P k \<Longrightarrow> keeps P (if_current b k)"
  unfolding if_current_def by (intro keeps_intros)

lemma keeps_once [keeps_intros]: "keeps P (capture_local_comparison_once r resolved)"
  unfolding capture_local_comparison_once_def by (intro keeps_intros)

lemma keeps_current [keeps_intros]: "keeps P (capture_still_current r resolved captured)"
  unfolding capture_still_current_def by (intro keeps_intros; simp add: command_simps)

lemma keeps_attempts [keeps_intros]: "keeps P (capture_attempts n r resolved)"
proof (induction n)
  case (Suc n)
  show ?case unfolding capture_attempts.simps by (intro keeps_intros Suc)
qed (simp add: keeps_return)

lemma keeps_capture [keeps_intros]: "keeps P (capture_local_comparison r resolved)"
  unfolding capture_local_comparison_def by (rule keeps_attempts)

lemma keeps_blob: "keeps P (read_blob_at r revision p)" "keeps P (linguist_language r p)"
    "keeps P (ahead_behind r base)" "keeps P (blame_at r q)" "keeps P (commit_details r sha)"
  unfolding read_blob_at_def linguist_language_def ahead_behind_def blame_at_def commit_details_def
  by (intro keeps_intros runs; simp add: command_simps)+

lemma keeps_select: "keeps P (select_commit r rng selected)"
  unfolding select_commit_def commit_is_in_range_def
  by (cases selected) (auto intro!: keeps_intros runs keeps_blob simp: command_simps)

lemma keeps_context: "keeps P (commit_context r rng q)"
  unfolding commit_context_def by (intro keeps_intros keeps_select; simp add: command_simps)

end

section \<open>The log of a repository\<close>

datatype effect = Ran "string list" | Opened string

definition logged_env :: "'w git_env \<Rightarrow> ('w \<times> effect list) git_env" where
  "logged_env env =
    \<lparr>env_execute = (\<lambda>c (w, log). case env_execute env c w of
        (res, w') \<Rightarrow> (res, (w', log @ [Ran (command_arguments c)]))),
     env_symlink_metadata = (\<lambda>p (w, log). case env_symlink_metadata env p w of
        (res, w') \<Rightarrow> (res, (w', log @ [Opened p]))),
     env_read = (\<lambda>p (w, log). case env_read env p w of
        (res, w') \<Rightarrow> (res, (w', log @ [Opened p]))),
     env_now = (\<lambda>(w, log). case env_now env w of (now, w') \<Rightarrow> (now, (w', log))),
     env_blake3 = env_blake3 env\<rparr>"

definition logged :: "'w GitRepository \<Rightarrow> ('w \<times> effect list) GitRepository" where
  "logged r = \<lparr>repo_root = repo_root r, repo_env = logged_env (repo_env r)\<rparr>"

text \<open>A read-only command, or a file at or below the root of the worktree.\<close>

definition harmless :: "string \<Rightarrow> effect \<Rightarrow> bool" where
  "harmless root e =
    (case e of Ran args \<Rightarrow> read_only_arguments args
     | Opened p \<Rightarrow> path_is_absolute root \<longrightarrow> prefix (directory_of root) (directory_of p))"

lemma harmless_below:
  assumes "is_safe_repository_relative_path p"
  shows "harmless root (Opened (path_join root (path_str p)))"
  using assms join_stays_below [of root "path_str p"]
  by (auto simp: harmless_def directory_of_def is_safe_repository_relative_path_def list_ex_iff)

definition harmless_log :: "string \<Rightarrow> 'w \<times> effect list \<Rightarrow> bool" where
  "harmless_log root = (\<lambda>(w, log). list_all (harmless root) log)"

interpretation logged_world: git_world "logged r" "harmless_log (repo_root r)" for r
  by unfold_locales
     (auto simp: keeps_def harmless_log_def logged_def logged_env_def execute_def GitCommand_new_def
       harmless_below split: prod.splits intro: harmless_below simp: harmless_def [of _ "Ran _"])

definition log_of :: "('w \<times> effect list \<Rightarrow> 'r \<times> 'w \<times> effect list) \<Rightarrow> 'w \<Rightarrow> effect list" where
  "log_of m w = snd (snd (m (w, [])))"

lemma keeps_log: "keeps (harmless_log root) m \<Longrightarrow> list_all (harmless root) (log_of m w)"
  by (simp add: keeps_def harmless_log_def log_of_def split_beta)


text \<open>The same holds for opening a repository, resolving a comparison and the on-demand
  queries of an open review.\<close>

theorem queries_are_read_only:
  "list_all (harmless (repo_root r)) (log_of (inspect (logged r)) w)
   \<and> list_all (harmless (repo_root r)) (log_of (resolve_comparison (logged r) repository comparison base opts) w)
   \<and> list_all (harmless (repo_root r)) (log_of (blame_at (logged r) q) w)
   \<and> list_all (harmless (repo_root r)) (log_of (read_blob_at (logged r) revision p) w)
   \<and> list_all (harmless (repo_root r)) (log_of (read_worktree_file (logged r) p) w)
   \<and> list_all (harmless (repo_root r)) (log_of (linguist_language (logged r) p) w)
   \<and> list_all (harmless (repo_root r)) (log_of (commit_context (logged r) rng ctx) w)"
  by (intro conjI keeps_log logged_world.keeps_inspect logged_world.keeps_resolve
    logged_world.keeps_blob logged_world.keeps_worktree_file logged_world.keeps_context)

text \<open>The log is transparent: an operation on the logged repository returns what it returns on
  the repository, and leaves the same world.\<close>

named_theorems traces_intros \<open>operations whose logged form agrees with the plain form\<close>

definition traces :: "('w \<Rightarrow> 'r \<times> 'w) \<Rightarrow> ('w \<times> effect list \<Rightarrow> 'r \<times> 'w \<times> effect list) \<Rightarrow> bool" where
  "traces m m' \<longleftrightarrow> (\<forall>w log. \<exists>log'. m' (w, log) = (fst (m w), (snd (m w), log @ log')))"

lemma traces_bind [traces_intros]:
  assumes "traces m m'" "\<And>x. traces (k x) (k' x)"
  shows "traces (io_bind m k) (io_bind m' k')"
  unfolding traces_def
proof (intro allI)
  fix w log
  obtain res w1 where m: "m w = (res, w1)" by (cases "m w")
  with assms(1) obtain l1 where m': "m' (w, log) = (res, (w1, log @ l1))"
    unfolding traces_def by (metis fst_conv snd_conv)
  show "\<exists>log'. io_bind m' k' (w, log) = (fst (io_bind m k w), (snd (io_bind m k w), log @ log'))"
  proof (cases res)
    case (Inr x)
    from assms(2) obtain l2 where "k' x (w1, log @ l1) = (fst (k x w1), (snd (k x w1), (log @ l1) @ l2))"
      unfolding traces_def by blast
    with m m' Inr show ?thesis by (auto simp: io_bind_def)
  qed (use m m' in \<open>auto simp: io_bind_def\<close>)
qed

lemma traces_return [traces_intros]: "traces (io_return x) (io_return x)"
  by (simp add: traces_def io_return_def)

lemma traces_map [traces_intros]: "(\<And>x. traces (f x) (f' x)) \<Longrightarrow> traces (io_map f xs) (io_map f' xs)"
  by (induction xs) (auto intro!: traces_intros)

lemma traces_if [traces_intros]:
  "(b \<Longrightarrow> traces m m') \<Longrightarrow> (\<not> b \<Longrightarrow> traces n n') \<Longrightarrow> traces (if b then m else n) (if b then m' else n')"
  by simp

lemma traces_Let [traces_intros]: "(\<And>x. traces (f x) (f' x)) \<Longrightarrow> traces (Let a f) (Let a f')"
  by simp

lemma logged_simps [simp]:
  "repo_root (logged r) = repo_root r" "env_blake3 (repo_env (logged r)) = env_blake3 (repo_env r)"
  by (simp_all add: logged_def logged_env_def)

lemma traces_execute [traces_intros]: "traces (execute r args) (execute (logged r) args)"
  by (auto simp: traces_def execute_def logged_def logged_env_def GitCommand_new_def split: prod.splits)

lemma traces_require [traces_intros]: "traces (require_success r args) (require_success (logged r) args)"
  unfolding require_success_def GitCommand_new_def logged_simps by (intro traces_intros)

lemma traces_read [traces_intros]: "traces (read_file r p) (read_file (logged r) p)"
  by (auto simp: traces_def read_file_def logged_def logged_env_def split: prod.splits)

lemma traces_sum_case [traces_intros]:
  "(\<And>e. traces (f e) (f' e)) \<Longrightarrow> (\<And>x. traces (g x) (g' x)) \<Longrightarrow>
    traces (case res of Inl e \<Rightarrow> f e | Inr x \<Rightarrow> g x) (case res of Inl e \<Rightarrow> f' e | Inr x \<Rightarrow> g' x)"
  by (cases res) simp_all

lemma traces_with_metadata [traces_intros]:
  assumes "\<And>res. traces (k res) (k' res)"
  shows "traces (with_metadata r p k) (with_metadata (logged r) p k')"
  unfolding traces_def
proof (intro allI)
  fix w log
  obtain res w1 where m: "env_symlink_metadata (repo_env r) p w = (res, w1)"
    by (cases "env_symlink_metadata (repo_env r) p w")
  from assms obtain l2 where
    "k' res (w1, log @ [Opened p]) = (fst (k res w1), (snd (k res w1), (log @ [Opened p]) @ l2))"
    unfolding traces_def by blast
  with m show "\<exists>log'. with_metadata (logged r) p k' (w, log) =
      (fst (with_metadata r p k w), (snd (with_metadata r p k w), log @ log'))"
    by (auto simp: with_metadata_def logged_def logged_env_def)
qed

lemma traces_with_now [traces_intros]:
  "(\<And>t. traces (k t) (k' t)) \<Longrightarrow> traces (with_now r k) (with_now (logged r) k')"
  by (auto simp: traces_def with_now_def logged_def logged_env_def split: prod.splits)

lemma traces_tracked [traces_intros]:
  "traces (capture_tracked_files r base opts) (capture_tracked_files (logged r) base opts)"
  unfolding capture_tracked_files_def capture_tracked_entry_def read_worktree_file_def logged_simps
  by (intro traces_intros)

lemma traces_diff [traces_intros]: "traces (diff_bytes r revs opts) (diff_bytes (logged r) revs opts)"
  unfolding diff_bytes_def by (intro traces_intros)

lemma traces_status [traces_intros]: "traces (status r) (status (logged r))"
  unfolding status_def by (intro traces_intros)

lemma traces_untracked [traces_intros]:
  "traces (capture_untracked_file r p) (capture_untracked_file (logged r) p)"
  unfolding capture_untracked_file_def logged_simps by (intro traces_intros)

lemma traces_if_current [traces_intros]: "traces k k' \<Longrightarrow> traces (if_current b k) (if_current b k')"
  unfolding if_current_def by (intro traces_intros)

lemma traces_attempts: "traces (capture_attempts n r resolved) (capture_attempts n (logged r) resolved)"
proof (induction n)
  case (Suc n)
  then show ?case
    unfolding capture_attempts.simps capture_local_comparison_once_def capture_still_current_def logged_simps
    by (intro traces_intros)
qed (simp add: traces_return)

text \<open>Logging does not change a capture: the result and the world it leaves are those of
  the plain repository, so what the log shows is what the capture does.\<close>

theorem log_is_transparent:
  "fst (capture_local_comparison (logged r) resolved (w, log)) = fst (capture_local_comparison r resolved w)
   \<and> fst (snd (capture_local_comparison (logged r) resolved (w, log)))
      = snd (capture_local_comparison r resolved w)"
proof -
  from traces_attempts [of MAX_COHERENT_CAPTURE_ATTEMPTS r resolved] obtain log' where
    "capture_local_comparison (logged r) resolved (w, log) =
      (fst (capture_local_comparison r resolved w), (snd (capture_local_comparison r resolved w), log @ log'))"
    unfolding traces_def capture_local_comparison_def by blast
  then show ?thesis by simp
qed

end
