(* ===== verification/Git_Capture.thy ===== *)
theory Git_Capture
  imports Git_Effects "HOL-Library.Multiset"
begin

text \<open>
  What a capture promises.  \<open>observe\<close> is the specification: one pass over everything a
  review depends on.  A capture the code returns is the result of two such passes, with the
  resolved \<open>HEAD\<close> in between; in a repository at rest the first attempt succeeds; and the
  fingerprint of the working tree is computed from bytes that determine the patch and the
  untracked files.
\<close>

section \<open>Two observations\<close>

record observation =
  seen_status :: "WorkingTreeChange list"
  seen_untracked :: "CapturedUntrackedFile list"
  seen_committed :: string
  seen_staged :: string
  seen_unstaged :: string
  seen_working_tree :: string
  seen_tracked :: "CapturedTrackedFile list"

definition observe :: "'w GitRepository \<Rightarrow> ResolvedLocalComparison \<Rightarrow> ('w, observation) git" where
  "observe r resolved =
    (let base = sha_str (resolved_merge_base_sha resolved); opts = resolved_options resolved in
     io_bind (status r) (\<lambda>statuses.
     io_bind (io_map (capture_untracked_file r) (untracked_paths statuses)) (\<lambda>untracked.
     io_bind (diff_bytes r [base @ ''..HEAD''] opts) (\<lambda>committed.
     io_bind (diff_bytes r [''--cached''] opts) (\<lambda>staged.
     io_bind (diff_bytes r [] opts) (\<lambda>unstaged.
     io_bind (diff_bytes r [base] opts) (\<lambda>working_tree.
     io_bind (capture_tracked_files r (resolved_merge_base_sha resolved) opts) (\<lambda>tracked.
     io_return (Inr \<lparr>seen_status = statuses, seen_untracked = untracked, seen_committed = committed,
       seen_staged = staged, seen_unstaged = unstaged, seen_working_tree = working_tree,
       seen_tracked = tracked\<rparr>)))))))))"

definition observation_of :: "CapturedLocalComparison \<Rightarrow> observation" where
  "observation_of c =
    \<lparr>seen_status = captured_status c, seen_untracked = captured_untracked_files c,
     seen_committed = captured_committed_patch c, seen_staged = captured_staged_patch c,
     seen_unstaged = captured_unstaged_patch c, seen_working_tree = captured_working_tree_patch c,
     seen_tracked = captured_tracked_files c\<rparr>"

definition capture_of ::
  "(string \<Rightarrow> string) \<Rightarrow> ResolvedLocalComparison \<Rightarrow> timestamp \<Rightarrow> observation \<Rightarrow> CapturedLocalComparison" where
  "capture_of blake3 resolved now seen =
    \<lparr>captured_comparison =
        \<lparr>comparison_id = resolved_comparison_id resolved,
         comparison_repository_id = resolved_repository_id resolved,
         comparison_requested_base = resolved_requested_base resolved,
         comparison_base_tip_sha = resolved_base_tip_sha resolved,
         comparison_merge_base_sha = resolved_merge_base_sha resolved,
         comparison_head_sha = Some (resolved_head_sha resolved),
         comparison_head = resolved_head resolved,
         comparison_index_fingerprint = fingerprint_from_bytes blake3 (seen_staged seen),
         comparison_working_tree_fingerprint =
           fingerprint_snapshot blake3 (seen_working_tree seen) (map captured_metadata (seen_untracked seen)),
         comparison_untracked_files = map captured_metadata (seen_untracked seen),
         comparison_options = resolved_options resolved, comparison_captured_at = now\<rparr>,
     captured_working_tree_patch = seen_working_tree seen, captured_committed_patch = seen_committed seen,
     captured_staged_patch = seen_staged seen, captured_unstaged_patch = seen_unstaged seen,
     captured_tracked_files = seen_tracked seen, captured_untracked_files = seen_untracked seen,
     captured_status = seen_status seen\<rparr>"

definition head_arguments :: "string list" where
  "head_arguments = [''rev-parse'', ''--verify'', ''HEAD'']"

lemma io_bind_assoc: "io_bind (io_bind m k) h = io_bind m (\<lambda>x. io_bind (k x) h)"
  by (rule ext) (auto simp: io_bind_def split: prod.splits sum.splits)

lemma io_bind_return [simp]: "io_bind (io_return (Inr x)) k = k x"
  by (rule ext) (simp add: io_bind_def io_return_def)

lemma once_observes:
  "capture_local_comparison_once r resolved = io_bind (observe r resolved) (\<lambda>seen.
     with_now r (\<lambda>now. io_return (Inr (capture_of (env_blake3 (repo_env r)) resolved now seen))))"
  by (simp add: capture_local_comparison_once_def observe_def Let_def io_bind_assoc capture_of_def)

lemma observation_of_capture [simp]: "observation_of (capture_of blake3 resolved now seen) = seen"
  by (simp add: observation_of_def capture_of_def)

lemma with_now_eq:
  "with_now r k w = (res, w') \<longleftrightarrow> (\<exists>now v. env_now (repo_env r) w = (now, v) \<and> k now v = (res, w'))"
  by (auto simp: with_now_def split: prod.splits)

lemma if_current_True: "if_current b k w = (Inr True, w') \<longleftrightarrow> b \<and> k w = (Inr True, w')"
  by (simp add: if_current_def)

text \<open>The second pass accepts exactly when it sees what was captured.\<close>

lemma current_observes:
  "capture_still_current r resolved c w = (Inr True, w') \<longleftrightarrow>
    (\<exists>out w1. require_success r head_arguments w = (Inr out, w1)
      \<and> stdout_trimmed out = sha_str (resolved_head_sha resolved)
      \<and> observe r resolved w1 = (Inr (observation_of c), w'))"
  unfolding capture_still_current_def observe_def head_arguments_def Let_def
  by (simp add: if_current_True observation_of_def) blast

lemma attempts_observe:
  assumes "capture_attempts n r resolved w = (Inr c, w')"
  shows "\<exists>w1 w2 now w3 out w4. observe r resolved w1 = (Inr (observation_of c), w2)
    \<and> env_now (repo_env r) w2 = (now, w3)
    \<and> c = capture_of (env_blake3 (repo_env r)) resolved now (observation_of c)
    \<and> require_success r head_arguments w3 = (Inr out, w4)
    \<and> stdout_trimmed out = sha_str (resolved_head_sha resolved)
    \<and> observe r resolved w4 = (Inr (observation_of c), w')"
  using assms
proof (induction n arbitrary: w)
  case (Suc n)
  then obtain c1 w1 current w2 where once: "capture_local_comparison_once r resolved w = (Inr c1, w1)"
    and again: "capture_still_current r resolved c1 w1 = (Inr current, w2)"
    and rest: "(if current then io_return (Inr c1) else capture_attempts n r resolved) w2 = (Inr c, w')"
    by auto
  show ?case
  proof (cases current)
    case True
    with rest have "c1 = c" "w2 = w'" by auto
    moreover from once obtain seen v now where "observe r resolved w = (Inr seen, v)"
      "env_now (repo_env r) v = (now, w1)" "c1 = capture_of (env_blake3 (repo_env r)) resolved now seen"
      by (auto simp: once_observes with_now_eq)
    moreover from again True obtain out w3 where
      "require_success r head_arguments w1 = (Inr out, w3)"
      "stdout_trimmed out = sha_str (resolved_head_sha resolved)"
      "observe r resolved w3 = (Inr (observation_of c1), w2)" by (auto simp: current_observes)
    ultimately show ?thesis by (metis observation_of_capture)
  next
    case False
    with rest Suc.IH show ?thesis by simp
  qed
qed simp

text \<open>C4: a capture that is returned was seen twice: a first pass saw exactly its status,
  patches and file contents and it is built from them; then \<open>HEAD\<close> was the commit the
  comparison was resolved to; then a complete second pass, ending in the world the capture
  leaves, saw the same again.\<close>

theorem capture_is_coherent:
  assumes "capture_local_comparison r resolved w = (Inr c, w')"
  shows "\<exists>w1 w2 now w3 out w4. observe r resolved w1 = (Inr (observation_of c), w2)
    \<and> env_now (repo_env r) w2 = (now, w3)
    \<and> c = capture_of (env_blake3 (repo_env r)) resolved now (observation_of c)
    \<and> require_success r head_arguments w3 = (Inr out, w4)
    \<and> stdout_trimmed out = sha_str (resolved_head_sha resolved)
    \<and> observe r resolved w4 = (Inr (observation_of c), w')"
  by (rule attempts_observe) (use assms in \<open>simp add: capture_local_comparison_def\<close>)

section \<open>A repository at rest\<close>

text \<open>The world stays the same under every question asked of it.\<close>

definition at_rest :: "'w GitRepository \<Rightarrow> 'w \<Rightarrow> bool" where
  "at_rest r w \<longleftrightarrow>
    (\<forall>args. snd (execute r args w) = w)
    \<and> (\<forall>p. snd (env_symlink_metadata (repo_env r) p w) = w)
    \<and> (\<forall>p. snd (env_read (repo_env r) p w) = w)
    \<and> snd (env_now (repo_env r) w) = w"

text \<open>C29: in a repository at rest whose \<open>HEAD\<close> is the resolved commit and whose state can be
  read, the first attempt returns a capture of that state.\<close>

theorem capture_succeeds_at_rest:
  assumes "at_rest r w" "observe r resolved w = (Inr seen, w)"
    "require_success r head_arguments w = (Inr out, w)"
    "stdout_trimmed out = sha_str (resolved_head_sha resolved)"
  shows "capture_local_comparison r resolved w =
    (Inr (capture_of (env_blake3 (repo_env r)) resolved (fst (env_now (repo_env r) w)) seen), w)"
proof -
  let ?c = "capture_of (env_blake3 (repo_env r)) resolved (fst (env_now (repo_env r) w)) seen"
  obtain now where "env_now (repo_env r) w = (now, w)"
    using assms(1) by (metis at_rest_def prod.collapse)
  then have once: "capture_local_comparison_once r resolved w = (Inr ?c, w)"
    using assms(2) by (simp add: once_observes with_now_def split: prod.splits)
  have "capture_still_current r resolved ?c w = (Inr True, w)"
    using assms by (auto simp: current_observes)
  with once show ?thesis
    by (simp add: capture_local_comparison_def MAX_COHERENT_CAPTURE_ATTEMPTS_def numeral_3_eq_3 ex_bool_eq)
qed

text \<open>A repository that never shows the same state twice is not captured: after three
  attempts the capture fails, it does not go on.\<close>

theorem unstable_repository_gives_up:
  assumes "\<And>v. \<exists>c v'. capture_local_comparison_once r resolved v = (Inr c, v')
      \<and> (\<exists>v''. capture_still_current r resolved c v' = (Inr False, v''))"
  shows "fst (capture_local_comparison r resolved w) = Inl (ConcurrentModification 3)"
proof -
  have "fst (capture_attempts n r resolved v) = Inl (ConcurrentModification 3)" for n v
  proof (induction n arbitrary: v)
    case (Suc n)
    obtain c v' v'' where "capture_local_comparison_once r resolved v = (Inr c, v')"
      "capture_still_current r resolved c v' = (Inr False, v'')" using assms by blast
    with Suc show ?case by (simp add: io_bind_def)
  qed (simp add: io_return_def MAX_COHERENT_CAPTURE_ATTEMPTS_def)
  then show ?thesis by (simp add: capture_local_comparison_def)
qed

section \<open>The working-tree fingerprint\<close>

lemma length_be64 [simp]: "length (be64 n) = 8"
  by (simp add: be64_def)

lemma be64_inject:
  assumes "n \<le> U64_MAX" "m \<le> U64_MAX" "be64 n = be64 m" shows "n = m"
proof -
  have digits: "n div 256 ^ k mod 256 = m div 256 ^ k mod 256" if "k < 8" for k
  proof -
    from assms(3) have "map (\<lambda>k. char_of (n div 256 ^ k) :: char) (rev [0..<8])
      = map (\<lambda>k. char_of (m div 256 ^ k)) (rev [0..<8])" by (simp add: be64_def)
    then have "(char_of (n div 256 ^ k) :: char) = char_of (m div 256 ^ k)" using that by auto
    then have "byte (char_of (n div 256 ^ k)) = byte (char_of (m div 256 ^ k))" by simp
    then show ?thesis by simp
  qed
  have "n mod 256 ^ k = m mod 256 ^ k" if "k \<le> 8" for k
    using that
  proof (induction k)
    case (Suc k)
    have "x mod 256 ^ Suc k = 256 ^ k * (x div 256 ^ k mod 256) + x mod 256 ^ k" for x :: nat
      by (simp only: power_Suc2 mod_mult2_eq)
    with Suc digits [of k] show ?case by simp
  qed simp
  from this [of 8] show ?thesis using assms(1,2) by simp
qed

text \<open>The bytes of one untracked file, and the part of its metadata they stand for.\<close>

definition file_bytes :: "UntrackedFile \<Rightarrow> string" where
  "file_bytes f = path_str (untracked_path f) @ [NUL] @ fingerprint_str (untracked_fingerprint f) @
    be64 (untracked_byte_len f)"

definition file_key :: "UntrackedFile \<Rightarrow> StoredPath \<times> ContentFingerprint \<times> nat" where
  "file_key f = (untracked_path f, untracked_fingerprint f, untracked_byte_len f)"

definition hashed_file :: "UntrackedFile \<Rightarrow> bool" where
  "hashed_file f \<longleftrightarrow> NUL \<notin> set (path_str (untracked_path f))
    \<and> length (fingerprint_str (untracked_fingerprint f)) = 64 \<and> untracked_byte_len f \<le> U64_MAX"

lemma file_bytes_inject:
  assumes "hashed_file f" "hashed_file g" "file_bytes f @ s = file_bytes g @ t"
  shows "file_key f = file_key g \<and> s = t"
proof -
  from assms(3) have "path_str (untracked_path f) @ NUL #
      (fingerprint_str (untracked_fingerprint f) @ be64 (untracked_byte_len f) @ s)
    = path_str (untracked_path g) @ NUL #
      (fingerprint_str (untracked_fingerprint g) @ be64 (untracked_byte_len g) @ t)"
    by (simp add: file_bytes_def)
  then have "path_str (untracked_path f) = path_str (untracked_path g)"
    and rest: "fingerprint_str (untracked_fingerprint f) @ be64 (untracked_byte_len f) @ s
      = fingerprint_str (untracked_fingerprint g) @ be64 (untracked_byte_len g) @ t"
    using assms(1,2) split_once_app [of NUL "path_str (untracked_path f)"]
      split_once_app [of NUL "path_str (untracked_path g)"]
    unfolding hashed_file_def by (metis option.inject prod.inject)+
  moreover from rest have "fingerprint_str (untracked_fingerprint f) = fingerprint_str (untracked_fingerprint g)"
    "be64 (untracked_byte_len f) = be64 (untracked_byte_len g)" "s = t"
    using assms(1,2) by (auto simp: hashed_file_def)
  ultimately show ?thesis
    using assms(1,2) be64_inject by (simp add: file_key_def hashed_file_def StoredPath.expand
      ContentFingerprint.expand)
qed

lemma files_bytes_inject:
  assumes "\<forall>f\<in>set fs. hashed_file f" "\<forall>g\<in>set gs. hashed_file g"
    "concat (map file_bytes fs) = concat (map file_bytes gs)"
  shows "map file_key fs = map file_key gs"
  using assms
proof (induction fs arbitrary: gs)
  case Nil
  then show ?case by (cases gs) (auto simp: file_bytes_def)
next
  case (Cons f fs)
  then obtain g gs' where gs: "gs = g # gs'" by (cases gs) (auto simp: file_bytes_def)
  with Cons.prems have "file_key f = file_key g \<and> concat (map file_bytes fs) = concat (map file_bytes gs')"
    by (intro file_bytes_inject) auto
  with Cons gs show ?case by simp
qed

text \<open>The bytes the working-tree fingerprint hashes determine the patch and, up to the
  order they were listed in, the path, content hash and length of every untracked file: two
  captures that differ in any of these hash different bytes.\<close>

theorem snapshot_bytes_determine_content:
  assumes "snapshot_bytes patch files = snapshot_bytes patch' files'"
    "length patch \<le> U64_MAX" "length patch' \<le> U64_MAX"
    "\<forall>f\<in>set files. hashed_file f" "\<forall>f\<in>set files'. hashed_file f"
  shows "patch = patch' \<and> mset (map file_key files) = mset (map file_key files')"
proof -
  have bytes: "snapshot_bytes p fs = be64 (length p) @ p @ concat (map file_bytes (sort_key untracked_path fs))"
    for p fs by (simp add: snapshot_bytes_def file_bytes_def [abs_def])
  from assms(1) have "be64 (length patch) = be64 (length patch')" by (simp add: bytes)
  with assms(2,3) have len: "length patch = length patch'" using be64_inject by blast
  with assms(1) have "patch = patch'"
    and "concat (map file_bytes (sort_key untracked_path files))
      = concat (map file_bytes (sort_key untracked_path files'))" by (auto simp: bytes)
  then have "map file_key (sort_key untracked_path files) = map file_key (sort_key untracked_path files')"
    using assms(4,5) by (intro files_bytes_inject) auto
  then have "mset (map file_key (sort_key untracked_path files))
    = mset (map file_key (sort_key untracked_path files'))" by (rule arg_cong)
  with \<open>patch = patch'\<close> show ?thesis by simp
qed

lemma snapshot_bytes_witness:
  "''abc'' = ''abc'' \<and> mset (map file_key
      [\<lparr>untracked_path = StoredPath ''b'', untracked_fingerprint = ContentFingerprint (replicate 64 CHR ''0''),
        untracked_byte_len = 3, untracked_binary = False\<rparr>,
       \<lparr>untracked_path = StoredPath ''a'', untracked_fingerprint = ContentFingerprint (replicate 64 CHR ''1''),
        untracked_byte_len = 4, untracked_binary = False\<rparr>])
    = mset (map file_key
      [\<lparr>untracked_path = StoredPath ''a'', untracked_fingerprint = ContentFingerprint (replicate 64 CHR ''1''),
        untracked_byte_len = 4, untracked_binary = True\<rparr>,
       \<lparr>untracked_path = StoredPath ''b'', untracked_fingerprint = ContentFingerprint (replicate 64 CHR ''0''),
        untracked_byte_len = 3, untracked_binary = False\<rparr>])"
  (is "_ \<and> mset (map file_key ?fs) = mset (map file_key ?gs)")
proof (rule snapshot_bytes_determine_content)
  show "snapshot_bytes ''abc'' ?fs = snapshot_bytes ''abc'' ?gs" by code_simp
  have "list_all hashed_file ?fs" "list_all hashed_file ?gs" by code_simp+
  then show "\<forall>f\<in>set ?fs. hashed_file f" "\<forall>f\<in>set ?gs. hashed_file f" by (simp_all only: list_all_iff)
qed simp_all

section \<open>Concrete repositories\<close>

text \<open>A repository whose Git answers \<open>rev-parse\<close> with one commit and everything else with
  nothing, and one whose patches differ each time Git runs.\<close>

definition quiet_answer :: "string list \<Rightarrow> GitOutput" where
  "quiet_answer args =
    \<lparr>output_success = True,
     output_stdout = (if take 1 args = [''rev-parse''] then ''0123456789'' @ [NL] else []),
     output_stderr = []\<rparr>"

definition quiet_repository :: "unit GitRepository" where
  "quiet_repository = \<lparr>repo_root = ''/repo'', repo_env =
    \<lparr>env_execute = (\<lambda>c w. (Inr (quiet_answer (command_arguments c)), w)),
     env_symlink_metadata = (\<lambda>_ w. (Inl FileNotFound, w)),
     env_read = (\<lambda>_ w. (Inl FileNotFound, w)),
     env_now = (\<lambda>w. (0, w)), env_blake3 = (\<lambda>_. replicate 64 CHR ''0'')\<rparr>\<rparr>"

definition restless_repository :: "nat GitRepository" where
  "restless_repository = \<lparr>repo_root = ''/repo'', repo_env =
    \<lparr>env_execute = (\<lambda>c w. (Inr (if take 2 (command_arguments c) = [''diff'', ''--binary'']
        then (quiet_answer [])\<lparr>output_stdout := show_nat w\<rparr> else quiet_answer (command_arguments c)), w + 1)),
     env_symlink_metadata = (\<lambda>_ w. (Inl FileNotFound, w)),
     env_read = (\<lambda>_ w. (Inl FileNotFound, w)),
     env_now = (\<lambda>w. (0, w)), env_blake3 = (\<lambda>_. replicate 64 CHR ''0'')\<rparr>\<rparr>"

definition sample_resolved :: ResolvedLocalComparison where
  "sample_resolved = \<lparr>resolved_repository_id = RepositoryId 1, resolved_comparison_id = ComparisonId 2,
    resolved_requested_base = BaseReference ''main'', resolved_base_tip_sha = GitSha ''0123456'',
    resolved_merge_base_sha = GitSha ''0123456'', resolved_head_sha = GitSha ''0123456789'',
    resolved_head = Branch ''topic'', resolved_options = \<lparr>ignore_all_whitespace = False,
      ignore_space_at_eol = False, ignore_cr_at_eol = False, path_filters = []\<rparr>\<rparr>"

definition nothing_seen :: observation where
  "nothing_seen = \<lparr>seen_status = [], seen_untracked = [], seen_committed = [], seen_staged = [],
    seen_unstaged = [], seen_working_tree = [], seen_tracked = []\<rparr>"

lemma capture_succeeds_at_rest_witness:
  "capture_local_comparison quiet_repository sample_resolved () =
    (Inr (capture_of (env_blake3 (repo_env quiet_repository)) sample_resolved 0 nothing_seen), ())"
proof -
  have "at_rest quiet_repository ()"
    by (simp add: at_rest_def)
  moreover have "observe quiet_repository sample_resolved () = (Inr nothing_seen, ())"
    by code_simp
  moreover have "require_success quiet_repository head_arguments () = (Inr (quiet_answer head_arguments), ())"
    by code_simp
  moreover have "stdout_trimmed (quiet_answer head_arguments) = sha_str (resolved_head_sha sample_resolved)"
    by code_simp
  moreover have "fst (env_now (repo_env quiet_repository) ()) = 0" by (simp add: quiet_repository_def)
  ultimately show ?thesis
    using capture_succeeds_at_rest [of quiet_repository "()" sample_resolved nothing_seen] by simp
qed

lemma capture_is_coherent_witness:
  "\<exists>w1 w2 now w3 out w4. observe quiet_repository sample_resolved w1 = (Inr nothing_seen, w2)
    \<and> env_now (repo_env quiet_repository) w2 = (now, w3)
    \<and> require_success quiet_repository head_arguments w3 = (Inr out, w4)
    \<and> observe quiet_repository sample_resolved w4 = (Inr nothing_seen, ())"
proof -
  have c: "capture_local_comparison quiet_repository sample_resolved () =
    (Inr (capture_of (env_blake3 (repo_env quiet_repository)) sample_resolved 0 nothing_seen), ())"
    by code_simp
  show ?thesis using capture_is_coherent [OF c] unfolding observation_of_capture by blast
qed

lemma unstable_repository_gives_up_witness:
  "fst (capture_local_comparison restless_repository sample_resolved 0) = Inl (ConcurrentModification 3)"
proof (rule unstable_repository_gives_up)
  fix v :: nat
  have run: "require_success restless_repository args w =
      (Inr (if take 2 args = [''diff'', ''--binary'']
        then (quiet_answer [])\<lparr>output_stdout := show_nat w\<rparr> else quiet_answer args), w + 1)" for args w
    by (simp add: require_success_def execute_def restless_repository_def GitCommand_new_def
      io_bind_def io_return_def quiet_answer_def)
  have status: "status restless_repository w = (Inr [], w + 1)" for w
    by (simp add: status_def run status_arguments_def io_bind_def io_return_def quiet_answer_def
      parse_porcelain_v1_z_def nul_fields_def)
  have tracked: "capture_tracked_files restless_repository b opts w = (Inr [], w + 1)" for b opts w
    by (simp add: capture_tracked_files_def run raw_arguments_def io_bind_def io_return_def
      quiet_answer_def parse_raw_diff_z_def nul_fields_def)
  have diff: "diff_bytes restless_repository revs opts w = (Inr (show_nat w), w + 1)" for revs opts w
    by (simp add: diff_bytes_def run diff_arguments_def io_bind_def io_return_def)
  have differ: "show_nat m = show_nat n \<longleftrightarrow> m = n" for m n
    by (metis digits_value_show_nat)
  have head: "stdout_trimmed (quiet_answer head_arguments) = sha_str (resolved_head_sha sample_resolved)"
    by code_simp
  show "\<exists>c v'. capture_local_comparison_once restless_repository sample_resolved v = (Inr c, v')
      \<and> (\<exists>v''. capture_still_current restless_repository sample_resolved c v' = (Inr False, v''))"
    using head
    by (simp add: capture_local_comparison_once_def capture_still_current_def Let_def untracked_paths_def
      status tracked diff run with_now_def if_current_def differ io_bind_def io_return_def
      head_arguments_def restless_repository_def [THEN arg_cong, of "\<lambda>r. env_now (repo_env r)"])
qed

end
