(* ===== verification/Git_Metadata_Props.thy ===== *)
theory Git_Metadata_Props
  imports Git_Metadata
begin

text \<open>
  What the metadata parsers of \<open>Git_Metadata\<close> read back: the blame entries and the commit
  records Git writes, and the two spellings of a clone URL.  The writers (\<open>blame_entry\<close>,
  \<open>commit_stream\<close>) are the documented output formats for the options the code passes.
\<close>

section \<open>Remote URLs\<close>

lemma graphic_no_whitespace: "list_all is_graphic s \<Longrightarrow> \<not> any_whitespace s"
  by (induction s) (simp_all add: ws_len_graphic)

definition url_part :: "string \<Rightarrow> bool" where
  "url_part s \<longleftrightarrow> s \<noteq> [] \<and>
    list_all (\<lambda>c. is_alnum c \<or> c = CHR ''-'' \<or> c = CHR ''_'') s"

lemma url_part_graphic: "url_part s \<Longrightarrow> list_all is_graphic s"
  by (auto simp: url_part_def list_all_iff is_graphic_def is_alnum_def is_digit_def
    is_ascii_lower_def is_ascii_upper_def)

lemma url_part_chars:
  "url_part s \<Longrightarrow> c \<in> set s \<Longrightarrow> c \<noteq> CHR ''/'' \<and> c \<noteq> CHR '':'' \<and> c \<noteq> CHR 0x40 \<and> c \<noteq> CHR ''.''"
  by (auto simp: url_part_def list_all_iff is_alnum_def is_digit_def
    is_ascii_lower_def is_ascii_upper_def)

text \<open>A clone URL whose repository name has no trailing slash and no \<open>.git\<close> is not
  shortened.\<close>

lemma url_trimmed:
  assumes "url_part repo" "list_all is_graphic prefix'"
  shows "trim_end_str ''.git'' (trim_end_char CHR ''/'' (trim (prefix' @ CHR ''/'' # repo)))
    = prefix' @ CHR ''/'' # repo"
proof -
  let ?s = "prefix' @ CHR ''/'' # repo"
  from assms(1) have r: "repo \<noteq> []" by (simp add: url_part_def)
  have "list_all is_graphic ?s" using assms url_part_graphic [of repo] by (simp add: is_graphic_def)
  then have t: "trim ?s = ?s" by (intro trim_no_whitespace graphic_no_whitespace)
  have "last ?s \<noteq> CHR ''/''" using r url_part_chars [OF assms(1)] by (simp add: last_in_set)
  then have u: "trim_end_char CHR ''/'' ?s = ?s" by (intro trim_end_char_id) simp
  have "\<not> suffix ''.git'' ?s"
  proof
    assume "suffix ''.git'' ?s"
    then obtain z where "?s = z @ ''.git''" by (auto simp: suffix_def)
    then have "(\<exists>us. repo = us @ ''.git'') \<or> (\<exists>us. ''.git'' = us @ CHR ''/'' # repo)"
      by (auto simp: append_eq_append_conv2 Cons_eq_append_conv append_eq_Cons_conv)
    moreover have "CHR ''.'' \<notin> set repo" "CHR ''/'' \<notin> set ''.git''"
      using url_part_chars [OF assms(1)] by auto
    ultimately show False by (metis in_set_conv_decomp list.set_intros(1) UnCI set_append)
  qed
  then have "trim_end_str ''.git'' ?s = ?s" by (simp add: trim_end_str.simps)
  with t u show ?thesis by simp
qed

lemma find_str_occurs: "find_str p s = Some n \<Longrightarrow> \<exists>a b. s = a @ p @ b"
proof (induction s arbitrary: n)
  case (Cons c s)
  show ?case
  proof (cases "prefix p (c # s)")
    case True
    then show ?thesis by (metis append_Nil prefixE)
  next
    case False
    with Cons obtain a b where "s = a @ p @ b" by auto
    then show ?thesis by (metis append_Cons)
  qed
qed (auto split: if_splits)

definition ssh_url :: "string \<Rightarrow> string \<Rightarrow> string \<Rightarrow> string" where
  "ssh_url host owner repo = ''git'' @ [CHR 0x40] @ host @ '':'' @ owner @ ''/'' @ repo"

definition https_url :: "string \<Rightarrow> string \<Rightarrow> string \<Rightarrow> string" where
  "https_url host owner repo = ''https://'' @ host @ ''/'' @ owner @ ''/'' @ repo"

text \<open>A host name: labels separated by dots.\<close>

definition host_name :: "string \<Rightarrow> bool" where
  "host_name s \<longleftrightarrow> s \<noteq> [] \<and>
    list_all (\<lambda>c. is_alnum c \<or> c = CHR ''-'' \<or> c = CHR ''.'') s"

lemma host_name_chars:
  "host_name s \<Longrightarrow> c \<in> set s \<Longrightarrow> is_graphic c \<and> c \<noteq> CHR ''/'' \<and> c \<noteq> CHR '':'' \<and> c \<noteq> CHR 0x40"
  by (auto simp: host_name_def list_all_iff is_graphic_def is_alnum_def is_digit_def
    is_ascii_lower_def is_ascii_upper_def)

lemma lower_graphic_no_slash:
  "host_name s \<Longrightarrow> CHR ''/'' \<notin> set s" "host_name s \<Longrightarrow> CHR '':'' \<notin> set s"
  "host_name s \<Longrightarrow> CHR 0x40 \<notin> set s"
  using host_name_chars by blast+

lemma url_part_no_special:
  "url_part s \<Longrightarrow> CHR ''/'' \<notin> set s" "url_part s \<Longrightarrow> CHR '':'' \<notin> set s"
  "url_part s \<Longrightarrow> CHR 0x40 \<notin> set s"
  using url_part_chars by blast+

lemmas url_chars = lower_graphic_no_slash url_part_no_special

lemma normalize_ssh_url:
  assumes "host_name host" "url_part owner" "url_part repo"
  shows "normalize_remote_url (ssh_url host owner repo) =
    to_ascii_lowercase host @ ''/'' @ owner @ ''/'' @ repo"
proof -
  let ?s = "ssh_url host owner repo"
  have trimmed: "trim_end_str ''.git'' (trim_end_char CHR ''/'' (trim ?s)) = ?s"
    using url_trimmed [of repo "''git'' @ [CHR 0x40] @ host @ '':'' @ owner"] assms
      host_name_chars [OF assms(1)] url_part_graphic [OF assms(2)]
    by (auto simp: ssh_url_def list_all_iff is_graphic_def)
  have "find_str ''://'' ?s = None"
  proof (rule ccontr)
    assume "find_str ''://'' ?s \<noteq> None"
    then obtain a b where "?s = a @ ''://'' @ b" using find_str_occurs by blast
    then have "(''git'' @ [CHR 0x40] @ host) @ CHR '':'' # (owner @ ''/'' @ repo)
        = a @ CHR '':'' # (''//'' @ b)" by (simp add: ssh_url_def)
    then have "owner @ ''/'' @ repo = ''//'' @ b"
      by (subst (asm) append_Cons_eq_iff) (use assms url_chars in auto)
    then show False using assms(2) url_chars(4) [of owner] by (cases owner) (auto simp: url_part_def)
  qed
  then have scheme: "split_once_str ''://'' ?s = None" by (simp add: split_once_str_def)
  have user: "strip_prefix (''git'' @ [CHR 0x40]) ?s = Some (host @ '':'' @ owner @ ''/'' @ repo)"
    by (simp add: ssh_url_def)
  have at: "rsplit_once CHR 0x40 (host @ '':'' @ owner @ ''/'' @ repo) = None"
    using assms url_chars by (auto simp: rsplit_once_def split_once_eq_None)
  have colon: "split_once CHR '':'' (host @ '':'' @ owner @ ''/'' @ repo) = Some (host, owner @ ''/'' @ repo)"
    using assms url_chars by simp
  have slash: "split_once CHR ''/'' (host @ ''/'' @ owner @ ''/'' @ repo) = Some (host, owner @ ''/'' @ repo)"
    using assms url_chars by simp
  show ?thesis
    unfolding normalize_remote_url_def Let_def trimmed scheme option.case user at colon prod.case
    by (simp only: slash option.case prod.case)
qed

lemma normalize_https_url:
  assumes "host_name host" "url_part owner" "url_part repo"
  shows "normalize_remote_url (https_url host owner repo) =
    ''https///'' @ host @ ''/'' @ owner @ ''/'' @ repo"
proof -
  let ?s = "https_url host owner repo"
  have trimmed: "trim_end_str ''.git'' (trim_end_char CHR ''/'' (trim ?s)) = ?s"
    using url_trimmed [of repo "''https://'' @ host @ ''/'' @ owner"] assms
      host_name_chars [OF assms(1)] url_part_graphic [OF assms(2)]
    by (auto simp: https_url_def list_all_iff is_graphic_def)
  have scheme: "split_once_str ''://'' ?s = Some (''https'', host @ ''/'' @ owner @ ''/'' @ repo)"
    by (simp add: split_once_str_def https_url_def)
  have user: "strip_prefix (''git'' @ [CHR 0x40]) (host @ ''/'' @ owner @ ''/'' @ repo) = None"
  proof (rule ccontr)
    assume "strip_prefix (''git'' @ [CHR 0x40]) (host @ ''/'' @ owner @ ''/'' @ repo) \<noteq> None"
    then obtain t where "host @ ''/'' @ owner @ ''/'' @ repo = ''git'' @ [CHR 0x40] @ t" by auto
    then have "CHR 0x40 \<in> set (host @ ''/'' @ owner @ ''/'' @ repo)" by simp
    then show False using assms url_chars by auto
  qed
  have at: "rsplit_once CHR 0x40 ?s = None"
    using assms url_chars by (auto simp: rsplit_once_def split_once_eq_None https_url_def)
  have colon: "split_once CHR '':'' ?s = Some (''https'', ''//'' @ host @ ''/'' @ owner @ ''/'' @ repo)"
    by (simp add: https_url_def)
  have slash: "split_once CHR ''/'' (''https'' @ ''/'' @ ''//'' @ host @ ''/'' @ owner @ ''/'' @ repo)
      = Some (''https'', ''//'' @ host @ ''/'' @ owner @ ''/'' @ repo)" by simp
  have lower: "to_ascii_lowercase ''https'' = ''https''" by code_simp
  show ?thesis
    unfolding normalize_remote_url_def Let_def trimmed scheme option.case prod.case user at colon
    by (simp only: slash option.case prod.case lower) simp
qed

lemma ascii_lower_slash: "ascii_lower c = CHR ''/'' \<Longrightarrow> c = CHR ''/''"
proof (cases "is_ascii_upper c")
  case True
  moreover assume "ascii_lower c = CHR ''/''"
  ultimately have "byte (char_of (byte c + 32)) = byte CHR ''/''" by (simp add: ascii_lower_def)
  with True show ?thesis by (simp add: is_ascii_upper_def)
qed (simp add: ascii_lower_def)

lemma lower_no_slash: "CHR ''/'' \<notin> set s \<Longrightarrow> CHR ''/'' \<notin> set (to_ascii_lowercase s)"
  by (auto simp: to_ascii_lowercase_def dest: ascii_lower_slash [OF sym])

text \<open>The normal form of a clone URL is meant to be one name per repository, whatever
  the spelling of the URL; for the plain \<open>https\<close> URL of a repository it differs from that
  of its SSH URL, so two clones of one repository are not recognised as equivalent.\<close>

theorem https_and_ssh_clones_differ:
  assumes "host_name host" "url_part owner" "url_part repo"
  shows "normalize_remote_url (https_url host owner repo)
    \<noteq> normalize_remote_url (ssh_url host owner repo)"
proof
  assume "normalize_remote_url (https_url host owner repo)
    = normalize_remote_url (ssh_url host owner repo)"
  then have "(''https///'' @ host) @ ''/'' @ owner @ ''/'' @ repo
      = to_ascii_lowercase host @ ''/'' @ owner @ ''/'' @ repo"
    using normalize_ssh_url [OF assms] normalize_https_url [OF assms] by simp
  then have "''https///'' @ host = to_ascii_lowercase host" by (simp only: append_same_eq)
  moreover have "CHR ''/'' \<in> set (''https///'' @ host)" by simp
  ultimately show False using lower_no_slash url_chars(1) [OF assms(1)] by simp
qed

lemma https_and_ssh_clones_differ_witness:
  "normalize_remote_url (https_url ''github.com'' ''octo'' ''app'')
    \<noteq> normalize_remote_url (ssh_url ''github.com'' ''octo'' ''app'')"
  by (rule https_and_ssh_clones_differ) code_simp+

section \<open>Blame entries\<close>

definition sha_text :: "string \<Rightarrow> bool" where
  "sha_text s \<longleftrightarrow> 7 \<le> length s \<and> length s \<le> 64 \<and> list_all is_hexdigit s \<and> to_ascii_lowercase s = s"

lemma hexdigit_graphic: "is_hexdigit c \<Longrightarrow> is_graphic c \<and> c \<noteq> CHR ''^''"
  by (auto simp: is_hexdigit_def is_digit_def is_graphic_def)

lemma sha_text_ok:
  assumes "sha_text s"
  shows "GitSha_new s = Inr (GitSha s)" "graphic_word s" "strip_prefix ''^'' s = None"
    "list_all is_graphic s"
proof -
  show "GitSha_new s = Inr (GitSha s)" using assms by (simp add: GitSha_new_def sha_text_def)
  from assms obtain c r where s: "s = c # r" "is_hexdigit c" by (cases s) (auto simp: sha_text_def)
  then show "strip_prefix ''^'' s = None" using hexdigit_graphic by (auto simp: strip_prefix_def)
  show "list_all is_graphic s"
    using assms hexdigit_graphic by (auto simp: sha_text_def list_all_iff)
  then show "graphic_word s" using s by (simp add: graphic_word_def)
qed

lemma show_nat_graphic: "graphic_word (show_nat n)"
proof -
  have "is_graphic c" if "c \<in> set (show_nat n)" for c
    using show_nat_digits [OF that] by (simp add: is_graphic_def is_digit_def)
  then show ?thesis by (simp add: graphic_word_def list_all_iff)
qed

text \<open>A metadata key is not an object name.\<close>

definition meta_key :: "string \<Rightarrow> bool" where
  "meta_key k \<longleftrightarrow> graphic_word k \<and> strip_prefix ''^'' k = None \<and> GitSha_new k = Inl InvalidGitSha"

definition meta_line :: "string \<times> string \<Rightarrow> string" where
  "meta_line kv = fst kv @ CHR '' '' # snd kv"

lemma graphic_word_space: "graphic_word k \<Longrightarrow> CHR '' '' \<notin> set k"
  by (auto simp: graphic_word_def list_all_iff is_graphic_def)

lemma blame_meta_line:
  assumes "meta_key k"
  shows "blame_line requested (Some e) (meta_line (k, v)) = Inr (Some (blame_metadata k v e), [])"
proof -
  from assms have g: "graphic_word k" by (simp add: meta_key_def)
  then obtain c r where k: "k = c # r" "is_graphic c" by (cases k) (auto simp: graphic_word_def)
  then have t: "hd (meta_line (k, v)) \<noteq> TAB" by (auto simp: meta_line_def is_graphic_def)
  have "parse_blame_header (meta_line (k, v)) = Inr None"
    using assms split_whitespace_Cons [OF g, of v] by (simp add: parse_blame_header_def meta_line_def meta_key_def)
  moreover have "split_once CHR '' '' (meta_line (k, v)) = Some (k, v)"
    using graphic_word_space [OF g] by (simp add: meta_line_def)
  ultimately show ?thesis using t by (simp add: blame_line_def ok_or_def)
qed

lemma rbind_Inr_id [simp]: "rbind m Inr = m"
  by (cases m) simp_all

lemma blame_meta_lines:
  assumes "\<forall>kv\<in>set kvs. meta_key (fst kv)"
  shows "blame_loop requested (Some e) (map meta_line kvs @ rest) =
    blame_loop requested (Some (fold (\<lambda>kv. blame_metadata (fst kv) (snd kv)) kvs e)) rest"
  using assms
proof (induction kvs arbitrary: e)
  case (Cons kv kvs)
  have "meta_line kv \<noteq> []" by (simp add: meta_line_def)
  with Cons show ?case
    using blame_meta_line [of "fst kv" requested e "snd kv"] by simp
qed simp

definition blame_header :: "string list \<Rightarrow> GitBlameLine \<Rightarrow> string" where
  "blame_header count x =
    join_on CHR '' '' ([sha_str (blame_revision x), show_nat (blame_original_line x),
      show_nat (blame_final_line x)] @ count)"

definition blame_meta :: "(string \<times> string) list \<Rightarrow> GitBlameLine \<Rightarrow> (string \<times> string) list" where
  "blame_meta others x =
    [(''author'', blame_author_name x), (''author-mail'', ''<'' @ blame_author_email x @ ''>''),
     (''author-time'', blame_author_time x)] @ others @
    [(''summary'', blame_summary x), (''filename'', git_quote (path_str (blame_source_path x)))]"

definition blame_entry :: "string list \<Rightarrow> (string \<times> string) list \<Rightarrow> GitBlameLine \<Rightarrow> string list" where
  "blame_entry count others x =
    blame_header count x # map meta_line (blame_meta others x) @ [TAB # blame_source x]"

definition blame_others_ok :: "(string \<times> string) list \<Rightarrow> bool" where
  "blame_others_ok others \<longleftrightarrow>
    (\<forall>kv\<in>set others. meta_key (fst kv) \<and> NL \<notin> set (snd kv)
      \<and> fst kv \<notin> {''author'', ''author-mail'', ''author-time'', ''summary'', ''filename''})"

definition line_text :: "string \<Rightarrow> bool" where
  "line_text s \<longleftrightarrow> is_utf8 s \<and> NL \<notin> set s"

definition wf_blame :: "GitBlameLine \<Rightarrow> bool" where
  "wf_blame x \<longleftrightarrow>
    sha_text (sha_str (blame_revision x))
    \<and> blame_original_line x \<le> U32_MAX \<and> blame_final_line x \<le> U32_MAX
    \<and> line_text (blame_author_name x) \<and> line_text (blame_author_time x) \<and> line_text (blame_summary x)
    \<and> line_text (blame_author_email x)
    \<and> (blame_author_email x = [] \<or>
       hd (blame_author_email x) \<noteq> CHR ''<'' \<and> last (blame_author_email x) \<noteq> CHR ''>'')
    \<and> is_utf8 (path_str (blame_source_path x)) \<and> CHR 0x0B \<notin> set (path_str (blame_source_path x))
    \<and> line_text (blame_source x) \<and> length (blame_source x) \<le> MAX_BLAME_SOURCE_LINE_BYTES
    \<and> \<not> blame_source_truncated x"

lemma blame_header_line:
  assumes "wf_blame x" "\<forall>w\<in>set count. graphic_word w"
  shows "blame_line requested None (blame_header count x) =
    Inr (Some (ParsedBlameLine_default\<lparr>parsed_revision := Some (blame_revision x),
      parsed_original_line := Some (blame_original_line x),
      parsed_final_line := Some (blame_final_line x)\<rparr>), [])"
    and "blame_header count x \<noteq> []"
proof -
  define ws where "ws = [sha_str (blame_revision x), show_nat (blame_original_line x),
      show_nat (blame_final_line x)] @ count"
  have h: "blame_header count x = join_on CHR '' '' ws" by (simp add: blame_header_def ws_def)
  from assms have sha: "sha_text (sha_str (blame_revision x))" by (simp add: wf_blame_def)
  have ws: "\<forall>w\<in>set ws. graphic_word w"
    using assms(2) sha_text_ok(2) [OF sha] show_nat_graphic by (auto simp: ws_def)
  obtain c r where c: "sha_str (blame_revision x) = c # r" "is_graphic c"
    using sha_text_ok(2) [OF sha] by (cases "sha_str (blame_revision x)") (auto simp: graphic_word_def)
  then have hd: "hd (blame_header count x) \<noteq> TAB" "blame_header count x \<noteq> []"
    by (auto simp: blame_header_def is_graphic_def)
  then show "blame_header count x \<noteq> []" by blast
  have "split_whitespace (blame_header count x) = ws"
    unfolding h by (rule split_whitespace_join [OF ws])
  moreover have "is_utf8 (blame_header count x)" unfolding h by (rule graphic_words_line [OF ws])
  ultimately have "parse_blame_header (blame_header count x) =
    Inr (Some (ParsedBlameLine_default\<lparr>parsed_revision := Some (blame_revision x),
      parsed_original_line := Some (blame_original_line x),
      parsed_final_line := Some (blame_final_line x)\<rparr>))"
    using assms sha_text_ok [OF sha] by (simp add: parse_blame_header_def ws_def wf_blame_def ok_or_def)
  with hd show "blame_line requested None (blame_header count x) =
    Inr (Some (ParsedBlameLine_default\<lparr>parsed_revision := Some (blame_revision x),
      parsed_original_line := Some (blame_original_line x),
      parsed_final_line := Some (blame_final_line x)\<rparr>), [])"
    by (simp add: blame_line_def)
qed

lemma take_ranges_append: "take_ranges rs s = (t, True) \<Longrightarrow> take_ranges rs (s @ u) = (t, True)"
  by (induction rs s arbitrary: t rule: take_ranges.induct) (auto split: if_splits prod.splits)

lemma is_utf8_append: "is_utf8 s \<Longrightarrow> is_utf8 u \<Longrightarrow> is_utf8 (s @ u)"
proof (induction s rule: is_utf8.induct)
  case (2 c s)
  then obtain rs t where *: "utf8_tail c = Some rs" "take_ranges rs s = (t, True)"
      "is_utf8 (drop (length t) s)"
    by (auto split: option.splits prod.splits)
  moreover have "drop (length t) (s @ u) = drop (length t) s @ u"
    using take_ranges_prefix [OF *(2)] by (metis append_eq_conv_conj append_take_drop_id append_assoc)
  ultimately show ?case using 2 take_ranges_append [OF *(2)] by simp
qed simp

lemma list_all_if:
  "(b \<Longrightarrow> list_all P x) \<Longrightarrow> (\<not> b \<Longrightarrow> list_all P y) \<Longrightarrow> list_all P (if b then x else y)"
  by simp

definition printable :: "char \<Rightarrow> bool" where
  "printable d = (32 \<le> byte d \<and> byte d \<le> 126)"

lemma plain_printable: "\<not> needs_quote c \<Longrightarrow> printable c"
  by (auto simp: needs_quote_def printable_def)

lemma quote_char_printable: "list_all printable (quote_char c)"
proof -
  have "byte c < 8 ^ 3" by (rule less_trans [of _ 256]) simp_all
  from octal_digits_props [OF this] have "list_all is_octal (octal_digits 3 (byte c))" by blast
  then have o: "list_all printable (octal_digits 3 (byte c))"
    by (rule list.pred_mono_strong) (simp add: is_octal_def printable_def)
  note p = plain_printable [of c]
  have b: "printable BACKSLASH" "printable QUOTE" "list_all printable ''abtnvfr''" by code_simp+
  show ?thesis
    unfolding quote_char_def
    by (intro list_all_if) (use o p b in \<open>auto simp only: list.pred_inject simp_thms\<close>)
qed

lemma git_quote_printable: "list_all printable (git_quote p)"
proof (cases "list_ex needs_quote p")
  case True
  have "list_all printable (concat (map quote_char p))"
    by (induction p) (simp_all add: quote_char_printable)
  moreover have "printable QUOTE" by code_simp
  ultimately show ?thesis using True by (simp add: git_quote_def)
next
  case False
  then have "list_all printable p" using plain_printable by (auto simp: list_ex_iff list_all_iff)
  with False show ?thesis by (simp add: git_quote_def)
qed

lemma git_quote_text: "line_text (git_quote p)"
proof -
  have *: "32 \<le> byte d \<and> byte d \<le> 126" if "d \<in> set (git_quote p)" for d
    using that git_quote_printable [of p] by (simp add: list_all_iff printable_def)
  have "is_utf8 (git_quote p)" by (rule is_utf8_ascii) (use * in force)
  moreover have "NL \<notin> set (git_quote p)" using * [of NL] by auto
  ultimately show ?thesis by (simp add: line_text_def)
qed

lemma blame_keys: "meta_key ''author''" "meta_key ''author-mail''" "meta_key ''author-time''"
  "meta_key ''summary''" "meta_key ''filename''"
  by code_simp+

lemma fold_others:
  "blame_others_ok others \<Longrightarrow> fold (\<lambda>kv. blame_metadata (fst kv) (snd kv)) others e = e"
  by (induction others) (auto simp: blame_others_ok_def blame_metadata_def)

lemma trim_mail:
  assumes "m = [] \<or> hd m \<noteq> CHR ''<'' \<and> last m \<noteq> CHR ''>''"
  shows "trim_end_char CHR ''>'' (trim_start_char CHR ''<'' (CHR ''<'' # m @ ''>'')) = m"
proof (cases m)
  case Nil
  then show ?thesis by (simp add: trim_end_char_def trim_start_char_def)
next
  case (Cons c r)
  with assms have "trim_start_char CHR ''<'' (CHR ''<'' # m @ ''>'') = m @ ''>''"
    by (simp add: trim_start_char_def)
  moreover have "trim_end_char CHR ''>'' (m @ ''>'') = trim_end_char CHR ''>'' m"
    by (simp add: trim_end_char_def)
  ultimately show ?thesis using assms Cons trim_end_char_id [of m] by simp
qed

definition filled_blame :: "GitBlameLine \<Rightarrow> ParsedBlameLine" where
  "filled_blame x =
    \<lparr>parsed_revision = Some (blame_revision x), parsed_original_line = Some (blame_original_line x),
     parsed_final_line = Some (blame_final_line x), parsed_source_path = Some (blame_source_path x),
     parsed_author_name = blame_author_name x, parsed_author_email = blame_author_email x,
     parsed_author_time = blame_author_time x, parsed_summary = blame_summary x\<rparr>"

lemma blame_meta_fold:
  assumes "wf_blame x" "blame_others_ok others"
  shows "fold (\<lambda>kv. blame_metadata (fst kv) (snd kv)) (blame_meta others x)
    (ParsedBlameLine_default\<lparr>parsed_revision := Some (blame_revision x),
      parsed_original_line := Some (blame_original_line x),
      parsed_final_line := Some (blame_final_line x)\<rparr>) = filled_blame x"
proof -
  have mail: "utf8_lossy (CHR ''<'' # blame_author_email x @ ''>'') = CHR ''<'' # blame_author_email x @ ''>''"
  proof (rule utf8_lossy_valid)
    have "is_utf8 ''<''" "is_utf8 ''>''" by code_simp+
    moreover have "is_utf8 (blame_author_email x)" using assms(1) by (simp add: wf_blame_def line_text_def)
    ultimately have "is_utf8 (''<'' @ blame_author_email x @ ''>'')" by (intro is_utf8_append)
    then show "is_utf8 (CHR ''<'' # blame_author_email x @ ''>'')" by (simp del: is_utf8.simps)
  qed
  have path: "decode_git_quoted_path (utf8_lossy (git_quote (path_str (blame_source_path x))))
      = blame_source_path x"
    using assms(1) git_quote_text [of "path_str (blame_source_path x)"]
      decode_git_quote [of "path_str (blame_source_path x)"]
    by (simp add: line_text_def wf_blame_def)
  show ?thesis
    using assms mail path trim_mail [of "blame_author_email x"]
    by (simp add: blame_meta_def fold_others blame_metadata_def wf_blame_def line_text_def
      filled_blame_def ParsedBlameLine_default_def)
qed

lemma blame_entry_read:
  assumes "wf_blame x" "blame_others_ok others" "\<forall>w\<in>set count. graphic_word w"
  shows "blame_loop requested None (blame_entry count others x @ rest) =
    rbind (blame_loop requested None rest) (\<lambda>xs. Inr (x # xs))"
proof -
  have keys: "\<forall>kv\<in>set (blame_meta others x). meta_key (fst kv)"
    using assms(2) blame_keys by (auto simp: blame_meta_def blame_others_ok_def)
  have src: "blame_line requested (Some (filled_blame x)) (TAB # blame_source x) = Inr (None, [x])"
    using assms(1)
    by (simp add: blame_line_def ok_or_def finish_blame_def filled_blame_def truncate_utf8_lossy_def
      wf_blame_def line_text_def)
  show ?thesis
    using blame_header_line(1) [OF assms(1,3), of requested] blame_header_line(2) [OF assms(1,3)] blame_meta_lines [OF keys]
      blame_meta_fold [OF assms(1,2)] src
    by (simp add: blame_entry_def)
qed

definition nl_lines :: "string list \<Rightarrow> string" where
  "nl_lines ls = concat (map (\<lambda>l. l @ [NL]) ls)"

lemma split_nl_lines: "\<forall>l\<in>set ls. NL \<notin> set l \<Longrightarrow> split_on NL (nl_lines ls @ s) = ls @ split_on NL s"
  by (induction ls) (simp_all add: nl_lines_def split_on_append)

lemma graphic_word_no_NL: "graphic_word k \<Longrightarrow> NL \<notin> set k"
  by (auto simp: graphic_word_def list_all_iff is_graphic_def)

lemma blame_entry_lines:
  assumes "wf_blame x" "blame_others_ok others" "\<forall>w\<in>set count. graphic_word w"
  shows "\<forall>l\<in>set (blame_entry count others x). NL \<notin> set l"
proof -
  have "sha_text (sha_str (blame_revision x))" using assms(1) by (simp add: wf_blame_def)
  then have "\<forall>w\<in>set ([sha_str (blame_revision x), show_nat (blame_original_line x),
      show_nat (blame_final_line x)] @ count). graphic_word w"
    using assms(3) sha_text_ok(2) show_nat_graphic by auto
  from graphic_words_line(3) [OF this] have "NL \<notin> set (blame_header count x)"
    by (simp add: blame_header_def)
  moreover have "NL \<notin> set (meta_line kv)" if "kv \<in> set (blame_meta others x)" for kv
  proof -
    have "meta_key (fst kv)" "NL \<notin> set (snd kv)"
      using that assms(1,2) blame_keys git_quote_text [of "path_str (blame_source_path x)"]
      by (auto simp: blame_meta_def blame_others_ok_def wf_blame_def line_text_def)
    then show ?thesis using graphic_word_no_NL by (auto simp: meta_line_def meta_key_def)
  qed
  ultimately show ?thesis using assms(1) by (auto simp: blame_entry_def wf_blame_def line_text_def)
qed

definition blame_entries_ok ::
  "(string list \<times> (string \<times> string) list \<times> GitBlameLine) list \<Rightarrow> bool" where
  "blame_entries_ok es \<longleftrightarrow>
    (\<forall>(count, others, x)\<in>set es. wf_blame x \<and> blame_others_ok others \<and> list_all graphic_word count)"

definition blame_stream :: "(string list \<times> (string \<times> string) list \<times> GitBlameLine) list \<Rightarrow> string list" where
  "blame_stream es = concat (map (\<lambda>(count, others, x). blame_entry count others x) es)"

lemma blame_stream_lines: "blame_entries_ok es \<Longrightarrow> \<forall>l\<in>set (blame_stream es). NL \<notin> set l"
  using blame_entry_lines
  by (fastforce simp: blame_entries_ok_def blame_stream_def list_all_iff split: prod.splits)

lemma blame_stream_read:
  "blame_entries_ok es \<Longrightarrow> blame_loop requested None (blame_stream es @ rest) =
    rbind (blame_loop requested None rest) (\<lambda>xs. Inr (map (\<lambda>(count, others, x). x) es @ xs))"
proof (induction es)
  case (Cons e es)
  obtain count others x where e: "e = (count, others, x)" by (cases e)
  with Cons show ?case
    using blame_entry_read [of x others count requested "blame_stream es @ rest"]
    by (cases "blame_loop requested None rest")
       (simp_all add: blame_entries_ok_def blame_stream_def list_all_iff)
qed (simp add: blame_stream_def)


definition sample_blame :: GitBlameLine where
  "sample_blame =
    \<lparr>blame_revision = GitSha ''0123456789abcdef0123456789abcdef01234567'', blame_original_line = 3,
     blame_final_line = 4, blame_source_path = StoredPath (''a'' @ [TAB] @ ''b''),
     blame_author_name = ''Ada Lovelace'', blame_author_email = ''ada'' @ [CHR 0x40] @ ''example.org'',
     blame_author_time = ''1700000000'', blame_summary = ''Fix the parser'',
     blame_source = ''  let x = 1;'', blame_source_truncated = False\<rparr>"


text \<open>Git writes the line \<open>boundary\<close>, without a value, in the entry of a line whose
  commit is a root or boundary commit; one such entry makes the whole blame fail.\<close>

theorem boundary_blame_rejected:
  assumes "blame_entries_ok es" "wf_blame x" "list_all graphic_word count"
    "list_all (\<lambda>kv. meta_key (fst kv) \<and> NL \<notin> set (snd kv)) before"
  shows "parse_blame_porcelain
      (nl_lines (blame_stream es @ blame_header count x # map meta_line before @ [''boundary'']) @ rest)
      requested = Inl (Parse ''blame metadata line was malformed'')"
proof -
  let ?ls = "blame_stream es @ blame_header count x # map meta_line before @ [''boundary'']"
  have c: "\<forall>w\<in>set count. graphic_word w" using assms(3) by (simp add: list_all_iff)
  have keys: "\<forall>kv\<in>set before. meta_key (fst kv)" using assms(4) by (simp add: list_all_iff)
  have "blame_others_ok []" by (simp add: blame_others_ok_def)
  from blame_entry_lines [OF assms(2) this c] have "NL \<notin> set (blame_header count x)"
    by (simp add: blame_entry_def)
  moreover have "\<forall>kv\<in>set before. NL \<notin> set (meta_line kv)"
    using assms(4) graphic_word_no_NL by (fastforce simp: list_all_iff meta_line_def meta_key_def)
  ultimately have "split_on NL (nl_lines ?ls @ rest) = ?ls @ split_on NL rest"
    using blame_stream_lines [OF assms(1)] by (intro split_nl_lines) auto
  moreover have "parse_blame_header ''boundary'' = Inr None" by code_simp
  then have "blame_line requested (Some e) ''boundary'' = Inl (Parse ''blame metadata line was malformed'')" for e
    by (simp add: blame_line_def ok_or_def)
  ultimately show ?thesis
    using blame_header_line [OF assms(2) c] blame_stream_read [OF assms(1)] blame_meta_lines [OF keys]
    by (simp add: parse_blame_porcelain_def)
qed

lemma boundary_blame_rejected_witness:
  "parse_blame_porcelain
      (nl_lines ([] @ blame_header [''1''] sample_blame # map meta_line [(''author'', ''Ada'')] @ [''boundary''])
        @ ''filename a'') (StoredPath ''a'')
    = Inl (Parse ''blame metadata line was malformed'')"
proof -
  have "blame_entries_ok []" "wf_blame sample_blame" "list_all graphic_word [''1'']"
    "list_all (\<lambda>kv. meta_key (fst kv) \<and> NL \<notin> set (snd kv)) [(''author'', ''Ada'')]"
    by code_simp+
  from boundary_blame_rejected [OF this, of "''filename a''" "StoredPath ''a''"]
  show ?thesis by (simp add: blame_stream_def)
qed

section \<open>Commits\<close>

definition commit_fields :: "GitCommitSummary \<Rightarrow> string list" where
  "commit_fields c =
    [sha_str (commit_sha c), join_on CHR '' '' (map sha_str (commit_parent_shas c)),
     commit_author_name c, commit_author_email c, commit_authored_at c, commit_subject c]"

text \<open>The output of \<open>git log -z\<close> with the format of \<open>commit_context\<close>: every field ends in a
  NUL, every record in a record separator, and \<open>-z\<close> adds a NUL after each record.\<close>

definition commit_body :: "GitCommitSummary \<Rightarrow> string" where
  "commit_body c = join_on NUL (commit_fields c)"

definition commit_stream :: "GitCommitSummary list \<Rightarrow> string" where
  "commit_stream cs = concat (map (\<lambda>c. commit_body c @ [NUL, RS, NUL]) cs)"

definition field_text :: "string \<Rightarrow> bool" where
  "field_text s \<longleftrightarrow> is_utf8 s \<and> NUL \<notin> set s \<and> RS \<notin> set s"

definition wf_commit :: "GitCommitSummary \<Rightarrow> bool" where
  "wf_commit c \<longleftrightarrow>
    sha_text (sha_str (commit_sha c)) \<and> list_all (\<lambda>p. sha_text (sha_str p)) (commit_parent_shas c)
    \<and> field_text (commit_author_name c) \<and> field_text (commit_author_email c)
    \<and> field_text (commit_authored_at c) \<and> field_text (commit_subject c)"

lemma sha_field_text: "sha_text s \<Longrightarrow> field_text s"
  using graphic_words_line [of "[s]"] sha_text_ok [of s] by (auto simp: field_text_def)

lemma parents_line:
  assumes "wf_commit c"
  shows "\<forall>w\<in>set (map sha_str (commit_parent_shas c)). graphic_word w"
  using assms sha_text_ok(2) by (auto simp: wf_commit_def list_all_iff)

lemma commit_fields_text:
  assumes "wf_commit c" shows "\<forall>f\<in>set (commit_fields c). field_text f"
  using assms sha_field_text graphic_words_line [OF parents_line [OF assms]]
  by (auto simp: commit_fields_def wf_commit_def field_text_def)

lemma parse_sha_text: "sha_text (sha_str p) \<Longrightarrow> parse_sha (sha_str p) = Inr p"
  using sha_text_ok(1) [of "sha_str p"] by (simp add: parse_sha_def map_err_def)

lemma try_map_map: "\<forall>x\<in>set xs. f (g x) = Inr x \<Longrightarrow> try_map f (map g xs) = Inr xs"
  by (induction xs) simp_all

lemma graphic_word_Cons: "graphic_word s \<Longrightarrow> \<exists>a r. s = a # r \<and> is_graphic a"
  by (cases s) (auto simp: graphic_word_def)

lemma commit_parents_read:
  assumes "wf_commit c"
  shows "parse_parent_shas (commit_fields c ! 1) = Inr (commit_parent_shas c)"
proof -
  note g = parents_line [OF assms]
  have "try_map parse_sha (map sha_str (commit_parent_shas c)) = Inr (commit_parent_shas c)"
    by (rule try_map_map) (use assms parse_sha_text in \<open>auto simp: wf_commit_def list_all_iff\<close>)
  then show ?thesis
    using graphic_words_line(1) [OF g] split_whitespace_join [OF g]
    by (simp add: parse_parent_shas_def commit_fields_def)
qed

lemma commit_summary_read:
  assumes "wf_commit c" shows "commit_summary_of_fields (commit_fields c @ extra) = Inr c"
proof -
  have "parse_sha_from_bytes (commit_fields c ! 0) = Inr (commit_sha c)"
    using assms parse_sha_text [of "commit_sha c"] sha_field_text [of "sha_str (commit_sha c)"]
    by (simp add: commit_fields_def parse_sha_from_bytes_def wf_commit_def field_text_def)
  then show ?thesis
    using commit_parents_read [OF assms] assms
    by (simp add: commit_summary_of_fields_def commit_fields_def wf_commit_def field_text_def)
qed

lemma commit_record_read:
  assumes "wf_commit c" "p = [] \<or> p = [NUL]"
  shows "parse_commit_record (p @ commit_body c @ [NUL]) = Inr c"
proof -
  have "sha_text (sha_str (commit_sha c))" using assms(1) by (simp add: wf_commit_def)
  then obtain a r where sha: "sha_str (commit_sha c) = a # r" "is_graphic a"
    using graphic_word_Cons [OF sha_text_ok(2)] by blast
  have "a \<noteq> NUL" using sha(2) by (auto simp: is_graphic_def)
  then obtain t where b: "commit_body c = a # t" "a \<noteq> NUL"
    using sha(1) by (auto simp: commit_body_def commit_fields_def)
  have "strip_nul_ends (p @ commit_body c @ [NUL]) = commit_body c"
    using assms(2) b by (auto simp: strip_nul_ends_def Let_def butlast_append)
  moreover have "split_on NUL (commit_body c) = commit_fields c"
    unfolding commit_body_def
    by (rule split_on_join_on) (use commit_fields_text [OF assms(1)] in
      \<open>auto simp: field_text_def commit_fields_def\<close>)
  moreover have "length (commit_fields c) = 6" by (simp add: commit_fields_def)
  ultimately show ?thesis
    using commit_summary_read [OF assms(1), of "[]"] by (simp add: parse_commit_record_def)
qed

lemma set_join_on_sub: "d \<noteq> c \<Longrightarrow> \<forall>p\<in>set ps. c \<notin> set p \<Longrightarrow> c \<notin> set (join_on d ps)"
  by (induction d ps rule: join_on.induct) auto

lemma commit_body_chars:
  assumes "wf_commit c" shows "RS \<notin> set (commit_body c)" "\<exists>x\<in>set (commit_body c). x \<noteq> NUL"
proof -
  show "RS \<notin> set (commit_body c)" unfolding commit_body_def
    by (rule set_join_on_sub) (use commit_fields_text [OF assms] in \<open>auto simp: field_text_def\<close>)
  have "sha_text (sha_str (commit_sha c))" using assms by (simp add: wf_commit_def)
  then obtain a r where "sha_str (commit_sha c) = a # r" "is_graphic a"
    using graphic_word_Cons [OF sha_text_ok(2)] by blast
  then have "a \<in> set (commit_body c)" "a \<noteq> NUL"
    by (auto simp: commit_body_def commit_fields_def is_graphic_def)
  then show "\<exists>x\<in>set (commit_body c). x \<noteq> NUL" by blast
qed

lemma commit_stream_records:
  assumes "\<forall>c\<in>set cs. wf_commit c" "p = [] \<or> p = [NUL]"
  shows "\<exists>rs. filter (list_ex (\<lambda>c. c \<noteq> NUL)) (split_on RS (p @ commit_stream cs)) = rs
    \<and> list_all2 (\<lambda>r c. \<exists>q. (q = [] \<or> q = [NUL]) \<and> r = q @ commit_body c @ [NUL]) rs cs"
  using assms
proof (induction cs arbitrary: p)
  case (Cons c cs)
  from Cons.prems have c: "wf_commit c" by simp
  obtain rs where rs: "filter (list_ex (\<lambda>c. c \<noteq> NUL)) (split_on RS ([NUL] @ commit_stream cs)) = rs"
    "list_all2 (\<lambda>r c. \<exists>q. (q = [] \<or> q = [NUL]) \<and> r = q @ commit_body c @ [NUL]) rs cs"
    using Cons.IH [of "[NUL]"] Cons.prems by auto
  have "RS \<notin> set (p @ commit_body c @ [NUL])" using commit_body_chars(1) [OF c] Cons.prems(2) by auto
  then have "split_on RS ((p @ commit_body c @ [NUL]) @ RS # (NUL # commit_stream cs))
      = (p @ commit_body c @ [NUL]) # split_on RS (NUL # commit_stream cs)" by (rule split_on_append)
  then have "split_on RS (p @ commit_stream (c # cs))
      = (p @ commit_body c @ [NUL]) # split_on RS ([NUL] @ commit_stream cs)"
    by (simp add: commit_stream_def del: split_on.simps)
  moreover have "list_ex (\<lambda>c. c \<noteq> NUL) (p @ commit_body c @ [NUL])"
    using commit_body_chars(2) [OF c] by (auto simp: list_ex_iff)
  ultimately show ?case
    using rs Cons.prems(2) by (auto simp del: split_on.simps)
qed (auto simp: commit_stream_def)

lemma commit_stream_read:
  assumes "\<forall>c\<in>set cs. wf_commit c"
  shows "parse_commit_summaries (commit_stream cs) = Inr cs"
proof -
  obtain rs where rs: "filter (list_ex (\<lambda>c. c \<noteq> NUL)) (split_on RS (commit_stream cs)) = rs"
    "list_all2 (\<lambda>r c. \<exists>q. (q = [] \<or> q = [NUL]) \<and> r = q @ commit_body c @ [NUL]) rs cs"
    using commit_stream_records [OF assms, of "[]"] by auto
  then have "list_all2 (\<lambda>r c. parse_commit_record r = Inr c) rs cs"
    using assms commit_record_read
    by (intro list.rel_mono_strong [OF rs(2)]) blast
  then have "try_map parse_commit_record rs = Inr cs" by (simp add: try_map_eq_Inr)
  with rs(1) show ?thesis by (simp add: parse_commit_summaries_def)
qed

text \<open>Every commit of the range is read back, in order, with its parents.\<close>

theorem commit_list_round_trip:
  assumes "\<forall>c\<in>set cs. wf_commit c"
  shows "parse_commit_summaries (commit_stream cs) = Inr cs"
  by (rule commit_stream_read [OF assms])

definition sample_commit :: GitCommitSummary where
  "sample_commit =
    \<lparr>commit_sha = GitSha ''0123456789abcdef0123456789abcdef01234567'',
     commit_parent_shas = [GitSha ''89abcdef0123456789abcdef0123456789abcdef'', GitSha ''0000000''],
     commit_author_name = ''Ada'', commit_author_email = [], commit_authored_at = ''2024-01-01T00:00:00Z'',
     commit_subject = ''Merge the parser''\<rparr>"

lemma commit_list_round_trip_witness:
  "parse_commit_summaries (commit_stream [sample_commit, sample_commit\<lparr>commit_parent_shas := []\<rparr>])
    = Inr [sample_commit, sample_commit\<lparr>commit_parent_shas := []\<rparr>]"
proof -
  have "list_all wf_commit [sample_commit, sample_commit\<lparr>commit_parent_shas := []\<rparr>]" by code_simp
  then show ?thesis by (intro commit_list_round_trip) (simp add: list_all_iff)
qed

lemma join_on_snoc: "join_on d (ps @ [b]) = concat (map (\<lambda>p. p @ [d]) ps) @ b"
proof (induction ps)
  case (Cons p ps)
  then show ?case by (cases "ps @ [b]") auto
qed simp

lemma splitn_join:
  assumes "\<forall>p\<in>set ps. d \<notin> set p" "0 < length ps"
  shows "splitn (Suc (length ps)) d (join_on d (ps @ [b])) = ps @ [b]"
proof -
  have "split_on d (concat (map (\<lambda>p. p @ [d]) ps) @ b) = ps @ split_on d b"
    using assms(1) by (induction ps) (simp_all add: split_on_append)
  then have s: "split_on d (join_on d (ps @ [b])) = ps @ split_on d b" by (simp add: join_on_snoc)
  have l: "length (split_on d b) \<noteq> 0" by simp
  show ?thesis
  proof (cases "length (split_on d b) = 1")
    case True
    then obtain q where q: "split_on d b = [q]" by (auto simp: length_Suc_conv)
    then have "b = q" using join_split_on [of d b] by simp
    with s q show ?thesis by (simp add: splitn_def)
  next
    case False
    with l have "\<not> length (split_on d b) \<le> 1" by linarith
    then show ?thesis by (simp add: splitn_def s)
  qed
qed

definition details_stream :: "GitCommitDetails \<Rightarrow> string \<Rightarrow> string" where
  "details_stream d body =
    join_on NUL (commit_fields (details_summary d) @
      [details_committer_name d, details_committer_email d, details_committed_at d] @ [body])"

text \<open>The details of a commit are read back whatever bytes its message has; the message
  is the first 64 KiB of it, and the flag says whether there was more.\<close>

theorem commit_details_round_trip:
  assumes "wf_commit (details_summary d)"
    "field_text (details_committer_name d)" "field_text (details_committer_email d)"
    "field_text (details_committed_at d)"
  shows "parse_commit_details (details_stream d body) =
    Inr (d\<lparr>details_body := utf8_lossy (take MAX_COMMIT_MESSAGE_BYTES body),
      details_body_truncated := MAX_COMMIT_MESSAGE_BYTES < length body\<rparr>)"
proof -
  define ps where "ps = commit_fields (details_summary d) @
      [details_committer_name d, details_committer_email d, details_committed_at d]"
  have ps: "length ps = 9" by (simp add: ps_def commit_fields_def)
  have "\<forall>p\<in>set ps. NUL \<notin> set p"
    using assms commit_fields_text [OF assms(1)] by (auto simp: ps_def field_text_def)
  from splitn_join [OF this, of body] ps have split: "splitn 10 NUL (details_stream d body) = ps @ [body]"
    by (simp add: details_stream_def ps_def)
  have nths: "ps ! 6 = details_committer_name d" "ps ! 7 = details_committer_email d"
    "ps ! 8 = details_committed_at d" by (simp_all add: ps_def commit_fields_def)
  have sum: "commit_summary_of_fields ps = Inr (details_summary d)"
    unfolding ps_def by (rule commit_summary_read [OF assms(1)])
  show ?thesis
    using assms(2-) ps nths sum
    by (simp add: parse_commit_details_def split nth_append truncate_utf8_lossy_def field_text_def
      not_le not_less)
qed

lemma commit_details_round_trip_witness:
  "parse_commit_details (details_stream
      \<lparr>details_summary = sample_commit, details_committer_name = ''Ada'', details_committer_email = [],
       details_committed_at = ''2024-01-01'', details_body = [], details_body_truncated = True\<rparr>
      ''Merge the parser'')
    = Inr \<lparr>details_summary = sample_commit, details_committer_name = ''Ada'', details_committer_email = [],
       details_committed_at = ''2024-01-01'', details_body = ''Merge the parser'',
       details_body_truncated = False\<rparr>"
proof -
  let ?d = "\<lparr>details_summary = sample_commit, details_committer_name = ''Ada'',
    details_committer_email = [], details_committed_at = ''2024-01-01'', details_body = [],
    details_body_truncated = True\<rparr>"
  have "wf_commit sample_commit" "field_text ''Ada''" "field_text []" "field_text ''2024-01-01''"
    by code_simp+
  moreover have "utf8_lossy ''Merge the parser'' = ''Merge the parser''" by code_simp
  ultimately show ?thesis
    using commit_details_round_trip [of ?d "''Merge the parser''"]
    by (simp add: MAX_COMMIT_MESSAGE_BYTES_def)
qed

end
