(* ===== verification/Git_Queries.thy ===== *)
theory Git_Queries
  imports Git_Capture Git_Metadata_Props
begin

text \<open>
  The on-demand queries of an open review: their bounds, and which commits the
  commit-context panel shows.
\<close>

section \<open>Blame\<close>

text \<open>A blame answer is for the request it was asked for, whose path stays inside the
  repository, and has at most as many lines as the selected range, which is one-based,
  not empty and at most 500 lines long.\<close>

theorem blame_is_bounded:
  assumes "blame_at r q w = (Inr res, w')"
  shows "blame_request res = q \<and> 0 < blame_start_line q \<and> blame_start_line q \<le> blame_end_line q
    \<and> length (blame_lines_of res) \<le> blame_end_line q - blame_start_line q + 1
    \<and> blame_end_line q - blame_start_line q + 1 \<le> 500
    \<and> is_safe_repository_relative_path (blame_request_path q)"
proof -
  from assms obtain count lines where "is_safe_repository_relative_path (blame_request_path q)"
    "blame_line_count q = Some count" "length lines \<le> count"
    "res = \<lparr>blame_request = q, blame_lines_of = lines\<rparr>"
    by (auto simp: blame_at_def validate_repository_relative_path_def not_less
      dest!: sym [of "Inr _"] split: if_splits)
  then show ?thesis
    by (auto simp: blame_line_count_def Let_def MAX_BLAME_LINES_def split: if_splits)
qed

definition sample_blame_request :: GitBlameRequest where
  "sample_blame_request = \<lparr>blame_request_revision = GitSha ''0123456'', blame_request_path = StoredPath ''a b'',
    blame_start_line = 4, blame_end_line = 4\<rparr>"

definition answering :: "(string list \<Rightarrow> string) \<Rightarrow> unit GitRepository" where
  "answering answer = \<lparr>repo_root = ''/repo'', repo_env =
    \<lparr>env_execute = (\<lambda>c w. (Inr \<lparr>output_success = True, output_stdout = answer (command_arguments c),
       output_stderr = []\<rparr>, w)),
     env_symlink_metadata = (\<lambda>_ w. (Inl FileNotFound, w)),
     env_read = (\<lambda>_ w. (Inl FileNotFound, w)),
     env_now = (\<lambda>w. (0, w)), env_blake3 = (\<lambda>_. replicate 64 CHR ''0'')\<rparr>\<rparr>"

lemma answering_run [simp]:
  "require_success (answering answer) args w =
    (Inr \<lparr>output_success = True, output_stdout = answer args, output_stderr = []\<rparr>, w)"
  by (simp add: require_success_def execute_def answering_def GitCommand_new_def io_bind_def io_return_def)

lemma blame_is_bounded_witness:
  "length [sample_blame] \<le> 4 - 4 + (1 :: nat) \<and> (4 - 4 + (1 :: nat)) \<le> 500"
proof -
  let ?r = "answering (\<lambda>_. nl_lines (blame_stream [([''1''], [], sample_blame)]))"
  have entries: "blame_entries_ok [([''1''], [], sample_blame)]" by code_simp
  have "is_safe_repository_relative_path (StoredPath ''a b'')" by code_simp
  then have "blame_at ?r sample_blame_request () =
      (Inr \<lparr>blame_request = sample_blame_request, blame_lines_of = [sample_blame]\<rparr>, ())"
    using blame_stream_read [OF entries, of "StoredPath ''a b''" "[[]]"]
      split_nl_lines [OF blame_stream_lines [OF entries], of "[]"]
    by (simp add: blame_at_def sample_blame_request_def blame_line_count_def MAX_BLAME_LINES_def
      validate_repository_relative_path_def io_bind_def io_return_def ok_or_def
      parse_blame_porcelain_def)
  from blame_is_bounded [OF this] show ?thesis by (simp add: sample_blame_request_def)
qed

section \<open>Commit context\<close>

text \<open>The commit panel lists at most the requested number of commits, at most 2000, all of
  which match the filters, and shows the details of the selected commit only when Git says
  it is inside the range and it is not the merge base.\<close>

theorem commit_context_bounded:
  assumes "commit_context r rng q w = (Inr ctx, w')"
  shows "context_range ctx = rng \<and> length (context_commits ctx) \<le> context_max_entries q
    \<and> 0 < context_max_entries q \<and> context_max_entries q \<le> 2000
    \<and> list_all (commit_matches q) (context_commits ctx)
    \<and> (context_selected ctx = None \<longleftrightarrow> context_selected_commit q = None)
    \<and> context_selected_commit q \<noteq> Some (range_merge_base rng)"
proof -
  from assms obtain commits selected w1 where *:
    "0 < context_max_entries q" "context_max_entries q \<le> MAX_COMMIT_CONTEXT_ENTRIES"
    "select_commit r rng (context_selected_commit q) w1 = (Inr selected, w')"
    "ctx = \<lparr>context_range = rng,
      context_commits = filter (commit_matches q) (take (context_max_entries q) commits),
      context_truncated = (length commits > context_max_entries q), context_selected = selected\<rparr>"
    by (auto simp: commit_context_def split: if_splits)
  have "length (filter (commit_matches q) (take (context_max_entries q) commits)) \<le> context_max_entries q"
    by (rule order.trans [OF length_filter_le]) simp
  moreover have "(selected = None \<longleftrightarrow> context_selected_commit q = None)
      \<and> context_selected_commit q \<noteq> Some (range_merge_base rng)"
    using *(3)
    by (cases "context_selected_commit q")
       (auto simp: select_commit_def commit_is_in_range_def split: if_splits)
  ultimately show ?thesis using *(1,2,4) by (simp add: MAX_COMMIT_CONTEXT_ENTRIES_def list_all_iff)
qed

definition sample_range :: GitCommitRange where
  "sample_range = \<lparr>range_merge_base = GitSha ''0000000'', range_head = GitSha ''1111111''\<rparr>"

text \<open>What \<open>git log --reverse --max-count=n\<close> answers: the commits are first chosen, the \<open>n\<close>
  newest of the range, and then listed in reverse.\<close>

definition log_answer :: "nat \<Rightarrow> GitCommitSummary list \<Rightarrow> string" where
  "log_answer n newest_first = commit_stream (rev (take n newest_first))"

lemma rev_take_Suc_hd: "xs \<noteq> [] \<Longrightarrow> rev (take (Suc n) xs) = rev (take n (tl xs)) @ [hd xs]"
  by (cases xs) simp_all

text \<open>When the range has more commits than the panel asks for, the commit it leaves out is
  the newest one, the head of the review, because the commits are cut after the reversal;
  the panel then shows the \<open>max_entries\<close> commits before it.\<close>

theorem commit_context_drops_head:
  assumes "\<forall>c\<in>set history. wf_commit c" "context_max_entries q < length history"
    "0 < context_max_entries q" "context_max_entries q \<le> MAX_COMMIT_CONTEXT_ENTRIES"
    "require_success r (log_arguments rng q) w =
      (Inr \<lparr>output_success = True, output_stdout = log_answer (context_max_entries q + 1) history,
        output_stderr = err\<rparr>, w')"
    "context_selected_commit q = None"
  shows "commit_context r rng q w =
    (Inr \<lparr>context_range = rng,
      context_commits = filter (commit_matches q) (rev (take (context_max_entries q) (tl history))),
      context_truncated = True, context_selected = None\<rparr>, w')"
proof -
  let ?n = "context_max_entries q"
  have h: "history \<noteq> []" using assms(2) by auto
  have shown: "rev (take (Suc ?n) history) = rev (take ?n (tl history)) @ [hd history]"
    by (rule rev_take_Suc_hd [OF h])
  have "length (tl history) \<ge> ?n" using assms(2) by simp
  then have len: "length (rev (take ?n (tl history))) = ?n" by simp
  have "parse_commit_summaries (log_answer (?n + 1) history) = Inr (rev (take (Suc ?n) history))"
    unfolding log_answer_def by (simp, rule commit_stream_read) (use assms(1) in \<open>auto dest: in_set_takeD\<close>)
  then show ?thesis
    using assms(3-6) len
    by (simp add: commit_context_def io_bind_def io_return_def select_commit_def shown)
qed

definition sample_history :: "GitCommitSummary list" where
  "sample_history = [sample_commit, sample_commit\<lparr>commit_sha := GitSha ''89abcdef'', commit_parent_shas := []\<rparr>]"

definition sample_context :: GitCommitContextRequest where
  "sample_context = GitCommitContextRequest_default\<lparr>context_max_entries := 1\<rparr>"

lemma commit_context_drops_head_witness:
  "commit_context (answering (\<lambda>_. log_answer 2 sample_history)) sample_range sample_context () =
    (Inr \<lparr>context_range = sample_range,
      context_commits = [sample_commit\<lparr>commit_sha := GitSha ''89abcdef'', commit_parent_shas := []\<rparr>],
      context_truncated = True, context_selected = None\<rparr>, ())"
proof -
  have "list_all wf_commit sample_history" by code_simp
  then have "\<forall>c\<in>set sample_history. wf_commit c" by (simp only: list_all_iff)
  moreover have "commit_matches sample_context c" for c
    by (simp add: commit_matches_def sample_context_def GitCommitContextRequest_default_def)
  ultimately show ?thesis
    using commit_context_drops_head [of sample_history sample_context
      "answering (\<lambda>_. log_answer 2 sample_history)" sample_range "()" "[]" "()"]
    by (simp add: sample_context_def GitCommitContextRequest_default_def sample_history_def
      MAX_COMMIT_CONTEXT_ENTRIES_def numeral_2_eq_2)
qed

lemma commit_context_bounded_witness:
  "length [sample_commit] \<le> (1 :: nat) \<and> list_all (commit_matches sample_context) [sample_commit]"
proof -
  have "wf_commit sample_commit" by code_simp
  then have wf: "\<forall>c\<in>set [sample_commit]. wf_commit c" by simp
  have m: "commit_matches sample_context sample_commit"
    by (simp add: commit_matches_def sample_context_def GitCommitContextRequest_default_def)
  have "commit_context (answering (\<lambda>_. commit_stream [sample_commit])) sample_range sample_context () =
    (Inr \<lparr>context_range = sample_range, context_commits = [sample_commit],
      context_truncated = False, context_selected = None\<rparr>, ())"
    using commit_stream_read [OF wf] m
    by (simp add: commit_context_def sample_context_def GitCommitContextRequest_default_def
      MAX_COMMIT_CONTEXT_ENTRIES_def select_commit_def io_bind_def io_return_def)
  from commit_context_bounded [OF this] show ?thesis by (simp add: sample_context_def)
qed

end
