(* ===== verification/Git_Discover.thy ===== *)
theory Git_Discover
  imports Git_Repository "HOL-Library.Multiset"
begin

text \<open>
  \<open>crates/git/src/lib.rs\<close>, the function \<open>discover_repositories\<close>: the breadth-first walk over
  the directories of a workspace.  The file system is part of the world \<open>'w\<close> of
  \<open>Git_Repository\<close> and may change between two looks at it; the walk ends because no queued
  directory is deeper than the limit.
\<close>

section \<open>The walk\<close>

datatype entry_kind = EntryDirectory | EntryFile | EntrySymlink | EntryOther

record 'w fs_env =
  fs_symlink_metadata :: "string \<Rightarrow> 'w \<Rightarrow> (file_failure + entry_kind) \<times> 'w"
  fs_is_dir_or_file :: "string \<Rightarrow> 'w \<Rightarrow> bool \<times> 'w"
  fs_read_dir :: "string \<Rightarrow> 'w \<Rightarrow> (file_failure + (string \<times> entry_kind) list) \<times> 'w"
  fs_canonicalize :: "string \<Rightarrow> 'w \<Rightarrow> (file_failure + string) \<times> 'w"

record DiscoveryConfig =
  max_depth :: nat
  excluded_directory_names :: "string list"
  excluded_relative_prefixes :: "string list"

definition default_discovery :: DiscoveryConfig where
  "default_discovery = \<lparr>max_depth = 4,
    excluded_directory_names = [''.git'', ''node_modules'', ''.cache'', ''target'', ''build'', ''dist''],
    excluded_relative_prefixes = []\<rparr>"

record DiscoveredRepository =
  discovered_relative_path :: string
  discovered_identity :: RepositoryIdentity

fun component_text :: "path_component \<Rightarrow> string" where
  "component_text RootDir = []"
| "component_text CurDir = ''.''"
| "component_text ParentDir = ''..''"
| "component_text (Normal s) = s"

definition path_of_components :: "path_component list \<Rightarrow> string" where
  "path_of_components cs = (if cs = [] then [] else join_on CHR ''/'' (map component_text cs))"

definition path_strip_prefix :: "string \<Rightarrow> string \<Rightarrow> string option" where
  "path_strip_prefix base p =
    (if starts_with_path p base
     then Some (path_of_components (drop (length (path_components base)) (path_components p))) else None)"

definition relative_to :: "string \<Rightarrow> string \<Rightarrow> string" where
  "relative_to root p = (case path_strip_prefix root p of Some r \<Rightarrow> r | None \<Rightarrow> p)"

definition walk_into :: "DiscoveryConfig \<Rightarrow> string \<Rightarrow> string \<Rightarrow> string \<times> entry_kind \<Rightarrow> bool" where
  "walk_into config root directory = (\<lambda>(name, kind).
    kind = EntryDirectory \<and> name \<notin> set (excluded_directory_names config)
    \<and> \<not> list_ex (starts_with_path (relative_to root (path_join directory name))) (excluded_relative_prefixes config))"

definition children :: "DiscoveryConfig \<Rightarrow> string \<Rightarrow> string \<Rightarrow> nat \<Rightarrow> (string \<times> entry_kind) list \<Rightarrow> (string \<times> nat) list" where
  "children config root directory depth entries =
    map (\<lambda>(name, kind). (path_join directory name, depth + 1)) (filter (walk_into config root directory) entries)"

definition dedupe_key :: "'w fs_env \<Rightarrow> RepositoryIdentity \<Rightarrow> 'w \<Rightarrow> string \<times> 'w" where
  "dedupe_key fs identity w =
    (case identity_common_dir identity of
       None \<Rightarrow> (identity_worktree identity, w)
     | Some p \<Rightarrow> (case fs_canonicalize fs p w of
         (Inr c, w) \<Rightarrow> (c, w) | (Inl _, w) \<Rightarrow> (identity_worktree identity, w)))"

definition found_at ::
  "string \<Rightarrow> string \<Rightarrow> RepositoryIdentity \<Rightarrow> string \<Rightarrow> DiscoveredRepository list \<Rightarrow> string list
    \<Rightarrow> DiscoveredRepository list \<times> string list" where
  "found_at root directory identity key found seen =
    (if key \<in> set seen then (found, seen)
     else (found @ [\<lparr>discovered_relative_path = relative_to root directory, discovered_identity = identity\<rparr>],
           key # seen))"

function discover_loop ::
  "'w git_env \<Rightarrow> 'w fs_env \<Rightarrow> DiscoveryConfig \<Rightarrow> string \<Rightarrow> (string \<times> nat) list \<Rightarrow> DiscoveredRepository list
    \<Rightarrow> string list \<Rightarrow> ('w, DiscoveredRepository list) git" where
  "discover_loop git fs config root [] found seen w = (Inr found, w)"
| "discover_loop git fs config root ((directory, depth) # pending) found seen w =
    (case fs_symlink_metadata fs directory w of
       (Inl e, w) \<Rightarrow> (Inl (file_error directory e), w)
     | (Inr kind, w) \<Rightarrow>
         if kind \<noteq> EntryDirectory then discover_loop git fs config root pending found seen w
         else (case fs_is_dir_or_file fs (path_join directory ''.git'') w of
           (True, w) \<Rightarrow>
             (case inspect \<lparr>repo_root = directory, repo_env = git\<rparr> w of
                (Inl e, w) \<Rightarrow> (Inl e, w)
              | (Inr identity, w) \<Rightarrow> (case dedupe_key fs identity w of
                  (key, w) \<Rightarrow> (case found_at root directory identity key found seen of
                    (found, seen) \<Rightarrow> discover_loop git fs config root pending found seen w)))
         | (False, w) \<Rightarrow>
             if max_depth config \<le> depth then discover_loop git fs config root pending found seen w
             else (case fs_read_dir fs directory w of
                 (Inl e, w) \<Rightarrow> (Inl (file_error directory e), w)
               | (Inr entries, w) \<Rightarrow>
                   discover_loop git fs config root (pending @ children config root directory depth entries)
                     found seen w)))"
  by pat_completeness auto

text \<open>The walk ends: a directory is replaced by deeper ones, up to the limit.\<close>

definition walk_size :: "DiscoveryConfig \<Rightarrow> (string \<times> nat) list \<Rightarrow> nat multiset" where
  "walk_size config pending = mset (map (\<lambda>p. max_depth config - snd p) pending)"

lemma walk_shrinks:
  assumes "\<And>m. m \<in># walk_size config new \<Longrightarrow> m < max_depth config - depth"
  shows "(walk_size config (pending @ new), walk_size config ((directory, depth) # pending)) \<in> mult less_than"
proof -
  have "(walk_size config pending + walk_size config new, walk_size config pending + {#max_depth config - depth#})
      \<in> mult less_than"
    using assms by (intro one_step_implies_mult) auto
  then show ?thesis by (simp add: walk_size_def)
qed

lemma walk_shrinks_pop:
  "(walk_size config pending, walk_size config ((directory, depth) # pending)) \<in> mult less_than"
  using walk_shrinks [of config "[]"] by (simp add: walk_size_def)

lemma walk_size_children:
  assumes "\<not> max_depth config \<le> depth" "m \<in># walk_size config (children config root directory depth entries)"
  shows "m < max_depth config - depth"
  using assms by (auto simp: walk_size_def children_def)

termination discover_loop
  by (relation "inv_image (mult less_than) (\<lambda>(git, fs, config, root, pending, found, seen, w). walk_size config pending)")
    (auto simp: wf_mult intro: walk_shrinks_pop walk_shrinks walk_size_children)

definition discover_repositories ::
  "'w git_env \<Rightarrow> 'w fs_env \<Rightarrow> string \<Rightarrow> DiscoveryConfig \<Rightarrow> ('w, DiscoveredRepository list) git" where
  "discover_repositories git fs root config =
    io_bind (discover_loop git fs config root [(root, 0)] [] []) (\<lambda>found.
      io_return (Inr (sort_key (\<lambda>d. map component_text (path_components (discovered_relative_path d))) found)))"

end
