(* ===== verification/Git_Discover_Props.thy ===== *)
theory Git_Discover_Props
  imports Git_Discover
begin

text \<open>
  What the walk finds: repositories at most as deep as the limit, outside the excluded
  directories, and never one inside another.
\<close>

section \<open>Paths of the walk\<close>

definition file_name_ok :: "string \<Rightarrow> bool" where
  "file_name_ok n \<longleftrightarrow> n \<noteq> [] \<and> n \<noteq> ''.'' \<and> n \<noteq> ''..'' \<and> CHR ''/'' \<notin> set n"

text \<open>What \<open>fs::read_dir\<close> promises: the names of a directory, each once, without \<open>.\<close> and \<open>..\<close>.\<close>

definition reads_directories :: "'w fs_env \<Rightarrow> bool" where
  "reads_directories fs \<longleftrightarrow> (\<forall>d w entries w'. fs_read_dir fs d w = (Inr entries, w') \<longrightarrow>
    distinct (map fst entries) \<and> (\<forall>e\<in>set entries. file_name_ok (fst e)))"

definition walked :: "string \<Rightarrow> string list \<Rightarrow> string \<Rightarrow> bool" where
  "walked root ns d \<longleftrightarrow> path_is_absolute d \<and> path_components d = path_components root @ map Normal ns"

lemma segment_file_name: "file_name_ok n \<Longrightarrow> segment_component n = Some (Normal n)"
  by (simp add: file_name_ok_def segment_component_def)

lemma split_file_name: "file_name_ok n \<Longrightarrow> split_on CHR ''/'' n = [n]"
  by (simp add: file_name_ok_def split_on_single)

lemma file_name_relative: "file_name_ok n \<Longrightarrow> \<not> path_is_absolute (n @ p)"
  by (cases n) (auto simp: file_name_ok_def path_is_absolute_def starts_with_iff)

lemma walked_root: "path_is_absolute root \<Longrightarrow> walked root [] root"
  by (simp add: walked_def)

lemma walked_child:
  assumes "walked root ns d" "file_name_ok n"
  shows "walked root (ns @ [n]) (path_join d n)"
proof -
  have abs: "path_is_absolute d" using assms(1) by (simp add: walked_def)
  have rel: "\<not> path_is_absolute n" using file_name_relative [OF assms(2), of "[]"] by simp
  have "path_is_absolute (path_join d n)"
    using abs rel by (auto simp: path_join_def path_is_absolute_def starts_with_iff)
  then show ?thesis
    using assms path_components_join [OF abs rel]
    by (simp add: walked_def split_file_name segment_file_name List.map_filter_simps)
qed

lemma split_join_names:
  "ns \<noteq> [] \<Longrightarrow> list_all file_name_ok ns \<Longrightarrow> split_on CHR ''/'' (join_on CHR ''/'' ns) = ns"
  by (rule split_on_join_on) (auto simp: file_name_ok_def list_all_iff)

lemma filter_names: "list_all file_name_ok ns \<Longrightarrow> List.map_filter segment_component ns = map Normal ns"
  by (induction ns) (simp_all add: List.map_filter_simps segment_file_name)

lemma join_names_relative: "list_all file_name_ok ns \<Longrightarrow> \<not> path_is_absolute (join_on CHR ''/'' ns)"
proof (cases ns)
  case (Cons n ms)
  assume "list_all file_name_ok ns"
  then have n: "file_name_ok n" using Cons by simp
  show ?thesis
    by (cases ms) (use file_name_relative [OF n] file_name_relative [OF n, of "[]"] Cons in simp_all)
qed (simp add: path_is_absolute_def starts_with_iff)

lemma components_join_names:
  assumes "list_all file_name_ok ns"
  shows "path_components (if ns = [] then [] else join_on CHR ''/'' ns) = map Normal ns"
proof (cases "ns = []")
  case False
  then have "hd ns \<noteq> ''.''" using assms by (cases ns) (auto simp: file_name_ok_def)
  then show ?thesis
    using False assms join_names_relative [OF assms]
    by (simp add: path_components_def Let_def split_join_names filter_names)
qed (simp add: path_components_def path_is_absolute_def starts_with_iff segment_component_def List.map_filter_simps)

lemma relative_walked:
  assumes "walked root ns d"
  shows "relative_to root d = (if ns = [] then [] else join_on CHR ''/'' ns)"
proof -
  have "map component_text (map Normal ns) = ns" by (induction ns) simp_all
  then show ?thesis
    using assms by (simp add: walked_def relative_to_def path_strip_prefix_def starts_with_path_def path_of_components_def)
qed

section \<open>The invariant of the walk\<close>

definition place_ok :: "DiscoveryConfig \<Rightarrow> string list \<Rightarrow> bool" where
  "place_ok config ns \<longleftrightarrow> list_all file_name_ok ns \<and> length ns \<le> max_depth config
    \<and> list_all (\<lambda>n. n \<notin> set (excluded_directory_names config)) ns
    \<and> (ns = [] \<or> \<not> list_ex (starts_with_path (join_on CHR ''/'' ns)) (excluded_relative_prefixes config))"

definition queued :: "DiscoveryConfig \<Rightarrow> string \<Rightarrow> string \<times> nat \<Rightarrow> string list \<Rightarrow> bool" where
  "queued config root p ns \<longleftrightarrow> walked root ns (fst p) \<and> snd p = length ns \<and> place_ok config ns"

definition found_in :: "DiscoveryConfig \<Rightarrow> DiscoveredRepository \<Rightarrow> string list \<Rightarrow> bool" where
  "found_in config r ns \<longleftrightarrow> discovered_relative_path r = (if ns = [] then [] else join_on CHR ''/'' ns) \<and> place_ok config ns"

definition walk_inv :: "DiscoveryConfig \<Rightarrow> string \<Rightarrow> (string \<times> nat) list \<Rightarrow> DiscoveredRepository list \<Rightarrow> bool" where
  "walk_inv config root pending found \<longleftrightarrow>
    (\<exists>ps fs. list_all2 (queued config root) pending ps \<and> list_all2 (found_in config) found fs
      \<and> sorted_wrt (\<parallel>) (ps @ fs))"

lemma walk_inv_pop: "walk_inv config root (p # pending) found \<Longrightarrow> walk_inv config root pending found"
  unfolding walk_inv_def by (auto simp: list_all2_Cons1) blast

lemma walk_inv_found:
  assumes "walk_inv config root ((d, k) # pending) found" "found_at root d identity key found seen = (found', seen')"
  shows "walk_inv config root pending found'"
proof (cases "key \<in> set seen")
  case True
  then show ?thesis using assms walk_inv_pop by (auto simp: found_at_def)
next
  case False
  obtain ns ps fs where inv: "queued config root (d, k) ns" "list_all2 (queued config root) pending ps"
      "list_all2 (found_in config) found fs" "sorted_wrt (\<parallel>) ((ns # ps) @ fs)"
    using assms(1) by (auto simp: walk_inv_def list_all2_Cons1)
  have "list_all2 (found_in config) found' (fs @ [ns])"
    using inv(1,3) assms(2) False
    by (auto simp: found_at_def queued_def found_in_def relative_walked intro!: list_all2_appendI)
  moreover have "sorted_wrt (\<parallel>) (ps @ fs @ [ns])"
    using inv(4) by (auto simp: sorted_wrt_append parallel_commute)
  ultimately show ?thesis using inv(2) unfolding walk_inv_def by blast
qed

lemma parallel_snoc: "x \<parallel> ns \<Longrightarrow> x \<parallel> ns @ [n]"
  by (auto simp: parallel_def prefix_snoc dest: append_prefixD)

lemma walk_inv_children:
  assumes inv: "walk_inv config root ((d, k) # pending) found" and k: "\<not> max_depth config \<le> k"
    and entries: "distinct (map fst entries)" "\<forall>e\<in>set entries. file_name_ok (fst e)"
  shows "walk_inv config root (pending @ children config root d k entries) found"
proof -
  obtain ns ps fs where inv: "queued config root (d, k) ns" "list_all2 (queued config root) pending ps"
      "list_all2 (found_in config) found fs" "sorted_wrt (\<parallel>) ((ns # ps) @ fs)"
    using inv by (auto simp: walk_inv_def list_all2_Cons1)
  let ?in = "filter (walk_into config root d) entries"
  let ?new = "map (\<lambda>e. ns @ [fst e]) ?in"
  have "queued config root (path_join d (fst e), k + 1) (ns @ [fst e])" if "e \<in> set ?in" for e
  proof -
    have e: "file_name_ok (fst e)" using that entries(2) by auto
    then have w: "walked root (ns @ [fst e]) (path_join d (fst e))"
      using inv(1) walked_child by (simp add: queued_def)
    then have "relative_to root (path_join d (fst e)) = join_on CHR ''/'' (ns @ [fst e])"
      by (simp add: relative_walked)
    then show ?thesis
      using that inv(1) k e w by (auto simp: queued_def place_ok_def walk_into_def split: prod.splits)
  qed
  then have "list_all2 (queued config root) (children config root d k entries) ?new"
    by (auto simp: children_def list_all2_map1 list_all2_map2 list_all2_same split_def)
  then have queue: "list_all2 (queued config root) (pending @ children config root d k entries) (ps @ ?new)"
    by (rule list_all2_appendI [OF inv(2)])
  have "distinct (map fst ?in)" using entries(1) by (simp add: distinct_map_filter)
  then have "sorted_wrt (\<parallel>) ?new"
    by (auto simp: sorted_wrt_iff_nth_less distinct_conv_nth parallel_def)
  moreover have "\<forall>x\<in>set ?new. \<forall>y\<in>set ps \<union> set fs. y \<parallel> x"
    using inv(4) by (auto simp: parallel_commute intro: parallel_snoc)
  ultimately have "sorted_wrt (\<parallel>) ((ps @ ?new) @ fs)"
    using inv(4) by (auto simp: sorted_wrt_append parallel_commute)
  then show ?thesis using queue inv(3) unfolding walk_inv_def by blast
qed

lemma walk_inv_read:
  "\<lbrakk>reads_directories fs; fs_read_dir fs d w = (Inr entries, w'); \<not> max_depth config \<le> k;
    walk_inv config root ((d, k) # pending) found\<rbrakk>
   \<Longrightarrow> walk_inv config root (pending @ children config root d k entries) found"
  unfolding reads_directories_def by (rule walk_inv_children) auto

lemma discover_loop_inv:
  assumes "reads_directories fs"
  shows "discover_loop git fs config root pending found seen w = (Inr res, w') \<Longrightarrow>
    walk_inv config root pending found \<Longrightarrow> walk_inv config root [] res"
  using assms
proof (induction git fs config root pending found seen w rule: discover_loop.induct)
  case (2 git fs config root directory depth pending found seen w)
  show ?case
    using 2
    by (auto split: sum.splits prod.splits if_splits bool.splits
        dest: walk_inv_pop walk_inv_found walk_inv_read)
qed simp

section \<open>What is discovered\<close>

lemma prefix_Normal [simp]: "prefix (map Normal xs) (map Normal ys) \<longleftrightarrow> prefix xs ys"
proof
  assume "prefix (map Normal xs) (map Normal ys)"
  then obtain zs where "map Normal ys = map Normal xs @ zs" by (auto simp: prefix_def)
  then show "prefix xs ys" by (auto simp: map_eq_append_conv inj_map_eq_map inj_def)
qed (rule map_mono_prefix)

lemma found_components:
  "found_in config r ns \<Longrightarrow> path_components (discovered_relative_path r) = map Normal ns"
  using components_join_names by (simp add: found_in_def place_ok_def)

lemma walk_inv_pairwise:
  assumes "walk_inv config root [] found" "a \<in> set found" "b \<in> set found"
    "starts_with_path (discovered_relative_path a) (discovered_relative_path b)"
  shows "a = b"
proof -
  obtain fs where fs: "list_all2 (found_in config) found fs" "sorted_wrt (\<parallel>) fs"
    using assms(1) by (auto simp: walk_inv_def)
  obtain i j where ij: "i < length found" "found ! i = a" "j < length found" "found ! j = b"
    using assms(2,3) by (auto simp: in_set_conv_nth)
  have "found_in config a (fs ! i)" "found_in config b (fs ! j)"
    using list_all2_nthD [OF fs(1)] ij by auto
  then have "prefix (fs ! j) (fs ! i)"
    using assms(4) by (simp add: starts_with_path_def found_components)
  then have "\<not> fs ! i \<parallel> fs ! j" "\<not> fs ! j \<parallel> fs ! i" by (auto simp: parallel_def)
  then have "i = j"
    using fs ij by (metis linorder_neqE_nat list_all2_lengthD sorted_wrt_nth_less)
  then show ?thesis using ij by simp
qed


text \<open>A workspace with a repository, a nested one inside it and one in an excluded directory.\<close>

definition demo_git :: "unit git_env" where
  "demo_git = \<lparr>env_execute = (\<lambda>c w. (Inr \<lparr>output_success = True, output_stdout = ''true'', output_stderr = []\<rparr>, w)),
    env_symlink_metadata = (\<lambda>_ w. (Inl FileNotFound, w)), env_read = (\<lambda>_ w. (Inl FileNotFound, w)),
    env_now = (\<lambda>w. (0, w)), env_blake3 = (\<lambda>s. s)\<rparr>"

definition demo_fs :: "unit fs_env" where
  "demo_fs = \<lparr>fs_symlink_metadata = (\<lambda>_ w. (Inr EntryDirectory, w)),
    fs_is_dir_or_file = (\<lambda>p w. (p = ''/w/a/.git'' \<or> p = ''/w/a/b/.git'' \<or> p = ''/w/target/.git'', w)),
    fs_read_dir = (\<lambda>p w. (Inr (if p = ''/w'' then [(''a'', EntryDirectory), (''target'', EntryDirectory)]
      else if p = ''/w/a'' then [(''b'', EntryDirectory)] else []), w)),
    fs_canonicalize = (\<lambda>p w. (Inr p, w))\<rparr>"


end
