(* ===== verification/Git_Pool.thy ===== *)
theory Git_Pool
  imports Git_Discover Protocol_Paths "HOL-Library.Product_Lexorder"
begin

text \<open>
  \<open>crates/git/src/pool.rs\<close>: the bare mirrors and detached review worktrees the application
  manages.  \<open>pool_env\<close> holds what the pool asks of the world: Git, the file operations, the
  lock file, the two clocks and the JSON form of the registry.  The lifecycle lock is a loop
  that ends only if the clock moves, so an operation that takes it is a partial function:
  \<open>None\<close> is a call that never returns.
\<close>

section \<open>Identities\<close>

record RepositoryLocator =
  locator_host :: string
  locator_owner :: string
  locator_repository :: string

record PinnedGitRevision =
  pinned_base_sha :: GitSha
  pinned_head_sha :: GitSha

datatype RepositoryObjectSource = KnownClone StoredPath | ManagedMirror StoredPath

fun source_path :: "RepositoryObjectSource \<Rightarrow> string" where
  "source_path (KnownClone p) = path_str p"
| "source_path (ManagedMirror p) = path_str p"

record ManagedWorktree =
  managed_review_id :: string
  managed_repository :: RepositoryLocator
  managed_worktree_path :: StoredPath
  managed_source :: RepositoryObjectSource
  managed_revision :: PinnedGitRevision
  managed_created_at :: timestamp

record UnregisteredManagedWorktree =
  orphan_source_path :: StoredPath
  orphan_worktree_path :: StoredPath

record WorktreeOrphanReport =
  missing_registrations :: "ManagedWorktree list"
  unregistered_worktrees :: "UnregisteredManagedWorktree list"

record WorktreeRepairReport =
  repaired_missing_registrations :: "string list"
  removed_unregistered :: "UnregisteredManagedWorktree list"
  dirty_unregistered :: "UnregisteredManagedWorktree list"

record PrepareManagedWorktreeRequest =
  prepare_review_id :: string
  prepare_repository :: RepositoryLocator
  prepare_clone_url :: string
  prepare_revision :: PinnedGitRevision
  prepare_known_clones :: "string list"

record DeletedManagedWorktree =
  deleted_record :: ManagedWorktree
  deleted_mirror_retained :: bool

record RegistryFile =
  registry_file_version :: nat
  registry_worktrees :: "ManagedWorktree list"

definition REGISTRY_VERSION :: nat where "REGISTRY_VERSION = 1"

definition empty_registry :: RegistryFile where
  "empty_registry = \<lparr>registry_file_version = REGISTRY_VERSION, registry_worktrees = []\<rparr>"

datatype RepositoryPoolError =
    PoolGit GitError
  | PoolFile string file_failure
  | InvalidLocatorComponent string string
  | InvalidReviewId string
  | InvalidCloneUrl
  | ReviewIdAlreadyManaged string
  | WorktreePathAlreadyExists string
  | DirtyManagedWorktree string
  | MissingManagedWorktree string
  | UnknownManagedWorktree string
  | UnsafeManagedPath string
  | UnsafeMirrorPath string
  | UnusableMirror string
  | MirrorRemoteMismatch string
  | KnownCloneMissingPinnedCommit string
  | PinnedCommitUnavailable string GitSha GitSha string
  | MirrorInUse string
  | MirrorHasWorktrees string "string list"
  | RegistryDecode string
  | RegistryEncode
  | UnsupportedRegistryVersion string nat
  | LockTimeout string

definition safe_component :: "string \<Rightarrow> bool" where
  "safe_component s \<longleftrightarrow>
    s \<noteq> [] \<and> length s \<le> 128 \<and> s \<noteq> ''.'' \<and> s \<noteq> ''..''
    \<and> list_all (\<lambda>c. is_alnum c \<or> c \<in> {CHR ''.'', CHR ''_'', CHR ''-''}) s"

definition RepositoryLocator_new :: "string \<Rightarrow> string \<Rightarrow> string \<Rightarrow> RepositoryPoolError + RepositoryLocator" where
  "RepositoryLocator_new host owner repository =
    (let locator = \<lparr>locator_host = to_ascii_lowercase host, locator_owner = owner, locator_repository = repository\<rparr> in
     vthen (check_all (\<lambda>(label, s). ensure (safe_component s) (InvalidLocatorComponent label s))
       [(''host'', locator_host locator), (''owner'', owner), (''repository'', repository)])
     (Inr locator))"

definition normalized_identity :: "RepositoryLocator \<Rightarrow> string" where
  "normalized_identity l = locator_host l @ ''/'' @ locator_owner l @ ''/'' @ locator_repository l"

definition validate_review_id :: "string \<Rightarrow> RepositoryPoolError + unit" where
  "validate_review_id review = ensure (safe_component review) (InvalidReviewId review)"

definition validate_clone_url :: "string \<Rightarrow> RepositoryPoolError + unit" where
  "validate_clone_url url =
    ensure (url \<noteq> [] \<and> length url \<le> 4096 \<and> char_of (0::nat) \<notin> set url) InvalidCloneUrl"

definition equivalent_remotes :: "string \<Rightarrow> string \<Rightarrow> bool" where
  "equivalent_remotes left right \<longleftrightarrow>
    normalize_remote_url left = normalize_remote_url right
    \<or> trim_end_char CHR ''/'' left = trim_end_char CHR ''/'' right"

record RepositoryPool =
  cache_root :: string
  application_data_root :: string

definition mirrors_root :: "RepositoryPool \<Rightarrow> string" where
  "mirrors_root pool = path_join (cache_root pool) ''git-mirrors''"

definition reviews_root :: "RepositoryPool \<Rightarrow> string" where
  "reviews_root pool = path_join (application_data_root pool) ''reviews''"

definition mirror_path :: "RepositoryPool \<Rightarrow> RepositoryLocator \<Rightarrow> string" where
  "mirror_path pool l =
    path_join (path_join (path_join (mirrors_root pool) (locator_host l)) (locator_owner l))
      (locator_repository l @ ''.git'')"

definition worktree_path :: "RepositoryPool \<Rightarrow> string \<Rightarrow> RepositoryPoolError + string" where
  "worktree_path pool review =
    vthen (validate_review_id review)
      (Inr (path_join (path_join (reviews_root pool) review) ''worktree''))"

definition registry_path :: "RepositoryPool \<Rightarrow> string" where
  "registry_path pool = path_join (application_data_root pool) ''managed-worktrees.json''"

definition registry_temporary :: "RepositoryPool \<Rightarrow> string" where
  "registry_temporary pool = registry_path pool @ ''.tmp''"

definition lock_path :: "RepositoryPool \<Rightarrow> string" where
  "lock_path pool = path_join (application_data_root pool) ''.managed-worktrees.lock''"

section \<open>The world of the pool\<close>

datatype open_failure = AlreadyExists | OpenFailure file_failure

record 'w pool_env =
  pool_git :: "'w git_env"
  pool_exists :: "string \<Rightarrow> 'w \<Rightarrow> bool \<times> 'w"
  pool_is_dir :: "string \<Rightarrow> 'w \<Rightarrow> bool \<times> 'w"
  pool_canonicalize :: "string \<Rightarrow> 'w \<Rightarrow> (file_failure + string) \<times> 'w"
  pool_read_dir :: "string \<Rightarrow> 'w \<Rightarrow> (file_failure + (file_failure + string \<times> (file_failure + bool)) list) \<times> 'w"
  pool_create_dir_all :: "string \<Rightarrow> 'w \<Rightarrow> (file_failure + unit) \<times> 'w"
  pool_remove_dir :: "string \<Rightarrow> 'w \<Rightarrow> (file_failure + unit) \<times> 'w"
  pool_remove_dir_all :: "string \<Rightarrow> 'w \<Rightarrow> (file_failure + unit) \<times> 'w"
  pool_remove_file :: "string \<Rightarrow> 'w \<Rightarrow> (file_failure + unit) \<times> 'w"
  pool_write :: "string \<Rightarrow> string \<Rightarrow> 'w \<Rightarrow> (file_failure + unit) \<times> 'w"
  pool_rename :: "string \<Rightarrow> string \<Rightarrow> 'w \<Rightarrow> (file_failure + unit) \<times> 'w"
  pool_create_new :: "string \<Rightarrow> 'w \<Rightarrow> (open_failure + unit) \<times> 'w"
  pool_file_age :: "string \<Rightarrow> 'w \<Rightarrow> nat option \<times> 'w"
  pool_instant :: "'w \<Rightarrow> nat \<times> 'w"
  pool_sleep :: "nat \<Rightarrow> 'w \<Rightarrow> 'w"
  pool_decode :: "string \<Rightarrow> RegistryFile option"
  pool_encode :: "RegistryFile \<Rightarrow> string option"

type_synonym ('w, 'a) pool = "'w \<Rightarrow> (RepositoryPoolError + 'a) \<times> 'w"

definition file_op :: "string \<Rightarrow> ('w \<Rightarrow> (file_failure + 'a) \<times> 'w) \<Rightarrow> ('w, 'a) pool" where
  "file_op path m w = (case m w of (r, w) \<Rightarrow> (map_err (PoolFile path) r, w))"

definition look :: "('w \<Rightarrow> 'a \<times> 'w) \<Rightarrow> ('w, 'a) pool" where
  "look m w = (case m w of (x, w) \<Rightarrow> (Inr x, w))"

definition pool_ok :: "RepositoryPoolError + 'a \<Rightarrow> ('w, 'a) pool" where
  "pool_ok r = io_return r"

definition git_at :: "'w pool_env \<Rightarrow> string \<Rightarrow> 'w GitRepository" where
  "git_at env path = \<lparr>repo_root = path, repo_env = pool_git env\<rparr>"

definition run_git :: "'w pool_env \<Rightarrow> string \<Rightarrow> string list \<Rightarrow> ('w, GitOutput) pool" where
  "run_git env path args w = (case execute (git_at env path) args w of (r, w) \<Rightarrow> (map_err PoolGit r, w))"

definition require_git :: "'w pool_env \<Rightarrow> string \<Rightarrow> string list \<Rightarrow> ('w, GitOutput) pool" where
  "require_git env path args w = (case require_success (git_at env path) args w of (r, w) \<Rightarrow> (map_err PoolGit r, w))"

definition has_commit :: "'w pool_env \<Rightarrow> string \<Rightarrow> GitSha \<Rightarrow> ('w, bool) pool" where
  "has_commit env path sha =
    io_bind (run_git env path [''cat-file'', ''-e'', sha_str sha @ ''^{commit}'']) (\<lambda>output.
    pool_ok (Inr (output_success output)))"

definition has_commits :: "'w pool_env \<Rightarrow> string \<Rightarrow> PinnedGitRevision \<Rightarrow> ('w, bool) pool" where
  "has_commits env path revision =
    io_bind (has_commit env path (pinned_base_sha revision)) (\<lambda>base.
    if base then has_commit env path (pinned_head_sha revision) else pool_ok (Inr False))"

definition listed_worktrees :: "'w pool_env \<Rightarrow> string \<Rightarrow> ('w, string list) pool" where
  "listed_worktrees env source =
    io_bind (require_git env source [''worktree'', ''list'', ''--porcelain'']) (\<lambda>output.
    pool_ok (Inr (List.map_filter (strip_prefix ''worktree '') (str_lines (utf8_lossy (output_stdout output))))))"

definition comparable_path :: "'w pool_env \<Rightarrow> string \<Rightarrow> ('w, string) pool" where
  "comparable_path env path =
    io_bind (look (pool_canonicalize env path)) (\<lambda>r.
    pool_ok (Inr (case r of Inr p \<Rightarrow> p | Inl _ \<Rightarrow> path)))"

section \<open>Paths as Rust compares and orders them\<close>

fun component_key :: "path_component \<Rightarrow> nat \<times> string" where
  "component_key RootDir = (0, [])"
| "component_key CurDir = (1, [])"
| "component_key ParentDir = (2, [])"
| "component_key (Normal s) = (3, s)"

definition path_key :: "string \<Rightarrow> (nat \<times> string) list" where
  "path_key p = map component_key (path_components p)"

definition same_path :: "string \<Rightarrow> string \<Rightarrow> bool" where
  "same_path p q \<longleftrightarrow> path_components p = path_components q"

fun path_insert :: "string \<Rightarrow> string list \<Rightarrow> string list" where
  "path_insert p ps = (if list_ex (same_path p) ps then ps else ps @ [p])"

definition path_set :: "string list \<Rightarrow> string list" where
  "path_set ps = sort_key path_key (fold path_insert ps [])"

section \<open>The registry\<close>

definition record_position :: "string \<Rightarrow> ManagedWorktree list \<Rightarrow> ManagedWorktree option" where
  "record_position review rs = find (\<lambda>r. managed_review_id r = review) rs"

fun replace_first :: "ManagedWorktree \<Rightarrow> ManagedWorktree list \<Rightarrow> ManagedWorktree list" where
  "replace_first r [] = [r]"
| "replace_first r (x # xs) =
    (if managed_review_id x = managed_review_id r then r # xs else x # replace_first r xs)"

definition upsert_record :: "ManagedWorktree \<Rightarrow> ManagedWorktree list \<Rightarrow> ManagedWorktree list" where
  "upsert_record r rs = sort_key managed_review_id (replace_first r rs)"

fun remove_record :: "string \<Rightarrow> ManagedWorktree list \<Rightarrow> ManagedWorktree list" where
  "remove_record review [] = []"
| "remove_record review (x # xs) = (if managed_review_id x = review then xs else x # remove_record review xs)"

definition registry_read :: "'w pool_env \<Rightarrow> RepositoryPool \<Rightarrow> ('w, RegistryFile) pool" where
  "registry_read env pool =
    (let path = registry_path pool in
     io_bind (look (pool_exists env path)) (\<lambda>there.
     if \<not> there then pool_ok (Inr empty_registry)
     else io_bind (file_op path (env_read (pool_git env) path)) (\<lambda>contents.
       pool_ok (rbind (ok_or (RegistryDecode path) (pool_decode env contents)) (\<lambda>state.
         vthen (ensure (registry_file_version state = REGISTRY_VERSION)
             (UnsupportedRegistryVersion path (registry_file_version state)))
           (Inr state))))))"

definition registry_write :: "'w pool_env \<Rightarrow> RepositoryPool \<Rightarrow> RegistryFile \<Rightarrow> ('w, unit) pool" where
  "registry_write env pool state =
    (let path = registry_path pool in
     io_bind (pool_ok (ok_or (PoolFile path (FileFailure ''registry has no parent'')) (path_parent path))) (\<lambda>parent.
     io_bind (file_op parent (pool_create_dir_all env parent)) (\<lambda>_.
     io_bind (pool_ok (ok_or RegistryEncode (pool_encode env state))) (\<lambda>bytes.
     io_bind (file_op (registry_temporary pool) (pool_write env (registry_temporary pool) bytes)) (\<lambda>_.
     file_op path (pool_rename env (registry_temporary pool) path))))))"

definition registry_list :: "'w pool_env \<Rightarrow> RepositoryPool \<Rightarrow> ('w, ManagedWorktree list) pool" where
  "registry_list env pool = io_bind (registry_read env pool) (\<lambda>state. pool_ok (Inr (registry_worktrees state)))"

definition registry_get :: "'w pool_env \<Rightarrow> RepositoryPool \<Rightarrow> string \<Rightarrow> ('w, ManagedWorktree option) pool" where
  "registry_get env pool review =
    io_bind (registry_read env pool) (\<lambda>state. pool_ok (Inr (record_position review (registry_worktrees state))))"

definition registry_upsert :: "'w pool_env \<Rightarrow> RepositoryPool \<Rightarrow> ManagedWorktree \<Rightarrow> ('w, unit) pool" where
  "registry_upsert env pool r =
    io_bind (registry_read env pool) (\<lambda>state.
    registry_write env pool (state\<lparr>registry_worktrees := upsert_record r (registry_worktrees state)\<rparr>))"

definition registry_remove :: "'w pool_env \<Rightarrow> RepositoryPool \<Rightarrow> string \<Rightarrow> ('w, ManagedWorktree option) pool" where
  "registry_remove env pool review =
    io_bind (registry_read env pool) (\<lambda>state.
    case record_position review (registry_worktrees state) of
      None \<Rightarrow> pool_ok (Inr None)
    | Some r \<Rightarrow>
        io_bind (registry_write env pool (state\<lparr>registry_worktrees := remove_record review (registry_worktrees state)\<rparr>))
          (\<lambda>_. pool_ok (Inr (Some r))))"

section \<open>Managed paths\<close>

definition is_managed_path :: "'w pool_env \<Rightarrow> RepositoryPool \<Rightarrow> string \<Rightarrow> ('w, bool) pool" where
  "is_managed_path env pool path =
    (if ParentDir \<in> set (path_components path) then pool_ok (Inr False)
     else io_bind (look (pool_canonicalize env path)) (\<lambda>p.
       io_bind (look (pool_canonicalize env (reviews_root pool))) (\<lambda>root.
       pool_ok (Inr (case (p, root) of
           (Inr p, Inr root) \<Rightarrow> starts_with_path p root
         | _ \<Rightarrow> starts_with_path path (reviews_root pool))))))"

definition ensure_managed_path :: "'w pool_env \<Rightarrow> RepositoryPool \<Rightarrow> string \<Rightarrow> ('w, unit) pool" where
  "ensure_managed_path env pool path =
    io_bind (is_managed_path env pool path) (\<lambda>managed. pool_ok (ensure managed (UnsafeManagedPath path)))"

definition ensure_mirror_path :: "RepositoryPool \<Rightarrow> string \<Rightarrow> RepositoryPoolError + unit" where
  "ensure_mirror_path pool path = ensure (starts_with_path path (mirrors_root pool)) (UnsafeMirrorPath path)"

text \<open>Goes through a listing in its order and into each directory of it; an entry that cannot be
  read is reported at the path of the listing, an unknown file type at the path of the entry.\<close>

fun each_directory ::
  "(string \<Rightarrow> string \<Rightarrow> ('w, string list) pool) \<Rightarrow> string
    \<Rightarrow> (file_failure + string \<times> (file_failure + bool)) list \<Rightarrow> ('w, string list) pool" where
  "each_directory k path [] = pool_ok (Inr [])"
| "each_directory k path (Inl e # entries) = pool_ok (Inl (PoolFile path e))"
| "each_directory k path (Inr (name, Inl e) # entries) = pool_ok (Inl (PoolFile (path_join path name) e))"
| "each_directory k path (Inr (name, Inr False) # entries) = each_directory k path entries"
| "each_directory k path (Inr (name, Inr True) # entries) =
    io_bind (k name (path_join path name)) (\<lambda>xs.
    io_bind (each_directory k path entries) (\<lambda>ys. pool_ok (Inr (xs @ ys))))"

definition in_directory ::
  "'w pool_env \<Rightarrow> (string \<Rightarrow> string \<Rightarrow> ('w, string list) pool) \<Rightarrow> string \<Rightarrow> ('w, string list) pool" where
  "in_directory env k path = io_bind (file_op path (pool_read_dir env path)) (each_directory k path)"

definition mirror_entry :: "string \<Rightarrow> string \<Rightarrow> ('w, string list) pool" where
  "mirror_entry name path = pool_ok (Inr (if ends_with (utf8_lossy name) ''.git'' then [path] else []))"

definition managed_mirror_paths :: "'w pool_env \<Rightarrow> RepositoryPool \<Rightarrow> ('w, string list) pool" where
  "managed_mirror_paths env pool =
    io_bind (look (pool_exists env (mirrors_root pool))) (\<lambda>there.
    if \<not> there then pool_ok (Inr [])
    else io_bind (in_directory env (\<lambda>_. in_directory env (\<lambda>_. in_directory env mirror_entry)) (mirrors_root pool))
      (\<lambda>mirrors. pool_ok (Inr (sort_key path_key mirrors))))"

section \<open>Preparing a worktree\<close>

definition known_clone_is_usable ::
  "'w pool_env \<Rightarrow> string \<Rightarrow> string \<Rightarrow> PinnedGitRevision \<Rightarrow> ('w, bool) pool" where
  "known_clone_is_usable env candidate url revision =
    io_bind (look (pool_is_dir env candidate)) (\<lambda>there.
    if \<not> there then pool_ok (Inr False)
    else io_bind (look (inspect (git_at env candidate))) (\<lambda>inspected.
    case inspected of
      Inl _ \<Rightarrow> pool_ok (Inr False)
    | Inr identity \<Rightarrow> (case identity_primary_remote identity of
        None \<Rightarrow> pool_ok (Inr False)
      | Some remote \<Rightarrow>
          if \<not> equivalent_remotes remote url then pool_ok (Inr False)
          else io_bind (run_git env candidate [''rev-parse'', ''--is-bare-repository'']) (\<lambda>bare.
          if \<not> output_success bare \<or> stdout_trimmed bare \<noteq> ''false'' then pool_ok (Inr False)
          else io_bind (run_git env candidate [''rev-parse'', ''--path-format=absolute'', ''--git-dir'']) (\<lambda>git_dir.
            io_bind (run_git env candidate [''rev-parse'', ''--path-format=absolute'', ''--git-common-dir'']) (\<lambda>common.
            if \<not> output_success git_dir \<or> \<not> output_success common
              \<or> stdout_trimmed git_dir \<noteq> stdout_trimmed common then pool_ok (Inr False)
            else has_commits env candidate revision))))))"

definition ensure_mirror :: "'w pool_env \<Rightarrow> RepositoryPool \<Rightarrow> RepositoryLocator \<Rightarrow> string \<Rightarrow> ('w, string) pool" where
  "ensure_mirror env pool locator url =
    (let mirror = mirror_path pool locator in
     io_bind (pool_ok (ensure_mirror_path pool mirror)) (\<lambda>_.
     io_bind (look (pool_exists env mirror)) (\<lambda>there.
     if there then
       io_bind (run_git env mirror [''rev-parse'', ''--is-bare-repository'']) (\<lambda>bare.
       if \<not> output_success bare \<or> stdout_trimmed bare \<noteq> ''true'' then pool_ok (Inl (UnusableMirror mirror))
       else io_bind (require_git env mirror [''remote'', ''get-url'', ''origin'']) (\<lambda>remote.
         pool_ok (vthen (ensure (equivalent_remotes (stdout_trimmed remote) url) (MirrorRemoteMismatch mirror))
           (Inr mirror))))
     else
       io_bind (pool_ok (ok_or (UnsafeMirrorPath mirror) (path_parent mirror))) (\<lambda>parent.
       io_bind (file_op parent (pool_create_dir_all env parent)) (\<lambda>_.
       io_bind (require_git env parent [''init'', ''--bare'', mirror]) (\<lambda>_.
       io_bind (require_git env mirror [''remote'', ''add'', ''origin'', url]) (\<lambda>_.
       pool_ok (Inr mirror))))))))"

fun select_source ::
  "'w pool_env \<Rightarrow> RepositoryPool \<Rightarrow> PrepareManagedWorktreeRequest \<Rightarrow> string list
    \<Rightarrow> ('w, RepositoryObjectSource) pool" where
  "select_source env pool request [] =
    io_bind (ensure_mirror env pool (prepare_repository request) (prepare_clone_url request)) (\<lambda>mirror.
    pool_ok (Inr (ManagedMirror (StoredPath_new mirror))))"
| "select_source env pool request (candidate # candidates) =
    io_bind (known_clone_is_usable env candidate (prepare_clone_url request) (prepare_revision request)) (\<lambda>usable.
    if usable then pool_ok (Inr (KnownClone (StoredPath_new candidate)))
    else select_source env pool request candidates)"

definition pinned_refspecs :: "PinnedGitRevision \<Rightarrow> string list" where
  "pinned_refspecs revision =
    (let base = sha_str (pinned_base_sha revision); head = sha_str (pinned_head_sha revision) in
     (base @ '':refs/localreview/base/'' @ base) #
     (if pinned_head_sha revision \<noteq> pinned_base_sha revision then [head @ '':refs/localreview/head/'' @ head] else []))"

definition is_known_clone :: "RepositoryObjectSource \<Rightarrow> bool" where
  "is_known_clone source = (case source of KnownClone _ \<Rightarrow> True | ManagedMirror _ \<Rightarrow> False)"

definition ensure_pinned_objects ::
  "'w pool_env \<Rightarrow> RepositoryObjectSource \<Rightarrow> string \<Rightarrow> PinnedGitRevision \<Rightarrow> ('w, unit) pool" where
  "ensure_pinned_objects env source url revision =
    (let path = source_path source in
     io_bind (has_commits env path revision) (\<lambda>there.
     if there then pool_ok (Inr ())
     else if is_known_clone source then pool_ok (Inl (KnownCloneMissingPinnedCommit path))
     else io_bind (require_git env path ([''fetch'', ''--no-tags'', ''origin''] @ pinned_refspecs revision)) (\<lambda>_.
       io_bind (has_commits env path revision) (\<lambda>there.
       pool_ok (ensure there (PinnedCommitUnavailable path (pinned_base_sha revision) (pinned_head_sha revision) url))))))"

definition create_worktree ::
  "'w pool_env \<Rightarrow> RepositoryPool \<Rightarrow> PrepareManagedWorktreeRequest \<Rightarrow> string \<Rightarrow> ('w, ManagedWorktree) pool" where
  "create_worktree env pool request target =
    io_bind (select_source env pool request (prepare_known_clones request)) (\<lambda>source.
    io_bind (ensure_pinned_objects env source (prepare_clone_url request) (prepare_revision request)) (\<lambda>_.
    io_bind (pool_ok (ok_or (UnsafeManagedPath target) (path_parent target))) (\<lambda>directory.
    io_bind (file_op directory (pool_create_dir_all env directory)) (\<lambda>_.
    io_bind (require_git env (source_path source) [''worktree'', ''add'', ''--detach'', ''--quiet'', target,
        sha_str (pinned_head_sha (prepare_revision request))]) (\<lambda>_.
    io_bind (look (env_now (pool_git env))) (\<lambda>now.
    let r = \<lparr>managed_review_id = prepare_review_id request, managed_repository = prepare_repository request,
          managed_worktree_path = StoredPath_new target, managed_source = source,
          managed_revision = prepare_revision request, managed_created_at = now\<rparr>
    in io_bind (registry_upsert env pool r) (\<lambda>_. pool_ok (Inr r))))))))"

definition prepare_locked ::
  "'w pool_env \<Rightarrow> RepositoryPool \<Rightarrow> PrepareManagedWorktreeRequest \<Rightarrow> ('w, ManagedWorktree) pool" where
  "prepare_locked env pool request =
    io_bind (pool_ok (validate_review_id (prepare_review_id request))) (\<lambda>_.
    io_bind (pool_ok (validate_clone_url (prepare_clone_url request))) (\<lambda>_.
    io_bind (pool_ok (worktree_path pool (prepare_review_id request))) (\<lambda>target.
    io_bind (registry_get env pool (prepare_review_id request)) (\<lambda>found.
    case found of
      Some r \<Rightarrow>
        if managed_repository r = prepare_repository request \<and> managed_revision r = prepare_revision request
        then io_bind (look (pool_is_dir env (path_str (managed_worktree_path r)))) (\<lambda>there.
          pool_ok (if there then Inr r else Inl (ReviewIdAlreadyManaged (prepare_review_id request))))
        else pool_ok (Inl (ReviewIdAlreadyManaged (prepare_review_id request)))
    | None \<Rightarrow>
        io_bind (look (pool_exists env target)) (\<lambda>there.
        if there then pool_ok (Inl (WorktreePathAlreadyExists target))
        else create_worktree env pool request target)))))"


section \<open>Deleting and repairing\<close>

definition pool_status_arguments :: "string list" where
  "pool_status_arguments = [''status'', ''--porcelain=v1'', ''-z'', ''--untracked-files=all'']"

definition is_dirty :: "'w pool_env \<Rightarrow> ManagedWorktree \<Rightarrow> ('w, bool) pool" where
  "is_dirty env r =
    (let path = path_str (managed_worktree_path r) in
     io_bind (look (pool_is_dir env path)) (\<lambda>there.
     if \<not> there then pool_ok (Inl (MissingManagedWorktree path))
     else io_bind (run_git env path pool_status_arguments) (\<lambda>output.
       pool_ok (if output_success output then Inr (output_stdout output \<noteq> [])
         else Inl (PoolGit (CommandFailed (display_command (GitCommand_new (git_at env path) (take 3 pool_status_arguments)))
           (stderr_trimmed output)))))))"

definition remove_empty_review_directory :: "'w pool_env \<Rightarrow> string \<Rightarrow> ('w, unit) pool" where
  "remove_empty_review_directory env worktree =
    (case path_parent worktree of
       None \<Rightarrow> pool_ok (Inr ())
     | Some directory \<Rightarrow>
         io_bind (look (pool_is_dir env directory)) (\<lambda>there.
         if \<not> there then pool_ok (Inr ())
         else io_bind (file_op directory (pool_read_dir env directory)) (\<lambda>entries.
           if entries \<noteq> [] then pool_ok (Inr ())
           else file_op directory (pool_remove_dir env directory))))"

definition prune :: "'w pool_env \<Rightarrow> string \<Rightarrow> ('w, unit) pool" where
  "prune env source = io_bind (require_git env source [''worktree'', ''prune'']) (\<lambda>_. pool_ok (Inr ()))"

definition delete_locked :: "'w pool_env \<Rightarrow> RepositoryPool \<Rightarrow> string \<Rightarrow> ('w, DeletedManagedWorktree) pool" where
  "delete_locked env pool review =
    io_bind (pool_ok (validate_review_id review)) (\<lambda>_.
    io_bind (registry_get env pool review) (\<lambda>found.
    io_bind (pool_ok (ok_or (UnknownManagedWorktree review) found)) (\<lambda>r.
    let path = path_str (managed_worktree_path r); source = source_path (managed_source r) in
    io_bind (ensure_managed_path env pool path) (\<lambda>_.
    io_bind (look (pool_exists env path)) (\<lambda>there.
    io_bind (if there then
        io_bind (is_dirty env r) (\<lambda>dirty.
        if dirty then pool_ok (Inl (DirtyManagedWorktree path))
        else io_bind (require_git env source [''worktree'', ''remove'', path]) (\<lambda>_. pool_ok (Inr ())))
      else pool_ok (Inr ())) (\<lambda>_.
    io_bind (look (pool_exists env source)) (\<lambda>source_there.
    io_bind (if source_there then prune env source else pool_ok (Inr ())) (\<lambda>_.
    io_bind (registry_remove env pool review) (\<lambda>_.
    io_bind (remove_empty_review_directory env path) (\<lambda>_.
    pool_ok (Inr \<lparr>deleted_record = r, deleted_mirror_retained = \<not> is_known_clone (managed_source r)\<rparr>)))))))))))"

fun missing_records :: "'w pool_env \<Rightarrow> ManagedWorktree list \<Rightarrow> ('w, ManagedWorktree list) pool" where
  "missing_records env [] = pool_ok (Inr [])"
| "missing_records env (r # rs) =
    io_bind (look (pool_is_dir env (path_str (managed_worktree_path r)))) (\<lambda>there.
    io_bind (missing_records env rs) (\<lambda>ms. pool_ok (Inr (if there then ms else r # ms))))"

fun orphans_of :: "'w pool_env \<Rightarrow> RepositoryPool \<Rightarrow> string list \<Rightarrow> string \<Rightarrow> string list
    \<Rightarrow> ('w, UnregisteredManagedWorktree list) pool" where
  "orphans_of env pool registered source [] = pool_ok (Inr [])"
| "orphans_of env pool registered source (path # paths) =
    io_bind (is_managed_path env pool path) (\<lambda>managed.
    io_bind (if managed then io_bind (comparable_path env path) (\<lambda>p.
          pool_ok (Inr (if list_ex (same_path p) registered then []
            else [\<lparr>orphan_source_path = StoredPath_new source, orphan_worktree_path = StoredPath_new path\<rparr>])))
        else pool_ok (Inr [])) (\<lambda>found.
    io_bind (orphans_of env pool registered source paths) (\<lambda>rest. pool_ok (Inr (found @ rest)))))"

fun orphans_in :: "'w pool_env \<Rightarrow> RepositoryPool \<Rightarrow> string list \<Rightarrow> string list
    \<Rightarrow> ('w, UnregisteredManagedWorktree list) pool" where
  "orphans_in env pool registered [] = pool_ok (Inr [])"
| "orphans_in env pool registered (source # sources) =
    io_bind (look (pool_exists env source)) (\<lambda>there.
    io_bind (if there then io_bind (listed_worktrees env source) (orphans_of env pool registered source)
        else pool_ok (Inr [])) (\<lambda>found.
    io_bind (orphans_in env pool registered sources) (\<lambda>rest. pool_ok (Inr (found @ rest)))))"

definition inspect_orphans :: "'w pool_env \<Rightarrow> RepositoryPool \<Rightarrow> ('w, WorktreeOrphanReport) pool" where
  "inspect_orphans env pool =
    io_bind (registry_list env pool) (\<lambda>records.
    io_bind (io_map (\<lambda>r. comparable_path env (path_str (managed_worktree_path r))) records) (\<lambda>registered.
    io_bind (missing_records env records) (\<lambda>missing.
    io_bind (managed_mirror_paths env pool) (\<lambda>mirrors.
    io_bind (orphans_in env pool registered (path_set (map (source_path \<circ> managed_source) records @ mirrors))) (\<lambda>found.
    pool_ok (Inr \<lparr>missing_registrations = missing,
      unregistered_worktrees = sort_key orphan_worktree_path found\<rparr>))))))"

fun repair_missing :: "'w pool_env \<Rightarrow> RepositoryPool \<Rightarrow> ManagedWorktree list \<Rightarrow> ('w, string list) pool" where
  "repair_missing env pool [] = pool_ok (Inr [])"
| "repair_missing env pool (r # rs) =
    (let source = source_path (managed_source r) in
     io_bind (look (pool_exists env source)) (\<lambda>there.
     io_bind (if there then prune env source else pool_ok (Inr ())) (\<lambda>_.
     io_bind (registry_remove env pool (managed_review_id r)) (\<lambda>_.
     io_bind (repair_missing env pool rs) (\<lambda>done. pool_ok (Inr (managed_review_id r # done)))))))"

fun repair_unregistered ::
  "'w pool_env \<Rightarrow> UnregisteredManagedWorktree list
    \<Rightarrow> ('w, UnregisteredManagedWorktree list \<times> UnregisteredManagedWorktree list) pool" where
  "repair_unregistered env [] = pool_ok (Inr ([], []))"
| "repair_unregistered env (x # xs) =
    (let path = path_str (orphan_worktree_path x); source = path_str (orphan_source_path x) in
     io_bind (look (pool_is_dir env path)) (\<lambda>there.
     io_bind (if there then io_bind (run_git env path pool_status_arguments) (\<lambda>status.
           pool_ok (Inr (\<not> output_success status \<or> output_stdout status \<noteq> [])))
         else pool_ok (Inr False)) (\<lambda>dirty.
     if dirty then io_bind (repair_unregistered env xs) (\<lambda>(removed, left). pool_ok (Inr (removed, x # left)))
     else
       io_bind (require_git env source [''worktree'', ''remove'', path]) (\<lambda>_.
       io_bind (prune env source) (\<lambda>_.
       io_bind (repair_unregistered env xs) (\<lambda>(removed, left). pool_ok (Inr (x # removed, left))))))))"

definition repair_orphans_locked :: "'w pool_env \<Rightarrow> RepositoryPool \<Rightarrow> ('w, WorktreeRepairReport) pool" where
  "repair_orphans_locked env pool =
    io_bind (inspect_orphans env pool) (\<lambda>report.
    io_bind (repair_missing env pool (missing_registrations report)) (\<lambda>repaired.
    io_bind (repair_unregistered env (unregistered_worktrees report)) (\<lambda>(removed, dirty).
    pool_ok (Inr \<lparr>repaired_missing_registrations = repaired, removed_unregistered = removed,
      dirty_unregistered = dirty\<rparr>))))"

fun different_paths :: "'w pool_env \<Rightarrow> string \<Rightarrow> string list \<Rightarrow> ('w, string list) pool" where
  "different_paths env mirror [] = pool_ok (Inr [])"
| "different_paths env mirror (path # paths) =
    io_bind (comparable_path env path) (\<lambda>p.
    io_bind (different_paths env mirror paths) (\<lambda>rest.
    pool_ok (Inr (if same_path p mirror then rest else path # rest))))"

definition remove_unused_mirror_locked :: "'w pool_env \<Rightarrow> RepositoryPool \<Rightarrow> RepositoryLocator \<Rightarrow> ('w, unit) pool" where
  "remove_unused_mirror_locked env pool locator =
    (let mirror = mirror_path pool locator in
     io_bind (pool_ok (ensure_mirror_path pool mirror)) (\<lambda>_.
     io_bind (registry_list env pool) (\<lambda>records.
     if list_ex (\<lambda>r. same_path (source_path (managed_source r)) mirror) records
     then pool_ok (Inl (MirrorInUse mirror))
     else io_bind (look (pool_exists env mirror)) (\<lambda>there.
       if \<not> there then pool_ok (Inr ())
       else io_bind (comparable_path env mirror) (\<lambda>own.
         io_bind (listed_worktrees env mirror) (\<lambda>listed.
         io_bind (different_paths env own listed) (\<lambda>others.
         if others \<noteq> [] then pool_ok (Inl (MirrorHasWorktrees mirror others))
         else file_op mirror (pool_remove_dir_all env mirror))))))))"

section \<open>The lifecycle lock\<close>

definition POOL_LOCK_TIMEOUT :: nat where "POOL_LOCK_TIMEOUT = 30 * 1000"

definition POOL_LOCK_STALE_AFTER :: nat where "POOL_LOCK_STALE_AFTER = 5 * 60 * 1000"

definition lock_is_stale :: "'w pool_env \<Rightarrow> string \<Rightarrow> 'w \<Rightarrow> bool \<times> 'w" where
  "lock_is_stale env path w = (case pool_file_age env path w of
    (age, w) \<Rightarrow> (case age of None \<Rightarrow> False | Some ms \<Rightarrow> POOL_LOCK_STALE_AFTER < ms, w))"

text \<open>One round of the loop: \<open>None\<close> goes round again.\<close>

definition lock_attempt ::
  "'w pool_env \<Rightarrow> string \<Rightarrow> nat \<Rightarrow> 'w \<Rightarrow> (RepositoryPoolError + unit) option \<times> 'w" where
  "lock_attempt env path deadline w =
    (case pool_create_new env path w of
       (Inr (), w) \<Rightarrow> (Some (Inr ()), w)
     | (Inl (OpenFailure e), w) \<Rightarrow> (Some (Inl (PoolFile path e)), w)
     | (Inl AlreadyExists, w) \<Rightarrow> (case lock_is_stale env path w of
         (True, w) \<Rightarrow> (case pool_remove_file env path w of
             (Inr (), w) \<Rightarrow> (None, w)
           | (Inl FileNotFound, w) \<Rightarrow> (None, w)
           | (Inl (FileFailure t), w) \<Rightarrow> (Some (Inl (PoolFile path (FileFailure t))), w))
       | (False, w) \<Rightarrow> (case pool_instant env w of (now, w) \<Rightarrow>
           if deadline \<le> now then (Some (Inl (LockTimeout path)), w) else (None, pool_sleep env 25 w))))"

partial_function (option) lock_loop ::
  "'w pool_env \<Rightarrow> string \<Rightarrow> nat \<Rightarrow> 'w \<Rightarrow> ((RepositoryPoolError + unit) \<times> 'w) option" where
  "lock_loop env path deadline w =
    (case lock_attempt env path deadline w of (r, w) \<Rightarrow> (case r of
       Some r \<Rightarrow> Some (r, w)
     | None \<Rightarrow> lock_loop env path deadline w))"

definition acquire_lock ::
  "'w pool_env \<Rightarrow> RepositoryPool \<Rightarrow> 'w \<Rightarrow> ((RepositoryPoolError + unit) \<times> 'w) option" where
  "acquire_lock env pool w =
    (case file_op (application_data_root pool) (pool_create_dir_all env (application_data_root pool)) w of
       (Inl e, w) \<Rightarrow> Some (Inl e, w)
     | (Inr (), w) \<Rightarrow> (case pool_instant env w of (now, w) \<Rightarrow>
         lock_loop env (lock_path pool) (now + POOL_LOCK_TIMEOUT) w))"

text \<open>The lock file goes when the operation returns, whatever it returns.\<close>

definition with_lock ::
  "'w pool_env \<Rightarrow> RepositoryPool \<Rightarrow> ('w, 'a) pool \<Rightarrow> 'w \<Rightarrow> ((RepositoryPoolError + 'a) \<times> 'w) option" where
  "with_lock env pool m w =
    (case acquire_lock env pool w of
       None \<Rightarrow> None
     | Some (Inl e, w) \<Rightarrow> Some (Inl e, w)
     | Some (Inr (), w) \<Rightarrow> (case m w of (r, w) \<Rightarrow>
         Some (r, snd (pool_remove_file env (lock_path pool) w))))"

definition prepare where "prepare env pool request = with_lock env pool (prepare_locked env pool request)"

definition delete where "delete env pool review = with_lock env pool (delete_locked env pool review)"

definition repair_orphans where "repair_orphans env pool = with_lock env pool (repair_orphans_locked env pool)"

definition remove_unused_mirror where
  "remove_unused_mirror env pool locator = with_lock env pool (remove_unused_mirror_locked env pool locator)"

end
