(* ===== verification/Git_Pool_Props.thy ===== *)
theory Git_Pool_Props
  imports Git_Pool Git_Effects
begin

text \<open>
  What the pool may do to the machine.  The pool runs on an environment that logs every Git
  command with its result, every change of the file system and the answers a removal rests on;
  \<open>allowed\<close> says which entries may follow which log.  The theorems at the end say that no
  operation ever does anything else: it fetches only into its own mirrors and removes only
  worktrees below its own directory that it has found clean.
\<close>

section \<open>The log\<close>

datatype pool_event =
    PoolRan string "string list" "GitError + GitOutput"
  | PoolDirectory string bool
  | PoolCanonical string "file_failure + string"
  | PoolMade string
  | PoolWrote string
  | PoolRenamed string string
  | PoolRemovedFile string
  | PoolRemovedDir string
  | PoolRemovedTree string

type_synonym 'w logged = "'w \<times> pool_event list"

definition logging :: "('r \<Rightarrow> pool_event list) \<Rightarrow> ('w \<Rightarrow> 'r \<times> 'w) \<Rightarrow> 'w logged \<Rightarrow> 'r \<times> 'w logged" where
  "logging e m = (\<lambda>(w, log). case m w of (r, w') \<Rightarrow> (r, (w', log @ e r)))"

definition logged_git :: "'w git_env \<Rightarrow> 'w logged git_env" where
  "logged_git env =
    \<lparr>env_execute = (\<lambda>c. logging (\<lambda>r. [PoolRan (working_directory c) (command_arguments c) r]) (env_execute env c)),
     env_symlink_metadata = (\<lambda>p. logging (\<lambda>_. []) (env_symlink_metadata env p)),
     env_read = (\<lambda>p. logging (\<lambda>_. []) (env_read env p)),
     env_now = logging (\<lambda>_. []) (env_now env),
     env_blake3 = env_blake3 env\<rparr>"

definition logged_pool :: "'w pool_env \<Rightarrow> 'w logged pool_env" where
  "logged_pool env =
    \<lparr>pool_git = logged_git (pool_git env),
     pool_exists = (\<lambda>p. logging (\<lambda>_. []) (pool_exists env p)),
     pool_is_dir = (\<lambda>p. logging (\<lambda>b. [PoolDirectory p b]) (pool_is_dir env p)),
     pool_canonicalize = (\<lambda>p. logging (\<lambda>r. [PoolCanonical p r]) (pool_canonicalize env p)),
     pool_read_dir = (\<lambda>p. logging (\<lambda>_. []) (pool_read_dir env p)),
     pool_create_dir_all = (\<lambda>p. logging (\<lambda>_. [PoolMade p]) (pool_create_dir_all env p)),
     pool_remove_dir = (\<lambda>p. logging (\<lambda>_. [PoolRemovedDir p]) (pool_remove_dir env p)),
     pool_remove_dir_all = (\<lambda>p. logging (\<lambda>_. [PoolRemovedTree p]) (pool_remove_dir_all env p)),
     pool_remove_file = (\<lambda>p. logging (\<lambda>_. [PoolRemovedFile p]) (pool_remove_file env p)),
     pool_write = (\<lambda>p b. logging (\<lambda>_. [PoolWrote p]) (pool_write env p b)),
     pool_rename = (\<lambda>a b. logging (\<lambda>_. [PoolRenamed a b]) (pool_rename env a b)),
     pool_create_new = (\<lambda>p. logging (\<lambda>_. []) (pool_create_new env p)),
     pool_file_age = (\<lambda>p. logging (\<lambda>_. []) (pool_file_age env p)),
     pool_instant = logging (\<lambda>_. []) (pool_instant env),
     pool_sleep = (\<lambda>n. apfst (pool_sleep env n)),
     pool_decode = pool_decode env, pool_encode = pool_encode env\<rparr>"

section \<open>What is allowed\<close>

text \<open>A mirror of the application, by its path or by the path the registry stores for it.\<close>

definition app_mirror :: "RepositoryPool \<Rightarrow> string \<Rightarrow> bool" where
  "app_mirror pool p \<longleftrightarrow> (\<exists>l. starts_with_path (mirror_path pool l) (mirrors_root pool)
    \<and> p \<in> {mirror_path pool l, path_str (StoredPath_new (mirror_path pool l))})"

definition known_clean :: "string \<Rightarrow> pool_event list \<Rightarrow> bool" where
  "known_clean p log \<longleftrightarrow> PoolDirectory p False \<in> set log
    \<or> (\<exists>out. PoolRan p pool_status_arguments (Inr out) \<in> set log \<and> output_success out \<and> output_stdout out = [])"

definition known_managed :: "RepositoryPool \<Rightarrow> string \<Rightarrow> pool_event list \<Rightarrow> bool" where
  "known_managed pool p log \<longleftrightarrow> ParentDir \<notin> set (path_components p)
    \<and> (starts_with_path p (reviews_root pool)
       \<or> (\<exists>c root. PoolCanonical p (Inr c) \<in> set log \<and> PoolCanonical (reviews_root pool) (Inr root) \<in> set log
            \<and> starts_with_path c root))"

text \<open>The command removes a worktree below the directory of the reviews that was found clean.\<close>

definition careful_removal :: "RepositoryPool \<Rightarrow> pool_event list \<Rightarrow> string \<Rightarrow> bool" where
  "careful_removal pool log p \<longleftrightarrow> known_clean p log
    \<and> (\<exists>q. p \<in> {q, path_str (StoredPath_new q)} \<and> known_managed pool q log)"

definition allowed_command :: "RepositoryPool \<Rightarrow> pool_event list \<Rightarrow> string \<Rightarrow> string list \<Rightarrow> bool" where
  "allowed_command pool log dir args \<longleftrightarrow>
    read_only_arguments args
    \<or> args \<in> {[''worktree'', ''list'', ''--porcelain''], [''worktree'', ''prune'']}
    \<or> (\<exists>review target sha. worktree_path pool review = Inr target
        \<and> args = [''worktree'', ''add'', ''--detach'', ''--quiet'', target, sha])
    \<or> (\<exists>p. args = [''worktree'', ''remove'', p] \<and> careful_removal pool log p)
    \<or> (take 3 args = [''fetch'', ''--no-tags'', ''origin''] \<and> app_mirror pool dir)
    \<or> (\<exists>m. args = [''init'', ''--bare'', m] \<and> app_mirror pool m)
    \<or> (\<exists>url. args = [''remote'', ''add'', ''origin'', url] \<and> app_mirror pool dir)"

definition allowed :: "RepositoryPool \<Rightarrow> pool_event list \<Rightarrow> pool_event \<Rightarrow> bool" where
  "allowed pool log e = (case e of
      PoolRan dir args r \<Rightarrow> allowed_command pool log dir args
    | PoolWrote p \<Rightarrow> p = registry_temporary pool
    | PoolRenamed a b \<Rightarrow> a = registry_temporary pool \<and> b = registry_path pool
    | PoolRemovedFile p \<Rightarrow> p = lock_path pool
    | PoolRemovedTree p \<Rightarrow> app_mirror pool p
    | _ \<Rightarrow> True)"

definition allowed_log :: "RepositoryPool \<Rightarrow> pool_event list \<Rightarrow> bool" where
  "allowed_log pool log \<longleftrightarrow> (\<forall>i < length log. allowed pool (take i log) (log ! i))"

lemma allowed_log_Nil [simp]: "allowed_log pool []"
  by (simp add: allowed_log_def)

lemma allowed_log_snoc [simp]: "allowed_log pool (log @ [e]) \<longleftrightarrow> allowed_log pool log \<and> allowed pool log e"
  by (auto simp: allowed_log_def nth_append less_Suc_eq)

section \<open>Careful operations\<close>

definition careful ::
  "RepositoryPool \<Rightarrow> (pool_event list \<Rightarrow> bool) \<Rightarrow> ('w logged \<Rightarrow> ('e + 'a) \<times> 'w logged)
    \<Rightarrow> ('a \<Rightarrow> pool_event list \<Rightarrow> bool) \<Rightarrow> bool" where
  "careful pool A m Q \<longleftrightarrow> (\<forall>w log r w' log'. A log \<longrightarrow> allowed_log pool log \<longrightarrow> m (w, log) = (r, (w', log')) \<longrightarrow>
    prefix log log' \<and> allowed_log pool log' \<and> (\<forall>x. r = Inr x \<longrightarrow> Q x log'))"

abbreviation always :: "pool_event list \<Rightarrow> bool" where "always \<equiv> \<lambda>_. True"

abbreviation anyhow :: "'a \<Rightarrow> pool_event list \<Rightarrow> bool" where "anyhow \<equiv> \<lambda>_ _. True"

named_theorems careful_intros \<open>operations of the pool that do only what is allowed\<close>

lemma careful_bind:
  assumes "careful pool A m Q" "\<And>x. careful pool (Q x) (k x) R"
  shows "careful pool A (io_bind m k) R"
  unfolding careful_def
proof (intro allI impI)
  fix w log r w' log'
  assume A: "A log" "allowed_log pool log" and run: "io_bind m k (w, log) = (r, (w', log'))"
  obtain res w1 log1 where m: "m (w, log) = (res, (w1, log1))" by (cases "m (w, log)") auto
  note first = assms(1) [unfolded careful_def, rule_format, OF A m]
  show "prefix log log' \<and> allowed_log pool log' \<and> (\<forall>x. r = Inr x \<longrightarrow> R x log')"
  proof (cases res)
    case (Inl e)
    then show ?thesis using first run m by (auto simp: io_bind_def)
  next
    case (Inr x)
    then have "k x (w1, log1) = (r, (w', log'))" using run m by (simp add: io_bind_def)
    then show ?thesis
      using assms(2) [unfolded careful_def, rule_format, of x log1] first Inr by (auto intro: prefix_order.trans)
  qed
qed

lemma careful_conseq:
  "careful pool A m Q \<Longrightarrow> (\<And>log. B log \<Longrightarrow> A log) \<Longrightarrow> (\<And>x log. Q x log \<Longrightarrow> R x log) \<Longrightarrow> careful pool B m R"
  unfolding careful_def by blast

text \<open>Facts of the log stay true as it grows.\<close>

definition persistent :: "(pool_event list \<Rightarrow> bool) \<Rightarrow> bool" where
  "persistent F \<longleftrightarrow> (\<forall>log log'. prefix log log' \<longrightarrow> F log \<longrightarrow> F log')"

lemma careful_frame:
  "careful pool A m Q \<Longrightarrow> persistent F \<Longrightarrow> careful pool (\<lambda>log. A log \<and> F log) m (\<lambda>x log. Q x log \<and> F log)"
  unfolding careful_def persistent_def by blast

lemma careful_pure: "careful pool (\<lambda>_. b) m Q \<longleftrightarrow> (b \<longrightarrow> careful pool always m Q)"
  by (auto simp: careful_def)

lemma careful_return: "careful pool (Q' r) (io_return r) Q \<longleftrightarrow> (\<forall>x log. r = Inr x \<longrightarrow> Q' r log \<longrightarrow> allowed_log pool log \<longrightarrow> Q x log)"
  by (auto simp: careful_def)

lemma persistent_facts [simp]: "persistent (known_clean p)" "persistent (known_managed pool q)" "persistent always"
  unfolding persistent_def known_clean_def known_managed_def by (blast dest: set_mono_prefix)+

lemma persistent_all [simp]: "(\<And>x. persistent (F x)) \<Longrightarrow> persistent (\<lambda>log. \<forall>x\<in>S. F x log)"
  unfolding persistent_def by blast

section \<open>The effects of the pool\<close>

lemma careful_logging:
  assumes "\<And>r log. A log \<Longrightarrow> allowed_log pool log \<Longrightarrow> allowed_log pool (log @ e r) \<and> Q r (log @ e r)"
  shows "careful pool A (look (logging e m)) Q"
  using assms unfolding careful_def look_def logging_def by (auto split: prod.splits)

lemma careful_file:
  assumes "\<And>r log. A log \<Longrightarrow> allowed_log pool log \<Longrightarrow> allowed_log pool (log @ e r)"
  shows "careful pool A (file_op p (logging e m)) anyhow"
  using assms unfolding careful_def file_op_def logging_def by (auto split: prod.splits)

lemmas pool_env_simps = logged_pool_def logged_git_def

lemma careful_looks [careful_intros]:
  "careful pool always (look (pool_exists (logged_pool env) p)) anyhow"
  "careful pool always (look (pool_is_dir (logged_pool env) p)) (\<lambda>b log. b \<or> known_clean p log)"
  "careful pool always (look (pool_canonicalize (logged_pool env) p)) (\<lambda>r log. PoolCanonical p r \<in> set log)"
  "careful pool always (look (env_now (pool_git (logged_pool env)))) anyhow"
  by (simp_all add: pool_env_simps) (rule careful_logging; auto simp: allowed_def known_clean_def)+

lemma careful_files [careful_intros]:
  "careful pool always (file_op q (pool_read_dir (logged_pool env) p)) anyhow"
  "careful pool always (file_op q (pool_create_dir_all (logged_pool env) p)) anyhow"
  "careful pool always (file_op q (pool_remove_dir (logged_pool env) p)) anyhow"
  "careful pool always (file_op q (env_read (pool_git (logged_pool env)) p)) anyhow"
  "careful pool always (file_op q (pool_write (logged_pool env) (registry_temporary pool) b)) anyhow"
  "careful pool always (file_op q (pool_rename (logged_pool env) (registry_temporary pool) (registry_path pool))) anyhow"
  "careful pool (\<lambda>_. app_mirror pool p) (file_op q (pool_remove_dir_all (logged_pool env) p)) anyhow"
  by (simp_all add: pool_env_simps) (rule careful_file; auto simp: allowed_def)+

lemma run_git_logged:
  "run_git (logged_pool env) dir args (w, log) = (r, (w', log')) \<Longrightarrow>
    \<exists>res. log' = log @ [PoolRan dir args res] \<and> r = map_err PoolGit res"
  by (auto simp: run_git_def execute_def git_at_def GitCommand_new_def pool_env_simps logging_def split: prod.splits)

lemma careful_run:
  assumes "\<And>log. A log \<Longrightarrow> allowed_command pool log dir args"
  shows "careful pool A (run_git (logged_pool env) dir args)
    (\<lambda>out log. PoolRan dir args (Inr out) \<in> set log)"
  using assms unfolding careful_def by (auto dest!: run_git_logged simp: allowed_def)

lemma require_git_run:
  "require_git env dir args = io_bind (run_git env dir args) (\<lambda>output. io_return
    (if output_success output then Inr output
     else Inl (PoolGit (CommandFailed (display_command (GitCommand_new (git_at env dir) args)) (stderr_trimmed output)))))"
  by (auto simp: fun_eq_iff require_git_def require_success_def run_git_def io_bind_def io_return_def map_err_def
      split: prod.splits sum.splits)

lemma careful_return_any: "careful pool A (io_return r) anyhow"
  by (auto simp: careful_def)

lemma careful_require:
  assumes "\<And>log. A log \<Longrightarrow> allowed_command pool log dir args"
  shows "careful pool A (require_git (logged_pool env) dir args) anyhow"
  unfolding require_git_run
  by (rule careful_bind [OF careful_run [OF assms] careful_return_any])

lemma careful_then:
  "careful pool A m anyhow \<Longrightarrow> (\<And>x. careful pool always (k x) R) \<Longrightarrow> careful pool A (io_bind m k) R"
  by (rule careful_bind)

lemma careful_ok [careful_intros]: "careful pool A (pool_ok r) anyhow"
  by (auto simp: careful_def pool_ok_def)

lemma careful_check: "careful pool A (pool_ok r) (\<lambda>x log. r = Inr x \<and> A log)"
  by (auto simp: careful_def pool_ok_def)

lemma careful_post: "careful pool always m Q \<Longrightarrow> careful pool always m anyhow"
  by (erule careful_conseq) simp_all

lemma careful_if [careful_intros]:
  "careful pool A m Q \<Longrightarrow> careful pool A n Q \<Longrightarrow> careful pool A (if b then m else n) Q"
  by simp

lemma careful_map [careful_intros]:
  "(\<And>x. careful pool always (f x) anyhow) \<Longrightarrow> careful pool always (io_map f xs) anyhow"
proof (induction xs)
  case (Cons x xs)
  then show ?case
    by (auto intro!: careful_then careful_return_any)
qed (simp add: careful_return_any)

section \<open>Operations that change nothing but the registry\<close>

lemma careful_option [careful_intros]:
  "careful pool A m Q \<Longrightarrow> (\<And>x. careful pool A (k x) Q) \<Longrightarrow> careful pool A (case x of None \<Rightarrow> m | Some x \<Rightarrow> k x) Q"
  by (cases x) simp_all

lemma careful_sum [careful_intros]:
  "(\<And>e. careful pool A (m e) Q) \<Longrightarrow> (\<And>x. careful pool A (k x) Q) \<Longrightarrow> careful pool A (case r of Inl e \<Rightarrow> m e | Inr x \<Rightarrow> k x) Q"
  by (cases r) simp_all

lemma careful_Let [careful_intros]: "(\<And>x. careful pool A (k x) Q) \<Longrightarrow> careful pool A (Let a k) Q"
  by simp

lemmas careful_any [careful_intros] = careful_looks [THEN careful_post]

lemma careful_read_only [careful_intros]:
  assumes "read_only_arguments args"
  shows "careful pool always (run_git (logged_pool env) dir args) anyhow"
    "careful pool always (require_git (logged_pool env) dir args) anyhow"
  using assms by (auto intro!: careful_require careful_post [OF careful_run] simp: allowed_command_def)

lemma careful_worktree_list [careful_intros]:
  "careful pool always (require_git (logged_pool env) dir [''worktree'', ''list'', ''--porcelain'']) anyhow"
  "careful pool always (require_git (logged_pool env) dir [''worktree'', ''prune'']) anyhow"
  by (auto intro!: careful_require simp: allowed_command_def)

lemma read_only_commands [simp]:
  "read_only_arguments [''cat-file'', ''-e'', x]" "read_only_arguments [''rev-parse'', y]"
  "read_only_arguments [''rev-parse'', y, z]" "read_only_arguments pool_status_arguments"
  "read_only_arguments [''remote'', ''get-url'', ''origin'']"
  by (simp_all add: read_only_arguments_def pool_status_arguments_def)

lemma careful_has_commit [careful_intros]: "careful pool always (has_commit (logged_pool env) p sha) anyhow"
  unfolding has_commit_def by (intro careful_then careful_intros) simp_all

lemma careful_has_commits [careful_intros]: "careful pool always (has_commits (logged_pool env) p revision) anyhow"
  unfolding has_commits_def by (intro careful_then careful_intros)

lemma careful_listed [careful_intros]: "careful pool always (listed_worktrees (logged_pool env) p) anyhow"
  unfolding listed_worktrees_def by (intro careful_then careful_intros)

lemma careful_comparable [careful_intros]: "careful pool always (comparable_path (logged_pool env) p) anyhow"
  unfolding comparable_path_def by (intro careful_then careful_intros)

lemma careful_prune [careful_intros]: "careful pool always (prune (logged_pool env) p) anyhow"
  unfolding prune_def by (intro careful_then careful_intros)

lemma careful_registry [careful_intros]:
  "careful pool always (registry_read (logged_pool env) pool) anyhow"
  "careful pool always (registry_write (logged_pool env) pool state) anyhow"
  unfolding registry_read_def registry_write_def Let_def by (intro careful_then careful_intros)+

lemma careful_registry_ops [careful_intros]:
  "careful pool always (registry_list (logged_pool env) pool) anyhow"
  "careful pool always (registry_get (logged_pool env) pool review) anyhow"
  "careful pool always (registry_upsert (logged_pool env) pool r) anyhow"
  "careful pool always (registry_remove (logged_pool env) pool review) anyhow"
  unfolding registry_list_def registry_get_def registry_upsert_def registry_remove_def
  by (intro careful_then careful_intros)+

lemma careful_directories [careful_intros]:
  "(\<And>name p. careful pool always (k name p) anyhow) \<Longrightarrow> careful pool always (in_directory (logged_pool env) k p) anyhow"
proof -
  assume k: "\<And>name p. careful pool always (k name p) anyhow"
  have "careful pool always (each_directory k p entries) anyhow" for entries
    using k by (induction k p entries rule: each_directory.induct) (auto intro!: careful_then careful_intros)
  then show ?thesis unfolding in_directory_def by (intro careful_then careful_intros)
qed

lemma careful_mirrors [careful_intros]: "careful pool always (managed_mirror_paths (logged_pool env) pool) anyhow"
  unfolding managed_mirror_paths_def mirror_entry_def by (intro careful_then careful_intros)

lemma careful_empty_directory [careful_intros]:
  "careful pool always (remove_empty_review_directory (logged_pool env) p) anyhow"
  unfolding remove_empty_review_directory_def by (intro careful_then careful_intros)

section \<open>Sources\<close>

definition extends_allowed :: "RepositoryPool \<Rightarrow> pool_event list \<Rightarrow> 'w logged \<Rightarrow> bool" where
  "extends_allowed pool log0 = (\<lambda>(w, log). prefix log0 log \<and> allowed_log pool log)"

interpretation pool_clone: git_world "git_at (logged_pool env) p" "extends_allowed pool log0" for env p pool log0
  by unfold_locales
    (auto simp: keeps_def extends_allowed_def git_at_def pool_env_simps logging_def execute_def GitCommand_new_def
      allowed_def allowed_command_def split: prod.splits)

lemma careful_inspect [careful_intros]: "careful pool always (look (inspect (git_at (logged_pool env) p))) anyhow"
proof -
  have "prefix log log' \<and> allowed_log pool log'"
    if "inspect (git_at (logged_pool env) p) (w, log) = (x, (w', log'))" "allowed_log pool log" for w log x w' log'
    using pool_clone.keeps_inspect [of pool log env p] that unfolding keeps_def extends_allowed_def
    by (metis (mono_tags, lifting) case_prod_conv prefix_order.refl snd_conv)
  then show ?thesis
    unfolding careful_def look_def by (auto split: prod.splits)
qed

lemma careful_known_clone [careful_intros]:
  "careful pool always (known_clone_is_usable (logged_pool env) p url revision) anyhow"
  unfolding known_clone_is_usable_def by (intro careful_then careful_intros) simp_all

lemma app_mirror_path: "starts_with_path (mirror_path pool l) (mirrors_root pool) \<Longrightarrow> app_mirror pool (mirror_path pool l)"
  by (auto simp: app_mirror_def)

lemma careful_mirror_commands:
  assumes "app_mirror pool m"
  shows "careful pool A (require_git (logged_pool env) p [''init'', ''--bare'', m]) anyhow"
    "careful pool A (require_git (logged_pool env) m [''remote'', ''add'', ''origin'', url]) anyhow"
    "careful pool A (require_git (logged_pool env) m ([''fetch'', ''--no-tags'', ''origin''] @ specs)) anyhow"
  using assms by (auto intro!: careful_require simp: allowed_command_def)

lemma careful_returns: "(\<And>x log. r = Inr x \<Longrightarrow> A log \<Longrightarrow> Q x) \<Longrightarrow> careful pool A (pool_ok r) (\<lambda>x _. Q x)"
  by (auto simp: careful_def pool_ok_def)

lemma careful_ensure_mirror:
  "careful pool always (ensure_mirror (logged_pool env) pool l url) 
    (\<lambda>m _. m = mirror_path pool l \<and> starts_with_path m (mirrors_root pool))"
proof (cases "starts_with_path (mirror_path pool l) (mirrors_root pool)")
  case True
  note m = app_mirror_path [OF True]
  show ?thesis
    unfolding ensure_mirror_def Let_def
    by (intro careful_then careful_intros careful_mirror_commands careful_returns)
      (use True m in \<open>auto simp: vthen_def ensure_def split: if_splits\<close>)
next
  case False
  then show ?thesis
    by (auto simp: ensure_mirror_def Let_def ensure_mirror_path_def ensure_def io_bind_def pool_ok_def io_return_def careful_def)
qed

lemma careful_select:
  "careful pool always (select_source (logged_pool env) pool request candidates)
    (\<lambda>source _. is_known_clone source \<or> app_mirror pool (source_path source))"
proof (induction candidates)
  case Nil
  have "app_mirror pool (path_str (StoredPath_new m))"
    if "m = mirror_path pool l \<and> starts_with_path m (mirrors_root pool)" for m l
    using that by (auto simp: app_mirror_def)
  then show ?case
    by (auto intro!: careful_bind [OF careful_ensure_mirror] careful_returns)
next
  case (Cons c cs)
  have "careful pool always (pool_ok (Inr (KnownClone (StoredPath_new c))))
    (\<lambda>source _. is_known_clone source \<or> app_mirror pool (source_path source))"
    by (rule careful_returns) (auto simp: is_known_clone_def)
  then show ?case using Cons.IH by (auto intro!: careful_then careful_intros)
qed

lemma careful_pinned:
  assumes "is_known_clone source \<or> app_mirror pool (source_path source)"
  shows "careful pool always (ensure_pinned_objects (logged_pool env) source url revision) anyhow"
proof (cases "is_known_clone source")
  case True
  then show ?thesis unfolding ensure_pinned_objects_def Let_def by (simp, intro careful_then careful_intros)
next
  case False
  then show ?thesis
    using assms unfolding ensure_pinned_objects_def Let_def
    by (simp del: append.simps) (intro careful_then careful_intros careful_mirror_commands; simp)
qed

section \<open>Removals\<close>

lemma careful_result: "(\<And>x log. r = Inr x \<Longrightarrow> A log \<Longrightarrow> Q x log) \<Longrightarrow> careful pool A (pool_ok r) Q"
  by (auto simp: careful_def pool_ok_def)

lemma careful_kept:
  "careful pool always m Q \<Longrightarrow> persistent F \<Longrightarrow> careful pool F m (\<lambda>x log. Q x log \<and> F log)"
  using careful_frame [of pool always m Q F] by simp

lemma persistent_event [simp]: "persistent (\<lambda>log. e \<in> set log)"
  by (auto simp: persistent_def dest: set_mono_prefix)

lemma careful_managed:
  "careful pool always (is_managed_path (logged_pool env) pool p) (\<lambda>b log. b \<longrightarrow> known_managed pool p log)"
proof (cases "ParentDir \<in> set (path_components p)")
  case True
  then show ?thesis by (auto simp: is_managed_path_def intro!: careful_result)
next
  case False
  have "careful pool (\<lambda>log. PoolCanonical p r \<in> set log) (io_bind (look (pool_canonicalize (logged_pool env) (reviews_root pool)))
      (\<lambda>root. pool_ok (Inr (case (r, root) of (Inr p, Inr root) \<Rightarrow> starts_with_path p root
         | _ \<Rightarrow> starts_with_path p (reviews_root pool)))))
      (\<lambda>b log. b \<longrightarrow> known_managed pool p log)" for r
    by (rule careful_bind [OF careful_kept [OF careful_looks(3)]], simp)
      (rule careful_result, use False in \<open>auto simp: known_managed_def split: sum.splits\<close>)
  then show ?thesis
    using False by (simp add: is_managed_path_def careful_bind [OF careful_looks(3)])
qed

lemma careful_status:
  "careful pool A (run_git (logged_pool env) p pool_status_arguments)
    (\<lambda>out log. output_success out \<longrightarrow> output_stdout out = [] \<longrightarrow> known_clean p log)"
  by (rule careful_conseq [OF careful_run]) (auto simp: allowed_command_def known_clean_def)

lemma careful_is_dirty:
  "careful pool always (is_dirty (logged_pool env) r)
    (\<lambda>dirty log. \<not> dirty \<longrightarrow> known_clean (path_str (managed_worktree_path r)) log)"
  unfolding is_dirty_def Let_def
  apply (rule careful_then [OF careful_any(2)])
  apply (rule careful_if)
   apply (rule careful_result, simp)
  apply (rule careful_bind [OF careful_status])
  apply (rule careful_result, auto split: if_splits)
  done

lemma careful_remove:
  "careful pool (\<lambda>log. known_clean p log \<and> known_managed pool q log \<and> p \<in> {q, path_str (StoredPath_new q)})
    (require_git (logged_pool env) source [''worktree'', ''remove'', p]) anyhow"
  by (rule careful_require) (auto simp: allowed_command_def careful_removal_def)

lemma careful_delete: "careful pool always (delete_locked (logged_pool env) pool review) anyhow"
proof -
  let ?path = "\<lambda>r. path_str (managed_worktree_path r)"
  have removal: "careful pool (known_managed pool (?path r))
      (io_bind (is_dirty (logged_pool env) r) (\<lambda>dirty. if dirty then pool_ok (Inl (DirtyManagedWorktree (?path r)))
        else io_bind (require_git (logged_pool env) source [''worktree'', ''remove'', ?path r]) (\<lambda>_. pool_ok (Inr ()))))
      anyhow" for r source
  proof (rule careful_bind [OF careful_kept [OF careful_is_dirty]])
    fix dirty
    show "careful pool (\<lambda>log. (\<not> dirty \<longrightarrow> known_clean (?path r) log) \<and> known_managed pool (?path r) log)
        (if dirty then pool_ok (Inl (DirtyManagedWorktree (?path r)))
        else io_bind (require_git (logged_pool env) source [''worktree'', ''remove'', ?path r]) (\<lambda>_. pool_ok (Inr ())))
        anyhow"
      by (cases dirty) (auto intro!: careful_ok careful_then careful_conseq [OF careful_remove])
  qed simp
  have managed: "careful pool always (ensure_managed_path (logged_pool env) pool p) (\<lambda>_. known_managed pool p)" for p
    unfolding ensure_managed_path_def
    by (rule careful_bind [OF careful_managed], rule careful_result) auto
  show ?thesis
    unfolding delete_locked_def Let_def
    apply (rule careful_then, rule careful_ok)
    apply (rule careful_then, rule careful_registry_ops)
    apply (rule careful_then, rule careful_ok)
    apply (rule careful_bind [OF managed])
    apply (rule careful_bind [OF careful_kept [OF careful_any(1)]], simp)
    apply (rule careful_then)
     apply (rule careful_if)
      apply (rule careful_conseq [OF removal]; simp)
     apply (intro careful_then careful_intros)+
    done
qed

section \<open>Orphans\<close>

definition orphan_ok :: "RepositoryPool \<Rightarrow> pool_event list \<Rightarrow> UnregisteredManagedWorktree \<Rightarrow> bool" where
  "orphan_ok pool log x \<longleftrightarrow> (\<exists>q. orphan_worktree_path x = StoredPath_new q \<and> known_managed pool q log)"

lemma persistent_orphan [simp]: "persistent (\<lambda>log. orphan_ok pool log x)"
  using persistent_facts(2) unfolding persistent_def orphan_ok_def by blast

lemma persistent_orphans [simp]: "persistent (\<lambda>log. \<forall>x\<in>set xs. orphan_ok pool log x)"
  by (rule persistent_all) simp

abbreviation orphans_ok :: "RepositoryPool \<Rightarrow> UnregisteredManagedWorktree list \<Rightarrow> pool_event list \<Rightarrow> bool" where
  "orphans_ok pool xs log \<equiv> \<forall>x\<in>set xs. orphan_ok pool log x"

lemma careful_orphan:
  "careful pool (\<lambda>log. managed \<longrightarrow> known_managed pool path log)
    (if managed then io_bind (comparable_path (logged_pool env) path) (\<lambda>p.
        pool_ok (Inr (if list_ex (same_path p) registered then []
          else [\<lparr>orphan_source_path = StoredPath_new source, orphan_worktree_path = StoredPath_new path\<rparr>])))
      else pool_ok (Inr [])) (orphans_ok pool)"
proof (cases managed)
  case True
  show ?thesis
    using True
    by (simp, intro careful_bind [OF careful_kept [OF careful_comparable]]) (auto intro!: careful_result simp: orphan_ok_def)
qed (auto intro!: careful_result)

lemma careful_orphans_append:
  assumes "\<And>log. A log \<Longrightarrow> orphans_ok pool found log" "careful pool always m (orphans_ok pool)"
  shows "careful pool A (io_bind m (\<lambda>rest. pool_ok (Inr (found @ rest)))) (orphans_ok pool)"
proof (rule careful_conseq)
  show "careful pool (orphans_ok pool found) (io_bind m (\<lambda>rest. pool_ok (Inr (found @ rest)))) (orphans_ok pool)"
    by (rule careful_bind [OF careful_kept [OF assms(2)]]) (auto intro!: careful_result)
qed (use assms(1) in simp_all)

lemma careful_orphans_of:
  "careful pool always (orphans_of (logged_pool env) pool registered source paths) (orphans_ok pool)"
proof (induction paths)
  case (Cons path paths)
  show ?case
    by (simp, rule careful_bind [OF careful_managed], rule careful_bind [OF careful_orphan],
      rule careful_orphans_append [OF _ Cons.IH])
qed (auto intro!: careful_result)

lemma careful_orphans_in:
  "careful pool always (orphans_in (logged_pool env) pool registered sources) (orphans_ok pool)"
proof (induction sources)
  case (Cons source sources)
  have "careful pool always (if there then io_bind (listed_worktrees (logged_pool env) source)
      (orphans_of (logged_pool env) pool registered source) else pool_ok (Inr [])) (orphans_ok pool)" for there
    by (intro careful_if careful_then [OF careful_listed] careful_orphans_of careful_result) auto
  then show ?case
    by (simp, intro careful_then [OF careful_any(1)])
      (rule careful_bind, assumption, rule careful_orphans_append [OF _ Cons.IH])
qed (auto intro!: careful_result)

lemma careful_missing [careful_intros]: "careful pool always (missing_records (logged_pool env) rs) anyhow"
  by (induction rs) (auto intro!: careful_then careful_intros)

lemma careful_inspect_orphans:
  "careful pool always (inspect_orphans (logged_pool env) pool)
    (\<lambda>report. orphans_ok pool (unregistered_worktrees report))"
  unfolding inspect_orphans_def
  by (rule careful_then, rule careful_registry_ops, rule careful_then, rule careful_map, rule careful_comparable,
    rule careful_then, rule careful_missing, rule careful_then, rule careful_mirrors,
    rule careful_bind [OF careful_orphans_in], rule careful_result) auto

lemma careful_repair_missing [careful_intros]:
  "careful pool always (repair_missing (logged_pool env) pool rs) anyhow"
  by (induction rs) (auto simp: Let_def intro!: careful_then careful_intros)

lemma careful_orphan_status:
  "careful pool always
    (if there then io_bind (run_git (logged_pool env) p pool_status_arguments)
        (\<lambda>status. pool_ok (Inr (\<not> output_success status \<or> output_stdout status \<noteq> [])))
      else pool_ok (Inr False)) (\<lambda>dirty log. there \<longrightarrow> \<not> dirty \<longrightarrow> known_clean p log)"
  by (cases there) (auto intro!: careful_bind [OF careful_status] careful_result)

lemma careful_orphan_state:
  "careful pool always (io_bind (look (pool_is_dir (logged_pool env) p)) (\<lambda>there.
      if there then io_bind (run_git (logged_pool env) p pool_status_arguments)
        (\<lambda>status. pool_ok (Inr (\<not> output_success status \<or> output_stdout status \<noteq> [])))
      else pool_ok (Inr False))) (\<lambda>dirty log. \<not> dirty \<longrightarrow> known_clean p log)"
proof (rule careful_bind [OF careful_looks(2)])
  fix there
  show "careful pool (\<lambda>log. there \<or> known_clean p log)
    (if there then io_bind (run_git (logged_pool env) p pool_status_arguments)
        (\<lambda>status. pool_ok (Inr (\<not> output_success status \<or> output_stdout status \<noteq> [])))
      else pool_ok (Inr False)) (\<lambda>dirty log. \<not> dirty \<longrightarrow> known_clean p log)"
    by (cases there) (auto intro!: careful_bind [OF careful_status] careful_result)
qed

lemma careful_repair_unregistered:
  "careful pool (orphans_ok pool xs) (repair_unregistered (logged_pool env) xs) anyhow"
proof (induction xs)
  case (Cons x xs)
  let ?path = "path_str (orphan_worktree_path x)"
  have regroup: "io_bind a (\<lambda>there. io_bind (b there) k) = io_bind (io_bind a b) k" for a b k
    by (auto simp: io_bind_def fun_eq_iff split: prod.splits sum.splits)
  have rest: "careful pool (orphans_ok pool xs) (io_bind (repair_unregistered (logged_pool env) xs) k) anyhow"
    if "\<And>y. careful pool always (k y) anyhow" for k
    by (rule careful_then [OF Cons.IH that])
  have removal: "careful pool (\<lambda>log. known_clean ?path log \<and> orphans_ok pool (x # xs) log)
      (require_git (logged_pool env) source [''worktree'', ''remove'', ?path]) (\<lambda>_. orphans_ok pool xs)" for source
  proof (rule careful_conseq)
    show "careful pool (\<lambda>log. (known_clean ?path log \<and> orphan_ok pool log x) \<and> orphans_ok pool xs log)
      (require_git (logged_pool env) source [''worktree'', ''remove'', ?path]) (\<lambda>_ log. True \<and> orphans_ok pool xs log)"
      by (rule careful_frame [OF careful_require], (auto simp: orphan_ok_def allowed_command_def careful_removal_def)[1], simp)
  qed auto
  have pruned: "careful pool (orphans_ok pool xs) (io_bind (prune (logged_pool env) source)
      (\<lambda>_. io_bind (repair_unregistered (logged_pool env) xs) (\<lambda>(removed, left). pool_ok (Inr (x # removed, left))))) anyhow"
    for source
    by (rule careful_bind [OF careful_kept [OF careful_prune]], simp)
      (simp, rule rest, auto intro: careful_ok split: prod.splits)
  have "careful pool (\<lambda>log. (\<not> dirty \<longrightarrow> known_clean ?path log) \<and> orphans_ok pool (x # xs) log)
    (if dirty then io_bind (repair_unregistered (logged_pool env) xs) (\<lambda>(removed, left). pool_ok (Inr (removed, x # left)))
     else io_bind (require_git (logged_pool env) (path_str (orphan_source_path x)) [''worktree'', ''remove'', ?path]) (\<lambda>_.
       io_bind (prune (logged_pool env) (path_str (orphan_source_path x))) (\<lambda>_.
       io_bind (repair_unregistered (logged_pool env) xs) (\<lambda>(removed, left). pool_ok (Inr (x # removed, left)))))) anyhow"
    for dirty
  proof (cases dirty)
    case True
    then show ?thesis
      by simp (rule careful_conseq [OF rest], auto intro: careful_ok split: prod.splits)
  next
    case False
    then show ?thesis
      by simp (rule careful_conseq [OF careful_bind [OF removal pruned]], simp_all)
  qed
  note finish = this
  show ?case
    unfolding repair_unregistered.simps Let_def
    by (subst regroup, rule careful_bind [OF careful_kept [OF careful_orphan_state persistent_orphans]], rule finish)
qed (auto intro: careful_ok)

lemma careful_repair: "careful pool always (repair_orphans_locked (logged_pool env) pool) anyhow"
  unfolding repair_orphans_locked_def
  by (rule careful_bind [OF careful_inspect_orphans],
      rule careful_bind [OF careful_kept [OF careful_repair_missing persistent_orphans]],
      rule careful_then, rule careful_conseq [OF careful_repair_unregistered])
    (auto intro: careful_ok split: prod.splits)

section \<open>The other operations\<close>

lemma careful_different [careful_intros]: "careful pool always (different_paths (logged_pool env) m paths) anyhow"
  by (induction paths) (auto intro!: careful_then careful_intros)

lemma careful_remove_mirror: "careful pool always (remove_unused_mirror_locked (logged_pool env) pool l) anyhow"
proof (cases "starts_with_path (mirror_path pool l) (mirrors_root pool)")
  case True
  have "careful pool always (file_op m (pool_remove_dir_all (logged_pool env) m)) anyhow" if "m = mirror_path pool l" for m
    using careful_files(7) app_mirror_path [OF True] that careful_pure by metis
  then show ?thesis
    unfolding remove_unused_mirror_locked_def Let_def by (intro careful_then careful_intros) simp_all
next
  case False
  then show ?thesis
    by (auto simp: remove_unused_mirror_locked_def Let_def ensure_mirror_path_def ensure_def io_bind_def pool_ok_def
        io_return_def careful_def)
qed

lemma careful_create:
  assumes "worktree_path pool (prepare_review_id request) = Inr target"
  shows "careful pool always (create_worktree (logged_pool env) pool request target) anyhow"
proof -
  have add: "careful pool always (require_git (logged_pool env) dir
      [''worktree'', ''add'', ''--detach'', ''--quiet'', target, sha]) anyhow" for dir sha
    using assms by (intro careful_require) (auto simp: allowed_command_def)
  show ?thesis
    unfolding create_worktree_def Let_def
    by (rule careful_bind [OF careful_select], subst careful_pure, rule impI, rule careful_then,
        erule careful_pinned, intro careful_then careful_ok careful_files careful_registry_ops careful_any add)
qed

lemma bind_pool_ok:
  "io_bind (pool_ok (Inr x)) k = k x" "io_bind (pool_ok (Inl e)) k = pool_ok (Inl e)"
  by (auto simp: io_bind_def pool_ok_def io_return_def)

lemma careful_prepare: "careful pool always (prepare_locked (logged_pool env) pool request) anyhow"
proof (cases "worktree_path pool (prepare_review_id request)")
  case (Inr target)
  show ?thesis
    unfolding prepare_locked_def Inr bind_pool_ok
    by (intro careful_then careful_ok careful_registry_ops careful_option careful_if careful_any careful_create [OF Inr])
next
  case (Inl e)
  show ?thesis
    unfolding prepare_locked_def Inl bind_pool_ok by (intro careful_then careful_ok)
qed

section \<open>Under the lock\<close>

lemma logged_lock_sel:
  "pool_create_new (logged_pool env) p (w, log) = (fst (pool_create_new env p w), (snd (pool_create_new env p w), log))"
  "pool_file_age (logged_pool env) p (w, log) = (fst (pool_file_age env p w), (snd (pool_file_age env p w), log))"
  "pool_instant (logged_pool env) (w, log) = (fst (pool_instant env w), (snd (pool_instant env w), log))"
  "pool_sleep (logged_pool env) n (w, log) = (pool_sleep env n w, log)"
  "pool_remove_file (logged_pool env) p (w, log)
    = (fst (pool_remove_file env p w), (snd (pool_remove_file env p w), log @ [PoolRemovedFile p]))"
  "pool_create_dir_all (logged_pool env) p (w, log)
    = (fst (pool_create_dir_all env p w), (snd (pool_create_dir_all env p w), log @ [PoolMade p]))"
  by (simp_all add: logged_pool_def logging_def split_beta)

lemma allowed_lock [simp]: "allowed pool log (PoolRemovedFile (lock_path pool))" "allowed pool log (PoolMade p)"
  by (simp_all add: allowed_def)

lemma lock_is_stale_logged:
  "lock_is_stale (logged_pool env) p (w, log) = (fst (lock_is_stale env p w), (snd (lock_is_stale env p w), log))"
  by (simp add: lock_is_stale_def logged_lock_sel split_beta)

lemma lock_attempt_logged:
  "allowed_log pool log \<Longrightarrow> allowed_log pool (snd (snd (lock_attempt (logged_pool env) (lock_path pool) deadline (w, log))))"
  unfolding lock_attempt_def logged_lock_sel lock_is_stale_logged
  by (simp add: logged_lock_sel lock_is_stale_logged
      split: prod.split sum.split open_failure.split file_failure.split bool.split unit.split)

lemma allowed_log_single [simp]: "allowed_log pool [e] \<longleftrightarrow> allowed pool [] e"
  using allowed_log_snoc [of pool "[]"] by simp

lemma lock_loop_logged:
  assumes "lock_loop (logged_pool env) (lock_path pool) deadline s = Some y" "allowed_log pool (snd s)"
  shows "allowed_log pool (snd (snd y))"
proof -
  have "logged_pool env = logged_pool env \<longrightarrow> lock_path pool = lock_path pool \<longrightarrow> allowed_log pool (snd s)
    \<longrightarrow> allowed_log pool (snd (snd y))"
  proof (rule lock_loop.raw_induct [where P = "\<lambda>e path deadline s y. e = logged_pool env \<longrightarrow> path = lock_path pool
      \<longrightarrow> allowed_log pool (snd s) \<longrightarrow> allowed_log pool (snd (snd y))", OF _ assms(1)], intro impI)
    fix rec e path deadline s y
    assume hyps: "\<And>e path deadline s y. rec e path deadline s = Some y \<Longrightarrow> e = logged_pool env \<longrightarrow> path = lock_path pool
        \<longrightarrow> allowed_log pool (snd s) \<longrightarrow> allowed_log pool (snd (snd y))"
      "(case lock_attempt e path deadline s of (None, s) \<Rightarrow> rec e path deadline s | (Some r, s) \<Rightarrow> Some (r, s)) = Some y"
      "e = logged_pool env" "path = lock_path pool" "allowed_log pool (snd s)"
    obtain w log where s: "s = (w, log)" by (cases s)
    obtain r w1 log1 where one: "lock_attempt e path deadline s = (r, (w1, log1))"
      by (cases "lock_attempt e path deadline s") auto
    have "allowed_log pool log1"
      using lock_attempt_logged [of pool log env deadline w] one hyps(3-5) by (simp add: s)
    then show "allowed_log pool (snd (snd y))"
      using hyps(1) [of e path deadline "(w1, log1)" y] hyps(2-4) one by (cases r) auto
  qed
  then show ?thesis using assms(2) by simp
qed

lemma acquire_logged:
  assumes "acquire_lock (logged_pool env) pool (w, []) = Some (r, s)"
  shows "allowed_log pool (snd s)"
proof -
  let ?root = "application_data_root pool"
  show ?thesis
  proof (cases "fst (pool_create_dir_all env ?root w)")
    case (Inl e)
    then show ?thesis
      using assms by (auto simp: acquire_lock_def file_op_def logged_lock_sel map_err_def)
  next
    case (Inr u)
    let ?w = "snd (pool_create_dir_all env ?root w)"
    have "lock_loop (logged_pool env) (lock_path pool) (fst (pool_instant env ?w) + POOL_LOCK_TIMEOUT)
        (snd (pool_instant env ?w), [PoolMade ?root]) = Some (r, s)"
      using assms Inr by (simp add: acquire_lock_def file_op_def logged_lock_sel map_err_def split: unit.splits)
    from lock_loop_logged [OF this] show ?thesis by simp
  qed
qed

lemma with_lock_allowed:
  assumes "careful pool always m anyhow"
  shows "case with_lock (logged_pool env) pool m (w, []) of None \<Rightarrow> True | Some (r, w', log) \<Rightarrow> allowed_log pool log"
proof (cases "acquire_lock (logged_pool env) pool (w, [])")
  case (Some a)
  obtain r w1 log1 where a: "a = (r, (w1, log1))" by (cases a) auto
  have start: "allowed_log pool log1" using acquire_logged [OF Some [unfolded a]] by simp
  obtain x w2 log2 where m: "m (w1, log1) = (x, (w2, log2))" by (cases "m (w1, log1)") auto
  have "allowed_log pool log2" using assms [unfolded careful_def, rule_format, OF TrueI start m] by simp
  show ?thesis
  proof (cases r)
    case (Inl e)
    then show ?thesis using start by (simp add: with_lock_def Some a)
  next
    case (Inr u)
    then show ?thesis using \<open>allowed_log pool log2\<close> by (simp add: with_lock_def Some a m logged_lock_sel split: unit.splits)
  qed
qed (simp add: with_lock_def)


end
