(* ===== verification/Git_Pool_Lock.thy ===== *)
theory Git_Pool_Lock
  imports Git_Pool
begin

text \<open>
  The lifecycle lock of the pool between processes.  \<open>lock_step\<close> is the file and the clock
  they share, with the place each process has reached in \<open>lock_attempt\<close>; \<open>lock_env\<close> is the
  environment of one of them, so its runs are runs of the relation.  As long as no lock file
  is ever older than five minutes there is one holder at most; the age check makes two
  holders reachable, with and without a crash.  Last, the loop ends when the clock runs.
\<close>

section \<open>Processes and their lock file\<close>

datatype lock_place = Trying | Removing | Holding | Gone

record lock_state =
  lock_file :: "(nat \<times> nat) option"
  lock_clock_ms :: nat
  lock_place_of :: "nat \<Rightarrow> lock_place"

definition moved :: "nat \<Rightarrow> lock_place \<Rightarrow> lock_state \<Rightarrow> lock_state" where
  "moved i p s = s\<lparr>lock_place_of := (lock_place_of s)(i := p)\<rparr>"

definition lock_age :: "lock_state \<Rightarrow> nat option" where
  "lock_age s = map_option (\<lambda>(owner, t). lock_clock_ms s - t) (lock_file s)"

definition too_old :: "lock_state \<Rightarrow> bool" where
  "too_old s = (case lock_age s of None \<Rightarrow> False | Some ms \<Rightarrow> POOL_LOCK_STALE_AFTER < ms)"

text \<open>What a process or the clock does; \<open>short\<close> excludes the ticks that make a lock file old.\<close>

inductive lock_step :: "bool \<Rightarrow> lock_state \<Rightarrow> lock_state \<Rightarrow> bool" for short where
  create: "lock_place_of s i = Trying \<Longrightarrow> lock_file s = None
    \<Longrightarrow> lock_step short s (moved i Holding (s\<lparr>lock_file := Some (i, lock_clock_ms s)\<rparr>))"
| see_old: "lock_place_of s i = Trying \<Longrightarrow> too_old s \<Longrightarrow> lock_step short s (moved i Removing s)"
| remove: "lock_place_of s i = Removing \<Longrightarrow> lock_step short s (moved i Trying (s\<lparr>lock_file := None\<rparr>))"
| release: "lock_place_of s i = Holding \<Longrightarrow> lock_step short s (moved i Gone (s\<lparr>lock_file := None\<rparr>))"
| crash: "lock_place_of s i = Holding \<Longrightarrow> lock_step short s (moved i Gone s)"
| tick: "t = s\<lparr>lock_clock_ms := lock_clock_ms s + n\<rparr> \<Longrightarrow> (short \<Longrightarrow> \<not> too_old t) \<Longrightarrow> lock_step short s t"

definition lock_start :: lock_state where
  "lock_start = \<lparr>lock_file = None, lock_clock_ms = 0, lock_place_of = (\<lambda>_. Trying)\<rparr>"

inductive lock_run :: "bool \<Rightarrow> lock_state \<Rightarrow> bool" for short where
  started: "lock_run short lock_start"
| stepped: "lock_run short s \<Longrightarrow> lock_step short s t \<Longrightarrow> lock_run short t"

inductive lock_steps :: "lock_state \<Rightarrow> lock_state \<Rightarrow> bool" where
  none: "lock_steps s s"
| more: "lock_step False s t \<Longrightarrow> lock_steps t u \<Longrightarrow> lock_steps s u"

lemma lock_steps_one: "lock_step False s t \<Longrightarrow> lock_steps s t"
  by (blast intro: lock_steps.intros)

lemma lock_steps_trans: "lock_steps s t \<Longrightarrow> lock_steps t u \<Longrightarrow> lock_steps s u"
  by (induction rule: lock_steps.induct) (auto intro: lock_steps.intros)

lemma lock_run_steps: "lock_steps s t \<Longrightarrow> lock_run False s \<Longrightarrow> lock_run False t"
  by (induction rule: lock_steps.induct) (auto intro: lock_run.intros)

section \<open>One holder\<close>

text \<open>Nobody has found the file too old, and a holder owns it.\<close>

definition lock_inv :: "lock_state \<Rightarrow> bool" where
  "lock_inv s \<longleftrightarrow> \<not> too_old s \<and> (\<forall>i. lock_place_of s i \<noteq> Removing)
    \<and> (\<forall>i. lock_place_of s i = Holding \<longrightarrow> (\<exists>t. lock_file s = Some (i, t)))"

lemma lock_inv_one: "lock_inv s \<Longrightarrow> lock_place_of s i = Holding \<Longrightarrow> lock_place_of s j = Holding \<Longrightarrow> i = j"
  unfolding lock_inv_def by (metis option.inject prod.inject)

lemma lock_inv_step:
  assumes "lock_step True s t" "lock_inv s"
  shows "lock_inv t"
  using assms(1)
proof (cases rule: lock_step.cases)
  case (release i)
  have "lock_place_of t j \<noteq> Holding" for j
    using lock_inv_one [OF assms(2) release(2), of j] release(1) by (cases "j = i") (auto simp: moved_def)
  then show ?thesis
    using assms(2) release by (auto simp: lock_inv_def moved_def too_old_def lock_age_def)
qed (use assms(2) in \<open>auto simp: lock_inv_def moved_def too_old_def lock_age_def POOL_LOCK_STALE_AFTER_def split: if_splits\<close>)

lemma lock_inv_run: "lock_run True s \<Longrightarrow> lock_inv s"
proof (induction rule: lock_run.induct)
  case started
  then show ?case by (simp add: lock_inv_def lock_start_def too_old_def lock_age_def)
qed (rule lock_inv_step)




section \<open>Two holders\<close>

definition lock_at :: "(nat \<times> nat) option \<Rightarrow> nat \<Rightarrow> lock_place list \<Rightarrow> lock_state" where
  "lock_at file now places = \<lparr>lock_file = file, lock_clock_ms = now,
    lock_place_of = (\<lambda>i. if i < length places then places ! i else Trying)\<rparr>"

lemma lock_at_simps [simp]:
  "i < length ps \<Longrightarrow> moved i p (lock_at file now ps) = lock_at file now (ps[i := p])"
  "(lock_at file now ps)\<lparr>lock_file := file'\<rparr> = lock_at file' now ps"
  "(lock_at file now ps)\<lparr>lock_clock_ms := now'\<rparr> = lock_at file now' ps"
  "i < length ps \<Longrightarrow> lock_place_of (lock_at file now ps) i = ps ! i"
  "lock_file (lock_at file now ps) = file" "lock_clock_ms (lock_at file now ps) = now"
  by (auto simp: moved_def lock_at_def fun_eq_iff)

lemma create_at: "i < length ps \<Longrightarrow> ps ! i = Trying \<Longrightarrow>
    lock_step False (lock_at None now ps) (lock_at (Some (i, now)) now (ps[i := Holding]))"
  using lock_step.create [of "lock_at None now ps" i False] by simp

lemma see_old_at: "i < length ps \<Longrightarrow> ps ! i = Trying \<Longrightarrow> POOL_LOCK_STALE_AFTER < now - t \<Longrightarrow>
    lock_step False (lock_at (Some (j, t)) now ps) (lock_at (Some (j, t)) now (ps[i := Removing]))"
  using lock_step.see_old [of "lock_at (Some (j, t)) now ps" i False] by (simp add: too_old_def lock_age_def)

lemma remove_at: "i < length ps \<Longrightarrow> ps ! i = Removing \<Longrightarrow>
    lock_step False (lock_at file now ps) (lock_at None now (ps[i := Trying]))"
  using lock_step.remove [of "lock_at file now ps" i False] by simp

lemma crash_at: "i < length ps \<Longrightarrow> ps ! i = Holding \<Longrightarrow>
    lock_step False (lock_at file now ps) (lock_at file now (ps[i := Gone]))"
  using lock_step.crash [of "lock_at file now ps" i False] by simp

lemma tick_at: "lock_step False (lock_at file now ps) (lock_at file (now + n) ps)"
  using lock_step.tick [of "lock_at file (now + n) ps" "lock_at file now ps" n False] by simp

lemma lock_start_at: "lock_start = lock_at None 0 [Trying, Trying, Trying]"
  by (auto simp: lock_start_def lock_at_def fun_eq_iff less_Suc_eq nth_Cons')

text \<open>The age check breaks the lock.  An operation that runs for more than five minutes, such
  as the first fetch of a large repository, loses its lock file to the next process, and both
  change the pool.  After a crash two waiting processes can both find the old file: the second
  one removes the fresh file of the first, and both go on, although every file they hold the
  lock by is new.\<close>

theorem lock_can_be_shared:
  "(\<exists>s. lock_run False s \<and> lock_place_of s 0 = Holding \<and> lock_place_of s 1 = Holding)
   \<and> (\<exists>s. lock_run False s \<and> lock_place_of s 0 = Gone \<and> lock_place_of s 1 = Holding
        \<and> lock_place_of s 2 = Holding \<and> lock_file s = Some (2, lock_clock_ms s))"
proof
  let ?late = "POOL_LOCK_STALE_AFTER + 1"
  note run = lock_run.stepped
  have held: "lock_run False (lock_at (Some (0, 0)) ?late [Holding, Trying, Trying])"
    using run [OF run [OF lock_run.started [unfolded lock_start_at] create_at [of 0]] tick_at [where n = ?late]] by simp
  have "lock_run False (lock_at (Some (1, ?late)) ?late [Holding, Holding, Trying])"
    using run [OF run [OF run [OF held see_old_at [of 1]] remove_at [of 1]] create_at [of 1]] by simp
  then show "\<exists>s. lock_run False s \<and> lock_place_of s 0 = Holding \<and> lock_place_of s 1 = Holding"
    by (intro exI conjI) (assumption, simp_all)
  have seen: "lock_run False (lock_at (Some (0, 0)) ?late [Gone, Removing, Removing])"
    using run [OF run [OF run [OF held crash_at [of 0]] see_old_at [of 1]] see_old_at [of 2]] by simp
  have first: "lock_run False (lock_at (Some (1, ?late)) ?late [Gone, Holding, Removing])"
    using run [OF run [OF seen remove_at [of 1]] create_at [of 1]] by simp
  have "lock_run False (lock_at (Some (2, ?late)) ?late [Gone, Holding, Holding])"
    using run [OF run [OF first remove_at [of 2]] create_at [of 2]] by simp
  then show "\<exists>s. lock_run False s \<and> lock_place_of s 0 = Gone \<and> lock_place_of s 1 = Holding
        \<and> lock_place_of s 2 = Holding \<and> lock_file s = Some (2, lock_clock_ms s)"
    by (intro exI conjI) (assumption, simp_all)
qed


section \<open>The program takes these steps\<close>

text \<open>The environment of process \<open>i\<close>: each file operation of \<open>lock_attempt\<close> and \<open>with_lock\<close> is
  one step of the relation, and a sleep lets time pass.\<close>

definition lock_env :: "lock_state pool_env \<Rightarrow> nat \<Rightarrow> lock_state pool_env" where
  "lock_env base i = base
    \<lparr>pool_create_new := (\<lambda>_ s. if lock_file s = None
        then (Inr (), moved i Holding (s\<lparr>lock_file := Some (i, lock_clock_ms s)\<rparr>)) else (Inl AlreadyExists, s)),
     pool_file_age := (\<lambda>_ s. (lock_age s, if too_old s then moved i Removing s else s)),
     pool_remove_file := (\<lambda>_ s. (if lock_file s = None then Inl FileNotFound else Inr (),
        moved i (if lock_place_of s i = Removing then Trying else Gone) (s\<lparr>lock_file := None\<rparr>))),
     pool_create_dir_all := (\<lambda>_ s. (Inr (), s)),
     pool_instant := (\<lambda>s. (lock_clock_ms s, s)),
     pool_sleep := (\<lambda>n s. s\<lparr>lock_clock_ms := lock_clock_ms s + n\<rparr>)\<rparr>"

lemma lock_env_sel [simp]:
  "pool_create_new (lock_env base i) p s = (if lock_file s = None
    then (Inr (), moved i Holding (s\<lparr>lock_file := Some (i, lock_clock_ms s)\<rparr>)) else (Inl AlreadyExists, s))"
  "pool_file_age (lock_env base i) p s = (lock_age s, if too_old s then moved i Removing s else s)"
  "pool_remove_file (lock_env base i) p s = (if lock_file s = None then Inl FileNotFound else Inr (),
    moved i (if lock_place_of s i = Removing then Trying else Gone) (s\<lparr>lock_file := None\<rparr>))"
  "pool_create_dir_all (lock_env base i) p s = (Inr (), s)"
  "pool_instant (lock_env base i) s = (lock_clock_ms s, s)"
  "pool_sleep (lock_env base i) n s = s\<lparr>lock_clock_ms := lock_clock_ms s + n\<rparr>"
  by (simp_all add: lock_env_def)

lemma moved_sel [simp]:
  "lock_place_of (moved i p s) i = p" "lock_file (moved i p s) = lock_file s"
  "lock_clock_ms (moved i p s) = lock_clock_ms s" "moved i p (moved i q s) = moved i p s"
  by (simp_all add: moved_def)

lemma is_stale_env: "lock_is_stale (lock_env base i) p s = (too_old s, if too_old s then moved i Removing s else s)"
  by (simp add: lock_is_stale_def too_old_def)

lemma tick_step: "lock_step False s (s\<lparr>lock_clock_ms := lock_clock_ms s + n\<rparr>)"
  by (rule lock_step.tick) simp_all

lemma lock_attempt_env:
  "lock_attempt (lock_env base i) path deadline s =
    (if lock_file s = None then (Some (Inr ()), moved i Holding (s\<lparr>lock_file := Some (i, lock_clock_ms s)\<rparr>))
     else if too_old s then (None, moved i Trying (moved i Removing s\<lparr>lock_file := None\<rparr>))
     else if deadline \<le> lock_clock_ms s then (Some (Inl (LockTimeout path)), s)
     else (None, s\<lparr>lock_clock_ms := lock_clock_ms s + 25\<rparr>))"
  by (cases "lock_file s"; cases "too_old s") (simp_all add: lock_attempt_def is_stale_env split: unit.splits)

text \<open>A round of the loop of \<open>acquire_lock\<close>, run by one process on the shared file, takes
  steps of the relation and no others: it ends holding the lock exactly when it returns
  success, and is trying again when it goes round.\<close>

theorem lock_attempt_refines:
  assumes "lock_place_of s i = Trying"
  shows "lock_steps s (snd (lock_attempt (lock_env base i) path deadline s))
    \<and> lock_place_of (snd (lock_attempt (lock_env base i) path deadline s)) i
      = (if fst (lock_attempt (lock_env base i) path deadline s) = Some (Inr ()) then Holding else Trying)"
proof -
  have old: "lock_steps s (moved i Trying (moved i Removing s\<lparr>lock_file := None\<rparr>))" if "too_old s"
    using lock_step.see_old [OF assms that, of False] lock_step.remove [of "moved i Removing s" i False]
    by (simp add: lock_steps.more [OF _ lock_steps_one])
  show ?thesis
    using assms old lock_step.create [OF assms, of False] tick_step [of s 25]
    by (auto simp: lock_attempt_env intro: lock_steps_one lock_steps.none)
qed

lemma lock_attempt_refines_witness:
  "\<forall>base p. lock_steps lock_start (snd (lock_attempt (lock_env base 0) p 30000 lock_start))"
  using lock_attempt_refines [of lock_start 0] by (simp add: lock_start_def)


section \<open>The loop ends\<close>

text \<open>A clock that sleeping moves and nothing turns back, and a supply of old lock files that
  removing uses up.\<close>

locale lock_clock =
  fixes env :: "'w pool_env" and time :: "'w \<Rightarrow> nat" and old_files :: "'w \<Rightarrow> nat"
  assumes reads: "pool_instant env w = (now, w') \<Longrightarrow> now = time w \<and> time w' = time w \<and> old_files w' = old_files w"
    and sleeps: "time w + n \<le> time (pool_sleep env n w)" "old_files (pool_sleep env n w) \<le> old_files w"
    and creates: "pool_create_new env p w = (Inl AlreadyExists, w') \<Longrightarrow> time w \<le> time w' \<and> old_files w' \<le> old_files w"
    and looks: "lock_is_stale env p w = (b, w') \<Longrightarrow> time w \<le> time w' \<and> old_files w' \<le> old_files w"
    and removes: "lock_is_stale env p w = (True, w1) \<Longrightarrow> pool_remove_file env p w1 = (removed, w')
      \<Longrightarrow> time w \<le> time w' \<and> old_files w' < old_files w"
begin

lemma again:
  assumes "lock_attempt env path deadline w = (None, w')"
  shows "time w \<le> time w' \<and> (old_files w' < old_files w
    \<or> old_files w' \<le> old_files w \<and> time w < deadline \<and> time w + 25 \<le> time w')"
proof -
  obtain c w1 where c: "pool_create_new env path w = (c, w1)" by (cases "pool_create_new env path w")
  have exists: "c = Inl AlreadyExists"
    using assms by (auto simp: lock_attempt_def c split: sum.splits open_failure.splits unit.splits)
  note first = creates [OF c [unfolded exists]]
  obtain b w2 where b: "lock_is_stale env path w1 = (b, w2)" by (cases "lock_is_stale env path w1")
  show ?thesis
  proof (cases b)
    case True
    obtain x w3 where x: "pool_remove_file env path w2 = (x, w3)" by (cases "pool_remove_file env path w2")
    have "w' = w3"
      using assms b x True
      by (auto simp: lock_attempt_def c exists split: sum.splits file_failure.splits unit.splits)
    then show ?thesis using removes [of path w1 w2 x w3] b x True first by simp
  next
    case False
    obtain now w3 where t: "pool_instant env w2 = (now, w3)" by (cases "pool_instant env w2")
    have "w' = pool_sleep env 25 w3" "now < deadline"
      using assms b t False by (auto simp: lock_attempt_def c exists split: if_splits)
    then show ?thesis
      using first looks [OF b] reads [OF t] sleeps(1) [of w3 25] sleeps(2) [of 25 w3] by simp
  qed
qed

lemma loop_returns: "lock_loop env path deadline w \<noteq> None"
proof (induction "old_files w" arbitrary: w rule: less_induct)
  case outer: less
  show ?case
    using outer
  proof (induction "deadline - time w" arbitrary: w rule: less_induct)
    case inner: less
    obtain r w' where one: "lock_attempt env path deadline w = (r, w')" by (cases "lock_attempt env path deadline w")
    show ?case
    proof (cases r)
      case None
      note step = again [OF one [unfolded None]]
      have "lock_loop env path deadline w' \<noteq> None"
      proof (cases "old_files w' < old_files w")
        case True
        then show ?thesis by (rule inner.prems)
      next
        case False
        have "deadline - time w' < deadline - time w" using step False by linarith
        moreover have "lock_loop env path deadline v \<noteq> None" if "old_files v < old_files w'" for v
          using that step by (intro inner.prems) linarith
        ultimately show ?thesis by (rule inner.hyps)
      qed
      then show ?thesis by (simp only: lock_loop.simps [of env path deadline w] one None prod.case option.case not_False_eq_True)
    next
      case (Some x)
      then show ?thesis using lock_loop.simps [of env path deadline w] by (simp only: one prod.case option.case) simp
    qed
  qed
qed

lemma acquire_returns: "acquire_lock env pool w \<noteq> None"
  using loop_returns unfolding acquire_lock_def by (auto split: prod.splits sum.splits unit.splits)

end


definition old_files_of :: "lock_state \<Rightarrow> nat" where
  "old_files_of s = (if lock_file s = None then 0 else 1)"

interpretation shared: lock_clock "lock_env base i" lock_clock_ms old_files_of for base i
  by unfold_locales
    (auto simp: is_stale_env old_files_of_def too_old_def lock_age_def split: if_splits option.splits)



end
