(* ===== verification/Git_Pool_Paths.thy ===== *)
theory Git_Pool_Paths
  imports Git_Pool
begin

text \<open>
  Where the pool puts its mirrors and worktrees, and what its registry keeps.
\<close>

section \<open>Paths\<close>

lemma safe_component_plain:
  assumes "safe_component s"
  shows "CHR ''/'' \<notin> set s" "s \<noteq> []" "s \<noteq> ''.''" "s \<noteq> ''..''" "\<not> path_is_absolute s"
proof -
  show slash: "CHR ''/'' \<notin> set s"
    using assms by (auto simp: safe_component_def list_all_iff is_alnum_def is_digit_def is_ascii_lower_def is_ascii_upper_def)
  show "\<not> path_is_absolute s"
    using slash by (auto simp: path_is_absolute_def starts_with_iff)
qed (use assms in \<open>auto simp: safe_component_def\<close>)

lemma join_plain:
  assumes "path_is_absolute base" "CHR ''/'' \<notin> set s" "s \<noteq> []" "s \<noteq> ''.''" "s \<noteq> ''..''"
  shows "path_components (path_join base s) = path_components base @ [Normal s]" "path_is_absolute (path_join base s)"
proof -
  have rel: "\<not> path_is_absolute s" using assms(2) by (auto simp: path_is_absolute_def starts_with_iff)
  then show "path_components (path_join base s) = path_components base @ [Normal s]"
    using assms by (simp add: path_components_join split_on_single segment_component_def List.map_filter_def)
  show "path_is_absolute (path_join base s)"
    using assms(1) rel by (auto simp: path_join_def path_is_absolute_def starts_with_iff)
qed

lemma suffixed_plain:
  assumes "safe_component s"
  shows "CHR ''/'' \<notin> set (s @ ''.git'')" "s @ ''.git'' \<noteq> ''.''" "s @ ''.git'' \<noteq> ''..''" "s @ ''.git'' \<noteq> []"
  using safe_component_plain [OF assms] by auto

text \<open>C20: the mirror of an accepted repository and the worktree of an accepted review id lie
  exactly three and two directories below their roots, at the names given, so no two
  repositories share a mirror and no two reviews share a worktree.\<close>

theorem pool_paths_are_separate:
  assumes "path_is_absolute (cache_root pool)" "path_is_absolute (application_data_root pool)"
    and "RepositoryLocator_new host owner repository = Inr l" "worktree_path pool review = Inr p"
  shows "path_components (mirror_path pool l) = path_components (mirrors_root pool)
      @ [Normal (to_ascii_lowercase host), Normal owner, Normal (repository @ ''.git'')]
    \<and> path_components p = path_components (reviews_root pool) @ [Normal review, Normal ''worktree'']"
proof -
  have l: "locator_host l = to_ascii_lowercase host" "locator_owner l = owner" "locator_repository l = repository"
    and safe: "safe_component (to_ascii_lowercase host)" "safe_component owner" "safe_component repository"
    using assms(3) by (auto simp: RepositoryLocator_new_def Let_def)
  have review: "safe_component review" and p: "p = path_join (path_join (reviews_root pool) review) ''worktree''"
    using assms(4) by (auto simp: worktree_path_def validate_review_id_def)
  have roots: "path_is_absolute (mirrors_root pool)" "path_is_absolute (reviews_root pool)"
    unfolding mirrors_root_def reviews_root_def by (rule join_plain(2); use assms(1,2) in simp)+
  note host = join_plain [OF roots(1) safe_component_plain(1,2,3,4) [OF safe(1)]]
  note owner = join_plain [OF host(2) safe_component_plain(1,2,3,4) [OF safe(2)]]
  note mirror = join_plain [OF owner(2) suffixed_plain(1,4,2,3) [OF safe(3)]]
  have "path_components (mirror_path pool l) = path_components (mirrors_root pool)
      @ [Normal (to_ascii_lowercase host), Normal owner, Normal (repository @ ''.git'')]"
    unfolding mirror_path_def l mirror(1) owner(1) host(1) by simp
  moreover have "path_components p = path_components (reviews_root pool) @ [Normal review, Normal ''worktree'']"
    unfolding p by (simp add: join_plain roots safe_component_plain [OF review])
  ultimately show ?thesis by blast
qed

definition demo_pool :: RepositoryPool where
  "demo_pool = \<lparr>cache_root = ''/c'', application_data_root = ''/d''\<rparr>"

lemma pool_paths_are_separate_witness:
  "\<exists>l. RepositoryLocator_new ''GitHub.com'' ''o'' ''r'' = Inr l
    \<and> path_components (mirror_path demo_pool l) = path_components (mirrors_root demo_pool)
      @ [Normal ''github.com'', Normal ''o'', Normal ''r.git'']"
proof -
  have "is_ok (RepositoryLocator_new ''GitHub.com'' ''o'' ''r'')" "is_ok (worktree_path demo_pool ''r1'')" by code_simp+
  then obtain l p where ok: "RepositoryLocator_new ''GitHub.com'' ''o'' ''r'' = Inr l" "worktree_path demo_pool ''r1'' = Inr p"
    by (auto simp: is_ok_iff)
  have roots: "path_is_absolute (cache_root demo_pool)" "path_is_absolute (application_data_root demo_pool)" by code_simp+
  have "to_ascii_lowercase ''GitHub.com'' = ''github.com''" by code_simp
  with pool_paths_are_separate [OF roots ok] ok show ?thesis by simp
qed

text \<open>The check of a mirror path compares components without resolving them, so for a locator
  that did not come from \<open>RepositoryLocator::new\<close> it accepts a path outside the cache.\<close>

lemma mirror_check_is_lexical:
  "ensure_mirror_path demo_pool (mirror_path demo_pool \<lparr>locator_host = ''..'', locator_owner = ''..'', locator_repository = ''x''\<rparr>) = Inr ()
    \<and> resolve (path_components (mirror_path demo_pool \<lparr>locator_host = ''..'', locator_owner = ''..'', locator_repository = ''x''\<rparr>)) []
      = [''x.git'']"
  by code_simp

section \<open>The registry\<close>

text \<open>The records are kept in the order of their review ids, each id once; inserting and
  removing are the updates of a finite map.\<close>

definition registry_ok :: "ManagedWorktree list \<Rightarrow> bool" where
  "registry_ok rs \<longleftrightarrow> sorted (map managed_review_id rs) \<and> distinct (map managed_review_id rs)"

definition registry_map :: "ManagedWorktree list \<Rightarrow> string \<Rightarrow> ManagedWorktree option" where
  "registry_map rs review = record_position review rs"

lemma replace_first_ids:
  "map managed_review_id (replace_first r rs) =
    (if managed_review_id r \<in> set (map managed_review_id rs) then map managed_review_id rs
     else map managed_review_id rs @ [managed_review_id r])"
  by (induction rs) auto

lemma replace_first_find:
  "find (\<lambda>x. managed_review_id x = k) (replace_first r rs) =
    (if k = managed_review_id r then Some r else find (\<lambda>x. managed_review_id x = k) rs)"
  by (induction rs) auto

lemma find_distinct:
  "distinct (map f xs) \<Longrightarrow> find (\<lambda>x. f x = k) xs = Some x \<longleftrightarrow> x \<in> set xs \<and> f x = k"
  by (induction xs) (auto simp: image_iff)

lemma option_eqI: "(\<And>x. a = Some x \<longleftrightarrow> b = Some x) \<Longrightarrow> a = b"
  by (metis not_Some_eq)

lemma find_distinct_perm:
  assumes "distinct (map f xs)" "distinct (map f ys)" "set xs = set ys"
  shows "find (\<lambda>x. f x = k) xs = find (\<lambda>x. f x = k) ys"
  by (rule option_eqI) (simp add: find_distinct assms(1,2), simp add: assms(3))

lemma remove_record_ids:
  "sorted (map managed_review_id rs) \<Longrightarrow> sorted (map managed_review_id (remove_record k rs))"
  "set (remove_record k rs) \<subseteq> set rs"
  "distinct (map managed_review_id rs) \<Longrightarrow> distinct (map managed_review_id (remove_record k rs))"
proof -
  show sub: "set (remove_record k rs) \<subseteq> set rs" for rs by (induction rs) auto
  show "sorted (map managed_review_id rs) \<Longrightarrow> sorted (map managed_review_id (remove_record k rs))"
    using sub by (induction rs) fastforce+
  show "distinct (map managed_review_id rs) \<Longrightarrow> distinct (map managed_review_id (remove_record k rs))"
    using sub by (induction rs) fastforce+
qed

lemma remove_record_find:
  assumes "distinct (map managed_review_id rs)"
  shows "find (\<lambda>x. managed_review_id x = j) (remove_record k rs)
    = (if j = k then None else find (\<lambda>x. managed_review_id x = j) rs)"
  using assms
proof (induction rs)
  case (Cons r rs)
  then show ?case by (auto simp: find_None_iff image_iff)
qed simp

text \<open>The registry is a finite map from review ids to records, kept in order with each id once:
  \<open>upsert\<close> and \<open>remove\<close> keep it so and are the update and the removal of one entry.\<close>

theorem registry_updates:
  assumes "registry_ok rs"
  shows "registry_ok (upsert_record r rs) \<and> registry_ok (remove_record review rs)
    \<and> registry_map (upsert_record r rs) = (registry_map rs)(managed_review_id r \<mapsto> r)
    \<and> registry_map (remove_record review rs) = (registry_map rs)(review := None)"
proof -
  have d: "distinct (map managed_review_id rs)" and s: "sorted (map managed_review_id rs)"
    using assms by (auto simp: registry_ok_def)
  have replaced: "distinct (map managed_review_id (replace_first r rs))"
    unfolding replace_first_ids using d by simp
  then have upserted: "distinct (map managed_review_id (upsert_record r rs))"
    by (simp add: upsert_record_def distinct_map)
  have "registry_map (upsert_record r rs) k = ((registry_map rs)(managed_review_id r \<mapsto> r)) k" for k
    using find_distinct_perm [OF upserted replaced, of k]
    by (simp add: upsert_record_def registry_map_def record_position_def replace_first_find)
  then have "registry_map (upsert_record r rs) = (registry_map rs)(managed_review_id r \<mapsto> r)" by blast
  moreover have "registry_map (remove_record review rs) = (registry_map rs)(review := None)"
    using remove_record_find [OF d] by (auto simp: registry_map_def record_position_def)
  moreover have "registry_ok (upsert_record r rs)"
    using upserted by (simp add: registry_ok_def upsert_record_def)
  ultimately show ?thesis
    using remove_record_ids d s by (simp add: registry_ok_def)
qed

lemma registry_updates_witness:
  "\<forall>r. registry_ok (upsert_record r []) \<and> registry_map (upsert_record r []) (managed_review_id r) = Some r"
  using registry_updates [of "[]"] by (simp add: registry_ok_def)

end
