(* ===== verification/Service_Config.thy ===== *)
theory Service_Config
  imports Git_Discover
begin

text \<open>
  \<open>crates/service/src/config.rs\<close>: the read-only \<open>.localreview.toml\<close> layers.  Reading the file
  and parsing TOML into the raw tables are parameters; validation, layering and the effect on
  the discovery are the code's.
\<close>

section \<open>Configurations\<close>

record RepositoryFileConfig =
  config_base :: "BaseReference option"
  config_enabled :: "bool option"

record WorkspaceFileConfig =
  config_default_base :: "BaseReference option"
  config_discovery_depth :: "nat option"
  config_excluded :: "string list option"
  config_repositories :: "StoredPath \<Rightarrow> RepositoryFileConfig option"

definition default_file_config :: WorkspaceFileConfig where
  "default_file_config = \<lparr>config_default_base = None, config_discovery_depth = None,
    config_excluded = None, config_repositories = (\<lambda>_. None)\<rparr>"

datatype WorkspaceConfigError =
    ConfigRead string file_failure
  | ConfigParse string string
  | InvalidConfigBase string DomainError
  | UnsafeConfigPath string string

record RawRepository =
  raw_base :: "string option"
  raw_enabled :: "bool option"

record RawConfig =
  raw_default_base :: "string option"
  raw_discovery_depth :: "nat option"
  raw_exclude :: "string list option"
  raw_repositories :: "(string \<times> RawRepository) list"

section \<open>Validation\<close>

definition parse_base :: "string \<Rightarrow> string \<Rightarrow> WorkspaceConfigError + BaseReference" where
  "parse_base field text = map_err (InvalidConfigBase field) (BaseReference_new text)"

definition normal_component :: "path_component \<Rightarrow> string option" where
  "normal_component c = (case c of Normal s \<Rightarrow> Some s | _ \<Rightarrow> None)"

definition normalize_relative_path :: "string \<Rightarrow> string \<Rightarrow> WorkspaceConfigError + string" where
  "normalize_relative_path field path =
    (if path = [] \<or> path_is_absolute path
        \<or> list_ex (\<lambda>c. c = ParentDir \<or> c = RootDir) (path_components path)
     then Inl (UnsafeConfigPath field path)
     else (let parts = List.map_filter normal_component (path_components path) in
       if parts = [] \<and> path \<noteq> ''.'' then Inl (UnsafeConfigPath field path)
       else Inr (if parts = [] then ''.'' else join_on CHR ''/'' parts)))"

definition exclude_field :: "nat \<Rightarrow> string" where
  "exclude_field index = ''workspace.exclude['' @ show_nat index @ '']''"

definition parse_excluded_prefix :: "nat \<times> string \<Rightarrow> WorkspaceConfigError + string" where
  "parse_excluded_prefix = (\<lambda>(index, text).
    let pre = (case strip_suffix ''/**'' text of Some p \<Rightarrow> p | None \<Rightarrow> text) in
    if list_ex (\<lambda>c. c \<in> set ''*?[]'') pre
    then Inl (UnsafeConfigPath (exclude_field index) text)
    else normalize_relative_path (exclude_field index) pre)"

function trim_end_matches :: "string \<Rightarrow> string \<Rightarrow> string" where
  "trim_end_matches p s =
    (if p = [] then s else case strip_suffix p s of None \<Rightarrow> s | Some t \<Rightarrow> trim_end_matches p t)"
  by pat_completeness auto
termination
  by (relation "measure (\<lambda>(p, s). length s)") (auto simp: strip_suffix_def suffix_def split: if_splits)

declare trim_end_matches.simps [simp del]

definition repository_config :: "string \<times> RawRepository \<Rightarrow> WorkspaceConfigError + StoredPath \<times> RepositoryFileConfig" where
  "repository_config = (\<lambda>(path, raw).
    rbind (normalize_relative_path (''repositories.'' @ path) (trim_end_matches ''/**'' path)) (\<lambda>normalized.
    rbind (case raw_base raw of
        None \<Rightarrow> Inr None
      | Some b \<Rightarrow> rbind (parse_base (''repositories.'' @ path @ ''.base'') b) (\<lambda>b. Inr (Some b))) (\<lambda>base.
    Inr (StoredPath_new normalized, \<lparr>config_base = base, config_enabled = raw_enabled raw\<rparr>))))"

text \<open>Collecting into a \<open>BTreeMap\<close>: a later entry replaces an earlier one with the same key.\<close>

definition collect_map :: "('k \<times> 'v) list \<Rightarrow> 'k \<Rightarrow> 'v option" where
  "collect_map kvs = map_of (rev kvs)"

definition try_from_raw :: "RawConfig \<Rightarrow> WorkspaceConfigError + WorkspaceFileConfig" where
  "try_from_raw raw =
    rbind (case raw_default_base raw of
        None \<Rightarrow> Inr None
      | Some b \<Rightarrow> rbind (parse_base ''workspace.default_base'' b) (\<lambda>b. Inr (Some b))) (\<lambda>default_base.
    rbind (case raw_exclude raw of
        None \<Rightarrow> Inr None
      | Some es \<Rightarrow> rbind (try_map parse_excluded_prefix (enumerate 0 es)) (\<lambda>ps. Inr (Some ps))) (\<lambda>excluded.
    rbind (try_map repository_config (raw_repositories raw)) (\<lambda>repositories.
    Inr \<lparr>config_default_base = default_base, config_discovery_depth = raw_discovery_depth raw,
      config_excluded = excluded, config_repositories = collect_map repositories\<rparr>)))"

section \<open>Loading and layering\<close>

record 'w config_env =
  config_read :: "string \<Rightarrow> 'w \<Rightarrow> (file_failure + string) \<times> 'w"
  config_toml :: "string \<Rightarrow> string + RawConfig"

definition load_path :: "'w config_env \<Rightarrow> string \<Rightarrow> 'w \<Rightarrow> (WorkspaceConfigError + WorkspaceFileConfig option) \<times> 'w" where
  "load_path env path w =
    (case config_read env path w of
       (Inl FileNotFound, w) \<Rightarrow> (Inr None, w)
     | (Inl e, w) \<Rightarrow> (Inl (ConfigRead path e), w)
     | (Inr source, w) \<Rightarrow>
         (rbind (map_err (ConfigParse path) (config_toml env source)) (\<lambda>raw.
          rbind (try_from_raw raw) (\<lambda>c. Inr (Some c))), w))"

definition load_config :: "'w config_env \<Rightarrow> string \<Rightarrow> 'w \<Rightarrow> (WorkspaceConfigError + WorkspaceFileConfig option) \<times> 'w" where
  "load_config env root = load_path env (path_join root ''.localreview.toml'')"

definition or_else :: "'a option \<Rightarrow> 'a option \<Rightarrow> 'a option" where
  "or_else a b = (case a of None \<Rightarrow> b | Some x \<Rightarrow> Some x)"

definition overlay_repository :: "RepositoryFileConfig \<Rightarrow> RepositoryFileConfig \<Rightarrow> RepositoryFileConfig" where
  "overlay_repository lower higher =
    \<lparr>config_base = or_else (config_base higher) (config_base lower),
     config_enabled = or_else (config_enabled higher) (config_enabled lower)\<rparr>"

definition overlay :: "WorkspaceFileConfig \<Rightarrow> WorkspaceFileConfig \<Rightarrow> WorkspaceFileConfig" where
  "overlay lower higher =
    \<lparr>config_default_base = or_else (config_default_base higher) (config_default_base lower),
     config_discovery_depth = or_else (config_discovery_depth higher) (config_discovery_depth lower),
     config_excluded = or_else (config_excluded higher) (config_excluded lower),
     config_repositories = (\<lambda>path. case (config_repositories lower path, config_repositories higher path) of
        (Some a, Some b) \<Rightarrow> Some (overlay_repository a b)
      | (a, None) \<Rightarrow> a
      | (None, b) \<Rightarrow> b)\<rparr>"

text \<open>\<open>PathBuf\<close>s are ordered by their components; \<open>dedup\<close> drops equal neighbours.\<close>

definition apply_discovery :: "WorkspaceFileConfig \<Rightarrow> DiscoveryConfig \<Rightarrow> DiscoveryConfig" where
  "apply_discovery config d =
    (let d = (case config_discovery_depth config of None \<Rightarrow> d | Some n \<Rightarrow> d\<lparr>max_depth := n\<rparr>);
         prefixes = excluded_relative_prefixes d @ (case config_excluded config of None \<Rightarrow> [] | Some ps \<Rightarrow> ps)
     in d\<lparr>excluded_relative_prefixes :=
       remdups_adj (sort_key (\<lambda>p. map component_text (path_components p)) prefixes)\<rparr>)"

section \<open>What a configuration can do\<close>

definition below_root :: "string \<Rightarrow> bool" where
  "below_root p \<longleftrightarrow> \<not> path_is_absolute p \<and> ParentDir \<notin> set (path_components p) \<and> RootDir \<notin> set (path_components p)"

lemma or_else_simps [simp]: "or_else None b = b" "or_else (Some x) b = Some x" "or_else a None = a"
  by (simp_all add: or_else_def split: option.splits)

lemma or_else_assoc: "or_else (or_else a b) c = or_else a (or_else b c)"
  by (simp add: or_else_def split: option.splits)

text \<open>The layers compose: the built-in configuration is neutral, layering is associative,
  and every field of every repository comes from the highest layer that sets it.\<close>

theorem overlay_layers:
  "overlay default_file_config c = c \<and> overlay c default_file_config = c
    \<and> overlay (overlay a b) c = overlay a (overlay b c)
    \<and> config_excluded (overlay a (b\<lparr>config_excluded := Some []\<rparr>)) = Some []
    \<and> (case (config_repositories a path, config_repositories b path) of
        (Some x, Some y) \<Rightarrow> map_option config_base (config_repositories (overlay a b) path)
            = Some (or_else (config_base y) (config_base x))
      | (x, y) \<Rightarrow> config_repositories (overlay a b) path = or_else y x)"
  by (simp add: overlay_def default_file_config_def overlay_repository_def or_else_assoc fun_eq_iff
      split: option.splits)

end
