(* ===== verification/Service_Config_Props.thy ===== *)
theory Service_Config_Props
  imports Service_Config Git_Discover_Props
begin

text \<open>
  A configuration file cannot reach outside the workspace: every path of an accepted
  configuration is relative and without parent components.
\<close>

lemma try_map_source: "try_map f xs = Inr ys \<Longrightarrow> y \<in> set ys \<Longrightarrow> \<exists>x\<in>set xs. f x = Inr y"
  by (induction xs arbitrary: ys) auto

lemma component_file_name:
  assumes "Normal s \<in> set (path_components p)"
  shows "file_name_ok s"
proof -
  have "Normal s \<in> set (List.map_filter segment_component (split_on CHR ''/'' p))"
    using assms by (auto simp: path_components_def Let_def split: if_splits)
  then obtain q where "q \<in> set (split_on CHR ''/'' p)" "segment_component q = Some (Normal s)"
    by (auto simp: List.map_filter_def)
  then show ?thesis
    using split_on_no_sep [of q "CHR ''/''" p] by (auto simp: file_name_ok_def segment_component_def split: if_splits)
qed

lemma normal_parts_ok: "list_all file_name_ok (List.map_filter normal_component (path_components p))"
  by (auto simp: list_all_iff List.map_filter_def normal_component_def intro: component_file_name
      split: path_component.splits)

lemma names_below_root:
  assumes "list_all file_name_ok ns" "ns \<noteq> []"
  shows "below_root (join_on CHR ''/'' ns)"
  using components_join_names [OF assms(1)] assms join_names_relative [OF assms(1)] by (auto simp: below_root_def)

lemma dot_below_root: "below_root ''.''"
  by (simp add: below_root_def path_components_def path_is_absolute_def starts_with_iff segment_component_def
      List.map_filter_simps)

lemma normalized_below_root: "normalize_relative_path field p = Inr r \<Longrightarrow> below_root r"
  using names_below_root [OF normal_parts_ok] dot_below_root
  by (auto simp: normalize_relative_path_def Let_def split: if_splits)

lemma excluded_below_root: "parse_excluded_prefix e = Inr r \<Longrightarrow> below_root r"
  by (cases e) (auto simp: parse_excluded_prefix_def Let_def dest: normalized_below_root split: if_splits)

lemma repository_below_root: "repository_config e = Inr (path, c) \<Longrightarrow> \<exists>p. path = StoredPath_new p \<and> below_root p"
  by (cases e) (auto simp: repository_config_def dest: normalized_below_root)

text \<open>Every excluded prefix and every repository path of an accepted configuration file is
  relative and has no parent component, so joined to the workspace it stays below it.\<close>

theorem config_paths_below_root:
  assumes "try_from_raw raw = Inr c"
  shows "(case config_excluded c of None \<Rightarrow> True | Some ps \<Rightarrow> list_all below_root ps)
    \<and> (case config_repositories c path of None \<Rightarrow> True | Some r \<Rightarrow> \<exists>p. path = StoredPath_new p \<and> below_root p)"
proof -
  obtain repositories where repositories: "try_map repository_config (raw_repositories raw) = Inr repositories"
    "config_repositories c = collect_map repositories"
    using assms by (auto simp: try_from_raw_def)
  have "\<exists>p. path = StoredPath_new p \<and> below_root p" if "config_repositories c path = Some r" for r
  proof -
    have "(path, r) \<in> set repositories"
      using that repositories(2) by (auto simp: collect_map_def dest: map_of_SomeD)
    then obtain e where "repository_config e = Inr (path, r)"
      using try_map_source [OF repositories(1)] by blast
    then show ?thesis by (rule repository_below_root)
  qed
  moreover have "list_all below_root ps" if some: "config_excluded c = Some ps" for ps
  proof -
    obtain es where "try_map parse_excluded_prefix es = Inr ps"
      using assms some by (auto simp: try_from_raw_def split: option.splits)
    then show ?thesis using try_map_source by (fastforce simp: list_all_iff intro: excluded_below_root)
  qed
  ultimately show ?thesis by (auto split: option.splits)
qed

lemma config_paths_below_root_witness:
  "\<exists>c. try_from_raw \<lparr>raw_default_base = None, raw_discovery_depth = None,
      raw_exclude = Some [''vendor/**''], raw_repositories = []\<rparr> = Inr c
    \<and> config_excluded c = Some [''vendor''] \<and> list_all below_root [''vendor'']"
proof -
  let ?raw = "\<lparr>raw_default_base = None, raw_discovery_depth = None,
    raw_exclude = Some [''vendor/**''], raw_repositories = []\<rparr>"
  have "map_sum (\<lambda>_. ()) config_excluded (try_from_raw ?raw) = Inr (Some [''vendor''])" by code_simp
  then obtain c where c: "try_from_raw ?raw = Inr c" "config_excluded c = Some [''vendor'']"
    by (cases "try_from_raw ?raw") auto
  then show ?thesis using config_paths_below_root [OF c(1)] by auto
qed

text \<open>Only the excluded prefixes are checked for wild cards; a repository table with one is
  accepted, and names no repository of the workspace.\<close>

lemma wildcard_repository_accepted:
  "\<exists>c. repository_config (''lib*'', \<lparr>raw_base = None, raw_enabled = Some False\<rparr>) = Inr (StoredPath ''lib*'', c)"
proof -
  have "repository_config (''lib*'', \<lparr>raw_base = None, raw_enabled = Some False\<rparr>)
    = Inr (StoredPath ''lib*'', \<lparr>config_base = None, config_enabled = Some False\<rparr>)" by code_simp
  then show ?thesis by blast
qed

end
