(* ===== verification/Service_Review.thy ===== *)
theory Service_Review
  imports Diff_Model Git_Repository "HOL-Library.Product_Lexorder" "HOL-Library.Option_ord"
    "HOL-Library.Multiset"
begin

text \<open>
  \<open>crates/service/src/lib.rs\<close>, the pure part of a review refresh: where an annotation goes
  in the new generation of its file, how two immutable generations compare, and how a Git
  failure is classified.

  \<open>u32\<close> line numbers are naturals with the width written out (\<open>add32\<close> and \<open>sub32\<close> wrap as
  in a release build).  Slicing outside a list panics in the source; here it is
  \<open>Inl Panic\<close>.
\<close>

datatype panic = Panic

definition add32 :: "nat \<Rightarrow> nat \<Rightarrow> nat" where "add32 a b = (a + b) mod 4294967296"
definition sub32 :: "nat \<Rightarrow> nat \<Rightarrow> nat" where "sub32 a b = (a + 4294967296 - b) mod 4294967296"

section \<open>Slices and windows\<close>

definition slice :: "'a list \<Rightarrow> nat \<Rightarrow> nat \<Rightarrow> 'a list" where
  "slice xs a b = take (b - a) (drop a xs)"

definition slice_get :: "'a list \<Rightarrow> nat \<Rightarrow> nat \<Rightarrow> 'a list option" where
  "slice_get xs a b = (if a \<le> b \<and> b \<le> length xs then Some (slice xs a b) else None)"

definition slice_index :: "'a list \<Rightarrow> nat \<Rightarrow> nat \<Rightarrow> panic + 'a list" where
  "slice_index xs a b = ok_or Panic (slice_get xs a b)"

text \<open>The offsets at which a list of lines occurs in a source.\<close>

definition occurrences :: "'a list \<Rightarrow> 'a list \<Rightarrow> nat list" where
  "occurrences needle xs =
    filter (\<lambda>i. slice xs i (i + length needle) = needle) [0..<length xs + 1 - length needle]"

fun join_lines :: "string list \<Rightarrow> string" where
  "join_lines [] = []"
| "join_lines [l] = l"
| "join_lines (l # ls) = l @ [NL] @ join_lines ls"

section \<open>Where an annotation goes\<close>

definition unique_range :: "string list \<Rightarrow> string list \<Rightarrow> (nat \<times> nat) option" where
  "unique_range lines needle =
    (if needle = [] \<or> length needle > length lines then None
     else (case map inc32 (occurrences needle lines) of
         [start] \<Rightarrow> Some (start, sub32 (add32 start (to_u32 (length needle))) 1)
       | _ \<Rightarrow> None))"

definition unique_context_selection ::
  "string list \<Rightarrow> string list \<Rightarrow> string list \<Rightarrow> (nat \<times> nat) option" where
  "unique_context_selection lines context selected =
    (if context = [] \<or> selected = [] \<or> length context > length lines then None
     else (case occurrences context lines of
         [at] \<Rightarrow>
           (case occurrences selected context of
              [offset] \<Rightarrow>
                (let start = min (min (at + offset) U64_MAX + 1) U64_MAX in
                 if start > U32_MAX \<or> length selected > U32_MAX then None
                 else Some (start, add32 start (length selected - 1)))
            | _ \<Rightarrow> None)
       | _ \<Rightarrow> None))"

definition surrounding_context :: "string list \<Rightarrow> nat \<Rightarrow> nat \<Rightarrow> panic + string" where
  "surrounding_context lines start end_line =
    rbind (slice_index lines (start - 4) (min (min (end_line + 3) U32_MAX) (length lines)))
      (\<lambda>context. Inr (join_lines context))"

definition exact_range :: "string list \<Rightarrow> string list \<Rightarrow> nat \<Rightarrow> nat \<Rightarrow> bool" where
  "exact_range lines selected start end_line =
    (case slice_get lines (start - 1) end_line of
      None \<Rightarrow> False
    | Some candidate \<Rightarrow> selected \<noteq> [] \<and> candidate = selected)"

definition reanchor_candidate ::
  "string list \<Rightarrow> AnnotationAnchor \<Rightarrow> nat \<Rightarrow> nat \<Rightarrow> (nat \<times> nat) option" where
  "reanchor_candidate lines anchor start end_line =
    (let selected = str_lines (anchor_selected_source anchor);
         context = str_lines (anchor_surrounding_context anchor)
     in if exact_range lines selected start end_line then Some (start, end_line)
        else (case unique_range lines selected of
            Some r \<Rightarrow> Some r
          | None \<Rightarrow> unique_context_selection lines context selected))"

definition rebuilt_anchor ::
  "(string \<Rightarrow> string) \<Rightarrow> AnnotationAnchor \<Rightarrow> ReviewDiffDocument \<Rightarrow> ComparisonId \<Rightarrow> DiffSide \<Rightarrow>
    string list \<Rightarrow> nat \<times> nat \<Rightarrow> panic + AnnotationAnchor option" where
  "rebuilt_anchor blake3 anchor document replacement side lines found =
    (let (start, end_line) = found in
     rbind (slice_index lines (start - 1) end_line) (\<lambda>selected.
     rbind (surrounding_context lines start end_line) (\<lambda>context.
     Inr (case anchor_from_line blake3
         \<lparr>input_comparison_id = replacement, input_repository_id = anchor_repository_id anchor,
          input_file_path = file_path (doc_file document), input_side = side,
          input_start_line = start, input_end_line = end_line,
          input_selected_source = join_lines selected, input_surrounding_context = context\<rparr> of
       Inl e \<Rightarrow> None
     | Inr rebuilt \<Rightarrow> Some (rebuilt\<lparr>anchor_old_path := file_old_path (doc_file document),
         anchor_outdated := False\<rparr>)))))"

definition side_source :: "ReviewDiffDocument \<Rightarrow> DiffSide \<Rightarrow> string" where
  "side_source document side = (case side of Old \<Rightarrow> content (doc_old document) | New \<Rightarrow> content (doc_new document))"

definition reanchor ::
  "(string \<Rightarrow> string) \<Rightarrow> AnnotationAnchor \<Rightarrow> ReviewDiffDocument \<Rightarrow> ComparisonId \<Rightarrow>
    panic + AnnotationAnchor option" where
  "reanchor blake3 anchor document replacement =
    (case (anchor_side anchor, anchor_start_line anchor, anchor_end_line anchor) of
      (Some side, Some start, Some end_line) \<Rightarrow>
        (let lines = str_lines (side_source document side) in
         case reanchor_candidate lines anchor start end_line of
           None \<Rightarrow> Inr None
         | Some found \<Rightarrow> rebuilt_anchor blake3 anchor document replacement side lines found)
    | _ \<Rightarrow> Inr None)"

definition outdated_anchor :: "AnnotationAnchor \<Rightarrow> ComparisonId \<Rightarrow> AnnotationAnchor" where
  "outdated_anchor anchor replacement =
    anchor\<lparr>anchor_comparison_id := replacement, anchor_outdated := True\<rparr>"

text \<open>The anchor of one annotation in the new generation: the first document with its path,
  as the path or the old path of the file.\<close>

definition holds_path :: "StoredPath \<Rightarrow> ReviewDiffDocument \<Rightarrow> bool" where
  "holds_path path document =
    (file_path (doc_file document) = path \<or> file_old_path (doc_file document) = Some path)"

definition moved_anchor ::
  "(string \<Rightarrow> string) \<Rightarrow> AnnotationAnchor \<Rightarrow> ComparisonId \<Rightarrow> ReviewDiffDocument list \<Rightarrow>
    panic + AnnotationAnchor" where
  "moved_anchor blake3 anchor replacement documents =
    (case find (holds_path (anchor_file_path anchor)) documents of
      None \<Rightarrow> Inr (outdated_anchor anchor replacement)
    | Some document \<Rightarrow>
        rbind (reanchor blake3 anchor document replacement) (\<lambda>r.
        Inr (case r of None \<Rightarrow> outdated_anchor anchor replacement | Some a \<Rightarrow> a)))"

definition belongs_to :: "RepositoryId \<Rightarrow> ComparisonId \<Rightarrow> AnnotationAnchor \<Rightarrow> bool" where
  "belongs_to repository previous anchor =
    (anchor_repository_id anchor = repository \<and> anchor_comparison_id anchor = previous)"

fun reanchored_annotations ::
  "(string \<Rightarrow> string) \<Rightarrow> RepositoryId \<Rightarrow> ComparisonId \<Rightarrow> ComparisonId \<Rightarrow> ReviewDiffDocument list \<Rightarrow>
    timestamp \<Rightarrow> Annotation list \<Rightarrow> panic + Annotation list" where
  "reanchored_annotations blake3 repository previous replacement documents now [] = Inr []"
| "reanchored_annotations blake3 repository previous replacement documents now (a # as) =
    (case annotation_anchor a of
      None \<Rightarrow> reanchored_annotations blake3 repository previous replacement documents now as
    | Some anchor \<Rightarrow>
        (if \<not> belongs_to repository previous anchor
         then reanchored_annotations blake3 repository previous replacement documents now as
         else rbind (moved_anchor blake3 anchor replacement documents) (\<lambda>moved.
           rbind (reanchored_annotations blake3 repository previous replacement documents now as) (\<lambda>rest.
           Inr (a\<lparr>annotation_anchor := Some moved, annotation_updated_at := now\<rparr> # rest)))))"

section \<open>Comparing two generations\<close>

datatype PreviousReviewFileChangeKind =
  ChangeAdded | ChangeRemoved | ChangeRenamed | ChangeModified | ChangeUnchanged

record PreviousReviewFileComparison =
  change_kind :: PreviousReviewFileChangeKind
  change_path :: StoredPath
  change_previous_path :: "StoredPath option"
  change_current_file :: "ReviewFileId option"
  change_previous_file :: "ReviewFileId option"
  change_current_fingerprint :: "ContentFingerprint option"
  change_previous_fingerprint :: "ContentFingerprint option"

definition status_text :: "ReviewFileStatus \<Rightarrow> string" where
  "status_text s = (case s of
      ReviewFileStatus.FileAdded \<Rightarrow> ''added'' | ReviewFileStatus.FileModified \<Rightarrow> ''modified''
    | ReviewFileStatus.FileDeleted \<Rightarrow> ''deleted'' | ReviewFileStatus.FileRenamed \<Rightarrow> ''renamed''
    | ReviewFileStatus.FileCopied \<Rightarrow> ''copied'' | FileBinary \<Rightarrow> ''binary''
    | ReviewFileStatus.FileModeChanged \<Rightarrow> ''mode_changed''
    | ReviewFileStatus.FileTypeChanged \<Rightarrow> ''type_changed''
    | ReviewFileStatus.FileSubmodule \<Rightarrow> ''submodule'' | FileLfsPointer \<Rightarrow> ''lfs_pointer'')"

definition immutable_document_fingerprint :: "(string \<Rightarrow> string) \<Rightarrow> ReviewDiffDocument \<Rightarrow> ContentFingerprint" where
  "immutable_document_fingerprint blake3 d =
    fingerprint_from_bytes blake3
      (status_text (file_status (doc_file d)) @ [NUL] @ source_fingerprint (doc_old d) @ [NUL] @
       source_fingerprint (doc_new d))"

text \<open>The two \<open>BTreeMap\<close>s of the previous generation: a later entry replaces an earlier one.\<close>

definition last_index :: "('a \<Rightarrow> bool) \<Rightarrow> 'a list \<Rightarrow> nat option" where
  "last_index p xs = find (\<lambda>i. p (xs ! i)) (rev [0..<length xs])"

definition previous_by_id :: "ReviewDiffDocument list \<Rightarrow> ReviewFileId \<Rightarrow> nat option" where
  "previous_by_id previous i = last_index (\<lambda>d. file_id (doc_file d) = i) previous"

definition previous_by_path :: "ReviewDiffDocument list \<Rightarrow> StoredPath \<Rightarrow> nat option" where
  "previous_by_path previous path = last_index (holds_path path) previous"

definition prior_index :: "ReviewDiffDocument list \<Rightarrow> ReviewDiffDocument \<Rightarrow> nat option" where
  "prior_index previous d =
    (case previous_by_id previous (file_id (doc_file d)) of
      Some i \<Rightarrow> Some i
    | None \<Rightarrow> (case previous_by_path previous (file_path (doc_file d)) of
        Some i \<Rightarrow> Some i
      | None \<Rightarrow> Option.bind (file_old_path (doc_file d)) (previous_by_path previous)))"

definition added_row :: "(string \<Rightarrow> string) \<Rightarrow> ReviewDiffDocument \<Rightarrow> PreviousReviewFileComparison" where
  "added_row blake3 d =
    \<lparr>change_kind = ChangeAdded, change_path = file_path (doc_file d), change_previous_path = None,
     change_current_file = Some (file_id (doc_file d)), change_previous_file = None,
     change_current_fingerprint = Some (immutable_document_fingerprint blake3 d),
     change_previous_fingerprint = None\<rparr>"

definition matched_row ::
  "(string \<Rightarrow> string) \<Rightarrow> ReviewDiffDocument \<Rightarrow> ReviewDiffDocument \<Rightarrow> PreviousReviewFileComparison" where
  "matched_row blake3 d prior =
    (let now = immutable_document_fingerprint blake3 d;
         before = immutable_document_fingerprint blake3 prior
     in \<lparr>change_kind = (if file_path (doc_file d) \<noteq> file_path (doc_file prior) then ChangeRenamed
           else if now = before then ChangeUnchanged else ChangeModified),
         change_path = file_path (doc_file d),
         change_previous_path = Some (file_path (doc_file prior)),
         change_current_file = Some (file_id (doc_file d)),
         change_previous_file = Some (file_id (doc_file prior)),
         change_current_fingerprint = Some now, change_previous_fingerprint = Some before\<rparr>)"

definition removed_row :: "(string \<Rightarrow> string) \<Rightarrow> ReviewDiffDocument \<Rightarrow> PreviousReviewFileComparison" where
  "removed_row blake3 d =
    \<lparr>change_kind = ChangeRemoved, change_path = file_path (doc_file d),
     change_previous_path = Some (file_path (doc_file d)), change_current_file = None,
     change_previous_file = Some (file_id (doc_file d)), change_current_fingerprint = None,
     change_previous_fingerprint = Some (immutable_document_fingerprint blake3 d)\<rparr>"

text \<open>The loop over the current generation: the rows, and the previous indices they used.\<close>

fun current_rows ::
  "(string \<Rightarrow> string) \<Rightarrow> ReviewDiffDocument list \<Rightarrow> ReviewDiffDocument list \<Rightarrow> nat list \<Rightarrow>
    PreviousReviewFileComparison list \<times> nat list" where
  "current_rows blake3 previous [] used = ([], used)"
| "current_rows blake3 previous (d # ds) used =
    (case prior_index previous d of
      Some i \<Rightarrow>
        (if i \<in> set used
         then (let (rows, used') = current_rows blake3 previous ds used in (added_row blake3 d # rows, used'))
         else (let (rows, used') = current_rows blake3 previous ds (i # used)
               in (matched_row blake3 d (previous ! i) # rows, used')))
    | None \<Rightarrow>
        (let (rows, used') = current_rows blake3 previous ds used in (added_row blake3 d # rows, used')))"

definition compare_rows ::
  "(string \<Rightarrow> string) \<Rightarrow> ReviewDiffDocument list \<Rightarrow> ReviewDiffDocument list \<Rightarrow> PreviousReviewFileComparison list" where
  "compare_rows blake3 current previous =
    (let (rows, used) = current_rows blake3 previous current [] in
     rows @ map (\<lambda>i. removed_row blake3 (previous ! i)) (filter (\<lambda>i. i \<notin> set used) [0..<length previous]))"

definition compare_immutable_review_documents ::
  "(string \<Rightarrow> string) \<Rightarrow> ReviewDiffDocument list \<Rightarrow> ReviewDiffDocument list \<Rightarrow> nat \<Rightarrow>
    PreviousReviewFileComparison list \<times> bool" where
  "compare_immutable_review_documents blake3 current previous max_files =
    (let result = sort_key (\<lambda>r. (change_path r, change_previous_path r)) (compare_rows blake3 current previous)
     in (take max_files result, length result > max_files))"

section \<open>File statuses and failures\<close>

definition review_file_status :: "CapturedTrackedFile \<Rightarrow> ReviewFileStatus" where
  "review_file_status f =
    (if tracked_binary f then FileBinary
     else if tracked_lfs_pointer f then FileLfsPointer
     else (case tracked_kind f of
         CapturedTrackedFileKind.FileAdded \<Rightarrow> ReviewFileStatus.FileAdded
       | CapturedTrackedFileKind.FileModified \<Rightarrow> ReviewFileStatus.FileModified
       | CapturedTrackedFileKind.FileDeleted \<Rightarrow> ReviewFileStatus.FileDeleted
       | CapturedTrackedFileKind.FileRenamed \<Rightarrow> ReviewFileStatus.FileRenamed
       | CapturedTrackedFileKind.FileCopied \<Rightarrow> ReviewFileStatus.FileCopied
       | CapturedTrackedFileKind.FileModeChanged \<Rightarrow> ReviewFileStatus.FileModeChanged
       | CapturedTrackedFileKind.FileTypeChanged \<Rightarrow> ReviewFileStatus.FileTypeChanged
       | CapturedTrackedFileKind.FileSubmodule \<Rightarrow> ReviewFileStatus.FileSubmodule))"

datatype RepositoryReviewFailureKind =
    MissingBaseReference BaseReference | MissingHead | GitUnavailable | RepositoryUnavailable
  | RepositoryPermissionDenied | CaptureLimitExceeded | ConcurrentModificationFailure
  | InvalidComparison | OtherFailure

datatype io_error_kind = IoNotFound | IoPermissionDenied | IoOther

text \<open>\<open>io_kind\<close> is the kind of an \<open>io::Error\<close>, which the model knows by its text.\<close>

definition from_git_error ::
  "(string \<Rightarrow> io_error_kind) \<Rightarrow> GitError \<Rightarrow> BaseReference \<Rightarrow> RepositoryReviewFailureKind" where
  "from_git_error io_kind e requested =
    (case e of
      CommandFailed command stderr \<Rightarrow>
        (if contains_str command (''rev-parse --verify '' @ base_str requested)
         then MissingBaseReference requested else OtherFailure)
    | UnbornHead \<Rightarrow> MissingHead
    | Spawn program source \<Rightarrow>
        (case io_kind source of
          IoNotFound \<Rightarrow> GitUnavailable | IoPermissionDenied \<Rightarrow> RepositoryPermissionDenied | IoOther \<Rightarrow> OtherFailure)
    | NotARepository path \<Rightarrow> RepositoryUnavailable
    | FileError path source \<Rightarrow>
        (if io_kind source = IoPermissionDenied then RepositoryPermissionDenied else OtherFailure)
    | UntrackedFileTooLarge path limit actual \<Rightarrow> CaptureLimitExceeded
    | OutputTooLarge command limit \<Rightarrow> CaptureLimitExceeded
    | ConcurrentModification attempts \<Rightarrow> ConcurrentModificationFailure
    | Parse why \<Rightarrow> InvalidComparison
    | UnsafeRepositoryPath path \<Rightarrow> InvalidComparison
    | InvalidBlameRange limit \<Rightarrow> InvalidComparison
    | InvalidCommitContextLimit limit \<Rightarrow> InvalidComparison
    | CommitOutsideComparisonRange sha \<Rightarrow> InvalidComparison)"

end
