(* ===== verification/Store_Tables.thy ===== *)
theory Store_Tables
  imports Prelude
begin

text \<open>
  Tables as the SQL of \<open>crates/persistence/src/lib.rs\<close> uses them: the rows in the order of
  their row ids, with a primary key.  \<open>insert_row\<close> is a plain \<open>INSERT\<close>, \<open>upsert_row\<close> an
  \<open>INSERT ... ON CONFLICT(key) DO UPDATE\<close> whose \<open>SET\<close> list is \<open>merge\<close> (the new row and the
  stored row).
\<close>

named_theorems table_simps \<open>reading a table after a statement\<close>

definition has_key :: "('r \<Rightarrow> 'k) \<Rightarrow> 'k \<Rightarrow> 'r list \<Rightarrow> bool" where
  "has_key key k t = list_ex (\<lambda>r. key r = k) t"

definition lookup_row :: "('r \<Rightarrow> 'k) \<Rightarrow> 'k \<Rightarrow> 'r list \<Rightarrow> 'r option" where
  "lookup_row key k t = find (\<lambda>r. key r = k) t"

definition upsert_row :: "('r \<Rightarrow> 'k) \<Rightarrow> ('r \<Rightarrow> 'r \<Rightarrow> 'r) \<Rightarrow> 'r \<Rightarrow> 'r list \<Rightarrow> 'r list" where
  "upsert_row key merge row t =
    (if has_key key (key row) t
     then map (\<lambda>old. if key old = key row then merge row old else old) t
     else t @ [row])"

definition insert_row :: "'e \<Rightarrow> ('r \<Rightarrow> 'k) \<Rightarrow> 'r \<Rightarrow> 'r list \<Rightarrow> 'e + 'r list" where
  "insert_row e key row t = (if has_key key (key row) t then Inl e else Inr (t @ [row]))"

definition update_where :: "('r \<Rightarrow> bool) \<Rightarrow> ('r \<Rightarrow> 'r) \<Rightarrow> 'r list \<Rightarrow> 'r list" where
  "update_where p f t = map (\<lambda>r. if p r then f r else r) t"

definition delete_where :: "('r \<Rightarrow> bool) \<Rightarrow> 'r list \<Rightarrow> 'r list" where
  "delete_where p t = filter (\<lambda>r. \<not> p r) t"

section \<open>Rows of a table\<close>

lemma has_key_iff: "has_key key k t \<longleftrightarrow> k \<in> key ` set t"
  by (auto simp: has_key_def list_ex_iff)

lemma has_key_simps [simp]:
  "\<not> has_key key k []" "has_key key k (r # t) \<longleftrightarrow> key r = k \<or> has_key key k t"
  "has_key key k (t @ u) \<longleftrightarrow> has_key key k t \<or> has_key key k u"
  by (auto simp: has_key_def)

lemma lookup_row_simps [simp]:
  "lookup_row key k [] = None"
  "lookup_row key k (r # t) = (if key r = k then Some r else lookup_row key k t)"
  by (simp_all add: lookup_row_def)

lemma lookup_row_None [simp]: "lookup_row key k t = None \<longleftrightarrow> \<not> has_key key k t"
  by (induction t) auto

lemma lookup_row_append:
  "lookup_row key k (t @ u) = (case lookup_row key k t of None \<Rightarrow> lookup_row key k u | Some r \<Rightarrow> Some r)"
  by (induction t) auto

lemma lookup_row_Some:
  "distinct (map key t) \<Longrightarrow> lookup_row key k t = Some r \<longleftrightarrow> r \<in> set t \<and> key r = k"
  by (induction t) (auto simp: image_iff)

lemma set_upsert_row:
  "set (upsert_row key merge row t) =
    (if has_key key (key row) t
     then {r \<in> set t. key r \<noteq> key row} \<union> merge row ` {r \<in> set t. key r = key row}
     else insert row (set t))"
  by (auto simp: upsert_row_def)

lemma insert_row_eq_Inr [simp]:
  "insert_row e key row t = Inr u \<longleftrightarrow> \<not> has_key key (key row) t \<and> u = t @ [row]"
  by (auto simp: insert_row_def)

lemma insert_row_eq_Inl [simp]: "insert_row e key row t = Inl e' \<longleftrightarrow> has_key key (key row) t \<and> e' = e"
  by (auto simp: insert_row_def)

lemma distinct_insert_row:
  "distinct (map key t) \<Longrightarrow> insert_row e key row t = Inr u \<Longrightarrow> distinct (map key u)"
  by (auto simp: has_key_iff)

lemma distinct_delete_where [simp]: "distinct (map key t) \<Longrightarrow> distinct (map key (delete_where p t))"
  by (auto simp: delete_where_def distinct_map inj_on_def)

lemma set_delete_where [simp]: "set (delete_where p t) = {r \<in> set t. \<not> p r}"
  by (auto simp: delete_where_def)

lemma map_update_where:
  "(\<And>r. p r \<Longrightarrow> g (f r) = g r) \<Longrightarrow> map g (update_where p f t) = map g t"
  by (simp add: update_where_def)

lemma set_update_where: "set (update_where p f t) = {r \<in> set t. \<not> p r} \<union> f ` {r \<in> set t. p r}"
  by (auto simp: update_where_def)

section \<open>The contract of an upsert\<close>

text \<open>What the operations rely on: the \<open>SET\<close> list never changes the key.\<close>

locale keyed_table =
  fixes key :: "'r \<Rightarrow> 'k" and merge :: "'r \<Rightarrow> 'r \<Rightarrow> 'r"
  assumes key_merge: "key old = key new \<Longrightarrow> key (merge new old) = key new"
begin

lemma map_key_upsert:
  "map key (upsert_row key merge row t) = (if has_key key (key row) t then map key t else map key t @ [key row])"
  by (simp add: upsert_row_def key_merge)

lemma keys_upsert: "key ` set (upsert_row key merge row t) = insert (key row) (key ` set t)"
  using arg_cong [OF map_key_upsert, of set row t] by (auto simp: has_key_iff)

lemma distinct_upsert: "distinct (map key t) \<Longrightarrow> distinct (map key (upsert_row key merge row t))"
  by (simp add: map_key_upsert has_key_iff)

lemma has_key_upsert: "has_key key k (upsert_row key merge row t) \<longleftrightarrow> k = key row \<or> has_key key k t"
  by (auto simp: has_key_iff keys_upsert)

lemma lookup_upsert_other:
  assumes "k \<noteq> key row"
  shows "lookup_row key k (upsert_row key merge row t) = lookup_row key k t"
proof -
  have "lookup_row key k (map (\<lambda>old. if key old = key row then merge row old else old) t) = lookup_row key k t"
    using assms by (induction t) (auto simp: key_merge)
  moreover have "lookup_row key k (t @ [row]) = lookup_row key k t"
    using assms by (induction t) auto
  ultimately show ?thesis by (simp add: upsert_row_def)
qed

lemma lookup_upsert_same:
  "lookup_row key (key row) (upsert_row key merge row t) =
    Some (case lookup_row key (key row) t of None \<Rightarrow> row | Some old \<Rightarrow> merge row old)"
proof (cases "has_key key (key row) t")
  case True
  then have "lookup_row key (key row) (map (\<lambda>old. if key old = key row then merge row old else old) t)
    = Some (case lookup_row key (key row) t of None \<Rightarrow> row | Some old \<Rightarrow> merge row old)"
    by (induction t) (auto simp: key_merge)
  with True show ?thesis by (simp add: upsert_row_def)
next
  case False
  then have "lookup_row key (key row) t = None" by simp
  moreover have "lookup_row key (key row) (t @ [row]) = Some row"
    using False by (induction t) auto
  ultimately show ?thesis using False by (simp add: upsert_row_def del: lookup_row_None)
qed

lemma upsert_other_rows:
  "r \<in> set t \<Longrightarrow> key r \<noteq> key row \<Longrightarrow> r \<in> set (upsert_row key merge row t)"
  by (auto simp: set_upsert_row)

end

end
