(* ===== verification/Store_Db.thy ===== *)
theory Store_Db
  imports Domain Store_Tables
begin

text \<open>
  \<open>crates/persistence/src/lib.rs\<close>, the durable state: the tables of the schema in
  \<open>migrate\<close> and the statements the operations share.

  A column that every statement writes together with the payload is read from the payload;
  a column that an \<open>ON CONFLICT\<close> clause leaves alone is a field of its own (\<open>rr_workspace\<close>,
  \<open>sr_workspace\<close>, \<open>ar_set\<close>, ...), since it may then differ from the payload.  Payloads are
  the records their JSON encodes.  Time stamps and identifiers are ordered by value, which
  is the order of their RFC 3339 and hexadecimal texts.  A statement either fails, on a
  uniqueness or foreign-key constraint, or returns the database it leaves.
\<close>

section \<open>Rows\<close>

datatype constraint = UniqueConstraint | ForeignKeyConstraint

record RecoveryBackupInfo =
  recovery_backup_file_name :: string
  recovery_byte_len :: nat
  recovery_created_at :: timestamp

datatype PersistenceError =
    DatabaseError constraint
  | NoActiveAnnotationSet ReviewSessionId
  | SerializeError
  | InvalidBlobHash
  | MissingBlob string
  | InjectedAtomicCommitFailure
  | InvalidBackupPolicy
  | InvalidBackupFileName
  | BackupNotFound string
  | RecoveryNotRequired
  | InvalidRecoveryBackup string string
  | CorruptDatabase string "RecoveryBackupInfo list"
  | PersistenceFile string

record RepositoryRow =
  rr_workspace :: WorkspaceId
  rr_repository :: Repository

record SessionRow =
  sr_workspace :: WorkspaceId
  sr_started_at :: timestamp
  sr_session :: ReviewSession

record ComparisonRow =
  cr_repository :: RepositoryId
  cr_comparison :: RepositoryComparison

record FileRow =
  fr_id :: string
  fr_comparison :: ComparisonId
  fr_path :: string
  fr_blob_hash :: "string option"
  fr_blob_len :: "int option"
  fr_payload :: string

record CurrentRow =
  current_session :: ReviewSessionId
  current_repository :: RepositoryId
  current_comparison :: ComparisonId

record SetRow =
  set_row_session :: ReviewSessionId
  set_row_sequence :: nat
  set_row_payload :: AnnotationSet

record AnnotationRow =
  ar_set :: AnnotationSetId
  ar_created_at :: timestamp
  ar_annotation :: Annotation

record RevisionRow =
  revision_annotation :: AnnotationId
  revised_at :: timestamp
  revision_payload :: Annotation

record PullRequestRow =
  pr_row_id :: string
  pr_row_workspace :: WorkspaceId
  pr_row_payload :: string

record PublicationRow =
  publication_row_id :: string
  publication_row_session :: ReviewSessionId
  publication_row_attempt :: string
  publication_row_payload :: string

record WorktreeRow =
  worktree_row_id :: string
  worktree_row_workspace :: "WorkspaceId option"
  worktree_row_payload :: string

record RetiredRow =
  retired_row_id :: string
  retired_row_workspace :: "WorkspaceId option"
  retired_row_payload :: string
  retired_row_at :: timestamp

record Db =
  t_workspaces :: "Workspace list"
  t_repositories :: "RepositoryRow list"
  t_sessions :: "SessionRow list"
  t_comparisons :: "ComparisonRow list"
  t_files :: "FileRow list"
  t_session_comparisons :: "(ReviewSessionId \<times> ComparisonId) list"
  t_current :: "CurrentRow list"
  t_sets :: "SetRow list"
  t_annotations :: "AnnotationRow list"
  t_revisions :: "RevisionRow list"
  t_exports :: "PromptExportRecord list"
  t_settings :: "(string \<times> string) list"
  t_ui :: "(ReviewSessionId \<times> string) list"
  t_pull_requests :: "PullRequestRow list"
  t_publications :: "PublicationRow list"
  t_worktrees :: "WorktreeRow list"
  t_retired :: "RetiredRow list"

definition empty_db :: Db where
  "empty_db = \<lparr>t_workspaces = [], t_repositories = [], t_sessions = [], t_comparisons = [], t_files = [],
    t_session_comparisons = [], t_current = [], t_sets = [], t_annotations = [], t_revisions = [],
    t_exports = [], t_settings = [], t_ui = [], t_pull_requests = [], t_publications = [],
    t_worktrees = [], t_retired = []\<rparr>"

section \<open>Keys\<close>

definition rr_id :: "RepositoryRow \<Rightarrow> RepositoryId" where "rr_id r = repository_id (rr_repository r)"
definition rr_unique :: "RepositoryRow \<Rightarrow> WorkspaceId \<times> StoredPath" where
  "rr_unique r = (rr_workspace r, repository_relative_path (rr_repository r))"
definition sr_id :: "SessionRow \<Rightarrow> ReviewSessionId" where "sr_id r = session_id (sr_session r)"
definition cr_id :: "ComparisonRow \<Rightarrow> ComparisonId" where "cr_id r = comparison_id (cr_comparison r)"
definition current_key :: "CurrentRow \<Rightarrow> ReviewSessionId \<times> RepositoryId" where
  "current_key r = (current_session r, current_repository r)"
definition set_row_id :: "SetRow \<Rightarrow> AnnotationSetId" where "set_row_id r = set_id (set_row_payload r)"
definition set_row_active :: "SetRow \<Rightarrow> bool" where "set_row_active r = set_active (set_row_payload r)"
definition set_unique :: "SetRow \<Rightarrow> ReviewSessionId \<times> nat" where
  "set_unique r = (set_row_session r, set_row_sequence r)"
definition ar_id :: "AnnotationRow \<Rightarrow> AnnotationId" where "ar_id r = annotation_id (ar_annotation r)"

text \<open>The partial index \<open>one_active_annotation_set_per_session\<close>.\<close>

definition active_sessions :: "SetRow list \<Rightarrow> ReviewSessionId list" where
  "active_sessions t = map set_row_session (filter set_row_active t)"

definition workspace_exists :: "WorkspaceId \<Rightarrow> Db \<Rightarrow> bool" where
  "workspace_exists w d = has_key workspace_id w (t_workspaces d)"
definition repository_exists :: "RepositoryId \<Rightarrow> Db \<Rightarrow> bool" where
  "repository_exists r d = has_key rr_id r (t_repositories d)"
definition session_exists :: "ReviewSessionId \<Rightarrow> Db \<Rightarrow> bool" where
  "session_exists s d = has_key sr_id s (t_sessions d)"
definition comparison_exists :: "ComparisonId \<Rightarrow> Db \<Rightarrow> bool" where
  "comparison_exists c d = has_key cr_id c (t_comparisons d)"
definition set_exists :: "AnnotationSetId \<Rightarrow> Db \<Rightarrow> bool" where
  "set_exists s d = has_key set_row_id s (t_sets d)"

lemmas exists_defs = workspace_exists_def repository_exists_def session_exists_def comparison_exists_def
  set_exists_def

definition foreign :: "bool \<Rightarrow> PersistenceError + unit" where
  "foreign b = ensure b (DatabaseError ForeignKeyConstraint)"
definition unique :: "bool \<Rightarrow> PersistenceError + unit" where
  "unique b = ensure b (DatabaseError UniqueConstraint)"

lemma foreign_Inr [simp]: "foreign b = Inr u \<longleftrightarrow> b" by (simp add: foreign_def)
lemma unique_Inr [simp]: "unique b = Inr u \<longleftrightarrow> b" by (simp add: unique_def)

fun run_all :: "('a \<Rightarrow> Db \<Rightarrow> PersistenceError + Db) \<Rightarrow> 'a list \<Rightarrow> Db \<Rightarrow> PersistenceError + Db" where
  "run_all f [] d = Inr d"
| "run_all f (x # xs) d = rbind (f x d) (run_all f xs)"

section \<open>Statements\<close>

definition upsert_workspace_row :: "Workspace \<Rightarrow> Db \<Rightarrow> PersistenceError + Db" where
  "upsert_workspace_row w d =
    Inr (d\<lparr>t_workspaces := upsert_row workspace_id (\<lambda>new old. new) w (t_workspaces d)\<rparr>)"

definition merge_repository :: "RepositoryRow \<Rightarrow> RepositoryRow \<Rightarrow> RepositoryRow" where
  "merge_repository new old = old\<lparr>rr_repository := rr_repository new\<rparr>"

definition upsert_repository_row :: "Repository \<Rightarrow> Db \<Rightarrow> PersistenceError + Db" where
  "upsert_repository_row r d =
    (let row = \<lparr>rr_workspace = repository_workspace_id r, rr_repository = r\<rparr>;
         t = upsert_row rr_id merge_repository row (t_repositories d)
     in vthen (foreign (repository_exists (repository_id r) d \<or> workspace_exists (repository_workspace_id r) d))
       (vthen (unique (distinct (map rr_unique t)))
       (Inr (d\<lparr>t_repositories := t\<rparr>))))"

definition merge_session :: "SessionRow \<Rightarrow> SessionRow \<Rightarrow> SessionRow" where
  "merge_session new old = old\<lparr>sr_session := sr_session new\<rparr>"

definition upsert_session_row :: "ReviewSession \<Rightarrow> Db \<Rightarrow> PersistenceError + Db" where
  "upsert_session_row s d =
    (let row = \<lparr>sr_workspace = session_workspace_id s, sr_started_at = session_started_at s, sr_session = s\<rparr>
     in vthen (foreign (session_exists (session_id s) d \<or> workspace_exists (session_workspace_id s) d))
       (Inr (d\<lparr>t_sessions := upsert_row sr_id merge_session row (t_sessions d)\<rparr>)))"

definition merge_comparison :: "ComparisonRow \<Rightarrow> ComparisonRow \<Rightarrow> ComparisonRow" where
  "merge_comparison new old = old\<lparr>cr_comparison := cr_comparison new\<rparr>"

definition comparison_row :: "RepositoryComparison \<Rightarrow> ComparisonRow" where
  "comparison_row c = \<lparr>cr_repository = comparison_repository_id c, cr_comparison = c\<rparr>"

definition upsert_comparison_row :: "RepositoryComparison \<Rightarrow> Db \<Rightarrow> PersistenceError + Db" where
  "upsert_comparison_row c d =
    vthen (foreign (comparison_exists (comparison_id c) d \<or> repository_exists (comparison_repository_id c) d))
      (Inr (d\<lparr>t_comparisons := upsert_row cr_id merge_comparison (comparison_row c) (t_comparisons d)\<rparr>))"

definition insert_comparison_row :: "RepositoryComparison \<Rightarrow> Db \<Rightarrow> PersistenceError + Db" where
  "insert_comparison_row c d =
    rbind (insert_row (DatabaseError UniqueConstraint) cr_id (comparison_row c) (t_comparisons d)) (\<lambda>t.
    vthen (foreign (repository_exists (comparison_repository_id c) d))
      (Inr (d\<lparr>t_comparisons := t\<rparr>)))"

definition insert_session_comparison :: "ReviewSessionId \<Rightarrow> ComparisonId \<Rightarrow> Db \<Rightarrow> PersistenceError + Db" where
  "insert_session_comparison s c d =
    rbind (insert_row (DatabaseError UniqueConstraint) id (s, c) (t_session_comparisons d)) (\<lambda>t.
    vthen (foreign (session_exists s d \<and> comparison_exists c d))
      (Inr (d\<lparr>t_session_comparisons := t\<rparr>)))"

definition merge_current :: "CurrentRow \<Rightarrow> CurrentRow \<Rightarrow> CurrentRow" where
  "merge_current new old = old\<lparr>current_comparison := current_comparison new\<rparr>"

definition upsert_current :: "ReviewSessionId \<Rightarrow> RepositoryComparison \<Rightarrow> Db \<Rightarrow> PersistenceError + Db" where
  "upsert_current s c d =
    (let row = \<lparr>current_session = s, current_repository = comparison_repository_id c,
                current_comparison = comparison_id c\<rparr>
     in vthen (foreign (session_exists s d \<and> repository_exists (comparison_repository_id c) d
                \<and> comparison_exists (comparison_id c) d))
       (Inr (d\<lparr>t_current := upsert_row current_key merge_current row (t_current d)\<rparr>)))"

definition BLOB_PAYLOAD_MARKER :: string where
  "BLOB_PAYLOAD_MARKER =
    ''{'' @ [BACKSLASH, QUOTE] @ ''storage'' @ [BACKSLASH, QUOTE] @ '':'' @ [BACKSLASH, QUOTE] @
    ''content_addressed_blob'' @ [BACKSLASH, QUOTE] @ '','' @ [BACKSLASH, QUOTE] @ ''version'' @
    [BACKSLASH, QUOTE] @ '':1}''"

record BlobReference =
  blob_sha256 :: string
  blob_byte_len :: nat

record PreparedReviewFile =
  storage_id :: string
  prepared_path :: string
  prepared_blob :: BlobReference

record PreparedReviewGeneration =
  generation_comparison :: RepositoryComparison
  generation_files :: "PreparedReviewFile list"

abbreviation I64_MAX :: int where "I64_MAX \<equiv> 9223372036854775807"

definition file_row :: "ComparisonId \<Rightarrow> PreparedReviewFile \<Rightarrow> FileRow" where
  "file_row c f =
    \<lparr>fr_id = storage_id f, fr_comparison = c, fr_path = prepared_path f,
     fr_blob_hash = Some (blob_sha256 (prepared_blob f)),
     fr_blob_len = Some (min (int (blob_byte_len (prepared_blob f))) I64_MAX),
     fr_payload = BLOB_PAYLOAD_MARKER\<rparr>"

definition insert_file_row :: "ComparisonId \<Rightarrow> PreparedReviewFile \<Rightarrow> Db \<Rightarrow> PersistenceError + Db" where
  "insert_file_row c f d =
    rbind (insert_row (DatabaseError UniqueConstraint) fr_id (file_row c f) (t_files d)) (\<lambda>t.
    vthen (foreign (comparison_exists c d)) (Inr (d\<lparr>t_files := t\<rparr>)))"

definition insert_review_generation ::
  "ReviewSessionId \<Rightarrow> PreparedReviewGeneration \<Rightarrow> Db \<Rightarrow> PersistenceError + Db" where
  "insert_review_generation s g d =
    (let c = generation_comparison g in
     rbind (insert_comparison_row c d) (\<lambda>d.
     rbind (insert_session_comparison s (comparison_id c) d) (\<lambda>d.
     rbind (run_all (insert_file_row (comparison_id c)) (generation_files g) d) (\<lambda>d.
     upsert_current s c d))))"

definition insert_annotation_set :: "AnnotationSet \<Rightarrow> Db \<Rightarrow> PersistenceError + Db" where
  "insert_annotation_set a d =
    (let row = \<lparr>set_row_session = set_review_session a, set_row_sequence = set_sequence a, set_row_payload = a\<rparr> in
     rbind (insert_row (DatabaseError UniqueConstraint) set_row_id row (t_sets d)) (\<lambda>t.
     vthen (unique (distinct (map set_unique t) \<and> distinct (active_sessions t)))
     (vthen (foreign (session_exists (set_review_session a) d))
     (Inr (d\<lparr>t_sets := t\<rparr>)))))"

definition merge_set :: "SetRow \<Rightarrow> SetRow \<Rightarrow> SetRow" where
  "merge_set new old = old\<lparr>set_row_payload := set_row_payload new\<rparr>"

definition upsert_annotation_set :: "AnnotationSet \<Rightarrow> Db \<Rightarrow> PersistenceError + Db" where
  "upsert_annotation_set a d =
    (let row = \<lparr>set_row_session = set_review_session a, set_row_sequence = set_sequence a, set_row_payload = a\<rparr>;
         t = upsert_row set_row_id merge_set row (t_sets d)
     in vthen (unique (distinct (map set_unique t) \<and> distinct (active_sessions t)))
       (vthen (foreign (set_exists (set_id a) d \<or> session_exists (set_review_session a) d))
       (Inr (d\<lparr>t_sets := t\<rparr>))))"

text \<open>\<open>archive_active_annotation_set_in_transaction\<close>: every active set of the session.\<close>

definition archived_set :: "timestamp \<Rightarrow> SetRow \<Rightarrow> SetRow" where
  "archived_set at r =
    r\<lparr>set_row_payload := (set_row_payload r)\<lparr>set_active := False, set_archived_at := Some at\<rparr>\<rparr>"

definition archive_sets :: "ReviewSessionId \<Rightarrow> timestamp \<Rightarrow> Db \<Rightarrow> Db" where
  "archive_sets s at d =
    d\<lparr>t_sets := update_where (\<lambda>r. set_row_session r = s \<and> set_row_active r) (archived_set at) (t_sets d)\<rparr>"

definition merge_annotation :: "AnnotationRow \<Rightarrow> AnnotationRow \<Rightarrow> AnnotationRow" where
  "merge_annotation new old = old\<lparr>ar_set := ar_set new, ar_annotation := ar_annotation new\<rparr>"

definition merge_annotation_payload :: "AnnotationRow \<Rightarrow> AnnotationRow \<Rightarrow> AnnotationRow" where
  "merge_annotation_payload new old = old\<lparr>ar_annotation := ar_annotation new\<rparr>"

definition annotation_row :: "Annotation \<Rightarrow> AnnotationRow" where
  "annotation_row a = \<lparr>ar_set = annotation_set a, ar_created_at = annotation_created_at a, ar_annotation = a\<rparr>"

definition add_revision :: "Annotation \<Rightarrow> Db \<Rightarrow> Db" where
  "add_revision a d =
    d\<lparr>t_revisions := t_revisions d @ [\<lparr>revision_annotation = annotation_id a,
      revised_at = annotation_updated_at a, revision_payload = a\<rparr>]\<rparr>"

definition upsert_annotation_moving :: "Annotation \<Rightarrow> Db \<Rightarrow> PersistenceError + Db" where
  "upsert_annotation_moving a d =
    vthen (foreign (set_exists (annotation_set a) d))
      (Inr (d\<lparr>t_annotations := upsert_row ar_id merge_annotation (annotation_row a) (t_annotations d)\<rparr>))"

definition upsert_annotation :: "Annotation \<Rightarrow> Db \<Rightarrow> PersistenceError + Db" where
  "upsert_annotation a d = rbind (upsert_annotation_moving a d) (\<lambda>d. Inr (add_revision a d))"

text \<open>\<open>save_annotation\<close> has a statement of its own, which leaves the set column alone.\<close>

definition upsert_annotation_in_place :: "Annotation \<Rightarrow> Db \<Rightarrow> PersistenceError + Db" where
  "upsert_annotation_in_place a d =
    vthen (foreign (has_key ar_id (annotation_id a) (t_annotations d) \<or> set_exists (annotation_set a) d))
      (Inr (add_revision a (d\<lparr>t_annotations :=
        upsert_row ar_id merge_annotation_payload (annotation_row a) (t_annotations d)\<rparr>)))"

definition upsert_setting :: "string \<Rightarrow> string \<Rightarrow> Db \<Rightarrow> PersistenceError + Db" where
  "upsert_setting key val d =
    Inr (d\<lparr>t_settings := upsert_row fst (\<lambda>new old. new) (key, val) (t_settings d)\<rparr>)"

definition upsert_optional_setting :: "(string \<times> string) option \<Rightarrow> Db \<Rightarrow> PersistenceError + Db" where
  "upsert_optional_setting setting d =
    (case setting of None \<Rightarrow> Inr d | Some (key, val) \<Rightarrow> upsert_setting key val d)"

definition insert_export :: "PromptExportRecord \<Rightarrow> Db \<Rightarrow> PersistenceError + Db" where
  "insert_export e d =
    rbind (insert_row (DatabaseError UniqueConstraint) export_id e (t_exports d)) (\<lambda>t.
    vthen (foreign (session_exists (export_review_session e) d \<and> set_exists (export_set e) d))
      (Inr (d\<lparr>t_exports := t\<rparr>)))"

definition upsert_ui_state :: "ReviewSessionId \<Rightarrow> string \<Rightarrow> Db \<Rightarrow> PersistenceError + Db" where
  "upsert_ui_state s payload d =
    vthen (foreign (session_exists s d))
      (Inr (d\<lparr>t_ui := upsert_row fst (\<lambda>new old. new) (s, payload) (t_ui d)\<rparr>))"

definition upsert_pull_request :: "string \<Rightarrow> WorkspaceId \<Rightarrow> string \<Rightarrow> Db \<Rightarrow> PersistenceError + Db" where
  "upsert_pull_request i w payload d =
    vthen (foreign (workspace_exists w d))
      (Inr (d\<lparr>t_pull_requests := upsert_row pr_row_id (\<lambda>new old. new)
        \<lparr>pr_row_id = i, pr_row_workspace = w, pr_row_payload = payload\<rparr> (t_pull_requests d)\<rparr>))"

definition upsert_publication :: "string \<Rightarrow> ReviewSessionId \<Rightarrow> string \<Rightarrow> string \<Rightarrow> Db \<Rightarrow> PersistenceError + Db" where
  "upsert_publication i s attempt payload d =
    (let t = upsert_row publication_row_id (\<lambda>new old. new)
        \<lparr>publication_row_id = i, publication_row_session = s, publication_row_attempt = attempt,
         publication_row_payload = payload\<rparr> (t_publications d)
     in vthen (unique (distinct (map publication_row_attempt t)))
       (vthen (foreign (session_exists s d)) (Inr (d\<lparr>t_publications := t\<rparr>))))"

definition upsert_worktree :: "string \<Rightarrow> WorkspaceId \<Rightarrow> string \<Rightarrow> Db \<Rightarrow> PersistenceError + Db" where
  "upsert_worktree i w payload d =
    vthen (foreign (workspace_exists w d))
      (Inr (d\<lparr>t_worktrees := upsert_row worktree_row_id (\<lambda>new old. new)
        \<lparr>worktree_row_id = i, worktree_row_workspace = Some w, worktree_row_payload = payload\<rparr>
        (t_worktrees d)\<rparr>))"

definition upsert_retired :: "string \<Rightarrow> WorkspaceId \<Rightarrow> string \<Rightarrow> timestamp \<Rightarrow> Db \<Rightarrow> PersistenceError + Db" where
  "upsert_retired i w payload at d =
    vthen (foreign (workspace_exists w d))
      (Inr (d\<lparr>t_retired := upsert_row retired_row_id (\<lambda>new old. new)
        \<lparr>retired_row_id = i, retired_row_workspace = Some w, retired_row_payload = payload,
         retired_row_at = at\<rparr> (t_retired d)\<rparr>))"

definition delete_worktree :: "string \<Rightarrow> Db \<Rightarrow> Db" where
  "delete_worktree i d = d\<lparr>t_worktrees := delete_where (\<lambda>r. worktree_row_id r = i) (t_worktrees d)\<rparr>"

definition delete_retired :: "string \<Rightarrow> Db \<Rightarrow> Db" where
  "delete_retired i d = d\<lparr>t_retired := delete_where (\<lambda>r. retired_row_id r = i) (t_retired d)\<rparr>"

end
