(* ===== verification/Store_Ops.thy ===== *)
theory Store_Ops
  imports Store_Db "HOL-Library.Product_Lexorder"
begin

text \<open>
  \<open>crates/persistence/src/lib.rs\<close>, the operations of \<open>StateStore\<close> and \<open>BlobStore\<close>.

  \<open>execute\<close> is one statement on its own, \<open>transaction\<close> one that commits itself, \<open>atomic\<close>
  one that goes through \<open>commit_atomic\<close>: its commit fails once after
  \<open>inject_next_atomic_commit_failure_for_test\<close>.  A failed statement or commit leaves the
  database as it was.  \<open>sha256\<close> (the hex text of the digest) and the JSON of review documents
  (\<open>encode\<close>, \<open>decode\<close>) are parameters.  Blobs are listed by their hash; failures of the file
  system are not modelled.
\<close>

record Store =
  store_db :: Db
  store_blobs :: "(string \<times> string) list"
  store_backups :: "Db list"
  store_fail_next :: bool

type_synonym 'a store_op = "Store \<Rightarrow> (PersistenceError + 'a) \<times> Store"

definition query :: "(Db \<Rightarrow> 'a) \<Rightarrow> 'a store_op" where
  "query f s = (Inr (f (store_db s)), s)"

definition execute :: "(Db \<Rightarrow> PersistenceError + Db) \<Rightarrow> unit store_op" where
  "execute f s = (case f (store_db s) of Inl e \<Rightarrow> (Inl e, s) | Inr d \<Rightarrow> (Inr (), s\<lparr>store_db := d\<rparr>))"

definition transaction :: "(Db \<Rightarrow> PersistenceError + ('a \<times> Db)) \<Rightarrow> 'a store_op" where
  "transaction f s =
    (case f (store_db s) of Inl e \<Rightarrow> (Inl e, s) | Inr (x, d) \<Rightarrow> (Inr x, s\<lparr>store_db := d\<rparr>))"

definition atomic :: "(Db \<Rightarrow> PersistenceError + Db) \<Rightarrow> unit store_op" where
  "atomic f s =
    (case f (store_db s) of
      Inl e \<Rightarrow> (Inl e, s)
    | Inr d \<Rightarrow>
        (if store_fail_next s then (Inl InjectedAtomicCommitFailure, s\<lparr>store_fail_next := False\<rparr>)
         else (Inr (), s\<lparr>store_db := d\<rparr>)))"

section \<open>Workspaces and repositories\<close>

definition upsert_workspace :: "Workspace \<Rightarrow> unit store_op" where
  "upsert_workspace w = execute (upsert_workspace_row w)"

definition upsert_workspace_discovery :: "Workspace \<Rightarrow> Repository list \<Rightarrow> unit store_op" where
  "upsert_workspace_discovery w repositories = atomic (\<lambda>d.
    rbind (upsert_workspace_row w d) (run_all upsert_repository_row repositories))"

definition workspace_of :: "WorkspaceId \<Rightarrow> Db \<Rightarrow> Workspace option" where
  "workspace_of i d = lookup_row workspace_id i (t_workspaces d)"

definition workspace :: "WorkspaceId \<Rightarrow> Workspace option store_op" where
  "workspace i = query (workspace_of i)"

definition workspaces_of :: "Db \<Rightarrow> Workspace list" where
  "workspaces_of d = sort_key (\<lambda>w. (\<not> workspace_pinned w, - workspace_updated_at w)) (t_workspaces d)"

definition workspaces :: "Workspace list store_op" where
  "workspaces = query workspaces_of"

definition upsert_repository :: "Repository \<Rightarrow> unit store_op" where
  "upsert_repository r = execute (upsert_repository_row r)"

definition repositories_of :: "WorkspaceId \<Rightarrow> Db \<Rightarrow> Repository list" where
  "repositories_of w d =
    sort_key repository_relative_path (map rr_repository (filter (\<lambda>r. rr_workspace r = w) (t_repositories d)))"

definition repositories :: "WorkspaceId \<Rightarrow> Repository list store_op" where
  "repositories w = query (repositories_of w)"

definition repository_of :: "RepositoryId \<Rightarrow> Db \<Rightarrow> Repository option" where
  "repository_of i d = map_option rr_repository (lookup_row rr_id i (t_repositories d))"

definition repositories_for_id :: "RepositoryId \<Rightarrow> Repository option store_op" where
  "repositories_for_id i = query (repository_of i)"

section \<open>Sessions and comparisons\<close>

definition save_review_session :: "ReviewSession \<Rightarrow> unit store_op" where
  "save_review_session session = execute (upsert_session_row session)"

definition sessions_of :: "WorkspaceId \<Rightarrow> Db \<Rightarrow> ReviewSession list" where
  "sessions_of w d =
    map sr_session (sort_key (\<lambda>r. - sr_started_at r) (filter (\<lambda>r. sr_workspace r = w) (t_sessions d)))"

definition review_sessions :: "WorkspaceId \<Rightarrow> ReviewSession list store_op" where
  "review_sessions w = query (sessions_of w)"

definition session_of :: "ReviewSessionId \<Rightarrow> Db \<Rightarrow> ReviewSession option" where
  "session_of i d = map_option sr_session (lookup_row sr_id i (t_sessions d))"

definition review_sessions_for_id :: "ReviewSessionId \<Rightarrow> ReviewSession option store_op" where
  "review_sessions_for_id i = query (session_of i)"

definition archived_session :: "timestamp \<Rightarrow> ReviewSession \<Rightarrow> ReviewSession" where
  "archived_session at s = s\<lparr>session_status := SessionArchived, session_archived_at := Some at\<rparr>"

definition archive_review_session :: "ReviewSession \<Rightarrow> timestamp \<Rightarrow> ReviewSession store_op" where
  "archive_review_session session at =
    io_bind (save_review_session (archived_session at session))
      (\<lambda>_. io_return (Inr (archived_session at session)))"

text \<open>The active set an operation picks: the one with the highest sequence number.\<close>

definition active_set_rows :: "ReviewSessionId \<Rightarrow> Db \<Rightarrow> SetRow list" where
  "active_set_rows s d =
    rev (sort_key set_row_sequence (filter (\<lambda>r. set_row_session r = s \<and> set_row_active r) (t_sets d)))"

definition active_set_of :: "ReviewSessionId \<Rightarrow> Db \<Rightarrow> AnnotationSet option" where
  "active_set_of s d = (case active_set_rows s d of [] \<Rightarrow> None | r # _ \<Rightarrow> Some (set_row_payload r))"

definition store_set :: "AnnotationSet \<Rightarrow> Db \<Rightarrow> Db" where
  "store_set a d =
    d\<lparr>t_sets := update_where (\<lambda>r. set_row_id r = set_id a) (\<lambda>r. r\<lparr>set_row_payload := a\<rparr>) (t_sets d)\<rparr>"

definition archived :: "timestamp \<Rightarrow> AnnotationSet \<Rightarrow> AnnotationSet" where
  "archived at a = a\<lparr>set_active := False, set_archived_at := Some at\<rparr>"

definition archive_active_annotation_set ::
  "ReviewSessionId \<Rightarrow> timestamp \<Rightarrow> AnnotationSet option store_op" where
  "archive_active_annotation_set s at = transaction (\<lambda>d.
    case active_set_of s d of
      None \<Rightarrow> Inr (None, d)
    | Some a \<Rightarrow> Inr (Some (archived at a), store_set (archived at a) d))"

definition save_comparison :: "RepositoryComparison \<Rightarrow> unit store_op" where
  "save_comparison c = execute (upsert_comparison_row c)"

definition save_session_comparison :: "ReviewSessionId \<Rightarrow> RepositoryComparison \<Rightarrow> unit store_op" where
  "save_session_comparison s c = transaction (\<lambda>d.
    rbind (upsert_comparison_row c d) (\<lambda>d.
    vthen (foreign (session_exists s d \<and> comparison_exists (comparison_id c) d))
      (Inr ((), d\<lparr>t_session_comparisons :=
        filter (\<lambda>p. p \<noteq> (s, comparison_id c)) (t_session_comparisons d) @ [(s, comparison_id c)]\<rparr>))))"

definition comparison_order :: "RepositoryComparison \<Rightarrow> timestamp \<times> uuid" where
  "comparison_order c = (comparison_captured_at c, (case comparison_id c of ComparisonId u \<Rightarrow> u))"

definition session_comparisons_of :: "ReviewSessionId \<Rightarrow> Db \<Rightarrow> RepositoryComparison list" where
  "session_comparisons_of s d =
    sort_key comparison_order
      (map cr_comparison (filter (\<lambda>r. (s, cr_id r) \<in> set (t_session_comparisons d)) (t_comparisons d)))"

definition comparisons_for_session :: "ReviewSessionId \<Rightarrow> RepositoryComparison list store_op" where
  "comparisons_for_session s = query (session_comparisons_of s)"

definition repository_order :: "ComparisonRow \<Rightarrow> uuid" where
  "repository_order r = (case cr_repository r of RepositoryId u \<Rightarrow> u)"

definition is_current :: "ReviewSessionId \<Rightarrow> Db \<Rightarrow> ComparisonRow \<Rightarrow> bool" where
  "is_current s d r =
    list_ex (\<lambda>m. current_session m = s \<and> current_comparison m = cr_id r) (t_current d)"

definition current_comparisons_of :: "ReviewSessionId \<Rightarrow> Db \<Rightarrow> RepositoryComparison list" where
  "current_comparisons_of s d =
    map cr_comparison (sort_key repository_order (filter (is_current s d) (t_comparisons d)))"

definition current_comparisons_for_session :: "ReviewSessionId \<Rightarrow> RepositoryComparison list store_op" where
  "current_comparisons_for_session s = query (current_comparisons_of s)"

definition set_current_comparison :: "ReviewSessionId \<Rightarrow> RepositoryComparison \<Rightarrow> unit store_op" where
  "set_current_comparison s c = execute (upsert_current s c)"

section \<open>Blobs and review documents\<close>

definition put_blob :: "(string \<Rightarrow> string) \<Rightarrow> string \<Rightarrow> BlobReference store_op" where
  "put_blob sha256 bytes s =
    (let hash = sha256 bytes in
     (Inr \<lparr>blob_sha256 = hash, blob_byte_len = min (length bytes) U64_MAX\<rparr>,
      if has_key fst hash (store_blobs s) then s
      else s\<lparr>store_blobs := store_blobs s @ [(hash, bytes)]\<rparr>))"

definition valid_hash :: "string \<Rightarrow> bool" where
  "valid_hash h = (length h = 64 \<and> list_all is_hexdigit h)"

definition get_blob :: "BlobReference \<Rightarrow> Store \<Rightarrow> PersistenceError + string option" where
  "get_blob r s =
    (if \<not> valid_hash (blob_sha256 r) then Inl InvalidBlobHash
     else Inr (map_option snd (lookup_row fst (blob_sha256 r) (store_blobs s))))"

definition make_storage_id :: "ComparisonId \<Rightarrow> string \<Rightarrow> string" where
  "make_storage_id c file = show_comparison_id c @ '':'' @ file"

definition prepare_file ::
  "(string \<Rightarrow> string) \<Rightarrow> ('d \<Rightarrow> string) \<Rightarrow> RepositoryComparison \<Rightarrow> string \<times> string \<times> 'd \<Rightarrow>
    PreparedReviewFile store_op" where
  "prepare_file sha256 encode c doc =
    (case doc of (file, path, payload) \<Rightarrow>
      io_bind (put_blob sha256 (encode payload)) (\<lambda>blob.
      io_return (Inr \<lparr>storage_id = make_storage_id (comparison_id c) file, prepared_path = path,
        prepared_blob = blob\<rparr>)))"

definition prepare_review_generation ::
  "(string \<Rightarrow> string) \<Rightarrow> ('d \<Rightarrow> string) \<Rightarrow> RepositoryComparison \<Rightarrow> (string \<times> string \<times> 'd) list \<Rightarrow>
    PreparedReviewGeneration store_op" where
  "prepare_review_generation sha256 encode c docs =
    io_bind (io_map (prepare_file sha256 encode c) docs) (\<lambda>files.
    io_return (Inr \<lparr>generation_comparison = c, generation_files = files\<rparr>))"

definition save_prepared_review_generation ::
  "ReviewSessionId \<Rightarrow> PreparedReviewGeneration \<Rightarrow> unit store_op" where
  "save_prepared_review_generation s g = atomic (insert_review_generation s g)"

definition save_review_generation ::
  "(string \<Rightarrow> string) \<Rightarrow> ('d \<Rightarrow> string) \<Rightarrow> ReviewSessionId \<Rightarrow> RepositoryComparison \<Rightarrow>
    (string \<times> string \<times> 'd) list \<Rightarrow> unit store_op" where
  "save_review_generation sha256 encode s c docs =
    io_bind (prepare_review_generation sha256 encode c docs) (save_prepared_review_generation s)"

definition save_review_file_payload ::
  "(string \<Rightarrow> string) \<Rightarrow> ('d \<Rightarrow> string) \<Rightarrow> ComparisonId \<Rightarrow> string \<Rightarrow> string \<Rightarrow> 'd \<Rightarrow> unit store_op" where
  "save_review_file_payload sha256 encode c file path payload =
    io_bind (put_blob sha256 (encode payload)) (\<lambda>blob. execute (\<lambda>d.
      let row = file_row c \<lparr>storage_id = make_storage_id c file, prepared_path = path, prepared_blob = blob\<rparr>
      in vthen (foreign (comparison_exists c d))
           (Inr (d\<lparr>t_files := upsert_row fr_id (\<lambda>new old. new) row (t_files d)\<rparr>))))"

definition read_review_file_payload :: "(string \<Rightarrow> 'd option) \<Rightarrow> Store \<Rightarrow> FileRow \<Rightarrow> PersistenceError + 'd" where
  "read_review_file_payload decode s row =
    (case fr_blob_hash row of
      None \<Rightarrow> ok_or SerializeError (decode (fr_payload row))
    | Some hash \<Rightarrow>
        (case fr_blob_len row of
          None \<Rightarrow> Inl (MissingBlob hash)
        | Some len \<Rightarrow>
            (if len < 0 then Inl (MissingBlob hash)
             else rbind (get_blob \<lparr>blob_sha256 = hash, blob_byte_len = nat len\<rparr> s) (\<lambda>found.
               rbind (ok_or (MissingBlob hash) found) (\<lambda>bytes.
               ok_or SerializeError (decode bytes))))))"

text \<open>\<open>LIKE '%:id'\<close>, which ignores the case of ASCII letters.\<close>

definition like_file :: "string \<Rightarrow> FileRow \<Rightarrow> bool" where
  "like_file file row = ends_with (to_ascii_lowercase (fr_id row)) ('':'' @ to_ascii_lowercase file)"

definition review_file_payload ::
  "(string \<Rightarrow> 'd option) \<Rightarrow> string \<Rightarrow> Store \<Rightarrow> PersistenceError + 'd option" where
  "review_file_payload decode file s =
    (case find (like_file file) (rev (t_files (store_db s))) of
      None \<Rightarrow> Inr None
    | Some row \<Rightarrow> rbind (read_review_file_payload decode s row) (\<lambda>d. Inr (Some d)))"

definition review_file_payload_for_comparison ::
  "(string \<Rightarrow> 'd option) \<Rightarrow> ComparisonId \<Rightarrow> string \<Rightarrow> Store \<Rightarrow> PersistenceError + 'd option" where
  "review_file_payload_for_comparison decode c file s =
    (case find (\<lambda>r. fr_id r = make_storage_id c file \<and> fr_comparison r = c) (t_files (store_db s)) of
      None \<Rightarrow> Inr None
    | Some row \<Rightarrow> rbind (read_review_file_payload decode s row) (\<lambda>d. Inr (Some d)))"

definition file_rows_of :: "ComparisonId list \<Rightarrow> Db \<Rightarrow> FileRow list" where
  "file_rows_of cs d =
    sort_key (\<lambda>r. (fr_path r, fr_id r)) (filter (\<lambda>r. fr_comparison r \<in> set cs) (t_files d))"

definition review_file_payloads_for_comparisons ::
  "(string \<Rightarrow> 'd option) \<Rightarrow> ComparisonId list \<Rightarrow> Store \<Rightarrow> PersistenceError + 'd list" where
  "review_file_payloads_for_comparisons decode cs s =
    (if cs = [] then Inr []
     else try_map (read_review_file_payload decode s) (file_rows_of cs (store_db s)))"

definition referenced_blobs :: "Db \<Rightarrow> string list" where
  "referenced_blobs d = concat (map (\<lambda>r. case fr_blob_hash r of None \<Rightarrow> [] | Some h \<Rightarrow> [h]) (t_files d))"

definition gc_unreferenced_blobs :: "nat store_op" where
  "gc_unreferenced_blobs s =
    (let referenced = referenced_blobs (store_db s);
         garbage = (\<lambda>b. valid_hash (fst b) \<and> fst b \<notin> set referenced)
     in (Inr (length (filter garbage (store_blobs s))),
         s\<lparr>store_blobs := delete_where garbage (store_blobs s)\<rparr>))"

section \<open>Promotion of a review\<close>

definition save_prepared_review_refresh_with_annotations ::
  "ReviewSession \<Rightarrow> PreparedReviewGeneration list \<Rightarrow> Annotation list \<Rightarrow> unit store_op" where
  "save_prepared_review_refresh_with_annotations session generations annotations = atomic (\<lambda>d.
    rbind (run_all (insert_review_generation (session_id session)) generations d) (\<lambda>d.
    rbind (run_all upsert_annotation annotations d) (\<lambda>d.
    upsert_session_row session d)))"

definition active_session_rows :: "WorkspaceId \<Rightarrow> Db \<Rightarrow> SessionRow list" where
  "active_session_rows w d =
    sort_key (\<lambda>r. (sr_started_at r, case sr_id r of ReviewSessionId u \<Rightarrow> u))
      (filter (\<lambda>r. sr_workspace r = w \<and> session_status (sr_session r) = SessionActive) (t_sessions d))"

definition archive_prior :: "timestamp \<Rightarrow> ReviewSession \<Rightarrow> Db \<Rightarrow> PersistenceError + Db" where
  "archive_prior at prior d =
    rbind (upsert_session_row (archived_session at prior) d) (\<lambda>d.
    Inr (archive_sets (session_id prior) at d))"

definition archive_priors :: "WorkspaceId \<Rightarrow> timestamp \<Rightarrow> Db \<Rightarrow> PersistenceError + Db" where
  "archive_priors w at d = run_all (archive_prior at) (map sr_session (active_session_rows w d)) d"

definition replace_active_review_with_setting ::
  "WorkspaceId \<Rightarrow> ReviewSession \<Rightarrow> AnnotationSet \<Rightarrow> PreparedReviewGeneration list \<Rightarrow> timestamp \<Rightarrow>
    (string \<times> string) option \<Rightarrow> unit store_op" where
  "replace_active_review_with_setting w session active generations at setting = atomic (\<lambda>d.
    rbind (archive_priors w at d) (\<lambda>d.
    rbind (upsert_session_row session d) (\<lambda>d.
    rbind (insert_annotation_set active d) (\<lambda>d.
    rbind (run_all (insert_review_generation (session_id session)) generations d) (\<lambda>d.
    upsert_optional_setting setting d)))))"

definition replace_active_review ::
  "WorkspaceId \<Rightarrow> ReviewSession \<Rightarrow> AnnotationSet \<Rightarrow> PreparedReviewGeneration list \<Rightarrow> timestamp \<Rightarrow> unit store_op"
where
  "replace_active_review w session active generations at =
    replace_active_review_with_setting w session active generations at None"

record RemoteReviewReplacementPromotion =
  promotion_workspace :: WorkspaceId
  promotion_session :: ReviewSession
  promotion_set :: AnnotationSet
  promotion_generations :: "PreparedReviewGeneration list"
  promotion_repositories :: "Repository list"
  promotion_archived_at :: timestamp
  promotion_setting :: "(string \<times> string) option"

definition replace_active_review_with_remote_state ::
  "RemoteReviewReplacementPromotion \<Rightarrow> unit store_op" where
  "replace_active_review_with_remote_state p = atomic (\<lambda>d.
    rbind (archive_priors (promotion_workspace p) (promotion_archived_at p) d) (\<lambda>d.
    rbind (run_all upsert_repository_row (promotion_repositories p) d) (\<lambda>d.
    rbind (upsert_session_row (promotion_session p) d) (\<lambda>d.
    rbind (insert_annotation_set (promotion_set p) d) (\<lambda>d.
    rbind (run_all (insert_review_generation (session_id (promotion_session p))) (promotion_generations p) d)
      (\<lambda>d. upsert_optional_setting (promotion_setting p) d))))))"

definition save_prepared_remote_refresh_with_setting ::
  "ReviewSession \<Rightarrow> PreparedReviewGeneration list \<Rightarrow> string \<Rightarrow> string \<Rightarrow> unit store_op" where
  "save_prepared_remote_refresh_with_setting session generations key val = atomic (\<lambda>d.
    rbind (run_all (insert_review_generation (session_id session)) generations d) (\<lambda>d.
    rbind (upsert_session_row session d) (\<lambda>d.
    upsert_setting key val d)))"

definition save_prepared_remote_refresh_with_setting_and_repositories ::
  "ReviewSession \<Rightarrow> PreparedReviewGeneration list \<Rightarrow> Repository list \<Rightarrow> string \<Rightarrow> string \<Rightarrow> unit store_op" where
  "save_prepared_remote_refresh_with_setting_and_repositories session generations repos key val = atomic (\<lambda>d.
    rbind (run_all upsert_repository_row repos d) (\<lambda>d.
    rbind (run_all (insert_review_generation (session_id session)) generations d) (\<lambda>d.
    rbind (upsert_session_row session d) (\<lambda>d.
    upsert_setting key val d))))"

record GitHubPullRequestRefreshPromotion =
  refresh_workspace :: Workspace
  refresh_repository :: Repository
  refresh_pull_request_id :: string
  refresh_pull_request :: string
  refresh_active_worktree_id :: string
  refresh_active_worktree :: string
  refresh_retired_worktree_id :: string
  refresh_retired_worktree :: string
  refresh_session :: ReviewSession
  refresh_generation :: PreparedReviewGeneration
  refresh_annotations :: "Annotation list"

definition promote_github_pull_request_refresh ::
  "GitHubPullRequestRefreshPromotion \<Rightarrow> timestamp \<Rightarrow> unit store_op" where
  "promote_github_pull_request_refresh p now = atomic (\<lambda>d.
    let w = workspace_id (refresh_workspace p) in
    rbind (upsert_workspace_row (refresh_workspace p) d) (\<lambda>d.
    rbind (upsert_repository_row (refresh_repository p) d) (\<lambda>d.
    rbind (upsert_pull_request (refresh_pull_request_id p) w (refresh_pull_request p) d) (\<lambda>d.
    rbind (upsert_worktree (refresh_active_worktree_id p) w (refresh_active_worktree p)
        (delete_worktree (refresh_retired_worktree_id p) d)) (\<lambda>d.
    rbind (upsert_retired (refresh_retired_worktree_id p) w (refresh_retired_worktree p) now d) (\<lambda>d.
    rbind (insert_review_generation (session_id (refresh_session p)) (refresh_generation p) d) (\<lambda>d.
    rbind (run_all upsert_annotation (refresh_annotations p) d) (\<lambda>d.
    upsert_session_row (refresh_session p) d))))))))"

section \<open>Annotations, exports and settings\<close>

definition save_annotation_set :: "AnnotationSet \<Rightarrow> unit store_op" where
  "save_annotation_set a = execute (upsert_annotation_set a)"

definition active_annotation_set :: "ReviewSessionId \<Rightarrow> AnnotationSet option store_op" where
  "active_annotation_set s = query (active_set_of s)"

definition annotation_sets :: "ReviewSessionId \<Rightarrow> AnnotationSet list store_op" where
  "annotation_sets s = query (\<lambda>d.
    map set_row_payload (rev (sort_key set_row_sequence (filter (\<lambda>r. set_row_session r = s) (t_sets d)))))"

definition annotation_set_for_id :: "AnnotationSetId \<Rightarrow> AnnotationSet option store_op" where
  "annotation_set_for_id i = query (\<lambda>d. map_option set_row_payload (lookup_row set_row_id i (t_sets d)))"

record ClearedAnnotationSet =
  cleared_archived :: AnnotationSet
  cleared_active :: AnnotationSet

definition next_set :: "AnnotationSetId \<Rightarrow> ReviewSessionId \<Rightarrow> AnnotationSet \<Rightarrow> timestamp \<Rightarrow> AnnotationSet" where
  "next_set fresh s prior at =
    \<lparr>set_id = fresh, set_review_session = s, set_sequence = min (set_sequence prior + 1) U32_MAX,
     set_active = True, set_archived_at = None, set_created_at = at\<rparr>"

definition clear_active_annotation_set ::
  "AnnotationSetId \<Rightarrow> ReviewSessionId \<Rightarrow> timestamp \<Rightarrow> ClearedAnnotationSet store_op" where
  "clear_active_annotation_set fresh s at = transaction (\<lambda>d.
    rbind (ok_or (NoActiveAnnotationSet s) (active_set_of s d)) (\<lambda>prior.
    rbind (insert_annotation_set (next_set fresh s prior at) (store_set (archived at prior) d)) (\<lambda>d.
    Inr (\<lparr>cleared_archived = archived at prior, cleared_active = next_set fresh s prior at\<rparr>, d))))"

definition save_annotation :: "Annotation \<Rightarrow> unit store_op" where
  "save_annotation a = execute (upsert_annotation_in_place a)"

definition annotations_of :: "AnnotationSetId \<Rightarrow> Db \<Rightarrow> Annotation list" where
  "annotations_of i d =
    map ar_annotation (sort_key (\<lambda>r. (ar_created_at r, annotation_uuid (ar_id r)))
      (filter (\<lambda>r. ar_set r = i) (t_annotations d)))"

definition annotations :: "AnnotationSetId \<Rightarrow> Annotation list store_op" where
  "annotations i = query (annotations_of i)"

definition save_prompt_export :: "PromptExportRecord \<Rightarrow> unit store_op" where
  "save_prompt_export e = execute (insert_export e)"

definition prompt_exports :: "ReviewSessionId \<Rightarrow> PromptExportRecord list store_op" where
  "prompt_exports s = query (\<lambda>d.
    sort_key (\<lambda>e. (- export_created_at e, case export_id e of PromptExportId u \<Rightarrow> u))
      (filter (\<lambda>e. export_review_session e = s) (t_exports d)))"

definition prompt_export :: "PromptExportId \<Rightarrow> PromptExportRecord option store_op" where
  "prompt_export i = query (\<lambda>d. lookup_row export_id i (t_exports d))"

definition review_session_ui_state :: "ReviewSessionId \<Rightarrow> string option store_op" where
  "review_session_ui_state s = query (\<lambda>d. map_option snd (lookup_row fst s (t_ui d)))"

definition save_review_session_ui_state :: "ReviewSessionId \<Rightarrow> string \<Rightarrow> unit store_op" where
  "save_review_session_ui_state s payload = execute (upsert_ui_state s payload)"

definition setting :: "string \<Rightarrow> string option store_op" where
  "setting key = query (\<lambda>d. map_option snd (lookup_row fst key (t_settings d)))"

definition set_setting :: "string \<Rightarrow> string \<Rightarrow> unit store_op" where
  "set_setting key val = execute (upsert_setting key val)"

section \<open>GitHub records and worktrees\<close>

definition save_github_pull_request :: "string \<Rightarrow> WorkspaceId \<Rightarrow> string \<Rightarrow> unit store_op" where
  "save_github_pull_request i w payload = execute (upsert_pull_request i w payload)"

definition github_pull_request_for_workspace :: "WorkspaceId \<Rightarrow> string option store_op" where
  "github_pull_request_for_workspace w = query (\<lambda>d.
    map_option pr_row_payload (find (\<lambda>_. True)
      (sort_key pr_row_id (filter (\<lambda>r. pr_row_workspace r = w) (t_pull_requests d)))))"

definition save_github_publication :: "string \<Rightarrow> ReviewSessionId \<Rightarrow> string \<Rightarrow> string \<Rightarrow> unit store_op" where
  "save_github_publication i s attempt payload = execute (upsert_publication i s attempt payload)"

definition github_publication_by_attempt :: "string \<Rightarrow> string option store_op" where
  "github_publication_by_attempt attempt = query (\<lambda>d.
    map_option publication_row_payload (lookup_row publication_row_attempt attempt (t_publications d)))"

definition github_publications_for_session :: "ReviewSessionId \<Rightarrow> string list store_op" where
  "github_publications_for_session s = query (\<lambda>d.
    map publication_row_payload
      (sort_key publication_row_id (filter (\<lambda>r. publication_row_session r = s) (t_publications d))))"

definition save_managed_worktree :: "string \<Rightarrow> WorkspaceId \<Rightarrow> string \<Rightarrow> unit store_op" where
  "save_managed_worktree i w payload = execute (upsert_worktree i w payload)"

definition remove_managed_worktree :: "string \<Rightarrow> unit store_op" where
  "remove_managed_worktree i = execute (\<lambda>d. Inr (delete_worktree i d))"

definition retired_managed_worktrees :: "string list store_op" where
  "retired_managed_worktrees = query (\<lambda>d.
    map retired_row_payload (sort_key (\<lambda>r. (retired_row_at r, retired_row_id r)) (t_retired d)))"

definition complete_retired_managed_worktree :: "string \<Rightarrow> unit store_op" where
  "complete_retired_managed_worktree i = execute (\<lambda>d. Inr (delete_retired i d))"

definition save_github_publication_and_annotations ::
  "string \<Rightarrow> ReviewSessionId \<Rightarrow> string \<Rightarrow> string \<Rightarrow> Annotation list \<Rightarrow> unit store_op" where
  "save_github_publication_and_annotations i s attempt payload as = execute (\<lambda>d.
    rbind (upsert_publication i s attempt payload d) (run_all upsert_annotation_moving as))"

section \<open>Permanent deletion\<close>

definition repositories_under :: "WorkspaceId \<Rightarrow> Db \<Rightarrow> RepositoryId list" where
  "repositories_under w d = map rr_id (filter (\<lambda>r. rr_workspace r = w) (t_repositories d))"

definition sessions_under :: "WorkspaceId \<Rightarrow> Db \<Rightarrow> ReviewSessionId list" where
  "sessions_under w d = map sr_id (filter (\<lambda>r. sr_workspace r = w) (t_sessions d))"

definition comparisons_under :: "WorkspaceId \<Rightarrow> Db \<Rightarrow> ComparisonId list" where
  "comparisons_under w d =
    map cr_id (filter (\<lambda>r. cr_repository r \<in> set (repositories_under w d)) (t_comparisons d))"

text \<open>\<open>DELETE FROM workspace\<close> with the \<open>CASCADE\<close> and \<open>SET NULL\<close> actions of the schema.\<close>

definition delete_workspace_row :: "WorkspaceId \<Rightarrow> Db \<Rightarrow> Db" where
  "delete_workspace_row w d =
    d\<lparr>t_workspaces := delete_where (\<lambda>r. workspace_id r = w) (t_workspaces d),
      t_repositories := delete_where (\<lambda>r. rr_workspace r = w) (t_repositories d),
      t_sessions := delete_where (\<lambda>r. sr_workspace r = w) (t_sessions d),
      t_comparisons := delete_where (\<lambda>r. cr_repository r \<in> set (repositories_under w d)) (t_comparisons d),
      t_files := delete_where (\<lambda>r. fr_comparison r \<in> set (comparisons_under w d)) (t_files d),
      t_session_comparisons := delete_where (\<lambda>p. fst p \<in> set (sessions_under w d)
          \<or> snd p \<in> set (comparisons_under w d)) (t_session_comparisons d),
      t_current := delete_where (\<lambda>r. current_session r \<in> set (sessions_under w d)
          \<or> current_repository r \<in> set (repositories_under w d)
          \<or> current_comparison r \<in> set (comparisons_under w d)) (t_current d),
      t_sets := delete_where (\<lambda>r. set_row_session r \<in> set (sessions_under w d)) (t_sets d),
      t_exports := delete_where (\<lambda>r. export_review_session r \<in> set (sessions_under w d)) (t_exports d),
      t_ui := delete_where (\<lambda>r. fst r \<in> set (sessions_under w d)) (t_ui d),
      t_pull_requests := delete_where (\<lambda>r. pr_row_workspace r = w) (t_pull_requests d),
      t_publications :=
        delete_where (\<lambda>r. publication_row_session r \<in> set (sessions_under w d)) (t_publications d),
      t_worktrees := map (\<lambda>r. if worktree_row_workspace r = Some w
          then r\<lparr>worktree_row_workspace := None\<rparr> else r) (t_worktrees d),
      t_retired := map (\<lambda>r. if retired_row_workspace r = Some w
          then r\<lparr>retired_row_workspace := None\<rparr> else r) (t_retired d)\<rparr>"

text \<open>The \<open>RESTRICT\<close> edges: annotations and exports keep their annotation set alive.\<close>

definition restrict_ok :: "Db \<Rightarrow> bool" where
  "restrict_ok d =
    (list_all (\<lambda>r. set_exists (ar_set r) d) (t_annotations d)
      \<and> list_all (\<lambda>e. set_exists (export_set e) d) (t_exports d))"

definition session_setting_keys :: "string list \<Rightarrow> WorkspaceId \<Rightarrow> Db \<Rightarrow> string list" where
  "session_setting_keys prefix_list w d =
    concat (map (\<lambda>p. map (\<lambda>s. p @ show_session_id s) (sessions_under w d)) prefix_list)"

definition sets_under :: "WorkspaceId \<Rightarrow> Db \<Rightarrow> AnnotationSetId list" where
  "sets_under w d =
    map set_row_id (filter (\<lambda>r. set_row_session r \<in> set (sessions_under w d)) (t_sets d))"

definition annotations_under :: "WorkspaceId \<Rightarrow> Db \<Rightarrow> AnnotationId list" where
  "annotations_under w d = map ar_id (filter (\<lambda>r. ar_set r \<in> set (sets_under w d)) (t_annotations d))"

text \<open>The deletions before it; deleting an annotation takes its revisions along.\<close>

definition delete_protected_rows :: "WorkspaceId \<Rightarrow> string list \<Rightarrow> string list \<Rightarrow> Db \<Rightarrow> Db" where
  "delete_protected_rows w keys prefix_list d =
    d\<lparr>t_settings := delete_where (\<lambda>r. fst r \<in> set (session_setting_keys prefix_list w d) \<or> fst r \<in> set keys)
        (t_settings d),
      t_annotations := delete_where (\<lambda>r. ar_set r \<in> set (sets_under w d)) (t_annotations d),
      t_revisions := delete_where (\<lambda>r. revision_annotation r \<in> set (annotations_under w d)) (t_revisions d),
      t_exports := delete_where (\<lambda>e. export_review_session e \<in> set (sessions_under w d)) (t_exports d),
      t_worktrees := delete_where (\<lambda>r. worktree_row_workspace r = Some w) (t_worktrees d),
      t_retired := delete_where (\<lambda>r. retired_row_workspace r = Some w) (t_retired d)\<rparr>"

definition purge_workspace_rows ::
  "WorkspaceId \<Rightarrow> string list \<Rightarrow> string list \<Rightarrow> Db \<Rightarrow> PersistenceError + (bool \<times> Db)" where
  "purge_workspace_rows w keys prefix_list d =
    (let final = delete_workspace_row w (delete_protected_rows w keys prefix_list d)
     in vthen (foreign (restrict_ok final)) (Inr (workspace_exists w d, final)))"

text \<open>The backups first, each in its own transaction; then the live database.\<close>

fun purge_backups ::
  "WorkspaceId \<Rightarrow> string list \<Rightarrow> string list \<Rightarrow> Db list \<Rightarrow> (PersistenceError + unit) \<times> Db list" where
  "purge_backups w keys prefix_list [] = (Inr (), [])"
| "purge_backups w keys prefix_list (b # bs) =
    (case purge_workspace_rows w keys prefix_list b of
      Inl e \<Rightarrow> (Inl e, b # bs)
    | Inr (_, b') \<Rightarrow> (let (r, bs') = purge_backups w keys prefix_list bs in (r, b' # bs')))"

definition purge_workspace :: "WorkspaceId \<Rightarrow> string list \<Rightarrow> string list \<Rightarrow> bool store_op" where
  "purge_workspace w keys prefix_list s =
    (if workspace_of w (store_db s) = None then (Inr False, s)
     else (let (r, backups) = purge_backups w keys prefix_list (store_backups s);
               s = s\<lparr>store_backups := backups\<rparr>
           in case r of
             Inl e \<Rightarrow> (Inl e, s)
           | Inr _ \<Rightarrow>
               io_bind (transaction (purge_workspace_rows w keys prefix_list)) (\<lambda>_.
               io_bind gc_unreferenced_blobs (\<lambda>_. io_return (Inr True))) s))"

end
