(* ===== verification/GitHub_Client.thy ===== *)
theory GitHub_Client
  imports Git_Pool
begin

text \<open>
  \<open>crates/github/src/client.rs\<close> and \<open>pull_request.rs\<close>: the boundary to the GitHub command
  line \<open>gh\<close> and the metadata of a pull request.  A client is an executor, a function of the
  outside world; \<open>gh_process_execute\<close> is the executor that runs the program, over the
  operations of a child process.  What \<open>gh\<close> prints is read by the JSON decoders in
  \<open>pull_json\<close>; the raw records are what they return.
\<close>

section \<open>Commands\<close>

record GhCommand =
  gh_arguments :: "string list"
  gh_stdin :: "string option"

definition GhCommand_new :: "string list \<Rightarrow> GhCommand" where
  "GhCommand_new arguments = \<lparr>gh_arguments = arguments, gh_stdin = None\<rparr>"

definition with_stdin :: "GhCommand \<Rightarrow> string \<Rightarrow> GhCommand" where
  "with_stdin c bytes = c\<lparr>gh_stdin := Some bytes\<rparr>"

definition display_gh :: "GhCommand \<Rightarrow> string" where
  "display_gh c = ''gh '' @ join_on CHR '' '' (map utf8_lossy (gh_arguments c)) @
    (case gh_stdin c of None \<Rightarrow> [] | Some _ \<Rightarrow> '' <review-json>'')"

record GhOutput =
  gh_success :: bool
  gh_exit_code :: "int option"
  gh_stdout :: string
  gh_stderr :: string

definition gh_stdout_trimmed :: "GhOutput \<Rightarrow> string" where
  "gh_stdout_trimmed out = trim (utf8_lossy (gh_stdout out))"

definition gh_stderr_trimmed :: "GhOutput \<Rightarrow> string" where
  "gh_stderr_trimmed out = trim (utf8_lossy (gh_stderr out))"

record io_error =
  io_not_found :: bool
  io_text :: string

datatype GhError =
    GhSpawn string io_error
  | GhWriteStdin string io_error
  | GhStdinUnavailable string
  | GhPipeUnavailable string
  | GhWait string io_error
  | GhReadOutput string io_error
  | GhReaderPanicked string
  | GhTimedOut string nat
  | GhOutputTooLarge string nat
  | GhCommandFailed string string
  | GhParse string
  | GhFixtureExhausted
  | GhFixture string

text \<open>The messages of \<open>GhError\<close>; a \<open>Duration\<close> of whole seconds prints as such.\<close>

fun gh_error_text :: "GhError \<Rightarrow> string" where
  "gh_error_text (GhSpawn c e) = ''could not run '' @ c @ '': '' @ io_text e"
| "gh_error_text (GhWriteStdin c e) = ''could not provide input to '' @ c @ '': '' @ io_text e"
| "gh_error_text (GhStdinUnavailable c) = ''could not obtain standard input for '' @ c"
| "gh_error_text (GhPipeUnavailable c) = ''could not obtain provider output pipe for '' @ c"
| "gh_error_text (GhWait c e) = ''could not wait for '' @ c @ '': '' @ io_text e"
| "gh_error_text (GhReadOutput c e) = ''could not read output from '' @ c @ '': '' @ io_text e"
| "gh_error_text (GhReaderPanicked c) = ''provider output reader panicked for '' @ c"
| "gh_error_text (GhTimedOut c ms) =
    ''GitHub CLI timed out after '' @ show_nat (ms div 1000) @ ''s: '' @ c"
| "gh_error_text (GhOutputTooLarge c limit) =
    ''GitHub CLI output exceeded '' @ show_nat limit @ '' bytes: '' @ c"
| "gh_error_text (GhCommandFailed c stderr) = ''GitHub CLI command failed ('' @ c @ ''): '' @ stderr"
| "gh_error_text (GhParse t) = ''could not parse GitHub CLI output: '' @ t"
| "gh_error_text GhFixtureExhausted = ''test fixture has no response for this command''"
| "gh_error_text (GhFixture t) = ''fixture error: '' @ t"

type_synonym ('w, 'a) gh = "'w \<Rightarrow> (GhError + 'a) \<times> 'w"

type_synonym 'w executor = "GhCommand \<Rightarrow> ('w, GhOutput) gh"

section \<open>Running the program\<close>

text \<open>The readers drain a pipe to its end, whatever they may keep of it: a pipe is the results
  of the successive reads, an empty one or the end of the list being its end.\<close>

fun drain_limited :: "nat \<Rightarrow> (io_error + string) list \<Rightarrow> string \<Rightarrow> bool \<Rightarrow> io_error + string \<times> bool" where
  "drain_limited limit [] bytes exceeded = Inr (bytes, exceeded)"
| "drain_limited limit (Inl e # reads) bytes exceeded = Inl e"
| "drain_limited limit (Inr chunk # reads) bytes exceeded =
    (if chunk = [] then Inr (bytes, exceeded)
     else let remaining = limit - length bytes in
       if length chunk \<le> remaining then drain_limited limit reads (bytes @ chunk) exceeded
       else drain_limited limit reads (bytes @ take remaining chunk) True)"

definition GH_COMMAND_TIMEOUT :: nat where "GH_COMMAND_TIMEOUT = 60 * 1000"

definition MAX_GH_OUTPUT_BYTES :: nat where "MAX_GH_OUTPUT_BYTES = 8 * 1024 * 1024"

datatype gh_pipe = GhStdin | GhStdout | GhStderr

text \<open>The child process.  \<open>process_joined\<close> is what the thread reading a pipe has read when it
  is joined, \<open>None\<close> when it has panicked.\<close>

record 'w process =
  process_spawn :: "GhCommand \<Rightarrow> 'w \<Rightarrow> (io_error + unit) \<times> 'w"
  process_take :: "gh_pipe \<Rightarrow> 'w \<Rightarrow> bool \<times> 'w"
  process_write :: "string \<Rightarrow> 'w \<Rightarrow> (io_error + unit) \<times> 'w"
  process_try_wait :: "'w \<Rightarrow> (io_error + (bool \<times> int option) option) \<times> 'w"
  process_kill :: "'w \<Rightarrow> 'w"
  process_joined :: "gh_pipe \<Rightarrow> 'w \<Rightarrow> (io_error + string) list option \<times> 'w"
  process_instant :: "'w \<Rightarrow> nat \<times> 'w"
  process_sleep :: "nat \<Rightarrow> 'w \<Rightarrow> 'w"

definition io_step :: "('e \<Rightarrow> GhError) \<Rightarrow> ('w \<Rightarrow> ('e + 'a) \<times> 'w) \<Rightarrow> ('w, 'a) gh" where
  "io_step f m w = (case m w of (r, w) \<Rightarrow> (map_err f r, w))"

definition take_pipe :: "'w process \<Rightarrow> gh_pipe \<Rightarrow> GhError \<Rightarrow> ('w, unit) gh" where
  "take_pipe p pipe e w = (case process_take p pipe w of (there, w) \<Rightarrow> (ensure there e, w))"

definition start_process :: "'w process \<Rightarrow> GhCommand \<Rightarrow> ('w, unit) gh" where
  "start_process p c =
    io_bind (io_step (GhSpawn (display_gh c)) (process_spawn p c)) (\<lambda>_.
    io_bind (case gh_stdin c of
        None \<Rightarrow> io_return (Inr ())
      | Some bytes \<Rightarrow>
          io_bind (take_pipe p GhStdin (GhStdinUnavailable (display_gh c))) (\<lambda>_.
          io_step (GhWriteStdin (display_gh c)) (process_write p bytes))) (\<lambda>_.
    io_bind (take_pipe p GhStdout (GhPipeUnavailable (display_gh c))) (\<lambda>_.
    take_pipe p GhStderr (GhPipeUnavailable (display_gh c)))))"

text \<open>One round of the wait: \<open>None\<close> goes round again.\<close>

definition wait_round ::
  "'w process \<Rightarrow> GhCommand \<Rightarrow> nat \<Rightarrow> 'w \<Rightarrow> (GhError + bool \<times> int option) option \<times> 'w" where
  "wait_round p c deadline w =
    (case process_try_wait p w of
       (Inl e, w) \<Rightarrow> (Some (Inl (GhWait (display_gh c) e)), w)
     | (Inr (Some exited), w) \<Rightarrow> (Some (Inr exited), w)
     | (Inr None, w) \<Rightarrow> (case process_instant p w of (now, w) \<Rightarrow>
         if deadline \<le> now
         then (Some (Inl (GhTimedOut (display_gh c) GH_COMMAND_TIMEOUT)),
           snd (process_joined p GhStderr (snd (process_joined p GhStdout (process_kill p w)))))
         else (None, process_sleep p 25 w)))"

partial_function (option) wait_loop ::
  "'w process \<Rightarrow> GhCommand \<Rightarrow> nat \<Rightarrow> 'w \<Rightarrow> ((GhError + bool \<times> int option) \<times> 'w) option" where
  "wait_loop p c deadline w =
    (case wait_round p c deadline w of (r, w) \<Rightarrow> (case r of
       Some r \<Rightarrow> Some (r, w)
     | None \<Rightarrow> wait_loop p c deadline w))"

definition read_pipe :: "'w process \<Rightarrow> GhCommand \<Rightarrow> gh_pipe \<Rightarrow> ('w, string \<times> bool) gh" where
  "read_pipe p c pipe w =
    (case process_joined p pipe w of
       (None, w) \<Rightarrow> (Inl (GhReaderPanicked (display_gh c)), w)
     | (Some reads, w) \<Rightarrow>
         (map_err (GhReadOutput (display_gh c)) (drain_limited MAX_GH_OUTPUT_BYTES reads [] False), w))"

definition collect_output :: "'w process \<Rightarrow> GhCommand \<Rightarrow> bool \<times> int option \<Rightarrow> ('w, GhOutput) gh" where
  "collect_output p c exited =
    io_bind (read_pipe p c GhStdout) (\<lambda>(out, out_limited).
    io_bind (read_pipe p c GhStderr) (\<lambda>(err, err_limited).
    io_return (if out_limited \<or> err_limited
      then Inl (GhOutputTooLarge (display_gh c) MAX_GH_OUTPUT_BYTES)
      else Inr \<lparr>gh_success = fst exited, gh_exit_code = snd exited, gh_stdout = out, gh_stderr = err\<rparr>)))"

definition gh_process_execute :: "'w process \<Rightarrow> GhCommand \<Rightarrow> 'w \<Rightarrow> ((GhError + GhOutput) \<times> 'w) option" where
  "gh_process_execute p c w =
    (case start_process p c w of
       (Inl e, w) \<Rightarrow> Some (Inl e, w)
     | (Inr _, w) \<Rightarrow> (case process_instant p w of (now, w) \<Rightarrow>
         (case wait_loop p c (now + GH_COMMAND_TIMEOUT) w of
            None \<Rightarrow> None
          | Some (Inl e, w) \<Rightarrow> Some (Inl e, w)
          | Some (Inr exited, w) \<Rightarrow> Some (collect_output p c exited w))))"

section \<open>Diagnostics\<close>

abbreviation ELLIPSIS :: string where "ELLIPSIS \<equiv> [CHR 0xE2, CHR 0x80, CHR 0xA6]"

definition last_start :: "string \<Rightarrow> nat \<Rightarrow> nat" where
  "last_start s limit = (case filter (\<lambda>n. n < length s \<and> is_char_boundary s n) [0..<Suc limit] of
      [] \<Rightarrow> 0 | n # ns \<Rightarrow> last (n # ns))"

definition truncate_diagnostic :: "string \<Rightarrow> string" where
  "truncate_diagnostic s = (if length s \<le> 512 then s else take (last_start s 512) s @ ELLIPSIS)"

definition diagnostic_text :: "GhOutput \<Rightarrow> string" where
  "diagnostic_text out = truncate_diagnostic
    (if gh_stderr_trimmed out = [] then gh_stdout_trimmed out else gh_stderr_trimmed out)"

definition unavailable_diagnostic :: "GhError \<Rightarrow> string" where
  "unavailable_diagnostic e =
    (let other = truncate_diagnostic (gh_error_text e) in
     case e of
       GhSpawn _ source \<Rightarrow>
         if io_not_found source
         then ''GitHub CLI (`gh`) is not installed. Install it, then run `gh auth login --hostname github.com`.''
         else other
     | _ \<Rightarrow> other)"

fun account_from_lines :: "string list \<Rightarrow> string option" where
  "account_from_lines [] = None"
| "account_from_lines (line # rest) =
    (case split_once_str ''account '' line of
       None \<Rightarrow> account_from_lines rest
     | Some (_, account) \<Rightarrow> (case split_whitespace account of
         [] \<Rightarrow> account_from_lines rest
       | name # _ \<Rightarrow> if name = [] then account_from_lines rest else Some name))"

definition account_from_auth_status :: "string \<Rightarrow> string option" where
  "account_from_auth_status rendered = account_from_lines (str_lines rendered)"

record GitHubAuthStatus =
  auth_gh_available :: bool
  auth_authenticated :: bool
  auth_account :: "string option"
  auth_diagnostic :: string

definition sign_in_hint :: string where
  "sign_in_hint = '' Run `gh auth login --hostname github.com` to sign in.''"

definition unauthenticated :: "bool \<Rightarrow> string \<Rightarrow> GitHubAuthStatus" where
  "unauthenticated available text = \<lparr>auth_gh_available = available, auth_authenticated = False,
    auth_account = None, auth_diagnostic = text\<rparr>"

definition authentication_status :: "'w executor \<Rightarrow> 'w \<Rightarrow> GitHubAuthStatus \<times> 'w" where
  "authentication_status gh w =
    (case gh (GhCommand_new [''--version'']) w of
       (Inl e, w) \<Rightarrow> (unauthenticated False (unavailable_diagnostic e), w)
     | (Inr version, w) \<Rightarrow>
         if \<not> gh_success version then (unauthenticated False (diagnostic_text version), w)
         else (case gh (GhCommand_new [''auth'', ''status'', ''--hostname'', ''github.com'']) w of
           (Inl e, w) \<Rightarrow> (unauthenticated True (gh_error_text e @ ''.'' @ sign_in_hint), w)
         | (Inr out, w) \<Rightarrow>
             if gh_success out
             then (\<lparr>auth_gh_available = True, auth_authenticated = True,
               auth_account = account_from_auth_status (gh_stdout_trimmed out @ [NL] @ gh_stderr_trimmed out),
               auth_diagnostic = gh_stdout_trimmed version\<rparr>, w)
             else (unauthenticated True (diagnostic_text out @ sign_in_hint), w)))"

definition require_gh :: "'w executor \<Rightarrow> GhCommand \<Rightarrow> ('w, GhOutput) gh" where
  "require_gh gh c =
    io_bind (gh c) (\<lambda>out. io_return
      (if gh_success out then Inr out else Inl (GhCommandFailed (display_gh c) (diagnostic_text out))))"

end
