(* ===== verification/GitHub_Pull.thy ===== *)
theory GitHub_Pull
  imports GitHub_Client
begin

text \<open>
  \<open>crates/github/src/pull_request.rs\<close>: the URL of a pull request and the metadata that pins
  its base and head commits.  The JSON that \<open>gh\<close> prints is read by \<open>pull_json\<close>.
\<close>

section \<open>URLs\<close>

definition GITHUB_DOT_COM :: string where "GITHUB_DOT_COM = ''github.com''"

record GitHubPullRequestUrl =
  pr_owner :: string
  pr_repository :: string
  pr_number :: nat

datatype PullRequestError =
    InvalidUrl string
  | PullGh GhError
  | MetadataDecode string
  | MetadataUrlMismatch string string
  | InvalidPullSha string
  | InvalidRepositoryLocator RepositoryPoolError

definition github_owner_segment :: "string \<Rightarrow> bool" where
  "github_owner_segment s \<longleftrightarrow>
    s \<noteq> [] \<and> length s \<le> 39 \<and> \<not> starts_with s ''-'' \<and> \<not> ends_with s ''-''
    \<and> list_all (\<lambda>c. is_alnum c \<or> c = CHR ''-'') s"

definition github_repository_segment :: "string \<Rightarrow> bool" where
  "github_repository_segment s \<longleftrightarrow>
    s \<noteq> [] \<and> length s \<le> 100
    \<and> list_all (\<lambda>c. is_alnum c \<or> c \<in> {CHR ''.'', CHR ''_'', CHR ''-''}) s"

definition repository_slug :: "GitHubPullRequestUrl \<Rightarrow> string" where
  "repository_slug u = pr_owner u @ ''/'' @ pr_repository u"

definition canonical_url :: "GitHubPullRequestUrl \<Rightarrow> string" where
  "canonical_url u = ''https://'' @ GITHUB_DOT_COM @ ''/'' @ pr_owner u @ ''/'' @ pr_repository u
    @ ''/pull/'' @ show_nat (pr_number u)"

definition clone_url :: "GitHubPullRequestUrl \<Rightarrow> string" where
  "clone_url u = ''https://'' @ GITHUB_DOT_COM @ ''/'' @ pr_owner u @ ''/'' @ pr_repository u @ ''.git''"

definition repository_locator :: "GitHubPullRequestUrl \<Rightarrow> PullRequestError + RepositoryLocator" where
  "repository_locator u =
    map_err InvalidRepositoryLocator (RepositoryLocator_new GITHUB_DOT_COM (pr_owner u) (pr_repository u))"

definition url_path :: "string \<Rightarrow> string" where
  "url_path path = trim_end_char CHR ''/''
    (case split_once_any [CHR ''?'', CHR ''#''] path of None \<Rightarrow> path | Some (p, _) \<Rightarrow> p)"

definition url_parts :: "string \<Rightarrow> PullRequestError + GitHubPullRequestUrl" where
  "url_parts s =
    (case strip_prefix ''https://github.com/'' s of
       None \<Rightarrow> Inl (InvalidUrl s)
     | Some path \<Rightarrow> (case split_on CHR ''/'' (url_path path) of
         owner # repository # pull # number # rest \<Rightarrow>
           if pull \<noteq> ''pull'' \<or> \<not> github_owner_segment owner \<or> \<not> github_repository_segment repository
           then Inl (InvalidUrl s)
           else (case parse_unsigned U64_MAX number of
               None \<Rightarrow> Inl (InvalidUrl s)
             | Some n \<Rightarrow> if n = 0 then Inl (InvalidUrl s)
                 else Inr \<lparr>pr_owner = owner, pr_repository = repository, pr_number = n\<rparr>)
       | _ \<Rightarrow> Inl (InvalidUrl s)))"

definition url_from_str :: "string \<Rightarrow> PullRequestError + GitHubPullRequestUrl" where
  "url_from_str s =
    (if 2048 < length s \<or> contains_char s NUL then Inl (InvalidUrl s) else url_parts (trim s))"

section \<open>Metadata\<close>

record PullRequestRef =
  ref_name :: string
  ref_sha :: GitSha

record PullRequestCommit =
  commit_oid :: GitSha
  commit_message_headline :: string
  commit_authored_at :: "timestamp option"

record PullRequestMetadata =
  pull_url :: GitHubPullRequestUrl
  pull_title :: string
  pull_author :: "string option"
  pull_base :: PullRequestRef
  pull_head :: PullRequestRef
  pull_draft :: bool
  pull_state :: string
  pull_review_decision :: "string option"
  pull_commits :: "PullRequestCommit list"

definition pinned_revision :: "PullRequestMetadata \<Rightarrow> PinnedGitRevision" where
  "pinned_revision m = \<lparr>pinned_base_sha = ref_sha (pull_base m), pinned_head_sha = ref_sha (pull_head m)\<rparr>"

definition head_changed_since :: "PullRequestMetadata \<Rightarrow> PinnedGitRevision \<Rightarrow> bool" where
  "head_changed_since m pinned \<longleftrightarrow> ref_sha (pull_head m) \<noteq> pinned_head_sha pinned"

definition managed_worktree_request ::
  "PullRequestMetadata \<Rightarrow> string \<Rightarrow> string list \<Rightarrow> PullRequestError + PrepareManagedWorktreeRequest" where
  "managed_worktree_request m review clones =
    rbind (repository_locator (pull_url m)) (\<lambda>locator.
    Inr \<lparr>prepare_review_id = review, prepare_repository = locator, prepare_clone_url = clone_url (pull_url m),
      prepare_revision = pinned_revision m, prepare_known_clones = clones\<rparr>)"

record RawApiPullRequest =
  api_number :: nat
  api_title :: string
  api_html_url :: string
  api_user :: "string option"
  api_base_ref :: string
  api_base_sha :: string
  api_head_ref :: string
  api_head_sha :: string
  api_draft :: bool
  api_state :: string

record RawCommit =
  raw_oid :: string
  raw_message_headline :: string
  raw_authored_date :: "timestamp option"

record RawPullRequest =
  raw_number :: nat
  raw_title :: string
  raw_url :: string
  raw_author :: "string option"
  raw_base_ref_name :: string
  raw_base_ref_oid :: string
  raw_head_ref_name :: string
  raw_head_ref_oid :: string
  raw_is_draft :: bool
  raw_state :: string
  raw_review_decision :: "string option"
  raw_commits :: "RawCommit list"

definition pull_sha :: "string \<Rightarrow> PullRequestError + GitSha" where
  "pull_sha s = map_err (\<lambda>_. InvalidPullSha s) (GitSha_new s)"

definition check_returned_url ::
  "GitHubPullRequestUrl \<Rightarrow> nat \<Rightarrow> string \<Rightarrow> PullRequestError + unit" where
  "check_returned_url requested number returned =
    rbind (url_from_str returned) (\<lambda>u.
    ensure (number = pr_number requested \<and> u = requested)
      (MetadataUrlMismatch (canonical_url requested) returned))"

definition ascii_upper :: "char \<Rightarrow> char" where
  "ascii_upper c = (if is_ascii_lower c then char_of (byte c - 32) else c)"

definition api_into_metadata ::
  "RawApiPullRequest \<Rightarrow> GitHubPullRequestUrl \<Rightarrow> PullRequestError + PullRequestMetadata" where
  "api_into_metadata raw requested =
    vthen (check_returned_url requested (api_number raw) (api_html_url raw))
    (rbind (pull_sha (api_base_sha raw)) (\<lambda>base.
    rbind (pull_sha (api_head_sha raw)) (\<lambda>head.
    Inr \<lparr>pull_url = requested, pull_title = api_title raw, pull_author = api_user raw,
      pull_base = \<lparr>ref_name = api_base_ref raw, ref_sha = base\<rparr>,
      pull_head = \<lparr>ref_name = api_head_ref raw, ref_sha = head\<rparr>,
      pull_draft = api_draft raw, pull_state = map ascii_upper (api_state raw),
      pull_review_decision = None, pull_commits = []\<rparr>)))"

definition commit_of_raw :: "RawCommit \<Rightarrow> PullRequestError + PullRequestCommit" where
  "commit_of_raw c = rbind (pull_sha (raw_oid c)) (\<lambda>sha.
    Inr \<lparr>commit_oid = sha, commit_message_headline = raw_message_headline c,
      commit_authored_at = raw_authored_date c\<rparr>)"

definition raw_into_metadata ::
  "RawPullRequest \<Rightarrow> GitHubPullRequestUrl \<Rightarrow> PullRequestError + PullRequestMetadata" where
  "raw_into_metadata raw requested =
    vthen (check_returned_url requested (raw_number raw) (raw_url raw))
    (rbind (pull_sha (raw_base_ref_oid raw)) (\<lambda>base.
    rbind (pull_sha (raw_head_ref_oid raw)) (\<lambda>head.
    rbind (try_map commit_of_raw (raw_commits raw)) (\<lambda>commits.
    Inr \<lparr>pull_url = requested, pull_title = raw_title raw, pull_author = raw_author raw,
      pull_base = \<lparr>ref_name = raw_base_ref_name raw, ref_sha = base\<rparr>,
      pull_head = \<lparr>ref_name = raw_head_ref_name raw, ref_sha = head\<rparr>,
      pull_draft = raw_is_draft raw, pull_state = raw_state raw,
      pull_review_decision = raw_review_decision raw, pull_commits = commits\<rparr>))))"

record pull_json =
  decode_pull_request :: "string \<Rightarrow> string + RawPullRequest"
  decode_api_pull_request :: "string \<Rightarrow> string + RawApiPullRequest"

type_synonym ('w, 'a) pull = "'w \<Rightarrow> (PullRequestError + 'a) \<times> 'w"

definition pull_gh :: "('w, 'a) gh \<Rightarrow> ('w, 'a) pull" where
  "pull_gh m w = (case m w of (r, w) \<Rightarrow> (map_err PullGh r, w))"

definition metadata_fields :: string where
  "metadata_fields = ''number,title,url,author,baseRefName,baseRefOid,headRefName,headRefOid,isDraft,state,reviewDecision,commits''"

definition view_command :: "GitHubPullRequestUrl \<Rightarrow> GhCommand" where
  "view_command u = GhCommand_new [''pr'', ''view'', show_nat (pr_number u), ''--repo'', repository_slug u,
    ''--json'', metadata_fields]"

definition api_command :: "GitHubPullRequestUrl \<Rightarrow> GhCommand" where
  "api_command u = GhCommand_new [''api'', ''--method'', ''GET'',
    ''repos/'' @ repository_slug u @ ''/pulls/'' @ show_nat (pr_number u)]"

definition pull_request_metadata_via_api ::
  "pull_json \<Rightarrow> 'w executor \<Rightarrow> GitHubPullRequestUrl \<Rightarrow> ('w, PullRequestMetadata) pull" where
  "pull_request_metadata_via_api json gh u =
    io_bind (pull_gh (require_gh gh (api_command u))) (\<lambda>out.
    io_return (rbind (map_err MetadataDecode (decode_api_pull_request json (gh_stdout out))) (\<lambda>raw.
      api_into_metadata raw u)))"

definition lacks_oid_fields :: "GhError \<Rightarrow> bool" where
  "lacks_oid_fields e = (case e of
      GhCommandFailed _ stderr \<Rightarrow> contains_str stderr ''Unknown JSON field''
        \<and> (contains_str stderr ''baseRefOid'' \<or> contains_str stderr ''headRefOid'')
    | _ \<Rightarrow> False)"

definition pull_request_metadata ::
  "pull_json \<Rightarrow> 'w executor \<Rightarrow> GitHubPullRequestUrl \<Rightarrow> ('w, PullRequestMetadata) pull" where
  "pull_request_metadata json gh u w =
    (case require_gh gh (view_command u) w of
       (Inr out, w) \<Rightarrow>
         (rbind (map_err MetadataDecode (decode_pull_request json (gh_stdout out))) (\<lambda>raw.
            raw_into_metadata raw u), w)
     | (Inl e, w) \<Rightarrow>
         if lacks_oid_fields e then pull_request_metadata_via_api json gh u w else (Inl (PullGh e), w))"

end
