(* ===== verification/GitHub_Review.thy ===== *)
theory GitHub_Review
  imports GitHub_Pull
begin

text \<open>
  \<open>crates/github/src/review.rs\<close>: importing the review threads and the conversation of a pull
  request, and publishing a review as one native request that can be recognised again.  The
  JSON readers are the fields of \<open>review_json\<close>; what the program writes is spelled out, as
  \<open>serde_json\<close> prints it.  The pages of a connection end when GitHub says so, so an import is
  a partial function.
\<close>

section \<open>Imported state\<close>

datatype GitHubLineSide = SideLeft | SideRight

fun from_diff_side :: "DiffSide \<Rightarrow> GitHubLineSide" where
  "from_diff_side Old = SideLeft"
| "from_diff_side New = SideRight"

definition line_side_from_str :: "string \<Rightarrow> GitHubLineSide option" where
  "line_side_from_str s = (if s = ''LEFT'' then Some SideLeft else if s = ''RIGHT'' then Some SideRight else None)"

record ImportedReviewIdentity =
  imported_review_id :: string
  imported_review_state :: "string option"
  imported_review_author :: "string option"

record ImportedReviewComment =
  imported_comment_id :: string
  imported_body :: string
  imported_author :: "string option"
  imported_url :: "string option"
  imported_created_at :: "timestamp option"
  imported_updated_at :: "timestamp option"
  imported_review :: "ImportedReviewIdentity option"

record ImportedReviewThread =
  thread_id :: string
  thread_resolved :: bool
  thread_outdated :: bool
  thread_path :: "StoredPath option"
  thread_line :: "nat option"
  thread_original_line :: "nat option"
  thread_start_line :: "nat option"
  thread_original_start_line :: "nat option"
  thread_side :: "GitHubLineSide option"
  thread_comments :: "ImportedReviewComment list"

record ImportedConversationComment =
  conversation_id :: nat
  conversation_body :: string
  conversation_author :: "string option"
  conversation_url :: "string option"
  conversation_created_at :: "timestamp option"
  conversation_updated_at :: "timestamp option"

record ImportedPullRequestState =
  imported_threads :: "ImportedReviewThread list"
  imported_conversation :: "ImportedConversationComment list"

datatype ReviewImportError =
    ImportGh GhError
  | ThreadDecode string
  | ConversationDecode string
  | PullRequestNotFound
  | MissingPaginationCursor
  | PaginationLimitExceeded

fun import_error_text :: "ReviewImportError \<Rightarrow> string" where
  "import_error_text (ImportGh e) = ''GitHub CLI error: '' @ gh_error_text e"
| "import_error_text (ThreadDecode t) = ''could not decode GitHub review thread response: '' @ t"
| "import_error_text (ConversationDecode t) = ''could not decode GitHub conversation response: '' @ t"
| "import_error_text PullRequestNotFound = ''GitHub pull request was not found''"
| "import_error_text MissingPaginationCursor = ''GitHub pagination returned a next page without a cursor''"
| "import_error_text PaginationLimitExceeded = ''GitHub response exceeds the configured import limit''"

section \<open>Raw responses\<close>

record RawPageInfo =
  page_has_next :: bool
  page_end_cursor :: "string option"

record RawReviewIdentity =
  raw_review_id :: string
  raw_review_state :: "string option"
  raw_review_author :: "string option"

record RawReviewComment =
  raw_comment_id :: string
  raw_comment_body :: string
  raw_comment_url :: "string option"
  raw_comment_created_at :: "timestamp option"
  raw_comment_updated_at :: "timestamp option"
  raw_comment_author :: "string option"
  raw_comment_review :: "RawReviewIdentity option"

record RawReviewCommentConnection =
  comment_nodes :: "RawReviewComment list"
  comment_page :: RawPageInfo

record RawReviewThread =
  raw_thread_id :: string
  raw_is_resolved :: bool
  raw_is_outdated :: bool
  raw_path :: "string option"
  raw_line :: "nat option"
  raw_original_line :: "nat option"
  raw_start_line :: "nat option"
  raw_original_start_line :: "nat option"
  raw_diff_side :: "string option"
  raw_comments :: RawReviewCommentConnection

record RawThreadConnection =
  thread_nodes :: "RawReviewThread list"
  thread_page :: RawPageInfo

text \<open>\<open>data.repository\<close> and its \<open>pullRequest\<close>, each absent or null in an answer.\<close>

type_synonym RawThreadPage = "RawThreadConnection option option"

text \<open>\<open>data.node\<close> of an answer.\<close>

type_synonym RawThreadCommentPage = "RawReviewCommentConnection option"

record RawConversationComment =
  raw_conversation_id :: nat
  raw_conversation_body :: string
  raw_conversation_url :: "string option"
  raw_conversation_created_at :: "timestamp option"
  raw_conversation_updated_at :: "timestamp option"
  raw_conversation_user :: "string option"

record RawSubmittedReview =
  submitted_id :: nat
  submitted_html_url :: "string option"
  submitted_state :: "string option"
  submitted_body :: "string option"

datatype json_value = JsonArray "json_value list" | JsonOther string

record review_json =
  decode_thread_page :: "string \<Rightarrow> string + RawThreadPage"
  decode_comment_page :: "string \<Rightarrow> string + RawThreadCommentPage"
  json_stream :: "string \<Rightarrow> (string + json_value) list"
  conversation_of_json :: "json_value \<Rightarrow> string + RawConversationComment"
  submitted_of_json :: "json_value \<Rightarrow> string + RawSubmittedReview"
  decode_submitted :: "string \<Rightarrow> string + RawSubmittedReview"

definition comment_of_raw :: "RawReviewComment \<Rightarrow> ImportedReviewComment" where
  "comment_of_raw c = \<lparr>imported_comment_id = raw_comment_id c, imported_body = raw_comment_body c,
    imported_author = raw_comment_author c, imported_url = raw_comment_url c,
    imported_created_at = raw_comment_created_at c, imported_updated_at = raw_comment_updated_at c,
    imported_review = map_option (\<lambda>r. \<lparr>imported_review_id = raw_review_id r,
      imported_review_state = raw_review_state r, imported_review_author = raw_review_author r\<rparr>)
      (raw_comment_review c)\<rparr>"

definition thread_of_raw :: "RawReviewThread \<Rightarrow> ImportedReviewThread" where
  "thread_of_raw t = \<lparr>thread_id = raw_thread_id t, thread_resolved = raw_is_resolved t,
    thread_outdated = raw_is_outdated t, thread_path = map_option StoredPath (raw_path t),
    thread_line = raw_line t, thread_original_line = raw_original_line t,
    thread_start_line = raw_start_line t, thread_original_start_line = raw_original_start_line t,
    thread_side = Option.bind (raw_diff_side t) line_side_from_str,
    thread_comments = map comment_of_raw (comment_nodes (raw_comments t))\<rparr>"

definition conversation_of_raw :: "RawConversationComment \<Rightarrow> ImportedConversationComment" where
  "conversation_of_raw c = \<lparr>conversation_id = raw_conversation_id c,
    conversation_body = raw_conversation_body c, conversation_author = raw_conversation_user c,
    conversation_url = raw_conversation_url c, conversation_created_at = raw_conversation_created_at c,
    conversation_updated_at = raw_conversation_updated_at c\<rparr>"

text \<open>\<open>gh api --paginate\<close> writes one array for each page, \<open>--slurp\<close> one array of arrays.\<close>

definition vec_of_json :: "(json_value \<Rightarrow> string + 'a) \<Rightarrow> json_value \<Rightarrow> string + 'a list" where
  "vec_of_json item v = (case v of
      JsonArray vs \<Rightarrow> try_map item vs
    | JsonOther t \<Rightarrow> Inl (''invalid type: expected a sequence''))"

definition is_json_array :: "json_value \<Rightarrow> bool" where
  "is_json_array v = (case v of JsonArray _ \<Rightarrow> True | JsonOther _ \<Rightarrow> False)"

definition nested_array :: "json_value \<Rightarrow> bool" where
  "nested_array v = (case v of JsonArray (first # _) \<Rightarrow> is_json_array first | _ \<Rightarrow> False)"

definition page_items :: "(json_value \<Rightarrow> string + 'a) \<Rightarrow> json_value \<Rightarrow> string + 'a list" where
  "page_items item v =
    (if nested_array v then rbind (vec_of_json (vec_of_json item) v) (\<lambda>pages. Inr (concat pages))
     else vec_of_json item v)"

fun decode_pages :: "(json_value \<Rightarrow> string + 'a) \<Rightarrow> (string + json_value) list \<Rightarrow> string + 'a list" where
  "decode_pages item [] = Inr []"
| "decode_pages item (Inl e # vs) = Inl e"
| "decode_pages item (Inr v # vs) =
    rbind (page_items item v) (\<lambda>xs. rbind (decode_pages item vs) (\<lambda>rest. Inr (xs @ rest)))"

definition decode_paginated_arrays ::
  "review_json \<Rightarrow> (json_value \<Rightarrow> string + 'a) \<Rightarrow> string \<Rightarrow> string + 'a list" where
  "decode_paginated_arrays json item bytes = decode_pages item (json_stream json bytes)"

section \<open>Importing\<close>

definition MAX_IMPORTED_ITEMS :: nat where "MAX_IMPORTED_ITEMS = 10000"

definition REVIEW_THREADS_QUERY :: string where
  "REVIEW_THREADS_QUERY = join_on NL
    [[], ''query LocalReviewThreads($owner: String!, $name: String!, $number: Int!, $after: String) {'',
     ''  repository(owner: $owner, name: $name) {'',
     ''    pullRequest(number: $number) {'',
     ''      reviewThreads(first: 100, after: $after) {'',
     ''        nodes {'',
     ''          id isResolved isOutdated path line originalLine startLine originalStartLine diffSide'',
     ''          comments(first: 100) {'',
     ''            nodes {'',
     ''              id body url createdAt updatedAt author { login }'',
     ''              pullRequestReview { id state author { login } }'',
     ''            }'',
     ''            pageInfo { hasNextPage endCursor }'',
     ''          }'',
     ''        }'',
     ''        pageInfo { hasNextPage endCursor }'',
     ''      }'',
     ''    }'',
     ''  }'',
     ''}'', []]"

definition THREAD_COMMENTS_QUERY :: string where
  "THREAD_COMMENTS_QUERY = join_on NL
    [[], ''query LocalReviewThreadComments($id: ID!, $after: String) {'',
     ''  node(id: $id) {'',
     ''    ... on PullRequestReviewThread {'',
     ''      comments(first: 100, after: $after) {'',
     ''        nodes {'',
     ''          id body url createdAt updatedAt author { login }'',
     ''          pullRequestReview { id state author { login } }'',
     ''        }'',
     ''        pageInfo { hasNextPage endCursor }'',
     ''      }'',
     ''    }'',
     ''  }'',
     ''}'', []]"

type_synonym ('w, 'a) import = "'w \<Rightarrow> (ReviewImportError + 'a) \<times> 'w"

definition import_gh :: "('w, 'a) gh \<Rightarrow> ('w, 'a) import" where
  "import_gh m w = (case m w of (r, w) \<Rightarrow> (map_err ImportGh r, w))"

definition threads_command :: "GitHubPullRequestUrl \<Rightarrow> string option \<Rightarrow> GhCommand" where
  "threads_command u after = GhCommand_new
    ([''api'', ''graphql'', ''-f'', ''query='' @ REVIEW_THREADS_QUERY,
      ''-F'', ''owner='' @ pr_owner u, ''-F'', ''name='' @ pr_repository u,
      ''-F'', ''number='' @ show_nat (pr_number u)] @
     (case after of None \<Rightarrow> [] | Some cursor \<Rightarrow> [''-F'', ''after='' @ cursor]))"

definition comments_command :: "string \<Rightarrow> string \<Rightarrow> GhCommand" where
  "comments_command i after = GhCommand_new
    [''api'', ''graphql'', ''-f'', ''query='' @ THREAD_COMMENTS_QUERY, ''-F'', ''id='' @ i, ''-F'', ''after='' @ after]"

definition fetch_comment_page ::
  "review_json \<Rightarrow> 'w executor \<Rightarrow> string \<Rightarrow> string \<times> ImportedReviewComment list
    \<Rightarrow> ('w, (string \<times> ImportedReviewComment list) + ImportedReviewComment list) import" where
  "fetch_comment_page json gh i = (\<lambda>(after, comments).
    io_bind (import_gh (require_gh gh (comments_command i after))) (\<lambda>out.
    io_return
     (rbind (map_err ThreadDecode (decode_comment_page json (gh_stdout out))) (\<lambda>page.
      rbind (ok_or PullRequestNotFound page) (\<lambda>connection.
      let comments = comments @ map comment_of_raw (comment_nodes connection) in
      vthen (ensure (length comments \<le> MAX_IMPORTED_ITEMS) PaginationLimitExceeded)
      (if \<not> page_has_next (comment_page connection) then Inr (Inr comments)
       else rbind (ok_or MissingPaginationCursor (page_end_cursor (comment_page connection))) (\<lambda>after.
         Inr (Inl (after, comments)))))))))"

definition import_thread_comment_pages ::
  "review_json \<Rightarrow> 'w executor \<Rightarrow> string \<Rightarrow> string \<Rightarrow> ('w, ReviewImportError, ImportedReviewComment list) run" where
  "import_thread_comment_pages json gh i after =
    run_loop (\<lambda>c. run_io (fetch_comment_page json gh i c)) (after, [])"

definition import_thread ::
  "review_json \<Rightarrow> 'w executor \<Rightarrow> RawReviewThread \<Rightarrow> ('w, ReviewImportError, ImportedReviewThread) run" where
  "import_thread json gh raw =
    (let page = comment_page (raw_comments raw); thread = thread_of_raw raw in
     if \<not> page_has_next page then run_return (Inr thread)
     else run_bind (run_return (ok_or MissingPaginationCursor (page_end_cursor page))) (\<lambda>cursor.
       run_bind (import_thread_comment_pages json gh (thread_id thread) cursor) (\<lambda>comments.
       run_return (Inr (thread\<lparr>thread_comments := thread_comments thread @ comments\<rparr>)))))"

definition fetch_thread_page ::
  "review_json \<Rightarrow> 'w executor \<Rightarrow> GitHubPullRequestUrl \<Rightarrow> string option \<Rightarrow> ('w, RawThreadConnection) import" where
  "fetch_thread_page json gh u after =
    io_bind (import_gh (require_gh gh (threads_command u after))) (\<lambda>out.
    io_return
     (rbind (map_err ThreadDecode (decode_thread_page json (gh_stdout out))) (\<lambda>page.
      ok_or PullRequestNotFound (Option.bind page (\<lambda>pull. pull)))))"

definition import_thread_page ::
  "review_json \<Rightarrow> 'w executor \<Rightarrow> GitHubPullRequestUrl \<Rightarrow> string option \<times> ImportedReviewThread list
    \<Rightarrow> ('w, ReviewImportError, (string option \<times> ImportedReviewThread list) + ImportedReviewThread list) run" where
  "import_thread_page json gh u = (\<lambda>(after, threads).
    run_bind (run_io (fetch_thread_page json gh u after)) (\<lambda>connection.
    run_bind (run_map (import_thread json gh) (thread_nodes connection)) (\<lambda>more.
    let threads = threads @ more; page = thread_page connection in
    run_return (vthen (ensure (length threads \<le> MAX_IMPORTED_ITEMS) PaginationLimitExceeded)
      (if \<not> page_has_next page then Inr (Inr threads)
       else vthen (ensure (page_end_cursor page \<noteq> None) MissingPaginationCursor)
         (Inr (Inl (page_end_cursor page, threads))))))))"

definition import_review_threads ::
  "review_json \<Rightarrow> 'w executor \<Rightarrow> GitHubPullRequestUrl \<Rightarrow> ('w, ReviewImportError, ImportedReviewThread list) run" where
  "import_review_threads json gh u = run_loop (import_thread_page json gh u) (None, [])"

definition conversation_command :: "GitHubPullRequestUrl \<Rightarrow> GhCommand" where
  "conversation_command u = GhCommand_new [''api'', ''--hostname'', ''github.com'', ''--paginate'',
    ''repos/'' @ repository_slug u @ ''/issues/'' @ show_nat (pr_number u) @ ''/comments'']"

definition import_conversation ::
  "review_json \<Rightarrow> 'w executor \<Rightarrow> GitHubPullRequestUrl \<Rightarrow> ('w, ImportedConversationComment list) import" where
  "import_conversation json gh u =
    io_bind (import_gh (require_gh gh (conversation_command u))) (\<lambda>out.
    io_return
     (rbind (map_err ConversationDecode (decode_paginated_arrays json (conversation_of_json json) (gh_stdout out))) (\<lambda>raw.
      vthen (ensure (length raw \<le> MAX_IMPORTED_ITEMS) PaginationLimitExceeded)
      (Inr (map conversation_of_raw raw)))))"

definition import_pull_request_state ::
  "review_json \<Rightarrow> 'w executor \<Rightarrow> GitHubPullRequestUrl \<Rightarrow> ('w, ReviewImportError, ImportedPullRequestState) run" where
  "import_pull_request_state json gh u =
    run_bind (import_review_threads json gh u) (\<lambda>threads.
    run_bind (run_io (import_conversation json gh u)) (\<lambda>conversation.
    run_return (Inr \<lparr>imported_threads = threads, imported_conversation = conversation\<rparr>)))"

section \<open>Drafts\<close>

datatype ReviewConclusion = ConclusionComment | ConclusionApprove | ConclusionRequestChanges

record NativeReviewComment =
  native_body :: string
  native_path :: StoredPath
  native_line :: nat
  native_side :: GitHubLineSide
  native_start_line :: "nat option"
  native_start_side :: "GitHubLineSide option"

record NativeReviewDraft =
  draft_head_sha :: GitSha
  draft_attempt_id :: string
  draft_conclusion :: ReviewConclusion
  draft_summary :: "string option"
  draft_comments :: "NativeReviewComment list"

record PreparedNativeReview =
  prepared_attempt_id :: string
  prepared_head_sha :: GitSha
  prepared_fingerprint :: string
  prepared_marker :: string
  prepared_payload :: string

datatype ReviewPublishError =
    PublishGh GhError
  | EmptyReview
  | EmptyCommentBody
  | InvalidCommentPath StoredPath
  | InvalidCommentRange
  | UnrepresentableAnnotation string
  | OutdatedAnnotation string
  | ComparisonMismatch string
  | AnchorOutsidePullRequestDiff string
  | InvalidPublicationAttemptId
  | PublishEncode string
  | ResponseDecode string
  | InvalidReviewFingerprint

fun publish_error_text :: "ReviewPublishError \<Rightarrow> string" where
  "publish_error_text (PublishGh e) = ''GitHub CLI error: '' @ gh_error_text e"
| "publish_error_text EmptyReview = ''review has no summary or inline comments''"
| "publish_error_text EmptyCommentBody = ''inline review comments require non-empty Markdown''"
| "publish_error_text (InvalidCommentPath p) =
    ''GitHub inline comment paths must be safe, relative repository paths: '' @ path_str p"
| "publish_error_text InvalidCommentRange =
    ''GitHub inline comment ranges must be positive and start before the final line''"
| "publish_error_text (UnrepresentableAnnotation i) =
    ''annotation '' @ i @ '' cannot be represented as a GitHub inline comment''"
| "publish_error_text (OutdatedAnnotation i) =
    ''annotation '' @ i @ '' is outdated and must be re-anchored before publication''"
| "publish_error_text (ComparisonMismatch i) =
    ''annotation '' @ i @ '' does not belong to the pinned comparison''"
| "publish_error_text (AnchorOutsidePullRequestDiff i) =
    ''annotation '' @ i @ '' is outside the pinned pull-request diff; keep it local-only or move it into a displayed diff hunk''"
| "publish_error_text InvalidPublicationAttemptId =
    ''publication attempt id must be a durable UUID-like identifier''"
| "publish_error_text (PublishEncode t) = ''could not encode native GitHub review payload: '' @ t"
| "publish_error_text (ResponseDecode t) = ''could not decode native GitHub review response: '' @ t"
| "publish_error_text InvalidReviewFingerprint = ''invalid native review reconciliation fingerprint''"

definition comment_from_annotation ::
  "Annotation \<Rightarrow> ComparisonId \<Rightarrow> ReviewPublishError + NativeReviewComment" where
  "comment_from_annotation a expected =
    (let i = show_annotation_id (annotation_id a) in
     rbind (ok_or (UnrepresentableAnnotation i) (annotation_anchor a)) (\<lambda>anchor.
     vthen (ensure (\<not> anchor_outdated anchor) (OutdatedAnnotation i))
     (vthen (ensure (anchor_comparison_id anchor = expected) (ComparisonMismatch i))
     (rbind (ok_or (UnrepresentableAnnotation i) (map_option from_diff_side (anchor_side anchor))) (\<lambda>side.
      rbind (ok_or (UnrepresentableAnnotation i) (anchor_end_line anchor)) (\<lambda>line.
      let start = Option.bind (anchor_start_line anchor) (\<lambda>n. if n < line then Some n else None) in
      Inr \<lparr>native_body = annotation_body a, native_path = anchor_file_path anchor, native_line = line,
        native_side = side, native_start_line = start,
        native_start_side = map_option (\<lambda>_. side) start\<rparr>))))))"

definition validate_github_path :: "StoredPath \<Rightarrow> ReviewPublishError + unit" where
  "validate_github_path p =
    (let raw = path_str p in
     ensure (\<not> (raw = [] \<or> starts_with raw ''/'' \<or> contains_char raw NUL \<or> contains_char raw BACKSLASH
        \<or> list_ex (\<lambda>c. c = [] \<or> c = ''.'' \<or> c = ''..'') (split_on CHR ''/'' raw)))
       (InvalidCommentPath p))"

definition validate_comment :: "NativeReviewComment \<Rightarrow> ReviewPublishError + unit" where
  "validate_comment c =
    vthen (ensure (trim (native_body c) \<noteq> []) EmptyCommentBody)
    (vthen (validate_github_path (native_path c))
    (vthen (ensure (native_line c \<noteq> 0) InvalidCommentRange)
    (ensure (case (native_start_line c, native_start_side c) of
        (None, None) \<Rightarrow> True
      | (Some start, Some _) \<Rightarrow> 0 < start \<and> start < native_line c
      | _ \<Rightarrow> False) InvalidCommentRange)))"

definition valid_fingerprint :: "string \<Rightarrow> bool" where
  "valid_fingerprint s \<longleftrightarrow> length s = 64 \<and> list_all is_hexdigit s"

definition valid_publication_attempt_id :: "string \<Rightarrow> bool" where
  "valid_publication_attempt_id s \<longleftrightarrow>
    16 \<le> length s \<and> length s \<le> 128 \<and> list_all (\<lambda>c. is_alnum c \<or> c = CHR ''-'' \<or> c = CHR ''_'') s"

definition hex_digest :: "(string \<Rightarrow> string) \<Rightarrow> string \<Rightarrow> string" where
  "hex_digest sha256 bytes = concat (map (\<lambda>c. hex_digits 2 (byte c)) (sha256 bytes))"

end
