(* ===== verification/GitHub_Publish.thy ===== *)
theory GitHub_Publish
  imports GitHub_Review
begin

text \<open>
  \<open>crates/github/src/review.rs\<close>, the publication of a review: the JSON of the intent, whose
  hash is the fingerprint in the hidden marker, the payload with the marker, the one request
  that posts it, and the search for the marker after an answer that was lost.
\<close>

section \<open>What the program prints as JSON\<close>

definition json_escape :: "char \<Rightarrow> string" where
  "json_escape c =
    (if c = QUOTE then [BACKSLASH, QUOTE]
     else if c = BACKSLASH then [BACKSLASH, BACKSLASH]
     else if c = CHR 0x08 then [BACKSLASH, CHR ''b'']
     else if c = CHR 0x0C then [BACKSLASH, CHR ''f'']
     else if c = NL then [BACKSLASH, CHR ''n'']
     else if c = CR then [BACKSLASH, CHR ''r'']
     else if c = TAB then [BACKSLASH, CHR ''t'']
     else if byte c < 32 then [BACKSLASH] @ ''u00'' @ hex_digits 2 (byte c)
     else [c])"

definition json_string :: "string \<Rightarrow> string" where
  "json_string s = [QUOTE] @ concat (map json_escape s) @ [QUOTE]"

definition json_nat :: "nat \<Rightarrow> string" where
  "json_nat n = show_nat n"

definition json_option :: "('a \<Rightarrow> string) \<Rightarrow> 'a option \<Rightarrow> string" where
  "json_option f x = (case x of None \<Rightarrow> ''null'' | Some v \<Rightarrow> f v)"

definition json_list :: "('a \<Rightarrow> string) \<Rightarrow> 'a list \<Rightarrow> string" where
  "json_list f xs = ''['' @ join_on CHR '','' (map f xs) @ '']''"

definition json_object :: "(string \<times> string) list \<Rightarrow> string" where
  "json_object members = ''{'' @ join_on CHR '','' (map (\<lambda>(k, v). json_string k @ '':'' @ v) members) @ ''}''"

fun json_side :: "GitHubLineSide \<Rightarrow> string" where
  "json_side SideLeft = json_string ''LEFT''"
| "json_side SideRight = json_string ''RIGHT''"

fun json_conclusion :: "ReviewConclusion \<Rightarrow> string" where
  "json_conclusion ConclusionComment = json_string ''COMMENT''"
| "json_conclusion ConclusionApprove = json_string ''APPROVE''"
| "json_conclusion ConclusionRequestChanges = json_string ''REQUEST_CHANGES''"

definition intent_comment_json :: "NativeReviewComment \<Rightarrow> string" where
  "intent_comment_json c = json_object
    [(''body_markdown'', json_string (native_body c)),
     (''path'', json_string (path_str (native_path c))),
     (''line'', json_nat (native_line c)),
     (''side'', json_side (native_side c)),
     (''start_line'', json_option json_nat (native_start_line c)),
     (''start_side'', json_option json_side (native_start_side c))]"

definition intent_json :: "NativeReviewDraft \<Rightarrow> string" where
  "intent_json d = json_object
    [(''pinned_head_sha'', json_string (sha_str (draft_head_sha d))),
     (''publication_attempt_id'', json_string (draft_attempt_id d)),
     (''conclusion'', json_conclusion (draft_conclusion d)),
     (''summary_markdown'', json_option json_string (draft_summary d)),
     (''comments'', json_list intent_comment_json (draft_comments d))]"

definition present :: "string \<Rightarrow> ('a \<Rightarrow> string) \<Rightarrow> 'a option \<Rightarrow> (string \<times> string) list" where
  "present k f x = (case x of None \<Rightarrow> [] | Some v \<Rightarrow> [(k, f v)])"

definition payload_comment_json :: "NativeReviewComment \<Rightarrow> string" where
  "payload_comment_json c = json_object
    ([(''body'', json_string (native_body c)),
      (''path'', json_string (path_str (native_path c))),
      (''line'', json_nat (native_line c)),
      (''side'', json_side (native_side c))] @
     present ''start_line'' json_nat (native_start_line c) @
     present ''start_side'' json_side (native_start_side c))"

definition payload_json :: "string \<Rightarrow> NativeReviewDraft \<Rightarrow> string" where
  "payload_json body d = json_object
    [(''body'', json_string body),
     (''event'', json_conclusion (draft_conclusion d)),
     (''commit_id'', json_string (sha_str (draft_head_sha d))),
     (''comments'', json_list payload_comment_json (draft_comments d))]"

section \<open>Preparing\<close>

definition review_marker :: "string \<Rightarrow> string" where
  "review_marker fingerprint = ''<!-- localreview-review:'' @ fingerprint @ '' -->''"

definition review_body :: "string option \<Rightarrow> string \<Rightarrow> string" where
  "review_body summary marker =
    (let s = trim_end (case summary of None \<Rightarrow> [] | Some t \<Rightarrow> t) in
     if s = [] then marker else s @ [NL, NL] @ marker)"

definition prepare_draft ::
  "(string \<Rightarrow> string) \<Rightarrow> NativeReviewDraft \<Rightarrow> ReviewPublishError + PreparedNativeReview" where
  "prepare_draft sha256 d =
    vthen (ensure (\<not> (draft_comments d = []
        \<and> trim (case draft_summary d of None \<Rightarrow> '' '' | Some s \<Rightarrow> s) = [])) EmptyReview)
    (vthen (check_all validate_comment (draft_comments d))
    (vthen (ensure (valid_publication_attempt_id (draft_attempt_id d)) InvalidPublicationAttemptId)
    (let fingerprint = hex_digest sha256 (intent_json d);
         marker = review_marker fingerprint
     in Inr \<lparr>prepared_attempt_id = draft_attempt_id d, prepared_head_sha = draft_head_sha d,
          prepared_fingerprint = fingerprint, prepared_marker = marker,
          prepared_payload = payload_json (review_body (draft_summary d) marker) d\<rparr>)))"

section \<open>Posting and reconciling\<close>

record RemoteReview =
  remote_id :: nat
  remote_html_url :: "string option"
  remote_state :: "string option"
  remote_fingerprint :: string

type_synonym ('w, 'a) publish = "'w \<Rightarrow> (ReviewPublishError + 'a) \<times> 'w"

definition publish_gh :: "('w, 'a) gh \<Rightarrow> ('w, 'a) publish" where
  "publish_gh m w = (case m w of (r, w) \<Rightarrow> (map_err PublishGh r, w))"

definition reviews_endpoint :: "GitHubPullRequestUrl \<Rightarrow> string" where
  "reviews_endpoint u = ''repos/'' @ repository_slug u @ ''/pulls/'' @ show_nat (pr_number u) @ ''/reviews''"

definition submit_command :: "GitHubPullRequestUrl \<Rightarrow> string \<Rightarrow> GhCommand" where
  "submit_command u payload = with_stdin (GhCommand_new
    [''api'', ''--hostname'', ''github.com'', ''--method'', ''POST'', reviews_endpoint u, ''--input'', ''-'']) payload"

definition remote_review :: "RawSubmittedReview \<Rightarrow> string \<Rightarrow> RemoteReview" where
  "remote_review r fingerprint = \<lparr>remote_id = submitted_id r, remote_html_url = submitted_html_url r,
    remote_state = submitted_state r, remote_fingerprint = fingerprint\<rparr>"

definition submit_native_review ::
  "review_json \<Rightarrow> 'w executor \<Rightarrow> GitHubPullRequestUrl \<Rightarrow> PreparedNativeReview \<Rightarrow> ('w, RemoteReview) publish" where
  "submit_native_review json gh u prepared =
    io_bind (publish_gh (require_gh gh (submit_command u (prepared_payload prepared)))) (\<lambda>out.
    io_return
     (rbind (map_err ResponseDecode (decode_submitted json (gh_stdout out))) (\<lambda>r.
      Inr (remote_review r (prepared_fingerprint prepared)))))"

definition reviews_command :: "GitHubPullRequestUrl \<Rightarrow> GhCommand" where
  "reviews_command u =
    GhCommand_new [''api'', ''--hostname'', ''github.com'', ''--paginate'', reviews_endpoint u]"

definition has_marker :: "string \<Rightarrow> RawSubmittedReview \<Rightarrow> bool" where
  "has_marker marker r =
    (case submitted_body r of None \<Rightarrow> False | Some body \<Rightarrow> contains_str body marker)"

definition reconcile_native_review ::
  "review_json \<Rightarrow> 'w executor \<Rightarrow> GitHubPullRequestUrl \<Rightarrow> string \<Rightarrow> ('w, RemoteReview option) publish" where
  "reconcile_native_review json gh u fingerprint =
    (if \<not> valid_fingerprint fingerprint then io_return (Inl InvalidReviewFingerprint)
     else io_bind (publish_gh (require_gh gh (reviews_command u))) (\<lambda>out.
       io_return
        (rbind (map_err ResponseDecode (decode_paginated_arrays json (submitted_of_json json) (gh_stdout out))) (\<lambda>reviews.
         Inr (map_option (\<lambda>r. remote_review r fingerprint)
           (find (has_marker (review_marker fingerprint)) reviews))))))"

definition http_status :: "string \<Rightarrow> string \<Rightarrow> nat option" where
  "http_status word number =
    (if \<not> eq_ignore_ascii_case word ''http'' then None
     else Option.bind (parse_unsigned 65535 number) (\<lambda>code.
       if 400 \<le> code \<and> code < 500 \<and> code \<noteq> 408 then Some code else None))"

fun first_status :: "string list \<Rightarrow> nat option" where
  "first_status (a # b # words) =
    (case http_status a b of Some code \<Rightarrow> Some code | None \<Rightarrow> first_status (b # words))"
| "first_status words = None"

text \<open>\<open>str::split\<close> at every character that is not alphanumeric; the continuation bytes of a
  character outside ASCII belong to the separator its first byte is.\<close>

fun chars_split :: "string \<Rightarrow> string \<Rightarrow> string list" where
  "chars_split acc [] = [rev acc]"
| "chars_split acc (c # s) =
    (if is_alnum c then chars_split (c # acc) s
     else if 128 \<le> byte c \<and> byte c < 192 then chars_split acc s
     else rev acc # chars_split [] s)"

definition definitive_http_client_status :: "string \<Rightarrow> nat option" where
  "definitive_http_client_status diagnostic = first_status (chars_split [] diagnostic)"

definition is_definitive_provider_rejection :: "ReviewPublishError \<Rightarrow> bool" where
  "is_definitive_provider_rejection e =
    (case e of
       PublishGh (GhCommandFailed _ stderr) \<Rightarrow> definitive_http_client_status stderr \<noteq> None
     | _ \<Rightarrow> False)"

end
