(* ===== verification/Service_Documents.thy ===== *)
theory Service_Documents
  imports Service_Review Service_Prompt Service_Config Diff_Patch Store_Ops GitHub_Publish
begin

text \<open>
  \<open>crates/service/src/lib.rs\<close>, the world of \<open>ReviewService\<close> and the documents of a capture
  (\<open>build_captured_documents\<close>).

  \<open>World\<close> puts the world of Git and the file system, the durable store and the supply of
  fresh identifiers together; \<open>ServiceEnv\<close> holds what the service calls that is not under
  \<open>src/\<close>: Git and the file system, the hashes, the line diff, the JSON of a document, the
  random identifiers (the \<open>n\<close>-th one is \<open>service_uuid n\<close>) and the kind of an I/O error.
\<close>

section \<open>The service\<close>

type_synonym PersistedReviewDocument = ReviewDiffDocument

datatype ServiceError =
    WorkspacePathFailure string file_failure
  | GitFailure GitError
  | PersistenceFailure PersistenceError
  | WorkspaceConfigFailure WorkspaceConfigError
  | DiffFailure DiffError
  | GitHubAuthentication string
  | GitHubPullRequest PullRequestError
  | GitHubImport ReviewImportError
  | GitHubPublish ReviewPublishError
  | RepositoryPoolFailure RepositoryPoolError
  | NotGitHubPullRequest WorkspaceId
  | ManagedWorktreeDirty string
  | GitHubPublicationLockUnavailable
  | GitHubPublicationAmbiguous string string
  | GitHubPublicationReconciliationPending string
  | GitHubPublicationAnnotationSetMissing string
  | GitHubReviewPreviewNotFound WorkspaceId string
  | GitHubReviewAnnotationsUnavailable "AnnotationId list"
  | GitHubReviewPreviewNotReady string string
  | GitHubReviewPreviewStale string string
  | GitHubReviewPreviewSerialization string
  | GitHubHeadChanged GitSha GitSha
  | GitHubBaseChanged GitSha GitSha
  | WorkspaceNotFound WorkspaceId
  | RepositoryNotFound RepositoryId
  | ReviewSessionNotFound ReviewSessionId
  | ReviewSessionNotActive ReviewSessionId
  | NoActiveSet ReviewSessionId
  | ComparisonNotInReviewSession ReviewSessionId ComparisonId
  | CapturedRevisionUnavailable ComparisonId DiffSide
  | InvalidReviewHistoryLimit nat
  | ReviewHistoryTooLarge nat
  | NoRepositoryCaptureSucceeded WorkspaceId
  | ServicePanic

record 'w ServiceEnv =
  service_git :: "'w git_env"
  service_fs :: "'w fs_env"
  service_config :: "'w config_env"
  service_uuid :: "nat \<Rightarrow> uuid"
  service_sha256 :: "string \<Rightarrow> string"
  service_grouped :: "string \<Rightarrow> string \<Rightarrow> LineChange list list"
  service_encode :: "PersistedReviewDocument \<Rightarrow> string"
  service_decode :: "string \<Rightarrow> PersistedReviewDocument option"
  service_io_kind :: "string \<Rightarrow> io_error_kind"
  service_error_text :: "ServiceError \<Rightarrow> string"
  service_global_config :: "string option"

record 'w World =
  world_git :: 'w
  world_store :: Store
  world_ids :: nat

type_synonym ('w, 'a) service = "'w World \<Rightarrow> (ServiceError + 'a) \<times> 'w World"

definition on_git :: "('w, 'a) git \<Rightarrow> ('w, 'a) service" where
  "on_git m s = (case m (world_git s) of (r, g) \<Rightarrow> (map_err GitFailure r, s\<lparr>world_git := g\<rparr>))"

definition on_store :: "'a store_op \<Rightarrow> ('w, 'a) service" where
  "on_store m s = (case m (world_store s) of (r, t) \<Rightarrow> (map_err PersistenceFailure r, s\<lparr>world_store := t\<rparr>))"

definition read_store :: "(Store \<Rightarrow> PersistenceError + 'a) \<Rightarrow> ('w, 'a) service" where
  "read_store f s = (map_err PersistenceFailure (f (world_store s)), s)"

definition fresh_uuid :: "'w ServiceEnv \<Rightarrow> ('w, uuid) service" where
  "fresh_uuid env s = (Inr (service_uuid env (world_ids s)), s\<lparr>world_ids := world_ids s + 1\<rparr>)"

definition utc_now :: "'w ServiceEnv \<Rightarrow> ('w, timestamp) service" where
  "utc_now env s = (case env_now (service_git env) (world_git s) of (t, g) \<Rightarrow> (Inr t, s\<lparr>world_git := g\<rparr>))"

definition blake3_of :: "'w ServiceEnv \<Rightarrow> string \<Rightarrow> string" where
  "blake3_of env = env_blake3 (service_git env)"

definition open_git :: "'w ServiceEnv \<Rightarrow> string \<Rightarrow> 'w GitRepository" where
  "open_git env root = \<lparr>repo_root = root, repo_env = service_git env\<rparr>"

definition require :: "ServiceError \<Rightarrow> 'a option \<Rightarrow> ('w, 'a) service" where
  "require e x = io_return (ok_or e x)"

section \<open>The documents of a capture\<close>

text \<open>Which file identity each path of the previous generation has; a later document, or the
  old path of one, replaces an earlier entry.\<close>

definition identity_entries :: "PersistedReviewDocument \<Rightarrow> (string \<times> ReviewFileId) list" where
  "identity_entries d =
    (path_str (file_path (doc_file d)), file_id (doc_file d)) #
    (case file_old_path (doc_file d) of None \<Rightarrow> [] | Some p \<Rightarrow> [(path_str p, file_id (doc_file d))])"

definition previous_identities :: "PersistedReviewDocument list \<Rightarrow> string \<Rightarrow> ReviewFileId option" where
  "previous_identities documents = collect_map (concat (map identity_entries documents))"

definition previous_file_ids ::
  "'w ServiceEnv \<Rightarrow> ReviewSessionId \<Rightarrow> RepositoryId \<Rightarrow> ('w, string \<Rightarrow> ReviewFileId option) service" where
  "previous_file_ids env session repository =
    io_bind (on_store (current_comparisons_for_session session)) (\<lambda>comparisons.
    case find (\<lambda>c. comparison_repository_id c = repository) comparisons of
      None \<Rightarrow> io_return (Inr (\<lambda>_. None))
    | Some c \<Rightarrow>
        io_bind (read_store (review_file_payloads_for_comparisons (service_decode env) [comparison_id c]))
          (\<lambda>documents. io_return (Inr (previous_identities documents))))"

definition inherited_id ::
  "(string \<Rightarrow> ReviewFileId option) \<Rightarrow> StoredPath \<Rightarrow> StoredPath option \<Rightarrow> ReviewFileId option" where
  "inherited_id ids path old_path =
    (case ids (path_str path) of
       Some i \<Rightarrow> Some i
     | None \<Rightarrow> Option.bind old_path (\<lambda>p. ids (path_str p)))"

definition with_identity :: "ReviewFileId option \<Rightarrow> ReviewDiffDocument \<Rightarrow> ReviewDiffDocument" where
  "with_identity i d = (case i of None \<Rightarrow> d | Some i \<Rightarrow> d\<lparr>doc_file := (doc_file d)\<lparr>file_id := i\<rparr>\<rparr>)"

type_synonym parsed_map = "string \<Rightarrow> ReviewDiffDocument option"

definition tracked_document ::
  "'w ServiceEnv \<Rightarrow> ComparisonId \<Rightarrow> CapturedTrackedFile \<Rightarrow> ReviewFile \<Rightarrow> string \<Rightarrow> parsed_map
    \<Rightarrow> ReviewDiffDocument \<times> parsed_map" where
  "tracked_document env comparison tracked file old parsed =
    (let new = (case tracked_content tracked of None \<Rightarrow> [] | Some b \<Rightarrow> b);
         path = path_str (tracked_path tracked);
         source = SourceDocument_new (blake3_of env) in
     if tracked_binary tracked \<or> tracked_kind tracked = CapturedTrackedFileKind.FileSubmodule
     then (document_from_sources (blake3_of env) (service_grouped env) comparison file [] [], parsed)
     else (case parsed path of
         Some d \<Rightarrow> (d\<lparr>doc_comparison := comparison, doc_file := file, doc_old := source (utf8_lossy old),
             doc_new := source (utf8_lossy new)\<rparr>, parsed(path := None))
       | None \<Rightarrow> (document_from_sources (blake3_of env) (service_grouped env) comparison file
             (utf8_lossy old) (utf8_lossy new), parsed)))"

definition old_blob :: "'w GitRepository \<Rightarrow> GitSha \<Rightarrow> CapturedTrackedFile \<Rightarrow> ('w, string) git" where
  "old_blob git merge_base tracked =
    (if tracked_kind tracked = CapturedTrackedFileKind.FileSubmodule then io_return (Inr [])
     else io_bind (read_blob_at git merge_base
         (case tracked_old_path tracked of None \<Rightarrow> tracked_path tracked | Some p \<Rightarrow> p)) (\<lambda>blob.
       io_return (Inr (case blob of None \<Rightarrow> [] | Some b \<Rightarrow> b))))"

fun tracked_documents ::
  "'w ServiceEnv \<Rightarrow> 'w GitRepository \<Rightarrow> RepositoryComparison \<Rightarrow> (string \<Rightarrow> ReviewFileId option)
    \<Rightarrow> CapturedTrackedFile list \<Rightarrow> parsed_map \<Rightarrow> ('w, ReviewDiffDocument list) service" where
  "tracked_documents env git c ids [] parsed = io_return (Inr [])"
| "tracked_documents env git c ids (t # ts) parsed =
    io_bind (fresh_uuid env) (\<lambda>u.
    io_bind (on_git (old_blob git (comparison_merge_base_sha c) t)) (\<lambda>old.
    let file = \<lparr>file_id = ReviewFileId u, file_path = tracked_path t, file_old_path = tracked_old_path t,
          file_status = review_file_status t\<rparr>;
        (d, parsed) = tracked_document env (comparison_id c) t file old parsed
    in io_bind (tracked_documents env git c ids ts parsed) (\<lambda>ds.
       io_return (Inr (with_identity (inherited_id ids (tracked_path t) (tracked_old_path t)) d # ds)))))"

definition untracked_status :: "CapturedUntrackedFile \<Rightarrow> ReviewFileStatus" where
  "untracked_status f =
    (if untracked_binary (captured_metadata f) then FileBinary
     else if is_lfs_pointer (captured_content f) then FileLfsPointer else ReviewFileStatus.FileAdded)"

definition untracked_document ::
  "'w ServiceEnv \<Rightarrow> ComparisonId \<Rightarrow> (string \<Rightarrow> ReviewFileId option) \<Rightarrow> CapturedUntrackedFile
    \<Rightarrow> ('w, ReviewDiffDocument) service" where
  "untracked_document env comparison ids f =
    io_bind (fresh_uuid env) (\<lambda>u.
    let path = untracked_path (captured_metadata f) in
    io_return (Inr (with_identity (ids (path_str path))
      (document_from_sources (blake3_of env) (service_grouped env) comparison
        \<lparr>file_id = ReviewFileId u, file_path = path, file_old_path = None, file_status = untracked_status f\<rparr> []
        (if untracked_binary (captured_metadata f) then [] else utf8_lossy (captured_content f))))))"

definition parse_patch ::
  "'w ServiceEnv \<Rightarrow> string \<Rightarrow> ComparisonId \<Rightarrow> ('w, ReviewDiffDocument list) service" where
  "parse_patch env patch comparison s =
    (let r = parse_unified_patch (blake3_of env)
           (\<lambda>n. ReviewFileId (service_uuid env (world_ids s + n))) patch comparison in
     (map_err DiffFailure r,
      s\<lparr>world_ids := world_ids s + (case r of Inl _ \<Rightarrow> 0 | Inr ds \<Rightarrow> length ds)\<rparr>))"

definition build_captured_documents_for_repository ::
  "'w ServiceEnv \<Rightarrow> ReviewSessionId \<Rightarrow> CapturedLocalComparison \<Rightarrow> Repository
    \<Rightarrow> ('w, PersistedReviewDocument list) service" where
  "build_captured_documents_for_repository env session capture repository =
    (let c = captured_comparison capture in
     io_bind (parse_patch env (utf8_lossy (captured_working_tree_patch capture)) (comparison_id c)) (\<lambda>parsed.
     io_bind (previous_file_ids env session (comparison_repository_id c)) (\<lambda>ids.
     io_bind (tracked_documents env (open_git env (path_str (repository_worktree_path repository))) c ids
         (captured_tracked_files capture)
         (collect_map (map (\<lambda>d. (path_str (file_path (doc_file d)), d)) parsed))) (\<lambda>tracked.
     io_bind (io_map (untracked_document env (comparison_id c) ids) (captured_untracked_files capture)) (\<lambda>untracked.
     io_return (Inr (tracked @ untracked)))))))"

definition build_captured_documents ::
  "'w ServiceEnv \<Rightarrow> ReviewSessionId \<Rightarrow> CapturedLocalComparison \<Rightarrow> ('w, PersistedReviewDocument list) service" where
  "build_captured_documents env session capture =
    io_bind (on_store (repositories_for_id (comparison_repository_id (captured_comparison capture)))) (\<lambda>found.
    io_bind (require (RepositoryNotFound (comparison_repository_id (captured_comparison capture))) found) (\<lambda>repository.
    build_captured_documents_for_repository env session capture repository))"

definition review_generation_rows ::
  "PersistedReviewDocument list \<Rightarrow> (string \<times> string \<times> PersistedReviewDocument) list" where
  "review_generation_rows documents =
    map (\<lambda>d. (show_file_id (file_id (doc_file d)), path_str (file_path (doc_file d)), d)) documents"

end
