(* ===== verification/Service_Session.thy ===== *)
theory Service_Session
  imports Service_Documents
begin

text \<open>
  \<open>crates/service/src/lib.rs\<close>, the operations of \<open>ReviewService\<close> on local reviews: opening a
  workspace, starting and refreshing a review, the reads of a saved review and the export of a
  prompt.  One repository that fails becomes a failure of its own (\<open>attempt\<close>); a panic ends the
  operation.
\<close>

section \<open>Requests and results\<close>

record OpenLocalWorkspaceRequest =
  open_root_path :: string
  open_display_name :: "string option"
  open_default_base :: "BaseReference option"
  open_discovery :: DiscoveryConfig

record OpenLocalWorkspaceResult =
  opened_workspace :: Workspace
  opened_repositories :: "Repository list"
  reused_existing_workspace :: bool

record StartReviewRequest =
  start_workspace :: WorkspaceId
  start_application_default :: BaseReference
  start_temporary_overrides :: "RepositoryId \<Rightarrow> BaseReference option"
  start_options :: ComparisonOptions

record RepositoryReviewFailure =
  failure_repository :: RepositoryId
  failure_relative_path :: StoredPath
  failure_kind :: RepositoryReviewFailureKind
  failure_error :: string

record StartReviewResult =
  result_session :: ReviewSession
  result_set :: AnnotationSet
  result_captures :: "CapturedLocalComparison list"
  result_failures :: "RepositoryReviewFailure list"

record PreparedCapturedReview =
  prepared_capture :: CapturedLocalComparison
  prepared_generation :: PreparedReviewGeneration
  prepared_updates :: "Annotation list"

section \<open>Opening a workspace\<close>

definition file_config :: "(WorkspaceConfigError + WorkspaceFileConfig option) \<Rightarrow> ServiceError + WorkspaceFileConfig" where
  "file_config r = (case r of
      Inl e \<Rightarrow> Inl (WorkspaceConfigFailure e)
    | Inr None \<Rightarrow> Inr default_file_config
    | Inr (Some c) \<Rightarrow> Inr c)"

definition on_world :: "('w \<Rightarrow> (ServiceError + 'a) \<times> 'w) \<Rightarrow> ('w, 'a) service" where
  "on_world m s = (case m (world_git s) of (r, g) \<Rightarrow> (r, s\<lparr>world_git := g\<rparr>))"

definition global_file_config :: "'w ServiceEnv \<Rightarrow> ('w, WorkspaceFileConfig) service" where
  "global_file_config env =
    (case service_global_config env of
       None \<Rightarrow> io_return (Inr default_file_config)
     | Some path \<Rightarrow> on_world (\<lambda>w. case load_path (service_config env) path w of (r, w) \<Rightarrow> (file_config r, w)))"

definition workspace_file_config :: "'w ServiceEnv \<Rightarrow> string \<Rightarrow> ('w, WorkspaceFileConfig) service" where
  "workspace_file_config env root =
    on_world (\<lambda>w. case load_config (service_config env) root w of (r, w) \<Rightarrow> (file_config r, w))"

definition canonical_root :: "'w ServiceEnv \<Rightarrow> string \<Rightarrow> ('w, string) service" where
  "canonical_root env path = on_world (\<lambda>w. case fs_canonicalize (service_fs env) path w of
    (r, w) \<Rightarrow> (map_err (WorkspacePathFailure path) r, w))"

definition is_local_root :: "StoredPath \<Rightarrow> Workspace \<Rightarrow> bool" where
  "is_local_root root w = (case workspace_source w of LocalDirectory r \<Rightarrow> r = root | _ \<Rightarrow> False)"

definition reopened :: "BaseReference option \<Rightarrow> timestamp \<Rightarrow> Workspace \<Rightarrow> Workspace" where
  "reopened base now w =
    (let base' = (case base of None \<Rightarrow> workspace_default_base w | Some b \<Rightarrow> b);
         changed = (workspace_archived_at w \<noteq> None \<or> base' \<noteq> workspace_default_base w)
     in w\<lparr>workspace_archived_at := None, workspace_default_base := base',
          workspace_updated_at := (if changed then now else workspace_updated_at w)\<rparr>)"

definition directory_name :: "string \<Rightarrow> string" where
  "directory_name root =
    (case path_components root of
       [] \<Rightarrow> ''Workspace''
     | cs \<Rightarrow> (case last cs of Normal n \<Rightarrow> (if is_utf8 n then n else ''Workspace'') | _ \<Rightarrow> ''Workspace''))"

definition created_workspace ::
  "OpenLocalWorkspaceRequest \<Rightarrow> WorkspaceFileConfig \<Rightarrow> string \<Rightarrow> timestamp \<Rightarrow> uuid \<Rightarrow> Workspace" where
  "created_workspace request config root now u =
    \<lparr>workspace_id = WorkspaceId u,
     workspace_display_name = (case open_display_name request of None \<Rightarrow> directory_name root | Some n \<Rightarrow> n),
     workspace_source = LocalDirectory (StoredPath_new root),
     workspace_default_base = (case or_else (open_default_base request) (config_default_base config) of
        None \<Rightarrow> BaseReference DEFAULT_BASE | Some b \<Rightarrow> b),
     workspace_pinned = False, workspace_archived_at = None, workspace_created_at = now,
     workspace_updated_at = now\<rparr>"

definition repository_path :: "DiscoveredRepository \<Rightarrow> StoredPath" where
  "repository_path d =
    (if discovered_relative_path d = [] then StoredPath ''.'' else StoredPath_new (discovered_relative_path d))"

definition opened_repository ::
  "WorkspaceFileConfig \<Rightarrow> WorkspaceId \<Rightarrow> Repository list \<Rightarrow> uuid \<Rightarrow> DiscoveredRepository \<Rightarrow> Repository" where
  "opened_repository config w existing u d =
    (let path = repository_path d;
         known = find (\<lambda>r. repository_relative_path r = path) existing;
         configured = config_repositories config path;
         identity = discovered_identity d
     in \<lparr>repository_id = (case known of None \<Rightarrow> RepositoryId u | Some r \<Rightarrow> repository_id r),
         repository_workspace_id = w, repository_relative_path = path,
         repository_worktree_path = StoredPath_new (identity_worktree identity),
         repository_git_common_dir = map_option StoredPath_new (identity_common_dir identity),
         repository_primary_remote = identity_primary_remote identity,
         repository_enabled = (case known of
            Some r \<Rightarrow> repository_enabled r
          | None \<Rightarrow> (case Option.bind configured config_enabled of None \<Rightarrow> True | Some b \<Rightarrow> b)),
         repository_base_override = (case known of
            Some r \<Rightarrow> repository_base_override r | None \<Rightarrow> Option.bind configured config_base),
         repository_current_branch = identity_head identity,
         repository_last_base_sha = Option.bind known repository_last_base_sha,
         repository_last_fetch_at = Option.bind known repository_last_fetch_at,
         repository_last_fetch_error = Option.bind known repository_last_fetch_error,
         repository_discovery_error = None,
         repository_comparison_error = Option.bind known repository_comparison_error\<rparr>)"

definition open_local_workspace ::
  "'w ServiceEnv \<Rightarrow> OpenLocalWorkspaceRequest \<Rightarrow> ('w, OpenLocalWorkspaceResult) service" where
  "open_local_workspace env request =
    io_bind (canonical_root env (open_root_path request)) (\<lambda>root.
    io_bind (global_file_config env) (\<lambda>global.
    io_bind (workspace_file_config env root) (\<lambda>local.
    let config = overlay global local in
    io_bind (on_git (discover_repositories (service_git env) (service_fs env) root
        (apply_discovery config (open_discovery request)))) (\<lambda>discovered.
    io_bind (on_store workspaces) (\<lambda>known.
    io_bind (utc_now env) (\<lambda>now.
    io_bind (fresh_uuid env) (\<lambda>u.
    let existing = find (is_local_root (StoredPath_new root)) known;
        w = (case existing of None \<Rightarrow> created_workspace request config root now u
             | Some w \<Rightarrow> reopened (open_default_base request) now w) in
    io_bind (on_store (repositories (workspace_id w))) (\<lambda>existing_repositories.
    io_bind (io_map (\<lambda>d. io_bind (fresh_uuid env) (\<lambda>u.
        io_return (Inr (opened_repository config (workspace_id w) existing_repositories u d)))) discovered) (\<lambda>rs.
    let rs = sort_key repository_relative_path rs in
    io_bind (on_store (upsert_workspace_discovery w rs)) (\<lambda>_.
    io_return (Inr \<lparr>opened_workspace = w, opened_repositories = rs,
      reused_existing_workspace = (existing \<noteq> None)\<rparr>)))))))))))"

section \<open>Capturing the repositories of a review\<close>

definition attempt :: "('w, 'a) service \<Rightarrow> ('w, ServiceError + 'a) service" where
  "attempt m s = (case m s of
      (Inl ServicePanic, s) \<Rightarrow> (Inl ServicePanic, s)
    | (r, s) \<Rightarrow> (Inr r, s))"

definition repository_failure ::
  "'w ServiceEnv \<Rightarrow> Repository \<Rightarrow> BaseReference \<Rightarrow> ServiceError \<Rightarrow> RepositoryReviewFailure" where
  "repository_failure env repository requested e =
    \<lparr>failure_repository = repository_id repository, failure_relative_path = repository_relative_path repository,
     failure_kind = (case e of GitFailure g \<Rightarrow> from_git_error (service_io_kind env) g requested | _ \<Rightarrow> OtherFailure),
     failure_error = service_error_text env e\<rparr>"

definition review_baseline ::
  "Workspace \<Rightarrow> BaseReference \<Rightarrow> (RepositoryId \<Rightarrow> BaseReference option) \<Rightarrow> Repository \<Rightarrow> BaseReference" where
  "review_baseline w application overrides r = baseline_reference (effective_baseline
    \<lparr>application_default = application, workspace_default = Some (workspace_default_base w),
     repository_override = repository_base_override r, temporary_override = overrides (repository_id r)\<rparr>)"

definition panic_result :: "panic + 'a \<Rightarrow> ServiceError + 'a" where
  "panic_result r = map_err (\<lambda>_. ServicePanic) r"

definition prepare_reanchored_annotations ::
  "'w ServiceEnv \<Rightarrow> ReviewSessionId \<Rightarrow> RepositoryId \<Rightarrow> ComparisonId \<Rightarrow> RepositoryComparison
    \<Rightarrow> PersistedReviewDocument list \<Rightarrow> ('w, Annotation list) service" where
  "prepare_reanchored_annotations env session repository previous replacement documents =
    io_bind (on_store (active_annotation_set session)) (\<lambda>active.
    case active of
      None \<Rightarrow> io_return (Inr [])
    | Some a \<Rightarrow>
        io_bind (on_store (annotations (set_id a))) (\<lambda>as.
        io_bind (utc_now env) (\<lambda>now.
        io_return (panic_result (reanchored_annotations (blake3_of env) repository previous
          (comparison_id replacement) documents now as)))))"

definition capture_repository ::
  "'w ServiceEnv \<Rightarrow> ReviewSessionId \<Rightarrow> Repository \<Rightarrow> BaseReference \<Rightarrow> ComparisonOptions
    \<Rightarrow> RepositoryComparison option \<Rightarrow> ('w, PreparedCapturedReview) service" where
  "capture_repository env session repository base opts previous =
    (let git = open_git env (path_str (repository_worktree_path repository)) in
     io_bind (fresh_uuid env) (\<lambda>u.
     io_bind (on_git (resolve_comparison git (repository_id repository) (ComparisonId u) base opts)) (\<lambda>resolved.
     io_bind (on_git (capture_local_comparison git resolved)) (\<lambda>capture.
     io_bind (build_captured_documents env session capture) (\<lambda>documents.
     io_bind (case previous of
         None \<Rightarrow> io_return (Inr [])
       | Some p \<Rightarrow> prepare_reanchored_annotations env session (repository_id repository) (comparison_id p)
           (captured_comparison capture) documents) (\<lambda>updates.
     io_bind (on_store (prepare_review_generation (service_sha256 env) (service_encode env)
         (captured_comparison capture) (review_generation_rows documents))) (\<lambda>generation.
     io_return (Inr \<lparr>prepared_capture = capture, prepared_generation = generation,
       prepared_updates = updates\<rparr>))))))))"

fun capture_repositories ::
  "'w ServiceEnv \<Rightarrow> ReviewSessionId \<Rightarrow> (Repository \<Rightarrow> BaseReference) \<Rightarrow> ComparisonOptions \<Rightarrow> bool
    \<Rightarrow> Repository list \<Rightarrow> ('w, PreparedCapturedReview list \<times> RepositoryReviewFailure list) service" where
  "capture_repositories env session base opts refresh [] = io_return (Inr ([], []))"
| "capture_repositories env session base opts refresh (r # rs) =
    io_bind (if refresh
        then io_bind (on_store (current_comparisons_for_session session)) (\<lambda>cs.
          io_return (Inr (find (\<lambda>c. comparison_repository_id c = repository_id r) cs)))
        else io_return (Inr None)) (\<lambda>previous.
    io_bind (attempt (capture_repository env session r (base r) opts previous)) (\<lambda>operation.
    io_bind (capture_repositories env session base opts refresh rs) (\<lambda>(prepared, failures).
    io_return (Inr (case operation of
        Inr p \<Rightarrow> (p # prepared, failures)
      | Inl e \<Rightarrow> (prepared, repository_failure env r (base r) e # failures))))))"

section \<open>Starting and refreshing\<close>

definition new_session :: "WorkspaceId \<Rightarrow> timestamp \<Rightarrow> uuid \<Rightarrow> ReviewSession" where
  "new_session w now u =
    \<lparr>session_id = ReviewSessionId u, session_workspace_id = w, session_status = SessionActive,
     session_started_at = now, session_refreshed_at = None, session_archived_at = None,
     session_completed_at = None\<rparr>"

definition first_set :: "ReviewSessionId \<Rightarrow> timestamp \<Rightarrow> uuid \<Rightarrow> AnnotationSet" where
  "first_set session now u =
    \<lparr>set_id = AnnotationSetId u, set_review_session = session, set_sequence = 1, set_active = True,
     set_archived_at = None, set_created_at = now\<rparr>"

definition start_local_review :: "'w ServiceEnv \<Rightarrow> StartReviewRequest \<Rightarrow> ('w, StartReviewResult) service" where
  "start_local_review env request =
    io_bind (on_store (workspace (start_workspace request))) (\<lambda>found.
    io_bind (require (WorkspaceNotFound (start_workspace request)) found) (\<lambda>w.
    io_bind (utc_now env) (\<lambda>now.
    io_bind (fresh_uuid env) (\<lambda>u.
    io_bind (fresh_uuid env) (\<lambda>v.
    let session = new_session (workspace_id w) now u; active = first_set (session_id session) now v in
    io_bind (on_store (repositories (workspace_id w))) (\<lambda>all.
    let enabled = filter repository_enabled all in
    io_bind (capture_repositories env (session_id session)
        (review_baseline w (start_application_default request) (start_temporary_overrides request))
        (start_options request) False enabled) (\<lambda>(prepared, failures).
    if enabled \<noteq> [] \<and> prepared = [] then io_return (Inl (NoRepositoryCaptureSucceeded (workspace_id w)))
    else io_bind (on_store (replace_active_review (workspace_id w) session active
           (map prepared_generation prepared) now)) (\<lambda>_.
      io_return (Inr \<lparr>result_session = session, result_set = active,
        result_captures = map prepared_capture prepared, result_failures = failures\<rparr>)))))))))"

definition refresh_local_review ::
  "'w ServiceEnv \<Rightarrow> ReviewSessionId \<Rightarrow> BaseReference \<Rightarrow> (RepositoryId \<Rightarrow> BaseReference option)
    \<Rightarrow> ComparisonOptions \<Rightarrow> ('w, StartReviewResult) service" where
  "refresh_local_review env i application overrides opts =
    io_bind (on_store (review_sessions_for_id i)) (\<lambda>found.
    io_bind (require (ReviewSessionNotFound i) found) (\<lambda>session.
    if session_status session \<noteq> SessionActive then io_return (Inl (ReviewSessionNotActive i))
    else
      io_bind (on_store (workspace (session_workspace_id session))) (\<lambda>found.
      io_bind (require (WorkspaceNotFound (session_workspace_id session)) found) (\<lambda>w.
      io_bind (on_store (active_annotation_set (session_id session))) (\<lambda>found.
      io_bind (require (NoActiveSet (session_id session)) found) (\<lambda>active.
      io_bind (utc_now env) (\<lambda>now.
      let refreshed = session\<lparr>session_refreshed_at := Some now\<rparr> in
      io_bind (on_store (repositories (workspace_id w))) (\<lambda>all.
      io_bind (capture_repositories env (session_id session) (review_baseline w application overrides) opts True
          (filter repository_enabled all)) (\<lambda>(prepared, failures).
      io_bind (if prepared = [] then io_return (Inr session)
        else io_bind (on_store (save_prepared_review_refresh_with_annotations refreshed
            (map prepared_generation prepared) (concat (map prepared_updates prepared)))) (\<lambda>_.
          io_return (Inr refreshed))) (\<lambda>result.
      io_return (Inr \<lparr>result_session = result, result_set = active,
        result_captures = map prepared_capture prepared, result_failures = failures\<rparr>)))))))))))"

section \<open>Reading a saved review\<close>

definition active_review_session :: "WorkspaceId \<Rightarrow> ('w, ReviewSession option) service" where
  "active_review_session w =
    io_bind (on_store (review_sessions w)) (\<lambda>sessions.
    io_return (Inr (find (\<lambda>s. session_status s = SessionActive) sessions)))"

definition documents_of ::
  "'w ServiceEnv \<Rightarrow> ComparisonId list \<Rightarrow> ('w, PersistedReviewDocument list) service" where
  "documents_of env cs = read_store (review_file_payloads_for_comparisons (service_decode env) cs)"

definition review_documents ::
  "'w ServiceEnv \<Rightarrow> ReviewSessionId \<Rightarrow> ('w, PersistedReviewDocument list) service" where
  "review_documents env session =
    io_bind (on_store (current_comparisons_for_session session)) (\<lambda>cs.
    documents_of env (map comparison_id cs))"

definition review_document ::
  "'w ServiceEnv \<Rightarrow> ReviewFileId \<Rightarrow> ('w, PersistedReviewDocument option) service" where
  "review_document env file = read_store (review_file_payload (service_decode env) (show_file_id file))"

definition comparison_in_session ::
  "ReviewSessionId \<Rightarrow> ComparisonId \<Rightarrow> ('w, RepositoryComparison) service" where
  "comparison_in_session session i =
    io_bind (on_store (comparisons_for_session session)) (\<lambda>cs.
    require (ComparisonNotInReviewSession session i) (find (\<lambda>c. comparison_id c = i) cs))"

definition comparison_repository :: "RepositoryComparison \<Rightarrow> ('w, Repository) service" where
  "comparison_repository c =
    io_bind (on_store (repositories_for_id (comparison_repository_id c))) (\<lambda>found.
    require (RepositoryNotFound (comparison_repository_id c)) found)"

record CapturedBlameRequest =
  blame_session :: ReviewSessionId
  blame_comparison :: ComparisonId
  blame_side :: DiffSide
  blame_file :: StoredPath
  blame_start :: nat
  blame_end :: nat

record CapturedBlameResult =
  blamed_comparison :: ComparisonId
  blamed_side :: DiffSide
  blamed :: GitBlameResult

definition captured_blame :: "'w ServiceEnv \<Rightarrow> CapturedBlameRequest \<Rightarrow> ('w, CapturedBlameResult) service" where
  "captured_blame env request =
    io_bind (comparison_in_session (blame_session request) (blame_comparison request)) (\<lambda>c.
    io_bind (case blame_side request of
        Old \<Rightarrow> io_return (Inr (comparison_merge_base_sha c))
      | New \<Rightarrow> require (CapturedRevisionUnavailable (comparison_id c) New) (comparison_head_sha c)) (\<lambda>revision.
    io_bind (comparison_repository c) (\<lambda>r.
    io_bind (on_git (blame_at (open_git env (path_str (repository_worktree_path r)))
        \<lparr>blame_request_revision = revision, blame_request_path = blame_file request,
         blame_start_line = blame_start request, blame_end_line = blame_end request\<rparr>)) (\<lambda>b.
    io_return (Inr \<lparr>blamed_comparison = comparison_id c, blamed_side = blame_side request, blamed = b\<rparr>)))))"

definition captured_commit_context ::
  "'w ServiceEnv \<Rightarrow> ReviewSessionId \<Rightarrow> ComparisonId \<Rightarrow> GitCommitContextRequest
    \<Rightarrow> ('w, ComparisonId \<times> GitCommitContext) service" where
  "captured_commit_context env session i plan =
    io_bind (comparison_in_session session i) (\<lambda>c.
    io_bind (require (CapturedRevisionUnavailable (comparison_id c) New) (comparison_head_sha c)) (\<lambda>head.
    io_bind (comparison_repository c) (\<lambda>r.
    io_bind (on_git (commit_context (open_git env (path_str (repository_worktree_path r)))
        \<lparr>range_merge_base = comparison_merge_base_sha c, range_head = head\<rparr> plan)) (\<lambda>found.
    io_return (Inr (comparison_id c, found))))))"

record ReviewFileClassificationRecord =
  classified_comparison :: ComparisonId
  classified_file :: ReviewFileId
  classified_path :: StoredPath
  classified :: ReviewFileClassification

definition classify_document :: "PersistedReviewDocument \<Rightarrow> ServiceError + ReviewFileClassificationRecord" where
  "classify_document d =
    (let status = file_status (doc_file d);
         special = (status = FileBinary \<or> status = FileLfsPointer \<or> status = ReviewFileStatus.FileSubmodule)
     in rbind (map_err GitFailure (classify_review_file (file_path (doc_file d))
          (if special then None else Some (content (doc_new d))) (status = ReviewFileStatus.FileSubmodule))) (\<lambda>c.
        Inr \<lparr>classified_comparison = doc_comparison d, classified_file = file_id (doc_file d),
          classified_path = file_path (doc_file d),
          classified = c\<lparr>class_binary := (status = FileBinary), class_lfs_pointer := (status = FileLfsPointer)\<rparr>\<rparr>))"

definition review_file_classifications ::
  "'w ServiceEnv \<Rightarrow> ReviewSessionId \<Rightarrow> ('w, ReviewFileClassificationRecord list) service" where
  "review_file_classifications env session =
    io_bind (review_documents env session) (\<lambda>documents.
    if length documents > 10000 then io_return (Inl (ReviewHistoryTooLarge 10000))
    else io_return (try_map classify_document documents))"

definition earlier_than :: "RepositoryComparison \<Rightarrow> RepositoryComparison \<Rightarrow> bool" where
  "earlier_than current c \<longleftrightarrow> comparison_captured_at c < comparison_captured_at current"

fun earlier_sessions ::
  "ReviewSessionId \<Rightarrow> RepositoryId \<Rightarrow> ReviewSession list \<Rightarrow> ('w, RepositoryComparison list) service" where
  "earlier_sessions i repository [] = io_return (Inr [])"
| "earlier_sessions i repository (s # ss) =
    (if session_id s = i then earlier_sessions i repository ss
     else io_bind (on_store (current_comparisons_for_session (session_id s))) (\<lambda>cs.
       io_bind (earlier_sessions i repository ss) (\<lambda>rest.
       io_return (Inr (filter (\<lambda>c. comparison_repository_id c = repository) cs @ rest)))))"

definition newest_first :: "RepositoryComparison \<Rightarrow> int \<times> int" where
  "newest_first c = (- comparison_captured_at c, - (case comparison_id c of ComparisonId u \<Rightarrow> uint u))"

definition previous_comparison_for_repository ::
  "ReviewSession \<Rightarrow> RepositoryComparison \<Rightarrow> ('w, RepositoryComparison option) service" where
  "previous_comparison_for_repository session current =
    io_bind (on_store (comparisons_for_session (session_id session))) (\<lambda>own.
    io_bind (on_store (review_sessions (session_workspace_id session))) (\<lambda>sessions.
    io_bind (earlier_sessions (session_id session) (comparison_repository_id current) sessions) (\<lambda>others.
    let candidates = filter (earlier_than current)
          (filter (\<lambda>c. comparison_repository_id c = comparison_repository_id current
              \<and> comparison_id c \<noteq> comparison_id current) own @ others)
    in io_return (Inr (case sort_key newest_first candidates of [] \<Rightarrow> None | c # _ \<Rightarrow> Some c)))))"

record ChangedSincePreviousReview =
  changed_current :: ComparisonId
  changed_previous :: "ComparisonId option"
  changed_files :: "PreviousReviewFileComparison list"
  changed_truncated :: bool

definition changed_since_previous_review ::
  "'w ServiceEnv \<Rightarrow> ReviewSessionId \<Rightarrow> RepositoryId \<Rightarrow> nat \<Rightarrow> ('w, ChangedSincePreviousReview) service" where
  "changed_since_previous_review env i repository max_files =
    (if max_files = 0 \<or> max_files > 5000 then io_return (Inl (InvalidReviewHistoryLimit 5000))
     else
      io_bind (on_store (review_sessions_for_id i)) (\<lambda>found.
      io_bind (require (ReviewSessionNotFound i) found) (\<lambda>session.
      io_bind (on_store (current_comparisons_for_session (session_id session))) (\<lambda>cs.
      io_bind (require (RepositoryNotFound repository)
          (find (\<lambda>c. comparison_repository_id c = repository) cs)) (\<lambda>current.
      io_bind (previous_comparison_for_repository session current) (\<lambda>previous.
      case previous of
        None \<Rightarrow> io_return (Inr \<lparr>changed_current = comparison_id current, changed_previous = None,
          changed_files = [], changed_truncated = False\<rparr>)
      | Some p \<Rightarrow>
          io_bind (documents_of env [comparison_id current]) (\<lambda>now.
          io_bind (documents_of env [comparison_id p]) (\<lambda>before.
          if length now + length before > 2 * 5000 then io_return (Inl (ReviewHistoryTooLarge 5000))
          else (let (files, truncated) = compare_immutable_review_documents (blake3_of env) now before max_files in
            io_return (Inr \<lparr>changed_current = comparison_id current, changed_previous = Some (comparison_id p),
              changed_files = files, changed_truncated = truncated\<rparr>))))))))))"

section \<open>Annotations and exports\<close>

definition clear_annotations ::
  "'w ServiceEnv \<Rightarrow> ReviewSessionId \<Rightarrow> timestamp \<Rightarrow> ('w, ClearedAnnotationSet) service" where
  "clear_annotations env session at =
    io_bind (fresh_uuid env) (\<lambda>u. on_store (clear_active_annotation_set (AnnotationSetId u) session at))"

definition export_record :: "PromptRequest \<Rightarrow> FormattedPrompt \<Rightarrow> timestamp \<Rightarrow> uuid \<Rightarrow> PromptExportRecord" where
  "export_record request formatted at u =
    \<lparr>export_id = PromptExportId u, export_review_session = prompt_review_session request,
     export_set = prompt_annotation_set request,
     export_sets = (if prompt_annotation_sets request = [] then [prompt_annotation_set request]
       else prompt_annotation_sets request),
     export_scope = prompt_scope request, export_annotation_ids = prompt_annotation_ids formatted,
     export_template_version = PROMPT_TEMPLATE_VERSION, export_markdown = Some (prompt_markdown formatted),
     export_title = Some (prompt_title_for_scope (prompt_scope request)),
     export_annotation_count = Some (length (prompt_annotation_ids formatted)),
     export_estimated_tokens = Some ((length (prompt_markdown formatted) + 3) div 4), export_created_at = at\<rparr>"

definition export_prompt ::
  "'w ServiceEnv \<Rightarrow> PromptRequest \<Rightarrow> timestamp \<Rightarrow> ('w, FormattedPrompt \<times> PromptExportRecord) service" where
  "export_prompt env request at =
    io_bind (fresh_uuid env) (\<lambda>u.
    let formatted = format_prompt request; r = export_record request formatted at u in
    io_bind (on_store (save_prompt_export r)) (\<lambda>_. io_return (Inr (formatted, r))))"

end
