(* ===== verification/Store_Invariant.thy ===== *)
theory Store_Invariant
  imports Store_Ops
begin

text \<open>
  The schema as an invariant: primary and unique keys are distinct, foreign keys resolve and
  a session has at most one active annotation set, in every store that operations reach
  from the empty one.
\<close>

section \<open>The tables keep their keys\<close>

interpretation workspace_table: keyed_table workspace_id "\<lambda>new old. new"
  by unfold_locales simp

interpretation repository_table: keyed_table rr_id merge_repository
  by unfold_locales (simp add: rr_id_def merge_repository_def)

interpretation session_table: keyed_table sr_id merge_session
  by unfold_locales (simp add: sr_id_def merge_session_def)

interpretation comparison_table: keyed_table cr_id merge_comparison
  by unfold_locales (simp add: cr_id_def merge_comparison_def)

interpretation current_table: keyed_table current_key merge_current
  by unfold_locales (simp add: current_key_def merge_current_def)

interpretation set_table: keyed_table set_row_id merge_set
  by unfold_locales (simp add: set_row_id_def merge_set_def)

interpretation annotation_table: keyed_table ar_id merge_annotation
  by unfold_locales (simp add: ar_id_def merge_annotation_def)

interpretation annotation_payload_table: keyed_table ar_id merge_annotation_payload
  by unfold_locales (simp add: ar_id_def merge_annotation_payload_def)

interpretation pair_table: keyed_table "fst :: 'k \<times> 'v \<Rightarrow> 'k" "\<lambda>new old. new"
  by unfold_locales simp

interpretation file_table: keyed_table fr_id "\<lambda>new old. new"
  by unfold_locales simp

interpretation pull_request_table: keyed_table pr_row_id "\<lambda>new old. new"
  by unfold_locales simp

interpretation publication_table: keyed_table publication_row_id "\<lambda>new old. new"
  by unfold_locales simp

interpretation worktree_table: keyed_table worktree_row_id "\<lambda>new old. new"
  by unfold_locales simp

interpretation retired_table: keyed_table retired_row_id "\<lambda>new old. new"
  by unfold_locales simp

lemmas table_keys = workspace_table.has_key_upsert repository_table.has_key_upsert
  session_table.has_key_upsert comparison_table.has_key_upsert set_table.has_key_upsert
  annotation_table.has_key_upsert annotation_payload_table.has_key_upsert

lemmas table_distinct = workspace_table.distinct_upsert repository_table.distinct_upsert
  session_table.distinct_upsert comparison_table.distinct_upsert current_table.distinct_upsert
  set_table.distinct_upsert annotation_table.distinct_upsert annotation_payload_table.distinct_upsert
  pair_table.distinct_upsert file_table.distinct_upsert pull_request_table.distinct_upsert
  publication_table.distinct_upsert worktree_table.distinct_upsert retired_table.distinct_upsert

lemma row_keys [simp]:
  "rr_id \<lparr>rr_workspace = w, rr_repository = r\<rparr> = repository_id r"
  "sr_id \<lparr>sr_workspace = w, sr_started_at = t, sr_session = s\<rparr> = session_id s"
  "cr_id (comparison_row c) = comparison_id c"
  "cr_repository (comparison_row c) = comparison_repository_id c"
  "set_row_id \<lparr>set_row_session = i, set_row_sequence = n, set_row_payload = a\<rparr> = set_id a"
  "ar_id (annotation_row b) = annotation_id b"
  "ar_set (annotation_row b) = annotation_set b"
  "fr_id (file_row k f) = storage_id f" "fr_comparison (file_row k f) = k"
  by (simp_all add: rr_id_def sr_id_def cr_id_def comparison_row_def set_row_id_def ar_id_def
      annotation_row_def file_row_def)

lemma merged_columns [simp]:
  "rr_workspace (merge_repository r r') = rr_workspace r'"
  "sr_workspace (merge_session s s') = sr_workspace s'"
  "cr_repository (merge_comparison c c') = cr_repository c'"
  "set_row_session (merge_set k k') = set_row_session k'"
  "ar_set (merge_annotation a a') = ar_set a"
  "ar_set (merge_annotation_payload a a') = ar_set a'"
  "current_session (merge_current m m') = current_session m'"
  "current_repository (merge_current m m') = current_repository m'"
  "current_comparison (merge_current m m') = current_comparison m"
  by (simp_all add: merge_repository_def merge_session_def merge_comparison_def merge_set_def
      merge_annotation_def merge_annotation_payload_def merge_current_def)

section \<open>The schema\<close>

definition keys_ok :: "Db \<Rightarrow> bool" where
  "keys_ok d \<longleftrightarrow>
    distinct (map workspace_id (t_workspaces d)) \<and> distinct (map rr_id (t_repositories d))
    \<and> distinct (map sr_id (t_sessions d)) \<and> distinct (map cr_id (t_comparisons d))
    \<and> distinct (map fr_id (t_files d)) \<and> distinct (t_session_comparisons d)
    \<and> distinct (map current_key (t_current d)) \<and> distinct (map set_row_id (t_sets d))
    \<and> distinct (map ar_id (t_annotations d)) \<and> distinct (map export_id (t_exports d))
    \<and> distinct (map fst (t_settings d)) \<and> distinct (map fst (t_ui d))
    \<and> distinct (map pr_row_id (t_pull_requests d)) \<and> distinct (map publication_row_id (t_publications d))
    \<and> distinct (map worktree_row_id (t_worktrees d)) \<and> distinct (map retired_row_id (t_retired d))"

definition uniques_ok :: "Db \<Rightarrow> bool" where
  "uniques_ok d \<longleftrightarrow>
    distinct (map rr_unique (t_repositories d)) \<and> distinct (map set_unique (t_sets d))
    \<and> distinct (active_sessions (t_sets d)) \<and> distinct (map publication_row_attempt (t_publications d))"

definition refs_ok :: "Db \<Rightarrow> bool" where
  "refs_ok d \<longleftrightarrow>
    (\<forall>r\<in>set (t_repositories d). workspace_exists (rr_workspace r) d)
    \<and> (\<forall>r\<in>set (t_sessions d). workspace_exists (sr_workspace r) d)
    \<and> (\<forall>r\<in>set (t_comparisons d). repository_exists (cr_repository r) d)
    \<and> (\<forall>r\<in>set (t_files d). comparison_exists (fr_comparison r) d)
    \<and> (\<forall>p\<in>set (t_session_comparisons d). session_exists (fst p) d \<and> comparison_exists (snd p) d)
    \<and> (\<forall>r\<in>set (t_current d). session_exists (current_session r) d
        \<and> repository_exists (current_repository r) d \<and> comparison_exists (current_comparison r) d)
    \<and> (\<forall>r\<in>set (t_sets d). session_exists (set_row_session r) d)
    \<and> (\<forall>r\<in>set (t_annotations d). set_exists (ar_set r) d)
    \<and> (\<forall>r\<in>set (t_revisions d). has_key ar_id (revision_annotation r) (t_annotations d))
    \<and> (\<forall>e\<in>set (t_exports d). session_exists (export_review_session e) d \<and> set_exists (export_set e) d)
    \<and> (\<forall>r\<in>set (t_ui d). session_exists (fst r) d)
    \<and> (\<forall>r\<in>set (t_pull_requests d). workspace_exists (pr_row_workspace r) d)
    \<and> (\<forall>r\<in>set (t_publications d). session_exists (publication_row_session r) d)
    \<and> (\<forall>r\<in>set (t_worktrees d). \<forall>w. worktree_row_workspace r = Some w \<longrightarrow> workspace_exists w d)
    \<and> (\<forall>r\<in>set (t_retired d). \<forall>w. retired_row_workspace r = Some w \<longrightarrow> workspace_exists w d)"

definition db_ok :: "Db \<Rightarrow> bool" where
  "db_ok d \<longleftrightarrow> keys_ok d \<and> uniques_ok d \<and> refs_ok d"

lemmas schema_defs = db_ok_def keys_ok_def uniques_ok_def refs_ok_def exists_defs

lemma empty_db_ok: "db_ok empty_db"
  by (simp add: db_ok_def keys_ok_def uniques_ok_def refs_ok_def empty_db_def active_sessions_def)

lemma all_upsert:
  assumes "\<And>old. old \<in> set t \<Longrightarrow> P old" "\<And>old. old \<in> set t \<Longrightarrow> key old = key row \<Longrightarrow> P (merge row old)"
    "\<not> has_key key (key row) t \<Longrightarrow> P row" "r \<in> set (upsert_row key merge row t)"
  shows "P r"
  using assms by (auto simp: set_upsert_row split: if_splits)

section \<open>Replacing one table\<close>

text \<open>A table may change when its own keys and references stay right and no key another
  table refers to goes away.\<close>

lemma workspaces_updated:
  assumes "db_ok d" "distinct (map workspace_id t)" "\<And>k. has_key workspace_id k (t_workspaces d) \<Longrightarrow> has_key workspace_id k t"
  shows "db_ok (d\<lparr>t_workspaces := t\<rparr>)"
  using assms unfolding schema_defs by simp

lemma repositories_updated:
  assumes "db_ok d" "distinct (map rr_id t)" "\<And>k. has_key rr_id k (t_repositories d) \<Longrightarrow> has_key rr_id k t"
    "distinct (map rr_unique t)" "\<And>r. r \<in> set t \<Longrightarrow> workspace_exists (rr_workspace r) d"
  shows "db_ok (d\<lparr>t_repositories := t\<rparr>)"
  using assms unfolding schema_defs by simp

lemma sessions_updated:
  assumes "db_ok d" "distinct (map sr_id t)" "\<And>k. has_key sr_id k (t_sessions d) \<Longrightarrow> has_key sr_id k t"
    "\<And>r. r \<in> set t \<Longrightarrow> workspace_exists (sr_workspace r) d"
  shows "db_ok (d\<lparr>t_sessions := t\<rparr>)"
  using assms unfolding schema_defs by simp

lemma comparisons_updated:
  assumes "db_ok d" "distinct (map cr_id t)" "\<And>k. has_key cr_id k (t_comparisons d) \<Longrightarrow> has_key cr_id k t"
    "\<And>r. r \<in> set t \<Longrightarrow> repository_exists (cr_repository r) d"
  shows "db_ok (d\<lparr>t_comparisons := t\<rparr>)"
  using assms unfolding schema_defs by simp

lemma sets_updated:
  assumes "db_ok d" "distinct (map set_row_id t)" "\<And>k. has_key set_row_id k (t_sets d) \<Longrightarrow> has_key set_row_id k t"
    "distinct (map set_unique t)" "distinct (active_sessions t)"
    "\<And>r. r \<in> set t \<Longrightarrow> session_exists (set_row_session r) d"
  shows "db_ok (d\<lparr>t_sets := t\<rparr>)"
  using assms unfolding schema_defs by simp

lemma annotations_updated:
  assumes "db_ok d" "distinct (map ar_id t)" "\<And>k. has_key ar_id k (t_annotations d) \<Longrightarrow> has_key ar_id k t"
    "\<And>r. r \<in> set t \<Longrightarrow> set_exists (ar_set r) d"
  shows "db_ok (d\<lparr>t_annotations := t\<rparr>)"
  using assms unfolding schema_defs by simp

lemma files_updated:
  "db_ok d \<Longrightarrow> distinct (map fr_id t) \<Longrightarrow> (\<And>r. r \<in> set t \<Longrightarrow> comparison_exists (fr_comparison r) d)
    \<Longrightarrow> db_ok (d\<lparr>t_files := t\<rparr>)"
  unfolding schema_defs by simp

lemma session_comparisons_updated:
  "db_ok d \<Longrightarrow> distinct t \<Longrightarrow> (\<And>s c. (s, c) \<in> set t \<Longrightarrow> session_exists s d \<and> comparison_exists c d)
    \<Longrightarrow> db_ok (d\<lparr>t_session_comparisons := t\<rparr>)"
  unfolding schema_defs by simp (metis prod.collapse)

lemma current_updated:
  "db_ok d \<Longrightarrow> distinct (map current_key t) \<Longrightarrow>
    (\<And>r. r \<in> set t \<Longrightarrow> session_exists (current_session r) d \<and> repository_exists (current_repository r) d
      \<and> comparison_exists (current_comparison r) d)
    \<Longrightarrow> db_ok (d\<lparr>t_current := t\<rparr>)"
  unfolding schema_defs by simp

lemma revisions_updated:
  "db_ok d \<Longrightarrow> (\<And>r. r \<in> set t \<Longrightarrow> has_key ar_id (revision_annotation r) (t_annotations d))
    \<Longrightarrow> db_ok (d\<lparr>t_revisions := t\<rparr>)"
  unfolding schema_defs by simp

lemma exports_updated:
  "db_ok d \<Longrightarrow> distinct (map export_id t) \<Longrightarrow>
    (\<And>e. e \<in> set t \<Longrightarrow> session_exists (export_review_session e) d \<and> set_exists (export_set e) d)
    \<Longrightarrow> db_ok (d\<lparr>t_exports := t\<rparr>)"
  unfolding schema_defs by simp

lemma settings_updated: "db_ok d \<Longrightarrow> distinct (map fst t) \<Longrightarrow> db_ok (d\<lparr>t_settings := t\<rparr>)"
  unfolding schema_defs by simp

lemma ui_updated:
  "db_ok d \<Longrightarrow> distinct (map fst t) \<Longrightarrow> (\<And>r. r \<in> set t \<Longrightarrow> session_exists (fst r) d)
    \<Longrightarrow> db_ok (d\<lparr>t_ui := t\<rparr>)"
  unfolding schema_defs by simp

lemma pull_requests_updated:
  "db_ok d \<Longrightarrow> distinct (map pr_row_id t) \<Longrightarrow> (\<And>r. r \<in> set t \<Longrightarrow> workspace_exists (pr_row_workspace r) d)
    \<Longrightarrow> db_ok (d\<lparr>t_pull_requests := t\<rparr>)"
  unfolding schema_defs by simp

lemma publications_updated:
  "db_ok d \<Longrightarrow> distinct (map publication_row_id t) \<Longrightarrow> distinct (map publication_row_attempt t) \<Longrightarrow>
    (\<And>r. r \<in> set t \<Longrightarrow> session_exists (publication_row_session r) d)
    \<Longrightarrow> db_ok (d\<lparr>t_publications := t\<rparr>)"
  unfolding schema_defs by simp

lemma worktrees_updated:
  "db_ok d \<Longrightarrow> distinct (map worktree_row_id t) \<Longrightarrow>
    (\<And>r w. r \<in> set t \<Longrightarrow> worktree_row_workspace r = Some w \<Longrightarrow> workspace_exists w d)
    \<Longrightarrow> db_ok (d\<lparr>t_worktrees := t\<rparr>)"
  unfolding schema_defs by simp

lemma retired_updated:
  "db_ok d \<Longrightarrow> distinct (map retired_row_id t) \<Longrightarrow>
    (\<And>r w. r \<in> set t \<Longrightarrow> retired_row_workspace r = Some w \<Longrightarrow> workspace_exists w d)
    \<Longrightarrow> db_ok (d\<lparr>t_retired := t\<rparr>)"
  unfolding schema_defs by simp


section \<open>Statements keep the schema\<close>

text \<open>What the rules above ask of the present database.\<close>

lemma schema_D:
  assumes "db_ok d"
  shows "distinct (map workspace_id (t_workspaces d))" "distinct (map rr_id (t_repositories d))"
    "distinct (map sr_id (t_sessions d))" "distinct (map cr_id (t_comparisons d))"
    "distinct (map fr_id (t_files d))" "distinct (t_session_comparisons d)"
    "distinct (map current_key (t_current d))" "distinct (map set_row_id (t_sets d))"
    "distinct (map ar_id (t_annotations d))" "distinct (map export_id (t_exports d))"
    "distinct (map fst (t_settings d))" "distinct (map fst (t_ui d))"
    "distinct (map pr_row_id (t_pull_requests d))" "distinct (map publication_row_id (t_publications d))"
    "distinct (map worktree_row_id (t_worktrees d))" "distinct (map retired_row_id (t_retired d))"
    "distinct (map rr_unique (t_repositories d))" "distinct (map set_unique (t_sets d))"
    "distinct (active_sessions (t_sets d))" "distinct (map publication_row_attempt (t_publications d))"
  using assms by (simp_all add: db_ok_def keys_ok_def uniques_ok_def)

lemma refs_D:
  assumes "db_ok d"
  shows "r1 \<in> set (t_repositories d) \<Longrightarrow> workspace_exists (rr_workspace r1) d"
    "r2 \<in> set (t_sessions d) \<Longrightarrow> workspace_exists (sr_workspace r2) d"
    "r3 \<in> set (t_comparisons d) \<Longrightarrow> repository_exists (cr_repository r3) d"
    "r4 \<in> set (t_files d) \<Longrightarrow> comparison_exists (fr_comparison r4) d"
    "(s, c) \<in> set (t_session_comparisons d) \<Longrightarrow> session_exists s d \<and> comparison_exists c d"
    "r5 \<in> set (t_current d) \<Longrightarrow> session_exists (current_session r5) d
        \<and> repository_exists (current_repository r5) d \<and> comparison_exists (current_comparison r5) d"
    "r6 \<in> set (t_sets d) \<Longrightarrow> session_exists (set_row_session r6) d"
    "r7 \<in> set (t_annotations d) \<Longrightarrow> set_exists (ar_set r7) d"
    "r8 \<in> set (t_revisions d) \<Longrightarrow> has_key ar_id (revision_annotation r8) (t_annotations d)"
    "e \<in> set (t_exports d) \<Longrightarrow> session_exists (export_review_session e) d \<and> set_exists (export_set e) d"
    "r9 \<in> set (t_ui d) \<Longrightarrow> session_exists (fst r9) d"
    "r10 \<in> set (t_pull_requests d) \<Longrightarrow> workspace_exists (pr_row_workspace r10) d"
    "r11 \<in> set (t_publications d) \<Longrightarrow> session_exists (publication_row_session r11) d"
    "r12 \<in> set (t_worktrees d) \<Longrightarrow> worktree_row_workspace r12 = Some w \<Longrightarrow> workspace_exists w d"
    "r13 \<in> set (t_retired d) \<Longrightarrow> retired_row_workspace r13 = Some w \<Longrightarrow> workspace_exists w d"
  using assms by (auto simp: db_ok_def refs_ok_def)

lemma upsert_workspace_ok: "db_ok d \<Longrightarrow> upsert_workspace_row w d = Inr d' \<Longrightarrow> db_ok d'"
  by (auto simp: upsert_workspace_row_def table_keys table_distinct schema_D intro!: workspaces_updated)

lemma upsert_repository_ok: "db_ok d \<Longrightarrow> upsert_repository_row r d = Inr d' \<Longrightarrow> db_ok d'"
  by (auto simp: upsert_repository_row_def Let_def table_keys table_distinct schema_D repository_exists_def
      intro!: repositories_updated elim!: all_upsert [rotated 3] dest: refs_D(1))

lemma upsert_session_ok: "db_ok d \<Longrightarrow> upsert_session_row s d = Inr d' \<Longrightarrow> db_ok d'"
  by (auto simp: upsert_session_row_def Let_def table_keys table_distinct schema_D session_exists_def
      intro!: sessions_updated elim!: all_upsert [rotated 3] dest: refs_D(2))

lemma upsert_comparison_ok: "db_ok d \<Longrightarrow> upsert_comparison_row c d = Inr d' \<Longrightarrow> db_ok d'"
  by (auto simp: upsert_comparison_row_def table_keys table_distinct schema_D comparison_exists_def
      intro!: comparisons_updated elim!: all_upsert [rotated 3] dest: refs_D(3))

lemma insert_comparison_ok: "db_ok d \<Longrightarrow> insert_comparison_row c d = Inr d' \<Longrightarrow> db_ok d'"
  by (auto simp: insert_comparison_row_def schema_D has_key_iff
      intro!: comparisons_updated dest: refs_D(3))

lemma insert_session_comparison_ok: "db_ok d \<Longrightarrow> insert_session_comparison s c d = Inr d' \<Longrightarrow> db_ok d'"
  by (auto simp: insert_session_comparison_def schema_D has_key_iff
      intro!: session_comparisons_updated dest: refs_D(5))

lemma insert_file_ok: "db_ok d \<Longrightarrow> insert_file_row c f d = Inr d' \<Longrightarrow> db_ok d'"
  by (auto simp: insert_file_row_def schema_D has_key_iff intro!: files_updated dest: refs_D(4))

lemma upsert_current_ok: "db_ok d \<Longrightarrow> upsert_current s c d = Inr d' \<Longrightarrow> db_ok d'"
  by (auto simp: upsert_current_def Let_def table_distinct schema_D
      intro!: current_updated elim!: all_upsert [rotated 3] dest: refs_D(6))

lemma run_all_ok:
  assumes "run_all f xs d = Inr d'" "P d" "\<And>x d d'. x \<in> set xs \<Longrightarrow> P d \<Longrightarrow> f x d = Inr d' \<Longrightarrow> P d'"
  shows "P d'"
  using assms by (induction xs arbitrary: d) auto

lemma insert_generation_ok:
  assumes "db_ok d" "insert_review_generation s g d = Inr d'"
  shows "db_ok d'"
proof -
  let ?c = "generation_comparison g"
  obtain d1 d2 d3 where
    "insert_comparison_row ?c d = Inr d1" "insert_session_comparison s (comparison_id ?c) d1 = Inr d2"
    and files: "run_all (insert_file_row (comparison_id ?c)) (generation_files g) d2 = Inr d3"
    and current: "upsert_current s ?c d3 = Inr d'"
    using assms(2) by (auto simp: insert_review_generation_def Let_def)
  then have "db_ok d2" using assms(1) insert_comparison_ok insert_session_comparison_ok by blast
  then have "db_ok d3" using run_all_ok [OF files, of db_ok] insert_file_ok by blast
  then show ?thesis using upsert_current_ok current by blast
qed

lemma insert_annotation_set_ok: "db_ok d \<Longrightarrow> insert_annotation_set a d = Inr d' \<Longrightarrow> db_ok d'"
  by (auto simp: insert_annotation_set_def Let_def schema_D has_key_iff
      intro!: sets_updated dest: refs_D(7))

lemma upsert_annotation_set_ok: "db_ok d \<Longrightarrow> upsert_annotation_set a d = Inr d' \<Longrightarrow> db_ok d'"
  by (auto simp: upsert_annotation_set_def Let_def table_keys table_distinct schema_D set_exists_def
      intro!: sets_updated elim!: all_upsert [rotated 3] dest: refs_D(7))


text \<open>Rewriting payloads of sets: same identity, and never a second active set.\<close>

lemma sets_rewritten:
  assumes "db_ok d" "\<And>r. p r \<Longrightarrow> set_row_id (f r) = set_row_id r"
    "\<And>r. set_row_session (f r) = set_row_session r" "\<And>r. set_row_sequence (f r) = set_row_sequence r"
    "\<And>r. \<not> set_row_active (f r)"
  shows "db_ok (d\<lparr>t_sets := update_where p f (t_sets d)\<rparr>)"
proof (rule sets_updated [OF assms(1)])
  let ?t = "update_where p f (t_sets d)"
  have ids: "map set_row_id ?t = map set_row_id (t_sets d)" by (rule map_update_where) (rule assms(2))
  then show "distinct (map set_row_id ?t)" using schema_D [OF assms(1)] by simp
  show "has_key set_row_id k (t_sets d) \<Longrightarrow> has_key set_row_id k ?t" for k
    using arg_cong [OF ids, of set] by (simp add: has_key_iff)
  have "map set_unique ?t = map set_unique (t_sets d)"
    by (rule map_update_where) (simp add: set_unique_def assms(3,4))
  then show "distinct (map set_unique ?t)" using schema_D [OF assms(1)] by simp
  have "active_sessions (update_where p f rs) = map set_row_session (filter (\<lambda>r. \<not> p r) (filter set_row_active rs))" for rs
    by (induction rs) (auto simp: active_sessions_def update_where_def assms(3,5))
  then show "distinct (active_sessions ?t)"
    using schema_D(19) [OF assms(1)] distinct_map_filter by (simp add: active_sessions_def del: filter_filter)
  show "session_exists (set_row_session r) d" if "r \<in> set ?t" for r
    using that refs_D(7) [OF assms(1)] assms(3) by (auto simp: set_update_where)
qed

lemma archived_set_columns [simp]:
  "set_row_id (archived_set at r) = set_row_id r" "set_row_session (archived_set at r) = set_row_session r"
  "set_row_sequence (archived_set at r) = set_row_sequence r" "\<not> set_row_active (archived_set at r)"
  by (simp_all add: archived_set_def set_row_id_def set_row_active_def)

lemma archive_sets_ok: "db_ok d \<Longrightarrow> db_ok (archive_sets s at d)"
  unfolding archive_sets_def by (rule sets_rewritten) simp_all

lemma store_archived_ok: "db_ok d \<Longrightarrow> db_ok (store_set (archived at a) d)"
  unfolding store_set_def by (rule sets_rewritten) (simp_all add: set_row_id_def set_row_active_def archived_def)

lemma upsert_annotation_moving_ok: "db_ok d \<Longrightarrow> upsert_annotation_moving a d = Inr d' \<Longrightarrow> db_ok d'"
  by (auto simp: upsert_annotation_moving_def table_keys table_distinct schema_D
      intro!: annotations_updated elim!: all_upsert [rotated 3] dest: refs_D(8))

lemma add_revision_ok:
  "db_ok d \<Longrightarrow> has_key ar_id (annotation_id a) (t_annotations d) \<Longrightarrow> db_ok (add_revision a d)"
  by (auto simp: add_revision_def intro!: revisions_updated dest: refs_D(9))

lemma upsert_annotation_ok:
  assumes "db_ok d" "upsert_annotation a d = Inr d'"
  shows "db_ok d'"
proof -
  obtain d1 where d1: "upsert_annotation_moving a d = Inr d1" "d' = add_revision a d1"
    using assms(2) by (auto simp: upsert_annotation_def)
  have "has_key ar_id (annotation_id a) (t_annotations d1)"
    using d1(1) by (auto simp: upsert_annotation_moving_def table_keys)
  then show ?thesis using add_revision_ok upsert_annotation_moving_ok [OF assms(1) d1(1)] d1(2) by simp
qed

lemma upsert_annotation_in_place_ok:
  assumes "db_ok d" "upsert_annotation_in_place a d = Inr d'"
  shows "db_ok d'"
proof -
  let ?d = "d\<lparr>t_annotations := upsert_row ar_id merge_annotation_payload (annotation_row a) (t_annotations d)\<rparr>"
  have d': "d' = add_revision a ?d"
    and fk: "has_key ar_id (annotation_id a) (t_annotations d) \<or> set_exists (annotation_set a) d"
    using assms(2) by (auto simp: upsert_annotation_in_place_def)
  have "db_ok ?d" using assms(1) fk
    by (auto simp: table_keys table_distinct schema_D
        intro!: annotations_updated elim!: all_upsert [rotated 3] dest: refs_D(8))
  then show ?thesis unfolding d' by (rule add_revision_ok) (simp add: table_keys)
qed

lemma upsert_setting_ok: "db_ok d \<Longrightarrow> upsert_setting key val d = Inr d' \<Longrightarrow> db_ok d'"
  by (auto simp: upsert_setting_def table_distinct schema_D intro!: settings_updated)

lemma upsert_optional_setting_ok: "db_ok d \<Longrightarrow> upsert_optional_setting opt d = Inr d' \<Longrightarrow> db_ok d'"
  by (auto simp: upsert_optional_setting_def upsert_setting_ok split: option.splits prod.splits)

lemma insert_export_ok: "db_ok d \<Longrightarrow> insert_export e d = Inr d' \<Longrightarrow> db_ok d'"
  by (auto simp: insert_export_def schema_D has_key_iff intro!: exports_updated dest: refs_D(10))

lemma upsert_ui_state_ok: "db_ok d \<Longrightarrow> upsert_ui_state s payload d = Inr d' \<Longrightarrow> db_ok d'"
  by (auto simp: upsert_ui_state_def table_distinct schema_D
      intro!: ui_updated elim!: all_upsert [rotated 3] dest: refs_D(11))

lemma upsert_pull_request_ok: "db_ok d \<Longrightarrow> upsert_pull_request i w payload d = Inr d' \<Longrightarrow> db_ok d'"
  by (auto simp: upsert_pull_request_def table_distinct schema_D
      intro!: pull_requests_updated elim!: all_upsert [rotated 3] dest: refs_D(12))

lemma upsert_publication_ok: "db_ok d \<Longrightarrow> upsert_publication i s attempt payload d = Inr d' \<Longrightarrow> db_ok d'"
  by (auto simp: upsert_publication_def Let_def table_distinct schema_D
      intro!: publications_updated elim!: all_upsert [rotated 3] dest: refs_D(13))

lemma upsert_worktree_ok: "db_ok d \<Longrightarrow> upsert_worktree i w payload d = Inr d' \<Longrightarrow> db_ok d'"
  by (force simp: upsert_worktree_def table_distinct schema_D set_upsert_row
      intro!: worktrees_updated dest: refs_D(14) split: if_splits)

lemma upsert_retired_ok: "db_ok d \<Longrightarrow> upsert_retired i w payload at d = Inr d' \<Longrightarrow> db_ok d'"
  by (force simp: upsert_retired_def table_distinct schema_D set_upsert_row
      intro!: retired_updated dest: refs_D(15) split: if_splits)

lemma delete_worktree_ok: "db_ok d \<Longrightarrow> db_ok (delete_worktree i d)"
  by (auto simp: delete_worktree_def schema_D intro!: worktrees_updated dest: refs_D(14))

lemma delete_retired_ok: "db_ok d \<Longrightarrow> db_ok (delete_retired i d)"
  by (auto simp: delete_retired_def schema_D intro!: retired_updated dest: refs_D(15))

lemmas statements_ok = upsert_workspace_ok upsert_repository_ok upsert_session_ok upsert_comparison_ok
  upsert_current_ok insert_generation_ok insert_annotation_set_ok upsert_annotation_set_ok
  upsert_annotation_ok upsert_annotation_moving_ok upsert_annotation_in_place_ok upsert_setting_ok
  upsert_optional_setting_ok insert_export_ok upsert_ui_state_ok upsert_pull_request_ok
  upsert_publication_ok upsert_worktree_ok upsert_retired_ok

lemma run_all_db_ok:
  "run_all f xs d = Inr d' \<Longrightarrow> db_ok d \<Longrightarrow> (\<And>x d d'. db_ok d \<Longrightarrow> f x d = Inr d' \<Longrightarrow> db_ok d') \<Longrightarrow> db_ok d'"
  by (erule run_all_ok) blast+

lemma archive_priors_ok:
  assumes "db_ok d" "archive_priors w at d = Inr d'" shows "db_ok d'"
proof -
  have "db_ok e'" if "db_ok e" "archive_prior at prior e = Inr e'" for e e' prior
    using that upsert_session_ok archive_sets_ok by (auto simp: archive_prior_def)
  with assms show ?thesis unfolding archive_priors_def by (blast intro: run_all_db_ok)
qed


section \<open>Permanent deletion keeps the schema\<close>

lemma distinct_plain_delete_where: "distinct t \<Longrightarrow> distinct (delete_where p t)"
  by (simp add: delete_where_def)

lemma active_sessions_delete_where:
  assumes "distinct (active_sessions t)" shows "distinct (active_sessions (delete_where p t))"
proof -
  have "filter set_row_active (filter (\<lambda>r. \<not> p r) t) = filter (\<lambda>r. \<not> p r) (filter set_row_active t)"
    by (simp add: conj_commute)
  then show ?thesis using assms unfolding active_sessions_def delete_where_def by (metis distinct_map_filter)
qed

lemma has_key_delete_where:
  "has_key key k (delete_where p t) \<longleftrightarrow> (\<exists>r\<in>set t. key r = k \<and> \<not> p r)"
  by (auto simp: has_key_def list_ex_iff)

lemma has_key_ex: "has_key key k t \<longleftrightarrow> (\<exists>r\<in>set t. key r = k)"
  by (auto simp: has_key_def list_ex_iff)

lemma key_unique:
  "distinct (map key t) \<Longrightarrow> r \<in> set t \<Longrightarrow> r' \<in> set t \<Longrightarrow> key r = key r' \<Longrightarrow> r = r'"
  by (auto simp: distinct_map dest: inj_onD)

lemma distinct_map_map: "(\<And>r. key (f r) = key r) \<Longrightarrow> distinct (map key (map f t)) = distinct (map key t)"
  by (simp add: comp_def)

lemma delete_workspace_keys:
  assumes "db_ok d"
  shows "keys_ok (delete_workspace_row w d)" "uniques_ok (delete_workspace_row w d)"
  using schema_D [OF assms]
  by (simp_all add: keys_ok_def uniques_ok_def delete_workspace_row_def distinct_plain_delete_where
      active_sessions_delete_where distinct_map_map comp_def if_distrib cong: if_cong)

lemma deleted_rows [simp]:
  "r \<in> set (t_workspaces (delete_workspace_row w d)) \<longleftrightarrow> r \<in> set (t_workspaces d) \<and> workspace_id r \<noteq> w"
  "r1 \<in> set (t_repositories (delete_workspace_row w d)) \<longleftrightarrow> r1 \<in> set (t_repositories d) \<and> rr_workspace r1 \<noteq> w"
  "r2 \<in> set (t_sessions (delete_workspace_row w d)) \<longleftrightarrow> r2 \<in> set (t_sessions d) \<and> sr_workspace r2 \<noteq> w"
  "r3 \<in> set (t_comparisons (delete_workspace_row w d)) \<longleftrightarrow>
    r3 \<in> set (t_comparisons d) \<and> cr_repository r3 \<notin> set (repositories_under w d)"
  "r4 \<in> set (t_files (delete_workspace_row w d)) \<longleftrightarrow>
    r4 \<in> set (t_files d) \<and> fr_comparison r4 \<notin> set (comparisons_under w d)"
  "p \<in> set (t_session_comparisons (delete_workspace_row w d)) \<longleftrightarrow> p \<in> set (t_session_comparisons d)
    \<and> fst p \<notin> set (sessions_under w d) \<and> snd p \<notin> set (comparisons_under w d)"
  "r5 \<in> set (t_current (delete_workspace_row w d)) \<longleftrightarrow> r5 \<in> set (t_current d)
    \<and> current_session r5 \<notin> set (sessions_under w d) \<and> current_repository r5 \<notin> set (repositories_under w d)
    \<and> current_comparison r5 \<notin> set (comparisons_under w d)"
  "r6 \<in> set (t_sets (delete_workspace_row w d)) \<longleftrightarrow>
    r6 \<in> set (t_sets d) \<and> set_row_session r6 \<notin> set (sessions_under w d)"
  "e \<in> set (t_exports (delete_workspace_row w d)) \<longleftrightarrow>
    e \<in> set (t_exports d) \<and> export_review_session e \<notin> set (sessions_under w d)"
  "r7 \<in> set (t_ui (delete_workspace_row w d)) \<longleftrightarrow> r7 \<in> set (t_ui d) \<and> fst r7 \<notin> set (sessions_under w d)"
  "r8 \<in> set (t_pull_requests (delete_workspace_row w d)) \<longleftrightarrow>
    r8 \<in> set (t_pull_requests d) \<and> pr_row_workspace r8 \<noteq> w"
  "r9 \<in> set (t_publications (delete_workspace_row w d)) \<longleftrightarrow>
    r9 \<in> set (t_publications d) \<and> publication_row_session r9 \<notin> set (sessions_under w d)"
  "t_annotations (delete_workspace_row w d) = t_annotations d"
  "t_revisions (delete_workspace_row w d) = t_revisions d"
  by (simp_all add: delete_workspace_row_def)

lemma under_iff:
  "r \<in> set (repositories_under w d) \<longleftrightarrow> (\<exists>x\<in>set (t_repositories d). rr_id x = r \<and> rr_workspace x = w)"
  "s \<in> set (sessions_under w d) \<longleftrightarrow> (\<exists>x\<in>set (t_sessions d). sr_id x = s \<and> sr_workspace x = w)"
  "c \<in> set (comparisons_under w d) \<longleftrightarrow>
    (\<exists>x\<in>set (t_comparisons d). cr_id x = c \<and> cr_repository x \<in> set (repositories_under w d))"
  by (auto simp: repositories_under_def sessions_under_def comparisons_under_def)

lemma still_there:
  "workspace_exists v d \<Longrightarrow> v \<noteq> w \<Longrightarrow> workspace_exists v (delete_workspace_row w d)"
  "repository_exists i d \<Longrightarrow> i \<notin> set (repositories_under w d) \<Longrightarrow> repository_exists i (delete_workspace_row w d)"
  "session_exists s d \<Longrightarrow> s \<notin> set (sessions_under w d) \<Longrightarrow> session_exists s (delete_workspace_row w d)"
  "comparison_exists c d \<Longrightarrow> c \<notin> set (comparisons_under w d) \<Longrightarrow> comparison_exists c (delete_workspace_row w d)"
  unfolding exists_defs has_key_ex Bex_def deleted_rows under_iff by blast+

lemma nullified_rows:
  "r \<in> set (t_worktrees (delete_workspace_row w d)) \<Longrightarrow> worktree_row_workspace r = Some v \<Longrightarrow>
    v \<noteq> w \<and> (\<exists>x\<in>set (t_worktrees d). worktree_row_workspace x = Some v)"
  "r' \<in> set (t_retired (delete_workspace_row w d)) \<Longrightarrow> retired_row_workspace r' = Some v \<Longrightarrow>
    v \<noteq> w \<and> (\<exists>x\<in>set (t_retired d). retired_row_workspace x = Some v)"
  by (auto simp: delete_workspace_row_def split: if_splits)

lemma delete_workspace_refs:
  assumes "db_ok d" "restrict_ok (delete_workspace_row w d)"
  shows "refs_ok (delete_workspace_row w d)"
proof -
  have sess: "sr_workspace r = w \<longleftrightarrow> sr_id r \<in> set (sessions_under w d)" if "r \<in> set (t_sessions d)" for r
    using key_unique [OF schema_D(3) [OF assms(1)]] that by (auto simp: under_iff)
  have restrict: "\<forall>r\<in>set (t_annotations d). set_exists (ar_set r) (delete_workspace_row w d)"
    "\<forall>e\<in>set (t_exports (delete_workspace_row w d)). set_exists (export_set e) (delete_workspace_row w d)"
    using assms(2) by (auto simp: restrict_ok_def list_all_iff)
  have "\<forall>r\<in>set (t_worktrees (delete_workspace_row w d)). \<forall>v. worktree_row_workspace r = Some v
      \<longrightarrow> workspace_exists v (delete_workspace_row w d)"
    "\<forall>r\<in>set (t_retired (delete_workspace_row w d)). \<forall>v. retired_row_workspace r = Some v
      \<longrightarrow> workspace_exists v (delete_workspace_row w d)"
    by (blast intro: still_there(1) dest: nullified_rows refs_D(14,15) [OF assms(1)])+
  moreover have "session_exists (fst r) d" if "r \<in> set (t_ui d)" for r
    using refs_D(11) [OF assms(1) that] .
  ultimately show ?thesis unfolding refs_ok_def using restrict sess
    by (auto intro!: still_there dest: refs_D [OF assms(1)] simp del: split_paired_All)
qed

lemma delete_protected_ok:
  assumes "db_ok d"
  shows "db_ok (delete_protected_rows w keys prefix_list d)"
proof -
  have "has_key ar_id (revision_annotation r) (delete_where (\<lambda>r. ar_set r \<in> set (sets_under w d)) (t_annotations d))"
    if "r \<in> set (t_revisions d)" "revision_annotation r \<notin> set (annotations_under w d)" for r
    using refs_D(9) [OF assms that(1)] that(2)
    by (simp add: has_key_delete_where has_key_ex annotations_under_def image_iff) metis
  then show ?thesis using schema_D [OF assms] refs_D [OF assms]
    by (auto simp: delete_protected_rows_def db_ok_def keys_ok_def uniques_ok_def refs_ok_def exists_defs)
qed

lemma purge_rows_ok:
  assumes "db_ok d" "purge_workspace_rows w keys prefix_list d = Inr (b, d')"
  shows "db_ok d'"
  using assms delete_workspace_keys [OF delete_protected_ok [OF assms(1)]]
    delete_workspace_refs [OF delete_protected_ok [OF assms(1)]]
  by (auto simp: purge_workspace_rows_def Let_def db_ok_def)

end
