(* ===== verification/Store_Reach.thy ===== *)
theory Store_Reach
  imports Store_Invariant
begin

text \<open>
  The store as a state machine: a step is one operation, successful or not, and every store
  reached from the empty one satisfies the schema and names its blobs by their hash.
\<close>

section \<open>Operations keep a property of the database\<close>

definition store_ok :: "(string \<Rightarrow> string) \<Rightarrow> Store \<Rightarrow> bool" where
  "store_ok sha256 s \<longleftrightarrow>
    db_ok (store_db s) \<and> list_all db_ok (store_backups s) \<and> distinct (map fst (store_blobs s))
    \<and> (\<forall>b\<in>set (store_blobs s). fst b = sha256 (snd b))"

named_theorems op_ok \<open>operations that keep the store invariant\<close>

lemma store_ok_db: "store_ok sha256 s \<Longrightarrow> db_ok (store_db s)"
  by (simp add: store_ok_def)

lemma store_ok_update: "store_ok sha256 s \<Longrightarrow> db_ok d \<Longrightarrow> store_ok sha256 (s\<lparr>store_db := d\<rparr>)"
  by (simp add: store_ok_def)

lemma store_ok_flag: "store_ok sha256 s \<Longrightarrow> store_ok sha256 (s\<lparr>store_fail_next := b\<rparr>)"
  by (simp add: store_ok_def)

text \<open>Statements and what is built of them.\<close>

definition keeps_schema :: "(Db \<Rightarrow> PersistenceError + Db) \<Rightarrow> bool" where
  "keeps_schema f \<longleftrightarrow> (\<forall>d d'. db_ok d \<longrightarrow> f d = Inr d' \<longrightarrow> db_ok d')"

lemma keeps_schemaI: "(\<And>d d'. db_ok d \<Longrightarrow> f d = Inr d' \<Longrightarrow> db_ok d') \<Longrightarrow> keeps_schema f"
  by (simp add: keeps_schema_def)

lemma keeps_schemaD: "keeps_schema f \<Longrightarrow> db_ok d \<Longrightarrow> f d = Inr d' \<Longrightarrow> db_ok d'"
  by (simp add: keeps_schema_def)

lemma keeps_schema_bind: "keeps_schema f \<Longrightarrow> keeps_schema g \<Longrightarrow> keeps_schema (\<lambda>d. rbind (f d) g)"
  unfolding keeps_schema_def rbind_eq_Inr by blast

lemma keeps_run_all: "(\<And>x. keeps_schema (f x)) \<Longrightarrow> keeps_schema (run_all f xs)"
  by (rule keeps_schemaI) (blast intro: run_all_db_ok dest: keeps_schemaD)

lemma keeps_after: "(\<And>d. db_ok d \<Longrightarrow> db_ok (h d)) \<Longrightarrow> keeps_schema f \<Longrightarrow> keeps_schema (\<lambda>d. f (h d))"
  unfolding keeps_schema_def by blast

lemma keeps_statements:
  "keeps_schema (upsert_workspace_row w)" "keeps_schema (upsert_repository_row r)"
  "keeps_schema (upsert_session_row x)" "keeps_schema (upsert_comparison_row c)"
  "keeps_schema (upsert_current i c)" "keeps_schema (insert_review_generation i g)"
  "keeps_schema (insert_annotation_set a)" "keeps_schema (upsert_annotation_set a)"
  "keeps_schema (upsert_annotation b)" "keeps_schema (upsert_annotation_moving b)"
  "keeps_schema (upsert_annotation_in_place b)" "keeps_schema (upsert_setting key val)"
  "keeps_schema (upsert_optional_setting opt)" "keeps_schema (insert_export e)"
  "keeps_schema (upsert_ui_state i payload)" "keeps_schema (upsert_pull_request key v payload)"
  "keeps_schema (upsert_publication key i attempt payload)" "keeps_schema (upsert_worktree key v payload)"
  "keeps_schema (upsert_retired key v payload at)" "keeps_schema (archive_priors v at)"
  by (rule keeps_schemaI, erule (1) statements_ok archive_priors_ok)+

lemmas keeps_rules = keeps_statements keeps_schema_bind keeps_run_all

lemma execute_ok:
  assumes "store_ok sha256 s" "keeps_schema f"
  shows "store_ok sha256 (snd (execute f s))"
  using assms(1) keeps_schemaD [OF assms(2) store_ok_db [OF assms(1)]]
  by (auto simp: execute_def store_ok_update split: sum.splits)

lemma transaction_ok:
  assumes "store_ok sha256 s" "\<And>d x d'. db_ok d \<Longrightarrow> f d = Inr (x, d') \<Longrightarrow> db_ok d'"
  shows "store_ok sha256 (snd (transaction f s))"
  using assms store_ok_db [OF assms(1)] by (auto simp: transaction_def store_ok_update split: sum.splits)

lemma atomic_ok:
  assumes "store_ok sha256 s" "keeps_schema f"
  shows "store_ok sha256 (snd (atomic f s))"
  using assms(1) keeps_schemaD [OF assms(2) store_ok_db [OF assms(1)]]
  by (auto simp: atomic_def store_ok_update store_ok_flag split: sum.splits)

lemma put_blob_ok: "store_ok sha256 s \<Longrightarrow> store_ok sha256 (snd (put_blob sha256 bytes s))"
  by (auto simp: put_blob_def store_ok_def Let_def has_key_iff)

lemma gc_ok: "store_ok sha256 s \<Longrightarrow> store_ok sha256 (snd (gc_unreferenced_blobs s))"
  by (auto simp: gc_unreferenced_blobs_def store_ok_def Let_def)

section \<open>The operations\<close>

lemma upsert_workspace_op [op_ok]: "store_ok sha256 s \<Longrightarrow> store_ok sha256 (snd (upsert_workspace w s))"
  unfolding upsert_workspace_def by (erule execute_ok) (intro keeps_rules)

lemma upsert_workspace_discovery_op [op_ok]:
  "store_ok sha256 s \<Longrightarrow> store_ok sha256 (snd (upsert_workspace_discovery w rs s))"
  unfolding upsert_workspace_discovery_def
  by (erule atomic_ok) (intro keeps_rules)

lemma upsert_repository_op [op_ok]: "store_ok sha256 s \<Longrightarrow> store_ok sha256 (snd (upsert_repository r s))"
  unfolding upsert_repository_def by (erule execute_ok) (intro keeps_rules)

lemma save_review_session_op [op_ok]: "store_ok sha256 s \<Longrightarrow> store_ok sha256 (snd (save_review_session x s))"
  unfolding save_review_session_def by (erule execute_ok) (intro keeps_rules)

lemma archive_review_session_op [op_ok]:
  "store_ok sha256 s \<Longrightarrow> store_ok sha256 (snd (archive_review_session x at s))"
  using save_review_session_op [of sha256 s "archived_session at x"]
  by (auto simp: archive_review_session_def io_bind_def io_return_def split: prod.splits sum.splits)

lemma archive_active_annotation_set_op [op_ok]:
  "store_ok sha256 s \<Longrightarrow> store_ok sha256 (snd (archive_active_annotation_set i at s))"
  unfolding archive_active_annotation_set_def
  by (erule transaction_ok) (auto intro: store_archived_ok split: option.splits)

lemma save_comparison_op [op_ok]: "store_ok sha256 s \<Longrightarrow> store_ok sha256 (snd (save_comparison c s))"
  unfolding save_comparison_def by (erule execute_ok) (intro keeps_rules)

lemma save_session_comparison_op [op_ok]:
  "store_ok sha256 s \<Longrightarrow> store_ok sha256 (snd (save_session_comparison i c s))"
  unfolding save_session_comparison_def
proof (erule transaction_ok)
  fix d x d'
  assume "db_ok d" and run: "rbind (upsert_comparison_row c d) (\<lambda>d.
    vthen (foreign (session_exists i d \<and> comparison_exists (comparison_id c) d))
      (Inr ((), d\<lparr>t_session_comparisons :=
        filter (\<lambda>p. p \<noteq> (i, comparison_id c)) (t_session_comparisons d) @ [(i, comparison_id c)]\<rparr>)))
    = Inr (x, d')"
  then obtain d1 where d1: "upsert_comparison_row c d = Inr d1" by auto
  have "db_ok d1" by (rule upsert_comparison_ok [OF \<open>db_ok d\<close> d1])
  then show "db_ok d'" using run d1 schema_D(6) refs_D(5)
    by (auto intro!: session_comparisons_updated)
qed

lemma set_current_comparison_op [op_ok]:
  "store_ok sha256 s \<Longrightarrow> store_ok sha256 (snd (set_current_comparison i c s))"
  unfolding set_current_comparison_def by (erule execute_ok) (intro keeps_rules)

lemma save_prepared_review_generation_op [op_ok]:
  "store_ok sha256 s \<Longrightarrow> store_ok sha256 (snd (save_prepared_review_generation i g s))"
  unfolding save_prepared_review_generation_def by (erule atomic_ok) (intro keeps_rules)

lemma prepare_file_op [op_ok]:
  "store_ok sha256 s \<Longrightarrow> store_ok sha256 (snd (prepare_file sha256 encode c doc s))"
  using put_blob_ok [of sha256 s]
  by (auto simp: prepare_file_def io_bind_def io_return_def put_blob_def Let_def split: prod.splits)

lemma io_map_ok:
  assumes "\<And>x s. P s \<Longrightarrow> P (snd (f x s))" "P s" shows "P (snd (io_map f xs s))"
  using assms(2)
proof (induction xs arbitrary: s)
  case (Cons x xs)
  show ?case
  proof (cases "f x s")
    case (Pair r s1)
    then have "P s1" using assms(1) [OF Cons.prems, of x] by simp
    then show ?thesis using Cons.IH [of s1] Pair
      by (auto simp: io_bind_def io_return_def split: prod.splits sum.splits)
  qed
qed (simp add: io_return_def)

lemma prepare_review_generation_op [op_ok]:
  assumes "store_ok sha256 s"
  shows "store_ok sha256 (snd (prepare_review_generation sha256 encode c docs s))"
proof -
  have "store_ok sha256 (snd (io_map (prepare_file sha256 encode c) docs s))"
    by (rule io_map_ok) (rule prepare_file_op, assumption, rule assms)
  then show ?thesis
    by (auto simp: prepare_review_generation_def io_bind_def io_return_def split: prod.splits sum.splits)
qed

lemma save_review_generation_op [op_ok]:
  assumes "store_ok sha256 s"
  shows "store_ok sha256 (snd (save_review_generation sha256 encode i c docs s))"
  using prepare_review_generation_op [OF assms, of encode c docs] save_prepared_review_generation_op
  by (auto simp: save_review_generation_def io_bind_def split: prod.splits sum.splits)

lemma save_review_file_payload_op [op_ok]:
  assumes "store_ok sha256 s"
  shows "store_ok sha256 (snd (save_review_file_payload sha256 encode c i path payload s))"
proof -
  have row: "db_ok (d\<lparr>t_files := upsert_row fr_id (\<lambda>new old. new) row (t_files d)\<rparr>)"
    if "db_ok d" "comparison_exists (fr_comparison row) d" for d row
    using that by (auto simp: table_distinct schema_D
        intro!: files_updated elim!: all_upsert [rotated 3] dest: refs_D(4))
  show ?thesis using put_blob_ok [OF assms, of "encode payload"]
    by (auto simp: save_review_file_payload_def io_bind_def Let_def put_blob_def
        intro!: execute_ok keeps_schemaI row split: prod.splits sum.splits)
qed

lemma save_prepared_review_refresh_op [op_ok]:
  "store_ok sha256 s \<Longrightarrow>
    store_ok sha256 (snd (save_prepared_review_refresh_with_annotations x gs as s))"
  unfolding save_prepared_review_refresh_with_annotations_def
  by (erule atomic_ok) (intro keeps_rules)

lemma replace_active_review_with_setting_op [op_ok]:
  "store_ok sha256 s \<Longrightarrow>
    store_ok sha256 (snd (replace_active_review_with_setting w x a gs at opt s))"
  unfolding replace_active_review_with_setting_def
  by (erule atomic_ok) (intro keeps_rules)

lemma replace_active_review_op [op_ok]:
  "store_ok sha256 s \<Longrightarrow> store_ok sha256 (snd (replace_active_review w x a gs at s))"
  unfolding replace_active_review_def by (rule op_ok)

lemma replace_active_review_with_remote_state_op [op_ok]:
  "store_ok sha256 s \<Longrightarrow> store_ok sha256 (snd (replace_active_review_with_remote_state p s))"
  unfolding replace_active_review_with_remote_state_def
  by (erule atomic_ok) (intro keeps_rules)

lemma save_prepared_remote_refresh_op [op_ok]:
  "store_ok sha256 s \<Longrightarrow>
    store_ok sha256 (snd (save_prepared_remote_refresh_with_setting x gs key val s))"
  unfolding save_prepared_remote_refresh_with_setting_def
  by (erule atomic_ok) (intro keeps_rules)

lemma save_prepared_remote_refresh_repositories_op [op_ok]:
  "store_ok sha256 s \<Longrightarrow>
    store_ok sha256 (snd (save_prepared_remote_refresh_with_setting_and_repositories x gs rs key val s))"
  unfolding save_prepared_remote_refresh_with_setting_and_repositories_def
  by (erule atomic_ok) (intro keeps_rules)

lemma promote_github_pull_request_refresh_op [op_ok]:
  "store_ok sha256 s \<Longrightarrow> store_ok sha256 (snd (promote_github_pull_request_refresh p now s))"
  unfolding promote_github_pull_request_refresh_def Let_def
  by (erule atomic_ok) (intro keeps_rules keeps_after [OF delete_worktree_ok])

lemma save_annotation_set_op [op_ok]: "store_ok sha256 s \<Longrightarrow> store_ok sha256 (snd (save_annotation_set a s))"
  unfolding save_annotation_set_def by (erule execute_ok) (intro keeps_rules)

lemma clear_active_annotation_set_op [op_ok]:
  "store_ok sha256 s \<Longrightarrow> store_ok sha256 (snd (clear_active_annotation_set fresh i at s))"
  unfolding clear_active_annotation_set_def
  by (erule transaction_ok) (clarsimp, blast intro: insert_annotation_set_ok store_archived_ok)

lemma save_annotation_op [op_ok]: "store_ok sha256 s \<Longrightarrow> store_ok sha256 (snd (save_annotation a s))"
  unfolding save_annotation_def by (erule execute_ok) (intro keeps_rules)

lemma save_prompt_export_op [op_ok]: "store_ok sha256 s \<Longrightarrow> store_ok sha256 (snd (save_prompt_export e s))"
  unfolding save_prompt_export_def by (erule execute_ok) (intro keeps_rules)

lemma save_ui_state_op [op_ok]:
  "store_ok sha256 s \<Longrightarrow> store_ok sha256 (snd (save_review_session_ui_state i payload s))"
  unfolding save_review_session_ui_state_def by (erule execute_ok) (intro keeps_rules)

lemma set_setting_op [op_ok]: "store_ok sha256 s \<Longrightarrow> store_ok sha256 (snd (set_setting key val s))"
  unfolding set_setting_def by (erule execute_ok) (intro keeps_rules)

lemma save_github_pull_request_op [op_ok]:
  "store_ok sha256 s \<Longrightarrow> store_ok sha256 (snd (save_github_pull_request i w payload s))"
  unfolding save_github_pull_request_def by (erule execute_ok) (intro keeps_rules)

lemma save_github_publication_op [op_ok]:
  "store_ok sha256 s \<Longrightarrow> store_ok sha256 (snd (save_github_publication i r attempt payload s))"
  unfolding save_github_publication_def by (erule execute_ok) (intro keeps_rules)

lemma save_github_publication_and_annotations_op [op_ok]:
  "store_ok sha256 s \<Longrightarrow>
    store_ok sha256 (snd (save_github_publication_and_annotations i r attempt payload as s))"
  unfolding save_github_publication_and_annotations_def
  by (erule execute_ok) (intro keeps_rules)

lemma save_managed_worktree_op [op_ok]:
  "store_ok sha256 s \<Longrightarrow> store_ok sha256 (snd (save_managed_worktree i w payload s))"
  unfolding save_managed_worktree_def by (erule execute_ok) (intro keeps_rules)

lemma remove_managed_worktree_op [op_ok]:
  "store_ok sha256 s \<Longrightarrow> store_ok sha256 (snd (remove_managed_worktree i s))"
  unfolding remove_managed_worktree_def by (erule execute_ok) (auto intro: keeps_schemaI delete_worktree_ok)

lemma complete_retired_managed_worktree_op [op_ok]:
  "store_ok sha256 s \<Longrightarrow> store_ok sha256 (snd (complete_retired_managed_worktree i s))"
  unfolding complete_retired_managed_worktree_def by (erule execute_ok) (auto intro: keeps_schemaI delete_retired_ok)

lemma purge_backups_ok:
  "purge_backups w keys prefix_list bs = (r, bs') \<Longrightarrow> list_all db_ok bs \<Longrightarrow> list_all db_ok bs'"
  by (induction bs arbitrary: r bs') (auto split: sum.splits prod.splits dest: purge_rows_ok)

lemma purge_workspace_op [op_ok]:
  assumes "store_ok sha256 s"
  shows "store_ok sha256 (snd (purge_workspace w keys prefix_list s))"
proof -
  obtain r bs where bs: "purge_backups w keys prefix_list (store_backups s) = (r, bs)"
    by (cases "purge_backups w keys prefix_list (store_backups s)")
  have s1: "store_ok sha256 (s\<lparr>store_backups := bs\<rparr>)"
    using assms purge_backups_ok [OF bs] by (simp add: store_ok_def)
  obtain r2 s2 where t: "transaction (purge_workspace_rows w keys prefix_list) (s\<lparr>store_backups := bs\<rparr>) = (r2, s2)"
    by (cases "transaction (purge_workspace_rows w keys prefix_list) (s\<lparr>store_backups := bs\<rparr>)")
  then have s2: "store_ok sha256 s2"
    using transaction_ok [OF s1, of "purge_workspace_rows w keys prefix_list"] purge_rows_ok by force
  show ?thesis using assms s1 s2 gc_ok [OF s2]
    by (auto simp: purge_workspace_def bs t io_bind_def io_return_def gc_unreferenced_blobs_def Let_def
        split: sum.splits)
qed


section \<open>Reachable stores\<close>

definition empty_store :: Store where
  "empty_store = \<lparr>store_db = empty_db, store_blobs = [], store_backups = [], store_fail_next = False\<rparr>"

text \<open>One call of a public operation, or a snapshot taken, dropped by the
  rotation or restored.\<close>

inductive store_step :: "(string \<Rightarrow> string) \<Rightarrow> Store \<Rightarrow> Store \<Rightarrow> bool" for sha256 where
  "store_step sha256 s (snd (upsert_workspace w s))"
| "store_step sha256 s (snd (upsert_workspace_discovery w rs s))"
| "store_step sha256 s (snd (upsert_repository r s))"
| "store_step sha256 s (snd (save_review_session x s))"
| "store_step sha256 s (snd (archive_review_session x at s))"
| "store_step sha256 s (snd (archive_active_annotation_set i at s))"
| "store_step sha256 s (snd (save_comparison c s))"
| "store_step sha256 s (snd (save_session_comparison i c s))"
| "store_step sha256 s (snd (set_current_comparison i c s))"
| "store_step sha256 s (snd (put_blob sha256 bytes s))"
| "store_step sha256 s (snd (prepare_review_generation sha256 id c texts s))"
| "store_step sha256 s (snd (save_prepared_review_generation i g s))"
| "store_step sha256 s (snd (save_review_generation sha256 id i c texts s))"
| "store_step sha256 s (snd (save_review_file_payload sha256 id k i' path payload s))"
| "store_step sha256 s (snd (gc_unreferenced_blobs s))"
| "store_step sha256 s (snd (save_prepared_review_refresh_with_annotations x gs bs s))"
| "store_step sha256 s (snd (replace_active_review w' x a gs at s))"
| "store_step sha256 s (snd (replace_active_review_with_setting w' x a gs at opt s))"
| "store_step sha256 s (snd (replace_active_review_with_remote_state p s))"
| "store_step sha256 s (snd (save_prepared_remote_refresh_with_setting x gs key val s))"
| "store_step sha256 s (snd (save_prepared_remote_refresh_with_setting_and_repositories x gs rs key val s))"
| "store_step sha256 s (snd (promote_github_pull_request_refresh q now s))"
| "store_step sha256 s (snd (save_annotation_set a s))"
| "store_step sha256 s (snd (clear_active_annotation_set fresh i at s))"
| "store_step sha256 s (snd (save_annotation b s))"
| "store_step sha256 s (snd (save_prompt_export e s))"
| "store_step sha256 s (snd (save_review_session_ui_state i payload s))"
| "store_step sha256 s (snd (set_setting key val s))"
| "store_step sha256 s (snd (save_github_pull_request key w' payload s))"
| "store_step sha256 s (snd (save_github_publication key i attempt payload s))"
| "store_step sha256 s (snd (save_github_publication_and_annotations key i attempt payload bs s))"
| "store_step sha256 s (snd (save_managed_worktree key w' payload s))"
| "store_step sha256 s (snd (remove_managed_worktree key s))"
| "store_step sha256 s (snd (complete_retired_managed_worktree key s))"
| "store_step sha256 s (snd (purge_workspace w' keys prefix_list s))"
| "store_step sha256 s (s\<lparr>store_backups := store_db s # store_backups s\<rparr>)"
| "store_step sha256 s (s\<lparr>store_backups := filter kept (store_backups s)\<rparr>)"
| "b' \<in> set (store_backups s) \<Longrightarrow> store_step sha256 s (s\<lparr>store_db := b'\<rparr>)"
| "store_step sha256 s (s\<lparr>store_fail_next := True\<rparr>)"

inductive reachable :: "(string \<Rightarrow> string) \<Rightarrow> Store \<Rightarrow> bool" for sha256 where
  start: "reachable sha256 empty_store"
| step: "reachable sha256 s \<Longrightarrow> store_step sha256 s t \<Longrightarrow> reachable sha256 t"

lemma list_all_filter: "list_all P xs \<Longrightarrow> list_all P (filter q xs)"
  by (simp add: list_all_iff)

lemma store_step_ok: "store_step sha256 s t \<Longrightarrow> store_ok sha256 s \<Longrightarrow> store_ok sha256 t"
proof (induction rule: store_step.induct)
  case (36 s)
  then show ?case by (simp add: store_ok_def)
next
  case (37 s kept)
  then show ?case by (simp add: store_ok_def list_all_filter)
next
  case (38 b' s)
  then show ?case by (simp add: store_ok_def list_all_iff)
next
  case (39 s)
  then show ?case by (rule store_ok_flag)
qed (rule op_ok put_blob_ok gc_ok, assumption)+

text \<open>C31: whatever the application does with its store, and whichever of its operations fail,
  the database keeps its schema: keys are unique, every reference resolves, a session never
  has two active annotation sets, and a blob is stored under the hash of its content.\<close>

theorem reachable_store_ok:
  assumes "reachable sha256 s"
  shows "store_ok sha256 s"
  using assms
proof (induction rule: reachable.induct)
  case start
  then show ?case by (simp add: store_ok_def empty_store_def empty_db_ok)
qed (rule store_step_ok)

lemma reachable_store_ok_witness: "store_ok id (snd (set_setting ''theme'' ''dark'' empty_store))"
  by (rule reachable_store_ok [OF reachable.step [OF reachable.start store_step.intros(28)]])

end
