(* ===== verification/Store_History.thy ===== *)
theory Store_History
  imports Store_Reach "HOL-Library.Multiset"
begin

text \<open>
  What the promotions of the store promise: a new generation is added to the history without
  touching what is there, a new review takes the place of the active one and archives it, a
  saved generation is read back, and what garbage collection and permanent deletion remove.
\<close>

section \<open>A generation only adds rows\<close>

definition extends :: "Db \<Rightarrow> Db \<Rightarrow> bool" where
  "extends d d' \<longleftrightarrow> prefix (t_comparisons d) (t_comparisons d') \<and> prefix (t_files d) (t_files d')
    \<and> prefix (t_session_comparisons d) (t_session_comparisons d')"

lemma extends_refl [simp]: "extends d d"
  by (simp add: extends_def)

lemma extends_trans: "extends d e \<Longrightarrow> extends e f \<Longrightarrow> extends d f"
  by (auto simp: extends_def intro: prefix_order.trans)

text \<open>The tables a generation does not mention.\<close>

definition same_records :: "Db \<Rightarrow> Db \<Rightarrow> bool" where
  "same_records d d' \<longleftrightarrow> t_workspaces d' = t_workspaces d \<and> t_repositories d' = t_repositories d
    \<and> t_exports d' = t_exports d \<and> t_ui d' = t_ui d
    \<and> t_pull_requests d' = t_pull_requests d \<and> t_publications d' = t_publications d
    \<and> t_worktrees d' = t_worktrees d \<and> t_retired d' = t_retired d"

definition same_reviews :: "Db \<Rightarrow> Db \<Rightarrow> bool" where
  "same_reviews d d' \<longleftrightarrow> t_sessions d' = t_sessions d \<and> t_sets d' = t_sets d
    \<and> t_annotations d' = t_annotations d \<and> t_revisions d' = t_revisions d \<and> t_settings d' = t_settings d"

lemmas frame_defs = extends_def same_records_def same_reviews_def

lemma insert_files_eq:
  "run_all (insert_file_row c) fs d = Inr d' \<Longrightarrow>
    d' = d\<lparr>t_files := t_files d @ map (file_row c) fs\<rparr> \<and> distinct (map storage_id fs)
    \<and> (\<forall>f\<in>set fs. \<not> has_key fr_id (storage_id f) (t_files d))"
proof (induction fs arbitrary: d)
  case (Cons f fs)
  obtain d1 where d1: "insert_file_row c f d = Inr d1" and rest: "run_all (insert_file_row c) fs d1 = Inr d'"
    using Cons.prems by auto
  have "d1 = d\<lparr>t_files := t_files d @ [file_row c f]\<rparr>" "\<not> has_key fr_id (storage_id f) (t_files d)"
    using d1 by (auto simp: insert_file_row_def)
  with Cons.IH [OF rest] show ?case by auto
qed simp

text \<open>What a committed generation did.\<close>

lemma generation_effect:
  assumes "insert_review_generation s g d = Inr d'"
  shows "t_comparisons d' = t_comparisons d @ [comparison_row (generation_comparison g)]"
    "t_files d' = t_files d @ map (file_row (comparison_id (generation_comparison g))) (generation_files g)"
    "t_session_comparisons d' = t_session_comparisons d @ [(s, comparison_id (generation_comparison g))]"
    "t_current d' = upsert_row current_key merge_current
      \<lparr>current_session = s, current_repository = comparison_repository_id (generation_comparison g),
       current_comparison = comparison_id (generation_comparison g)\<rparr> (t_current d)"
    "distinct (map storage_id (generation_files g))"
    "\<not> comparison_exists (comparison_id (generation_comparison g)) d"
    "session_exists s d" "same_records d d'" "same_reviews d d'"
  using assms
  by (auto simp: insert_review_generation_def Let_def insert_comparison_row_def insert_session_comparison_def
      upsert_current_def session_exists_def comparison_exists_def frame_defs dest!: insert_files_eq)

lemma generation_extends: "insert_review_generation s g d = Inr d' \<Longrightarrow> extends d d'"
  by (simp add: extends_def generation_effect)

lemma generations_effect:
  assumes "run_all (insert_review_generation s) gs d = Inr d'"
  shows "extends d d' \<and> same_records d d' \<and> same_reviews d d'"
  using assms
proof (induction gs arbitrary: d)
  case (Cons g gs)
  then obtain d1 where d1: "insert_review_generation s g d = Inr d1"
    and rest: "run_all (insert_review_generation s) gs d1 = Inr d'" by auto
  then show ?case
    using Cons.IH [OF rest] generation_extends [OF d1] generation_effect(8,9) [OF d1]
    by (auto intro: extends_trans simp: same_records_def same_reviews_def)
qed (simp add: frame_defs)

text \<open>Who is current for a session and a repository.\<close>

definition current_for :: "Db \<Rightarrow> ReviewSessionId \<Rightarrow> RepositoryId \<Rightarrow> ComparisonId option" where
  "current_for d s r = map_option current_comparison (lookup_row current_key (s, r) (t_current d))"

lemma current_for_generation:
  assumes "insert_review_generation s g d = Inr d'"
  shows "current_for d' s' r = (if s' = s \<and> r = comparison_repository_id (generation_comparison g)
    then Some (comparison_id (generation_comparison g)) else current_for d s' r)"
proof -
  let ?row = "\<lparr>current_session = s, current_repository = comparison_repository_id (generation_comparison g),
    current_comparison = comparison_id (generation_comparison g)\<rparr>"
  have key: "current_key ?row = (s, comparison_repository_id (generation_comparison g))"
    by (simp add: current_key_def)
  show ?thesis unfolding current_for_def generation_effect(4) [OF assms]
    using current_table.lookup_upsert_same [of ?row "t_current d"]
      current_table.lookup_upsert_other [of "(s', r)" ?row "t_current d"]
    by (auto simp: key split: option.splits)
qed

definition generation_repository :: "PreparedReviewGeneration \<Rightarrow> RepositoryId" where
  "generation_repository g = comparison_repository_id (generation_comparison g)"

lemma current_for_generations:
  assumes "run_all (insert_review_generation s) gs d = Inr d'" "distinct (map generation_repository gs)"
  shows "current_for d' s' r = (if s' = s
    then (case find (\<lambda>g. generation_repository g = r) gs of
        None \<Rightarrow> current_for d s' r | Some g \<Rightarrow> Some (comparison_id (generation_comparison g)))
    else current_for d s' r)"
  using assms
proof (induction gs arbitrary: d)
  case (Cons g gs)
  then obtain d1 where d1: "insert_review_generation s g d = Inr d1"
    and rest: "run_all (insert_review_generation s) gs d1 = Inr d'" by auto
  note step = current_for_generation [OF d1, of s' r]
  have "find (\<lambda>g. generation_repository g = r) gs = None" if "generation_repository g = r"
    using Cons.prems(2) that by (force simp: find_None_iff image_iff)
  then show ?case using Cons.IH [OF rest] Cons.prems(2) step
    by (auto simp: generation_repository_def split: option.splits)
qed simp

lemma annotations_frame:
  "run_all upsert_annotation as d = Inr d' \<Longrightarrow>
    t_comparisons d' = t_comparisons d \<and> t_files d' = t_files d
    \<and> t_session_comparisons d' = t_session_comparisons d \<and> t_current d' = t_current d
    \<and> t_sessions d' = t_sessions d \<and> t_sets d' = t_sets d \<and> t_settings d' = t_settings d
    \<and> same_records d d' \<and> prefix (t_revisions d) (t_revisions d')
    \<and> set (map ar_id (t_annotations d)) \<subseteq> set (map ar_id (t_annotations d'))"
proof (induction as arbitrary: d)
  case (Cons a as)
  then obtain d1 where d1: "upsert_annotation a d = Inr d1"
    and rest: "run_all upsert_annotation as d1 = Inr d'" by auto
  have "t_comparisons d1 = t_comparisons d \<and> t_files d1 = t_files d
    \<and> t_session_comparisons d1 = t_session_comparisons d \<and> t_current d1 = t_current d
    \<and> t_sessions d1 = t_sessions d \<and> t_sets d1 = t_sets d \<and> t_settings d1 = t_settings d
    \<and> same_records d d1 \<and> prefix (t_revisions d) (t_revisions d1)
    \<and> set (map ar_id (t_annotations d)) \<subseteq> set (map ar_id (t_annotations d1))"
    using d1 annotation_table.keys_upsert
    by (auto simp: upsert_annotation_def upsert_annotation_moving_def add_revision_def same_records_def)
  with Cons.IH [OF rest] show ?case
    unfolding same_records_def by (auto intro: prefix_order.trans elim: subsetD [OF subset_trans])
qed (simp add: same_records_def)



section \<open>Replacing the active review\<close>

lemma upsert_session_existing:
  assumes "upsert_session_row x d = Inr d'" "has_key sr_id (session_id x) (t_sessions d)"
  shows "d' = d\<lparr>t_sessions := update_where (\<lambda>r. sr_id r = session_id x) (\<lambda>r. r\<lparr>sr_session := x\<rparr>) (t_sessions d)\<rparr>"
  using assms by (auto simp: upsert_session_row_def Let_def upsert_row_def update_where_def merge_session_def)

definition archive_row :: "timestamp \<Rightarrow> SessionRow \<Rightarrow> SessionRow" where
  "archive_row at r = r\<lparr>sr_session := archived_session at (sr_session r)\<rparr>"

lemma sr_id_archive [simp]: "sr_id (archive_row at r) = sr_id r" "session_id (archived_session at x) = session_id x"
  by (simp_all add: archive_row_def sr_id_def archived_session_def)

lemma archive_prior_effect:
  assumes "archive_prior at (sr_session r) d = Inr d'" "r \<in> set (t_sessions d)"
    "distinct (map sr_id (t_sessions d))"
  shows "d' = d\<lparr>t_sessions := update_where (\<lambda>x. sr_id x = sr_id r) (archive_row at) (t_sessions d),
    t_sets := update_where (\<lambda>x. set_row_session x = sr_id r \<and> set_row_active x) (archived_set at) (t_sets d)\<rparr>"
proof -
  obtain d1 where d1: "upsert_session_row (archived_session at (sr_session r)) d = Inr d1"
    and d': "d' = archive_sets (sr_id r) at d1"
    using assms(1) by (auto simp: archive_prior_def sr_id_def)
  have "has_key sr_id (session_id (archived_session at (sr_session r))) (t_sessions d)"
    using assms(2) by (auto simp: has_key_iff sr_id_def)
  from upsert_session_existing [OF d1 this]
  have "d1 = d\<lparr>t_sessions := update_where (\<lambda>x. sr_id x = sr_id r)
      (\<lambda>x. x\<lparr>sr_session := archived_session at (sr_session r)\<rparr>) (t_sessions d)\<rparr>"
    by (simp add: sr_id_def)
  also have "update_where (\<lambda>x. sr_id x = sr_id r) (\<lambda>x. x\<lparr>sr_session := archived_session at (sr_session r)\<rparr>) (t_sessions d)
      = update_where (\<lambda>x. sr_id x = sr_id r) (archive_row at) (t_sessions d)"
  proof -
    have "x = r" if "x \<in> set (t_sessions d)" "sr_id x = sr_id r" for x
      using key_unique [OF assms(3) that(1) assms(2) that(2)] .
    then show ?thesis unfolding update_where_def archive_row_def by (intro map_cong refl) auto
  qed
  finally show ?thesis by (simp add: d' archive_sets_def)
qed

lemma update_where_twice:
  assumes "\<And>r. p r \<Longrightarrow> q (f r) = False"
  shows "update_where q f (update_where p f t) = update_where (\<lambda>r. p r \<or> q r) f t"
  using assms by (auto simp: update_where_def)

lemma archive_run_effect:
  assumes "run_all (archive_prior at) (map sr_session rs) d = Inr d'" "set rs \<subseteq> set (t_sessions d)"
    "distinct (map sr_id (t_sessions d))" "distinct (map sr_id rs)"
  shows "d' = d\<lparr>t_sessions := update_where (\<lambda>x. sr_id x \<in> sr_id ` set rs) (archive_row at) (t_sessions d),
    t_sets := update_where (\<lambda>x. set_row_session x \<in> sr_id ` set rs \<and> set_row_active x) (archived_set at) (t_sets d)\<rparr>"
  using assms
proof (induction rs arbitrary: d)
  case Nil
  then show ?case by (simp add: update_where_def)
next
  case (Cons r rs)
  obtain d1 where d1: "archive_prior at (sr_session r) d = Inr d1"
    and rest: "run_all (archive_prior at) (map sr_session rs) d1 = Inr d'"
    using Cons.prems(1) by auto
  have r: "r \<in> set (t_sessions d)" using Cons.prems(2) by simp
  note eff = archive_prior_effect [OF d1 r Cons.prems(3)]
  let ?t = "update_where (\<lambda>x. sr_id x = sr_id r) (archive_row at) (t_sessions d)"
  have "set rs \<subseteq> set ?t"
  proof
    fix x assume "x \<in> set rs"
    moreover from this have "sr_id x \<noteq> sr_id r" using Cons.prems(4) by (force simp: image_iff)
    ultimately show "x \<in> set ?t" using Cons.prems(2) by (auto simp: set_update_where)
  qed
  moreover have "distinct (map sr_id ?t)" using Cons.prems(3) by (simp add: map_update_where)
  ultimately have "d' = d1\<lparr>t_sessions := update_where (\<lambda>x. sr_id x \<in> sr_id ` set rs) (archive_row at) (t_sessions d1),
    t_sets := update_where (\<lambda>x. set_row_session x \<in> sr_id ` set rs \<and> set_row_active x) (archived_set at) (t_sets d1)\<rparr>"
    using Cons.IH [OF rest] Cons.prems(4) eff by simp
  moreover have "update_where (\<lambda>x. sr_id x \<in> sr_id ` set rs) (archive_row at) ?t
      = update_where (\<lambda>x. sr_id x \<in> sr_id ` set (r # rs)) (archive_row at) (t_sessions d)"
  proof -
    have "sr_id r \<notin> sr_id ` set rs" using Cons.prems(4) by simp
    then show ?thesis by (subst update_where_twice) auto
  qed
  moreover have "update_where (\<lambda>x. set_row_session x \<in> sr_id ` set rs \<and> set_row_active x) (archived_set at)
      (update_where (\<lambda>x. set_row_session x = sr_id r \<and> set_row_active x) (archived_set at) (t_sets d))
      = update_where (\<lambda>x. set_row_session x \<in> sr_id ` set (r # rs) \<and> set_row_active x) (archived_set at) (t_sets d)"
    by (subst update_where_twice) (auto intro!: arg_cong [where f = "\<lambda>p. update_where p (archived_set at) (t_sets d)"])
  ultimately show ?case using eff by simp
qed

definition active_in :: "WorkspaceId \<Rightarrow> SessionRow \<Rightarrow> bool" where
  "active_in w r \<longleftrightarrow> sr_workspace r = w \<and> session_status (sr_session r) = SessionActive"

lemma archive_priors_effect:
  assumes "archive_priors w at d = Inr d'" "db_ok d"
  shows "d' = d\<lparr>t_sessions := update_where (active_in w) (archive_row at) (t_sessions d),
    t_sets := update_where (\<lambda>x. (\<exists>r\<in>set (t_sessions d). active_in w r \<and> sr_id r = set_row_session x) \<and> set_row_active x)
      (archived_set at) (t_sets d)\<rparr>"
proof -
  let ?rows = "active_session_rows w d"
  have rows: "set ?rows = {r \<in> set (t_sessions d). active_in w r}"
    by (auto simp: active_session_rows_def active_in_def)
  have "distinct (map sr_id (filter (\<lambda>r. sr_workspace r = w
      \<and> session_status (sr_session r) = SessionActive) (t_sessions d)))"
    using schema_D(3) [OF assms(2)] by (rule distinct_map_filter)
  then have "distinct (map sr_id ?rows)" by (simp add: active_session_rows_def distinct_map)
  then have "d' = d\<lparr>t_sessions := update_where (\<lambda>x. sr_id x \<in> sr_id ` set ?rows) (archive_row at) (t_sessions d),
    t_sets := update_where (\<lambda>x. set_row_session x \<in> sr_id ` set ?rows \<and> set_row_active x) (archived_set at) (t_sets d)\<rparr>"
    using archive_run_effect assms(1) rows schema_D(3) [OF assms(2)] unfolding archive_priors_def by blast
  moreover have "update_where (\<lambda>x. sr_id x \<in> sr_id ` set ?rows) (archive_row at) (t_sessions d)
      = update_where (active_in w) (archive_row at) (t_sessions d)"
  proof -
    have "sr_id x \<in> sr_id ` {r \<in> set (t_sessions d). active_in w r} \<longleftrightarrow> active_in w x"
      if "x \<in> set (t_sessions d)" for x
    proof
      assume "sr_id x \<in> sr_id ` {r \<in> set (t_sessions d). active_in w r}"
      then obtain r where "r \<in> set (t_sessions d)" "active_in w r" "sr_id x = sr_id r" by blast
      then show "active_in w x" using key_unique [OF schema_D(3) [OF assms(2)] that, of r] by simp
    qed (use that in blast)
    then show ?thesis unfolding update_where_def rows by (intro map_cong refl) simp
  qed
  moreover have "(\<lambda>x. set_row_session x \<in> sr_id ` set ?rows \<and> set_row_active x)
      = (\<lambda>x. (\<exists>r\<in>set (t_sessions d). active_in w r \<and> sr_id r = set_row_session x) \<and> set_row_active x)"
    unfolding rows by (force simp: fun_eq_iff image_iff)
  ultimately show ?thesis by simp
qed


lemma filter_map_update:
  "(\<And>r. r \<in> set t \<Longrightarrow> p r \<Longrightarrow> \<not> q (f r)) \<Longrightarrow> (\<And>r. r \<in> set t \<Longrightarrow> q r \<Longrightarrow> p r) \<Longrightarrow> filter q (update_where p f t) = []"
  by (auto simp: update_where_def filter_empty_conv)

text \<open>The review a workspace shows, and the set of annotations that is being written.\<close>

definition active_reviews :: "WorkspaceId \<Rightarrow> Db \<Rightarrow> ReviewSession list" where
  "active_reviews w d = map sr_session (filter (active_in w) (t_sessions d))"

definition live_sets :: "WorkspaceId \<Rightarrow> Db \<Rightarrow> AnnotationSet list" where
  "live_sets w d = map set_row_payload
    (filter (\<lambda>x. set_row_active x \<and> (\<exists>r\<in>set (t_sessions d). active_in w r \<and> sr_id r = set_row_session x)) (t_sets d))"

lemma active_in_archive [simp]: "\<not> active_in w (archive_row at r)"
  by (simp add: active_in_def archive_row_def archived_session_def)

lemma insert_set_effect:
  assumes "insert_annotation_set a d = Inr d'"
  shows "d' = d\<lparr>t_sets := t_sets d @ [\<lparr>set_row_session = set_review_session a,
    set_row_sequence = set_sequence a, set_row_payload = a\<rparr>]\<rparr>"
  using assms by (auto simp: insert_annotation_set_def Let_def)

text \<open>Starting a review over replaces the active one in one step: afterwards the workspace
  has exactly the new session active with exactly the new annotation set, every review and
  every set that was active is archived, the reviews of other workspaces are untouched, and
  all comparisons, documents, annotations and exports of before are still there; when it
  fails nothing has changed.\<close>

theorem replacement_archives_and_keeps:
  assumes "replace_active_review w session active gs at s = (r, s')" "store_ok sha256 s"
    "\<not> session_exists (session_id session) (store_db s)"
    "session_workspace_id session = w" "session_status session = SessionActive"
    "set_review_session active = session_id session" "set_active active"
  shows "(is_ok r \<or> store_db s' = store_db s)
    \<and> (is_ok r \<longrightarrow> active_reviews w (store_db s') = [session]
      \<and> live_sets w (store_db s') = [active]
      \<and> (\<forall>v. v \<noteq> w \<longrightarrow> active_reviews v (store_db s') = active_reviews v (store_db s))
      \<and> extends (store_db s) (store_db s')
      \<and> t_annotations (store_db s') = t_annotations (store_db s)
      \<and> t_exports (store_db s') = t_exports (store_db s)
      \<and> set (map sr_id (t_sessions (store_db s))) \<subseteq> set (map sr_id (t_sessions (store_db s')))
      \<and> set (map set_row_id (t_sets (store_db s))) \<subseteq> set (map set_row_id (t_sets (store_db s'))))"
proof (cases r)
  case (Inl e)
  then show ?thesis using assms(1)
    by (auto simp: replace_active_review_def replace_active_review_with_setting_def atomic_def is_ok_def
        split: sum.splits if_splits)
next
  case (Inr u)
  let ?d = "store_db s"
  obtain d1 d2 d3 d4 where
    priors: "archive_priors w at ?d = Inr d1" and sess: "upsert_session_row session d1 = Inr d2"
    and set: "insert_annotation_set active d2 = Inr d3"
    and gens: "run_all (insert_review_generation (session_id session)) gs d3 = Inr d4" and s': "store_db s' = d4"
    using assms(1) Inr
    by (auto simp: replace_active_review_def replace_active_review_with_setting_def atomic_def
        upsert_optional_setting_def split: sum.splits if_splits)
  let ?sessions = "update_where (active_in w) (archive_row at) (t_sessions ?d)"
  let ?live = "\<lambda>x. (\<exists>r\<in>set (t_sessions ?d). active_in w r \<and> sr_id r = set_row_session x) \<and> set_row_active x"
  let ?sets = "update_where ?live (archived_set at) (t_sets ?d)"
  let ?row = "\<lparr>sr_workspace = w, sr_started_at = session_started_at session, sr_session = session\<rparr>"
  let ?set = "\<lparr>set_row_session = session_id session, set_row_sequence = set_sequence active, set_row_payload = active\<rparr>"
  note ok = store_ok_db [OF assms(2)]
  note d1 = archive_priors_effect [OF priors ok]
  have ids: "map sr_id ?sessions = map sr_id (t_sessions ?d)" by (rule map_update_where) simp
  have "\<not> has_key sr_id (session_id session) ?sessions"
    using assms(3) arg_cong [OF ids, of set] by (simp add: session_exists_def has_key_iff)
  then have d2: "d2 = d1\<lparr>t_sessions := ?sessions @ [?row]\<rparr>"
    using sess by (auto simp: upsert_session_row_def Let_def upsert_row_def d1 assms(4))
  have d3: "d3 = d2\<lparr>t_sets := ?sets @ [?set]\<rparr>" using insert_set_effect [OF set] by (simp add: d2 d1 assms(6))
  note eff = generations_effect [OF gens]
  have sessions: "t_sessions d4 = ?sessions @ [?row]" and sets: "t_sets d4 = ?sets @ [?set]"
    using eff by (simp_all add: same_reviews_def d3 d2)
  have row: "active_in w ?row" "\<And>v. v \<noteq> w \<Longrightarrow> \<not> active_in v ?row"
    using assms(5) by (simp_all add: active_in_def)
  have none: "filter (active_in w) ?sessions = []" by (rule filter_map_update) simp_all
  have "active_reviews w d4 = [session]"
    using row none by (simp add: active_reviews_def sessions)
  moreover have "live_sets w d4 = [active]"
  proof -
    have only: "(\<exists>r\<in>set (t_sessions d4). active_in w r \<and> sr_id r = i) \<longleftrightarrow> i = session_id session" for i
      using none row by (auto simp: sessions filter_empty_conv sr_id_def)
    have "set_row_session x \<noteq> session_id session" if "x \<in> set (t_sets ?d)" for x
      using refs_D(7) [OF ok that] assms(3) by auto
    then have "filter (\<lambda>x. set_row_active x \<and> set_row_session x = session_id session) ?sets = []"
      by (auto simp: filter_empty_conv set_update_where)
    then show ?thesis using assms(7)
      by (simp add: live_sets_def only) (simp add: sets set_row_active_def)
  qed
  moreover have "active_reviews v d4 = active_reviews v ?d" if "v \<noteq> w" for v
  proof -
    have "filter (active_in v) (update_where (active_in w) (archive_row at) t) = filter (active_in v) t" for t
    proof (induction t)
      case (Cons x t)
      have "active_in w x \<Longrightarrow> \<not> active_in v x" using that by (simp add: active_in_def)
      with Cons show ?case by (simp add: update_where_def)
    qed (simp add: update_where_def)
    then show ?thesis using row(2) that by (simp add: active_reviews_def sessions)
  qed
  moreover have "extends ?d d4" "t_annotations d4 = t_annotations ?d" "t_exports d4 = t_exports ?d"
    using eff by (simp_all add: extends_def same_reviews_def same_records_def d3 d2 d1)
  moreover have "set (map sr_id (t_sessions ?d)) \<subseteq> set (map sr_id (t_sessions d4))"
    unfolding sessions map_append ids by auto
  moreover have "map set_row_id ?sets = map set_row_id (t_sets ?d)" by (rule map_update_where) simp
  then have "set (map set_row_id (t_sets ?d)) \<subseteq> set (map set_row_id (t_sets d4))"
    unfolding sets map_append by (metis set_append Un_upper1)
  ultimately show ?thesis using s' Inr by simp
qed


section \<open>A concrete review\<close>

definition demo_workspace :: Workspace where
  "demo_workspace = \<lparr>workspace_id = WorkspaceId 1, workspace_display_name = ''demo'',
    workspace_source = LocalDirectory (StoredPath ''/demo''), workspace_default_base = BaseReference ''main'',
    workspace_pinned = False, workspace_archived_at = None, workspace_created_at = 0, workspace_updated_at = 0\<rparr>"

definition demo_session :: ReviewSession where
  "demo_session = \<lparr>session_id = ReviewSessionId 2, session_workspace_id = WorkspaceId 1,
    session_status = SessionActive, session_started_at = 5, session_refreshed_at = None,
    session_archived_at = None, session_completed_at = None\<rparr>"

definition demo_set :: AnnotationSet where
  "demo_set = \<lparr>set_id = AnnotationSetId 3, set_review_session = ReviewSessionId 2, set_sequence = 1,
    set_active = True, set_archived_at = None, set_created_at = 5\<rparr>"

definition demo_store :: Store where
  "demo_store = snd (upsert_workspace demo_workspace empty_store)"

lemma demo_store_ok: "store_ok sha256 demo_store"
  unfolding demo_store_def
  by (rule upsert_workspace_op) (simp add: store_ok_def empty_store_def empty_db_ok)

lemma demo_store_eq:
  "demo_store = empty_store\<lparr>store_db := empty_db\<lparr>t_workspaces := [demo_workspace]\<rparr>\<rparr>"
  by (simp add: demo_store_def upsert_workspace_def execute_def upsert_workspace_row_def empty_store_def
      empty_db_def upsert_row_def)

lemma replacement_archives_and_keeps_witness:
  "active_reviews (WorkspaceId 1) (store_db (snd (replace_active_review (WorkspaceId 1) demo_session demo_set [] 5 demo_store)))
    = [demo_session]"
proof -
  obtain r s' where run: "replace_active_review (WorkspaceId 1) demo_session demo_set [] 5 demo_store = (r, s')"
    by (cases "replace_active_review (WorkspaceId 1) demo_session demo_set [] 5 demo_store")
  have "is_ok (fst (replace_active_review (WorkspaceId 1) demo_session demo_set [] 5 demo_store))"
    unfolding demo_store_eq by code_simp
  then have "is_ok r" by (simp add: run)
  moreover have "\<not> session_exists (session_id demo_session) (store_db demo_store)"
    by (simp add: demo_store_eq empty_store_def empty_db_def session_exists_def)
  moreover have "session_workspace_id demo_session = WorkspaceId 1" "session_status demo_session = SessionActive"
    "set_review_session demo_set = session_id demo_session" "set_active demo_set"
    by (simp_all add: demo_session_def demo_set_def)
  ultimately show ?thesis
    using replacement_archives_and_keeps [OF run demo_store_ok [of id]] by (simp add: run)
qed


end
