(* ===== verification/Store_Contents.thy ===== *)
theory Store_Contents
  imports Store_History
begin

text \<open>
  Documents and blobs: a saved generation is read back, garbage collection spares what is
  referenced, and what it may take from a generation that is prepared but not committed.
\<close>

section \<open>Blobs\<close>

definition blob_content :: "Store \<Rightarrow> string \<Rightarrow> string option" where
  "blob_content s h = map_option snd (lookup_row fst h (store_blobs s))"

definition blobs_named :: "(string \<Rightarrow> string) \<Rightarrow> Store \<Rightarrow> bool" where
  "blobs_named sha256 s \<longleftrightarrow> (\<forall>b\<in>set (store_blobs s). fst b = sha256 (snd b))"

lemma put_blob_effect:
  assumes "put_blob sha256 bytes s = (r, s')" "blobs_named sha256 s"
    "\<forall>b\<in>set (store_blobs s). sha256 (snd b) = sha256 bytes \<longrightarrow> snd b = bytes"
  shows "r = Inr \<lparr>blob_sha256 = sha256 bytes, blob_byte_len = min (length bytes) U64_MAX\<rparr>"
    "blob_content s' (sha256 bytes) = Some bytes"
    "blob_content s h = Some c \<Longrightarrow> blob_content s' h = Some c"
    "set (store_blobs s') \<subseteq> insert (sha256 bytes, bytes) (set (store_blobs s))"
    "store_db s' = store_db s" "store_fail_next s' = store_fail_next s" "store_backups s' = store_backups s"
proof -
  have s': "s' = (if has_key fst (sha256 bytes) (store_blobs s) then s
      else s\<lparr>store_blobs := store_blobs s @ [(sha256 bytes, bytes)]\<rparr>)"
    and r: "r = Inr \<lparr>blob_sha256 = sha256 bytes, blob_byte_len = min (length bytes) U64_MAX\<rparr>"
    using assms(1) by (auto simp: put_blob_def Let_def)
  show "r = Inr \<lparr>blob_sha256 = sha256 bytes, blob_byte_len = min (length bytes) U64_MAX\<rparr>" by (rule r)
  show "blob_content s' (sha256 bytes) = Some bytes"
  proof (cases "has_key fst (sha256 bytes) (store_blobs s)")
    case True
    then obtain b where b: "lookup_row fst (sha256 bytes) (store_blobs s) = Some b"
      by (cases "lookup_row fst (sha256 bytes) (store_blobs s)") auto
    then have "b \<in> set (store_blobs s)" "fst b = sha256 bytes" by (auto simp: lookup_row_def find_Some_iff)
    then have "snd b = bytes" using assms(2,3) by (auto simp: blobs_named_def)
    then show ?thesis using True b by (simp add: s' blob_content_def)
  next
    case False
    then have "lookup_row fst (sha256 bytes) (store_blobs s) = None" by simp
    with False show ?thesis by (simp add: s' blob_content_def lookup_row_append del: lookup_row_None)
  qed
  show "blob_content s h = Some c \<Longrightarrow> blob_content s' h = Some c"
    by (auto simp: s' blob_content_def lookup_row_append)
qed (use assms(1) in \<open>auto simp: put_blob_def Let_def split: if_splits\<close>)

definition prepared_file ::
  "(string \<Rightarrow> string) \<Rightarrow> ('d \<Rightarrow> string) \<Rightarrow> ComparisonId \<Rightarrow> string \<times> string \<times> 'd \<Rightarrow> PreparedReviewFile" where
  "prepared_file sha256 encode c doc =
    \<lparr>storage_id = make_storage_id c (fst doc), prepared_path = fst (snd doc),
     prepared_blob = \<lparr>blob_sha256 = sha256 (encode (snd (snd doc))),
       blob_byte_len = min (length (encode (snd (snd doc)))) U64_MAX\<rparr>\<rparr>"

text \<open>No two of these contents share a hash.\<close>

definition collision_free :: "(string \<Rightarrow> string) \<Rightarrow> Store \<Rightarrow> string list \<Rightarrow> bool" where
  "collision_free sha256 s texts \<longleftrightarrow> inj_on sha256 (snd ` set (store_blobs s) \<union> set texts)"

lemma prepare_files_effect:
  assumes "io_map (prepare_file sha256 encode c) docs s = (r, s')" "blobs_named sha256 s"
    "collision_free sha256 s (map (\<lambda>doc. encode (snd (snd doc))) docs)"
  shows "r = Inr (map (prepared_file sha256 encode (comparison_id c)) docs)
    \<and> (\<forall>doc\<in>set docs. blob_content s' (sha256 (encode (snd (snd doc)))) = Some (encode (snd (snd doc))))
    \<and> (\<forall>h b. blob_content s h = Some b \<longrightarrow> blob_content s' h = Some b)
    \<and> store_db s' = store_db s \<and> store_fail_next s' = store_fail_next s \<and> store_backups s' = store_backups s"
  using assms
proof (induction docs arbitrary: s r s')
  case (Cons doc docs)
  let ?text = "encode (snd (snd doc))"
  obtain r1 s1 where put: "put_blob sha256 ?text s = (r1, s1)" by (cases "put_blob sha256 ?text s")
  have same: "\<forall>b\<in>set (store_blobs s). sha256 (snd b) = sha256 ?text \<longrightarrow> snd b = ?text"
    using Cons.prems(3) unfolding collision_free_def by (intro ballI impI) (elim inj_onD, auto)
  note eff = put_blob_effect [OF put Cons.prems(2) same]
  obtain r2 s2 where rest: "io_map (prepare_file sha256 encode c) docs s1 = (r2, s2)"
    by (cases "io_map (prepare_file sha256 encode c) docs s1")
  have "blobs_named sha256 s1" using eff(4) Cons.prems(2) by (auto simp: blobs_named_def)
  moreover have "collision_free sha256 s1 (map (\<lambda>doc. encode (snd (snd doc))) docs)"
    using Cons.prems(3) unfolding collision_free_def by (rule inj_on_subset) (use eff(4) in force)
  ultimately have IH: "r2 = Inr (map (prepared_file sha256 encode (comparison_id c)) docs)
    \<and> (\<forall>doc\<in>set docs. blob_content s2 (sha256 (encode (snd (snd doc)))) = Some (encode (snd (snd doc))))
    \<and> (\<forall>h b. blob_content s1 h = Some b \<longrightarrow> blob_content s2 h = Some b)
    \<and> store_db s2 = store_db s1 \<and> store_fail_next s2 = store_fail_next s1 \<and> store_backups s2 = store_backups s1"
    using Cons.IH [OF rest] by blast
  have one: "prepare_file sha256 encode c doc s = (Inr (prepared_file sha256 encode (comparison_id c) doc), s1)"
    using eff(1) by (simp add: prepare_file_def case_prod_beta io_bind_def put io_return_def prepared_file_def)
  have "(r, s') = (Inr (map (prepared_file sha256 encode (comparison_id c)) (doc # docs)), s2)"
    using Cons.prems(1) IH by (simp add: io_bind_def one rest io_return_def)
  then show ?case using IH eff by simp
qed (simp add: io_return_def)

lemma prepare_generation_effect:
  assumes "prepare_review_generation sha256 encode c docs s = (r, s')" "blobs_named sha256 s"
    "collision_free sha256 s (map (\<lambda>doc. encode (snd (snd doc))) docs)"
  shows "r = Inr \<lparr>generation_comparison = c,
      generation_files = map (prepared_file sha256 encode (comparison_id c)) docs\<rparr>"
    "\<And>doc. doc \<in> set docs \<Longrightarrow> blob_content s' (sha256 (encode (snd (snd doc)))) = Some (encode (snd (snd doc)))"
    "store_db s' = store_db s" "store_fail_next s' = store_fail_next s"
proof -
  obtain r1 s1 where run: "io_map (prepare_file sha256 encode c) docs s = (r1, s1)"
    by (cases "io_map (prepare_file sha256 encode c) docs s")
  note eff = prepare_files_effect [OF run assms(2,3)]
  then have "(r, s') = (Inr \<lparr>generation_comparison = c,
      generation_files = map (prepared_file sha256 encode (comparison_id c)) docs\<rparr>, s1)"
    using assms(1) by (simp add: prepare_review_generation_def io_bind_def run io_return_def)
  then show "r = Inr \<lparr>generation_comparison = c,
      generation_files = map (prepared_file sha256 encode (comparison_id c)) docs\<rparr>"
    "\<And>doc. doc \<in> set docs \<Longrightarrow> blob_content s' (sha256 (encode (snd (snd doc)))) = Some (encode (snd (snd doc)))"
    "store_db s' = store_db s" "store_fail_next s' = store_fail_next s"
    using eff by simp_all
qed

section \<open>Reading a generation back\<close>

lemma sort_key_map: "sort_key f (map g xs) = map g (sort_key (f \<circ> g) xs)"
proof -
  have "insort_key f (g x) (map g ys) = map g (insort_key (f \<circ> g) x ys)" for x ys
    by (induction ys) auto
  then show ?thesis by (induction xs) (simp_all add: sort_key_simps)
qed

lemma try_map_over: "(\<And>x. x \<in> set xs \<Longrightarrow> f (g x) = Inr (h x)) \<Longrightarrow> try_map f (map g xs) = Inr (map h xs)"
  by (induction xs) auto

lemma read_prepared:
  assumes "valid_hash (sha256 (encode (snd (snd doc))))"
    "blob_content s (sha256 (encode (snd (snd doc)))) = Some (encode (snd (snd doc)))"
    "decode (encode (snd (snd doc))) = Some (snd (snd doc))"
  shows "read_review_file_payload decode s (file_row k (prepared_file sha256 encode c doc)) = Inr (snd (snd doc))"
  using assms
  by (auto simp: read_review_file_payload_def file_row_def prepared_file_def get_blob_def blob_content_def ok_or_def)

definition stored_order :: "ComparisonId \<Rightarrow> string \<times> string \<times> 'd \<Rightarrow> string \<times> string" where
  "stored_order c doc = (fst (snd doc), make_storage_id c (fst doc))"

lemma new_generation_rows:
  assumes "insert_review_generation i g d = Inr d'" "db_ok d"
    "generation_files g = map (prepared_file sha256 encode c) docs" "comparison_id (generation_comparison g) = c"
  shows "file_rows_of [c] d' = map (\<lambda>doc. file_row c (prepared_file sha256 encode c doc)) (sort_key (stored_order c) docs)"
proof -
  have "fr_comparison r \<noteq> c" if "r \<in> set (t_files d)" for r
    using refs_D(4) [OF assms(2) that] generation_effect(6) [OF assms(1)] assms(4) by auto
  then have "filter (\<lambda>r. fr_comparison r = c) (t_files d') = map (\<lambda>doc. file_row c (prepared_file sha256 encode c doc)) docs"
    by (simp add: generation_effect(2) [OF assms(1)] assms(3,4) comp_def filter_empty_conv filter_map)
  then have "file_rows_of [c] d' = sort_key (\<lambda>r. (fr_path r, fr_id r)) (map (\<lambda>doc. file_row c (prepared_file sha256 encode c doc)) docs)"
    by (simp add: file_rows_of_def)
  also have "\<dots> = map (\<lambda>doc. file_row c (prepared_file sha256 encode c doc)) (sort_key (stored_order c) docs)"
    unfolding sort_key_map by (simp add: comp_def file_row_def prepared_file_def stored_order_def [abs_def])
  finally show ?thesis .
qed

lemma referenced_iff: "h \<in> set (referenced_blobs d) \<longleftrightarrow> (\<exists>r\<in>set (t_files d). fr_blob_hash r = Some h)"
  by (force simp: referenced_blobs_def split: option.splits)

lemma gc_content:
  assumes "h \<in> set (referenced_blobs (store_db s))"
  shows "blob_content (snd (gc_unreferenced_blobs s)) h = blob_content s h"
proof -
  let ?g = "\<lambda>b. valid_hash (fst b) \<and> fst b \<notin> set (referenced_blobs (store_db s))"
  have "lookup_row fst h (delete_where ?g t) = lookup_row fst h t" for t :: "(string \<times> string) list"
    using assms by (induction t) (auto simp: delete_where_def)
  then show ?thesis by (simp add: blob_content_def gc_unreferenced_blobs_def Let_def)
qed

lemma gc_db [simp]: "store_db (snd (gc_unreferenced_blobs s)) = store_db s"
  by (simp add: gc_unreferenced_blobs_def Let_def)

lemma gc_read:
  assumes "r \<in> set (t_files (store_db s))"
  shows "read_review_file_payload decode (snd (gc_unreferenced_blobs s)) r = read_review_file_payload decode s r"
proof (cases "fr_blob_hash r")
  case (Some h)
  then have "h \<in> set (referenced_blobs (store_db s))" using assms by (auto simp: referenced_iff)
  from gc_content [OF this] have "get_blob \<lparr>blob_sha256 = h, blob_byte_len = n\<rparr> (snd (gc_unreferenced_blobs s))
      = get_blob \<lparr>blob_sha256 = h, blob_byte_len = n\<rparr> s" for n
    by (simp add: get_blob_def blob_content_def)
  with Some show ?thesis by (cases "fr_blob_len r") (simp_all add: read_review_file_payload_def)
qed (simp add: read_review_file_payload_def)


text \<open>C33: the documents of a saved generation are read back, ordered by path: as long as no two
  contents share a hash and the JSON of a document is decoded to the document.\<close>

theorem saved_generation_round_trip:
  assumes "save_review_generation sha256 encode i c docs s = (Inr (), s')" "store_ok sha256 s"
    "collision_free sha256 s (map (\<lambda>doc. encode (snd (snd doc))) docs)"
    "\<And>doc. doc \<in> set docs \<Longrightarrow> valid_hash (sha256 (encode (snd (snd doc))))
      \<and> decode (encode (snd (snd doc))) = Some (snd (snd doc))"
  shows "review_file_payloads_for_comparisons decode [comparison_id c] s' =
    Inr (map (\<lambda>doc. snd (snd doc)) (sort_key (stored_order (comparison_id c)) docs))"
proof -
  let ?g = "\<lparr>generation_comparison = c, generation_files = map (prepared_file sha256 encode (comparison_id c)) docs\<rparr>"
  obtain r s1 where prep: "prepare_review_generation sha256 encode c docs s = (r, s1)"
    by (cases "prepare_review_generation sha256 encode c docs s")
  have named: "blobs_named sha256 s" using assms(2) by (simp add: store_ok_def blobs_named_def)
  note eff = prepare_generation_effect [OF prep named assms(3)]
  from assms(1) have "save_prepared_review_generation i ?g s1 = (Inr (), s')"
    by (simp add: save_review_generation_def io_bind_def prep eff(1))
  then obtain d' where d': "insert_review_generation i ?g (store_db s) = Inr d'" "s' = s1\<lparr>store_db := d'\<rparr>"
    using eff(3) by (auto simp: save_prepared_review_generation_def atomic_def split: sum.splits if_splits)
  have rows: "file_rows_of [comparison_id c] (store_db s') = map (\<lambda>doc. file_row (comparison_id c)
      (prepared_file sha256 encode (comparison_id c) doc)) (sort_key (stored_order (comparison_id c)) docs)"
    using new_generation_rows [OF d'(1) store_ok_db [OF assms(2)], of sha256 encode "comparison_id c" docs] d'(2)
    by simp
  have "blob_content s' h = blob_content s1 h" for h by (simp add: d'(2) blob_content_def)
  then have "read_review_file_payload decode s' (file_row (comparison_id c)
      (prepared_file sha256 encode (comparison_id c) doc)) = Inr (snd (snd doc))" if "doc \<in> set docs" for doc
    using read_prepared [of sha256 encode doc s' decode] assms(4) [OF that] eff(2) [OF that] by simp
  then have "try_map (read_review_file_payload decode s') (file_rows_of [comparison_id c] (store_db s'))
      = Inr (map (\<lambda>doc. snd (snd doc)) (sort_key (stored_order (comparison_id c)) docs))"
    unfolding rows by (intro try_map_over) simp
  then show ?thesis by (simp add: review_file_payloads_for_comparisons_def)
qed

text \<open>Blobs of a generation that is prepared but not yet committed are not protected: when
  garbage is collected in between, the commit still succeeds and the document is lost.\<close>

theorem prepared_blob_can_vanish:
  assumes "prepare_review_generation sha256 encode c [(file, path, doc)] s = (Inr g, s1)"
    "save_prepared_review_generation i g (snd (gc_unreferenced_blobs s1)) = (Inr (), s2)"
    "store_ok sha256 s" "store_blobs s = []" "valid_hash (sha256 (encode doc))"
    "sha256 (encode doc) \<notin> set (referenced_blobs (store_db s))"
  shows "review_file_payloads_for_comparisons decode [comparison_id c] s2 = Inl (MissingBlob (sha256 (encode doc)))"
proof -
  let ?h = "sha256 (encode doc)"
  have named: "blobs_named sha256 s" and free: "collision_free sha256 s (map (\<lambda>doc. encode (snd (snd doc))) [(file, path, doc)])"
    by (simp_all add: blobs_named_def collision_free_def assms(4))
  note eff = prepare_generation_effect [OF assms(1) named free]
  have "store_blobs s1 = [(?h, encode doc)]"
    using assms(1,4) by (auto simp: prepare_review_generation_def prepare_file_def io_bind_def io_return_def
        put_blob_def Let_def split: prod.splits sum.splits if_splits)
  then have gone: "store_blobs (snd (gc_unreferenced_blobs s1)) = []"
    using assms(5,6) eff(3) by (simp add: gc_unreferenced_blobs_def Let_def delete_where_def)
  from assms(2) obtain d' where d': "insert_review_generation i g (store_db s) = Inr d'"
    "s2 = (snd (gc_unreferenced_blobs s1))\<lparr>store_db := d'\<rparr>"
    using eff(3) by (auto simp: save_prepared_review_generation_def atomic_def split: sum.splits if_splits)
  have "file_rows_of [comparison_id c] d' = [file_row (comparison_id c)
      (prepared_file sha256 encode (comparison_id c) (file, path, doc))]"
    using new_generation_rows [OF d'(1) store_ok_db [OF assms(3)], of sha256 encode "comparison_id c" "[(file, path, doc)]"]
      eff(1) by simp
  then show ?thesis using gone assms(5) d'(2)
    by (simp add: review_file_payloads_for_comparisons_def read_review_file_payload_def file_row_def
        prepared_file_def get_blob_def ok_or_def)
qed


section \<open>A concrete generation\<close>

definition demo_repository :: Repository where
  "demo_repository = \<lparr>repository_id = RepositoryId 4, repository_workspace_id = WorkspaceId 1,
    repository_relative_path = StoredPath ''.'', repository_worktree_path = StoredPath ''/demo'',
    repository_git_common_dir = None, repository_primary_remote = None, repository_enabled = True,
    repository_base_override = None, repository_current_branch = Unborn, repository_last_base_sha = None,
    repository_last_fetch_at = None, repository_last_fetch_error = None, repository_discovery_error = None,
    repository_comparison_error = None\<rparr>"

definition demo_comparison :: "uuid \<Rightarrow> RepositoryComparison" where
  "demo_comparison u = \<lparr>comparison_id = ComparisonId u, comparison_repository_id = RepositoryId 4,
    comparison_requested_base = BaseReference ''main'', comparison_base_tip_sha = GitSha ''a'',
    comparison_merge_base_sha = GitSha ''a'', comparison_head_sha = None, comparison_head = Unborn,
    comparison_index_fingerprint = ContentFingerprint [], comparison_working_tree_fingerprint = ContentFingerprint [],
    comparison_untracked_files = [],
    comparison_options = \<lparr>ignore_all_whitespace = False, ignore_space_at_eol = False,
      ignore_cr_at_eol = False, path_filters = []\<rparr>,
    comparison_captured_at = 6\<rparr>"

definition demo_review_store :: Store where
  "demo_review_store = empty_store\<lparr>store_db := empty_db\<lparr>t_workspaces := [demo_workspace],
    t_repositories := [\<lparr>rr_workspace = WorkspaceId 1, rr_repository = demo_repository\<rparr>],
    t_sessions := [\<lparr>sr_workspace = WorkspaceId 1, sr_started_at = 5, sr_session = demo_session\<rparr>],
    t_sets := [\<lparr>set_row_session = ReviewSessionId 2, set_row_sequence = 1, set_row_payload = demo_set\<rparr>]\<rparr>\<rparr>"

lemma demo_review_store_ok: "store_ok sha256 demo_review_store"
  by (simp add: store_ok_def demo_review_store_def empty_store_def empty_db_def schema_defs active_sessions_def
      rr_id_def sr_id_def set_row_id_def rr_unique_def set_unique_def demo_workspace_def demo_repository_def
      demo_session_def demo_set_def)

definition constant_hash :: "string \<Rightarrow> string" where "constant_hash s = replicate 64 CHR ''0''"

lemma valid_constant_hash [simp]: "valid_hash (constant_hash s)"
  by (simp add: valid_hash_def constant_hash_def is_hexdigit_def is_digit_def list_all_iff)

lemma saved_generation_round_trip_witness:
  "review_file_payloads_for_comparisons Some [ComparisonId 7]
    (snd (save_review_generation constant_hash id (ReviewSessionId 2) (demo_comparison 7)
      [(''f'', ''a.rs'', ''text'')] demo_review_store)) = Inr [''text'']"
proof -
  let ?run = "save_review_generation constant_hash id (ReviewSessionId 2) (demo_comparison 7)
    [(''f'', ''a.rs'', ''text'')] demo_review_store"
  have "is_ok (fst ?run)" by code_simp
  then have run: "?run = (Inr (), snd ?run)" by (cases ?run) (auto simp: is_ok_iff)
  have free: "collision_free constant_hash demo_review_store (map (\<lambda>doc. id (snd (snd doc))) [(''f'', ''a.rs'', ''text'')])"
    by (simp add: collision_free_def demo_review_store_def empty_store_def)
  have "comparison_id (demo_comparison 7) = ComparisonId 7" by (simp add: demo_comparison_def)
  with saved_generation_round_trip [OF run demo_review_store_ok free, of Some] show ?thesis by simp
qed

lemma prepared_blob_can_vanish_witness:
  "\<exists>s. review_file_payloads_for_comparisons Some [ComparisonId 7] s = Inl (MissingBlob (constant_hash ''text''))"
proof -
  let ?prep = "prepare_review_generation constant_hash id (demo_comparison 7) [(''f'', ''a.rs'', ''text'')] demo_review_store"
  obtain g s1 where prep: "?prep = (Inr g, s1)"
    by (auto simp: prepare_review_generation_def prepare_file_def io_bind_def io_return_def put_blob_def Let_def
        split: prod.splits sum.splits)
  let ?commit = "save_prepared_review_generation (ReviewSessionId 2) (projr (fst ?prep)) (snd (gc_unreferenced_blobs (snd ?prep)))"
  have "is_ok (fst ?commit)" by code_simp
  then have commit: "save_prepared_review_generation (ReviewSessionId 2) g (snd (gc_unreferenced_blobs s1)) = (Inr (), snd ?commit)"
    unfolding prep by (cases ?commit) (auto simp: is_ok_iff prep)
  have "comparison_id (demo_comparison 7) = ComparisonId 7" by (simp add: demo_comparison_def)
  moreover have "store_blobs demo_review_store = []" "referenced_blobs (store_db demo_review_store) = []"
    by (simp_all add: demo_review_store_def empty_store_def empty_db_def referenced_blobs_def)
  ultimately show ?thesis
    using prepared_blob_can_vanish [OF prep commit demo_review_store_ok, of Some] by auto
qed

end
