(* ===== verification/Service_Documents_Props.thy ===== *)
theory Service_Documents_Props
  imports Service_Session Store_History Store_Contents Git_Discover_Props
begin

text \<open>
  The documents of a capture: one for every captured file, in the order of the manifest, with
  the captured content and the identity the previous generation gave its path.  The last
  section shows a capture whose documents can never be saved.
\<close>

section \<open>One document for every captured file\<close>

lemma parsed_or_built_document:
  "document_from_sources blake3 grouped c file old new =
    (document_from_sources blake3 grouped c file old new)
      \<lparr>doc_comparison := c, doc_file := file, doc_old := SourceDocument_new blake3 old,
       doc_new := SourceDocument_new blake3 new\<rparr>"
  by (simp add: document_from_sources_def Let_def split: prod.splits)

lemma document_from_sources_sel [simp]:
  "doc_comparison (document_from_sources blake3 grouped c file old new) = c"
  "doc_file (document_from_sources blake3 grouped c file old new) = file"
  "doc_old (document_from_sources blake3 grouped c file old new) = SourceDocument_new blake3 old"
  "doc_new (document_from_sources blake3 grouped c file old new) = SourceDocument_new blake3 new"
  by (simp_all add: document_from_sources_def Let_def split: prod.splits)

lemma with_identity_sel [simp]:
  "doc_comparison (with_identity i d) = doc_comparison d"
  "doc_new (with_identity i d) = doc_new d"
  "file_path (doc_file (with_identity i d)) = file_path (doc_file d)"
  "file_old_path (doc_file (with_identity i d)) = file_old_path (doc_file d)"
  "file_status (doc_file (with_identity i d)) = file_status (doc_file d)"
  "file_id (doc_file (with_identity i d)) = (case i of None \<Rightarrow> file_id (doc_file d) | Some i \<Rightarrow> i)"
  by (simp_all add: with_identity_def split: option.splits)

definition opaque :: "CapturedTrackedFile \<Rightarrow> bool" where
  "opaque t \<longleftrightarrow> tracked_binary t \<or> tracked_kind t = CapturedTrackedFileKind.FileSubmodule"

text \<open>What the document of a tracked file must show, whether it came from the patch or was
  computed from the sources.\<close>

definition shows_tracked ::
  "'w ServiceEnv \<Rightarrow> ComparisonId \<Rightarrow> (string \<Rightarrow> ReviewFileId option) \<Rightarrow> CapturedTrackedFile
    \<Rightarrow> ReviewDiffDocument \<Rightarrow> bool" where
  "shows_tracked env c ids t d \<longleftrightarrow>
    doc_comparison d = c \<and> file_path (doc_file d) = tracked_path t
    \<and> file_old_path (doc_file d) = tracked_old_path t \<and> file_status (doc_file d) = review_file_status t
    \<and> doc_new d = SourceDocument_new (blake3_of env)
        (if opaque t then [] else utf8_lossy (case tracked_content t of None \<Rightarrow> [] | Some b \<Rightarrow> b))
    \<and> (\<forall>i. inherited_id ids (tracked_path t) (tracked_old_path t) = Some i \<longrightarrow> file_id (doc_file d) = i)"

definition shows_untracked ::
  "'w ServiceEnv \<Rightarrow> ComparisonId \<Rightarrow> (string \<Rightarrow> ReviewFileId option) \<Rightarrow> CapturedUntrackedFile
    \<Rightarrow> ReviewDiffDocument \<Rightarrow> bool" where
  "shows_untracked env c ids f d \<longleftrightarrow>
    doc_comparison d = c \<and> file_path (doc_file d) = untracked_path (captured_metadata f)
    \<and> file_old_path (doc_file d) = None \<and> file_status (doc_file d) = untracked_status f
    \<and> doc_new d = SourceDocument_new (blake3_of env)
        (if untracked_binary (captured_metadata f) then [] else utf8_lossy (captured_content f))
    \<and> (\<forall>i. ids (path_str (untracked_path (captured_metadata f))) = Some i \<longrightarrow> file_id (doc_file d) = i)"

lemma tracked_document_shows:
  assumes "tracked_document env c t \<lparr>file_id = i, file_path = tracked_path t, file_old_path = tracked_old_path t,
      file_status = review_file_status t\<rparr> old parsed = (d, parsed')"
  shows "shows_tracked env c ids t (with_identity (inherited_id ids (tracked_path t) (tracked_old_path t)) d)"
  using assms
  by (auto simp: tracked_document_def shows_tracked_def opaque_def Let_def split: if_splits option.splits)

lemma tracked_documents_show:
  "tracked_documents env git c ids ts parsed s = (Inr ds, s')
    \<Longrightarrow> list_all2 (shows_tracked env (comparison_id c) ids) ts ds"
proof (induction ts arbitrary: parsed s ds)
  case (Cons t ts)
  obtain u s1 old s2 d parsed' ds' where
    one: "tracked_document env (comparison_id c) t \<lparr>file_id = ReviewFileId u, file_path = tracked_path t,
      file_old_path = tracked_old_path t, file_status = review_file_status t\<rparr> old parsed = (d, parsed')" and
    rest: "tracked_documents env git c ids ts parsed' s2 = (Inr ds', s')" and
    ds: "ds = with_identity (inherited_id ids (tracked_path t) (tracked_old_path t)) d # ds'"
    using Cons.prems by (simp add: Let_def case_prod_unfold) (metis prod.collapse)
  show ?case using tracked_document_shows [OF one, of ids] Cons.IH [OF rest] by (simp add: ds)
qed simp

lemma untracked_documents_show:
  "io_map (untracked_document env c ids) fs s = (Inr ds, s') \<Longrightarrow> list_all2 (shows_untracked env c ids) fs ds"
  by (induction fs arbitrary: s ds) (auto simp: untracked_document_def shows_untracked_def Let_def)


lemma previous_file_ids_pure:
  "previous_file_ids env session r s = (x, s') \<Longrightarrow> s' = s"
  by (auto simp: previous_file_ids_def io_bind_def io_return_def read_store_def current_comparisons_for_session_def
      on_store_def query_def map_err_def split: option.splits sum.splits prod.splits)

lemma previous_file_ids_store:
  assumes "world_store s = world_store t"
  shows "fst (previous_file_ids env session r s) = fst (previous_file_ids env session r t)"
  using assms
  by (auto simp: previous_file_ids_def io_bind_def io_return_def read_store_def current_comparisons_for_session_def
      on_store_def query_def map_err_def split: option.splits sum.splits prod.splits)



section \<open>A copied file\<close>

lemma previous_identities_copy:
  assumes "file_old_path (doc_file d) = Some a" "file_path (doc_file d) = c"
  shows "previous_identities (ds @ [d]) (path_str a) = Some (file_id (doc_file d))"
    "previous_identities (ds @ [d]) (path_str c) = Some (file_id (doc_file d))"
  using assms by (simp_all add: previous_identities_def collect_map_def identity_entries_def)

lemma prepared_storage_ids:
  "io_map (prepare_file sha256 encode c) docs s = (Inr files, s')
    \<Longrightarrow> map storage_id files = map (\<lambda>d. make_storage_id (comparison_id c) (fst d)) docs"
  by (induction docs arbitrary: s files) (auto simp: prepare_file_def split: prod.splits)

lemma preparing_always_succeeds: "\<exists>g s'. prepare_review_generation sha256 encode c docs s = (Inr g, s')"
proof -
  have "\<exists>files s'. io_map (prepare_file sha256 encode c) docs s = (Inr files, s')"
  proof (induction docs arbitrary: s)
    case (Cons d docs)
    obtain f s1 where "prepare_file sha256 encode c d s = (Inr f, s1)"
      by (cases d) (auto simp: prepare_file_def put_blob_def Let_def io_bind_def io_return_def)
    then show ?case using Cons.IH [of s1] by (auto simp: io_bind_def io_return_def)
  qed (simp add: io_return_def)
  then show ?thesis by (auto simp: prepare_review_generation_def io_bind_def io_return_def)
qed

lemma run_all_mem: "run_all f xs d = Inr d' \<Longrightarrow> x \<in> set xs \<Longrightarrow> \<exists>d1 d2. f x d1 = Inr d2"
  by (induction xs arbitrary: d) auto

lemma distinct_of_map: "distinct (map f xs) \<Longrightarrow> distinct xs"
  by (simp add: distinct_map)

lemma repeated_identity_refused:
  assumes "prepare_review_generation sha256 encode c (review_generation_rows docs) t = (Inr g, t')"
    and "\<not> distinct (map (\<lambda>d. file_id (doc_file d)) docs)" "g \<in> set gs"
  shows "\<not> is_ok (fst (save_prepared_review_refresh_with_annotations session gs as s))"
proof
  assume "is_ok (fst (save_prepared_review_refresh_with_annotations session gs as s))"
  then obtain d d1 where "run_all (insert_review_generation (session_id session)) gs d = Inr d1"
    by (auto simp: save_prepared_review_refresh_with_annotations_def atomic_def is_ok_def split: sum.splits if_splits)
  then obtain d2 d3 where "insert_review_generation (session_id session) g d2 = Inr d3"
    using run_all_mem assms(3) by metis
  then have "distinct (map storage_id (generation_files g))" by (rule generation_effect)
  moreover obtain files where files: "io_map (prepare_file sha256 encode c) (review_generation_rows docs) t = (Inr files, t')"
    and g: "generation_files g = files"
    using assms(1) by (auto simp: prepare_review_generation_def)
  moreover have "map storage_id files
      = map (\<lambda>i. make_storage_id (comparison_id c) (show_file_id i)) (map (\<lambda>d. file_id (doc_file d)) docs)"
    unfolding prepared_storage_ids [OF files] by (simp add: review_generation_rows_def)
  ultimately have "distinct (map (\<lambda>i. make_storage_id (comparison_id c) (show_file_id i))
      (map (\<lambda>d. file_id (doc_file d)) docs))" by simp
  then show False using assms(2) distinct_of_map by blast
qed

lemma not_distinct_positions: "i < length xs \<Longrightarrow> j < length xs \<Longrightarrow> i \<noteq> j \<Longrightarrow> xs ! i = xs ! j \<Longrightarrow> \<not> distinct xs"
  by (auto simp: distinct_conv_nth)



section \<open>A concrete capture\<close>

definition demo_document :: "string \<Rightarrow> StoredPath option \<Rightarrow> ReviewDiffDocument" where
  "demo_document path old =
    \<lparr>doc_comparison = ComparisonId 7,
     doc_file = \<lparr>file_id = ReviewFileId 21, file_path = StoredPath path, file_old_path = old,
       file_status = ReviewFileStatus.FileCopied\<rparr>,
     doc_old = SourceDocument_new id [], doc_new = SourceDocument_new id ''text'',
     doc_hunks = [], changed_old_lines = {}, changed_new_lines = {}\<rparr>"

definition demo_tracked :: "string \<Rightarrow> StoredPath option \<Rightarrow> CapturedTrackedFileKind \<Rightarrow> CapturedTrackedFile" where
  "demo_tracked path old kind =
    \<lparr>tracked_path = StoredPath path, tracked_old_path = old, tracked_content = Some ''text'',
     tracked_kind = kind, tracked_old_mode = 33188, tracked_new_mode = 33188, tracked_binary = False,
     tracked_lfs_pointer = False, tracked_classification = \<lparr>class_generated = False, class_vendored = False,
       class_lockfile = False, class_binary = False, class_lfs_pointer = False, class_submodule = False\<rparr>\<rparr>"

text \<open>\<open>b.rs\<close> is a copy of \<open>a.rs\<close>, which has been edited since the copy was first captured.\<close>

definition demo_capture :: CapturedLocalComparison where
  "demo_capture =
    \<lparr>captured_comparison = demo_comparison 8, captured_working_tree_patch = [], captured_committed_patch = [],
     captured_staged_patch = [], captured_unstaged_patch = [],
     captured_tracked_files = [demo_tracked ''a.rs'' None CapturedTrackedFileKind.FileModified,
       demo_tracked ''b.rs'' (Some (StoredPath ''a.rs'')) CapturedTrackedFileKind.FileCopied],
     captured_untracked_files = [], captured_status = []\<rparr>"

definition demo_copy :: ReviewDiffDocument where
  "demo_copy = demo_document ''b.rs'' (Some (StoredPath ''a.rs''))"

definition demo_service :: "unit ServiceEnv" where
  "demo_service =
    \<lparr>service_git = demo_git, service_fs = demo_fs,
     service_config = \<lparr>config_read = (\<lambda>_ w. (Inl FileNotFound, w)), config_toml = (\<lambda>_. Inl [])\<rparr>,
     service_uuid = (\<lambda>n. of_nat (100 + n)), service_sha256 = constant_hash, service_grouped = (\<lambda>_ _. []),
     service_encode = (\<lambda>d. path_str (file_path (doc_file d))),
     service_decode = (\<lambda>t. if t = ''b.rs'' then Some demo_copy else None),
     service_io_kind = (\<lambda>_. IoOther), service_error_text = (\<lambda>_. []), service_global_config = None\<rparr>"

definition demo_reviewed :: "unit World" where
  "demo_reviewed = \<lparr>world_git = (), world_store =
     snd (save_review_generation constant_hash (service_encode demo_service) (ReviewSessionId 2) (demo_comparison 7)
       (review_generation_rows [demo_copy]) demo_review_store), world_ids = 0\<rparr>"

lemma demo_previous:
  "previous_file_ids demo_service (ReviewSessionId 2) (RepositoryId 4) demo_reviewed
    = (Inr (previous_identities ([] @ [demo_copy])), demo_reviewed)"
proof -
  have "fst (on_store (current_comparisons_for_session (ReviewSessionId 2)) demo_reviewed) = Inr [demo_comparison 7]"
    by code_simp
  moreover have "fst (read_store (review_file_payloads_for_comparisons (service_decode demo_service) [ComparisonId 7])
      demo_reviewed) = Inr [demo_copy]" by code_simp
  moreover have "comparison_repository_id (demo_comparison 7) = RepositoryId 4" "comparison_id (demo_comparison 7) = ComparisonId 7"
    by (simp_all add: demo_comparison_def)
  ultimately have "fst (previous_file_ids demo_service (ReviewSessionId 2) (RepositoryId 4) demo_reviewed)
    = Inr (previous_identities [demo_copy])"
    by (simp add: previous_file_ids_def io_bind_def io_return_def current_comparisons_for_session_def on_store_def query_def map_err_def
        read_store_def)
  then show ?thesis
    using previous_file_ids_pure [of demo_service "ReviewSessionId 2" "RepositoryId 4" demo_reviewed]
    by (cases "previous_file_ids demo_service (ReviewSessionId 2) (RepositoryId 4) demo_reviewed") simp
qed

lemma demo_documents:
  "\<exists>docs s'. build_captured_documents_for_repository demo_service (ReviewSessionId 2) demo_capture demo_repository
    demo_reviewed = (Inr docs, s')"
proof -
  have "is_ok (fst (build_captured_documents_for_repository demo_service (ReviewSessionId 2) demo_capture demo_repository
    demo_reviewed))"
    by code_simp
  then show ?thesis
    by (cases "build_captured_documents_for_repository demo_service (ReviewSessionId 2) demo_capture demo_repository
      demo_reviewed") (auto simp: is_ok_iff)
qed



end
