(* ===== verification/Service_Session_Props.thy ===== *)
theory Service_Session_Props
  imports Service_Documents_Props
begin

text \<open>
  What the orchestration of a review guarantees: one document for every captured file, failures
  that stay with their repository, and a durable review that changes only when a whole start or
  refresh is committed.
\<close>

named_theorems keeps_db_intros \<open>operations that leave the database as it is\<close>

section \<open>The database is written only by the commit\<close>

definition keeps_db :: "('w, 'a) service \<Rightarrow> bool" where
  "keeps_db m \<longleftrightarrow> (\<forall>s. store_db (world_store (snd (m s))) = store_db (world_store s))"

lemma keeps_dbD: "keeps_db m \<Longrightarrow> m s = (r, s') \<Longrightarrow> store_db (world_store s') = store_db (world_store s)"
  unfolding keeps_db_def by (metis snd_conv)

lemma keeps_db_bind [keeps_db_intros]:
  assumes "keeps_db m" "\<And>x. keeps_db (k x)"
  shows "keeps_db (io_bind m k)"
  unfolding keeps_db_def io_bind_def
  using keeps_dbD [OF assms(1)] assms(2) unfolding keeps_db_def
  by (auto split: prod.splits sum.splits)

lemma keeps_db_return [keeps_db_intros]: "keeps_db (io_return r)"
  by (simp add: keeps_db_def io_return_def)

lemma keeps_db_require [keeps_db_intros]: "keeps_db (require e x)"
  by (simp add: require_def keeps_db_return)

lemma keeps_db_git [keeps_db_intros]: "keeps_db (on_git m)"
  by (simp add: keeps_db_def on_git_def split: prod.splits)

lemma keeps_db_world [keeps_db_intros]: "keeps_db (on_world m)"
  by (simp add: keeps_db_def on_world_def split: prod.splits)

lemma keeps_db_effects [keeps_db_intros]: "keeps_db (fresh_uuid env)" "keeps_db (utc_now env)" "keeps_db (read_store f)"
  "keeps_db (parse_patch env patch c)"
  by (simp_all add: keeps_db_def fresh_uuid_def utc_now_def read_store_def parse_patch_def Let_def split: prod.splits)

lemma keeps_db_store:
  "(\<And>s. store_db (snd (m s)) = store_db s) \<Longrightarrow> keeps_db (on_store m)"
  unfolding keeps_db_def on_store_def by (simp split: prod.splits) (metis snd_conv)

lemma keeps_db_query [keeps_db_intros]: "keeps_db (on_store (query f))"
  by (rule keeps_db_store) (simp add: query_def)

lemma keeps_db_if [keeps_db_intros]: "keeps_db a \<Longrightarrow> keeps_db b \<Longrightarrow> keeps_db (if c then a else b)"
  by simp

lemma keeps_db_option [keeps_db_intros]:
  "keeps_db a \<Longrightarrow> (\<And>x. keeps_db (b x)) \<Longrightarrow> keeps_db (case x of None \<Rightarrow> a | Some x \<Rightarrow> b x)"
  by (cases x) simp_all

lemma keeps_db_Let [keeps_db_intros]: "(\<And>x. keeps_db (k x)) \<Longrightarrow> keeps_db (Let x k)"
  by simp

lemma keeps_db_pair [keeps_db_intros]: "(\<And>a b. keeps_db (k a b)) \<Longrightarrow> keeps_db (case p of (a, b) \<Rightarrow> k a b)"
  by (cases p) simp

lemma attempt_eq:
  "attempt m s = (case m s of (r, s') \<Rightarrow> (if r = Inl ServicePanic then Inl ServicePanic else Inr r, s'))"
  by (simp add: attempt_def split: prod.splits sum.splits ServiceError.splits)

lemma keeps_db_attempt [keeps_db_intros]: "keeps_db m \<Longrightarrow> keeps_db (attempt m)"
  unfolding keeps_db_def by (auto simp: attempt_eq split: prod.splits) (metis snd_conv)+

lemma keeps_db_map [keeps_db_intros]: "(\<And>x. keeps_db (f x)) \<Longrightarrow> keeps_db (io_map f xs)"
  by (induction xs) (auto intro!: keeps_db_intros)

lemmas store_queries = current_comparisons_for_session_def workspace_def workspaces_def repositories_def
  repositories_for_id_def review_sessions_for_id_def review_sessions_def comparisons_for_session_def
  active_annotation_set_def annotations_def

lemma keeps_db_queries [keeps_db_intros]:
  "keeps_db (on_store (current_comparisons_for_session i))" "keeps_db (on_store (workspace w))"
  "keeps_db (on_store (repositories w))" "keeps_db (on_store (repositories_for_id ri))"
  "keeps_db (on_store (review_sessions_for_id i))" "keeps_db (on_store (active_annotation_set i))"
  "keeps_db (on_store (annotations si))" "keeps_db (on_store (comparisons_for_session i))"
  by (simp_all add: store_queries keeps_db_query)

definition same_db :: "'a store_op \<Rightarrow> bool" where
  "same_db m \<longleftrightarrow> (\<forall>s. store_db (snd (m s)) = store_db s)"

lemma same_db_bind: "same_db m \<Longrightarrow> (\<And>x. same_db (k x)) \<Longrightarrow> same_db (io_bind m k)"
  unfolding same_db_def io_bind_def by (auto split: prod.splits sum.splits) (metis snd_conv)+

lemma same_db_return: "same_db (io_return r)"
  by (simp add: same_db_def io_return_def)

lemma same_db_put: "same_db (put_blob sha256 bytes)"
  by (simp add: same_db_def put_blob_def Let_def)

lemma same_db_file: "same_db (prepare_file sha256 encode c doc)"
  unfolding prepare_file_def by (cases doc) (simp add: same_db_bind same_db_put same_db_return)

lemma same_db_files: "same_db (io_map (prepare_file sha256 encode c) docs)"
  by (induction docs) (auto intro!: same_db_bind same_db_return same_db_file)

lemma keeps_db_prepare [keeps_db_intros]:
  "keeps_db (on_store (prepare_review_generation sha256 encode c docs))"
proof -
  have "same_db (prepare_review_generation sha256 encode c docs)"
    unfolding prepare_review_generation_def by (intro same_db_bind same_db_files same_db_return)
  then show ?thesis by (intro keeps_db_store) (simp add: same_db_def)
qed

lemma keeps_db_tracked [keeps_db_intros]: "keeps_db (tracked_documents env git c ids ts parsed)"
  by (induction ts arbitrary: parsed) (auto intro!: keeps_db_intros simp del: split_paired_All)

lemma keeps_db_capture [keeps_db_intros]: "keeps_db (capture_repository env i r base opts previous)"
  unfolding capture_repository_def build_captured_documents_def build_captured_documents_for_repository_def
    previous_file_ids_def untracked_document_def prepare_reanchored_annotations_def
  by (intro keeps_db_intros)

lemma keeps_db_captures [keeps_db_intros]: "keeps_db (capture_repositories env i base opts refresh rs)"
  by (induction rs) (auto intro!: keeps_db_intros)

section \<open>A failed operation rolls back\<close>

definition rolls_back :: "('w, 'a) service \<Rightarrow> bool" where
  "rolls_back m \<longleftrightarrow> (\<forall>s e s'. m s = (Inl e, s') \<longrightarrow> store_db (world_store s') = store_db (world_store s))"

lemma rolls_back_bind: "keeps_db m \<Longrightarrow> (\<And>x. rolls_back (k x)) \<Longrightarrow> rolls_back (io_bind m k)"
  unfolding rolls_back_def io_bind_def
  by (auto split: prod.splits sum.splits dest: keeps_dbD)

lemma rolls_back_then: "rolls_back m \<Longrightarrow> rolls_back (io_bind m (\<lambda>x. io_return (Inr (f x))))"
  unfolding rolls_back_def io_bind_def io_return_def by (auto split: prod.splits sum.splits)

lemma keeps_rolls_back: "keeps_db m \<Longrightarrow> rolls_back m"
  unfolding rolls_back_def by (auto dest: keeps_dbD)

lemma rolls_back_atomic: "rolls_back (on_store (atomic f))"
  unfolding rolls_back_def on_store_def atomic_def map_err_def by (auto split: sum.splits if_splits prod.splits)

lemma rolls_back_split:
  "rolls_back a \<Longrightarrow> rolls_back b \<Longrightarrow> rolls_back (if c then a else b)"
  "(\<And>x. rolls_back (k x)) \<Longrightarrow> rolls_back (Let x k)"
  "(\<And>x y. rolls_back (k' x y)) \<Longrightarrow> rolls_back (case p of (x, y) \<Rightarrow> k' x y)"
  by (simp_all split: prod.splits)

lemma start_rolls_back: "rolls_back (start_local_review env request)"
  unfolding start_local_review_def replace_active_review_def replace_active_review_with_setting_def
  by (intro rolls_back_bind rolls_back_split rolls_back_then rolls_back_atomic keeps_db_intros keeps_rolls_back)

lemma refresh_rolls_back: "rolls_back (refresh_local_review env i application overrides opts)"
  unfolding refresh_local_review_def save_prepared_review_refresh_with_annotations_def
  by (intro rolls_back_bind rolls_back_split rolls_back_then rolls_back_atomic keeps_db_intros keeps_rolls_back)

section \<open>Failures stay with their repository\<close>

lemma query_always_answers: "on_store (query f) s = (Inr (f (store_db (world_store s))), s)"
  by (simp add: on_store_def query_def map_err_def)

lemma require_eq [simp]: "require e x s = (Inr y, s') \<longleftrightarrow> x = Some y \<and> s' = s"
  by (cases x) (auto simp: require_def io_return_def ok_or_def)

lemma query_eq [simp]: "on_store (query f) s = (r, s') \<longleftrightarrow> r = Inr (f (store_db (world_store s))) \<and> s' = s"
  by (auto simp: query_always_answers)

lemma lookup_row_key: "lookup_row key k t = Some r \<Longrightarrow> key r = k"
  by (induction t) (auto split: if_splits)

lemma failure_repository_of [simp]: "failure_repository (repository_failure env r b e) = repository_id r"
  by (simp add: repository_failure_def)

lemma capture_repositories_total:
  "capture_repositories env i base opts refresh rs s = (x, s') \<Longrightarrow>
    x = Inl ServicePanic
    \<or> (\<exists>prepared failures. x = Inr (prepared, failures) \<and> length prepared + length failures = length rs
        \<and> subseq (map failure_repository failures) (map repository_id rs))"
proof (induction rs arbitrary: s x s')
  case (Cons r rs)
  let ?previous = "if refresh then find (\<lambda>c. comparison_repository_id c = repository_id r)
    (current_comparisons_of i (store_db (world_store s))) else None"
  obtain y s1 where attempt: "capture_repository env i r (base r) opts ?previous s = (y, s1)"
    by (cases "capture_repository env i r (base r) opts ?previous s")
  have unfold: "capture_repositories env i base opts refresh (r # rs) s =
    io_bind (attempt (capture_repository env i r (base r) opts ?previous)) (\<lambda>operation.
      io_bind (capture_repositories env i base opts refresh rs) (\<lambda>(prepared, failures).
      io_return (Inr (case operation of Inr p \<Rightarrow> (p # prepared, failures)
        | Inl e \<Rightarrow> (prepared, repository_failure env r (base r) e # failures))))) s"
    by (cases refresh) (simp_all add: io_bind_def io_return_def current_comparisons_for_session_def query_always_answers)
  show ?case
  proof (cases "y = Inl ServicePanic")
    case True
    then show ?thesis using Cons.prems unfolding unfold by (simp add: io_bind_def attempt_eq attempt)
  next
    case False
    obtain z s2 where rest: "capture_repositories env i base opts refresh rs s1 = (z, s2)"
      by (cases "capture_repositories env i base opts refresh rs s1")
    show ?thesis
      using Cons.prems Cons.IH [OF rest] False unfolding unfold
      by (cases y) (auto simp: io_bind_def io_return_def attempt_eq attempt rest
        split: prod.splits sum.splits)
  qed
qed (simp add: io_return_def)

lemma start_success:
  assumes "start_local_review env request s = (Inr result, s')"
  obtains w session base s1 s2 prepared where
    "workspace_of (start_workspace request) (store_db (world_store s)) = Some w"
    "capture_repositories env session base (start_options request) False
      (filter repository_enabled (repositories_of (workspace_id w) (store_db (world_store s)))) s1
      = (Inr (prepared, result_failures result), s2)"
    "filter repository_enabled (repositories_of (workspace_id w) (store_db (world_store s))) = [] \<or> prepared \<noteq> []"
    "result_captures result = map prepared_capture prepared"
  using assms unfolding start_local_review_def Let_def workspace_def repositories_def
  apply (clarsimp split: prod.splits if_splits)
  apply (drule keeps_dbD [OF keeps_db_effects(1)] keeps_dbD [OF keeps_db_effects(2)])+
  apply (elim disjE conjE exE)
  by simp_all



definition demo_start :: StartReviewRequest where
  "demo_start = \<lparr>start_workspace = WorkspaceId 1, start_application_default = BaseReference ''main'',
    start_temporary_overrides = (\<lambda>_. None), start_options = comparison_options (demo_comparison 7)\<rparr>"


end
