(* ===== verification/Service_Prompt_Props.thy ===== *)
theory Service_Prompt_Props
  imports Service_Prompt "HOL-Library.Multiset"
begin

text \<open>
  What a prompt promises: quoted source cannot leave its fence, names and paths cannot leave
  their code span, every selected annotation is in it, and it does not depend on the order
  the annotations are stored in.
\<close>

section \<open>Fences\<close>

lemma split_by_not_Nil [simp]: "split_by f s \<noteq> []"
  by (induction s) (auto split: list.splits)

text \<open>A run that occurs in a text is no longer than the longest run.\<close>

lemma hd_split_by: "hd (split_by f s) = takeWhile (\<lambda>c. \<not> f c) s"
proof (induction s)
  case (Cons a s)
  then show ?case by (cases "split_by f s") auto
qed simp

lemma split_by_Cons_piece:
  assumes "p \<in> set (split_by f s)" shows "\<exists>q\<in>set (split_by f (x # s)). length p \<le> length q"
proof (cases "f x")
  case False
  obtain q qs where "split_by f s = q # qs" by (cases "split_by f s") auto
  with assms False show ?thesis by auto
qed (use assms in auto)

lemma run_le_piece:
  "\<exists>p\<in>set (split_by (\<lambda>d. d \<noteq> c) (a @ replicate n c @ b)). n \<le> length p"
proof (induction a)
  case Nil
  have "takeWhile (\<lambda>d. \<not> d \<noteq> c) (replicate n c @ b) = replicate n c @ takeWhile (\<lambda>d. \<not> d \<noteq> c) b"
    by (rule takeWhile_append2) simp
  then have "n \<le> length (hd (split_by (\<lambda>d. d \<noteq> c) (replicate n c @ b)))" by (simp add: hd_split_by)
  moreover have "hd (split_by (\<lambda>d. d \<noteq> c) (replicate n c @ b))
      \<in> set (split_by (\<lambda>d. d \<noteq> c) (replicate n c @ b))" by simp
  ultimately show ?case by auto
next
  case (Cons x a)
  then obtain p where "p \<in> set (split_by (\<lambda>d. d \<noteq> c) (a @ replicate n c @ b))" "n \<le> length p" by blast
  with split_by_Cons_piece [of p "\<lambda>d. d \<noteq> c" "a @ replicate n c @ b" x] show ?case
    using le_trans by (metis append_Cons)
qed

lemma run_le_longest:
  assumes "s = a @ replicate n c @ b" shows "n \<le> longest_run c s"
proof -
  obtain p where "p \<in> set (split_by (\<lambda>d. d \<noteq> c) s)" "n \<le> length p"
    using run_le_piece [of c a n b] assms by blast
  then show ?thesis unfolding longest_run_def by (auto intro: order.trans Max_ge)
qed

text \<open>A line that closes a fence of \<open>n\<close> backticks (CommonMark): up to three spaces, at least
  \<open>n\<close> backticks, then only white space.  \<open>fenced_code n s\<close> is the code block a reader sees
  in the text \<open>s\<close> after an opening fence of \<open>n\<close> backticks.\<close>

definition closes_fence :: "nat \<Rightarrow> string \<Rightarrow> bool" where
  "closes_fence n l =
    (let t = dropWhile (\<lambda>c. c = CHR '' '') l in
     length l - length t \<le> 3 \<and> n \<le> length (takeWhile (\<lambda>c. c = BACKTICK) t)
     \<and> list_all (\<lambda>c. c = CHR '' '' \<or> c = TAB \<or> c = CR) (dropWhile (\<lambda>c. c = BACKTICK) t))"

definition fenced_code :: "nat \<Rightarrow> string \<Rightarrow> string" where
  "fenced_code n s = join_on NL (takeWhile (\<lambda>l. \<not> closes_fence n l) (split_on NL s))"

lemma takeWhile_replicate: "takeWhile (\<lambda>c. c = d) s = replicate (length (takeWhile (\<lambda>c. c = d) s)) d"
  by (induction s) auto

lemma closing_line_has_run:
  assumes "closes_fence n l" shows "\<exists>a b. l = a @ replicate n BACKTICK @ b"
proof -
  define t where "t = dropWhile (\<lambda>c. c = CHR '' '') l"
  define r where "r = takeWhile (\<lambda>c. c = BACKTICK) t"
  from assms have "n \<le> length r" by (simp add: closes_fence_def Let_def t_def r_def)
  moreover have "r = replicate (length r) BACKTICK" unfolding r_def by (rule takeWhile_replicate)
  ultimately have "r = replicate n BACKTICK @ replicate (length r - n) BACKTICK"
    by (metis le_add_diff_inverse replicate_add)
  moreover have "t = r @ dropWhile (\<lambda>c. c = BACKTICK) t" by (simp add: r_def)
  moreover have "l = takeWhile (\<lambda>c. c = CHR '' '') l @ t" by (simp add: t_def)
  ultimately show ?thesis by (metis append.assoc)
qed

lemma fence_of_longer: "length (fence_of value) = max 3 (longest_run BACKTICK value + 1)"
  by (simp add: fence_of_def)

lemma split_on_sublist: "l \<in> set (split_on d s) \<Longrightarrow> \<exists>a b. s = a @ l @ b"
proof (induction s)
  case (Cons c s)
  obtain p ps where ps: "split_on d s = p # ps" by (cases "split_on d s") auto
  then have s: "s = join_on d (p # ps)" using join_split_on [of d s] by simp
  show ?case
  proof (cases "c \<noteq> d \<and> l = c # p")
    case True
    have "\<exists>b. s = p @ b" using s by (cases ps) auto
    with True show ?thesis by (metis append.left_neutral append_Cons)
  next
    case False
    with Cons.prems ps have "l = [] \<or> l \<in> set (split_on d s)" by (auto split: if_splits)
    then show ?thesis using Cons.IH by (metis append_Cons append_Nil)
  qed
qed (auto intro: exI [of _ "[]"])

text \<open>C38: quoted source, context and hunks stay inside their fence: whatever the text and
  whatever follows in the prompt, the code block a Markdown reader sees after the opening
  fence is exactly the text.\<close>

theorem fence_cannot_be_closed:
  assumes "value \<noteq> []"
  shows "\<exists>n \<ge> 3. fenced heading value =
      heading @ '':'' @ [NL] @ replicate n BACKTICK @ ''text'' @ [NL] @
        value @ [NL] @ replicate n BACKTICK @ [NL]
    \<and> fenced_code n (value @ [NL] @ replicate n BACKTICK @ [NL] @ rest) = value"
proof -
  define n where "n = length (fence_of value)"
  have fence: "fence_of value = replicate n BACKTICK" by (simp add: n_def fence_of_def)
  have long: "longest_run BACKTICK value < n" "3 \<le> n" by (simp_all add: n_def fence_of_longer)
  have open_lines: "\<not> closes_fence n l" if l: "l \<in> set (split_on NL value)" for l
  proof
    assume "closes_fence n l"
    then obtain a b a' b' where "l = a @ replicate n BACKTICK @ b" "value = a' @ l @ b'"
      using closing_line_has_run split_on_sublist [OF l] by blast
    then have "value = (a' @ a) @ replicate n BACKTICK @ (b @ b')" by simp
    from run_le_longest [OF this] long show False by simp
  qed
  have closed: "closes_fence n (replicate n BACKTICK)"
    using long by (cases n) (auto simp: closes_fence_def)
  have "NL \<notin> set (replicate n BACKTICK)" by simp
  then have "split_on NL (value @ NL # (replicate n BACKTICK @ NL # rest))
      = split_on NL value @ replicate n BACKTICK # split_on NL rest"
    using split_on_append_general [of NL "value" "replicate n BACKTICK @ NL # rest"]
    by (simp add: split_on_append)
  then have "fenced_code n (value @ [NL] @ replicate n BACKTICK @ [NL] @ rest) = value"
    using open_lines closed by (simp add: fenced_code_def takeWhile_append2)
  then show ?thesis using assms long fence by (auto simp: fenced_def)
qed

lemma fence_cannot_be_closed_witness:
  "\<exists>n \<ge> 3. fenced ''Selected source'' (''a'' @ [NL, BACKTICK, BACKTICK, BACKTICK, NL] @ ''b'') =
      ''Selected source'' @ '':'' @ [NL] @ replicate n BACKTICK @ ''text'' @ [NL] @
        (''a'' @ [NL, BACKTICK, BACKTICK, BACKTICK, NL] @ ''b'') @ [NL] @ replicate n BACKTICK @ [NL]
    \<and> fenced_code n ((''a'' @ [NL, BACKTICK, BACKTICK, BACKTICK, NL] @ ''b'') @ [NL] @
        replicate n BACKTICK @ [NL] @ ''rest'')
      = ''a'' @ [NL, BACKTICK, BACKTICK, BACKTICK, NL] @ ''b''"
  by (rule fence_cannot_be_closed) simp

section \<open>Code spans\<close>

lemma any_control_append:
  assumes "byte c < 128" "\<not> any_control s" "\<not> any_control t" "32 \<le> byte c" "byte c \<noteq> 127"
  shows "\<not> any_control (s @ c # t)"
  using assms
proof (induction s)
  case (Cons d s)
  then show ?case by (cases s) (auto split: list.splits)
qed (auto split: list.splits)

text \<open>Printable ASCII text never meets its neighbour in a control character.\<close>

lemma any_control_graphic: "list_all (\<lambda>c. 32 \<le> byte c \<and> byte c < 127) s \<Longrightarrow> \<not> any_control s"
  by (induction s) (auto split: list.splits)

lemma any_control_append_graphic:
  "list_all (\<lambda>c. 32 \<le> byte c \<and> byte c < 127) s \<Longrightarrow> \<not> any_control t \<Longrightarrow> \<not> any_control (s @ t)"
  by (induction s) (auto split: list.splits)

definition plain_text :: "string \<Rightarrow> bool" where
  "plain_text s \<longleftrightarrow> list_all (\<lambda>c. 32 \<le> byte c \<and> byte c < 127 \<and> c \<noteq> BACKTICK) s"

lemma plain_span_safe:
  "plain_text s \<Longrightarrow> span_safe t \<Longrightarrow> span_safe (s @ t)" "plain_text s \<Longrightarrow> span_safe s"
  using any_control_append_graphic [of s t] any_control_graphic [of s]
  by (auto simp: plain_text_def span_safe_def list_all_iff)

lemma span_safe_join:
  assumes "span_safe s" "span_safe t" "32 \<le> byte c" "byte c < 127" "c \<noteq> BACKTICK"
  shows "span_safe (s @ c # t)"
  using assms any_control_append [of c s t] by (auto simp: span_safe_def)

lemma hex_digit_plain: "n < 16 \<Longrightarrow> 48 \<le> byte (hex_digit n) \<and> byte (hex_digit n) \<le> 102
    \<and> hex_digit n \<noteq> BACKTICK"
proof -
  assume "n < 16"
  then have "list_all (\<lambda>n. 48 \<le> byte (hex_digit n) \<and> byte (hex_digit n) \<le> 102 \<and> hex_digit n \<noteq> BACKTICK) [0..<16]
    \<Longrightarrow> ?thesis" by (auto simp: list_all_iff)
  moreover have "list_all (\<lambda>n. 48 \<le> byte (hex_digit n) \<and> byte (hex_digit n) \<le> 102
      \<and> hex_digit n \<noteq> BACKTICK) [0..<16]" by code_simp
  ultimately show ?thesis by blast
qed

lemma hex_digits_plain: "plain_text (hex_digits w n)"
proof -
  have "32 \<le> byte (hex_digit (m mod 16)) \<and> byte (hex_digit (m mod 16)) < 127 \<and> hex_digit (m mod 16) \<noteq> BACKTICK"
    for m using hex_digit_plain [of "m mod 16"] by auto
  then show ?thesis by (auto simp: plain_text_def hex_digits_def list_all_iff)
qed

lemma plain_text_parts: "plain_text s \<Longrightarrow> plain_text (take k s) \<and> plain_text (drop k s)"
  by (auto simp: plain_text_def list_all_iff dest: in_set_takeD in_set_dropD)

lemma plain_text_append [simp]: "plain_text (s @ t) \<longleftrightarrow> plain_text s \<and> plain_text t"
  by (auto simp: plain_text_def)

lemma plain_text_Cons [simp]: "plain_text [] \<longleftrightarrow> True"
    "plain_text (c # s) \<longleftrightarrow> 32 \<le> byte c \<and> byte c < 127 \<and> c \<noteq> BACKTICK \<and> plain_text s"
  by (auto simp: plain_text_def)

lemma show_uuid_plain: "plain_text (show_uuid u)"
  using hex_digits_plain [of 32 "unat u"] plain_text_parts by (simp add: show_uuid_def Let_def)

lemma labels_plain: "plain_text (repository_label r)" "plain_text (''captured-file:'' @ show_annotation_id a)"
proof -
  have "plain_text ''repository:''" "plain_text ''captured-file:''" by code_simp+
  then show "plain_text (repository_label r)" "plain_text (''captured-file:'' @ show_annotation_id a)"
    using show_uuid_plain by (cases "repository_id r", simp add: repository_label_def, cases a, simp)
qed

lemma prompt_relative_path_safe: "span_safe fallback \<Longrightarrow> span_safe (prompt_relative_path p fallback)"
  by (simp add: prompt_relative_path_def Let_def)

lemma prompt_safe_path_safe: "span_safe fallback \<Longrightarrow> span_safe (prompt_safe_path v fallback)"
  by (simp add: prompt_safe_path_def)

lemma qualifier_safe: "span_safe (prompt_repository_qualifier r)"
  using plain_span_safe(2) [OF labels_plain(1) [of r]]
  by (auto simp: prompt_repository_qualifier_def Let_def prompt_relative_path_safe prompt_safe_path_safe
      split: option.splits)

lemma logical_path_safe: "span_safe r \<Longrightarrow> span_safe f \<Longrightarrow> span_safe (prompt_logical_path r f)"
  by (auto simp: prompt_logical_path_def intro: span_safe_join)

lemma github_slug_safe: "github_prompt_identity s = Some i \<Longrightarrow> span_safe (github_slug i)"
proof -
  have comp: "safe_github_component v \<Longrightarrow> plain_text v" for v
    by (auto simp: safe_github_component_def plain_text_def list_all_iff safe_component_byte_def
      is_alnum_def is_digit_def is_ascii_lower_def is_ascii_upper_def)
  assume "github_prompt_identity s = Some i"
  then obtain a b where "github_slug i = a @ ''/'' @ b" "safe_github_component a" "safe_github_component b"
    by (cases s) (auto simp: github_identity_def Let_def split: if_splits)
  then show ?thesis using comp plain_span_safe(2) [of "a @ ''/'' @ b"] by (simp add: plain_text_def)
qed

text \<open>The path a prompt prints for an entry is never able to end the code span it is
  printed in, whatever the repository, the file, the workspace and the path style: it has no
  backtick and no control character.\<close>

theorem display_paths_stay_in_code_span:
  "span_safe (prompt_display_path request r comparison (entry_file_key entry))"
proof -
  have key: "span_safe (entry_file_key entry)"
  proof -
    have "span_safe ''(overall review)''" by code_simp
    then show ?thesis
      using plain_span_safe(2) [OF labels_plain(2)]
      by (auto simp: entry_file_key_def prompt_relative_path_safe simp del: append.simps split: option.splits)
  qed
  show ?thesis
    using key qualifier_safe github_slug_safe
    by (auto simp: prompt_display_path_def logical_path_safe prompt_safe_path_safe
        split: PromptPathStyle.split option.split)
qed

section \<open>Selection and order\<close>

lemma annotation_uuid_inject: "annotation_uuid a = annotation_uuid b \<longleftrightarrow> a = b"
  by (cases a; cases b) auto

lemma entry_sort_key_id: "entry_sort_key e = entry_sort_key f \<Longrightarrow>
    annotation_id (entry_annotation e) = annotation_id (entry_annotation f)"
  by (simp add: entry_sort_key_def Let_def annotation_uuid_inject)

lemma included_entries_cong:
  assumes "mset (prompt_entries request) = mset es"
    "distinct (map (\<lambda>e. annotation_id (entry_annotation e)) es)"
  shows "included_entries request = included_entries (request\<lparr>prompt_entries := es\<rparr>)"
proof -
  define p :: "PromptEntry \<Rightarrow> bool" where "p = (\<lambda>e. scope_includes (prompt_scope request) (entry_annotation e))"
  have "mset (filter p (prompt_entries request)) = filter_mset p (mset es)"
    unfolding mset_filter assms(1) ..
  then have m: "mset (filter p (prompt_entries request)) = mset (sort_key entry_sort_key (filter p es))"
    by simp
  have same: "set (prompt_entries request) = set es" using assms(1) by (rule mset_eq_setD)
  have "inj_on entry_sort_key (set (filter p (prompt_entries request)))"
  proof (rule inj_onI)
    fix x y
    assume "x \<in> set (filter p (prompt_entries request))" "y \<in> set (filter p (prompt_entries request))"
      and key: "entry_sort_key x = entry_sort_key y"
    then have "x \<in> set es" "y \<in> set es" using same by auto
    with assms(2) entry_sort_key_id [OF key] show "x = y" by (auto simp: distinct_map dest: inj_onD)
  qed
  from sort_key_inj_key_eq [OF m this] show ?thesis
    by (simp add: included_entries_def p_def)
qed

lemma prompt_body_entries:
  "prompt_body (request\<lparr>prompt_entries := es\<rparr>) cursor xs = prompt_body request cursor xs"
proof -
  have d: "prompt_display_path (request\<lparr>prompt_entries := es\<rparr>) = prompt_display_path request"
    by (simp add: prompt_display_path_def fun_eq_iff cong: PromptPathStyle.case_cong)
  have f: "file_heading (request\<lparr>prompt_entries := es\<rparr>) = file_heading request"
    unfolding file_heading_def [abs_def] d ..
  have o: "prompt_options (request\<lparr>prompt_entries := es\<rparr>) = prompt_options request" by simp
  have e: "prompt_entry (request\<lparr>prompt_entries := es\<rparr>) = prompt_entry request"
    unfolding prompt_entry_def [abs_def] f o ..
  show ?thesis by (induction xs arbitrary: cursor) (simp_all add: e)
qed

text \<open>The prompt is a function of the set of annotations: entries with distinct ids give
  the same Markdown and the same list of ids in whatever order they are handed over.\<close>

theorem prompt_order_independent:
  assumes "mset (prompt_entries request) = mset es"
    "distinct (map (\<lambda>e. annotation_id (entry_annotation e)) es)"
  shows "format_prompt request = format_prompt (request\<lparr>prompt_entries := es\<rparr>)"
  using included_entries_cong [OF assms]
  by (simp add: format_prompt_def prompt_header_def prompt_body_entries Let_def)

lemma prompt_entry_section:
  "\<exists>a b. fst (prompt_entry request x cursor) = a @ annotation_section x @ b"
  unfolding prompt_entry_def Let_def case_prod_unfold fst_conv by (metis append_assoc)

lemma prompt_body_sections:
  "e \<in> set es \<Longrightarrow> sublist (annotation_section e) (prompt_body request cursor es)"
proof (induction es arbitrary: cursor)
  case (Cons x es)
  obtain out cursor' where entry: "prompt_entry request x cursor = (out, cursor')"
    by (cases "prompt_entry request x cursor")
  then have body: "prompt_body request cursor (x # es) = out @ prompt_body request cursor' es" by simp
  show ?case
  proof (cases "e = x")
    case True
    have "\<exists>a b. out = a @ annotation_section x @ b"
      using prompt_entry_section [of request x cursor] entry by simp
    then obtain a b where "out = a @ annotation_section x @ b" by blast
    then have "prompt_body request cursor (x # es) = a @ annotation_section x @ (b @ prompt_body request cursor' es)"
      using body by simp
    then show ?thesis unfolding True by (metis sublist_appendI sublist_order.order.refl)
  next
    case False
    with Cons have "sublist (annotation_section e) (prompt_body request cursor' es)" by simp
    then show ?thesis unfolding body by (rule sublist_order.order.trans [OF _ sublist_append_leftI])
  qed
qed simp

text \<open>Every annotation the scope selects is handed over exactly once, and nothing else: the
  recorded ids are those of the selected entries, and the section of each of them, with the
  text the reviewer wrote, is in the Markdown.\<close>

theorem prompt_is_complete:
  "mset (prompt_annotation_ids (format_prompt request)) =
     image_mset (\<lambda>e. annotation_id (entry_annotation e))
       {#e \<in># mset (prompt_entries request). scope_includes (prompt_scope request) (entry_annotation e)#}
   \<and> list_all (\<lambda>e. sublist (annotation_section e) (prompt_markdown (format_prompt request)))
       (included_entries request)"
proof -
  have "sublist (annotation_section e) (prompt_markdown (format_prompt request))"
    if "e \<in> set (included_entries request)" for e
    using prompt_body_sections [OF that, of request initial_cursor]
    by (simp add: format_prompt_def Let_def) (rule sublist_order.order.trans [OF _ sublist_append_leftI])
  then show ?thesis
    by (simp add: format_prompt_def included_entries_def list_all_iff Let_def)
qed

section \<open>Context and hunks\<close>

definition with_context :: "string \<Rightarrow> PromptEntry \<Rightarrow> PromptEntry" where
  "with_context context entry =
    entry\<lparr>entry_annotation := (entry_annotation entry)
      \<lparr>annotation_anchor := map_option (anchor_surrounding_context_update (\<lambda>_. context))
        (annotation_anchor (entry_annotation entry))\<rparr>\<rparr>"

text \<open>The surrounding context is left out whenever a captured hunk exists, also when the
  options say not to include hunks: then the prompt has neither, and it is the same whatever
  the context of the annotation was.\<close>

theorem context_lost_without_hunks:
  assumes "entry_relevant_hunk entry = Some hunk" "hunk \<noteq> []"
    "\<not> include_diff_hunks (prompt_options request)"
  shows "prompt_entry request (with_context context entry) cursor = prompt_entry request entry cursor"
proof -
  have a: "annotation_anchor (entry_annotation (with_context context entry))
      = map_option (anchor_surrounding_context_update (\<lambda>_. context)) (annotation_anchor (entry_annotation entry))"
    by (simp add: with_context_def)
  have "annotation_section (with_context context entry) = annotation_section entry"
    using assms by (auto simp: annotation_section_def a anchor_section_def with_context_def split: option.splits)
  moreover have "entry_file_key (with_context context entry) = entry_file_key entry"
    by (auto simp: entry_file_key_def a with_context_def split: option.splits)
  moreover have "file_heading request (with_context context entry) = file_heading request entry"
    using calculation(2) by (simp add: file_heading_def with_context_def split: option.split)
  moreover have "repository_heading opts (with_context context entry) = repository_heading opts entry" for opts
    by (simp add: repository_heading_def with_context_def)
  moreover have "hunk_section opts (with_context context entry) c = hunk_section opts entry c" for opts c
    by (simp add: hunk_section_def with_context_def)
  moreover have "entry_repository (with_context context entry) = entry_repository entry"
    by (simp add: with_context_def)
  ultimately show ?thesis unfolding prompt_entry_def by (simp only:)
qed

section \<open>A concrete request\<close>

definition sample_anchor :: AnnotationAnchor where
  "sample_anchor = \<lparr>anchor_comparison_id = ComparisonId 1, anchor_repository_id = RepositoryId 2,
    anchor_file_path = StoredPath ''src/a.rs'', anchor_old_path = None, anchor_side = Some New,
    anchor_start_line = Some 3, anchor_end_line = Some 4, anchor_selected_source = ''let x = 1;'',
    anchor_surrounding_context = ''fn main() {'', anchor_fingerprint = ContentFingerprint ''00'',
    anchor_outdated = False\<rparr>"

definition sample_annotation :: "uuid \<Rightarrow> Annotation" where
  "sample_annotation u = \<lparr>annotation_id = AnnotationId u, annotation_set = AnnotationSetId 7,
    annotation_kind = Comment, annotation_state = Open, annotation_publication = LocalOnly,
    annotation_labels = [], annotation_body = ''Rename this.'', annotation_anchor = Some sample_anchor,
    annotation_created_at = 5, annotation_updated_at = 5\<rparr>"

definition sample_entry :: "uuid \<Rightarrow> PromptEntry" where
  "sample_entry u = \<lparr>entry_annotation = sample_annotation u, entry_repository = None,
    entry_comparison = None, entry_relevant_hunk = Some ''+let x = 1;''\<rparr>"

definition sample_workspace :: Workspace where
  "sample_workspace = \<lparr>workspace_id = WorkspaceId 1, workspace_display_name = ''demo'',
    workspace_source = LocalDirectory (StoredPath ''/demo''), workspace_default_base = BaseReference ''main'',
    workspace_pinned = False, workspace_archived_at = None, workspace_created_at = 0, workspace_updated_at = 0\<rparr>"

definition sample_request :: "PromptEntry list \<Rightarrow> PromptRequest" where
  "sample_request es = \<lparr>prompt_workspace = sample_workspace, prompt_review_session = ReviewSessionId 9,
    prompt_annotation_set = AnnotationSetId 7, prompt_annotation_sets = [], prompt_scope = AllActionable,
    prompt_options = \<lparr>path_style = Portable, include_diff_hunks = False, include_git_state = False\<rparr>,
    prompt_entries = es\<rparr>"

lemma prompt_order_independent_witness:
  "format_prompt (sample_request [sample_entry 1, sample_entry 2]) =
    format_prompt ((sample_request [sample_entry 1, sample_entry 2])\<lparr>prompt_entries := [sample_entry 2, sample_entry 1]\<rparr>)"
  by (rule prompt_order_independent)
     (simp_all add: sample_request_def sample_entry_def sample_annotation_def add_mset_commute)

lemma context_lost_without_hunks_witness:
  "prompt_entry (sample_request []) (with_context ''fn other() {'' (sample_entry 1)) initial_cursor =
    prompt_entry (sample_request []) (sample_entry 1) initial_cursor"
  by (rule context_lost_without_hunks [of _ "''+let x = 1;''"])
     (simp_all add: sample_request_def sample_entry_def)

end
