(* ===== verification/Service_Review_Props.thy ===== *)
theory Service_Review_Props
  imports Service_Review
begin

text \<open>
  What a refresh does to annotations and what the review history reports: an annotation is
  only reattached to the lines it was written about, annotations are never lost, and every
  file of both generations is reported exactly once.
\<close>

section \<open>Slices\<close>

lemma length_slice [simp]: "a \<le> b \<Longrightarrow> b \<le> length xs \<Longrightarrow> length (slice xs a b) = b - a"
  by (simp add: slice_def)

lemma slice_Nil [simp]: "slice [] a b = []"
  by (simp add: slice_def)

lemma slice_index_ok: "a \<le> b \<Longrightarrow> b \<le> length xs \<Longrightarrow> slice_index xs a b = Inr (slice xs a b)"
  by (simp add: slice_index_def slice_get_def ok_or_def)

lemma slice_slice:
  assumes "b \<le> n"
  shows "slice (slice xs i (i + n)) a b = slice xs (i + a) (i + b)"
  using assms by (simp add: slice_def drop_take min_def add.commute)

lemma occurrences_iff:
  "i \<in> set (occurrences needle xs) \<longleftrightarrow>
    i + length needle \<le> length xs \<and> slice xs i (i + length needle) = needle"
  by (auto simp: occurrences_def)

lemma distinct_occurrences [simp]: "distinct (occurrences needle xs)"
  by (simp add: occurrences_def)

section \<open>Candidates\<close>

definition lines_fit :: "string list \<Rightarrow> bool" where
  "lines_fit lines \<longleftrightarrow> length lines \<le> U32_MAX"

lemma unique_range_eq:
  assumes "lines_fit lines"
  shows "unique_range lines needle = Some r \<longleftrightarrow>
    needle \<noteq> [] \<and> (\<exists>i. occurrences needle lines = [i] \<and> r = (i + 1, i + length needle))"
proof (cases "needle = [] \<or> length needle > length lines")
  case True
  have "length needle > length lines \<Longrightarrow> occurrences needle lines = []" by (simp add: occurrences_def)
  with True show ?thesis by (auto simp: unique_range_def)
next
  case False
  have "\<And>i. occurrences needle lines = [i] \<Longrightarrow>
    inc32 i = i + 1 \<and> sub32 (add32 (i + 1) (to_u32 (length needle))) 1 = i + length needle"
  proof -
    fix i assume "occurrences needle lines = [i]"
    then have i: "i + length needle \<le> length lines" using occurrences_iff [of i needle lines] by simp
    have len: "length lines \<le> 4294967295" using assms by (simp add: lines_fit_def)
    have pos: "0 < length needle" using False by simp
    have "i + 1 < 4294967296" using i len pos by linarith
    then have "inc32 i = i + 1" by (simp add: inc32_def)
    moreover have "to_u32 (length needle) = length needle" using i len by (simp add: to_u32_def)
    moreover have "sub32 (add32 (i + 1) (length needle)) 1 = i + length needle"
    proof (cases "i + 1 + length needle < 4294967296")
      case True
      then show ?thesis using pos by (simp add: sub32_def add32_def mod_if)
    next
      case False
      then have "i + 1 + length needle = 4294967296" using i len by simp
      then show ?thesis by (simp add: sub32_def add32_def)
    qed
    ultimately show "inc32 i = i + 1 \<and> sub32 (add32 (i + 1) (to_u32 (length needle))) 1 = i + length needle"
      by simp
  qed
  then show ?thesis using False
    by (auto simp: unique_range_def split: list.splits)
qed

lemma unique_context_selection_eq:
  assumes "lines_fit lines" "unique_context_selection lines context selected = Some r"
  shows "\<exists>a k. occurrences context lines = [a] \<and> occurrences selected context = [k]
    \<and> selected \<noteq> [] \<and> r = (a + k + 1, a + k + length selected)
    \<and> a + k + length selected \<le> a + length context \<and> a + length context \<le> length lines"
proof -
  obtain a k where occ: "occurrences context lines = [a]" "occurrences selected context = [k]"
    and sel: "selected \<noteq> []"
    using assms(2) by (auto simp: unique_context_selection_def split: if_splits list.splits)
  have a: "a + length context \<le> length lines" using occ(1) occurrences_iff [of a "context" lines] by simp
  have k: "k + length selected \<le> length context" using occ(2) occurrences_iff [of k selected "context"] by simp
  have fit: "length lines \<le> 4294967295" using assms(1) by (simp add: lines_fit_def)
  have pos: "0 < length selected" using sel by simp
  have small: "a + k + length selected \<le> 4294967295" using a k fit by simp
  then have start: "min (min (a + k) U64_MAX + 1) U64_MAX = a + k + 1" using pos by simp
  have add: "add32 (a + k + 1) (length selected - 1) = a + k + length selected"
  proof -
    have "a + k + 1 + (length selected - 1) = a + k + length selected" using pos by simp
    then show ?thesis using small unfolding add32_def by simp
  qed
  have "r = (a + k + 1, a + k + length selected)"
    using assms(2) occ sel unfolding unique_context_selection_def
    by (simp add: start add [simplified] Let_def split: if_splits)
  then show ?thesis using occ sel a k by auto
qed

text \<open>Where a candidate comes from: the place the annotation was made, the only place its
  lines occur, or the only place of its lines in the only place of its context.\<close>

definition justified :: "string list \<Rightarrow> AnnotationAnchor \<Rightarrow> nat \<Rightarrow> nat \<Rightarrow> bool" where
  "justified lines anchor start end_line \<longleftrightarrow>
    (let selected = str_lines (anchor_selected_source anchor);
         context = str_lines (anchor_surrounding_context anchor)
     in (anchor_start_line anchor = Some start \<and> anchor_end_line anchor = Some end_line)
      \<or> occurrences selected lines = [start - 1]
      \<or> (\<exists>a k. occurrences context lines = [a] \<and> occurrences selected context = [k] \<and> start = a + k + 1))"

lemma exact_range_D:
  assumes "exact_range lines selected start end_line"
  shows "selected \<noteq> [] \<and> end_line \<le> length lines \<and> start - 1 < end_line
    \<and> slice lines (start - 1) end_line = selected"
  using assms by (auto simp: exact_range_def slice_get_def slice_def split: if_splits)

lemma slice_in_context:
  assumes "occurrences context lines = [a]" "occurrences selected context = [k]"
  shows "slice lines (a + k) (a + k + length selected) = selected"
proof -
  have a: "slice lines a (a + length context) = context"
    and k: "slice context k (k + length selected) = selected" "k + length selected \<le> length context"
    using assms occurrences_iff [of a "context" lines] occurrences_iff [of k selected "context"] by simp_all
  have "slice (slice lines a (a + length context)) k (k + length selected)
      = slice lines (a + k) (a + (k + length selected))"
    by (rule slice_slice [OF k(2)])
  then show ?thesis by (simp add: a k(1) add.assoc)
qed

lemma candidate_sound:
  assumes "lines_fit lines" "reanchor_candidate lines anchor start end_line = Some (s, e)"
    "anchor_start_line anchor = Some start" "anchor_end_line anchor = Some end_line"
  shows "s - 1 < e \<and> e \<le> length lines
    \<and> slice lines (s - 1) e = str_lines (anchor_selected_source anchor)
    \<and> justified lines anchor s e"
proof -
  let ?selected = "str_lines (anchor_selected_source anchor)"
  let ?around = "str_lines (anchor_surrounding_context anchor)"
  have "exact_range lines ?selected start end_line \<and> s = start \<and> e = end_line
    \<or> unique_range lines ?selected = Some (s, e)
    \<or> unique_context_selection lines ?around ?selected = Some (s, e)"
    using assms(2) unfolding reanchor_candidate_def Let_def by (simp split: if_splits option.splits)
  then consider (exact) "exact_range lines ?selected start end_line" "s = start" "e = end_line"
    | (unique) "unique_range lines ?selected = Some (s, e)"
    | (ctxt) "unique_context_selection lines ?around ?selected = Some (s, e)" by metis
  then show ?thesis
  proof cases
    case exact
    then show ?thesis using exact_range_D [OF exact(1)] assms(3,4) by (simp add: justified_def)
  next
    case unique
    then obtain i where i: "occurrences ?selected lines = [i]" "s = i + 1" "e = i + length ?selected"
      "?selected \<noteq> []"
      using unique_range_eq [OF assms(1)] by auto
    have "i + length ?selected \<le> length lines" "slice lines i (i + length ?selected) = ?selected"
      using i(1) occurrences_iff [of i ?selected lines] by simp_all
    moreover have "0 < length ?selected" using i(4) by simp
    moreover have "justified lines anchor s e" using i by (simp add: justified_def)
    ultimately show ?thesis using i by simp
  next
    case ctxt
    from unique_context_selection_eq [OF assms(1) ctxt] obtain a k where
      r: "occurrences ?around lines = [a]" "occurrences ?selected ?around = [k]" "?selected \<noteq> []"
        "s = a + k + 1" "e = a + k + length ?selected" "e \<le> length lines" by auto
    have "justified lines anchor s e" using r by (auto simp: justified_def)
    moreover have "0 < length ?selected" using r(3) by simp
    ultimately show ?thesis using r slice_in_context [OF r(1,2)] by simp
  qed
qed

section \<open>Reanchoring\<close>

lemma surrounding_context_ok:
  assumes "s - 1 < e" "e \<le> length lines" "lines_fit lines"
  shows "\<exists>c. surrounding_context lines s e = Inr c"
proof -
  have "s - 4 \<le> min (min (e + 3) U32_MAX) (length lines)"
    using assms by (auto simp: lines_fit_def)
  then show ?thesis unfolding surrounding_context_def
    by (subst slice_index_ok) auto
qed

text \<open>An anchor that now points at the lines the annotation was written about.\<close>

definition reattached ::
  "AnnotationAnchor \<Rightarrow> ReviewDiffDocument \<Rightarrow> ComparisonId \<Rightarrow> AnnotationAnchor \<Rightarrow> bool" where
  "reattached anchor document replacement a \<longleftrightarrow>
    anchor_comparison_id a = replacement
    \<and> anchor_repository_id a = anchor_repository_id anchor
    \<and> anchor_file_path a = file_path (doc_file document)
    \<and> anchor_old_path a = file_old_path (doc_file document)
    \<and> anchor_side a = anchor_side anchor \<and> \<not> anchor_outdated a
    \<and> (case (anchor_side a, anchor_start_line a, anchor_end_line a) of
        (Some side, Some s, Some e) \<Rightarrow>
          (let lines = str_lines (side_source document side) in
           1 \<le> s \<and> s \<le> e \<and> e \<le> length lines
           \<and> slice lines (s - 1) e = str_lines (anchor_selected_source anchor)
           \<and> anchor_selected_source a = join_lines (slice lines (s - 1) e)
           \<and> justified lines anchor s e)
      | _ \<Rightarrow> False)"

definition document_fits :: "ReviewDiffDocument \<Rightarrow> bool" where
  "document_fits d \<longleftrightarrow> lines_fit (str_lines (side_source d Old)) \<and> lines_fit (str_lines (side_source d New))"

lemma document_fits_side: "document_fits d \<Longrightarrow> lines_fit (str_lines (side_source d side))"
  by (cases side) (simp_all add: document_fits_def)

lemma rebuilt_anchor_ok:
  assumes "s - 1 < e" "e \<le> length lines" "lines_fit lines"
  shows "s = 0 \<and> rebuilt_anchor blake3 anchor document replacement side lines (s, e) = Inr None
    \<or> 0 < s \<and> s \<le> e \<and> (\<exists>a. rebuilt_anchor blake3 anchor document replacement side lines (s, e) = Inr (Some a)
        \<and> anchor_comparison_id a = replacement
        \<and> anchor_repository_id a = anchor_repository_id anchor
        \<and> anchor_file_path a = file_path (doc_file document)
        \<and> anchor_old_path a = file_old_path (doc_file document)
        \<and> anchor_side a = Some side \<and> anchor_start_line a = Some s \<and> anchor_end_line a = Some e
        \<and> anchor_selected_source a = join_lines (slice lines (s - 1) e) \<and> \<not> anchor_outdated a)"
proof -
  obtain c where c: "surrounding_context lines s e = Inr c" using surrounding_context_ok [OF assms] ..
  have "slice_index lines (s - 1) e = Inr (slice lines (s - 1) e)"
    using assms(1,2) by (simp add: slice_index_ok)
  moreover have "\<not> e < s \<or> s = 0" using assms(1) by linarith
  ultimately show ?thesis by (simp add: rebuilt_anchor_def Let_def c anchor_from_line_def)
qed

lemma reanchor_cases:
  assumes "document_fits document"
  shows "reanchor blake3 anchor document replacement = Inr None
    \<or> (\<exists>a. reanchor blake3 anchor document replacement = Inr (Some a)
        \<and> reattached anchor document replacement a)"
proof (cases "\<exists>side start end_line s e. anchor_side anchor = Some side \<and> anchor_start_line anchor = Some start
    \<and> anchor_end_line anchor = Some end_line
    \<and> reanchor_candidate (str_lines (side_source document side)) anchor start end_line = Some (s, e)")
  case False
  then show ?thesis
    by (auto simp: reanchor_def Let_def split: option.splits)
next
  case True
  then obtain side start end_line s e where a: "anchor_side anchor = Some side"
    "anchor_start_line anchor = Some start" "anchor_end_line anchor = Some end_line"
    and cand: "reanchor_candidate (str_lines (side_source document side)) anchor start end_line = Some (s, e)"
    by blast
  let ?lines = "str_lines (side_source document side)"
  note fit = document_fits_side [OF assms, of side]
  note sound = candidate_sound [OF fit cand a(2,3)]
  have "reanchor blake3 anchor document replacement =
      rebuilt_anchor blake3 anchor document replacement side ?lines (s, e)"
    by (simp add: reanchor_def a cand Let_def)
  then show ?thesis
    using rebuilt_anchor_ok [of s e ?lines blake3 anchor document replacement side] sound fit
    by (force simp: reattached_def a Let_def)
qed



lemma reanchor_exact:
  assumes "document_fits document" "anchor_side anchor = Some side"
    "anchor_start_line anchor = Some start" "anchor_end_line anchor = Some end_line" "1 \<le> start"
    "reanchor_candidate (str_lines (side_source document side)) anchor start end_line = Some (s, e)" "1 \<le> s"
  shows "\<exists>a. reanchor blake3 anchor document replacement = Inr (Some a)
    \<and> anchor_start_line a = Some s \<and> anchor_end_line a = Some e \<and> \<not> anchor_outdated a"
proof -
  let ?lines = "str_lines (side_source document side)"
  note fit = document_fits_side [OF assms(1), of side]
  note sound = candidate_sound [OF fit assms(6,3,4)]
  have "reanchor blake3 anchor document replacement =
      rebuilt_anchor blake3 anchor document replacement side ?lines (s, e)"
    by (simp add: reanchor_def assms(2-4,6) Let_def)
  then show ?thesis
    using rebuilt_anchor_ok [of s e ?lines blake3 anchor document replacement side] sound fit assms(7)
    by auto
qed

text \<open>An annotation whose lines occur exactly once in the new file is found there, wherever
  they moved, and one whose lines did not move stays where it was.\<close>

theorem moved_lines_are_found:
  assumes "document_fits document" "anchor_side anchor = Some side"
    "anchor_start_line anchor = Some start" "anchor_end_line anchor = Some end_line"
    "str_lines (anchor_selected_source anchor) \<noteq> []" "1 \<le> start"
    "occurrences (str_lines (anchor_selected_source anchor)) (str_lines (side_source document side)) = [i]
     \<or> (i = start - 1 \<and> end_line \<le> length (str_lines (side_source document side)) \<and> start \<le> end_line
        \<and> slice (str_lines (side_source document side)) (start - 1) end_line
          = str_lines (anchor_selected_source anchor))"
  shows "\<exists>a. reanchor blake3 anchor document replacement = Inr (Some a)
    \<and> anchor_start_line a = Some (i + 1)
    \<and> anchor_end_line a = Some (i + length (str_lines (anchor_selected_source anchor)))
    \<and> \<not> anchor_outdated a"
proof -
  let ?lines = "str_lines (side_source document side)"
  let ?selected = "str_lines (anchor_selected_source anchor)"
  note fit = document_fits_side [OF assms(1), of side]
  have "reanchor_candidate ?lines anchor start end_line = Some (i + 1, i + length ?selected)"
  proof (cases "exact_range ?lines ?selected start end_line")
    case True
    note at = exact_range_D [OF True]
    have len: "length ?selected = end_line - (start - 1)"
      using at length_slice [of "start - 1" end_line ?lines] by simp
    have "start - 1 = i"
    proof (cases "i = start - 1")
      case False
      then have only: "occurrences ?selected ?lines = [i]" using assms(7) by blast
      have "start - 1 \<in> set (occurrences ?selected ?lines)"
        unfolding occurrences_iff using at len by simp
      with only show ?thesis by simp
    qed simp
    then show ?thesis using True at len assms(6) by (auto simp: reanchor_candidate_def Let_def)
  next
    case False
    then have "\<not> (i = start - 1 \<and> end_line \<le> length ?lines \<and> start \<le> end_line
        \<and> slice ?lines (start - 1) end_line = ?selected)"
      using assms(5,6) by (auto simp: exact_range_def slice_get_def split: if_splits)
    then have "occurrences ?selected ?lines = [i]" using assms(7) by blast
    then have "unique_range ?lines ?selected = Some (i + 1, i + length ?selected)"
      unfolding unique_range_eq [OF fit] using assms(5) by simp
    then show ?thesis using False by (simp add: reanchor_candidate_def Let_def)
  qed
  from reanchor_exact [OF assms(1-4,6) this] show ?thesis by simp
qed


section \<open>Annotations of a refresh\<close>

definition moves_with :: "RepositoryId \<Rightarrow> ComparisonId \<Rightarrow> Annotation \<Rightarrow> bool" where
  "moves_with repository previous a \<longleftrightarrow>
    (case annotation_anchor a of None \<Rightarrow> False | Some x \<Rightarrow> belongs_to repository previous x)"

text \<open>What a refresh may change in an annotation: its anchor, which now belongs to the new
  comparison and is either reattached or marked outdated with all else as it was.\<close>

definition carried_over ::
  "ReviewDiffDocument list \<Rightarrow> ComparisonId \<Rightarrow> timestamp \<Rightarrow> Annotation \<Rightarrow> Annotation \<Rightarrow> bool" where
  "carried_over documents replacement now a b \<longleftrightarrow>
    (\<exists>old new. annotation_anchor a = Some old
      \<and> b = a\<lparr>annotation_anchor := Some new, annotation_updated_at := now\<rparr>
      \<and> (new = outdated_anchor old replacement
         \<or> (\<exists>d\<in>set documents. holds_path (anchor_file_path old) d \<and> reattached old d replacement new)))"

lemma carried_over_body: "carried_over documents replacement now a b \<Longrightarrow> annotation_body b = annotation_body a"
  by (auto simp: carried_over_def)

lemma moved_anchor_ok:
  assumes "list_all document_fits documents"
  shows "\<exists>new. moved_anchor blake3 anchor replacement documents = Inr new
    \<and> (new = outdated_anchor anchor replacement
       \<or> (\<exists>d\<in>set documents. holds_path (anchor_file_path anchor) d \<and> reattached anchor d replacement new))"
proof (cases "find (holds_path (anchor_file_path anchor)) documents")
  case (Some d)
  then have d: "d \<in> set documents" "holds_path (anchor_file_path anchor) d"
    by (auto simp: find_Some_iff)
  then have "document_fits d" using assms by (simp add: list_all_iff)
  from reanchor_cases [OF this, of blake3 anchor replacement] show ?thesis
    using d Some by (auto simp: moved_anchor_def)
qed (simp add: moved_anchor_def)

text \<open>C37: a refresh loses no annotation: every annotation of the replaced comparison, and no
  other, is rewritten, in order, with its identity, kind, text and state unchanged, and its
  anchor is reattached to its lines in a document of its path or kept and marked outdated.\<close>

theorem refresh_keeps_annotations:
  assumes "list_all document_fits documents"
  shows "\<exists>updated. reanchored_annotations blake3 repository previous replacement documents now as = Inr updated
    \<and> list_all2 (carried_over documents replacement now) (filter (moves_with repository previous) as) updated"
proof (induction as)
  case (Cons a as)
  then obtain updated where rest:
    "reanchored_annotations blake3 repository previous replacement documents now as = Inr updated"
    "list_all2 (carried_over documents replacement now) (filter (moves_with repository previous) as) updated"
    by blast
  show ?case
  proof (cases "moves_with repository previous a")
    case True
    then obtain anchor where anchor: "annotation_anchor a = Some anchor" "belongs_to repository previous anchor"
      by (auto simp: moves_with_def split: option.splits)
    from moved_anchor_ok [OF assms, of blake3 anchor replacement]
    obtain new where moved: "moved_anchor blake3 anchor replacement documents = Inr new"
      "new = outdated_anchor anchor replacement
       \<or> (\<exists>d\<in>set documents. holds_path (anchor_file_path anchor) d \<and> reattached anchor d replacement new)"
      by blast
    then have "carried_over documents replacement now a
        (a\<lparr>annotation_anchor := Some new, annotation_updated_at := now\<rparr>)"
      using anchor by (auto simp: carried_over_def)
    then show ?thesis using True anchor moved(1) rest by simp
  next
    case False
    then have "reanchored_annotations blake3 repository previous replacement documents now (a # as)
        = reanchored_annotations blake3 repository previous replacement documents now as"
      by (simp add: moves_with_def split: option.splits)
    then show ?thesis using rest False by simp
  qed
qed simp

section \<open>Review history\<close>

lemma last_index_Some: "last_index p xs = Some i \<Longrightarrow> i < length xs \<and> p (xs ! i)"
  by (auto simp: last_index_def find_Some_iff) (metis (no_types, lifting) atLeast_upt diff_less_Suc
      length_rev length_upt minus_nat.diff_0 nth_mem set_rev lessThan_iff)+

lemma prior_index_bound: "prior_index previous d = Some i \<Longrightarrow> i < length previous"
  by (auto simp: prior_index_def previous_by_id_def previous_by_path_def dest: last_index_Some
      split: option.splits bind_splits)

abbreviation document_id :: "ReviewDiffDocument \<Rightarrow> ReviewFileId" where
  "document_id d \<equiv> file_id (doc_file d)"

lemma row_ids [simp]:
  "change_current_file (added_row blake3 d) = Some (document_id d)"
  "change_previous_file (added_row blake3 d) = None"
  "change_current_file (matched_row blake3 d p) = Some (document_id d)"
  "change_previous_file (matched_row blake3 d p) = Some (document_id p)"
  "change_current_file (removed_row blake3 d) = None"
  "change_previous_file (removed_row blake3 d) = Some (document_id d)"
  by (simp_all add: added_row_def matched_row_def removed_row_def Let_def)

lemma current_rows_inv:
  assumes "current_rows blake3 previous ds used = (rows, used')" "distinct used"
    "set used \<subseteq> {..<length previous}"
  shows "List.map_filter change_current_file rows = map document_id ds
    \<and> distinct used' \<and> set used' \<subseteq> {..<length previous} \<and> set used \<subseteq> set used'
    \<and> mset (List.map_filter change_previous_file rows) + mset (map (\<lambda>i. document_id (previous ! i)) used)
      = mset (map (\<lambda>i. document_id (previous ! i)) used')"
  using assms
proof (induction ds arbitrary: used used' rows)
  case (Cons d ds)
  show ?case
  proof (cases "\<exists>i. prior_index previous d = Some i \<and> i \<notin> set used")
    case True
    then obtain i where i: "prior_index previous d = Some i" "i \<notin> set used" by blast
    obtain rest used2 where rest: "current_rows blake3 previous ds (i # used) = (rest, used2)"
      by (cases "current_rows blake3 previous ds (i # used)")
    have "rows = matched_row blake3 d (previous ! i) # rest" "used' = used2"
      using Cons.prems(1) i rest by simp_all
    moreover from Cons.IH [OF rest] Cons.prems(2,3) i prior_index_bound [OF i(1)]
    have "List.map_filter change_current_file rest = map document_id ds
      \<and> distinct used2 \<and> set used2 \<subseteq> {..<length previous} \<and> set (i # used) \<subseteq> set used2
      \<and> mset (List.map_filter change_previous_file rest) + mset (map (\<lambda>i. document_id (previous ! i)) (i # used))
        = mset (map (\<lambda>i. document_id (previous ! i)) used2)" by auto
    ultimately show ?thesis by (simp add: List.map_filter_simps)
  next
    case False
    obtain rest used2 where rest: "current_rows blake3 previous ds used = (rest, used2)"
      by (cases "current_rows blake3 previous ds used")
    have "rows = added_row blake3 d # rest" "used' = used2"
      using Cons.prems(1) False rest by (auto split: option.splits)
    then show ?thesis using Cons.IH [OF rest] Cons.prems(2,3) by (simp add: List.map_filter_simps)
  qed
qed (simp add: List.map_filter_simps)


lemma compare_rows_files:
  "List.map_filter change_current_file (compare_rows blake3 current previous) = map document_id current
   \<and> mset (List.map_filter change_previous_file (compare_rows blake3 current previous))
     = mset (map document_id previous)"
proof -
  obtain rows used where run: "current_rows blake3 previous current [] = (rows, used)"
    by (cases "current_rows blake3 previous current []")
  let ?unused = "filter (\<lambda>i. i \<notin> set used) [0..<length previous]"
  let ?removed = "map (\<lambda>i. removed_row blake3 (previous ! i)) ?unused"
  from current_rows_inv [OF run] have
    inv: "List.map_filter change_current_file rows = map document_id current"
      "distinct used" "set used \<subseteq> {..<length previous}"
      "mset (List.map_filter change_previous_file rows) = mset (map (\<lambda>i. document_id (previous ! i)) used)"
    by simp_all
  have cur: "List.map_filter change_current_file (map (removed_row blake3 \<circ> (!) previous) xs) = []" for xs
    by (induction xs) (simp_all add: List.map_filter_simps)
  have prev: "List.map_filter change_previous_file (map (removed_row blake3 \<circ> (!) previous) xs)
      = map (\<lambda>i. document_id (previous ! i)) xs" for xs
    by (induction xs) (simp_all add: List.map_filter_simps)
  have rows: "compare_rows blake3 current previous = rows @ map (removed_row blake3 \<circ> (!) previous) ?unused"
    by (simp add: compare_rows_def run comp_def)
  have app: "List.map_filter f (xs @ ys) = List.map_filter f xs @ List.map_filter f ys"
    for f :: "PreviousReviewFileComparison \<Rightarrow> ReviewFileId option" and xs ys
    by (simp add: List.map_filter_def)
  have "mset used + mset ?unused = mset [0..<length previous]"
  proof -
    have "set used = set (filter (\<lambda>i. i \<in> set used) [0..<length previous])" using inv(3) by auto
    then have "mset used = mset (filter (\<lambda>i. i \<in> set used) [0..<length previous])"
      by (intro set_eq_iff_mset_eq_distinct [THEN iffD1] inv(2)) simp_all
    then show ?thesis by (simp only: mset_filter) (metis multiset_partition)
  qed
  then have "image_mset (\<lambda>i. document_id (previous ! i)) (mset used)
      + image_mset (\<lambda>i. document_id (previous ! i)) (mset ?unused)
      = image_mset (\<lambda>i. document_id (previous ! i)) (mset [0..<length previous])"
    by (metis image_mset_union)
  also have "\<dots> = mset (map document_id previous)"
  proof -
    have "map (\<lambda>i. document_id (previous ! i)) [0..<length previous] = map document_id previous"
      by (rule nth_equalityI) simp_all
    then show ?thesis by (metis mset_map)
  qed
  finally have "mset (map (\<lambda>i. document_id (previous ! i)) used)
      + mset (map (\<lambda>i. document_id (previous ! i)) ?unused) = mset (map document_id previous)"
    by simp
  then show ?thesis unfolding rows app cur prev using inv(1,4) by simp
qed

lemma map_filter_mset_cong:
  "mset xs = mset ys \<Longrightarrow> mset (List.map_filter f xs) = mset (List.map_filter f ys)"
  unfolding List.map_filter_def by (metis mset_filter mset_map)

text \<open>The review history partitions both generations: unless the answer says that it is
  truncated, every file of the current and every file of the previous generation is in
  exactly one of its rows, and it never has more rows than were asked for.\<close>

theorem history_partitions_generations:
  assumes "compare_immutable_review_documents blake3 current previous max_files = (rows, truncated)"
  shows "length rows \<le> max_files
    \<and> (truncated \<or> (mset (List.map_filter change_current_file rows) = mset (map document_id current)
        \<and> mset (List.map_filter change_previous_file rows) = mset (map document_id previous)))"
proof -
  let ?all = "compare_rows blake3 current previous"
  let ?sorted = "sort_key (\<lambda>r. (change_path r, change_previous_path r)) ?all"
  have rows: "rows = take max_files ?sorted" "truncated = (length ?sorted > max_files)"
    using assms by (simp_all add: compare_immutable_review_documents_def Let_def)
  have "mset ?sorted = mset ?all" by simp
  note perm = map_filter_mset_cong [OF this]
  show ?thesis
  proof (cases truncated)
    case False
    then have "rows = ?sorted" using rows by simp
    then show ?thesis using perm [of change_current_file] perm [of change_previous_file]
        compare_rows_files [of blake3 current previous] rows by simp
  qed (simp add: rows)
qed


section \<open>A copied file in the history\<close>

definition with_file_id :: "ReviewFileId \<Rightarrow> ReviewDiffDocument \<Rightarrow> ReviewDiffDocument" where
  "with_file_id i d = d\<lparr>doc_file := (doc_file d)\<lparr>file_id := i\<rparr>\<rparr>"

lemma last_index_pair: "last_index p [x, y] = (if p y then Some 1 else if p x then Some 0 else None)"
  by (simp add: last_index_def upt_rec)

text \<open>When the previous review had a file and a copy of it, a new review of the very same
  content reports neither as unchanged: the file is called renamed from its copy, the copy
  added and the file removed, since the path of the original is looked up as the old path of
  the copy.\<close>

theorem copied_file_misreported:
  assumes "file_path (doc_file x) = a" "file_old_path (doc_file x) = None"
    "file_path (doc_file y) = b" "file_old_path (doc_file y) = Some a" "a \<noteq> b"
    "{i, j} \<inter> {document_id x, document_id y} = {}" "3 \<le> max_files"
  shows "mset (map change_kind (fst (compare_immutable_review_documents blake3
      [with_file_id i x, with_file_id j y] [x, y] max_files)))
    = {#ChangeRenamed, ChangeAdded, ChangeRemoved#}"
proof -
  have i: "prior_index [x, y] (with_file_id i x) = Some 1" and j: "prior_index [x, y] (with_file_id j y) = Some 1"
    using assms(1-6)
    by (simp_all add: prior_index_def previous_by_id_def previous_by_path_def last_index_pair
        with_file_id_def holds_path_def)
  have rows: "compare_rows blake3 [with_file_id i x, with_file_id j y] [x, y] =
      [matched_row blake3 (with_file_id i x) y, added_row blake3 (with_file_id j y), removed_row blake3 x]"
    by (simp add: compare_rows_def i j upt_rec)
  let ?all = "compare_rows blake3 [with_file_id i x, with_file_id j y] [x, y]"
  let ?sorted = "sort_key (\<lambda>r. (change_path r, change_previous_path r)) ?all"
  have "fst (compare_immutable_review_documents blake3 [with_file_id i x, with_file_id j y] [x, y] max_files)
      = ?sorted"
    using assms(7) rows by (simp add: compare_immutable_review_documents_def Let_def)
  moreover have "mset (map change_kind ?sorted) = image_mset change_kind (mset ?all)" by simp
  moreover have "image_mset change_kind (mset ?all) = {#ChangeRenamed, ChangeAdded, ChangeRemoved#}"
    unfolding rows using assms(1,3,5)
    by (simp add: matched_row_def added_row_def removed_row_def Let_def with_file_id_def)
  ultimately show ?thesis by simp
qed

section \<open>Concrete generations\<close>

definition sample_document :: "uuid \<Rightarrow> string \<Rightarrow> StoredPath option \<Rightarrow> string \<Rightarrow> ReviewDiffDocument" where
  "sample_document u path old text =
    \<lparr>doc_comparison = ComparisonId 1,
     doc_file = \<lparr>file_id = ReviewFileId u, file_path = StoredPath path, file_old_path = old,
       file_status = ReviewFileStatus.FileModified\<rparr>,
     doc_old = \<lparr>content = [], source_fingerprint = [], line_count = 0, has_final_newline = True\<rparr>,
     doc_new = \<lparr>content = text, source_fingerprint = text, line_count = 0, has_final_newline = True\<rparr>,
     doc_hunks = [], changed_old_lines = {}, changed_new_lines = {}\<rparr>"

definition line_anchor :: "nat \<Rightarrow> string \<Rightarrow> AnnotationAnchor" where
  "line_anchor n source =
    \<lparr>anchor_comparison_id = ComparisonId 1, anchor_repository_id = RepositoryId 2,
     anchor_file_path = StoredPath ''a.rs'', anchor_old_path = None, anchor_side = Some New,
     anchor_start_line = Some n, anchor_end_line = Some n, anchor_selected_source = source,
     anchor_surrounding_context = [], anchor_fingerprint = ContentFingerprint [], anchor_outdated = False\<rparr>"

definition two_lines :: string where "two_lines = ''x'' @ [NL] @ ''y'' @ [NL]"

lemma sample_fits: "document_fits (sample_document 1 ''a.rs'' None two_lines)"
  by code_simp


lemma moved_lines_are_found_witness:
  "\<exists>a. reanchor id (line_anchor 1 ''y'') (sample_document 1 ''a.rs'' None two_lines) (ComparisonId 3) = Inr (Some a)
    \<and> anchor_start_line a = Some 2"
proof -
  have "occurrences (str_lines (anchor_selected_source (line_anchor 1 ''y'')))
      (str_lines (side_source (sample_document 1 ''a.rs'' None two_lines) New)) = [1]"
    by code_simp
  moreover have "str_lines (anchor_selected_source (line_anchor 1 ''y'')) \<noteq> []" by code_simp
  ultimately show ?thesis
    using moved_lines_are_found [OF sample_fits, of "line_anchor 1 ''y''" New 1 1 1 id "ComparisonId 3"]
    by (auto simp: line_anchor_def)
qed

definition line_note :: Annotation where
  "line_note = \<lparr>annotation_id = AnnotationId 4, annotation_set = AnnotationSetId 5,
    annotation_kind = Comment, annotation_state = Open, annotation_publication = LocalOnly,
    annotation_labels = [], annotation_body = ''Why?'', annotation_anchor = Some (line_anchor 1 ''y''),
    annotation_created_at = 1, annotation_updated_at = 1\<rparr>"

lemma refresh_keeps_annotations_witness:
  "\<exists>updated. reanchored_annotations id (RepositoryId 2) (ComparisonId 1) (ComparisonId 3)
      [sample_document 1 ''a.rs'' None two_lines] 9 [line_note] = Inr [updated]
    \<and> annotation_body updated = ''Why?''"
proof -
  have "filter (moves_with (RepositoryId 2) (ComparisonId 1)) [line_note] = [line_note]"
    by (simp add: moves_with_def belongs_to_def line_note_def line_anchor_def)
  with refresh_keeps_annotations [of "[sample_document 1 ''a.rs'' None two_lines]" id "RepositoryId 2"
      "ComparisonId 1" "ComparisonId 3" 9 "[line_note]"] sample_fits
  obtain updated where "reanchored_annotations id (RepositoryId 2) (ComparisonId 1) (ComparisonId 3)
      [sample_document 1 ''a.rs'' None two_lines] 9 [line_note] = Inr [updated]"
    "annotation_body updated = annotation_body line_note"
    by (auto simp del: reanchored_annotations.simps simp: list_all2_Cons1 dest: carried_over_body)
  then show ?thesis by (simp del: reanchored_annotations.simps add: line_note_def)
qed

lemma history_partitions_witness:
  "length (fst (compare_immutable_review_documents id [sample_document 1 ''a'' None []] [] 5)) \<le> 5"
  using history_partitions_generations [of id "[sample_document 1 ''a'' None []]" "[]" 5] prod.collapse
  by metis

lemma copied_file_misreported_witness:
  "mset (map change_kind (fst (compare_immutable_review_documents id
      [with_file_id (ReviewFileId 3) (sample_document 1 ''a'' None []),
       with_file_id (ReviewFileId 4) (sample_document 2 ''b'' (Some (StoredPath ''a'')) [])]
      [sample_document 1 ''a'' None [], sample_document 2 ''b'' (Some (StoredPath ''a'')) []] 10)))
    = {#ChangeRenamed, ChangeAdded, ChangeRemoved#}"
proof (rule copied_file_misreported)
  show "StoredPath ''a'' \<noteq> StoredPath ''b''" by code_simp
qed (simp_all add: sample_document_def)

end
