(* ===== verification/Store_Lifecycle.thy ===== *)
theory Store_Lifecycle
  imports Store_History
begin

text \<open>
  The life of an annotation set and the end of a workspace: clearing a review archives its
  annotations and starts an empty set; permanent deletion leaves nothing of the workspace,
  neither in the live database nor in a backup.
\<close>

section \<open>Clearing\<close>

lemma archived_simps [simp]: "set_id (archived at a) = set_id a" "\<not> set_active (archived at a)"
  by (simp_all add: archived_def)

lemma active_set_of_row:
  assumes "active_set_of i d = Some a"
  shows "\<exists>r\<in>set (t_sets d). set_row_session r = i \<and> set_row_active r \<and> set_row_payload r = a"
proof -
  obtain r rs where rows: "active_set_rows i d = r # rs" and a: "a = set_row_payload r"
    using assms by (auto simp: active_set_of_def split: list.splits)
  then have "r \<in> set (active_set_rows i d)" by simp
  then show ?thesis using a by (auto simp: active_set_rows_def)
qed

lemma only_active_row:
  assumes "distinct (active_sessions t)" "r \<in> set t" "r' \<in> set t" "set_row_active r" "set_row_active r'"
    "set_row_session r = set_row_session r'"
  shows "r = r'"
  using assms unfolding active_sessions_def by (auto simp: distinct_map dest: inj_onD)

lemma not_active_after_archive:
  assumes "db_ok d" "r \<in> set (t_sets d)" "set_row_session r = i" "set_row_active r" "set_row_payload r = a"
  shows "\<forall>x\<in>set (t_sets (store_set (archived at a) d)). set_row_session x = i \<longrightarrow> \<not> set_row_active x"
proof (intro ballI impI)
  fix x assume x: "x \<in> set (t_sets (store_set (archived at a) d))" "set_row_session x = i"
  consider (same) "x \<in> set (t_sets d)" "set_row_id x \<noteq> set_id a"
    | (new) y where "x = y\<lparr>set_row_payload := archived at a\<rparr>"
    using x(1) by (auto simp: store_set_def set_update_where)
  then show "\<not> set_row_active x"
  proof cases
    case same
    then have "x \<noteq> r" using assms(5) by (auto simp: set_row_id_def)
    then show ?thesis using only_active_row [OF schema_D(19) [OF assms(1)] same(1) assms(2)] assms(3,4) x(2) by auto
  qed (simp add: set_row_active_def)
qed

lemma active_sessions_snoc:
  "active_sessions (t @ [r]) = active_sessions t @ (if set_row_active r then [set_row_session r] else [])"
  by (simp add: active_sessions_def)

text \<open>Clearing a review keeps every annotation and every export where it was, archives the
  active set and returns a fresh, empty set that is the active one from then on; it succeeds
  whenever the review has an active set with the latest sequence number.\<close>

theorem clear_starts_empty_set:
  assumes "store_ok sha256 s" "active_set_of i (store_db s) = Some a" "\<not> set_exists fresh (store_db s)"
    "\<And>r. r \<in> set (t_sets (store_db s)) \<Longrightarrow> set_row_session r = i \<Longrightarrow> set_row_sequence r \<le> set_sequence a"
    "set_sequence a < U32_MAX"
  shows "\<exists>s'. clear_active_annotation_set fresh i at s =
      (Inr \<lparr>cleared_archived = archived at a, cleared_active = next_set fresh i a at\<rparr>, s')
    \<and> active_set_of i (store_db s') = Some (next_set fresh i a at)
    \<and> annotations_of fresh (store_db s') = []
    \<and> t_annotations (store_db s') = t_annotations (store_db s)
    \<and> t_exports (store_db s') = t_exports (store_db s)
    \<and> set (map set_row_id (t_sets (store_db s))) \<subseteq> set (map set_row_id (t_sets (store_db s')))"
proof -
  let ?d = "store_db s"
  let ?e = "store_set (archived at a) ?d"
  let ?new = "next_set fresh i a at"
  let ?row = "\<lparr>set_row_session = i, set_row_sequence = set_sequence a + 1, set_row_payload = ?new\<rparr>"
  note ok = store_ok_db [OF assms(1)]
  have ok': "db_ok ?e" by (rule store_archived_ok [OF ok])
  obtain r where r: "r \<in> set (t_sets ?d)" "set_row_session r = i" "set_row_active r" "set_row_payload r = a"
    using active_set_of_row [OF assms(2)] by blast
  have new: "set_review_session ?new = i" "set_sequence ?new = set_sequence a + 1" "set_id ?new = fresh" "set_active ?new"
    using assms(5) by (simp_all add: next_set_def)
  have inactive: "\<forall>x\<in>set (t_sets ?e). set_row_session x = i \<longrightarrow> \<not> set_row_active x"
    by (rule not_active_after_archive [OF ok r])
  have "t_sets ?e = update_where (\<lambda>r. set_row_id r = set_id (archived at a)) (\<lambda>r. r\<lparr>set_row_payload := archived at a\<rparr>) (t_sets ?d)"
    by (simp add: store_set_def)
  then have ids: "map set_row_id (t_sets ?e) = map set_row_id (t_sets ?d)"
    by (simp only:) (rule map_update_where, simp add: set_row_id_def)
  have fresh: "\<not> has_key set_row_id fresh (t_sets ?e)"
    using assms(3) arg_cong [OF ids, of set] by (simp add: set_exists_def has_key_iff)
  have seqs: "set_row_sequence x \<le> set_sequence a" if "x \<in> set (t_sets ?e)" "set_row_session x = i" for x
    using that assms(4) by (auto simp: store_set_def set_update_where)
  have "distinct (map set_unique (t_sets ?e @ [?row]))"
    using schema_D(18) [OF ok'] seqs by (force simp: set_unique_def image_iff)
  moreover have "distinct (active_sessions (t_sets ?e @ [?row]))"
    using schema_D(19) [OF ok'] inactive by (auto simp: active_sessions_snoc active_sessions_def)
  moreover have "session_exists i ?e"
    using refs_D(7) [OF ok r(1)] r(2) by (simp add: store_set_def session_exists_def)
  ultimately have ins: "insert_annotation_set ?new ?e = Inr (?e\<lparr>t_sets := t_sets ?e @ [?row]\<rparr>)"
    using fresh new by (simp add: insert_annotation_set_def Let_def insert_row_def unique_def foreign_def)
  have run: "clear_active_annotation_set fresh i at s =
      (Inr \<lparr>cleared_archived = archived at a, cleared_active = ?new\<rparr>, s\<lparr>store_db := ?e\<lparr>t_sets := t_sets ?e @ [?row]\<rparr>\<rparr>)"
    using assms(2) by (simp add: clear_active_annotation_set_def transaction_def ok_or_def ins)
  have "filter (\<lambda>x. set_row_session x = i \<and> set_row_active x) (t_sets ?e) = []"
    using inactive by (auto simp: filter_empty_conv)
  then have "active_set_of i (?e\<lparr>t_sets := t_sets ?e @ [?row]\<rparr>) = Some ?new"
    using new by (simp add: active_set_of_def active_set_rows_def set_row_active_def)
  moreover have "annotations_of fresh ?e = []"
  proof -
    have "ar_set x \<noteq> fresh" if "x \<in> set (t_annotations ?d)" for x
      using refs_D(8) [OF ok that] assms(3) by auto
    then show ?thesis by (simp add: annotations_of_def store_set_def filter_empty_conv)
  qed
  moreover have "set (map set_row_id (t_sets ?d)) \<subseteq> set (map set_row_id (t_sets ?e @ [?row]))"
    unfolding map_append ids by auto
  ultimately show ?thesis using run by (simp add: annotations_of_def store_set_def)
qed

section \<open>Permanent deletion\<close>

text \<open>Nothing of a workspace is left in a database.\<close>

definition forgets :: "WorkspaceId \<Rightarrow> Db \<Rightarrow> bool" where
  "forgets w d \<longleftrightarrow> \<not> workspace_exists w d
    \<and> (\<forall>r\<in>set (t_repositories d). rr_workspace r \<noteq> w) \<and> (\<forall>r\<in>set (t_sessions d). sr_workspace r \<noteq> w)
    \<and> (\<forall>r\<in>set (t_pull_requests d). pr_row_workspace r \<noteq> w)
    \<and> (\<forall>r\<in>set (t_worktrees d). worktree_row_workspace r \<noteq> Some w)
    \<and> (\<forall>r\<in>set (t_retired d). retired_row_workspace r \<noteq> Some w)"

lemma purge_rows_forget:
  assumes "purge_workspace_rows w keys prefix_list d = Inr (b, d')"
  shows "forgets w d'"
proof -
  have d': "d' = delete_workspace_row w (delete_protected_rows w keys prefix_list d)"
    using assms by (auto simp: purge_workspace_rows_def Let_def)
  have "\<not> workspace_exists w d'"
    unfolding d' workspace_exists_def has_key_ex Bex_def deleted_rows by blast
  moreover have "\<forall>r\<in>set (t_worktrees d'). worktree_row_workspace r \<noteq> Some w"
    "\<forall>r\<in>set (t_retired d'). retired_row_workspace r \<noteq> Some w"
    unfolding d' using nullified_rows by blast+
  ultimately show ?thesis unfolding forgets_def by (simp add: d')
qed

lemma purge_backups_forget:
  "purge_backups w keys prefix_list bs = (Inr (), bs') \<Longrightarrow> \<forall>b\<in>set bs'. forgets w b"
  by (induction bs arbitrary: bs') (auto split: sum.splits prod.splits dest: purge_rows_forget)

lemma protected_rows_kept:
  "t_workspaces (delete_protected_rows w keys prefix_list d) = t_workspaces d"
  "t_repositories (delete_protected_rows w keys prefix_list d) = t_repositories d"
  "t_sessions (delete_protected_rows w keys prefix_list d) = t_sessions d"
  "t_sets (delete_protected_rows w keys prefix_list d) = t_sets d"
  "sets_under w (delete_protected_rows w keys prefix_list d) = sets_under w d"
  "sessions_under w (delete_protected_rows w keys prefix_list d) = sessions_under w d"
  by (simp_all add: delete_protected_rows_def sets_under_def sessions_under_def)


section \<open>A concrete workspace\<close>

definition cleared_store :: Store where
  "cleared_store = demo_store\<lparr>store_db := (store_db demo_store)\<lparr>
    t_sessions := [\<lparr>sr_workspace = WorkspaceId 1, sr_started_at = 5, sr_session = demo_session\<rparr>],
    t_sets := [\<lparr>set_row_session = ReviewSessionId 2, set_row_sequence = 1, set_row_payload = demo_set\<rparr>]\<rparr>\<rparr>"

lemma cleared_store_ok: "store_ok sha256 cleared_store"
  by (simp add: store_ok_def cleared_store_def demo_store_eq empty_store_def empty_db_def schema_defs
      active_sessions_def sr_id_def demo_workspace_def demo_session_def demo_set_def)

lemma clear_starts_empty_set_witness:
  "\<exists>s' :: Store. active_set_of (ReviewSessionId 2) (store_db s') =
    Some (next_set (AnnotationSetId 9) (ReviewSessionId 2) demo_set 8)"
proof -
  have active: "active_set_of (ReviewSessionId 2) (store_db cleared_store) = Some demo_set"
    by (simp add: active_set_of_def active_set_rows_def cleared_store_def set_row_active_def demo_set_def)
  have fresh: "\<not> set_exists (AnnotationSetId 9) (store_db cleared_store)"
    by (simp add: set_exists_def cleared_store_def set_row_id_def demo_set_def)
  have sequence: "set_row_sequence r \<le> set_sequence demo_set"
    if "r \<in> set (t_sets (store_db cleared_store))" "set_row_session r = ReviewSessionId 2" for r
    using that by (simp add: cleared_store_def demo_set_def)
  have bound: "set_sequence demo_set < U32_MAX" by (simp add: demo_set_def)
  show ?thesis
    by (rule exE [OF clear_starts_empty_set [of id, OF cleared_store_ok active fresh _ bound, of 8]])
      (rule sequence, assumption+, elim conjE, rule exI, assumption)
qed


end
