(* ===== verification/Store_Backups.thy ===== *)
theory Store_Backups
  imports Store_Db
begin

text \<open>
  \<open>crates/persistence/src/lib.rs\<close>, backups and recovery: the retention policy, the
  rotation, the startup check and the explicit restore.

  \<open>DataRoot\<close> is the private data directory: \<open>state.sqlite\<close> and its two sidecars, the
  directory \<open>backups/\<close>, the directory \<open>recovery/\<close> and the temporary files of a restore.  A
  database file is an abstract image \<open>'c\<close>; what SQLite answers about an image, and what the
  schema migration makes of it, is the record \<open>Sqlite\<close> of functions.  \<open>io\<close> tells for the
  name of a file whether removing, renaming or copying to it succeeds.
\<close>

section \<open>Policies and reports\<close>

record BackupInfo =
  backup_path :: string
  backup_byte_len :: nat
  backup_created_at :: timestamp

record BackupPolicy =
  max_backups :: nat
  max_total_bytes :: "nat option"

definition default_policy :: BackupPolicy where
  "default_policy = \<lparr>max_backups = 7, max_total_bytes = Some (1024 * 1024 * 1024)\<rparr>"

record BackupStorageReport =
  report_policy :: BackupPolicy
  retained_count :: nat
  retained_bytes :: nat
  newest_backup_at :: "timestamp option"
  oldest_backup_at :: "timestamp option"
  exceeds_size_preference :: bool

definition validate_backup_policy :: "BackupPolicy \<Rightarrow> PersistenceError + unit" where
  "validate_backup_policy p = ensure (max_backups p \<noteq> 0) InvalidBackupPolicy"

definition saturating_add :: "nat \<Rightarrow> nat \<Rightarrow> nat" where
  "saturating_add a b = min (a + b) U64_MAX"

definition above :: "nat option \<Rightarrow> nat \<Rightarrow> bool" where
  "above limit n = (case limit of None \<Rightarrow> False | Some m \<Rightarrow> m < n)"

fun keep_backups :: "nat option \<Rightarrow> nat \<Rightarrow> BackupInfo list \<Rightarrow> BackupInfo list \<Rightarrow> BackupInfo list" where
  "keep_backups limit bytes kept [] = kept"
| "keep_backups limit bytes kept (b # bs) =
    (if above limit (saturating_add bytes (backup_byte_len b)) \<and> kept \<noteq> []
     then keep_backups limit bytes kept bs
     else keep_backups limit (saturating_add bytes (backup_byte_len b)) (kept @ [b]) bs)"

definition retained_backups :: "BackupInfo list \<Rightarrow> BackupPolicy \<Rightarrow> BackupInfo list" where
  "retained_backups bs p = keep_backups (max_total_bytes p) 0 [] (take (max_backups p) bs)"

definition total_bytes :: "BackupInfo list \<Rightarrow> nat" where
  "total_bytes bs = foldl (\<lambda>total b. saturating_add total (backup_byte_len b)) 0 bs"

definition backup_storage_report :: "BackupInfo list \<Rightarrow> BackupPolicy \<Rightarrow> PersistenceError + BackupStorageReport" where
  "backup_storage_report bs p = vthen (validate_backup_policy p)
    (let retained = retained_backups bs p; bytes = total_bytes retained in
     Inr \<lparr>report_policy = p, retained_count = length retained, retained_bytes = bytes,
       newest_backup_at = map_option backup_created_at (if retained = [] then None else Some (hd retained)),
       oldest_backup_at = map_option backup_created_at (if retained = [] then None else Some (last retained)),
       exceeds_size_preference = above (max_total_bytes p) bytes\<rparr>)"

section \<open>File names\<close>

definition is_valid_backup_file_name :: "string \<Rightarrow> bool" where
  "is_valid_backup_file_name name =
    (case strip_suffix ''.sqlite'' name of
       None \<Rightarrow> False
     | Some stem \<Rightarrow>
         list_ex (\<lambda>p. starts_with stem p \<and> length p < length stem) [''automatic-'', ''manual-'', ''pre-migration-'']
         \<and> list_all (\<lambda>c. is_alnum c \<or> c \<in> set ''-._'') stem)"

definition validate_backup_file_name :: "string \<Rightarrow> PersistenceError + string" where
  "validate_backup_file_name name =
    (if path_components name \<noteq> [Normal name] \<or> \<not> is_valid_backup_file_name name
     then Inl InvalidBackupFileName else Inr name)"

section \<open>Diagnostics\<close>

fun drop_controls :: "string \<Rightarrow> string" where
  "drop_controls [] = []"
| "drop_controls [c] =
    (if (byte c < 32 \<and> byte c \<noteq> 9 \<and> byte c \<noteq> 10) \<or> byte c = 127 then [] else [c])"
| "drop_controls (c # d # s) =
    (if (byte c < 32 \<and> byte c \<noteq> 9 \<and> byte c \<noteq> 10) \<or> byte c = 127 then drop_controls (d # s)
     else if c = CHR 0xC2 \<and> 128 \<le> byte d \<and> byte d \<le> 159 then drop_controls s
     else c # drop_controls (d # s))"

abbreviation DIAGNOSTIC_LIMIT :: nat where "DIAGNOSTIC_LIMIT \<equiv> 512"

text \<open>\<open>None\<close> is the panic of \<open>String::truncate\<close> inside a character.\<close>

definition bounded_diagnostic :: "string \<Rightarrow> string option" where
  "bounded_diagnostic v =
    (let s = drop_controls v in
     if length s \<le> DIAGNOSTIC_LIMIT then Some s
     else if is_char_boundary s DIAGNOSTIC_LIMIT
          then Some (take DIAGNOSTIC_LIMIT s @ [CHR 0xE2, CHR 0x80, CHR 0xA6])
          else None)"

section \<open>The data directory\<close>

datatype SqliteAnswer = QuickCheck string | SqliteCorrupt | SqliteFailure string

record 'c Sqlite =
  quick_check :: "'c \<Rightarrow> SqliteAnswer"
  integrity_check :: "'c \<Rightarrow> string"
  user_version :: "'c \<Rightarrow> int"
  image_bytes :: "'c \<Rightarrow> nat"
  empty_image :: 'c
  migrated_image :: "'c \<Rightarrow> 'c"

record 'c BackupFile =
  file_name_of :: string
  file_regular :: bool
  file_modified :: timestamp
  file_image :: 'c

record 'c DataRoot =
  root_database :: "'c option"
  root_sidecars :: "string \<Rightarrow> 'c option"
  root_backups :: "'c BackupFile list"
  root_recovery :: "string \<Rightarrow> 'c option"
  root_temporary :: "string \<Rightarrow> 'c option"

datatype stop = Failed PersistenceError | Panicked

type_synonym ('c, 'a) root_op = "'c DataRoot \<Rightarrow> (stop + 'a) \<times> 'c DataRoot"

definition lift_error :: "PersistenceError + 'a \<Rightarrow> stop + 'a" where
  "lift_error r = map_err Failed r"

definition root_get :: "('c DataRoot \<Rightarrow> 'a) \<Rightarrow> ('c, 'a) root_op" where
  "root_get f r = (Inr (f r), r)"

definition root_put :: "('c DataRoot \<Rightarrow> 'c DataRoot) \<Rightarrow> ('c, unit) root_op" where
  "root_put f r = (Inr (), f r)"

definition file_io :: "(string \<Rightarrow> bool) \<Rightarrow> string \<Rightarrow> ('c DataRoot \<Rightarrow> 'c DataRoot) \<Rightarrow> ('c, unit) root_op" where
  "file_io io name f r = (if io name then (Inr (), f r) else (Inl (Failed (PersistenceFile name)), r))"

lemma root_simps [simp]:
  "root_get f r = (x, r') \<longleftrightarrow> x = Inr (f r) \<and> r' = r"
  "root_put g r = (y, r') \<longleftrightarrow> y = Inr () \<and> r' = g r"
  by (auto simp: root_get_def root_put_def)

section \<open>Listing and rotation\<close>

definition listed :: "'c BackupFile \<Rightarrow> bool" where
  "listed f \<longleftrightarrow> is_utf8 (file_name_of f) \<and> file_regular f \<and> is_valid_backup_file_name (file_name_of f)"

definition backup_info :: "'c Sqlite \<Rightarrow> 'c BackupFile \<Rightarrow> BackupInfo" where
  "backup_info q f = \<lparr>backup_path = file_name_of f, backup_byte_len = image_bytes q (file_image f),
    backup_created_at = file_modified f\<rparr>"

definition list_backups_at :: "'c Sqlite \<Rightarrow> 'c DataRoot \<Rightarrow> BackupInfo list" where
  "list_backups_at q r =
    sort_key (\<lambda>b. - backup_created_at b) (map (backup_info q) (filter listed (root_backups r)))"

definition remove_backup :: "(string \<Rightarrow> bool) \<Rightarrow> string \<Rightarrow> ('c, unit) root_op" where
  "remove_backup io name =
    file_io io name (\<lambda>r. r\<lparr>root_backups := filter (\<lambda>f. file_name_of f \<noteq> name) (root_backups r)\<rparr>)"

fun remove_unretained :: "(string \<Rightarrow> bool) \<Rightarrow> string list \<Rightarrow> BackupInfo list \<Rightarrow> ('c, unit) root_op" where
  "remove_unretained io paths [] = io_return (Inr ())"
| "remove_unretained io paths (b # bs) =
    (if backup_path b \<in> set paths then remove_unretained io paths bs
     else io_bind (remove_backup io (backup_path b)) (\<lambda>_. remove_unretained io paths bs))"

definition rotate_backups :: "'c Sqlite \<Rightarrow> (string \<Rightarrow> bool) \<Rightarrow> BackupPolicy \<Rightarrow> ('c, unit) root_op" where
  "rotate_backups q io p =
    io_bind (io_return (lift_error (validate_backup_policy p))) (\<lambda>_.
    io_bind (root_get (list_backups_at q)) (\<lambda>bs.
      remove_unretained io (map backup_path (retained_backups bs p)) bs))"

definition apply_backup_policy ::
  "'c Sqlite \<Rightarrow> (string \<Rightarrow> bool) \<Rightarrow> BackupPolicy \<Rightarrow> ('c, BackupStorageReport) root_op" where
  "apply_backup_policy q io p =
    io_bind (io_return (lift_error (validate_backup_policy p))) (\<lambda>_.
    io_bind (rotate_backups q io p) (\<lambda>_.
    io_bind (root_get (list_backups_at q)) (\<lambda>bs. io_return (lift_error (backup_storage_report bs p)))))"

definition backup_connection ::
  "'c Sqlite \<Rightarrow> (string \<Rightarrow> bool) \<Rightarrow> timestamp \<Rightarrow> string \<Rightarrow> string \<Rightarrow> 'c \<Rightarrow> ('c, BackupInfo) root_op" where
  "backup_connection q io now stamp kind c =
    (let name = kind @ ''-'' @ stamp @ ''.sqlite'' in
     io_bind (file_io io name (\<lambda>r. r\<lparr>root_backups := filter (\<lambda>f. file_name_of f \<noteq> name) (root_backups r)
         @ [\<lparr>file_name_of = name, file_regular = True, file_modified = now, file_image = c\<rparr>]\<rparr>)) (\<lambda>_.
     io_return (Inr \<lparr>backup_path = name, backup_byte_len = image_bytes q c, backup_created_at = now\<rparr>)))"

definition backup_now_with_policy ::
  "'c Sqlite \<Rightarrow> (string \<Rightarrow> bool) \<Rightarrow> timestamp \<Rightarrow> string \<Rightarrow> 'c \<Rightarrow> BackupPolicy \<Rightarrow> ('c, BackupInfo) root_op" where
  "backup_now_with_policy q io now stamp c p =
    io_bind (io_return (lift_error (validate_backup_policy p))) (\<lambda>_.
    io_bind (backup_connection q io now stamp ''manual'' c) (\<lambda>info.
    io_bind (rotate_backups q io p) (\<lambda>_. io_return (Inr info))))"

definition backup_due :: "timestamp \<Rightarrow> int \<Rightarrow> BackupInfo list \<Rightarrow> bool" where
  "backup_due now maximum_age bs =
    (case bs of [] \<Rightarrow> True
     | b # _ \<Rightarrow> (let age = now - backup_created_at b in 0 \<le> age \<and> maximum_age \<le> age))"

definition backup_if_due_with_policy ::
  "'c Sqlite \<Rightarrow> (string \<Rightarrow> bool) \<Rightarrow> timestamp \<Rightarrow> string \<Rightarrow> 'c \<Rightarrow> int \<Rightarrow> BackupPolicy
    \<Rightarrow> ('c, BackupInfo option) root_op" where
  "backup_if_due_with_policy q io now stamp c maximum_age p =
    io_bind (io_return (lift_error (validate_backup_policy p))) (\<lambda>_.
    io_bind (root_get (list_backups_at q)) (\<lambda>bs.
      if \<not> backup_due now maximum_age bs then io_return (Inr None)
      else io_bind (backup_connection q io now stamp ''automatic'' c) (\<lambda>info.
           io_bind (rotate_backups q io p) (\<lambda>_. io_return (Inr (Some info))))))"

section \<open>Validation and startup\<close>

text \<open>\<open>None\<close> is the panic of the diagnostic, \<open>Some (Inl d)\<close> the refusal with its bounded text.\<close>

definition validate_database_for_open :: "'c Sqlite \<Rightarrow> 'c \<Rightarrow> (string + unit) option" where
  "validate_database_for_open q c =
    (case quick_check q c of
       QuickCheck report \<Rightarrow>
         if eq_ignore_ascii_case report ''ok'' then Some (Inr ()) else map_option Inl (bounded_diagnostic report)
     | SqliteCorrupt \<Rightarrow> Some (Inl ''SQLite reported corrupt or non-database content'')
     | SqliteFailure message \<Rightarrow> map_option Inl (bounded_diagnostic message))"

definition validated :: "(string \<Rightarrow> PersistenceError) \<Rightarrow> (string + unit) option \<Rightarrow> stop + unit" where
  "validated f v =
    (case v of None \<Rightarrow> Inl Panicked | Some (Inl d) \<Rightarrow> Inl (Failed (f d)) | Some (Inr _) \<Rightarrow> Inr ())"

definition recovery_backups_at :: "'c Sqlite \<Rightarrow> 'c DataRoot \<Rightarrow> RecoveryBackupInfo list" where
  "recovery_backups_at q r =
    map (\<lambda>b. \<lparr>recovery_backup_file_name = backup_path b, recovery_byte_len = backup_byte_len b,
              recovery_created_at = backup_created_at b\<rparr>) (list_backups_at q r)"

definition open_root ::
  "'c Sqlite \<Rightarrow> (string \<Rightarrow> bool) \<Rightarrow> timestamp \<Rightarrow> string \<Rightarrow> ('c, unit) root_op" where
  "open_root q io now stamp =
    io_bind (root_get (\<lambda>r. (root_database r, recovery_backups_at q r))) (\<lambda>(database, recoverable).
    io_bind (io_return (case database of None \<Rightarrow> Inr ()
      | Some c \<Rightarrow> validated (\<lambda>d. CorruptDatabase d recoverable) (validate_database_for_open q c))) (\<lambda>_.
    let content = (case database of None \<Rightarrow> empty_image q | Some c \<Rightarrow> c) in
    io_bind (root_put (\<lambda>r. r\<lparr>root_database := Some content\<rparr>)) (\<lambda>_.
    io_bind
      (if user_version q content < 6
       then io_bind
         (if database \<noteq> None \<and> 0 < user_version q content
          then io_bind (backup_connection q io now stamp ''pre-migration'' content) (\<lambda>_. io_return (Inr ()))
          else io_return (Inr ())) (\<lambda>_.
         root_put (\<lambda>r. r\<lparr>root_database := Some (migrated_image q content)\<rparr>))
       else io_return (Inr ())) (\<lambda>_.
    rotate_backups q io default_policy))))"

record IntegrityReport =
  healthy :: bool
  integrity_diagnostic :: string
  recoverable_backups :: "BackupInfo list"

definition integrity_report :: "'c Sqlite \<Rightarrow> 'c \<Rightarrow> 'c DataRoot \<Rightarrow> IntegrityReport" where
  "integrity_report q c r =
    (let diagnostic = integrity_check q c; ok = eq_ignore_ascii_case diagnostic ''ok'' in
     \<lparr>healthy = ok, integrity_diagnostic = diagnostic,
      recoverable_backups = (if ok then [] else list_backups_at q r)\<rparr>)"

record PersistenceDiagnostics =
  database_healthy :: bool
  bounded_integrity :: string
  recoverable_backup_count :: nat
  backup_storage :: BackupStorageReport

definition diagnostics :: "'c Sqlite \<Rightarrow> BackupPolicy \<Rightarrow> 'c \<Rightarrow> ('c, PersistenceDiagnostics) root_op" where
  "diagnostics q p c =
    io_bind (root_get (\<lambda>r. (integrity_report q c r, list_backups_at q r))) (\<lambda>(report, bs).
      case bounded_diagnostic (integrity_diagnostic report) of
        None \<Rightarrow> io_return (Inl Panicked)
      | Some d \<Rightarrow>
          io_bind (io_return (lift_error (vthen (validate_backup_policy p) (backup_storage_report bs p)))) (\<lambda>storage.
          io_return (Inr \<lparr>database_healthy = healthy report, bounded_integrity = d,
            recoverable_backup_count = length (recoverable_backups report), backup_storage = storage\<rparr>)))"

record RecoveryReport =
  database_present :: bool
  recovery_diagnostic :: string
  recovery_backups :: "RecoveryBackupInfo list"

datatype StartupState = Ready | RequiresRecovery RecoveryReport

definition recovery_state :: "bool \<Rightarrow> string \<Rightarrow> RecoveryBackupInfo list \<Rightarrow> stop + StartupState" where
  "recovery_state present diagnostic bs =
    (case bounded_diagnostic diagnostic of
       None \<Rightarrow> Inl Panicked
     | Some d \<Rightarrow> Inr (RequiresRecovery
         \<lparr>database_present = present, recovery_diagnostic = d, recovery_backups = bs\<rparr>))"

definition open_for_startup ::
  "'c Sqlite \<Rightarrow> (string \<Rightarrow> bool) \<Rightarrow> timestamp \<Rightarrow> string \<Rightarrow> ('c, StartupState) root_op" where
  "open_for_startup q io now stamp r =
    (case open_root q io now stamp r of
       (Inr _, r') \<Rightarrow>
         (let report = integrity_report q (the (root_database r')) r' in
          (if healthy report then Inr Ready
           else recovery_state True (integrity_diagnostic report) (recovery_backups_at q r'), r'))
     | (Inl (Failed (CorruptDatabase diagnostic bs)), r') \<Rightarrow>
         (recovery_state (root_database r' \<noteq> None) diagnostic bs, r')
     | (Inl e, r') \<Rightarrow> (Inl e, r'))"

section \<open>Restore\<close>

definition backup_image :: "string \<Rightarrow> 'c DataRoot \<Rightarrow> 'c option" where
  "backup_image name r = map_option file_image (find (\<lambda>f. listed f \<and> file_name_of f = name) (root_backups r))"

definition move_sidecar :: "(string \<Rightarrow> bool) \<Rightarrow> string \<Rightarrow> string \<Rightarrow> ('c, unit) root_op" where
  "move_sidecar io preserved ext =
    io_bind (root_get (\<lambda>r. root_sidecars r ext)) (\<lambda>sidecar.
      case sidecar of
        None \<Rightarrow> io_return (Inr ())
      | Some c \<Rightarrow> file_io io (preserved @ ext) (\<lambda>r. r\<lparr>root_sidecars := (root_sidecars r)(ext := None),
          root_recovery := (root_recovery r)(preserved @ ext \<mapsto> c)\<rparr>))"

definition preserve_database_for_recovery ::
  "(string \<Rightarrow> bool) \<Rightarrow> string \<Rightarrow> ('c, string option) root_op" where
  "preserve_database_for_recovery io stamp =
    io_bind (root_get root_database) (\<lambda>database.
      case database of
        None \<Rightarrow> io_return (Inr None)
      | Some c \<Rightarrow>
          (let preserved = ''state.corrupt-'' @ stamp @ ''.sqlite'' in
           io_bind (file_io io preserved (\<lambda>r. r\<lparr>root_database := None,
             root_recovery := (root_recovery r)(preserved \<mapsto> c)\<rparr>)) (\<lambda>_.
           io_bind (move_sidecar io preserved ''-wal'') (\<lambda>_.
           io_bind (move_sidecar io preserved ''-shm'') (\<lambda>_.
           io_return (Inr (Some preserved)))))))"

record RecoveryRestoreResult =
  restored_backup_file_name :: string
  preserved_database_file_name :: "string option"

definition install_backup ::
  "'c Sqlite \<Rightarrow> (string \<Rightarrow> bool) \<Rightarrow> string \<Rightarrow> string \<Rightarrow> 'c \<Rightarrow> ('c, RecoveryRestoreResult) root_op" where
  "install_backup q io stamp name content =
    (let temporary = ''.state.restore-'' @ stamp @ ''.sqlite'' in
     io_bind (file_io io temporary (\<lambda>r. r\<lparr>root_temporary := (root_temporary r)(temporary \<mapsto> content)\<rparr>)) (\<lambda>_.
     io_bind (io_return (validated (InvalidRecoveryBackup name) (validate_database_for_open q content))) (\<lambda>_.
     io_bind (preserve_database_for_recovery io stamp) (\<lambda>preserved.
     io_bind (file_io io ''state.sqlite'' (\<lambda>r. r\<lparr>root_database := Some content,
       root_temporary := (root_temporary r)(temporary := None)\<rparr>)) (\<lambda>_.
     io_return (Inr \<lparr>restored_backup_file_name = name, preserved_database_file_name = preserved\<rparr>))))))"

definition recovery_required :: "'c Sqlite \<Rightarrow> 'c option \<Rightarrow> stop + unit" where
  "recovery_required q database =
    (case database of
       None \<Rightarrow> Inr ()
     | Some c \<Rightarrow> (case validate_database_for_open q c of
         None \<Rightarrow> Inl Panicked | Some (Inr _) \<Rightarrow> Inl (Failed RecoveryNotRequired) | Some (Inl _) \<Rightarrow> Inr ()))"

definition restore_from_backup ::
  "'c Sqlite \<Rightarrow> (string \<Rightarrow> bool) \<Rightarrow> string \<Rightarrow> string \<Rightarrow> ('c, RecoveryRestoreResult) root_op" where
  "restore_from_backup q io stamp name =
    io_bind (io_return (lift_error (validate_backup_file_name name))) (\<lambda>name.
    io_bind (root_get (backup_image name)) (\<lambda>found.
    io_bind (io_return (lift_error (ok_or (BackupNotFound name) found))) (\<lambda>content.
    io_bind (root_get root_database) (\<lambda>database.
    io_bind (io_return (recovery_required q database)) (\<lambda>_.
    io_bind (io_return (validated (InvalidRecoveryBackup name) (validate_database_for_open q content))) (\<lambda>_.
      install_backup q io stamp name content))))))"

end
