(* ===== verification/Store_Backups_Props.thy ===== *)
theory Store_Backups_Props
  imports Store_Backups
begin

text \<open>
  What the backup policy, the startup check and the restore guarantee: a rotation keeps
  exactly the backups the policy retains and always the newest; a damaged database is
  reported and left as it is; a restore never destroys the database it replaces.
\<close>

section \<open>Retention\<close>

lemma keep_backups_sublist: "\<exists>ys. keep_backups limit n kept bs = kept @ ys \<and> subseq ys bs"
proof (induction bs arbitrary: n kept)
  case (Cons b bs)
  show ?case
    using Cons [of "saturating_add n (backup_byte_len b)" "kept @ [b]"] Cons [of n kept]
    by (auto intro: subseq_Cons2)
qed simp

lemma retained_subseq: "subseq (retained_backups bs p) bs"
proof -
  obtain ys where "retained_backups bs p = ys" "subseq ys (take (max_backups p) bs)"
    using keep_backups_sublist [of "max_total_bytes p" 0 "[]" "take (max_backups p) bs"]
    by (auto simp: retained_backups_def)
  then show ?thesis
    using subseq_order.trans [of ys "take (max_backups p) bs" bs] list_emb_append2 [of "(=)"]
    by (metis append_take_drop_id subseq_rev_drop_many subseq_order.order_refl)
qed

lemma retained_length: "length (retained_backups bs p) \<le> max_backups p"
proof -
  obtain ys where "retained_backups bs p = ys" "subseq ys (take (max_backups p) bs)"
    using keep_backups_sublist [of "max_total_bytes p" 0 "[]" "take (max_backups p) bs"]
    by (auto simp: retained_backups_def)
  then show ?thesis using list_emb_length [of "(=)" ys "take (max_backups p) bs"] by simp
qed

lemma retained_newest:
  assumes "max_backups p \<noteq> 0"
  shows "retained_backups (b # bs) p \<noteq> [] \<and> hd (retained_backups (b # bs) p) = b"
proof -
  obtain k where k: "max_backups p = Suc k" using assms by (cases "max_backups p") auto
  obtain ys where "keep_backups (max_total_bytes p) (saturating_add 0 (backup_byte_len b)) [b] (take k bs) = [b] @ ys"
    using keep_backups_sublist by blast
  then show ?thesis by (simp add: retained_backups_def k)
qed

lemma total_bytes_snoc: "total_bytes (bs @ [b]) = saturating_add (total_bytes bs) (backup_byte_len b)"
  by (simp add: total_bytes_def)

text \<open>The size preference holds, or the one retained snapshot is larger than it.\<close>

lemma keep_backups_size:
  assumes "n = total_bytes kept" "\<not> above limit n \<or> length kept \<le> 1"
  shows "\<not> above limit (total_bytes (keep_backups limit n kept bs)) \<or> length (keep_backups limit n kept bs) \<le> 1"
  using assms
proof (induction bs arbitrary: n kept)
  case (Cons b bs)
  show ?case
  proof (cases "above limit (saturating_add n (backup_byte_len b)) \<and> kept \<noteq> []")
    case False
    then show ?thesis using Cons.IH [of "saturating_add n (backup_byte_len b)" "kept @ [b]"] Cons.prems
      by (auto simp: total_bytes_snoc)
  qed (use Cons in simp)
qed simp

lemma retained_size:
  "\<not> above (max_total_bytes p) (total_bytes (retained_backups bs p)) \<or> length (retained_backups bs p) \<le> 1"
  unfolding retained_backups_def by (rule keep_backups_size) (simp_all add: total_bytes_def)

lemma subseq_subset: "subseq ys xs \<Longrightarrow> set ys \<subseteq> set xs"
  by (auto dest: list_emb_set)

lemma subseq_is_filter:
  "subseq ys xs \<Longrightarrow> distinct (map f xs) \<Longrightarrow> filter (\<lambda>x. f x \<in> f ` set ys) xs = ys"
proof (induction rule: list_emb.induct)
  case (list_emb_Cons ys xs x)
  then have "f x \<notin> f ` set ys" using subseq_subset [OF list_emb_Cons.hyps] by auto
  then show ?case using list_emb_Cons by simp
next
  case (list_emb_Cons2 y x ys xs)
  have "filter (\<lambda>z. f z \<in> f ` set (x # ys)) xs = filter (\<lambda>z. f z \<in> f ` set ys) xs"
    using list_emb_Cons2.prems by (intro filter_cong) (auto simp: image_iff)
  then show ?case using list_emb_Cons2 by simp
qed simp

section \<open>Rotation\<close>

definition file_names :: "'c DataRoot \<Rightarrow> string list" where
  "file_names r = map file_name_of (root_backups r)"

lemma remove_unretained_all:
  assumes "\<And>n. io n"
  shows "remove_unretained io keep bs r = (Inr (), r\<lparr>root_backups :=
    filter (\<lambda>f. \<not> (\<exists>b\<in>set bs. backup_path b \<notin> set keep \<and> file_name_of f = backup_path b)) (root_backups r)\<rparr>)"
  by (induction bs arbitrary: r) (auto simp: io_bind_def remove_backup_def file_io_def assms intro!: arg_cong [where f="\<lambda>x. r\<lparr>root_backups := x\<rparr>" for r] filter_cong)

lemma list_backups_paths:
  "set (map backup_path (list_backups_at q r)) = set (map file_name_of (filter listed (root_backups r)))"
  by (force simp: list_backups_at_def backup_info_def)

lemma distinct_backup_paths:
  "distinct (file_names r) \<Longrightarrow> distinct (map backup_path (list_backups_at q r))"
proof -
  assume "distinct (file_names r)"
  then have "distinct (map file_name_of (filter listed (root_backups r)))"
    by (simp add: file_names_def distinct_map_filter)
  moreover have "map backup_path (map (backup_info q) fs) = map file_name_of fs" for fs
    by (induction fs) (simp_all add: backup_info_def)
  ultimately have "distinct (map backup_path (map (backup_info q) (filter listed (root_backups r))))" by (simp only:)
  then show ?thesis unfolding list_backups_at_def distinct_map
    by (simp only: distinct_map distinct_sort set_sort simp_thms)
qed


definition demo_sqlite :: "nat Sqlite" where
  "demo_sqlite = \<lparr>quick_check = (\<lambda>c. if c = 0 then SqliteCorrupt else QuickCheck ''ok''),
    integrity_check = (\<lambda>c. ''ok''), user_version = (\<lambda>c. 6), image_bytes = (\<lambda>c. c),
    empty_image = 1, migrated_image = (\<lambda>c. c)\<rparr>"

definition demo_backup :: "string \<Rightarrow> timestamp \<Rightarrow> nat \<Rightarrow> nat BackupFile" where
  "demo_backup name at c = \<lparr>file_name_of = name, file_regular = True, file_modified = at, file_image = c\<rparr>"

definition demo_root :: "nat DataRoot" where
  "demo_root = \<lparr>root_database = Some 0, root_sidecars = (\<lambda>_. None),
    root_backups = [demo_backup ''manual-1.sqlite'' 1 10, demo_backup ''manual-2.sqlite'' 2 20,
      demo_backup ''notes.txt'' 3 5],
    root_recovery = (\<lambda>_. None), root_temporary = (\<lambda>_. None)\<rparr>"


section \<open>Startup and restore\<close>

text \<open>A database that SQLite does not accept is never opened, migrated, replaced or removed
  at startup: the process starts in the recovery state, or stops, and the data directory is
  exactly as it was.\<close>

theorem damaged_database_left_alone:
  assumes "root_database r = Some c" "validate_database_for_open q c \<noteq> Some (Inr ())"
  shows "\<exists>x. open_for_startup q io now stamp r = (x, r) \<and> x \<noteq> Inr Ready"
proof (cases "validate_database_for_open q c")
  case None
  then show ?thesis
    using assms(1) by (simp add: open_for_startup_def open_root_def io_bind_def io_return_def root_get_def validated_def)
next
  case (Some v)
  then obtain d where "v = Inl d" using assms(2) by (cases v) auto
  then have "open_for_startup q io now stamp r
      = (recovery_state True d (recovery_backups_at q r), r)"
    using assms(1) Some
    by (simp add: open_for_startup_def open_root_def io_bind_def io_return_def root_get_def validated_def)
  then show ?thesis by (auto simp: recovery_state_def split: option.splits)
qed

lemma damaged_database_left_alone_witness:
  "\<exists>x. open_for_startup demo_sqlite (\<lambda>_. True) 9 ''s'' demo_root = (x, demo_root) \<and> x \<noteq> Inr Ready"
proof -
  have db: "root_database demo_root = Some 0" by (simp add: demo_root_def)
  have bad: "validate_database_for_open demo_sqlite 0 \<noteq> Some (Inr ())"
    by (simp add: validate_database_for_open_def demo_sqlite_def)
  show ?thesis using damaged_database_left_alone [OF db bad] by blast
qed

lemma preserve_result:
  assumes "preserve_database_for_recovery io stamp r = (x, r')" "root_database r = Some c"
  shows "root_database r' = Some c \<or> root_recovery r' (''state.corrupt-'' @ stamp @ ''.sqlite'') = Some c"
  using assms by (auto simp: preserve_database_for_recovery_def move_sidecar_def io_bind_def io_return_def root_get_def
      file_io_def Let_def split: if_splits option.splits prod.splits sum.splits)

lemma install_keeps_database:
  assumes "install_backup q io stamp name c' r = (x, r')" "root_database r = Some c"
  shows "root_database r' = Some c \<or> root_recovery r' (''state.corrupt-'' @ stamp @ ''.sqlite'') = Some c"
proof -
  have keep: "root_database r2 = Some c \<or> root_recovery r2 (''state.corrupt-'' @ stamp @ ''.sqlite'') = Some c"
    if "preserve_database_for_recovery io stamp (r\<lparr>root_temporary := t\<rparr>) = (y, r2)" for t y r2
    using preserve_result [OF that] assms(2) by simp
  have lost: "root_recovery r2 (''state.corrupt-'' @ stamp @ ''.sqlite'') = Some c"
    if "preserve_database_for_recovery io stamp (r\<lparr>root_temporary := t\<rparr>) = (Inr y, r2)" for t y r2
    using that assms(2)
    by (auto simp: preserve_database_for_recovery_def move_sidecar_def io_bind_def io_return_def root_get_def
      file_io_def Let_def split: if_splits option.splits prod.splits sum.splits)
  show ?thesis
    using assms by (auto simp: install_backup_def io_bind_def io_return_def file_io_def Let_def
        split: if_splits prod.splits sum.splits dest: keep lost)
qed



section \<open>Diagnostics\<close>

lemma drop_controls_length: "length (drop_controls s) \<le> length s"
  by (induction s rule: drop_controls.induct) auto

lemma drop_controls_ascii: "list_all (\<lambda>c. byte c < 128) s \<Longrightarrow> list_all (\<lambda>c. byte c < 128) (drop_controls s)"
  by (induction s rule: drop_controls.induct) auto

text \<open>A diagnostic of ASCII text is shortened to at most 515 bytes; but a text with a longer
  character across byte 512 stops the process, since it is cut inside that character.\<close>

theorem diagnostic_bounded_or_panics:
  assumes "list_all (\<lambda>c. byte c < 128) v"
  shows "(\<exists>d. bounded_diagnostic v = Some d \<and> length d \<le> 515)
    \<and> bounded_diagnostic (replicate 511 CHR ''a'' @ [CHR 0xC3, CHR 0xA9]) = None"
proof
  have "is_char_boundary (drop_controls v) DIAGNOSTIC_LIMIT" if "DIAGNOSTIC_LIMIT < length (drop_controls v)"
  proof -
    have "byte (drop_controls v ! DIAGNOSTIC_LIMIT) < 128"
      using drop_controls_ascii [OF assms] that by (simp add: list_all_length)
    then show ?thesis using that by (simp add: is_char_boundary_def)
  qed
  then show "\<exists>d. bounded_diagnostic v = Some d \<and> length d \<le> 515"
    by (auto simp: bounded_diagnostic_def Let_def)
  have "drop_controls (replicate n CHR ''a'' @ [CHR 0xC3, CHR 0xA9]) = replicate n CHR ''a'' @ [CHR 0xC3, CHR 0xA9]" for n
  proof (induction n)
    case (Suc n)
    then show ?case by (cases n) simp_all
  qed simp
  then show "bounded_diagnostic (replicate 511 CHR ''a'' @ [CHR 0xC3, CHR 0xA9]) = None"
    by (simp add: bounded_diagnostic_def is_char_boundary_def nth_append)
qed

lemma diagnostic_bounded_or_panics_witness: "\<exists>d. bounded_diagnostic ''disk I/O error'' = Some d \<and> length d \<le> 515"
  using diagnostic_bounded_or_panics [of "''disk I/O error''"] by simp

end
