(* ===== verification/Store_Schema.thy ===== *)
theory Store_Schema
  imports Prelude
begin

text \<open>
  \<open>crates/persistence/src/lib.rs\<close>, the function \<open>migrate\<close>: the versions of the schema.  A
  schema is its tables with their columns, its indexes and SQLite's \<open>user_version\<close>; a
  statement that SQLite rejects rolls the whole migration back (\<open>None\<close>).
\<close>

section \<open>Statements\<close>

record Schema =
  schema_tables :: "(string \<times> string list) list"
  schema_indexes :: "string list"
  schema_version :: int

datatype statement =
    CreateTable string "string list"
  | AddColumn string string
  | CreateIndex string string "string list"
  | SetVersion int

definition has_columns :: "string \<Rightarrow> string list \<Rightarrow> Schema \<Rightarrow> bool" where
  "has_columns t cs s =
    (case map_of (schema_tables s) t of None \<Rightarrow> False | Some known \<Rightarrow> list_all (\<lambda>c. c \<in> set known) cs)"

fun execute :: "statement \<Rightarrow> Schema \<Rightarrow> Schema option" where
  "execute (CreateTable t cs) s =
    Some (if map_of (schema_tables s) t \<noteq> None then s
          else s\<lparr>schema_tables := schema_tables s @ [(t, cs)]\<rparr>)"
| "execute (AddColumn t c) s =
    (if has_columns t [] s \<and> \<not> has_columns t [c] s
     then Some (s\<lparr>schema_tables := map (\<lambda>(n, cs). (n, if n = t then cs @ [c] else cs)) (schema_tables s)\<rparr>)
     else None)"
| "execute (CreateIndex i t cs) s =
    (if i \<in> set (schema_indexes s) then Some s
     else if has_columns t cs s then Some (s\<lparr>schema_indexes := schema_indexes s @ [i]\<rparr>)
     else None)"
| "execute (SetVersion v) s = Some (s\<lparr>schema_version := v\<rparr>)"

fun execute_batch :: "statement list \<Rightarrow> Schema \<Rightarrow> Schema option" where
  "execute_batch [] s = Some s"
| "execute_batch (x # xs) s = (case execute x s of None \<Rightarrow> None | Some s \<Rightarrow> execute_batch xs s)"

section \<open>The migration\<close>

definition first_schema :: "statement list" where
  "first_schema =
   [CreateTable ''workspace'' [''id'', ''display_name'', ''source_json'', ''default_base'', ''pinned'',
      ''archived_at'', ''created_at'', ''updated_at'', ''payload_json''],
    CreateTable ''workspace_source'' [''workspace_id'', ''source_kind'', ''payload_json''],
    CreateTable ''workspace_repository'' [''id'', ''workspace_id'', ''relative_path'', ''enabled'', ''payload_json''],
    CreateTable ''workspace_ui_state'' [''workspace_id'', ''payload_json''],
    CreateTable ''review_session'' [''id'', ''workspace_id'', ''status'', ''started_at'', ''refreshed_at'',
      ''archived_at'', ''completed_at'', ''payload_json''],
    CreateTable ''repository_comparison'' [''id'', ''repository_id'', ''captured_at'', ''payload_json''],
    CreateTable ''review_file'' [''id'', ''comparison_id'', ''path'', ''blob_hash'', ''blob_byte_len'', ''payload_json''],
    CreateTable ''review_snapshot'' [''id'', ''comparison_id'', ''blob_hash'', ''payload_json''],
    CreateTable ''annotation_set'' [''id'', ''review_session_id'', ''sequence'', ''active'', ''archived_at'',
      ''created_at'', ''payload_json''],
    CreateIndex ''one_active_annotation_set_per_session'' ''annotation_set'' [''review_session_id'', ''active''],
    CreateTable ''annotation'' [''id'', ''annotation_set_id'', ''kind'', ''state'', ''publication_state'',
      ''created_at'', ''updated_at'', ''payload_json''],
    CreateTable ''annotation_revision'' [''id'', ''annotation_id'', ''revised_at'', ''payload_json''],
    CreateTable ''prompt_export'' [''id'', ''review_session_id'', ''annotation_set_id'', ''created_at'', ''payload_json''],
    CreateTable ''github_pull_request'' [''id'', ''workspace_id'', ''payload_json''],
    CreateTable ''github_publication'' [''id'', ''review_session_id'', ''publication_attempt_id'', ''payload_json''],
    CreateTable ''managed_repository_mirror'' [''id'', ''payload_json''],
    CreateTable ''managed_worktree'' [''id'', ''workspace_id'', ''payload_json''],
    CreateTable ''retired_managed_worktree'' [''id'', ''workspace_id'', ''payload_json'', ''retired_at''],
    CreateTable ''ssh_host_profile'' [''id'', ''payload_json''],
    CreateTable ''application_setting'' [''key'', ''value_json'', ''updated_at''],
    CreateIndex ''review_file_blob_hash_idx'' ''review_file'' [''blob_hash''],
    SetVersion 1]"

definition session_schema :: "statement list" where
  "session_schema =
   [CreateTable ''review_session_comparison'' [''review_session_id'', ''comparison_id''],
    CreateTable ''review_session_ui_state'' [''review_session_id'', ''payload_json''],
    CreateIndex ''review_file_comparison_idx'' ''review_file'' [''comparison_id''],
    SetVersion 2]"

definition current_comparison_schema :: "statement list" where
  "current_comparison_schema =
   [CreateTable ''review_session_current_comparison'' [''review_session_id'', ''repository_id'', ''comparison_id''],
    SetVersion 3]"

definition attempt_schema :: "statement list" where
  "attempt_schema =
   [AddColumn ''github_publication'' ''publication_attempt_id'',
    CreateIndex ''github_publication_attempt_unique'' ''github_publication'' [''publication_attempt_id''],
    SetVersion 4]"

definition blob_schema :: "statement list" where
  "blob_schema =
   [AddColumn ''review_file'' ''blob_hash'', AddColumn ''review_file'' ''blob_byte_len'',
    CreateIndex ''review_file_blob_hash_idx'' ''review_file'' [''blob_hash''],
    SetVersion 5]"

definition retired_schema :: "statement list" where
  "retired_schema =
   [CreateTable ''retired_managed_worktree'' [''id'', ''workspace_id'', ''payload_json'', ''retired_at''],
    SetVersion 6]"

definition migrate :: "int \<Rightarrow> Schema \<Rightarrow> Schema option" where
  "migrate v = execute_batch
    ((if v < 1 then first_schema else [])
     @ (if v < 2 then session_schema else [])
     @ (if v < 3 then current_comparison_schema else [])
     @ (if v = 0 then [SetVersion 6] else if v < 4 then attempt_schema else [])
     @ (if v \<noteq> 0 \<and> v < 5 then blob_schema else [])
     @ (if v \<noteq> 0 \<and> v < 6 then retired_schema else []))"

section \<open>The versions that were released\<close>

text \<open>The schema an installation of version \<open>v\<close> left behind: what later steps add is missing.\<close>

definition empty_schema :: Schema where
  "empty_schema = \<lparr>schema_tables = [], schema_indexes = [], schema_version = 0\<rparr>"

definition released_tables :: "nat \<Rightarrow> (string \<times> string list) list" where
  "released_tables v =
    map (\<lambda>(t, cs). (t, filter (\<lambda>c. \<not> (v < 4 \<and> t = ''github_publication'' \<and> c = ''publication_attempt_id'')
          \<and> \<not> (v < 5 \<and> t = ''review_file'' \<and> (c = ''blob_hash'' \<or> c = ''blob_byte_len''))) cs))
      (filter (\<lambda>(t, cs). \<not> (v < 2 \<and> (t = ''review_session_comparison'' \<or> t = ''review_session_ui_state''))
          \<and> \<not> (v < 3 \<and> t = ''review_session_current_comparison'')
          \<and> \<not> (v < 6 \<and> t = ''retired_managed_worktree''))
        (case migrate 0 empty_schema of None \<Rightarrow> [] | Some s \<Rightarrow> schema_tables s))"

definition released :: "nat \<Rightarrow> Schema" where
  "released v = (if v = 0 then empty_schema
    else \<lparr>schema_tables = released_tables v,
      schema_indexes = ''one_active_annotation_set_per_session'' #
        (if 2 \<le> v then [''review_file_comparison_idx''] else []) @
        (if 4 \<le> v then [''github_publication_attempt_unique''] else []) @
        (if 5 \<le> v then [''review_file_blob_hash_idx''] else []),
      schema_version = int v\<rparr>)"

definition same_tables :: "Schema \<Rightarrow> Schema \<Rightarrow> bool" where
  "same_tables s t \<longleftrightarrow> set (map fst (schema_tables s)) = set (map fst (schema_tables t))
    \<and> list_all (\<lambda>(n, cs). (case map_of (schema_tables t) n of None \<Rightarrow> False | Some ds \<Rightarrow> set cs = set ds)) (schema_tables s)"

definition upgrades :: "nat \<Rightarrow> bool" where
  "upgrades v = (case migrate (int v) (released v) of
      None \<Rightarrow> False
    | Some s \<Rightarrow> schema_version s = 6 \<and> same_tables s (the (migrate 0 empty_schema))
        \<and> distinct (map fst (schema_tables s)) \<and> list_all (\<lambda>(n, cs). distinct cs) (schema_tables s))"

text \<open>The migration succeeds from every schema version, the empty database included, and
  always ends in version 6 with the tables and columns of a fresh database.\<close>

theorem every_version_upgrades: "list_all upgrades [0..<7]"
  by code_simp

end
