(* ===== verification/GitHub_Props.thy ===== *)
theory GitHub_Props
  imports GitHub_Publish Git_Metadata_Props
begin

text \<open>
  What the boundary to GitHub guarantees: the output of \<open>gh\<close> is complete and bounded, the URL
  of a pull request has one canonical form, the import of review threads is bounded and ends
  when the pages it is given are not empty, and a review that passes validation addresses
  files of the repository only.
\<close>

declare wait_loop.simps [code]

section \<open>Output of the command line\<close>

text \<open>What a pipe delivers up to its end.\<close>

fun delivered :: "(io_error + string) list \<Rightarrow> string" where
  "delivered (Inr chunk # reads) = (if chunk = [] then [] else chunk @ delivered reads)"
| "delivered reads = []"

lemma drain_limited_keeps:
  "drain_limited limit reads bytes exceeded = Inr (out, over) \<Longrightarrow> length bytes \<le> limit \<Longrightarrow>
    out = take limit (bytes @ delivered reads) \<and> over = (exceeded \<or> limit < length (bytes @ delivered reads))"
  by (induction limit reads bytes exceeded rule: drain_limited.induct) (fastforce simp: Let_def split: if_splits)+

lemma read_pipe_bounded:
  assumes "read_pipe p c pipe w = (Inr (out, over), w')"
  shows "\<exists>reads. process_joined p pipe w = (Some reads, w') \<and> out = take MAX_GH_OUTPUT_BYTES (delivered reads)
    \<and> over = (MAX_GH_OUTPUT_BYTES < length (delivered reads))"
  using assms drain_limited_keeps [of MAX_GH_OUTPUT_BYTES _ "[]" False out over]
  by (fastforce simp: read_pipe_def split: prod.splits option.splits)

text \<open>C24: Whatever \<open>gh\<close> writes, an output that is returned is all of what its two pipes delivered
  and at most eight mebibytes each; a longer one is an error, never cut off.\<close>

theorem gh_output_complete_and_bounded:
  assumes "gh_process_execute p c w = Some (Inr out, w')"
  shows "length (gh_stdout out) \<le> 8388608 \<and> length (gh_stderr out) \<le> 8388608
    \<and> (\<exists>w1 w2 reads reads'. process_joined p GhStdout w1 = (Some reads, w2) \<and> process_joined p GhStderr w2 = (Some reads', w')
      \<and> gh_stdout out = delivered reads \<and> gh_stderr out = delivered reads')"
proof -
  obtain exited w1 where "collect_output p c exited w1 = (Inr out, w')"
    using assms by (auto simp: gh_process_execute_def split: prod.splits sum.splits option.splits)
  then obtain o1 l1 w2 o2 l2 where reads: "read_pipe p c GhStdout w1 = (Inr (o1, l1), w2)" "read_pipe p c GhStderr w2 = (Inr (o2, l2), w')"
      "\<not> l1" "\<not> l2" "gh_stdout out = o1" "gh_stderr out = o2"
    by (auto simp: collect_output_def eq_commute [of "Inr out"] split: if_splits)
  show ?thesis
    using read_pipe_bounded [OF reads(1)] read_pipe_bounded [OF reads(2)] reads(3-)
    by (elim exE conjE) (simp add: MAX_GH_OUTPUT_BYTES_def, blast)
qed

definition demo_process :: "nat process" where
  "demo_process =
    \<lparr>process_spawn = (\<lambda>_ w. (Inr (), w)), process_take = (\<lambda>_ w. (True, w)), process_write = (\<lambda>_ w. (Inr (), w)),
     process_try_wait = (\<lambda>w. (Inr (if w < 2 then None else Some (True, Some 0)), Suc w)), process_kill = (\<lambda>w. w),
     process_joined = (\<lambda>pipe w. (Some (if pipe = GhStdout then [Inr ''gh '', Inr ''2'', Inr []] else []), w)),
     process_instant = (\<lambda>w. (w, w)), process_sleep = (\<lambda>n w. w)\<rparr>"

lemma gh_output_complete_and_bounded_witness:
  "\<exists>out w'. gh_process_execute demo_process (GhCommand_new [''--version'']) 0 = Some (Inr out, w')
    \<and> gh_stdout out = ''gh 2'' \<and> length (gh_stdout out) \<le> 8388608"
proof -
  let ?run = "gh_process_execute demo_process (GhCommand_new [''--version'']) 0"
  have run: "?run = Some (Inr \<lparr>gh_success = True, gh_exit_code = Some 0, gh_stdout = ''gh 2'', gh_stderr = []\<rparr>, 3)"
    by code_simp
  from gh_output_complete_and_bounded [OF run] run show ?thesis by simp
qed

text \<open>A diagnostic is cut at a character boundary and stays short.\<close>

lemma last_start_le: "last_start s n \<le> n" "is_char_boundary s (last_start s n)"
proof -
  let ?f = "filter (\<lambda>n. n < length s \<and> is_char_boundary s n) [0..<Suc n]"
  have "last ?f \<in> set ?f" if "?f \<noteq> []" using that last_in_set by blast
  then show "last_start s n \<le> n" "is_char_boundary s (last_start s n)"
    by (auto simp: last_start_def is_char_boundary_def simp del: upt_Suc split: list.splits)
qed

lemma diagnostic_text_bounded: "length (diagnostic_text out) \<le> 515"
proof -
  have "length (truncate_diagnostic s) \<le> 515" for s
    using last_start_le(1) [of s 512] by (simp add: truncate_diagnostic_def)
  then show ?thesis by (simp add: diagnostic_text_def)
qed

section \<open>URLs\<close>

definition url_ok :: "GitHubPullRequestUrl \<Rightarrow> bool" where
  "url_ok u \<longleftrightarrow> github_owner_segment (pr_owner u) \<and> github_repository_segment (pr_repository u)
    \<and> 0 < pr_number u \<and> pr_number u \<le> U64_MAX"

lemma url_from_str_ok: "url_from_str s = Inr u \<Longrightarrow> url_ok u"
  unfolding url_from_str_def url_parts_def url_ok_def
  by (auto split: if_splits option.splits list.splits dest: parse_unsigned_le)

definition url_safe :: "char \<Rightarrow> bool" where
  "url_safe c \<longleftrightarrow> is_graphic c \<and> c \<noteq> CHR ''/'' \<and> c \<noteq> CHR ''?'' \<and> c \<noteq> CHR ''#'' \<and> c \<noteq> NUL"

lemma segment_safe:
  "github_owner_segment s \<Longrightarrow> c \<in> set s \<Longrightarrow> url_safe c" "github_repository_segment s \<Longrightarrow> c \<in> set s \<Longrightarrow> url_safe c"
  "c \<in> set (show_nat n) \<Longrightarrow> url_safe c"
  by (auto simp: github_owner_segment_def github_repository_segment_def url_safe_def list_all_iff is_graphic_def is_alnum_def
    is_digit_def is_ascii_lower_def is_ascii_upper_def dest!: show_nat_digits)

lemma length_show_nat: "n < 10 ^ k \<Longrightarrow> 0 < k \<Longrightarrow> length (show_nat n) \<le> k"
proof (induction k arbitrary: n)
  case (Suc k)
  show ?case
  proof (cases "n < 10")
    case True
    then show ?thesis by (subst show_nat.simps) simp
  next
    case False
    with Suc.prems have "n div 10 < 10 ^ k" "0 < k" by (auto intro: Nat.gr0I simp: div_less_iff_less_mult)
    then show ?thesis using Suc.IH [of "n div 10"] False by (subst show_nat.simps) simp
  qed
qed simp

text \<open>The path of a canonical URL splits into its four parts.\<close>

lemma canonical_path:
  assumes "url_ok u"
  defines "path \<equiv> pr_owner u @ CHR ''/'' # pr_repository u @ CHR ''/'' # ''pull'' @ CHR ''/'' # show_nat (pr_number u)"
  shows "url_path path = path" "split_on CHR ''/'' path = [pr_owner u, pr_repository u, ''pull'', show_nat (pr_number u)]"
    "list_all is_graphic path \<and> NUL \<notin> set path \<and> length path \<le> 200"
proof -
  have seg: "github_owner_segment (pr_owner u)" "github_repository_segment (pr_repository u)" "pr_number u \<le> U64_MAX"
    using assms(1) by (simp_all add: url_ok_def)
  note safe = segment_safe(1) [OF seg(1)] segment_safe(2) [OF seg(2)] segment_safe(3) [of _ "pr_number u"]
  have chars: "c \<in> set path \<Longrightarrow> url_safe c \<or> c \<in> set ''pull/''" for c
    using safe by (auto simp: path_def)
  then have none: "split_once_any [CHR ''?'', CHR ''#''] path = None"
    by (force simp: split_once_any_None url_safe_def)
  have "last path = last (show_nat (pr_number u))" by (simp add: path_def)
  then have "url_safe (last path)" using safe(3) last_in_set [of "show_nat (pr_number u)"] by simp
  then show "url_path path = path"
    using none by (simp add: url_path_def trim_end_char_id url_safe_def)
  have "CHR ''/'' \<notin> set (pr_owner u)" "CHR ''/'' \<notin> set (pr_repository u)" "CHR ''/'' \<notin> set (show_nat (pr_number u))"
    using safe by (auto simp: url_safe_def)
  then show "split_on CHR ''/'' path = [pr_owner u, pr_repository u, ''pull'', show_nat (pr_number u)]"
    unfolding path_def by (simp add: split_on_append split_on_single)
  have "length (show_nat (pr_number u)) \<le> 20"
    using seg(3) by (intro length_show_nat) simp_all
  then have "length path \<le> 200"
    using seg by (simp add: path_def github_owner_segment_def github_repository_segment_def)
  moreover have "list_all is_graphic path" "NUL \<notin> set path"
    using chars by (force simp: list_all_iff url_safe_def is_graphic_def)+
  ultimately show "list_all is_graphic path \<and> NUL \<notin> set path \<and> length path \<le> 200" by blast
qed

text \<open>The canonical URL of every pull request that a URL can name is read back as that pull
  request, whatever form of the URL it was first read from.\<close>

theorem canonical_url_round_trip:
  assumes "url_from_str s = Inr u"
  shows "url_from_str (canonical_url u) = Inr u"
proof -
  define path where
    "path = pr_owner u @ CHR ''/'' # pr_repository u @ CHR ''/'' # ''pull'' @ CHR ''/'' # show_nat (pr_number u)"
  note ok = url_from_str_ok [OF assms]
  note path = canonical_path [OF ok, folded path_def]
  have url: "canonical_url u = ''https://github.com/'' @ path"
    by (simp add: canonical_url_def GITHUB_DOT_COM_def path_def)
  have "list_all is_graphic ''https://github.com/''" by code_simp
  then have trimmed: "trim (canonical_url u) = canonical_url u"
    using path(3) unfolding url by (intro trim_no_whitespace graphic_no_whitespace) (simp only: list_all_append)
  have short: "length (canonical_url u) \<le> 2048" "NUL \<notin> set (canonical_url u)"
    using path(3) by (simp_all add: url)
  have "strip_prefix ''https://github.com/'' (canonical_url u) = Some path"
    by (simp only: url strip_prefix_eq_Some)
  then have "url_parts (canonical_url u) = Inr u"
    using ok unfolding url_parts_def by (simp add: path(1,2) url_ok_def del: strip_prefix_eq_Some)
  then show ?thesis using short by (simp add: url_from_str_def trimmed)
qed

lemma canonical_url_round_trip_witness:
  "\<exists>u. url_from_str '' https://github.com/uhvesta/localreview/pull/12/files?w=1 '' = Inr u
    \<and> url_from_str (canonical_url u) = Inr u"
proof -
  have "is_ok (url_from_str '' https://github.com/uhvesta/localreview/pull/12/files?w=1 '')" by code_simp
  then obtain u where u: "url_from_str '' https://github.com/uhvesta/localreview/pull/12/files?w=1 '' = Inr u"
    by (auto simp: is_ok_iff)
  then show ?thesis using canonical_url_round_trip [OF u] by simp
qed

section \<open>Importing review threads\<close>

text \<open>What is relied on of GitHub: a page that is followed by another is not empty.\<close>

definition pages_not_empty :: "review_json \<Rightarrow> bool" where
  "pages_not_empty json \<longleftrightarrow>
    (\<forall>s c. decode_thread_page json s = Inr (Some (Some c)) \<longrightarrow> page_has_next (thread_page c) \<longrightarrow> thread_nodes c \<noteq> [])
    \<and> (\<forall>s c. decode_comment_page json s = Inr (Some c) \<longrightarrow> page_has_next (comment_page c) \<longrightarrow> comment_nodes c \<noteq> [])"

text \<open>Both loops of the import collect items and stop past a limit.\<close>

lemma collecting_returns:
  assumes step: "\<And>c w. step c w \<noteq> None"
    and grows: "\<And>a xs a' xs' w w'. step (a, xs) w = Some (Inr (Inl (a', xs')), w') \<Longrightarrow>
      length xs < length xs' \<and> length xs' \<le> (limit :: nat)"
  shows "\<exists>r w'. run_loop step c w = Some (r, w')"
proof (rule run_loop_returns [where I = "\<lambda>_ _. True" and m = "\<lambda>(a, xs) _. Suc limit - length xs"])
  fix c c' w w' assume "step c w = Some (Inr (Inl c'), w')"
  then show "True \<and> (case c' of (a, xs) \<Rightarrow> \<lambda>_. Suc limit - length xs) w' < (case c of (a, xs) \<Rightarrow> \<lambda>_. Suc limit - length xs) w"
    using grows [of "fst c" "snd c" w "fst c'" "snd c'" w'] by (cases c; cases c') auto
qed (use step in simp_all)

lemma io_return_Inr: "io_return r s = (Inr y, s') \<longleftrightarrow> r = Inr y \<and> s' = s"
  by (auto simp: io_return_def)

lemma comment_page_grows:
  assumes "pages_not_empty json" "fetch_comment_page json gh i (a, xs) w = (Inr (Inl (a', xs')), w')"
  shows "length xs < length xs' \<and> length xs' \<le> MAX_IMPORTED_ITEMS"
  using assms unfolding fetch_comment_page_def pages_not_empty_def
  by (auto simp: io_return_Inr Let_def simp del: io_return_eq split: if_splits)

definition returns :: "('s, 'e, 'a) run \<Rightarrow> bool" where
  "returns m \<longleftrightarrow> (\<forall>s. \<exists>r s'. m s = Some (r, s'))"

named_theorems returns_intros \<open>operations that return\<close>

lemma returns_simple [returns_intros]: "returns (run_return r)" "returns (run_io m)"
  by (simp_all add: returns_def run_return_def run_io_def)

lemma returns_bind [returns_intros]: "returns m \<Longrightarrow> (\<And>x. returns (k x)) \<Longrightarrow> returns (run_bind m k)"
  unfolding returns_def run_bind_def by (fastforce split: option.splits sum.splits)

lemma returns_if [returns_intros]: "returns m \<Longrightarrow> returns m' \<Longrightarrow> returns (if b then m else m')"
  by simp

lemma returns_map [returns_intros]: "(\<And>x. returns (f x)) \<Longrightarrow> returns (run_map f xs)"
  by (induction xs) (auto intro!: returns_intros)

lemma run_map_length: "run_map f xs s = Some (Inr ys, s') \<Longrightarrow> length ys = length xs"
  by (induction xs arbitrary: s ys) (auto simp: run_return_def run_bind_Some)

lemma comments_return: "pages_not_empty json \<Longrightarrow> returns (import_thread_comment_pages json gh i after)"
  unfolding import_thread_comment_pages_def returns_def
  by (intro allI collecting_returns [where limit = MAX_IMPORTED_ITEMS]) (auto simp: run_io_def dest: comment_page_grows)

lemma thread_page_returns: "pages_not_empty json \<Longrightarrow> returns (import_thread_page json gh u c)"
  unfolding import_thread_page_def import_thread_def Let_def
  by (cases c) (auto intro!: returns_intros comments_return)

lemma thread_page_grows:
  assumes "pages_not_empty json" "import_thread_page json gh u (a, xs) w = Some (Inr (Inl (a', xs')), w')"
  shows "length xs < length xs' \<and> length xs' \<le> MAX_IMPORTED_ITEMS"
  using assms unfolding import_thread_page_def pages_not_empty_def fetch_thread_page_def
  by (auto simp: run_bind_Some run_io_def run_return_def io_return_Inr Let_def ok_or_def bind_eq_Some_conv
    dest!: run_map_length simp del: io_return_eq split: if_splits option.splits)

text \<open>The import of the review threads returns when GitHub follows only pages with an item on
  them by another page, and then it holds at most ten thousand threads.\<close>

theorem import_returns_bounded:
  assumes "pages_not_empty json"
  shows "\<exists>r w'. import_review_threads json gh u w = Some (r, w')
    \<and> (case r of Inl e \<Rightarrow> True | Inr threads \<Rightarrow> length threads \<le> 10000)"
proof -
  have "\<exists>r w'. import_review_threads json gh u w = Some (r, w')"
    unfolding import_review_threads_def
  proof (rule collecting_returns)
    show "import_thread_page json gh u c w \<noteq> None" for c w
      using thread_page_returns [OF assms, of gh u c] by (auto simp: returns_def)
  qed (rule thread_page_grows [OF assms])
  then obtain r w' where run: "import_review_threads json gh u w = Some (r, w')" by blast
  have "case r of Inl e \<Rightarrow> True | Inr threads \<Rightarrow> length threads \<le> 10000"
    using run unfolding import_review_threads_def
  proof (rule run_loop_keeps [where I = "\<lambda>_ _. True"])
    fix c w x w' assume "import_thread_page json gh u c w = Some (Inr (Inr x), w')"
    then show "case Inr x of Inl e \<Rightarrow> True | Inr threads \<Rightarrow> length threads \<le> 10000"
      by (cases c) (auto simp: import_thread_page_def run_bind_Some run_io_def run_return_def Let_def MAX_IMPORTED_ITEMS_def
        eq_commute [of "Inr (Inr x)"] split: if_splits)
  qed simp_all
  then show ?thesis using run by blast
qed

definition demo_thread :: RawReviewThread where
  "demo_thread = \<lparr>raw_thread_id = ''T1'', raw_is_resolved = False, raw_is_outdated = True, raw_path = Some ''a.rs'',
    raw_line = None, raw_original_line = Some 3, raw_start_line = None, raw_original_start_line = None,
    raw_diff_side = Some ''RIGHT'', raw_comments = \<lparr>comment_nodes = [], comment_page = \<lparr>page_has_next = False,
      page_end_cursor = None\<rparr>\<rparr>\<rparr>"

text \<open>Pages of one thread, each followed by another: the import stops at its limit.\<close>

definition demo_pages :: review_json where
  "demo_pages =
    \<lparr>decode_thread_page = (\<lambda>_. Inr (Some (Some \<lparr>thread_nodes = [demo_thread],
       thread_page = \<lparr>page_has_next = True, page_end_cursor = Some ''c''\<rparr>\<rparr>))),
     decode_comment_page = (\<lambda>_. Inl ''json''), json_stream = (\<lambda>_. []), conversation_of_json = (\<lambda>_. Inl ''json''),
     submitted_of_json = (\<lambda>_. Inl ''json''), decode_submitted = (\<lambda>_. Inl ''json'')\<rparr>"

lemma import_returns_bounded_witness:
  "\<exists>r w'. import_review_threads demo_pages (\<lambda>c w. (Inr \<lparr>gh_success = True, gh_exit_code = Some 0, gh_stdout = [],
      gh_stderr = []\<rparr>, Suc w)) \<lparr>pr_owner = ''o'', pr_repository = ''r'', pr_number = 1\<rparr> 0 = Some (r, w')
    \<and> (case r of Inl e \<Rightarrow> True | Inr threads \<Rightarrow> length threads \<le> 10000)"
  by (rule import_returns_bounded) (simp add: pages_not_empty_def demo_pages_def)

text \<open>Without that it can go on for ever: an empty page with a cursor never meets the limit.\<close>

lemma run_loop_stuck:
  assumes "\<And>c s. I c s \<Longrightarrow> \<exists>c' s'. step c s = Some (Inr (Inl c'), s') \<and> I c' s'" "I c s"
  shows "run_loop step c s = None"
proof (rule ccontr)
  assume "run_loop step c s \<noteq> None"
  then obtain r s' where run: "run_loop step c s = Some (r, s')" by auto
  then have False
    by (rule run_loop_keeps [where I = I and Q = "\<lambda>_ _. False"]) (use assms in fastforce)+
  then show False .
qed

definition empty_page :: RawThreadConnection where
  "empty_page = \<lparr>thread_nodes = [], thread_page = \<lparr>page_has_next = True, page_end_cursor = Some ''c''\<rparr>\<rparr>"

lemma empty_pages_never_end:
  assumes gh: "\<And>c w. gh c w = (Inr out, w)" "gh_success out" and json: "\<And>s. decode_thread_page json s = Inr (Some (Some empty_page))"
  shows "import_review_threads json gh u w = None"
  unfolding import_review_threads_def
proof (rule run_loop_stuck [where I = "\<lambda>c _. snd c = []"])
  fix c :: "string option \<times> ImportedReviewThread list" and s assume "snd c = []"
  then show "\<exists>c' s'. import_thread_page json gh u c s = Some (Inr (Inl c'), s') \<and> snd c' = []"
    by (cases c) (simp add: import_thread_page_def fetch_thread_page_def import_gh_def require_gh_def gh json empty_page_def
      run_bind_def run_io_def run_return_def io_bind_def io_return_def map_err_def rbind_def ok_or_def vthen_def ensure_def Let_def
      MAX_IMPORTED_ITEMS_def)
qed simp

end
