(* ===== verification/Service_GitHub.thy ===== *)
theory Service_GitHub
  imports Service_Session
begin

text \<open>
  \<open>crates/service/src/github.rs\<close>: the orchestration of a GitHub pull request.  \<open>GitHubEnv\<close>
  adds to the world of the service the executor of \<open>gh\<close>, the worktree pool and the JSON forms
  of the records the store keeps as text.  The publication lock makes the operations that take
  it run one after the other, so an operation is a function of the whole world; the lock itself
  only fails when a thread has panicked (\<open>hub_lock_poisoned\<close>).  Pages, reconciliation and the
  pool's lock are loops that end only if the outside world lets them, so the operations are
  partial (\<open>run\<close>).
\<close>

section \<open>Records\<close>

record GitHubCommitRecord =
  commit_record_sha :: GitSha
  commit_record_headline :: string
  commit_record_authored_at :: "timestamp option"

record GitHubPullRequestRecord =
  pull_record_id :: string
  pull_record_workspace :: WorkspaceId
  pull_record_url :: string
  pull_record_owner :: string
  pull_record_repository :: string
  pull_record_number :: nat
  pull_record_title :: string
  pull_record_author :: "string option"
  pull_record_base_ref :: string
  pull_record_head_ref :: string
  pull_record_base_sha :: GitSha
  pull_record_head_sha :: GitSha
  pull_record_draft :: bool
  pull_record_state :: string
  pull_record_decision :: "string option"
  pull_record_commits :: "GitHubCommitRecord list"
  pull_record_worktree :: ManagedWorktree
  pull_record_threads :: "ImportedReviewThread list"
  pull_record_conversation :: "ImportedConversationComment list"
  pull_record_import_error :: "string option"
  pull_record_captured_at :: timestamp

record OpenGitHubPullRequestResult =
  opened_pull_workspace :: Workspace
  opened_pull_review :: GitHubPullRequestRecord
  opened_pull_start :: "StartReviewResult option"
  opened_pull_reused :: bool

record RefreshGitHubPullRequestResult =
  refreshed_pull_review :: GitHubPullRequestRecord
  refreshed_pull_result :: StartReviewResult
  refreshed_pull_head_changed :: bool

record GitHubPullRequestUpdateStatus =
  update_workspace :: WorkspaceId
  update_url :: string
  update_pinned_base :: GitSha
  update_pinned_head :: GitSha
  update_current_base :: GitSha
  update_current_head :: GitSha
  update_base_changed :: bool
  update_head_changed :: bool
  update_fetched_at :: timestamp

datatype GitHubPublicationStatus =
    Previewed | Prepared | Rejected | Submitted | Reconciled | Abandoned

record GitHubPublicationRecord =
  publication_id :: string
  publication_session :: ReviewSessionId
  publication_attempt :: string
  publication_token :: string
  publication_status :: GitHubPublicationStatus
  publication_annotations :: "AnnotationId list"
  publication_head_sha :: GitSha
  publication_fingerprint :: string
  publication_request :: string
  publication_snapshot :: string
  publication_set :: "AnnotationSetId option"
  publication_marker :: string
  publication_payload :: string
  publication_remote_id :: "nat option"
  publication_remote_url :: "string option"
  publication_remote_state :: "string option"
  publication_created_at :: timestamp
  publication_completed_at :: "timestamp option"

record FinishGitHubReviewRequest =
  finish_workspace :: WorkspaceId
  finish_annotations :: "AnnotationId list"
  finish_summary :: string
  finish_conclusion :: ReviewConclusion

record FinishGitHubReviewPreview =
  preview_review :: GitHubPullRequestRecord
  preview_session :: ReviewSession
  preview_annotations :: "AnnotationId list"
  preview_prepared :: PreparedNativeReview
  preview_token :: string
  preview_snapshot :: string
  preview_request :: string
  preview_requires_reconciliation :: bool

record FinishGitHubReviewSubmission =
  submission_workspace :: WorkspaceId
  submission_token :: string

record FinishGitHubReviewResult =
  finished_publication :: GitHubPublicationRecord
  finished_count :: nat

record ImportState =
  import_threads :: "ImportedReviewThread list"
  import_conversations :: "ImportedConversationComment list"
  import_error :: "string option"

section \<open>The world of a pull request\<close>

record 'w GitHubEnv =
  hub_service :: "'w ServiceEnv"
  hub_pool :: "'w pool_env"
  hub_gh :: "'w executor"
  hub_pull_json :: pull_json
  hub_review_json :: review_json
  hub_sha256 :: "string \<Rightarrow> string"
  hub_root :: string
  hub_lock_poisoned :: bool
  hub_encode_pull :: "GitHubPullRequestRecord \<Rightarrow> string"
  hub_decode_pull :: "string \<Rightarrow> GitHubPullRequestRecord option"
  hub_encode_publication :: "GitHubPublicationRecord \<Rightarrow> string"
  hub_decode_publication :: "string \<Rightarrow> GitHubPublicationRecord option"
  hub_encode_worktree :: "ManagedWorktree \<Rightarrow> string"
  hub_decode_worktree :: "string \<Rightarrow> ManagedWorktree option"
  hub_annotations_json :: "Annotation list \<Rightarrow> string"

type_synonym ('w, 'a) hub = "('w World, ServiceError, 'a) run"

definition on_executor :: "('w \<Rightarrow> 'a \<times> 'w) \<Rightarrow> ('w, 'a) service" where
  "on_executor m s = (case m (world_git s) of (x, g) \<Rightarrow> (Inr x, s\<lparr>world_git := g\<rparr>))"

definition on_pull :: "('w, 'a) pull \<Rightarrow> ('w, 'a) service" where
  "on_pull m = on_world (\<lambda>g. case m g of (r, g) \<Rightarrow> (map_err GitHubPullRequest r, g))"

definition on_publish :: "('w, 'a) publish \<Rightarrow> ('w, 'a) service" where
  "on_publish m = on_world (\<lambda>g. case m g of (r, g) \<Rightarrow> (map_err GitHubPublish r, g))"

text \<open>What an operation of the pool answers, error or not.\<close>

definition pool_answer ::
  "('w \<Rightarrow> ((RepositoryPoolError + 'a) \<times> 'w) option) \<Rightarrow> ('w, RepositoryPoolError + 'a) hub" where
  "pool_answer m s = map_option (\<lambda>(r, g). (Inr r, s\<lparr>world_git := g\<rparr>)) (m (world_git s))"

definition pooled :: "RepositoryPoolError + 'a \<Rightarrow> ServiceError + 'a" where
  "pooled r = map_err RepositoryPoolFailure r"

definition on_pool :: "('w \<Rightarrow> ((RepositoryPoolError + 'a) \<times> 'w) option) \<Rightarrow> ('w, 'a) hub" where
  "on_pool m = run_bind (pool_answer m) (\<lambda>r. run_return (pooled r))"

definition repository_pool :: "'w GitHubEnv \<Rightarrow> RepositoryPool" where
  "repository_pool env = \<lparr>cache_root = path_join (hub_root env) ''cache'', application_data_root = hub_root env\<rparr>"

text \<open>A stored text that does not decode is an error of the store.\<close>

definition decoded :: "(string \<Rightarrow> 'a option) \<Rightarrow> string \<Rightarrow> ServiceError + 'a" where
  "decoded decode payload = ok_or (PersistenceFailure SerializeError) (decode payload)"

definition decoded_option :: "(string \<Rightarrow> 'a option) \<Rightarrow> string option \<Rightarrow> ServiceError + 'a option" where
  "decoded_option decode payload = (case payload of
      None \<Rightarrow> Inr None
    | Some p \<Rightarrow> rbind (decoded decode p) (\<lambda>x. Inr (Some x)))"

definition stored_pull :: "'w GitHubEnv \<Rightarrow> WorkspaceId \<Rightarrow> ('w, GitHubPullRequestRecord option) service" where
  "stored_pull env w =
    io_bind (on_store (github_pull_request_for_workspace w)) (\<lambda>payload.
    io_return (decoded_option (hub_decode_pull env) payload))"

definition save_pull :: "'w GitHubEnv \<Rightarrow> GitHubPullRequestRecord \<Rightarrow> WorkspaceId \<Rightarrow> ('w, unit) service" where
  "save_pull env r w = on_store (save_github_pull_request (pull_record_id r) w (hub_encode_pull env r))"

definition save_publication :: "'w GitHubEnv \<Rightarrow> GitHubPublicationRecord \<Rightarrow> ReviewSessionId \<Rightarrow> ('w, unit) service" where
  "save_publication env r session =
    on_store (save_github_publication (publication_id r) session (publication_attempt r) (hub_encode_publication env r))"

definition publication_by_attempt :: "'w GitHubEnv \<Rightarrow> string \<Rightarrow> ('w, GitHubPublicationRecord option) service" where
  "publication_by_attempt env key =
    io_bind (on_store (github_publication_by_attempt key)) (\<lambda>payload.
    io_return (decoded_option (hub_decode_publication env) payload))"

definition publications_for_session ::
  "'w GitHubEnv \<Rightarrow> ReviewSessionId \<Rightarrow> ('w, GitHubPublicationRecord list) service" where
  "publications_for_session env session =
    io_bind (on_store (github_publications_for_session session)) (\<lambda>payloads.
    io_return (try_map (decoded (hub_decode_publication env)) payloads))"

definition now_of :: "'w GitHubEnv \<Rightarrow> ('w, timestamp) service" where
  "now_of env = utc_now (hub_service env)"

definition fresh_id :: "'w GitHubEnv \<Rightarrow> ('w, uuid) service" where
  "fresh_id env = fresh_uuid (hub_service env)"

definition simple_uuid :: "uuid \<Rightarrow> string" where
  "simple_uuid u = hex_digits 32 (unat u)"

definition active_session_or_fail :: "'w GitHubEnv \<Rightarrow> WorkspaceId \<Rightarrow> ('w, ReviewSession) service" where
  "active_session_or_fail env w =
    io_bind (active_review_session w) (\<lambda>found.
    io_bind (fresh_id env) (\<lambda>u. require (ReviewSessionNotFound (ReviewSessionId u)) found))"

definition active_set_or_fail :: "ReviewSessionId \<Rightarrow> ('w, AnnotationSet) service" where
  "active_set_or_fail session =
    io_bind (on_store (active_annotation_set session)) (\<lambda>found.
    require (NoActiveSet session) found)"

definition url_of :: "string \<Rightarrow> ServiceError + GitHubPullRequestUrl" where
  "url_of s = map_err GitHubPullRequest (url_from_str s)"

definition require_authentication :: "'w GitHubEnv \<Rightarrow> ('w, unit) service" where
  "require_authentication env =
    io_bind (on_executor (authentication_status (hub_gh env))) (\<lambda>a.
    io_return (ensure (auth_gh_available a \<and> auth_authenticated a) (GitHubAuthentication (auth_diagnostic a))))"

definition github_pull_request :: "'w GitHubEnv \<Rightarrow> WorkspaceId \<Rightarrow> ('w, GitHubPullRequestRecord) service" where
  "github_pull_request env w =
    io_bind (stored_pull env w) (\<lambda>found. require (NotGitHubPullRequest w) found)"

definition github_imported_threads :: "'w GitHubEnv \<Rightarrow> WorkspaceId \<Rightarrow> ('w, ImportedReviewThread list) service" where
  "github_imported_threads env w =
    io_bind (github_pull_request env w) (\<lambda>r. io_return (Inr (pull_record_threads r)))"

definition github_imported_conversation ::
  "'w GitHubEnv \<Rightarrow> WorkspaceId \<Rightarrow> ('w, ImportedConversationComment list) service" where
  "github_imported_conversation env w =
    io_bind (github_pull_request env w) (\<lambda>r. io_return (Inr (pull_record_conversation r)))"

definition metadata_of :: "'w GitHubEnv \<Rightarrow> GitHubPullRequestUrl \<Rightarrow> ('w, PullRequestMetadata) service" where
  "metadata_of env u = on_pull (pull_request_metadata (hub_pull_json env) (hub_gh env) u)"

definition github_pull_request_update_status ::
  "'w GitHubEnv \<Rightarrow> WorkspaceId \<Rightarrow> ('w, GitHubPullRequestUpdateStatus) service" where
  "github_pull_request_update_status env w =
    io_bind (github_pull_request env w) (\<lambda>review.
    io_bind (io_return (url_of (pull_record_url review))) (\<lambda>url.
    io_bind (require_authentication env) (\<lambda>_.
    io_bind (metadata_of env url) (\<lambda>m.
    io_bind (now_of env) (\<lambda>now.
    io_return (Inr \<lparr>update_workspace = w, update_url = pull_record_url review,
      update_pinned_base = pull_record_base_sha review, update_pinned_head = pull_record_head_sha review,
      update_current_base = ref_sha (pull_base m), update_current_head = ref_sha (pull_head m),
      update_base_changed = (ref_sha (pull_base m) \<noteq> pull_record_base_sha review),
      update_head_changed = (ref_sha (pull_head m) \<noteq> pull_record_head_sha review),
      update_fetched_at = now\<rparr>))))))"

section \<open>Publications\<close>

definition publication_order :: "GitHubPublicationRecord \<Rightarrow> int \<times> string" where
  "publication_order p = (publication_created_at p, publication_id p)"

fun prepared_in_sessions :: "'w GitHubEnv \<Rightarrow> ReviewSession list \<Rightarrow> ('w, GitHubPublicationRecord list) service" where
  "prepared_in_sessions env [] = io_return (Inr [])"
| "prepared_in_sessions env (s # ss) =
    io_bind (publications_for_session env (session_id s)) (\<lambda>ps.
    io_bind (prepared_in_sessions env ss) (\<lambda>rest.
    io_return (Inr (filter (\<lambda>p. publication_status p = Prepared) ps @ rest))))"

definition unresolved_github_publication ::
  "'w GitHubEnv \<Rightarrow> WorkspaceId \<Rightarrow> ('w, GitHubPublicationRecord option) service" where
  "unresolved_github_publication env w =
    io_bind (on_store (review_sessions w)) (\<lambda>sessions.
    io_bind (prepared_in_sessions env sessions) (\<lambda>ps.
    io_return (Inr (case sort_key publication_order ps of [] \<Rightarrow> None | p # _ \<Rightarrow> Some p))))"

definition ensure_no_unresolved_github_publication :: "'w GitHubEnv \<Rightarrow> WorkspaceId \<Rightarrow> ('w, unit) service" where
  "ensure_no_unresolved_github_publication env w =
    io_bind (unresolved_github_publication env w) (\<lambda>found.
    io_return (case found of
        None \<Rightarrow> Inr ()
      | Some p \<Rightarrow> Inl (GitHubPublicationReconciliationPending (publication_token p))))"

definition prepared_from_publication :: "GitHubPublicationRecord \<Rightarrow> PreparedNativeReview" where
  "prepared_from_publication p = \<lparr>prepared_attempt_id = publication_attempt p,
    prepared_head_sha = publication_head_sha p, prepared_fingerprint = publication_fingerprint p,
    prepared_marker = publication_marker p, prepared_payload = publication_payload p\<rparr>"

definition mark_published ::
  "'w GitHubEnv \<Rightarrow> AnnotationId list \<Rightarrow> Annotation list \<Rightarrow> ('w, Annotation list) service" where
  "mark_published env ids = io_map (\<lambda>a.
    if annotation_id a \<in> set ids
    then io_bind (now_of env) (\<lambda>now.
      io_return (Inr (a\<lparr>annotation_publication := Published, annotation_updated_at := now\<rparr>)))
    else io_return (Inr a))"

definition has_line :: "DiffSide \<Rightarrow> ReviewHunk \<Rightarrow> nat \<Rightarrow> bool" where
  "has_line side hunk wanted = list_ex (\<lambda>row.
    case (case side of Old \<Rightarrow> row_old row | New \<Rightarrow> row_new row) of
      None \<Rightarrow> False | Some cell \<Rightarrow> line_number cell = wanted) (unified_rows hunk)"

definition validate_pinned_pull_request_anchor ::
  "Annotation \<Rightarrow> PersistedReviewDocument list \<Rightarrow> ReviewPublishError + unit" where
  "validate_pinned_pull_request_anchor a documents =
    (let invalid = AnchorOutsidePullRequestDiff (show_annotation_id (annotation_id a)) in
     rbind (ok_or invalid (annotation_anchor a)) (\<lambda>anchor.
     rbind (ok_or invalid (anchor_side anchor)) (\<lambda>side.
     rbind (ok_or invalid (anchor_start_line anchor)) (\<lambda>start.
     rbind (ok_or invalid (anchor_end_line anchor)) (\<lambda>end_line.
     rbind (ok_or invalid (find (\<lambda>d. doc_comparison d = anchor_comparison_id anchor
         \<and> file_path (doc_file d) = anchor_file_path anchor) documents)) (\<lambda>d.
     ensure (list_ex (\<lambda>h. has_line side h start \<and> has_line side h end_line) (doc_hunks d)) invalid))))))"

definition request_json :: "FinishGitHubReviewRequest \<Rightarrow> string" where
  "request_json r = json_object
    [(''workspace_id'', json_string (case finish_workspace r of WorkspaceId u \<Rightarrow> show_uuid u)),
     (''annotation_ids'', json_list json_string (remdups_adj (sort (map show_annotation_id (finish_annotations r))))),
     (''summary_markdown'', json_string (finish_summary r)),
     (''conclusion'', json_conclusion (finish_conclusion r))]"

definition preview_request_fingerprint :: "'w GitHubEnv \<Rightarrow> FinishGitHubReviewRequest \<Rightarrow> string" where
  "preview_request_fingerprint env r = hex_digest (hub_sha256 env) (request_json r)"

definition annotation_snapshot_fingerprint :: "'w GitHubEnv \<Rightarrow> Annotation list \<Rightarrow> string" where
  "annotation_snapshot_fingerprint env as = hex_digest (hub_sha256 env) (hub_annotations_json env as)"

definition publishable :: "AnnotationId list \<Rightarrow> Annotation \<Rightarrow> bool" where
  "publishable requested a \<longleftrightarrow>
    annotation_state a = Open \<and> annotation_publication a \<noteq> LocalOnly \<and> annotation_publication a \<noteq> Published
    \<and> (requested = [] \<or> annotation_id a \<in> set requested)"

definition selected_annotations :: "AnnotationId list \<Rightarrow> Annotation list \<Rightarrow> Annotation list" where
  "selected_annotations requested as =
    sort_key (\<lambda>a. annotation_uuid (annotation_id a)) (filter (publishable requested) as)"

definition unavailable_annotations :: "AnnotationId list \<Rightarrow> Annotation list \<Rightarrow> AnnotationId list" where
  "unavailable_annotations requested selected =
    filter (\<lambda>i. i \<notin> annotation_id ` set selected) (sort_key annotation_uuid (remdups requested))"

definition comment_of ::
  "ComparisonId \<Rightarrow> PersistedReviewDocument list \<Rightarrow> Annotation \<Rightarrow> ReviewPublishError + NativeReviewComment" where
  "comment_of comparison documents a =
    rbind (comment_from_annotation a comparison) (\<lambda>c.
    vthen (validate_pinned_pull_request_anchor a documents) (Inr c))"

definition published :: "ReviewPublishError + 'a \<Rightarrow> ServiceError + 'a" where
  "published r = map_err GitHubPublish r"

definition preview_of_unresolved ::
  "GitHubPullRequestRecord \<Rightarrow> GitHubPublicationRecord \<Rightarrow> ('w, FinishGitHubReviewPreview) service" where
  "preview_of_unresolved review p =
    io_bind (on_store (review_sessions_for_id (publication_session p))) (\<lambda>found.
    io_bind (require (ReviewSessionNotFound (publication_session p)) found) (\<lambda>session.
    io_return (Inr \<lparr>preview_review = review, preview_session = session,
      preview_annotations = publication_annotations p, preview_prepared = prepared_from_publication p,
      preview_token = publication_token p, preview_snapshot = publication_snapshot p,
      preview_request = publication_request p, preview_requires_reconciliation = True\<rparr>)))"

definition new_draft ::
  "GitHubPullRequestRecord \<Rightarrow> FinishGitHubReviewRequest \<Rightarrow> uuid \<Rightarrow> NativeReviewComment list \<Rightarrow> NativeReviewDraft" where
  "new_draft review r u comments =
    \<lparr>draft_head_sha = pull_record_head_sha review, draft_attempt_id = show_uuid u,
     draft_conclusion = finish_conclusion r,
     draft_summary = (if trim (finish_summary r) = [] then None else Some (finish_summary r)),
     draft_comments = comments\<rparr>"

definition previewed_record ::
  "'w GitHubEnv \<Rightarrow> FinishGitHubReviewRequest \<Rightarrow> ReviewSessionId \<Rightarrow> AnnotationSetId \<Rightarrow> Annotation list
    \<Rightarrow> PreparedNativeReview \<Rightarrow> uuid \<Rightarrow> timestamp \<Rightarrow> GitHubPublicationRecord" where
  "previewed_record env r session active selected prepared u now =
    \<lparr>publication_id = ''github-publication-'' @ show_uuid u, publication_session = session,
     publication_attempt = prepared_attempt_id prepared, publication_token = prepared_attempt_id prepared,
     publication_status = Previewed, publication_annotations = map annotation_id selected,
     publication_head_sha = prepared_head_sha prepared, publication_fingerprint = prepared_fingerprint prepared,
     publication_request = preview_request_fingerprint env r,
     publication_snapshot = annotation_snapshot_fingerprint env selected,
     publication_set = Some active, publication_marker = prepared_marker prepared,
     publication_payload = prepared_payload prepared, publication_remote_id = None,
     publication_remote_url = None, publication_remote_state = None,
     publication_created_at = now, publication_completed_at = None\<rparr>"

definition drafted_preview ::
  "'w GitHubEnv \<Rightarrow> FinishGitHubReviewRequest \<Rightarrow> GitHubPullRequestRecord
    \<Rightarrow> ('w, ReviewSession \<times> PreparedNativeReview \<times> GitHubPublicationRecord) service" where
  "drafted_preview env r review =
    io_bind (active_session_or_fail env (finish_workspace r)) (\<lambda>session.
    io_bind (active_set_or_fail (session_id session)) (\<lambda>active.
    io_bind (on_store (current_comparisons_for_session (session_id session))) (\<lambda>comparisons.
    io_bind (require (ReviewSessionNotActive (session_id session)) (find (\<lambda>_. True) comparisons)) (\<lambda>comparison.
    io_bind (on_store (annotations (set_id active))) (\<lambda>as.
    let selected = selected_annotations (finish_annotations r) as;
        unavailable = unavailable_annotations (finish_annotations r) selected in
    io_bind (io_return (ensure (unavailable = []) (GitHubReviewAnnotationsUnavailable unavailable))) (\<lambda>_.
    io_bind (review_documents (hub_service env) (session_id session)) (\<lambda>documents.
    io_bind (io_return (published (try_map (comment_of (comparison_id comparison) documents) selected))) (\<lambda>comments.
    io_bind (fresh_id env) (\<lambda>u.
    io_bind (io_return (published (prepare_draft (hub_sha256 env) (new_draft review r u comments)))) (\<lambda>prepared.
    io_bind (fresh_id env) (\<lambda>v.
    io_bind (now_of env) (\<lambda>now.
    io_return (Inr (session, prepared,
      previewed_record env r (session_id session) (set_id active) selected prepared v now))))))))))))))"

definition preview_new ::
  "'w GitHubEnv \<Rightarrow> FinishGitHubReviewRequest \<Rightarrow> GitHubPullRequestRecord \<Rightarrow> ('w, FinishGitHubReviewPreview) service" where
  "preview_new env r review =
    io_bind (drafted_preview env r review) (\<lambda>(session, prepared, p).
    io_bind (save_publication env p (session_id session)) (\<lambda>_.
    io_return (Inr \<lparr>preview_review = review, preview_session = session,
      preview_annotations = publication_annotations p, preview_prepared = prepared,
      preview_token = publication_token p, preview_snapshot = publication_snapshot p,
      preview_request = publication_request p, preview_requires_reconciliation = False\<rparr>)))"

definition preview_github_review ::
  "'w GitHubEnv \<Rightarrow> FinishGitHubReviewRequest \<Rightarrow> ('w, FinishGitHubReviewPreview) service" where
  "preview_github_review env r =
    io_bind (github_pull_request env (finish_workspace r)) (\<lambda>review.
    io_bind (unresolved_github_publication env (finish_workspace r)) (\<lambda>found.
    case found of
      Some p \<Rightarrow> preview_of_unresolved review p
    | None \<Rightarrow> preview_new env r review))"

section \<open>Finishing a review\<close>

definition matching_preview :: "string \<Rightarrow> GitHubPublicationRecord \<Rightarrow> bool" where
  "matching_preview intent p \<longleftrightarrow> publication_status p = Previewed \<and> publication_request p = intent"

definition newest_publication :: "GitHubPublicationRecord list \<Rightarrow> GitHubPublicationRecord option" where
  "newest_publication ps = (case rev (sort_key publication_order ps) of [] \<Rightarrow> None | p # _ \<Rightarrow> Some p)"

definition show_status :: "GitHubPublicationStatus \<Rightarrow> string" where
  "show_status s = (case s of Previewed \<Rightarrow> ''Previewed'' | Prepared \<Rightarrow> ''Prepared'' | Rejected \<Rightarrow> ''Rejected''
    | Submitted \<Rightarrow> ''Submitted'' | Reconciled \<Rightarrow> ''Reconciled'' | Abandoned \<Rightarrow> ''Abandoned'')"

definition publication_lock :: "'w GitHubEnv \<Rightarrow> ('w, unit) service" where
  "publication_lock env = io_return (ensure (\<not> hub_lock_poisoned env) GitHubPublicationLockUnavailable)"

text \<open>One round of \<open>reconcile_unresolved_publications\<close>.\<close>

definition reconciled_record :: "GitHubPublicationRecord \<Rightarrow> RemoteReview \<Rightarrow> timestamp \<Rightarrow> GitHubPublicationRecord" where
  "reconciled_record p remote now = p\<lparr>publication_status := Reconciled, publication_remote_id := Some (remote_id remote),
    publication_remote_url := remote_html_url remote, publication_remote_state := remote_state remote,
    publication_completed_at := Some now\<rparr>"

definition save_with_annotations ::
  "'w GitHubEnv \<Rightarrow> GitHubPublicationRecord \<Rightarrow> ReviewSessionId \<Rightarrow> AnnotationSetId \<Rightarrow> ('w, unit) service" where
  "save_with_annotations env p session active =
    io_bind (on_store (annotations active)) (\<lambda>as.
    io_bind (mark_published env (publication_annotations p) as) (\<lambda>marked.
    on_store (save_github_publication_and_annotations (publication_id p) session (publication_attempt p)
      (hub_encode_publication env p) marked)))"

definition reconciliation ::
  "'w GitHubEnv \<Rightarrow> GitHubPullRequestUrl \<Rightarrow> GitHubPublicationRecord
    \<Rightarrow> ('w, GitHubPublicationRecord \<times> AnnotationSetId) service" where
  "reconciliation env url p =
    io_bind (on_publish (reconcile_native_review (hub_review_json env) (hub_gh env) url (publication_fingerprint p))) (\<lambda>found.
    io_bind (require (GitHubPublicationReconciliationPending (publication_token p)) found) (\<lambda>remote.
    io_bind (now_of env) (\<lambda>now.
    io_bind (require (GitHubPublicationAnnotationSetMissing (publication_token p)) (publication_set p)) (\<lambda>active.
    io_return (Inr (reconciled_record p remote now, active))))))"

definition reconcile_one ::
  "'w GitHubEnv \<Rightarrow> GitHubPullRequestUrl \<Rightarrow> GitHubPublicationRecord \<Rightarrow> ('w, GitHubPublicationRecord) service" where
  "reconcile_one env url p =
    io_bind (reconciliation env url p) (\<lambda>(p, active).
    io_bind (save_with_annotations env p (publication_session p) active) (\<lambda>_.
    io_return (Inr p)))"

definition reconcile_round ::
  "'w GitHubEnv \<Rightarrow> GitHubPullRequestUrl \<Rightarrow> WorkspaceId \<Rightarrow> GitHubPublicationRecord option
    \<Rightarrow> ('w, GitHubPublicationRecord option + GitHubPublicationRecord option) service" where
  "reconcile_round env url w reconciled =
    io_bind (unresolved_github_publication env w) (\<lambda>found.
    case found of
      None \<Rightarrow> io_return (Inr (Inr reconciled))
    | Some p \<Rightarrow> io_bind (reconcile_one env url p) (\<lambda>p. io_return (Inr (Inl (Some p)))))"

definition reconcile_unresolved_publications ::
  "'w GitHubEnv \<Rightarrow> GitHubPullRequestUrl \<Rightarrow> WorkspaceId \<Rightarrow> ('w, GitHubPublicationRecord option) hub" where
  "reconcile_unresolved_publications env url w = run_loop (\<lambda>c. run_io (reconcile_round env url w c)) None"

definition stale :: "string \<Rightarrow> string \<Rightarrow> ServiceError" where
  "stale token reason = GitHubReviewPreviewStale token reason"

text \<open>The checks between the lock and the request: what comes back may be posted.\<close>

definition stored_preview ::
  "'w GitHubEnv \<Rightarrow> FinishGitHubReviewSubmission \<Rightarrow> ('w, GitHubPublicationRecord) service" where
  "stored_preview env s =
    io_bind (publication_by_attempt env (submission_token s)) (\<lambda>found.
    require (GitHubReviewPreviewNotFound (submission_workspace s) (submission_token s))
      (Option.bind found (\<lambda>p. if publication_token p = submission_token s then Some p else None)))"

definition chosen_annotations :: "GitHubPublicationRecord \<Rightarrow> Annotation list \<Rightarrow> Annotation list" where
  "chosen_annotations p as =
    sort_key (\<lambda>a. annotation_uuid (annotation_id a)) (filter (\<lambda>a. annotation_id a \<in> set (publication_annotations p)) as)"

definition check_pins ::
  "GitHubPullRequestRecord \<Rightarrow> GitHubPublicationRecord \<Rightarrow> string \<Rightarrow> PullRequestMetadata \<Rightarrow> ServiceError + unit" where
  "check_pins review p token remote =
    vthen (ensure (ref_sha (pull_head remote) = pull_record_head_sha review)
      (GitHubHeadChanged (pull_record_head_sha review) (ref_sha (pull_head remote))))
    (vthen (ensure (ref_sha (pull_base remote) = pull_record_base_sha review)
      (GitHubBaseChanged (pull_record_base_sha review) (ref_sha (pull_base remote))))
    (ensure (publication_head_sha p = pull_record_head_sha review)
      (stale token ''the preview pin no longer matches this pull request workspace'')))"

definition submittable ::
  "'w GitHubEnv \<Rightarrow> FinishGitHubReviewSubmission \<Rightarrow> GitHubPullRequestRecord \<Rightarrow> GitHubPullRequestUrl
    \<Rightarrow> ('w, ReviewSession \<times> AnnotationSet \<times> GitHubPublicationRecord) service" where
  "submittable env s review url =
    (let token = submission_token s in
     io_bind (active_session_or_fail env (submission_workspace s)) (\<lambda>session.
     io_bind (stored_preview env s) (\<lambda>p.
     io_bind (io_return (ensure (publication_session p = session_id session)
         (stale token ''the active review session changed''))) (\<lambda>_.
     io_bind (io_return (ensure (publication_status p = Previewed)
         (GitHubReviewPreviewNotReady token (''publication is '' @ show_status (publication_status p))))) (\<lambda>_.
     io_bind (active_set_or_fail (session_id session)) (\<lambda>set.
     io_bind (io_return (ensure (publication_set p = Some (set_id set))
         (stale token ''the active annotation set changed''))) (\<lambda>_.
     io_bind (on_store (annotations (set_id set))) (\<lambda>as.
     let chosen = chosen_annotations p as in
     io_bind (io_return (ensure (length chosen = length (publication_annotations p)
           \<and> annotation_snapshot_fingerprint env chosen = publication_snapshot p)
         (stale token ''one or more selected annotations changed after preview''))) (\<lambda>_.
     io_bind (metadata_of env url) (\<lambda>remote.
     io_bind (io_return (check_pins review p token remote)) (\<lambda>_.
     io_return (Inr (session, set, p)))))))))))))"

definition submitted_record :: "GitHubPublicationRecord \<Rightarrow> RemoteReview \<Rightarrow> timestamp \<Rightarrow> GitHubPublicationRecord" where
  "submitted_record p remote now = p\<lparr>publication_status := Submitted, publication_remote_id := Some (remote_id remote),
    publication_remote_url := remote_html_url remote, publication_remote_state := remote_state remote,
    publication_completed_at := Some now\<rparr>"

definition rejected_record :: "GitHubPublicationRecord \<Rightarrow> timestamp \<Rightarrow> GitHubPublicationRecord" where
  "rejected_record p now = p\<lparr>publication_status := Rejected, publication_completed_at := Some now\<rparr>"

text \<open>What \<open>submit_native_review\<close> answers, error or not.\<close>

definition submit_answer ::
  "'w GitHubEnv \<Rightarrow> GitHubPullRequestUrl \<Rightarrow> PreparedNativeReview \<Rightarrow> ('w, ReviewPublishError + RemoteReview) service" where
  "submit_answer env url prepared =
    on_executor (submit_native_review (hub_review_json env) (hub_gh env) url prepared)"

definition conclude_submission ::
  "'w GitHubEnv \<Rightarrow> ReviewSession \<Rightarrow> AnnotationSet \<Rightarrow> GitHubPublicationRecord \<Rightarrow> ReviewPublishError + RemoteReview
    \<Rightarrow> ('w, FinishGitHubReviewResult) service" where
  "conclude_submission env session active record answer =
    (case answer of
      Inl e \<Rightarrow>
        if is_definitive_provider_rejection e
        then io_bind (now_of env) (\<lambda>now.
          io_bind (save_publication env (rejected_record record now) (session_id session)) (\<lambda>_.
          io_return (Inl (GitHubPublish e))))
        else io_return (Inl (GitHubPublicationAmbiguous (publication_token record) (publish_error_text e)))
    | Inr remote \<Rightarrow>
        io_bind (now_of env) (\<lambda>now.
        let completed = submitted_record record remote now in
        io_bind (save_with_annotations env completed (session_id session) (set_id active)) (\<lambda>_.
        io_return (Inr \<lparr>finished_publication = completed,
          finished_count = length (publication_annotations completed)\<rparr>))))"

definition submit_preview ::
  "'w GitHubEnv \<Rightarrow> GitHubPullRequestUrl \<Rightarrow> ReviewSession \<times> AnnotationSet \<times> GitHubPublicationRecord
    \<Rightarrow> ('w, FinishGitHubReviewResult) service" where
  "submit_preview env url = (\<lambda>(session, active, p).
    let prepared = prepared_from_publication p; record = p\<lparr>publication_status := Prepared\<rparr> in
    io_bind (save_publication env record (session_id session)) (\<lambda>_.
    io_bind (submit_answer env url prepared) (\<lambda>answer.
    conclude_submission env session active record answer)))"

definition finish_github_review_preview ::
  "'w GitHubEnv \<Rightarrow> FinishGitHubReviewSubmission \<Rightarrow> ('w, FinishGitHubReviewResult) hub" where
  "finish_github_review_preview env s =
    run_bind (run_io (publication_lock env)) (\<lambda>_.
    run_bind (run_io (require_authentication env)) (\<lambda>_.
    run_bind (run_io (github_pull_request env (submission_workspace s))) (\<lambda>review.
    run_bind (run_return (url_of (pull_record_url review))) (\<lambda>url.
    run_bind (reconcile_unresolved_publications env url (submission_workspace s)) (\<lambda>reconciled.
    case reconciled of
      Some p \<Rightarrow> run_return (Inr \<lparr>finished_publication = p, finished_count = length (publication_annotations p)\<rparr>)
    | None \<Rightarrow> run_io (io_bind (submittable env s review url) (submit_preview env url)))))))"

definition finish_github_review ::
  "'w GitHubEnv \<Rightarrow> FinishGitHubReviewRequest \<Rightarrow> ('w, FinishGitHubReviewResult) hub" where
  "finish_github_review env r =
    run_bind (run_io (active_session_or_fail env (finish_workspace r))) (\<lambda>session.
    run_bind (run_io (publications_for_session env (session_id session))) (\<lambda>ps.
    run_bind (run_io (require (GitHubReviewPreviewNotFound (finish_workspace r) ''matching rendered preview'')
      (newest_publication (filter (matching_preview (preview_request_fingerprint env r)) ps)))) (\<lambda>preview.
    finish_github_review_preview env \<lparr>submission_workspace = finish_workspace r,
      submission_token = publication_token preview\<rparr>)))"

definition abandoned_record :: "GitHubPublicationRecord \<Rightarrow> timestamp \<Rightarrow> GitHubPublicationRecord" where
  "abandoned_record p now = p\<lparr>publication_status := Abandoned, publication_completed_at := Some now\<rparr>"

definition abandonable ::
  "'w GitHubEnv \<Rightarrow> FinishGitHubReviewSubmission \<Rightarrow> ('w, GitHubPublicationRecord \<times> ReviewSession) service" where
  "abandonable env s =
    (let token = submission_token s in
     io_bind (publication_lock env) (\<lambda>_.
     io_bind (stored_preview env s) (\<lambda>p.
     io_bind (on_store (review_sessions_for_id (publication_session p))) (\<lambda>found.
     io_bind (require (ReviewSessionNotFound (publication_session p)) found) (\<lambda>session.
     io_bind (io_return (ensure (session_workspace_id session = submission_workspace s)
         (stale token ''the preview belongs to another workspace''))) (\<lambda>_.
     io_bind (io_return (ensure (publication_status p = Previewed \<or> publication_status p = Prepared)
         (GitHubReviewPreviewNotReady token (''publication is '' @ show_status (publication_status p))))) (\<lambda>_.
     io_return (Inr (p, session)))))))))"

definition abandon_github_review_publication ::
  "'w GitHubEnv \<Rightarrow> FinishGitHubReviewSubmission \<Rightarrow> ('w, GitHubPublicationRecord) service" where
  "abandon_github_review_publication env s =
    io_bind (abandonable env s) (\<lambda>(p, session).
    io_bind (now_of env) (\<lambda>now.
    let p = abandoned_record p now in
    io_bind (save_publication env p (session_id session)) (\<lambda>_.
    io_return (Inr p))))"

section \<open>Opening, refreshing and deleting\<close>

definition pinned_base :: "PullRequestMetadata \<Rightarrow> ServiceError + BaseReference" where
  "pinned_base m = map_err (\<lambda>_. ServicePanic) (BaseReference_new (sha_str (ref_sha (pull_base m))))"

definition pull_repository :: "RepositoryId \<Rightarrow> WorkspaceId \<Rightarrow> PullRequestMetadata \<Rightarrow> ManagedWorktree \<Rightarrow> BaseReference \<Rightarrow> Repository" where
  "pull_repository i w m worktree base =
    \<lparr>repository_id = i, repository_workspace_id = w, repository_relative_path = StoredPath ''.'',
      repository_worktree_path = managed_worktree_path worktree, repository_git_common_dir = None,
      repository_primary_remote = Some (normalize_remote_url (clone_url (pull_url m))),
      repository_enabled = True, repository_base_override = Some base,
      repository_current_branch = Detached (ref_sha (pull_head m)), repository_last_base_sha = None,
      repository_last_fetch_at = None, repository_last_fetch_error = None, repository_discovery_error = None,
      repository_comparison_error = None\<rparr>"

definition pull_request_source :: "GitHubPullRequestUrl \<Rightarrow> ManagedWorktree \<Rightarrow> WorkspaceSource" where
  "pull_request_source u worktree =
    PullRequest (canonical_url u) (pr_owner u) (pr_repository u) (pr_number u) (managed_worktree_path worktree)"

definition pull_workspace ::
  "GitHubPullRequestUrl \<Rightarrow> BaseReference \<Rightarrow> ManagedWorktree \<Rightarrow> timestamp \<Rightarrow> uuid \<Rightarrow> Workspace" where
  "pull_workspace u base worktree now i =
    \<lparr>workspace_id = WorkspaceId i,
     workspace_display_name = pr_owner u @ ''/'' @ pr_repository u @ '' #'' @ show_nat (pr_number u),
     workspace_source = pull_request_source u worktree, workspace_default_base = base,
     workspace_pinned = True, workspace_archived_at = None, workspace_created_at = now,
     workspace_updated_at = now\<rparr>"

definition import_state :: "'w GitHubEnv \<Rightarrow> GitHubPullRequestUrl \<Rightarrow> ('w, ImportState) hub" where
  "import_state env u s = map_option (\<lambda>(r, g).
     (Inr (case r of
        Inr i \<Rightarrow> \<lparr>import_threads = imported_threads i, import_conversations = imported_conversation i,
          import_error = None\<rparr>
      | Inl e \<Rightarrow> \<lparr>import_threads = [], import_conversations = [], import_error = Some (import_error_text e)\<rparr>),
      s\<lparr>world_git := g\<rparr>))
     (import_pull_request_state (hub_review_json env) (hub_gh env) u (world_git s))"

definition pull_record ::
  "WorkspaceId \<Rightarrow> PullRequestMetadata \<Rightarrow> ManagedWorktree \<Rightarrow> ImportState \<Rightarrow> timestamp \<Rightarrow> GitHubPullRequestRecord" where
  "pull_record w m worktree imported now =
    \<lparr>pull_record_id = ''github-pr-'' @ (case w of WorkspaceId u \<Rightarrow> show_uuid u),
     pull_record_workspace = w, pull_record_url = canonical_url (pull_url m),
     pull_record_owner = pr_owner (pull_url m), pull_record_repository = pr_repository (pull_url m),
     pull_record_number = pr_number (pull_url m), pull_record_title = pull_title m,
     pull_record_author = pull_author m, pull_record_base_ref = ref_name (pull_base m),
     pull_record_head_ref = ref_name (pull_head m), pull_record_base_sha = ref_sha (pull_base m),
     pull_record_head_sha = ref_sha (pull_head m), pull_record_draft = pull_draft m,
     pull_record_state = pull_state m, pull_record_decision = pull_review_decision m,
     pull_record_commits = map (\<lambda>c. \<lparr>commit_record_sha = commit_oid c,
       commit_record_headline = commit_message_headline c, commit_record_authored_at = commit_authored_at c\<rparr>)
       (pull_commits m),
     pull_record_worktree = worktree, pull_record_threads = import_threads imported,
     pull_record_conversation = import_conversations imported,
     pull_record_import_error = import_error imported, pull_record_captured_at = now\<rparr>"

fun first_open_pull ::
  "'w GitHubEnv \<Rightarrow> string \<Rightarrow> Workspace list \<Rightarrow> ('w, (Workspace \<times> GitHubPullRequestRecord) option) service" where
  "first_open_pull env canonical [] = io_return (Inr None)"
| "first_open_pull env canonical (w # ws) =
    (case (workspace_archived_at w, workspace_source w) of
       (None, PullRequest existing _ _ _ _) \<Rightarrow>
         if existing = canonical
         then io_bind (stored_pull env (workspace_id w)) (\<lambda>found.
           case found of
             Some r \<Rightarrow> io_return (Inr (Some (w, r)))
           | None \<Rightarrow> first_open_pull env canonical ws)
         else first_open_pull env canonical ws
     | _ \<Rightarrow> first_open_pull env canonical ws)"

definition find_open_pr_workspace ::
  "'w GitHubEnv \<Rightarrow> GitHubPullRequestUrl \<Rightarrow> ('w, (Workspace \<times> GitHubPullRequestRecord) option) service" where
  "find_open_pr_workspace env u =
    io_bind (on_store workspaces) (\<lambda>ws. first_open_pull env (canonical_url u) ws)"

definition is_local :: "Workspace \<Rightarrow> bool" where
  "is_local w = (case workspace_source w of LocalDirectory _ \<Rightarrow> True | _ \<Rightarrow> False)"

definition known_clone_candidates :: "PullRequestMetadata \<Rightarrow> ('w, string list) service" where
  "known_clone_candidates m =
    (let expected = normalize_remote_url (clone_url (pull_url m)) in
     io_bind (on_store workspaces) (\<lambda>ws.
     io_bind (io_map (\<lambda>w. on_store (repositories (workspace_id w))) (filter is_local ws)) (\<lambda>rs.
     io_return (Inr (path_set (map (\<lambda>r. path_str (repository_worktree_path r))
       (filter (\<lambda>r. repository_primary_remote r = Some expected) (concat rs))))))))"

text \<open>Metadata to a worktree of the pool, under a fresh review id.\<close>

definition prepare_worktree :: "'w GitHubEnv \<Rightarrow> PullRequestMetadata \<Rightarrow> ('w, ManagedWorktree) hub" where
  "prepare_worktree env m =
    run_bind (run_io (fresh_id env)) (\<lambda>u.
    run_bind (run_io (known_clone_candidates m)) (\<lambda>clones.
    run_bind (run_return (map_err GitHubPullRequest (managed_worktree_request m (''pr-'' @ simple_uuid u) clones))) (\<lambda>request.
    on_pool (prepare (hub_pool env) (repository_pool env) request))))"

definition default_options :: ComparisonOptions where
  "default_options = \<lparr>ignore_all_whitespace = False, ignore_space_at_eol = False, ignore_cr_at_eol = False,
    path_filters = []\<rparr>"

text \<open>The local review of a new workspace; a failure stays on the record and is returned.\<close>

definition start_pull_review ::
  "'w GitHubEnv \<Rightarrow> Workspace \<Rightarrow> BaseReference \<Rightarrow> GitHubPullRequestRecord \<Rightarrow> ('w, StartReviewResult) service" where
  "start_pull_review env w base review s =
    (case start_local_review (hub_service env) \<lparr>start_workspace = workspace_id w,
        start_application_default = base, start_temporary_overrides = (\<lambda>_. None),
        start_options = default_options\<rparr> s of
       (Inr started, s) \<Rightarrow> (Inr started, s)
     | (Inl ServicePanic, s) \<Rightarrow> (Inl ServicePanic, s)
     | (Inl e, s) \<Rightarrow> io_bind
         (save_pull env (review\<lparr>pull_record_import_error := Some (''Local capture could not start: '' @
            service_error_text (hub_service env) e @ ''. Retry the review from the workspace.'')\<rparr>) (workspace_id w))
         (\<lambda>_. io_return (Inl e)) s)"

definition save_worktree :: "'w GitHubEnv \<Rightarrow> ManagedWorktree \<Rightarrow> WorkspaceId \<Rightarrow> ('w, unit) service" where
  "save_worktree env t w = on_store (save_managed_worktree (managed_review_id t) w (hub_encode_worktree env t))"

definition open_new_pull ::
  "'w GitHubEnv \<Rightarrow> BaseReference \<Rightarrow> GitHubPullRequestUrl \<Rightarrow> ('w, OpenGitHubPullRequestResult) hub" where
  "open_new_pull env base u =
    run_bind (run_io (metadata_of env u)) (\<lambda>m.
    run_bind (prepare_worktree env m) (\<lambda>worktree.
    run_bind (run_io (now_of env)) (\<lambda>now.
    run_bind (run_io (fresh_id env)) (\<lambda>i.
    run_bind (run_io (fresh_id env)) (\<lambda>j.
    let w = pull_workspace u base worktree now i in
    run_bind (run_return (pinned_base m)) (\<lambda>pin.
    run_bind (run_io (on_store (upsert_workspace w))) (\<lambda>_.
    run_bind (run_io (on_store (upsert_repository (pull_repository (RepositoryId j) (workspace_id w) m worktree pin)))) (\<lambda>_.
    run_bind (import_state env u) (\<lambda>imported.
    run_bind (run_io (now_of env)) (\<lambda>captured.
    let review = pull_record (workspace_id w) m worktree imported captured in
    run_bind (run_io (save_pull env review (workspace_id w))) (\<lambda>_.
    run_bind (run_io (save_worktree env worktree (workspace_id w))) (\<lambda>_.
    run_bind (run_io (start_pull_review env w base review)) (\<lambda>started.
    run_return (Inr \<lparr>opened_pull_workspace = w, opened_pull_review = review,
      opened_pull_start = Some started, opened_pull_reused = False\<rparr>))))))))))))))"

definition open_github_pull_request ::
  "'w GitHubEnv \<Rightarrow> string \<Rightarrow> BaseReference \<Rightarrow> ('w, OpenGitHubPullRequestResult) hub" where
  "open_github_pull_request env requested base =
    run_bind (run_return (url_of requested)) (\<lambda>u.
    run_bind (run_io (require_authentication env)) (\<lambda>_.
    run_bind (run_io (find_open_pr_workspace env u)) (\<lambda>found.
    case found of
      Some (w, review) \<Rightarrow> run_return (Inr \<lparr>opened_pull_workspace = w, opened_pull_review = review,
        opened_pull_start = None, opened_pull_reused = True\<rparr>)
    | None \<Rightarrow> open_new_pull env base u)))"

end
