(* ===== verification/Service_GitHub_Refresh.thy ===== *)
theory Service_GitHub_Refresh
  imports Service_GitHub
begin

text \<open>
  \<open>crates/service/src/github.rs\<close>, the life of the checkout of a pull request: an explicit
  refresh prepares a new worktree, captures it and promotes everything in one transaction
  before it retires the old worktree; deletion and the repair at startup.
\<close>

section \<open>Refreshing\<close>

text \<open>Removing a worktree whose result nobody waits for (\<open>let _ = pool.delete(..)\<close>).\<close>

definition discard_worktree :: "'w GitHubEnv \<Rightarrow> ManagedWorktree \<Rightarrow> ('w, bool) hub" where
  "discard_worktree env t =
    run_bind (pool_answer (delete (hub_pool env) (repository_pool env) (managed_review_id t))) (\<lambda>r.
    run_return (Inr (is_ok r)))"

definition discard_and_fail :: "'w GitHubEnv \<Rightarrow> ManagedWorktree \<Rightarrow> ServiceError \<Rightarrow> ('w, 'a) hub" where
  "discard_and_fail env t e = run_bind (discard_worktree env t) (\<lambda>_. run_return (Inl e))"

definition require_clean :: "'w GitHubEnv \<Rightarrow> ManagedWorktree \<Rightarrow> ManagedWorktree \<Rightarrow> ('w, unit) hub" where
  "require_clean env old next_tree =
    run_bind (pool_answer (\<lambda>g. Some (is_dirty (hub_pool env) old g))) (\<lambda>dirty.
    case dirty of
      Inr False \<Rightarrow> run_return (Inr ())
    | Inr True \<Rightarrow> discard_and_fail env next_tree (ManagedWorktreeDirty (path_str (managed_worktree_path old)))
    | Inl e \<Rightarrow> discard_and_fail env next_tree (RepositoryPoolFailure e))"

definition repinned_repository :: "Repository \<Rightarrow> PullRequestMetadata \<Rightarrow> ManagedWorktree \<Rightarrow> BaseReference \<Rightarrow> Repository" where
  "repinned_repository r m worktree base = r\<lparr>repository_worktree_path := managed_worktree_path worktree,
    repository_base_override := Some base, repository_current_branch := Detached (ref_sha (pull_head m))\<rparr>"

definition first_repository :: "'w GitHubEnv \<Rightarrow> WorkspaceId \<Rightarrow> ('w, Repository) service" where
  "first_repository env w =
    io_bind (on_store (repositories w)) (\<lambda>rs.
    io_bind (fresh_id env) (\<lambda>u.
    require (RepositoryNotFound (RepositoryId u)) (find (\<lambda>_. True) rs)))"

definition capture_pull_request ::
  "'w GitHubEnv \<Rightarrow> ReviewSessionId \<Rightarrow> Repository \<Rightarrow> BaseReference
    \<Rightarrow> ('w, CapturedLocalComparison \<times> PreparedReviewGeneration \<times> Annotation list) service" where
  "capture_pull_request env session r base =
    (let git = open_git (hub_service env) (path_str (repository_worktree_path r)) in
     io_bind (fresh_id env) (\<lambda>u.
     io_bind (on_git (resolve_comparison git (repository_id r) (ComparisonId u) base default_options)) (\<lambda>resolved.
     io_bind (on_git (capture_local_comparison git resolved)) (\<lambda>capture.
     io_bind (build_captured_documents_for_repository (hub_service env) session capture r) (\<lambda>documents.
     io_bind (on_store (current_comparisons_for_session session)) (\<lambda>comparisons.
     io_bind (case find (\<lambda>c. comparison_repository_id c = repository_id r) comparisons of
         None \<Rightarrow> io_return (Inr [])
       | Some p \<Rightarrow> prepare_reanchored_annotations (hub_service env) session (repository_id r) (comparison_id p)
           (captured_comparison capture) documents) (\<lambda>updates.
     io_bind (on_store (prepare_review_generation (service_sha256 (hub_service env)) (service_encode (hub_service env))
         (captured_comparison capture) (review_generation_rows documents))) (\<lambda>generation.
     io_return (Inr (capture, generation, updates))))))))))"

definition refresh_promotion ::
  "'w GitHubEnv \<Rightarrow> Workspace \<Rightarrow> Repository \<Rightarrow> GitHubPullRequestRecord \<Rightarrow> ManagedWorktree \<Rightarrow> ReviewSession
    \<Rightarrow> PreparedReviewGeneration \<Rightarrow> Annotation list \<Rightarrow> GitHubPullRequestRefreshPromotion" where
  "refresh_promotion env w r review old session generation updates =
    \<lparr>refresh_workspace = w, refresh_repository = r, refresh_pull_request_id = pull_record_id review,
     refresh_pull_request = hub_encode_pull env review,
     refresh_active_worktree_id = managed_review_id (pull_record_worktree review),
     refresh_active_worktree = hub_encode_worktree env (pull_record_worktree review),
     refresh_retired_worktree_id = managed_review_id old,
     refresh_retired_worktree = hub_encode_worktree env old, refresh_session = session,
     refresh_generation = generation, refresh_annotations = updates\<rparr>"

definition promote ::
  "'w GitHubEnv \<Rightarrow> GitHubPullRequestRefreshPromotion \<Rightarrow> ('w, unit) service" where
  "promote env p = io_bind (now_of env) (\<lambda>now. on_store (promote_github_pull_request_refresh p now))"

text \<open>The old worktree goes last; when it cannot be removed its record stays retired.\<close>

definition retire_worktree :: "'w GitHubEnv \<Rightarrow> ManagedWorktree \<Rightarrow> ('w, unit) hub" where
  "retire_worktree env old =
    run_bind (discard_worktree env old) (\<lambda>removed.
    if removed
    then run_bind (run_io (attempt (on_store (complete_retired_managed_worktree (managed_review_id old)))))
      (\<lambda>_. run_return (Inr ()))
    else run_return (Inr ()))"

definition refresh_changed_pull ::
  "'w GitHubEnv \<Rightarrow> Workspace \<Rightarrow> GitHubPullRequestRecord \<Rightarrow> GitHubPullRequestUrl \<Rightarrow> PullRequestMetadata
    \<Rightarrow> ('w, RefreshGitHubPullRequestResult) hub" where
  "refresh_changed_pull env w review u m =
    (let old = pull_record_worktree review in
     run_bind (run_io (active_session_or_fail env (workspace_id w))) (\<lambda>session.
     run_bind (run_io (active_set_or_fail (session_id session))) (\<lambda>active.
     run_bind (prepare_worktree env m) (\<lambda>tree.
     run_bind (require_clean env old tree) (\<lambda>_.
     run_bind (run_io (now_of env)) (\<lambda>now.
     let updated = w\<lparr>workspace_source := pull_request_source u tree, workspace_updated_at := now\<rparr> in
     run_bind (run_io (first_repository env (workspace_id w))) (\<lambda>r.
     run_bind (run_return (pinned_base m)) (\<lambda>base.
     let r = repinned_repository r m tree base in
     run_bind (import_state env u) (\<lambda>imported.
     run_bind (run_io (now_of env)) (\<lambda>captured.
     let next_review = pull_record (workspace_id updated) m tree imported captured in
     run_bind (run_io (attempt (capture_pull_request env (session_id session) r base))) (\<lambda>outcome.
     case outcome of
       Inl e \<Rightarrow> discard_and_fail env tree e
     | Inr (capture, generation, updates) \<Rightarrow>
         run_bind (run_io (now_of env)) (\<lambda>refreshed.
         let session = session\<lparr>session_refreshed_at := Some refreshed\<rparr> in
         run_bind (run_io (attempt (promote env (refresh_promotion env updated r next_review old session generation updates))))
           (\<lambda>promoted. case promoted of
             Inl e \<Rightarrow> discard_and_fail env tree e
           | Inr _ \<Rightarrow>
               run_bind (retire_worktree env old) (\<lambda>_.
               run_return (Inr \<lparr>refreshed_pull_review = next_review,
                 refreshed_pull_result = \<lparr>result_session = session, result_set = active,
                   result_captures = [capture], result_failures = []\<rparr>,
                 refreshed_pull_head_changed = True\<rparr>)))))))))))))))"

definition reimported :: "GitHubPullRequestRecord \<Rightarrow> ImportState \<Rightarrow> timestamp \<Rightarrow> GitHubPullRequestRecord" where
  "reimported review imported now = review\<lparr>pull_record_threads := import_threads imported,
    pull_record_conversation := import_conversations imported,
    pull_record_import_error := import_error imported, pull_record_captured_at := now\<rparr>"

definition refresh_same_pull ::
  "'w GitHubEnv \<Rightarrow> WorkspaceId \<Rightarrow> BaseReference \<Rightarrow> GitHubPullRequestRecord \<Rightarrow> GitHubPullRequestUrl
    \<Rightarrow> ('w, RefreshGitHubPullRequestResult) hub" where
  "refresh_same_pull env w base review u =
    run_bind (import_state env u) (\<lambda>imported.
    run_bind (run_io (now_of env)) (\<lambda>now.
    let review = reimported review imported now in
    run_bind (run_io (save_pull env review w)) (\<lambda>_.
    run_bind (run_io (active_session_or_fail env w)) (\<lambda>session.
    run_bind (run_io (refresh_local_review (hub_service env) (session_id session) base (\<lambda>_. None) default_options)) (\<lambda>result.
    run_return (Inr \<lparr>refreshed_pull_review = review, refreshed_pull_result = result,
      refreshed_pull_head_changed = False\<rparr>))))))"

definition moved_pins :: "GitHubPullRequestRecord \<Rightarrow> PullRequestMetadata \<Rightarrow> bool" where
  "moved_pins review m \<longleftrightarrow> ref_sha (pull_head m) \<noteq> pull_record_head_sha review
    \<or> ref_sha (pull_base m) \<noteq> pull_record_base_sha review"

definition refresh_github_pull_request ::
  "'w GitHubEnv \<Rightarrow> WorkspaceId \<Rightarrow> BaseReference \<Rightarrow> ('w, RefreshGitHubPullRequestResult) hub" where
  "refresh_github_pull_request env i base =
    run_bind (run_io (on_store (workspace i))) (\<lambda>found.
    run_bind (run_io (require (WorkspaceNotFound i) found)) (\<lambda>w.
    run_bind (run_io (github_pull_request env i)) (\<lambda>review.
    run_bind (run_io (ensure_no_unresolved_github_publication env i)) (\<lambda>_.
    run_bind (run_io (require_authentication env)) (\<lambda>_.
    run_bind (run_return (url_of (pull_record_url review))) (\<lambda>u.
    run_bind (run_io (metadata_of env u)) (\<lambda>m.
    if moved_pins review m then refresh_changed_pull env w review u m
    else refresh_same_pull env i base review u)))))))"

section \<open>Deleting and repairing\<close>

definition deletion_error :: "RepositoryPoolError \<Rightarrow> ServiceError" where
  "deletion_error e = (case e of
      DirtyManagedWorktree path \<Rightarrow> ManagedWorktreeDirty (utf8_lossy path)
    | _ \<Rightarrow> RepositoryPoolFailure e)"

definition archive_workspace :: "'w GitHubEnv \<Rightarrow> WorkspaceId \<Rightarrow> ('w, unit) service" where
  "archive_workspace env i =
    io_bind (on_store (workspace i)) (\<lambda>found.
    io_bind (require (WorkspaceNotFound i) found) (\<lambda>w.
    io_bind (now_of env) (\<lambda>at.
    io_bind (now_of env) (\<lambda>now.
    on_store (upsert_workspace (w\<lparr>workspace_archived_at := Some at, workspace_updated_at := now\<rparr>))))))"

definition delete_github_pull_request_workspace :: "'w GitHubEnv \<Rightarrow> WorkspaceId \<Rightarrow> ('w, unit) hub" where
  "delete_github_pull_request_workspace env i =
    run_bind (run_io (github_pull_request env i)) (\<lambda>review.
    run_bind (run_io (ensure_no_unresolved_github_publication env i)) (\<lambda>_.
    let t = managed_review_id (pull_record_worktree review) in
    run_bind (pool_answer (delete (hub_pool env) (repository_pool env) t)) (\<lambda>deleted.
    case deleted of
      Inl e \<Rightarrow> run_return (Inl (deletion_error e))
    | Inr _ \<Rightarrow>
        run_bind (run_io (on_store (remove_managed_worktree t))) (\<lambda>_.
        run_io (archive_workspace env i)))))"

definition already_gone :: "RepositoryPoolError + 'a \<Rightarrow> bool" where
  "already_gone r = (case r of
      Inr _ \<Rightarrow> True
    | Inl (UnknownManagedWorktree _) \<Rightarrow> True
    | Inl (MissingManagedWorktree _) \<Rightarrow> True
    | Inl _ \<Rightarrow> False)"

fun clear_retired :: "'w GitHubEnv \<Rightarrow> ManagedWorktree list \<Rightarrow> ('w, unit) hub" where
  "clear_retired env [] = run_return (Inr ())"
| "clear_retired env (t # ts) =
    run_bind (pool_answer (delete (hub_pool env) (repository_pool env) (managed_review_id t))) (\<lambda>r.
    run_bind (if already_gone r
      then run_io (on_store (complete_retired_managed_worktree (managed_review_id t)))
      else run_return (Inr ())) (\<lambda>_.
    clear_retired env ts))"

definition repair_managed_worktree_orphans :: "'w GitHubEnv \<Rightarrow> ('w, WorktreeRepairReport) hub" where
  "repair_managed_worktree_orphans env =
    run_bind (run_io (on_store retired_managed_worktrees)) (\<lambda>payloads.
    run_bind (run_return (try_map (decoded (hub_decode_worktree env)) payloads)) (\<lambda>retired.
    run_bind (clear_retired env retired) (\<lambda>_.
    on_pool (repair_orphans (hub_pool env) (repository_pool env)))))"

end
