(* ===== verification/Service_GitHub_Props.thy ===== *)
theory Service_GitHub_Props
  imports Service_GitHub Service_Session_Props
begin

text \<open>
  What publishing a review guarantees.  The operations run on an environment that writes down
  every command given to \<open>gh\<close> (\<open>observed\<close>); \<open>posted\<close> are the requests that create a review.
  A native review is posted at most once for each preview, with the text that was previewed,
  and never while the outcome of an earlier request is unknown.
\<close>

section \<open>Writing down what is sent\<close>

type_synonym 'w watched = "'w \<times> GhCommand list"

definition unseen :: "('w \<Rightarrow> 'r \<times> 'w) \<Rightarrow> 'w watched \<Rightarrow> 'r \<times> 'w watched" where
  "unseen m = (\<lambda>(w, log). case m w of (r, w') \<Rightarrow> (r, (w', log)))"

definition watched_git :: "'w git_env \<Rightarrow> 'w watched git_env" where
  "watched_git env = \<lparr>env_execute = (\<lambda>c. unseen (env_execute env c)),
    env_symlink_metadata = (\<lambda>p. unseen (env_symlink_metadata env p)),
    env_read = (\<lambda>p. unseen (env_read env p)), env_now = unseen (env_now env), env_blake3 = env_blake3 env\<rparr>"

definition watched_fs :: "'w fs_env \<Rightarrow> 'w watched fs_env" where
  "watched_fs env = \<lparr>fs_symlink_metadata = (\<lambda>p. unseen (fs_symlink_metadata env p)),
    fs_is_dir_or_file = (\<lambda>p. unseen (fs_is_dir_or_file env p)),
    fs_read_dir = (\<lambda>p. unseen (fs_read_dir env p)), fs_canonicalize = (\<lambda>p. unseen (fs_canonicalize env p))\<rparr>"

definition watched_config :: "'w config_env \<Rightarrow> 'w watched config_env" where
  "watched_config env = \<lparr>config_read = (\<lambda>p. unseen (config_read env p)), config_toml = config_toml env\<rparr>"

definition watched_pool :: "'w pool_env \<Rightarrow> 'w watched pool_env" where
  "watched_pool env =
    \<lparr>pool_git = watched_git (pool_git env), pool_exists = (\<lambda>p. unseen (pool_exists env p)),
     pool_is_dir = (\<lambda>p. unseen (pool_is_dir env p)), pool_canonicalize = (\<lambda>p. unseen (pool_canonicalize env p)),
     pool_read_dir = (\<lambda>p. unseen (pool_read_dir env p)),
     pool_create_dir_all = (\<lambda>p. unseen (pool_create_dir_all env p)),
     pool_remove_dir = (\<lambda>p. unseen (pool_remove_dir env p)),
     pool_remove_dir_all = (\<lambda>p. unseen (pool_remove_dir_all env p)),
     pool_remove_file = (\<lambda>p. unseen (pool_remove_file env p)),
     pool_write = (\<lambda>p b. unseen (pool_write env p b)), pool_rename = (\<lambda>a b. unseen (pool_rename env a b)),
     pool_create_new = (\<lambda>p. unseen (pool_create_new env p)), pool_file_age = (\<lambda>p. unseen (pool_file_age env p)),
     pool_instant = unseen (pool_instant env), pool_sleep = (\<lambda>n. apfst (pool_sleep env n)),
     pool_decode = pool_decode env, pool_encode = pool_encode env\<rparr>"

definition watched_service :: "'w ServiceEnv \<Rightarrow> 'w watched ServiceEnv" where
  "watched_service env =
    \<lparr>service_git = watched_git (service_git env), service_fs = watched_fs (service_fs env),
     service_config = watched_config (service_config env), service_uuid = service_uuid env,
     service_sha256 = service_sha256 env, service_grouped = service_grouped env,
     service_encode = service_encode env, service_decode = service_decode env,
     service_io_kind = service_io_kind env, service_error_text = service_error_text env,
     service_global_config = service_global_config env\<rparr>"

definition watched_gh :: "'w executor \<Rightarrow> 'w watched executor" where
  "watched_gh gh c = (\<lambda>(w, log). case gh c w of (r, w') \<Rightarrow> (r, (w', log @ [c])))"

definition observed :: "'w GitHubEnv \<Rightarrow> 'w watched GitHubEnv" where
  "observed env =
    \<lparr>hub_service = watched_service (hub_service env), hub_pool = watched_pool (hub_pool env),
     hub_gh = watched_gh (hub_gh env), hub_pull_json = hub_pull_json env, hub_review_json = hub_review_json env,
     hub_sha256 = hub_sha256 env, hub_root = hub_root env, hub_lock_poisoned = hub_lock_poisoned env,
     hub_encode_pull = hub_encode_pull env, hub_decode_pull = hub_decode_pull env,
     hub_encode_publication = hub_encode_publication env, hub_decode_publication = hub_decode_publication env,
     hub_encode_worktree = hub_encode_worktree env, hub_decode_worktree = hub_decode_worktree env,
     hub_annotations_json = hub_annotations_json env\<rparr>"

text \<open>The requests that create a review, with the text they send.\<close>

definition is_post :: "GhCommand \<Rightarrow> bool" where
  "is_post c \<longleftrightarrow> ''POST'' \<in> set (gh_arguments c)"

definition posted :: "'w watched World \<Rightarrow> GhCommand list" where
  "posted s = filter is_post (snd (world_git s))"

abbreviation rows :: "'w World \<Rightarrow> PublicationRow list" where
  "rows s \<equiv> t_publications (store_db (world_store s))"

section \<open>Steps that neither post nor write publications\<close>

named_theorems quiet_intros \<open>operations that neither post nor write publications\<close>

definition untouched :: "'w watched World \<Rightarrow> 'w watched World \<Rightarrow> bool" where
  "untouched s s' \<longleftrightarrow> rows s' = rows s \<and> posted s' = posted s \<and> world_ids s \<le> world_ids s'"

definition still :: "'w watched World \<Rightarrow> 'w watched World \<Rightarrow> bool" where
  "still s s' \<longleftrightarrow> world_store s' = world_store s \<and> posted s' = posted s \<and> world_ids s \<le> world_ids s'"

definition quiet :: "('w watched, 'a) service \<Rightarrow> bool" where
  "quiet m \<longleftrightarrow> (\<forall>s r s'. m s = (r, s') \<longrightarrow> still s s')"

lemma quietD: "quiet m \<Longrightarrow> m s = (r, s') \<Longrightarrow> still s s'"
  by (simp add: quiet_def)

lemma still_refl [simp]: "still s s"
  by (simp add: still_def)

lemma still_trans: "still s t \<Longrightarrow> still t u \<Longrightarrow> still s u"
  by (auto simp: still_def)

lemma still_untouched: "still s s' \<Longrightarrow> untouched s s'"
  by (simp add: still_def untouched_def)

lemma quiet_bind [quiet_intros]: "quiet m \<Longrightarrow> (\<And>x. quiet (k x)) \<Longrightarrow> quiet (io_bind m k)"
  unfolding io_bind_def [abs_def]
  by (subst quiet_def) (auto split: prod.splits sum.splits dest!: quietD intro: still_trans)

lemma quiet_return [quiet_intros]: "quiet (io_return r)"
  by (simp add: quiet_def)

lemma quiet_require [quiet_intros]: "quiet (require e x)"
  by (simp add: require_def quiet_return)

lemma quiet_option [quiet_intros]:
  "quiet a \<Longrightarrow> (\<And>x. quiet (b x)) \<Longrightarrow> quiet (case x of None \<Rightarrow> a | Some x \<Rightarrow> b x)"
  by (cases x) simp_all

lemma quiet_Let [quiet_intros]: "(\<And>x. quiet (k x)) \<Longrightarrow> quiet (Let x k)"
  by simp

lemma quiet_query [quiet_intros]: "quiet (on_store (query f))"
  by (simp add: quiet_def on_store_def query_def still_def posted_def)

lemma quiet_read [quiet_intros]: "quiet (read_store f)"
  by (simp add: quiet_def read_store_def)

lemma quiet_fresh [quiet_intros]: "quiet (fresh_id env)"
  by (simp add: quiet_def fresh_id_def fresh_uuid_def still_def posted_def)

lemma quiet_now [quiet_intros]: "quiet (now_of (observed env))"
  by (auto simp: quiet_def now_of_def utc_now_def observed_def watched_service_def watched_git_def unseen_def
    still_def posted_def split: prod.splits)

lemmas hub_queries = store_queries github_pull_request_for_workspace_def github_publication_by_attempt_def
  github_publications_for_session_def

lemma quiet_queries [quiet_intros]:
  "quiet (on_store (current_comparisons_for_session i))" "quiet (on_store (workspace w))"
  "quiet (on_store (repositories w))" "quiet (on_store (review_sessions_for_id i))"
  "quiet (on_store (review_sessions w))" "quiet (on_store (active_annotation_set i))"
  "quiet (on_store (annotations si))" "quiet (on_store (github_pull_request_for_workspace w))"
  "quiet (on_store (github_publication_by_attempt t))" "quiet (on_store (github_publications_for_session i))"
  by (simp_all add: hub_queries quiet_query)

lemma quiet_map [quiet_intros]: "(\<And>x. quiet (f x)) \<Longrightarrow> quiet (io_map f xs)"
  by (induction xs) (auto intro!: quiet_intros)

lemma quiet_lookups [quiet_intros]:
  "quiet (stored_pull env w)" "quiet (publication_by_attempt env t)" "quiet (publications_for_session env i)"
  "quiet (active_session_or_fail env w)" "quiet (active_set_or_fail i)" "quiet (github_pull_request env w)"
  "quiet (review_documents senv i)" "quiet (publication_lock env)" "quiet (stored_preview env s)"
  "quiet (preview_of_unresolved review p)"
  unfolding stored_pull_def publication_by_attempt_def publications_for_session_def active_session_or_fail_def
    active_review_session_def active_set_or_fail_def github_pull_request_def review_documents_def documents_of_def
    publication_lock_def stored_preview_def preview_of_unresolved_def
  by (intro quiet_intros)+

lemma quiet_prepared_in_sessions [quiet_intros]: "quiet (prepared_in_sessions env ss)"
  by (induction ss) (auto intro!: quiet_intros)

lemma quiet_unresolved [quiet_intros]: "quiet (unresolved_github_publication env w)"
  unfolding unresolved_github_publication_def by (intro quiet_intros)

lemma quiet_mark [quiet_intros]: "quiet (mark_published (observed env) ids as)"
  unfolding mark_published_def by (intro quiet_map) (simp add: quiet_intros)

section \<open>Commands that only read\<close>

text \<open>Every command but the submission.\<close>

definition reads :: "('w watched \<Rightarrow> 'r \<times> 'w watched) \<Rightarrow> bool" where
  "reads m \<longleftrightarrow> (\<forall>w r w'. m w = (r, w') \<longrightarrow> filter is_post (snd w') = filter is_post (snd w))"

lemma readsD: "reads m \<Longrightarrow> m w = (r, w') \<Longrightarrow> filter is_post (snd w') = filter is_post (snd w)"
  unfolding reads_def by blast

lemma reads_gh: "\<not> is_post c \<Longrightarrow> reads (watched_gh gh c)"
  by (auto simp: reads_def watched_gh_def split: prod.splits)

lemma reads_require: "\<not> is_post c \<Longrightarrow> reads (require_gh (watched_gh gh) c)"
  using reads_gh [of c gh] unfolding reads_def require_gh_def io_bind_def io_return_def
  by (auto split: prod.splits sum.splits)

lemma slug_not_post: "repository_slug u \<noteq> ''POST''"
proof -
  have "CHR ''/'' \<in> set (repository_slug u)" by (simp add: repository_slug_def)
  then show ?thesis by auto
qed

lemma number_not_post: "show_nat n \<noteq> ''POST''"
  using show_nat_digits [of "CHR ''P''" n] by (auto simp: is_digit_def)

lemma only_reads [simp]:
  "\<not> is_post (view_command u)" "\<not> is_post (api_command u)" "\<not> is_post (reviews_command u)"
  "\<not> is_post (GhCommand_new [''--version''])" "\<not> is_post (GhCommand_new [''auth'', ''status'', ''--hostname'', ''github.com''])"
  using slug_not_post [of u] number_not_post [of "pr_number u"]
  by (auto simp: is_post_def view_command_def api_command_def reviews_command_def GhCommand_new_def
    metadata_fields_def reviews_endpoint_def)

lemma posts_submission [simp]: "is_post (submit_command u payload)"
  by (simp add: is_post_def submit_command_def with_stdin_def GhCommand_new_def)

lemma hub_gh_observed [simp]: "hub_gh (observed env) = watched_gh (hub_gh env)"
  by (simp add: observed_def)

lemma reads_quiet: "reads m \<Longrightarrow> quiet (on_executor m)"
  "reads m' \<Longrightarrow> quiet (on_pull m')" "reads m'' \<Longrightarrow> quiet (on_publish m'')"
  by (auto simp: quiet_def on_executor_def on_pull_def on_publish_def on_world_def still_def posted_def
    split: prod.splits dest!: readsD)

lemma reads_authentication: "reads (authentication_status (watched_gh gh))"
  unfolding reads_def by (auto simp: authentication_status_def split: prod.splits sum.splits if_splits
    dest!: readsD [OF reads_gh, rotated])

lemma reads_metadata: "reads (pull_request_metadata json (watched_gh gh) u)"
  unfolding reads_def by (auto simp: pull_request_metadata_def pull_request_metadata_via_api_def pull_gh_def io_bind_def
    io_return_def split: prod.splits sum.splits if_splits dest!: readsD [OF reads_require, rotated])

lemma reads_reconcile: "reads (reconcile_native_review json (watched_gh gh) u fingerprint)"
  unfolding reads_def by (auto simp: reconcile_native_review_def publish_gh_def io_bind_def io_return_def
    split: prod.splits sum.splits if_splits dest!: readsD [OF reads_require, rotated])

lemma quiet_gh [quiet_intros]:
  "quiet (require_authentication (observed env))" "quiet (metadata_of (observed env) u)"
  "quiet (on_publish (reconcile_native_review json (hub_gh (observed env)) u fingerprint))"
  unfolding require_authentication_def metadata_of_def hub_gh_observed
  by (intro quiet_intros reads_quiet reads_authentication reads_metadata reads_reconcile)+

lemma quiet_parts [quiet_intros]:
  "quiet (submittable (observed env) s review u)" "quiet (reconciliation (observed env) u p)"
  "quiet (abandonable (observed env) s)" "quiet (drafted_preview (observed env) r review)"
  unfolding submittable_def reconciliation_def abandonable_def drafted_preview_def by (intro quiet_intros)+

end
