(* ===== verification/Service_GitHub_Once.thy ===== *)
theory Service_GitHub_Once
  imports Service_GitHub_Props
begin

text \<open>
  A native review is posted at most once for each preview: the publications as a finite map
  from attempt ids to records, what each operation does to it, and every run of the
  operations.
\<close>

section \<open>The publications as a map\<close>

text \<open>What is relied on of the JSON of a record: it reads back what it wrote.\<close>

definition reads_back :: "'w GitHubEnv \<Rightarrow> bool" where
  "reads_back env \<longleftrightarrow> (\<forall>p. hub_decode_publication env (hub_encode_publication env p) = Some p)"

lemma reads_backD: "reads_back env \<Longrightarrow> hub_decode_publication env (hub_encode_publication env p) = Some p"
  by (simp add: reads_back_def)

definition record_of :: "'w GitHubEnv \<Rightarrow> PublicationRow list \<Rightarrow> string \<Rightarrow> GitHubPublicationRecord option" where
  "record_of env t a = Option.bind (lookup_row publication_row_attempt a t)
    (\<lambda>r. hub_decode_publication env (publication_row_payload r))"

text \<open>A row is the record it holds, under identifiers that have been handed out.\<close>

definition row_ok :: "'w GitHubEnv \<Rightarrow> nat \<Rightarrow> PublicationRow \<Rightarrow> bool" where
  "row_ok env n r \<longleftrightarrow>
    (\<exists>p. hub_decode_publication env (publication_row_payload r) = Some p \<and> publication_id p = publication_row_id r
       \<and> publication_attempt p = publication_row_attempt r \<and> publication_token p = publication_row_attempt r)
    \<and> (\<exists>i<n. publication_row_id r = ''github-publication-'' @ show_uuid (service_uuid (hub_service env) i))
    \<and> (\<exists>i<n. publication_row_attempt r = show_uuid (service_uuid (hub_service env) i))"

definition table_ok :: "'w GitHubEnv \<Rightarrow> nat \<Rightarrow> PublicationRow list \<Rightarrow> bool" where
  "table_ok env n t \<longleftrightarrow> (\<forall>r\<in>set t. row_ok env n r)
    \<and> distinct (map publication_row_id t) \<and> distinct (map publication_row_attempt t)"

lemma row_ok_mono: "row_ok env n r \<Longrightarrow> n \<le> m \<Longrightarrow> row_ok env m r"
  unfolding row_ok_def by (meson order_less_le_trans)

lemma table_ok_mono: "table_ok env n t \<Longrightarrow> n \<le> m \<Longrightarrow> table_ok env m t"
  unfolding table_ok_def using row_ok_mono by blast

text \<open>Storing a record under its ids: an update of the map when the ids belong together.\<close>

definition publication_row :: "'w GitHubEnv \<Rightarrow> GitHubPublicationRecord \<Rightarrow> ReviewSessionId \<Rightarrow> PublicationRow" where
  "publication_row env p session = \<lparr>publication_row_id = publication_id p, publication_row_session = session,
    publication_row_attempt = publication_attempt p, publication_row_payload = hub_encode_publication env p\<rparr>"

abbreviation stored :: "'w GitHubEnv \<Rightarrow> GitHubPublicationRecord \<Rightarrow> ReviewSessionId \<Rightarrow> PublicationRow list \<Rightarrow> PublicationRow list" where
  "stored env p session t \<equiv> upsert_row publication_row_id (\<lambda>new old. new) (publication_row env p session) t"

lemma publication_row_sel [simp]:
  "publication_row_id (publication_row env p session) = publication_id p"
  "publication_row_attempt (publication_row env p session) = publication_attempt p"
  "publication_row_payload (publication_row env p session) = hub_encode_publication env p"
  by (simp_all add: publication_row_def)

text \<open>\<open>p\<close> may be written over \<open>t\<close>: a new record under unused ids, or a new version of a record.\<close>

definition writable :: "'w GitHubEnv \<Rightarrow> nat \<Rightarrow> PublicationRow list \<Rightarrow> GitHubPublicationRecord \<Rightarrow> bool" where
  "writable env n t p \<longleftrightarrow> publication_token p = publication_attempt p
    \<and> ((\<exists>old. record_of env t (publication_attempt p) = Some old \<and> publication_id old = publication_id p)
      \<or> (\<not> has_key publication_row_id (publication_id p) t \<and> \<not> has_key publication_row_attempt (publication_attempt p) t
        \<and> (\<exists>i<n. publication_id p = ''github-publication-'' @ show_uuid (service_uuid (hub_service env) i))
        \<and> (\<exists>i<n. publication_attempt p = show_uuid (service_uuid (hub_service env) i))))"

lemma record_of_row:
  assumes "table_ok env n t" "record_of env t a = Some p"
  shows "\<exists>r\<in>set t. publication_row_attempt r = a \<and> publication_row_id r = publication_id p
    \<and> publication_attempt p = a \<and> publication_token p = a \<and> hub_decode_publication env (publication_row_payload r) = Some p"
proof -
  obtain r where r: "lookup_row publication_row_attempt a t = Some r"
    "hub_decode_publication env (publication_row_payload r) = Some p"
    using assms(2) by (auto simp: record_of_def bind_eq_Some_conv)
  then have "r \<in> set t" "publication_row_attempt r = a"
    using assms(1) by (auto simp: lookup_row_Some table_ok_def)
  then show ?thesis using assms(1) r(2) by (force simp: table_ok_def row_ok_def)
qed

lemma record_of_member:
  assumes "table_ok env n t" "r \<in> set t"
  shows "record_of env t (publication_row_attempt r) = hub_decode_publication env (publication_row_payload r)"
proof -
  have "lookup_row publication_row_attempt (publication_row_attempt r) t = Some r"
    using assms by (simp add: lookup_row_Some table_ok_def)
  then show ?thesis by (simp add: record_of_def)
qed

lemma stored_split:
  assumes t: "table_ok env n t" and p: "writable env n t p"
  shows "\<exists>u old v. t = u @ old @ v \<and> stored env p session t = u @ publication_row env p session # v
    \<and> (\<forall>r\<in>set old. publication_row_attempt r = publication_attempt p)
    \<and> (\<forall>r\<in>set (u @ v). publication_row_id r \<noteq> publication_id p \<and> publication_row_attempt r \<noteq> publication_attempt p)"
proof -
  consider (old) r where "r \<in> set t" "publication_row_id r = publication_id p" "publication_row_attempt r = publication_attempt p"
    | (new) "\<not> has_key publication_row_id (publication_id p) t" "\<not> has_key publication_row_attempt (publication_attempt p) t"
    using p record_of_row [OF t] unfolding writable_def by metis
  then show ?thesis
  proof cases
    case old
    then obtain u v where split: "t = u @ r # v" by (meson split_list)
    with t have d: "distinct (map publication_row_id (u @ r # v))" "distinct (map publication_row_attempt (u @ r # v))"
      by (simp_all add: table_ok_def)
    have others: "publication_row_id x \<noteq> publication_id p \<and> publication_row_attempt x \<noteq> publication_attempt p"
      if "x \<in> set (u @ v)" for x
      using that d old by (auto simp: image_iff)
    then have "map (\<lambda>x. if publication_row_id x = publication_id p then publication_row env p session else x) w = w"
      if "set w \<subseteq> set (u @ v)" for w
      using that by (intro map_idI) auto
    from this [of u] this [of v] others show ?thesis
      using old split by (intro exI [of _ u] exI [of _ "[r]"] exI [of _ v]) (auto simp: upsert_row_def)
  next
    case new
    then show ?thesis
      by - (rule exI [of _ t], rule exI [of _ "[]"], rule exI [of _ "[]"], auto simp: upsert_row_def has_key_iff image_iff)
  qed
qed

lemma stored_rows:
  assumes t: "table_ok env n t" and p: "writable env n t p" and json: "reads_back env"
  shows "table_ok env n (stored env p session t)"
    "record_of env (stored env p session t) = (record_of env t)(publication_attempt p \<mapsto> p)"
proof -
  obtain u old v where split: "t = u @ old @ v" "stored env p session t = u @ publication_row env p session # v"
    and same: "r \<in> set old \<Longrightarrow> publication_row_attempt r = publication_attempt p"
    and others: "r \<in> set (u @ v) \<Longrightarrow> publication_row_id r \<noteq> publication_id p \<and> publication_row_attempt r \<noteq> publication_attempt p" for r
    using stored_split [OF t p] by metis
  have "row_ok env n (publication_row env p session)"
    using p record_of_row [OF t, of "publication_attempt p"] t unfolding writable_def row_ok_def table_ok_def
    by (force simp: reads_backD [OF json])
  then show "table_ok env n (stored env p session t)"
    using t [unfolded split(1)] others unfolding split(2) by (auto simp: table_ok_def) (metis others Un_iff set_append)+
  show "record_of env (stored env p session t) = (record_of env t)(publication_attempt p \<mapsto> p)"
  proof
    fix a
    have none: "lookup_row publication_row_attempt (publication_attempt p) u = None"
      using others by (force simp: has_key_iff)
    then have "lookup_row publication_row_attempt a (u @ publication_row env p session # v)
      = (if a = publication_attempt p then Some (publication_row env p session) else lookup_row publication_row_attempt a (u @ v))"
      by (auto simp: lookup_row_append simp del: lookup_row_None split: option.splits)
    moreover have "lookup_row publication_row_attempt a t = lookup_row publication_row_attempt a (u @ v)" if "a \<noteq> publication_attempt p"
    proof -
      have "lookup_row publication_row_attempt a old = None" using that same by (force simp: has_key_iff)
      then show ?thesis by (auto simp: split(1) lookup_row_append simp del: lookup_row_None split: option.splits)
    qed
    ultimately show "record_of env (stored env p session t) a = ((record_of env t)(publication_attempt p \<mapsto> p)) a"
      by (simp add: split(2) record_of_def reads_backD [OF json])
  qed
qed

section \<open>What an operation does to the publications\<close>

abbreviation recs :: "'w GitHubEnv \<Rightarrow> 'v World \<Rightarrow> string \<Rightarrow> GitHubPublicationRecord option" where
  "recs env s \<equiv> record_of env (rows s)"

abbreviation publications_ok :: "'w GitHubEnv \<Rightarrow> 'v World \<Rightarrow> bool" where
  "publications_ok env s \<equiv> table_ok env (world_ids s) (rows s)"

text \<open>A preview is immutable: only its status and what GitHub answered change.\<close>

definition preview_part where
  "preview_part p = (publication_id p, publication_session p, publication_attempt p, publication_token p,
    publication_annotations p, publication_head_sha p, publication_fingerprint p, publication_request p,
    publication_snapshot p, publication_set p, publication_marker p, publication_payload p,
    publication_created_at p)"

definition same_preview :: "GitHubPublicationRecord \<Rightarrow> GitHubPublicationRecord \<Rightarrow> bool" where
  "same_preview p q \<longleftrightarrow> preview_part q = preview_part p"

definition legal :: "GitHubPublicationStatus \<Rightarrow> GitHubPublicationStatus \<Rightarrow> bool" where
  "legal a b \<longleftrightarrow> a = b \<or> a = Previewed \<or> (a = Prepared \<and> b \<noteq> Previewed)"

definition becomes :: "GitHubPublicationRecord option \<Rightarrow> GitHubPublicationRecord option \<Rightarrow> bool" where
  "becomes old new \<longleftrightarrow> (case (old, new) of
      (None, None) \<Rightarrow> True
    | (Some p, Some q) \<Rightarrow> same_preview p q \<and> legal (publication_status p) (publication_status q)
    | _ \<Rightarrow> False)"

text \<open>Every attempt moves along its life, and the table stays in order.\<close>

definition moves :: "'w GitHubEnv \<Rightarrow> 'v World \<Rightarrow> 'v World \<Rightarrow> bool" where
  "moves env s s' \<longleftrightarrow> publications_ok env s' \<and> world_ids s \<le> world_ids s' \<and> (\<forall>a. becomes (recs env s a) (recs env s' a))"

lemma same_preview_refl [simp]: "same_preview p p"
  by (simp add: same_preview_def)

lemma same_preview_sel:
  assumes "same_preview p q"
  shows "publication_id q = publication_id p" "publication_attempt q = publication_attempt p"
    "publication_token q = publication_token p" "publication_payload q = publication_payload p"
  using assms by (simp_all add: same_preview_def preview_part_def)

lemma same_preview_trans: "same_preview p q \<Longrightarrow> same_preview q r \<Longrightarrow> same_preview p r"
  by (simp add: same_preview_def)

lemma same_preview_updates [simp]:
  "same_preview p (p\<lparr>publication_status := x\<rparr>)" "same_preview p (reconciled_record p remote now)"
  "same_preview p (p\<lparr>publication_status := x, publication_completed_at := Some now\<rparr>)"
  by (simp_all add: same_preview_def preview_part_def reconciled_record_def)

lemma same_preview_finished:
  "same_preview p (submitted_record (p\<lparr>publication_status := x\<rparr>) remote now)"
  "same_preview p (rejected_record (p\<lparr>publication_status := x\<rparr>) now)"
  by (simp_all add: same_preview_def preview_part_def submitted_record_def rejected_record_def)

lemma becomes_refl [simp]: "becomes p p"
  by (simp add: becomes_def legal_def split: option.splits)

lemma becomes_trans: "becomes p q \<Longrightarrow> becomes q r \<Longrightarrow> becomes p r"
  by (cases p; cases q; cases r) (auto simp: becomes_def legal_def intro: same_preview_trans)

lemma moves_refl: "publications_ok env s \<Longrightarrow> moves env s s"
  by (simp add: moves_def)

lemma moves_trans: "moves env s t \<Longrightarrow> moves env t u \<Longrightarrow> moves env s u"
  unfolding moves_def by (meson becomes_trans order_trans)

lemma moves_untouched: "publications_ok env s \<Longrightarrow> untouched s s' \<Longrightarrow> moves env s s'"
  by (auto simp: moves_def untouched_def intro: table_ok_mono)

lemma moves_still: "publications_ok env s \<Longrightarrow> still s s' \<Longrightarrow> moves env s s'"
  by (intro moves_untouched still_untouched)

section \<open>Reading and writing one record\<close>

lemma observed_simps [simp]:
  "hub_decode_publication (observed env) = hub_decode_publication env"
  "hub_encode_publication (observed env) = hub_encode_publication env"
  "service_uuid (hub_service (observed env)) = service_uuid (hub_service env)"
  by (simp_all add: observed_def watched_service_def)

lemma decoded_Inr [simp]: "decoded f x = Inr y \<longleftrightarrow> f x = Some y"
  by (simp add: decoded_def)

lemma query_eq_Inr [simp]: "on_store (query f) s = (r, s') \<longleftrightarrow> r = Inr (f (store_db (world_store s))) \<and> s' = s"
  by (auto simp: on_store_def query_def map_err_def)

lemma by_attempt_reads:
  "publication_by_attempt (observed env) a s = (Inr x, s') \<Longrightarrow> s' = s \<and> x = recs env s a"
  by (auto simp: publication_by_attempt_def github_publication_by_attempt_def record_of_def decoded_option_def
    eq_commute [of "Inr x"] simp del: lookup_row_None split: option.splits)

lemma list_all2_right: "list_all2 P xs ys \<Longrightarrow> y \<in> set ys \<Longrightarrow> \<exists>x\<in>set xs. P x y"
  by (induction rule: list_all2_induct) auto

lemma in_sessions_reads:
  "prepared_in_sessions (observed env) ss s = (Inr ps, s') \<Longrightarrow> s' = s \<and> (\<forall>p\<in>set ps. publication_status p = Prepared
    \<and> (\<exists>r\<in>set (rows s). hub_decode_publication env (publication_row_payload r) = Some p))"
proof (induction ss arbitrary: ps s')
  case (Cons x ss)
  then obtain qs rest where qs: "publications_for_session (observed env) (session_id x) s = (Inr qs, s)"
    and rest: "prepared_in_sessions (observed env) ss s = (Inr rest, s')"
    and ps: "ps = filter (\<lambda>p. publication_status p = Prepared) qs @ rest"
    by (auto simp: publications_for_session_def github_publications_for_session_def)
  have "\<exists>r\<in>set (rows s). hub_decode_publication env (publication_row_payload r) = Some q" if "q \<in> set qs" for q
  proof -
    have "list_all2 (\<lambda>r q. hub_decode_publication env (publication_row_payload r) = Some q)
      (sort_key publication_row_id (filter (\<lambda>r. publication_row_session r = session_id x) (rows s))) qs"
      using qs by (simp add: publications_for_session_def github_publications_for_session_def eq_commute [of "Inr qs"]
        try_map_eq_Inr list_all2_map1)
    from list_all2_right [OF this that] show ?thesis by auto
  qed
  then show ?case using Cons.IH [OF rest] ps by auto
qed simp

lemma unresolved_reads:
  assumes "unresolved_github_publication (observed env) w s = (Inr x, s')" "publications_ok env s"
  shows "s' = s \<and> (\<forall>p. x = Some p \<longrightarrow> recs env s (publication_attempt p) = Some p \<and> publication_status p = Prepared)"
proof -
  obtain ps where ps: "prepared_in_sessions (observed env) (sessions_of w (store_db (world_store s))) s = (Inr ps, s')"
    and x: "x = (case sort_key publication_order ps of [] \<Rightarrow> None | p # _ \<Rightarrow> Some p)"
    using assms(1) by (auto simp: unresolved_github_publication_def review_sessions_def)
  have "recs env s (publication_attempt p) = Some p \<and> publication_status p = Prepared" if "x = Some p" for p
  proof -
    from that x obtain rest where "sort_key publication_order ps = p # rest" by (auto split: list.splits)
    then have "p \<in> set ps" by (metis list.set_intros(1) set_sort)
    with in_sessions_reads [OF ps] obtain r where r: "publication_status p = Prepared" "r \<in> set (rows s)"
      "hub_decode_publication env (publication_row_payload r) = Some p" by blast
    then have "publication_attempt p = publication_row_attempt r"
      using assms(2) by (auto simp: table_ok_def row_ok_def)
    then show ?thesis using record_of_member [OF assms(2) r(2)] r by simp
  qed
  then show ?thesis using in_sessions_reads [OF ps] by simp
qed


text \<open>A write stores the record or changes nothing.\<close>

lemma save_effect:
  assumes "save_publication (observed env) p session s = (r, s')"
  shows "posted s' = posted s \<and> world_ids s' = world_ids s
    \<and> (if is_ok r then rows s' = stored env p session (rows s) else s' = s)"
proof -
  have new: "\<lparr>publication_row_id = publication_id p, publication_row_session = session,
    publication_row_attempt = publication_attempt p, publication_row_payload = hub_encode_publication env p\<rparr>
    = publication_row env p session" by (simp add: publication_row_def)
  show ?thesis
  proof (cases "upsert_publication (publication_id p) session (publication_attempt p)
      (hub_encode_publication env p) (store_db (world_store s))")
    case (Inl e)
    then show ?thesis using assms
      by (auto simp: save_publication_def save_github_publication_def on_store_def execute_def map_err_def)
  next
    case (Inr d)
    then have "t_publications d = stored env p session (rows s)"
      by (auto simp: upsert_publication_def Let_def new)
    with Inr show ?thesis using assms
      by (auto simp: save_publication_def save_github_publication_def on_store_def execute_def map_err_def posted_def)
  qed
qed

lemma moving_annotations_frame:
  "run_all upsert_annotation_moving as d = Inr d' \<Longrightarrow> t_publications d' = t_publications d"
  by (induction as arbitrary: d) (auto simp: upsert_annotation_moving_def)

lemma save_with_effect:
  assumes "save_with_annotations (observed env) p session active s = (r, s')"
  shows "posted s' = posted s \<and> world_ids s \<le> world_ids s'
    \<and> (if is_ok r then rows s' = stored env p session (rows s) else rows s' = rows s)"
proof -
  have new: "\<lparr>publication_row_id = publication_id p, publication_row_session = session,
    publication_row_attempt = publication_attempt p, publication_row_payload = hub_encode_publication env p\<rparr>
    = publication_row env p session" by (simp add: publication_row_def)
  obtain r1 s1 where s1: "mark_published (observed env) (publication_annotations p)
      (annotations_of active (store_db (world_store s))) s = (r1, s1)" by fastforce
  note quiet = quietD [OF quiet_mark s1, unfolded still_def]
  show ?thesis
  proof (cases r1)
    case (Inl e)
    then show ?thesis using assms s1 quiet
      by (auto simp: save_with_annotations_def io_bind_def on_store_def annotations_def query_def map_err_def)
  next
    case (Inr marked)
    let ?w = "\<lambda>d. rbind (upsert_publication (publication_id p) session (publication_attempt p)
        (hub_encode_publication env p) d) (run_all upsert_annotation_moving marked)"
    have run: "on_store (save_github_publication_and_annotations (publication_id p) session (publication_attempt p)
        (hub_encode_publication env p) marked) s1 = (r, s')"
      using assms s1 Inr
      by (simp add: save_with_annotations_def io_bind_def on_store_def annotations_def query_def map_err_def)
    show ?thesis
    proof (cases "?w (store_db (world_store s1))")
      case (Inl e)
      then show ?thesis using run quiet
        by (auto simp: save_github_publication_and_annotations_def on_store_def execute_def map_err_def posted_def)
    next
      case (Inr d)
      then have "t_publications d = stored env p session (rows s1)"
        by (auto simp: upsert_publication_def Let_def new dest!: moving_annotations_frame)
      with Inr show ?thesis using run quiet
        by (auto simp: save_github_publication_and_annotations_def on_store_def execute_def map_err_def posted_def)
    qed
  qed
qed

section \<open>Reconciling and submitting\<close>

lemma quiet_bindE:
  assumes "io_bind m k s = (r, s')" "quiet m"
  obtains (stop) e where "still s s'" "r = Inl e"
    | (go) x s1 where "still s s1" "m s = (Inr x, s1)" "k x s1 = (r, s')"
  using assms quietD [OF assms(2), of s] unfolding io_bind_def
  by (auto split: prod.splits sum.splits)

text \<open>What is kept while nothing is posted.\<close>

definition settled :: "'w GitHubEnv \<Rightarrow> 'w watched World \<Rightarrow> 'w watched World \<Rightarrow> bool" where
  "settled env s s' \<longleftrightarrow> moves env s s' \<and> posted s' = posted s"

lemma settled_still: "publications_ok env s \<Longrightarrow> still s s' \<Longrightarrow> settled env s s'"
  using moves_still by (auto simp: settled_def still_def)

lemma settled_trans: "settled env s t \<Longrightarrow> settled env t u \<Longrightarrow> settled env s u"
  by (auto simp: settled_def intro: moves_trans)

lemma settled_ok: "settled env s s' \<Longrightarrow> publications_ok env s'"
  by (simp add: settled_def moves_def)

lemma still_ok: "publications_ok env s \<Longrightarrow> still s s' \<Longrightarrow> publications_ok env s' \<and> recs env s' = recs env s"
  by (auto simp: still_def intro: table_ok_mono)

text \<open>A write of a new version, by either of the two operations of the store.\<close>

lemma wrote_moves:
  assumes ok: "publications_ok env s" and json: "reads_back env" and p: "recs env s (publication_attempt q) = Some p"
    and new: "same_preview p q" "legal (publication_status p) (publication_status q)"
    and s': "posted s' = posted s" "world_ids s \<le> world_ids s'"
      "if okay then rows s' = stored env q session (rows s) else rows s' = rows s"
  shows "settled env s s' \<and> recs env s' = (if okay then (recs env s)(publication_attempt q \<mapsto> q) else recs env s)"
proof (cases okay)
  case True
  have "writable env (world_ids s) (rows s) q"
    using p same_preview_sel [OF new(1)] record_of_row [OF ok p] by (auto simp: writable_def)
  note upd = stored_rows [OF ok this json, of session]
  have "becomes (recs env s a) (recs env s' a)" for a
    using new p becomes_refl [of "recs env s a"] s' True
    by (cases "a = publication_attempt q") (auto simp: upd(2) becomes_def)
  then show ?thesis
    using table_ok_mono [OF upd(1) s'(2)] s' True by (simp add: settled_def moves_def upd(2))
next
  case False
  then show ?thesis using ok s' by (auto simp: settled_def moves_def intro: table_ok_mono)
qed

lemma reconciliation_result:
  "reconciliation (observed env) url p s = (Inr (q, active), s') \<Longrightarrow> \<exists>remote now. q = reconciled_record p remote now"
  by (auto simp: reconciliation_def)

lemma reconcile_one_effect:
  assumes ok: "publications_ok env s" and json: "reads_back env"
    and p: "recs env s (publication_attempt p) = Some p" "publication_status p = Prepared"
    and run: "reconcile_one (observed env) url p s = (r, s')"
  shows "settled env s s' \<and> (\<forall>q. r = Inr q \<longrightarrow> publication_attempt q = publication_attempt p
    \<and> publication_status q = Reconciled \<and> recs env s' = (recs env s)(publication_attempt p \<mapsto> q))"
proof (rule quiet_bindE [OF run [unfolded reconcile_one_def] quiet_parts(2)])
  fix e assume "still s s'" "r = Inl e"
  then show ?thesis using settled_still [OF ok] by simp
next
  fix x s1
  assume s1: "still s s1" and x: "reconciliation (observed env) url p s = (Inr x, s1)"
    and rest: "(\<lambda>(p, active). io_bind (save_with_annotations (observed env) p (publication_session p) active)
      (\<lambda>_. io_return (Inr p))) x s1 = (r, s')"
  obtain q active where qa: "x = (q, active)" by (cases x)
  obtain remote now where q: "q = reconciled_record p remote now" using reconciliation_result x qa by blast
  have attempt: "publication_attempt q = publication_attempt p" "publication_status q = Reconciled"
    using q by (simp_all add: reconciled_record_def)
  obtain r2 s2 where save: "save_with_annotations (observed env) q (publication_session q) active s1 = (r2, s2)"
    by fastforce
  have r: "s' = s2" "r = (case r2 of Inl e \<Rightarrow> Inl e | Inr _ \<Rightarrow> Inr q)"
    using rest save qa by (auto simp: io_bind_def io_return_def split: sum.splits)
  note ok1 = still_ok [OF ok s1]
  have p1: "recs env s1 (publication_attempt q) = Some p" using ok1 p attempt by simp
  have "same_preview p q" "legal (publication_status p) (publication_status q)"
    using q p attempt by (simp_all add: legal_def)
  note eff = wrote_moves [OF conjunct1 [OF ok1] json p1 this, of s2 "is_ok r2" "publication_session q"]
  then have "settled env s1 s2 \<and> recs env s2 = (if is_ok r2 then (recs env s1)(publication_attempt q \<mapsto> q) else recs env s1)"
    using save_with_effect [OF save] by auto
  then show ?thesis
    using settled_trans [OF settled_still [OF ok s1]] r attempt ok1 by (auto split: sum.splits)
qed

text \<open>The request itself: it is sent once, and only after the record says so.\<close>

lemma submit_answer_effect:
  assumes "submit_answer (observed env) url prepared s = (r, s')"
  shows "is_ok r \<and> rows s' = rows s \<and> world_ids s' = world_ids s
    \<and> posted s' = posted s @ [submit_command url (prepared_payload prepared)]"
  using assms
  by (auto simp: submit_answer_def on_executor_def submit_native_review_def publish_gh_def require_gh_def watched_gh_def
    io_bind_def io_return_def posted_def split: prod.splits sum.splits)

definition spent :: "'w GitHubEnv \<Rightarrow> 'v World \<Rightarrow> string \<Rightarrow> bool" where
  "spent env s a \<longleftrightarrow> (\<exists>p. recs env s a = Some p \<and> publication_status p \<noteq> Previewed)"

lemma moves_spent: "moves env s s' \<Longrightarrow> spent env s a \<Longrightarrow> spent env s' a"
  unfolding moves_def spent_def becomes_def legal_def by (fastforce split: option.splits dest: spec [of _ a])

lemma moves_rows:
  "publications_ok env s \<Longrightarrow> rows s' = rows s \<Longrightarrow> world_ids s \<le> world_ids s' \<Longrightarrow> moves env s s'"
  by (auto simp: moves_def intro: table_ok_mono)

lemma conclude_effect:
  assumes ok: "publications_ok env s" and json: "reads_back env"
    and p: "recs env s (publication_attempt p) = Some p" "publication_status p = Prepared"
    and run: "conclude_submission (observed env) session active p answer s = (r, s')"
  shows "settled env s s'"
proof (cases answer)
  case (Inl e)
  show ?thesis
  proof (cases "is_definitive_provider_rejection e")
    case True
    show ?thesis
    proof (rule quiet_bindE [OF _ quiet_now])
      show "io_bind (now_of (observed env)) (\<lambda>now. io_bind
          (save_publication (observed env) (rejected_record p now) (session_id session))
          (\<lambda>_. io_return (Inl (GitHubPublish e)))) s = (r, s')"
        using run Inl True by (simp add: conclude_submission_def)
    next
      fix now s1
      assume s1: "still s s1" and rest: "io_bind
          (save_publication (observed env) (rejected_record p now) (session_id session))
          (\<lambda>_. io_return (Inl (GitHubPublish e))) s1 = (r, s')"
      obtain r2 s2 where save: "save_publication (observed env) (rejected_record p now) (session_id session) s1 = (r2, s2)"
        by fastforce
      have "s' = s2" using rest save by (auto simp: io_bind_def io_return_def split: sum.splits)
      moreover have "settled env s1 s2"
        using wrote_moves [OF _ json, of s1 "rejected_record p now" p s2 "is_ok r2" "session_id session"]
          save_effect [OF save] still_ok [OF ok s1] p
        by (auto simp: same_preview_def preview_part_def rejected_record_def legal_def)
      ultimately show ?thesis using settled_trans [OF settled_still [OF ok s1]] by simp
    qed (use settled_still [OF ok] in simp)
  next
    case False
    then show ?thesis using run Inl settled_still [OF ok] by (auto simp: conclude_submission_def)
  qed
next
  case (Inr remote)
  show ?thesis
  proof (rule quiet_bindE [OF _ quiet_now])
    show "io_bind (now_of (observed env)) (\<lambda>now. let completed = submitted_record p remote now in
        io_bind (save_with_annotations (observed env) completed (session_id session) (set_id active)) (\<lambda>_.
        io_return (Inr \<lparr>finished_publication = completed,
          finished_count = length (publication_annotations completed)\<rparr>))) s = (r, s')"
      using run Inr by (simp add: conclude_submission_def)
  next
    fix now s1
    let ?q = "submitted_record p remote now"
    assume s1: "still s s1" and rest: "(let completed = ?q in
        io_bind (save_with_annotations (observed env) completed (session_id session) (set_id active)) (\<lambda>_.
        io_return (Inr \<lparr>finished_publication = completed,
          finished_count = length (publication_annotations completed)\<rparr>))) s1 = (r, s')"
    obtain r2 s2 where save: "save_with_annotations (observed env) ?q (session_id session) (set_id active) s1 = (r2, s2)"
      by fastforce
    have "s' = s2" using rest save by (auto simp: Let_def io_bind_def io_return_def split: sum.splits)
    moreover have "settled env s1 s2"
      using wrote_moves [OF _ json, of s1 ?q p s2 "is_ok r2" "session_id session"]
        save_with_effect [OF save] still_ok [OF ok s1] p
      by (auto simp: same_preview_def preview_part_def submitted_record_def legal_def)
    ultimately show ?thesis using settled_trans [OF settled_still [OF ok s1]] by simp
  qed (use settled_still [OF ok] in simp)
qed

lemma submit_preview_effect:
  assumes ok: "publications_ok env s" and json: "reads_back env"
    and p: "recs env s (publication_attempt p) = Some p" "publication_status p = Previewed"
    and run: "submit_preview (observed env) url (session, active, p) s = (r, s')"
  shows "moves env s s' \<and> (posted s' = posted s
    \<or> (posted s' = posted s @ [submit_command url (publication_payload p)] \<and> spent env s' (publication_attempt p)))"
proof -
  let ?q = "p\<lparr>publication_status := Prepared\<rparr>"
  obtain r1 s1 where save: "save_publication (observed env) ?q (session_id session) s = (r1, s1)" by fastforce
  have "same_preview p ?q" "legal (publication_status p) (publication_status ?q)" using p by (simp_all add: legal_def)
  from wrote_moves [OF ok json _ this, of s1 "is_ok r1" "session_id session"] save_effect [OF save] p
  have eff: "settled env s s1" "recs env s1 = (if is_ok r1 then (recs env s)(publication_attempt p \<mapsto> ?q) else recs env s)"
    by auto
  show ?thesis
  proof (cases r1)
    case (Inl e)
    then have "s' = s1" using run save by (auto simp: submit_preview_def Let_def io_bind_def)
    then show ?thesis using eff(1) by (simp add: settled_def)
  next
    case (Inr u)
    obtain a s2 where answer: "submit_answer (observed env) url (prepared_from_publication p) s1 = (a, s2)" by fastforce
    note sent = submit_answer_effect [OF this]
    then obtain x where "a = Inr x" by (auto simp: is_ok_iff)
    then have rest: "conclude_submission (observed env) session active ?q x s2 = (r, s')"
      using run save answer Inr by (simp add: submit_preview_def Let_def io_bind_def)
    have m2: "moves env s s2" using eff(1) sent moves_rows [of env s1 s2] moves_trans
      by (metis settled_def settled_ok order_refl)
    have "recs env s2 (publication_attempt ?q) = Some ?q" "publication_status ?q = Prepared"
      using sent eff(2) Inr by simp_all
    note q2 = this
    have ok2: "publications_ok env s2" using m2 by (simp add: moves_def)
    note final = conclude_effect [OF ok2 json q2 rest]
    have "spent env s2 (publication_attempt p)" using q2 by (simp add: spent_def)
    then have "spent env s' (publication_attempt p)" using final moves_spent by (auto simp: settled_def)
    moreover have "moves env s s'" using m2 final moves_trans by (auto simp: settled_def)
    moreover have "posted s' = posted s @ [submit_command url (publication_payload p)]"
      using final sent eff(1) by (simp add: settled_def prepared_from_publication_def)
    ultimately show ?thesis by simp
  qed
qed

section \<open>The operations\<close>

lemma reconcile_round_effect:
  assumes ok: "publications_ok env s" and json: "reads_back env"
    and run: "reconcile_round (observed env) url w c s = (r, s')"
  shows "settled env s s'"
proof (rule quiet_bindE [OF run [unfolded reconcile_round_def] quiet_unresolved])
  fix x s1
  assume s1: "still s s1" and x: "unresolved_github_publication (observed env) w s = (Inr x, s1)"
    and rest: "(case x of None \<Rightarrow> io_return (Inr (Inr c))
      | Some p \<Rightarrow> io_bind (reconcile_one (observed env) url p) (\<lambda>p. io_return (Inr (Inl (Some p))))) s1 = (r, s')"
  note same = unresolved_reads [OF x ok]
  show ?thesis
  proof (cases x)
    case None
    then show ?thesis using rest settled_still [OF ok s1] by simp
  next
    case (Some p)
    obtain r2 s2 where one: "reconcile_one (observed env) url p s1 = (r2, s2)" by fastforce
    then have "s' = s2" using rest Some by (auto simp: io_bind_def io_return_def split: sum.splits)
    moreover have "settled env s s2"
      using reconcile_one_effect [OF ok json _ _ one [unfolded conjunct1 [OF same]]] same Some by auto
    ultimately show ?thesis by simp
  qed
qed (use settled_still [OF ok] in simp)

lemma reconcile_effect:
  assumes ok: "publications_ok env s" and json: "reads_back env"
    and run: "reconcile_unresolved_publications (observed env) url w s = Some (r, s')"
  shows "settled env s s'"
proof (rule run_loop_keeps [where I = "\<lambda>c. settled env s" and Q = "\<lambda>r. settled env s",
    OF run [unfolded reconcile_unresolved_publications_def]])
  show "settled env s s" using settled_still [OF ok] by simp
qed (auto simp: run_io_def intro: settled_trans reconcile_round_effect [OF settled_ok json])

lemma stored_preview_reads:
  "stored_preview (observed env) sub s = (Inr p, s') \<Longrightarrow> s' = s \<and> recs env s (submission_token sub) = Some p"
  unfolding stored_preview_def require_def
  by (auto simp: bind_eq_Some_conv eq_commute [of "Inr p"] split: if_splits dest!: by_attempt_reads)

lemma submittable_reads:
  assumes "submittable (observed env) sub review url s = (Inr (session, active, p), s')"
  shows "recs env s (submission_token sub) = Some p \<and> publication_status p = Previewed"
proof -
  obtain s1 x where s1: "active_session_or_fail (observed env) (submission_workspace sub) s = (Inr x, s1)"
    and k: "io_bind (stored_preview (observed env) sub) (\<lambda>p.
        io_bind (io_return (ensure (publication_session p = session_id x)
          (stale (submission_token sub) ''the active review session changed''))) (\<lambda>_.
        io_bind (io_return (ensure (publication_status p = Previewed)
          (GitHubReviewPreviewNotReady (submission_token sub) (''publication is '' @ show_status (publication_status p))))) (\<lambda>_.
        io_bind (active_set_or_fail (session_id x)) (\<lambda>set.
        io_bind (io_return (ensure (publication_set p = Some (set_id set))
          (stale (submission_token sub) ''the active annotation set changed''))) (\<lambda>_.
        io_bind (on_store (annotations (set_id set))) (\<lambda>as.
        let chosen = chosen_annotations p as in
        io_bind (io_return (ensure (length chosen = length (publication_annotations p)
            \<and> annotation_snapshot_fingerprint (observed env) chosen = publication_snapshot p)
          (stale (submission_token sub) ''one or more selected annotations changed after preview''))) (\<lambda>_.
        io_bind (metadata_of (observed env) url) (\<lambda>remote.
        io_bind (io_return (check_pins review p (submission_token sub) remote)) (\<lambda>_.
        io_return (Inr (x, set, p))))))))))) s1 = (Inr (session, active, p), s')"
    using assms unfolding submittable_def Let_def io_bind_eq_Inr by blast
  then obtain q where q: "stored_preview (observed env) sub s1 = (Inr q, s1)" "publication_status q = Previewed" "q = p"
    unfolding io_bind_eq_Inr Let_def by (auto simp: ensure_def split: if_splits dest: stored_preview_reads)
  have "world_store s1 = world_store s"
    using quietD [OF quiet_lookups(4) s1] by (simp add: still_def)
  then show ?thesis using stored_preview_reads [OF q(1)] q(2,3) by simp
qed

lemma run_quietE:
  assumes "run_bind (run_io m) k s = Some (r, s')" "quiet m"
  obtains (stop) e where "still s s'" "r = Inl e"
    | (go) x s1 where "still s s1" "m s = (Inr x, s1)" "k x s1 = Some (r, s')"
  using assms quietD [OF assms(2), of s] by (auto simp: run_bind_Some run_io_def)

text \<open>Finishing moves every attempt along its life and posts at most the named preview.\<close>

definition posts_only :: "'w GitHubEnv \<Rightarrow> string \<Rightarrow> 'w watched World \<Rightarrow> 'w watched World \<Rightarrow> bool" where
  "posts_only env a s s' \<longleftrightarrow> posted s' = posted s \<or> (\<exists>p url. recs env s a = Some p \<and> publication_status p = Previewed
    \<and> posted s' = posted s @ [submit_command url (publication_payload p)] \<and> spent env s' a)"

lemma moves_previewed:
  assumes "moves env s0 s" "recs env s a = Some p" "publication_status p = Previewed"
  shows "\<exists>p0. recs env s0 a = Some p0 \<and> publication_status p0 = Previewed \<and> publication_payload p0 = publication_payload p"
proof -
  have "becomes (recs env s0 a) (Some p)" using assms by (metis moves_def)
  then obtain p0 where "recs env s0 a = Some p0" "same_preview p0 p" "legal (publication_status p0) Previewed"
    using assms(3) by (auto simp: becomes_def split: option.splits)
  then show ?thesis using same_preview_sel(4) by (auto simp: legal_def)
qed

lemma posts_settled: "settled env s s' \<Longrightarrow> moves env s s' \<and> posts_only env a s s'"
  by (simp add: settled_def posts_only_def)

lemma finish_after_reconciliation:
  assumes json: "reads_back env" and before: "settled env s0 s"
    and run: "io_bind (submittable (observed env) sub review url) (submit_preview (observed env) url) s = (r, s')"
  shows "moves env s0 s' \<and> posts_only env (submission_token sub) s0 s'"
proof (rule quiet_bindE [OF run quiet_parts(1)])
  fix e assume "still s s'"
  then have "settled env s0 s'" using settled_trans [OF before] settled_still settled_ok [OF before] by blast
  then show ?thesis by (rule posts_settled)
next
  fix x s1
  assume s1: "still s s1" and x: "submittable (observed env) sub review url s = (Inr x, s1)"
    and rest: "submit_preview (observed env) url x s1 = (r, s')"
  obtain session active p where sap: "x = (session, active, p)" by (cases x)
  note p = submittable_reads [OF x [unfolded sap]]
  note ok = settled_ok [OF before]
  note ok1 = still_ok [OF ok s1]
  have attempt: "publication_attempt p = submission_token sub"
    using record_of_row [OF ok conjunct1 [OF p]] by auto
  have p1: "recs env s1 (publication_attempt p) = Some p" using p ok1 attempt by simp
  have s01: "moves env s0 s1" "posted s1 = posted s0"
    using settled_trans [OF before settled_still [OF ok s1]] by (simp_all add: settled_def)
  note eff = submit_preview_effect [OF conjunct1 [OF ok1] json p1 conjunct2 [OF p] rest [unfolded sap]]
  show ?thesis
    using moves_trans [OF s01(1) conjunct1 [OF eff]] conjunct2 [OF eff] s01(2)
      moves_previewed [OF s01(1) p1 conjunct2 [OF p]] attempt
    by (auto simp: posts_only_def)
qed

text \<open>What a finish looks at before it reconciles and submits.\<close>

definition finish_target ::
  "'w GitHubEnv \<Rightarrow> FinishGitHubReviewSubmission \<Rightarrow> ('w, GitHubPullRequestRecord \<times> GitHubPullRequestUrl) service" where
  "finish_target env sub =
    io_bind (publication_lock env) (\<lambda>_.
    io_bind (require_authentication env) (\<lambda>_.
    io_bind (github_pull_request env (submission_workspace sub)) (\<lambda>review.
    io_bind (io_return (url_of (pull_record_url review))) (\<lambda>url.
    io_return (Inr (review, url))))))"

lemma finish_split:
  "finish_github_review_preview env sub = run_bind (run_io (finish_target env sub)) (\<lambda>(review, url).
    run_bind (reconcile_unresolved_publications env url (submission_workspace sub)) (\<lambda>reconciled.
    case reconciled of
      Some p \<Rightarrow> run_return (Inr \<lparr>finished_publication = p, finished_count = length (publication_annotations p)\<rparr>)
    | None \<Rightarrow> run_io (io_bind (submittable env sub review url) (submit_preview env url))))"
  by (auto simp: finish_github_review_preview_def finish_target_def fun_eq_iff run_bind_def run_io_def run_return_def
    io_bind_def io_return_def split: option.splits prod.splits sum.splits)

lemma quiet_finish_target: "quiet (finish_target (observed env) sub)"
  unfolding finish_target_def by (intro quiet_intros)

lemma finish_effect:
  assumes ok: "publications_ok env s" and json: "reads_back env"
    and run: "finish_github_review_preview (observed env) sub s = Some (r, s')"
  shows "moves env s s' \<and> posts_only env (submission_token sub) s s'"
proof (rule run_quietE [OF run [unfolded finish_split] quiet_finish_target])
  assume "still s s'"
  then show ?thesis by (rule posts_settled [OF settled_still [OF ok]])
next
  fix x s1
  assume s1: "still s s1" and rest: "(case x of (review, url) \<Rightarrow>
    run_bind (reconcile_unresolved_publications (observed env) url (submission_workspace sub)) (\<lambda>reconciled.
    case reconciled of
      Some p \<Rightarrow> run_return (Inr \<lparr>finished_publication = p, finished_count = length (publication_annotations p)\<rparr>)
    | None \<Rightarrow> run_io (io_bind (submittable (observed env) sub review url) (submit_preview (observed env) url))))
    s1 = Some (r, s')"
  obtain review url where x: "x = (review, url)" by (cases x)
  note ok1 = settled_still [OF ok s1]
  show ?thesis using rest unfolding x prod.case run_bind_Some
  proof (elim disjE exE conjE)
    fix e assume "reconcile_unresolved_publications (observed env) url (submission_workspace sub) s1 = Some (Inl e, s')"
    then show ?thesis using posts_settled settled_trans [OF ok1] reconcile_effect [OF settled_ok [OF ok1] json] by blast
  next
    fix found s2
    assume m: "reconcile_unresolved_publications (observed env) url (submission_workspace sub) s1 = Some (Inr found, s2)"
      and k: "(case found of
        Some p \<Rightarrow> run_return (Inr \<lparr>finished_publication = p, finished_count = length (publication_annotations p)\<rparr>)
      | None \<Rightarrow> run_io (io_bind (submittable (observed env) sub review url) (submit_preview (observed env) url))) s2
      = Some (r, s')"
    have s2: "settled env s s2" using settled_trans [OF ok1] reconcile_effect [OF settled_ok [OF ok1] json m] by blast
    show ?thesis
    proof (cases found)
      case None
      then show ?thesis using k finish_after_reconciliation [OF json s2] by (simp add: run_io_def)
    next
      case (Some p)
      then show ?thesis using k posts_settled [OF s2] by (simp add: run_return_def)
    qed
  qed
qed

text \<open>A preview stores one fresh record and nothing else.\<close>

lemma quiet_bind_InrE:
  assumes "io_bind m k s = (Inr y, s')" "quiet m"
  obtains x s1 where "m s = (Inr x, s1)" "world_ids s \<le> world_ids s1" "k x s1 = (Inr y, s')"
  using assms quietD [OF assms(2)] by (auto simp: still_def)

lemma return_published: "io_return (published x) s = (Inr y, s') \<longleftrightarrow> x = Inr y \<and> s' = s"
  by (cases x) (auto simp: published_def map_err_def)

lemma fresh_id_Inr:
  "fresh_id (observed env) s = (r, s') \<longleftrightarrow>
    r = Inr (service_uuid (hub_service env) (world_ids s)) \<and> s' = s\<lparr>world_ids := world_ids s + 1\<rparr>"
  by (auto simp: fresh_id_def fresh_uuid_def)

lemma prepare_draft_attempt: "prepare_draft sha d = Inr p \<Longrightarrow> prepared_attempt_id p = draft_attempt_id d"
  by (auto simp: prepare_draft_def Let_def)

definition fresh_record :: "'w GitHubEnv \<Rightarrow> nat \<Rightarrow> nat \<Rightarrow> GitHubPublicationRecord \<Rightarrow> bool" where
  "fresh_record env n m p \<longleftrightarrow> publication_status p = Previewed \<and> publication_token p = publication_attempt p
    \<and> (\<exists>i. n \<le> i \<and> i < m \<and> publication_attempt p = show_uuid (service_uuid (hub_service env) i))
    \<and> (\<exists>i. n \<le> i \<and> i < m \<and> publication_id p = ''github-publication-'' @ show_uuid (service_uuid (hub_service env) i))"

lemma previewed_fresh:
  "prepared_attempt_id prepared = show_uuid (service_uuid (hub_service env) i) \<Longrightarrow> n \<le> i \<Longrightarrow> i < m \<Longrightarrow> n \<le> j \<Longrightarrow> j < m
    \<Longrightarrow> fresh_record env n m (previewed_record env' r session active selected prepared (service_uuid (hub_service env) j) now)"
  by (auto simp: fresh_record_def previewed_record_def)

lemma return_Inr: "io_return (Inr x) s = (Inr y, s') \<longleftrightarrow> y = x \<and> s' = s"
  by (auto simp: io_return_def)

text \<open>The steps of a draft in order: the attempt id and then the record id are handed out.\<close>

lemma drafted_fresh:
  assumes "drafted_preview (observed env) r review s = (Inr (session, prepared, p), s')"
  shows "fresh_record env (world_ids s) (world_ids s') p"
  using assms unfolding drafted_preview_def Let_def
  apply -
  apply (erule quiet_bind_InrE, (intro quiet_intros)[1])+
  apply (auto simp: new_draft_def fresh_id_Inr return_published return_Inr intro!: previewed_fresh
    dest!: prepare_draft_attempt simp del: io_return_eq)
  done

definition previews_one :: "'w GitHubEnv \<Rightarrow> 'w watched World \<Rightarrow> 'w watched World \<Rightarrow> bool" where
  "previews_one env s s' \<longleftrightarrow> publications_ok env s' \<and> world_ids s \<le> world_ids s' \<and> posted s' = posted s
    \<and> (\<exists>p. recs env s (publication_attempt p) = None \<and> fresh_record env (world_ids s) (world_ids s') p
      \<and> recs env s' = (recs env s)(publication_attempt p \<mapsto> p))"

lemma fresh_record_mono: "fresh_record env n m p \<Longrightarrow> n' \<le> n \<Longrightarrow> m \<le> m' \<Longrightarrow> fresh_record env n' m' p"
  unfolding fresh_record_def by (meson order.trans order_less_le_trans)

lemma previews_one_after: "previews_one env s1 s' \<Longrightarrow> still s s1 \<Longrightarrow> previews_one env s s'"
  by (auto simp: previews_one_def still_def intro: fresh_record_mono)

lemma fresh_writable:
  assumes "table_ok env n t" "fresh_record env n m p" "inj_on (service_uuid (hub_service env)) {..<m}" "n \<le> m"
  shows "writable env m t p \<and> record_of env t (publication_attempt p) = None"
proof -
  obtain i j where i: "n \<le> i" "i < m" "publication_attempt p = show_uuid (service_uuid (hub_service env) i)"
    and j: "n \<le> j" "j < m" "publication_id p = ''github-publication-'' @ show_uuid (service_uuid (hub_service env) j)"
    using assms(2) by (auto simp: fresh_record_def)
  have other: "show_uuid (service_uuid (hub_service env) a) \<noteq> show_uuid (service_uuid (hub_service env) b)"
    if "a < n" "n \<le> b" "b < m" for a b
    using that assms(3) by (auto simp: show_uuid_inject dest!: inj_onD)
  have "\<not> has_key publication_row_id (publication_id p) t" "\<not> has_key publication_row_attempt (publication_attempt p) t"
    using assms(1) i j other by (fastforce simp: table_ok_def row_ok_def has_key_iff)+
  moreover from this(2) have "record_of env t (publication_attempt p) = None"
    by (metis bind.bind_lzero lookup_row_None record_of_def)
  ultimately show ?thesis
    using i j assms(2) unfolding writable_def fresh_record_def by auto
qed

lemma preview_new_effect:
  assumes ok: "publications_ok env s" and json: "reads_back env"
    and ids: "inj_on (service_uuid (hub_service env)) {..<world_ids s'}"
    and run: "preview_new (observed env) q review s = (r, s')"
  shows "settled env s s' \<or> previews_one env s s'"
proof (rule quiet_bindE [OF run [unfolded preview_new_def] quiet_parts(4)])
  fix x s1
  assume s1: "still s s1" and x: "drafted_preview (observed env) q review s = (Inr x, s1)"
    and rest: "(case x of (session, prepared, p) \<Rightarrow>
      io_bind (save_publication (observed env) p (session_id session)) (\<lambda>_.
      io_return (Inr \<lparr>preview_review = review, preview_session = session,
        preview_annotations = publication_annotations p, preview_prepared = prepared,
        preview_token = publication_token p, preview_snapshot = publication_snapshot p,
        preview_request = publication_request p, preview_requires_reconciliation = False\<rparr>))) s1 = (r, s')"
  obtain session prepared p where spp: "x = (session, prepared, p)" by (cases x)
  obtain r2 s2 where save: "save_publication (observed env) p (session_id session) s1 = (r2, s2)" by fastforce
  have s': "s' = s2" using rest save spp by (auto simp: io_bind_def io_return_def split: sum.splits)
  note ok1 = still_ok [OF ok s1]
  note eff = save_effect [OF save]
  have n: "world_ids s \<le> world_ids s1" "posted s1 = posted s" using s1 by (simp_all add: still_def)
  show ?thesis
  proof (cases "is_ok r2")
    case True
    have w: "writable env (world_ids s1) (rows s1) p \<and> recs env s1 (publication_attempt p) = None"
      using fresh_writable [OF ok drafted_fresh [OF x [unfolded spp]]] ids n s1 s' eff by (simp add: still_def)
    note upd = stored_rows [OF conjunct1 [OF ok1] conjunct1 [OF w] json, of "session_id session"]
    have "previews_one env s s'"
      unfolding previews_one_def
      using upd eff True n ok1 w s' drafted_fresh [OF x [unfolded spp]]
      by (intro conjI exI [of _ p]) simp_all
    then show ?thesis ..
  next
    case False
    then show ?thesis using settled_still [OF ok s1] eff s' by simp
  qed
qed (use settled_still [OF ok] in simp)

lemma preview_effect:
  assumes ok: "publications_ok env s" and json: "reads_back env"
    and ids: "inj_on (service_uuid (hub_service env)) {..<world_ids s'}"
    and run: "preview_github_review (observed env) q s = (r, s')"
  shows "settled env s s' \<or> previews_one env s s'"
proof -
  have seen: "quiet (io_bind (github_pull_request (observed env) (finish_workspace q)) (\<lambda>review.
      io_bind (unresolved_github_publication (observed env) (finish_workspace q)) (\<lambda>found. io_return (Inr (review, found)))))"
    by (intro quiet_intros)
  have split: "preview_github_review (observed env) q = io_bind
     (io_bind (github_pull_request (observed env) (finish_workspace q)) (\<lambda>review.
      io_bind (unresolved_github_publication (observed env) (finish_workspace q)) (\<lambda>found. io_return (Inr (review, found)))))
     (\<lambda>(review, found). case found of Some p \<Rightarrow> preview_of_unresolved review p | None \<Rightarrow> preview_new (observed env) q review)"
    by (auto simp: preview_github_review_def io_bind_def io_return_def fun_eq_iff split: prod.splits sum.splits)
  show ?thesis
  proof (rule quiet_bindE [OF run [unfolded split] seen])
    fix x s1
    assume s1: "still s s1" and rest: "(case x of (review, found) \<Rightarrow> case found of
      Some p \<Rightarrow> preview_of_unresolved review p | None \<Rightarrow> preview_new (observed env) q review) s1 = (r, s')"
    obtain review found where x: "x = (review, found)" by (cases x)
    note ok1 = still_ok [OF ok s1]
    show ?thesis
    proof (cases found)
      case None
      have "settled env s1 s' \<or> previews_one env s1 s'"
        using preview_new_effect [OF conjunct1 [OF ok1] json ids] rest x None by simp
      then show ?thesis
        using settled_trans [OF settled_still [OF ok s1]] previews_one_after [OF _ s1] by blast
    next
      case (Some p)
      then have "still s1 s'" using rest x quietD [OF quiet_lookups(10)] by simp
      then show ?thesis using settled_still [OF ok still_trans [OF s1]] by simp
    qed
  qed (use settled_still [OF ok] in simp)
qed

text \<open>Abandoning ends the life of the attempt.\<close>

lemma abandonable_reads:
  assumes "abandonable (observed env) sub s = (Inr (p, session), s')"
  shows "recs env s (submission_token sub) = Some p \<and> (publication_status p = Previewed \<or> publication_status p = Prepared)"
proof -
  obtain s1 where lock: "publication_lock (observed env) s = (Inr (), s1)"
    and k: "io_bind (stored_preview (observed env) sub) (\<lambda>p.
     io_bind (on_store (review_sessions_for_id (publication_session p))) (\<lambda>found.
     io_bind (require (ReviewSessionNotFound (publication_session p)) found) (\<lambda>session.
     io_bind (io_return (ensure (session_workspace_id session = submission_workspace sub)
         (stale (submission_token sub) ''the preview belongs to another workspace''))) (\<lambda>_.
     io_bind (io_return (ensure (publication_status p = Previewed \<or> publication_status p = Prepared)
         (GitHubReviewPreviewNotReady (submission_token sub) (''publication is '' @ show_status (publication_status p))))) (\<lambda>_.
     io_return (Inr (p, session))))))) s1 = (Inr (p, session), s')"
    using assms unfolding abandonable_def Let_def io_bind_eq_Inr by auto
  then obtain q where q: "stored_preview (observed env) sub s1 = (Inr q, s1)" "q = p"
      "publication_status q = Previewed \<or> publication_status q = Prepared"
    unfolding io_bind_eq_Inr Let_def by (auto simp: ensure_def split: if_splits dest: stored_preview_reads)
  have "s1 = s" using lock by (simp add: publication_lock_def)
  then show ?thesis using stored_preview_reads [OF q(1)] q(2,3) by simp
qed

lemma abandon_effect:
  assumes ok: "publications_ok env s" and json: "reads_back env"
    and run: "abandon_github_review_publication (observed env) sub s = (r, s')"
  shows "settled env s s'"
proof (rule quiet_bindE [OF run [unfolded abandon_github_review_publication_def] quiet_parts(3)])
  fix x s1
  assume s1: "still s s1" and x: "abandonable (observed env) sub s = (Inr x, s1)"
    and rest: "(case x of (p, session) \<Rightarrow> io_bind (now_of (observed env)) (\<lambda>now.
      let p = abandoned_record p now in
      io_bind (save_publication (observed env) p (session_id session)) (\<lambda>_. io_return (Inr p)))) s1 = (r, s')"
  obtain p session where ps: "x = (p, session)" by (cases x)
  note p = abandonable_reads [OF x [unfolded ps]]
  from rest have "io_bind (now_of (observed env)) (\<lambda>now. io_bind
      (save_publication (observed env) (abandoned_record p now) (session_id session))
      (\<lambda>_. io_return (Inr (abandoned_record p now)))) s1 = (r, s')"
    by (simp add: ps Let_def)
  then show ?thesis
  proof (rule quiet_bindE [OF _ quiet_now])
    fix now s2
    assume s2: "still s1 s2" and save: "io_bind (save_publication (observed env) (abandoned_record p now)
      (session_id session)) (\<lambda>_. io_return (Inr (abandoned_record p now))) s2 = (r, s')"
    obtain r3 s3 where s3: "save_publication (observed env) (abandoned_record p now) (session_id session) s2 = (r3, s3)"
      by fastforce
    have "s' = s3" using save s3 by (auto simp: io_bind_def io_return_def split: sum.splits)
    note ok2 = still_ok [OF ok still_trans [OF s1 s2]]
    have q: "recs env s2 (publication_attempt (abandoned_record p now)) = Some p"
      using p ok2 record_of_row [OF ok conjunct1 [OF p]] by (auto simp: abandoned_record_def)
    have "same_preview p (abandoned_record p now)"
        "legal (publication_status p) (publication_status (abandoned_record p now))"
      using p by (auto simp: legal_def abandoned_record_def same_preview_def preview_part_def)
    from wrote_moves [OF conjunct1 [OF ok2] json q this, of s3 "is_ok r3" "session_id session"]
    have "settled env s2 s3" using save_effect [OF s3] by simp
    then show ?thesis
      using settled_trans [OF settled_still [OF ok still_trans [OF s1 s2]]] \<open>s' = s3\<close> by simp
  qed (use settled_still [OF ok] s1 still_trans in blast)
qed (use settled_still [OF ok] in simp)

end
