(* ===== verification/Service_GitHub_Demo.thy ===== *)
theory Service_GitHub_Demo
  imports Service_GitHub_Props Service_Documents_Props Store_Contents Protocol_Frame
begin

text \<open>
  A concrete world for the operations of a GitHub review: a reviewed pull request with one
  stored preview, a \<open>gh\<close> that answers every command, and a text form of the publication
  records that reads back what it wrote.
\<close>

section \<open>Texts that read back\<close>

definition unary :: "nat \<Rightarrow> string" where
  "unary n = replicate n CHR ''1'' @ ''0''"

fun read_unary :: "string \<Rightarrow> (nat \<times> string) option" where
  "read_unary [] = None"
| "read_unary (c # s) = (if c = CHR ''0'' then Some (0, s) else map_option (apfst Suc) (read_unary s))"

definition char_text :: "char \<Rightarrow> string" where "char_text c = [c]"

fun read_char :: "string \<Rightarrow> (char \<times> string) option" where
  "read_char [] = None"
| "read_char (c # s) = Some (c, s)"

definition pair_text :: "('a \<Rightarrow> string) \<Rightarrow> ('b \<Rightarrow> string) \<Rightarrow> 'a \<times> 'b \<Rightarrow> string" where
  "pair_text f g = (\<lambda>(x, y). f x @ g y)"

definition read_pair ::
  "(string \<Rightarrow> ('a \<times> string) option) \<Rightarrow> (string \<Rightarrow> ('b \<times> string) option) \<Rightarrow> string \<Rightarrow> (('a \<times> 'b) \<times> string) option" where
  "read_pair f g s = Option.bind (f s) (\<lambda>(x, s). Option.bind (g s) (\<lambda>(y, s). Some ((x, y), s)))"

definition list_text :: "('a \<Rightarrow> string) \<Rightarrow> 'a list \<Rightarrow> string" where
  "list_text f xs = unary (length xs) @ concat (map f xs)"

fun read_many :: "(string \<Rightarrow> ('a \<times> string) option) \<Rightarrow> nat \<Rightarrow> string \<Rightarrow> ('a list \<times> string) option" where
  "read_many f 0 s = Some ([], s)"
| "read_many f (Suc n) s = Option.bind (f s) (\<lambda>(x, s). Option.bind (read_many f n s) (\<lambda>(xs, s). Some (x # xs, s)))"

definition read_list :: "(string \<Rightarrow> ('a \<times> string) option) \<Rightarrow> string \<Rightarrow> ('a list \<times> string) option" where
  "read_list f s = Option.bind (read_unary s) (\<lambda>(n, s). read_many f n s)"

definition via_text :: "('b \<Rightarrow> 'a) \<Rightarrow> ('a \<Rightarrow> string) \<Rightarrow> 'b \<Rightarrow> string" where
  "via_text h f x = f (h x)"

definition read_via :: "('a \<Rightarrow> 'b) \<Rightarrow> (string \<Rightarrow> ('a \<times> string) option) \<Rightarrow> string \<Rightarrow> ('b \<times> string) option" where
  "read_via h f s = map_option (apfst h) (f s)"

abbreviation reads_text :: "('a \<Rightarrow> string) \<Rightarrow> (string \<Rightarrow> ('a \<times> string) option) \<Rightarrow> bool" where
  "reads_text f g \<equiv> prefix_codec f g (\<lambda>_. True)"

lemma reads_textD: "reads_text f g \<Longrightarrow> g (f x @ s) = Some (x, s)"
  by (simp add: prefix_codec.dec_enc)

named_theorems reads_intros \<open>text forms that read back\<close>

lemma reads_unary [reads_intros]: "reads_text unary read_unary"
proof
  fix n s
  show "read_unary (unary n @ s) = Some (n, s)" by (induction n) (simp_all add: unary_def)
qed

lemma reads_char [reads_intros]: "reads_text char_text read_char"
  by unfold_locales (simp add: char_text_def)

lemma reads_pair [reads_intros]: "reads_text f f' \<Longrightarrow> reads_text g g' \<Longrightarrow> reads_text (pair_text f g) (read_pair f' g')"
  by unfold_locales (auto simp: pair_text_def read_pair_def reads_textD)

lemma reads_list [reads_intros]:
  assumes "reads_text f f'"
  shows "reads_text (list_text f) (read_list f')"
proof
  fix xs s
  have "read_many f' (length xs) (concat (map f xs) @ s) = Some (xs, s)"
    by (induction xs) (simp_all add: reads_textD [OF assms])
  then show "read_list f' (list_text f xs @ s) = Some (xs, s)"
    by (simp add: read_list_def list_text_def reads_textD [OF reads_unary])
qed

lemma reads_via [reads_intros]: "(\<And>x. h' (h x) = x) \<Longrightarrow> reads_text f f' \<Longrightarrow> reads_text (via_text h f) (read_via h' f')"
  by unfold_locales (simp add: via_text_def read_via_def reads_textD)

abbreviation "string_text \<equiv> list_text char_text"
abbreviation "read_string \<equiv> read_list read_char"

fun some_list :: "'a option \<Rightarrow> 'a list" where
  "some_list None = []"
| "some_list (Some x) = [x]"

fun first_of :: "'a list \<Rightarrow> 'a option" where
  "first_of [] = None"
| "first_of (x # xs) = Some x"

lemma first_some [simp]: "first_of (some_list x) = x"
  by (cases x) simp_all

fun status_code :: "GitHubPublicationStatus \<Rightarrow> nat" where
  "status_code Previewed = 0" | "status_code Prepared = 1" | "status_code Rejected = 2"
| "status_code Submitted = 3" | "status_code Reconciled = 4" | "status_code Abandoned = 5"

definition status_of_code :: "nat \<Rightarrow> GitHubPublicationStatus" where
  "status_of_code n = (if n = 0 then Previewed else if n = 1 then Prepared else if n = 2 then Rejected
    else if n = 3 then Submitted else if n = 4 then Reconciled else Abandoned)"

lemma status_code_back [simp]: "status_of_code (status_code x) = x"
  by (cases x) (simp_all add: status_of_code_def)

definition int_code :: "int \<Rightarrow> nat \<times> nat" where "int_code i = (nat i, nat (- i))"
definition int_of_code :: "nat \<times> nat \<Rightarrow> int" where "int_of_code = (\<lambda>(a, b). int a - int b)"

lemma int_code_back [simp]: "int_of_code (int_code i) = i"
  by (simp add: int_code_def int_of_code_def)

section \<open>The text form of a publication\<close>

definition record_fields where
  "record_fields p = ((publication_id p, unat (case publication_session p of ReviewSessionId u \<Rightarrow> u), publication_attempt p,
      publication_token p, status_code (publication_status p),
      map (\<lambda>i. unat (annotation_uuid i)) (publication_annotations p), sha_str (publication_head_sha p)),
    (publication_fingerprint p, publication_request p, publication_snapshot p,
      map (\<lambda>i. unat (case i of AnnotationSetId u \<Rightarrow> u)) (some_list (publication_set p)), publication_marker p, publication_payload p),
    (some_list (publication_remote_id p), some_list (publication_remote_url p), some_list (publication_remote_state p),
      int_code (publication_created_at p), map int_code (some_list (publication_completed_at p))))"

definition record_of_fields where
  "record_of_fields = (\<lambda>((i, session, attempt, token, stat, as, head), (fingerprint, request, snapshot, active, marker, payload),
      (rid, url, state, created, completed)).
    \<lparr>publication_id = i, publication_session = ReviewSessionId (of_nat session), publication_attempt = attempt,
     publication_token = token, publication_status = status_of_code stat,
     publication_annotations = map (\<lambda>n. AnnotationId (of_nat n)) as, publication_head_sha = GitSha head,
     publication_fingerprint = fingerprint, publication_request = request, publication_snapshot = snapshot,
     publication_set = map_option (\<lambda>n. AnnotationSetId (of_nat n)) (first_of active), publication_marker = marker,
     publication_payload = payload, publication_remote_id = first_of rid, publication_remote_url = first_of url,
     publication_remote_state = first_of state, publication_created_at = int_of_code created,
     publication_completed_at = map_option int_of_code (first_of completed)\<rparr>)"

lemma first_of_map [simp]: "map_option f (first_of (map g (some_list x))) = map_option (\<lambda>y. f (g y)) x"
  by (cases x) simp_all

lemma id_cases [simp]:
  "ReviewSessionId (case a of ReviewSessionId u \<Rightarrow> u) = a" "AnnotationSetId (case b of AnnotationSetId u \<Rightarrow> u) = b"
  "AnnotationId (annotation_uuid c) = c"
  using ReviewSessionId.exhaust AnnotationSetId.exhaust AnnotationId.exhaust
  by (cases a, simp) (cases b, simp, cases c, simp)

lemma record_fields_back: "record_of_fields (record_fields p) = (p :: GitHubPublicationRecord)"
  by (simp add: record_of_fields_def record_fields_def o_def option.map_ident)

definition publication_text :: "GitHubPublicationRecord \<Rightarrow> string" where
  "publication_text = via_text record_fields (pair_text
    (pair_text string_text (pair_text unary (pair_text string_text (pair_text string_text (pair_text unary
      (pair_text (list_text unary) string_text))))))
    (pair_text (pair_text string_text (pair_text string_text (pair_text string_text (pair_text (list_text unary)
      (pair_text string_text string_text)))))
    (pair_text (list_text unary) (pair_text (list_text string_text) (pair_text (list_text string_text)
      (pair_text (pair_text unary unary) (list_text (pair_text unary unary))))))))"

definition read_publication :: "string \<Rightarrow> (GitHubPublicationRecord \<times> string) option" where
  "read_publication = read_via record_of_fields (read_pair
    (read_pair read_string (read_pair read_unary (read_pair read_string (read_pair read_string (read_pair read_unary
      (read_pair (read_list read_unary) read_string))))))
    (read_pair (read_pair read_string (read_pair read_string (read_pair read_string (read_pair (read_list read_unary)
      (read_pair read_string read_string)))))
    (read_pair (read_list read_unary) (read_pair (read_list read_string) (read_pair (read_list read_string)
      (read_pair (read_pair read_unary read_unary) (read_list (read_pair read_unary read_unary))))))))"

interpretation publication_codec: prefix_codec publication_text read_publication "\<lambda>_. True"
  unfolding publication_text_def read_publication_def by (intro reads_intros record_fields_back)

lemma publication_text_back: "map_option fst (read_publication (publication_text p)) = Some p"
  using publication_codec.dec_enc [of p "[]"] by simp

section \<open>A reviewed pull request\<close>

definition demo_sha :: string where "demo_sha = replicate 40 CHR ''a''"

definition demo_pull :: GitHubPullRequestRecord where
  "demo_pull =
    \<lparr>pull_record_id = ''github-pr-1'', pull_record_workspace = WorkspaceId 1,
     pull_record_url = ''https://github.com/o/r/pull/7'', pull_record_owner = ''o'', pull_record_repository = ''r'',
     pull_record_number = 7, pull_record_title = ''t'', pull_record_author = None, pull_record_base_ref = ''main'',
     pull_record_head_ref = ''f'', pull_record_base_sha = GitSha demo_sha, pull_record_head_sha = GitSha demo_sha,
     pull_record_draft = False, pull_record_state = ''OPEN'', pull_record_decision = None, pull_record_commits = [],
     pull_record_worktree = \<lparr>managed_review_id = ''pr-1'',
       managed_repository = \<lparr>locator_host = ''github.com'', locator_owner = ''o'', locator_repository = ''r''\<rparr>,
       managed_worktree_path = StoredPath ''/demo'', managed_source = ManagedMirror (StoredPath ''/m''),
       managed_revision = \<lparr>pinned_base_sha = GitSha demo_sha, pinned_head_sha = GitSha demo_sha\<rparr>, managed_created_at = 0\<rparr>,
     pull_record_threads = [], pull_record_conversation = [], pull_record_import_error = None,
     pull_record_captured_at = 0\<rparr>"

definition demo_raw_pull :: RawPullRequest where
  "demo_raw_pull =
    \<lparr>raw_number = 7, raw_title = ''t'', raw_url = ''https://github.com/o/r/pull/7'', raw_author = None,
     raw_base_ref_name = ''main'', raw_base_ref_oid = demo_sha, raw_head_ref_name = ''f'', raw_head_ref_oid = demo_sha,
     raw_is_draft = False, raw_state = ''OPEN'', raw_review_decision = None, raw_commits = []\<rparr>"

text \<open>Every command succeeds; the answer to a submission does not decode, so its outcome is
  unknown, and no review on GitHub carries the marker yet.\<close>

definition demo_executor :: "unit executor" where
  "demo_executor c w = (Inr \<lparr>gh_success = True, gh_exit_code = Some 0, gh_stdout = ''ok'', gh_stderr = []\<rparr>, w)"

definition demo_pool_env :: "unit pool_env" where
  "demo_pool_env =
    \<lparr>pool_git = demo_git, pool_exists = (\<lambda>_ w. (False, w)), pool_is_dir = (\<lambda>_ w. (False, w)),
     pool_canonicalize = (\<lambda>p w. (Inr p, w)), pool_read_dir = (\<lambda>_ w. (Inr [], w)),
     pool_create_dir_all = (\<lambda>_ w. (Inr (), w)), pool_remove_dir = (\<lambda>_ w. (Inr (), w)),
     pool_remove_dir_all = (\<lambda>_ w. (Inr (), w)), pool_remove_file = (\<lambda>_ w. (Inr (), w)),
     pool_write = (\<lambda>_ _ w. (Inr (), w)), pool_rename = (\<lambda>_ _ w. (Inr (), w)),
     pool_create_new = (\<lambda>_ w. (Inr (), w)), pool_file_age = (\<lambda>_ w. (None, w)),
     pool_instant = (\<lambda>w. (0, w)), pool_sleep = (\<lambda>_ w. w), pool_decode = (\<lambda>_. None), pool_encode = (\<lambda>_. None)\<rparr>"

definition demo_hub :: "unit GitHubEnv" where
  "demo_hub =
    \<lparr>hub_service = demo_service, hub_pool = demo_pool_env, hub_gh = demo_executor,
     hub_pull_json = \<lparr>decode_pull_request = (\<lambda>_. Inr demo_raw_pull), decode_api_pull_request = (\<lambda>_. Inl ''json'')\<rparr>,
     hub_review_json = \<lparr>decode_thread_page = (\<lambda>_. Inl ''json''), decode_comment_page = (\<lambda>_. Inl ''json''),
       json_stream = (\<lambda>_. []), conversation_of_json = (\<lambda>_. Inl ''json''), submitted_of_json = (\<lambda>_. Inl ''json''),
       decode_submitted = (\<lambda>_. Inl ''json'')\<rparr>,
     hub_sha256 = (\<lambda>_. []), hub_root = ''/root'', hub_lock_poisoned = False,
     hub_encode_pull = (\<lambda>_. ''pull''), hub_decode_pull = (\<lambda>_. Some demo_pull),
     hub_encode_publication = publication_text,
     hub_decode_publication = (\<lambda>t. map_option fst (read_publication t)),
     hub_encode_worktree = (\<lambda>_. ''worktree''), hub_decode_worktree = (\<lambda>_. None), hub_annotations_json = (\<lambda>_. ''[]'')\<rparr>"

definition demo_token :: string where "demo_token = ''00000000-0000-0000-0000-000000000064''"

definition demo_preview_record :: GitHubPublicationRecord where
  "demo_preview_record =
    \<lparr>publication_id = ''github-publication-00000000-0000-0000-0000-000000000065'', publication_session = ReviewSessionId 2,
     publication_attempt = demo_token, publication_token = demo_token, publication_status = Previewed,
     publication_annotations = [], publication_head_sha = GitSha demo_sha,
     publication_fingerprint = [], publication_request = [],
     publication_snapshot = [], publication_set = Some (AnnotationSetId 3),
     publication_marker = [], publication_payload = ''payload'', publication_remote_id = None,
     publication_remote_url = None, publication_remote_state = None, publication_created_at = 0,
     publication_completed_at = None\<rparr>"

definition demo_hub_world :: "unit watched World" where
  "demo_hub_world = \<lparr>world_git = ((), []), world_store = demo_review_store\<lparr>store_db := (store_db demo_review_store)
     \<lparr>t_pull_requests := [\<lparr>pr_row_id = ''github-pr-1'', pr_row_workspace = WorkspaceId 1, pr_row_payload = ''pull''\<rparr>],
      t_publications := [\<lparr>publication_row_id = publication_id demo_preview_record,
        publication_row_session = ReviewSessionId 2, publication_row_attempt = publication_attempt demo_preview_record,
        publication_row_payload = publication_text demo_preview_record\<rparr>]\<rparr>\<rparr>, world_ids = 2\<rparr>"

definition demo_submission :: FinishGitHubReviewSubmission where
  "demo_submission = \<lparr>submission_workspace = WorkspaceId 1, submission_token = demo_token\<rparr>"

lemma demo_uuids: "show_uuid (service_uuid demo_service 0) = demo_token"
    "''github-publication-'' @ show_uuid (service_uuid demo_service 1) = publication_id demo_preview_record"
  by code_simp+

text \<open>The submission sends one review, and its outcome stays unknown.\<close>

lemma demo_submits:
  "map_option (\<lambda>(r, s). (is_ok r, length (posted s), world_ids s))
    (finish_github_review_preview (observed demo_hub) demo_submission demo_hub_world) = Some (False, 1, 3)"
  by code_simp

end
