(* ===== verification/Service_GitHub_Runs.thy ===== *)
theory Service_GitHub_Runs
  imports Service_GitHub_Once Service_GitHub_Demo
begin

text \<open>
  Every sequence of operations on the publications of a database: previews, submissions,
  abandonments, and whatever else leaves the publications alone or deletes some of them.
  No preview is posted twice, in whatever order the operations come and however often a
  submission is repeated.
\<close>

section \<open>Runs\<close>

text \<open>The trace holds the token of a submission with each review it sent to GitHub.\<close>

definition sent :: "'w watched World \<Rightarrow> 'w watched World \<Rightarrow> GhCommand list" where
  "sent s s' = drop (length (posted s)) (posted s')"

definition elsewhere :: "'w GitHubEnv \<Rightarrow> 'w watched World \<Rightarrow> 'w watched World \<Rightarrow> bool" where
  "elsewhere env s s' \<longleftrightarrow> (\<exists>keep. rows s' = filter keep (rows s)) \<and> posted s' = posted s \<and> world_ids s \<le> world_ids s'"

inductive hub_run ::
  "'w GitHubEnv \<Rightarrow> 'w watched World \<Rightarrow> (string \<times> GhCommand) list \<Rightarrow> 'w watched World \<Rightarrow> bool" for env s where
  hub_start: "hub_run env s [] s"
| hub_preview: "hub_run env s tr t \<Longrightarrow> preview_github_review (observed env) q t = (r, u) \<Longrightarrow> hub_run env s tr u"
| hub_finish: "hub_run env s tr t \<Longrightarrow> finish_github_review_preview (observed env) sub t = Some (r, u)
    \<Longrightarrow> hub_run env s (tr @ map (Pair (submission_token sub)) (sent t u)) u"
| hub_abandon: "hub_run env s tr t \<Longrightarrow> abandon_github_review_publication (observed env) sub t = (r, u)
    \<Longrightarrow> hub_run env s tr u"
| hub_elsewhere: "hub_run env s tr t \<Longrightarrow> elsewhere env t u \<Longrightarrow> hub_run env s tr u"

section \<open>What every run keeps\<close>

text \<open>A token whose review has been sent: handed out, and with no preview left to send.\<close>

definition handed_out :: "'w GitHubEnv \<Rightarrow> nat \<Rightarrow> string \<Rightarrow> bool" where
  "handed_out env n a \<longleftrightarrow> (\<exists>i<n. a = show_uuid (service_uuid (hub_service env) i))"

definition used_up :: "'w GitHubEnv \<Rightarrow> 'w watched World \<Rightarrow> string \<Rightarrow> bool" where
  "used_up env s a \<longleftrightarrow> handed_out env (world_ids s) a
    \<and> (recs env s a = None \<or> spent env s a)"

lemma handed_out_mono: "handed_out env n a \<Longrightarrow> n \<le> m \<Longrightarrow> handed_out env m a"
  using order_less_le_trans unfolding handed_out_def by blast

lemma record_handed_out: "table_ok env n t \<Longrightarrow> record_of env t a = Some p \<Longrightarrow> handed_out env n a"
  using record_of_row [of env n t a p] by (auto simp: table_ok_def row_ok_def handed_out_def)

lemma moves_used_up:
  assumes m: "moves env s s'" and u: "used_up env s a"
  shows "used_up env s' a"
proof -
  have "becomes (recs env s a) (recs env s' a)" "world_ids s \<le> world_ids s'" using m by (simp_all add: moves_def)
  then show ?thesis
    using u moves_spent [OF m] by (auto simp: used_up_def becomes_def intro: handed_out_mono split: option.splits)
qed

text \<open>Deleting rows deletes records and changes none.\<close>

lemma record_of_kept:
  assumes t: "table_ok env n t"
  shows "table_ok env n (filter keep t)" "record_of env (filter keep t) a = Some p \<Longrightarrow> record_of env t a = Some p"
proof -
  show kept: "table_ok env n (filter keep t)"
    using t by (auto simp: table_ok_def distinct_map intro: inj_on_subset)
  assume "record_of env (filter keep t) a = Some p"
  from record_of_row [OF kept this] obtain r where
    r: "r \<in> set t" "publication_row_attempt r = a" "hub_decode_publication env (publication_row_payload r) = Some p" by auto
  then show "record_of env t a = Some p" using record_of_member [OF t r(1)] by simp
qed

lemma elsewhere_used_up:
  assumes ok: "publications_ok env s" and step: "elsewhere env s s'"
  shows "publications_ok env s'" "used_up env s a \<Longrightarrow> used_up env s' a"
proof -
  obtain keep where k: "rows s' = filter keep (rows s)" "world_ids s \<le> world_ids s'"
    using step by (auto simp: elsewhere_def)
  show "publications_ok env s'" using record_of_kept(1) [OF ok] k table_ok_mono by metis
  assume "used_up env s a"
  then show "used_up env s' a"
    using record_of_kept(2) [OF ok, of keep a] k
    by (cases "recs env s' a") (auto simp: used_up_def spent_def intro: handed_out_mono)
qed

text \<open>A new preview has a token that no earlier one had.\<close>

lemma preview_used_up:
  assumes run: "preview_github_review (observed env) q s = (r, s')" and ok: "publications_ok env s" and json: "reads_back env"
    and ids: "inj_on (service_uuid (hub_service env)) {..<world_ids s'}"
  shows "publications_ok env s'" "world_ids s \<le> world_ids s'" "used_up env s a \<Longrightarrow> used_up env s' a"
proof -
  from preview_effect [OF ok json ids run] have "publications_ok env s' \<and> world_ids s \<le> world_ids s' \<and> (used_up env s a \<longrightarrow> used_up env s' a)"
  proof
    assume "settled env s s'"
    then show ?thesis using moves_used_up by (auto simp: settled_def moves_def)
  next
    assume new: "previews_one env s s'"
    then obtain p i where p: "recs env s' = (recs env s)(publication_attempt p \<mapsto> p)" "world_ids s \<le> world_ids s'"
        "world_ids s \<le> i" "i < world_ids s'" "publication_attempt p = show_uuid (service_uuid (hub_service env) i)"
      by (auto simp: previews_one_def fresh_record_def)
    have "used_up env s' a" if used: "used_up env s a"
    proof -
      obtain j where j: "j < world_ids s" "a = show_uuid (service_uuid (hub_service env) j)"
        using used by (auto simp: used_up_def handed_out_def)
      then have "a \<noteq> publication_attempt p" using p ids by (auto simp: show_uuid_inject dest!: inj_onD)
      then have same: "recs env s' a = recs env s a" using p by simp
      show ?thesis using used handed_out_mono [OF _ p(2)] by (auto simp: used_up_def spent_def same)
    qed
    then show ?thesis using new by (simp add: previews_one_def)
  qed
  then show "publications_ok env s'" "world_ids s \<le> world_ids s'" "used_up env s a \<Longrightarrow> used_up env s' a" by simp_all
qed

text \<open>A submission sends at most one review, for a token that had a preview left, and uses it up.\<close>

lemma finish_used_up:
  assumes run: "finish_github_review_preview (observed env) sub s = Some (r, s')"
    and ok: "publications_ok env s" and json: "reads_back env"
  shows "publications_ok env s'" "world_ids s \<le> world_ids s'" "used_up env s a \<Longrightarrow> used_up env s' a"
    "sent s s' = [] \<or> (\<exists>c. sent s s' = [c] \<and> \<not> used_up env s (submission_token sub) \<and> used_up env s' (submission_token sub))"
proof -
  note eff = finish_effect [OF ok json run]
  then show step: "publications_ok env s'" "world_ids s \<le> world_ids s'" "used_up env s a \<Longrightarrow> used_up env s' a"
    using moves_used_up by (auto simp: moves_def)
  show "sent s s' = [] \<or> (\<exists>c. sent s s' = [c] \<and> \<not> used_up env s (submission_token sub) \<and> used_up env s' (submission_token sub))"
  proof (cases "posted s' = posted s")
    case False
    then obtain p url where p: "recs env s (submission_token sub) = Some p" "publication_status p = Previewed"
        "posted s' = posted s @ [submit_command url (publication_payload p)]" "spent env s' (submission_token sub)"
      using eff by (auto simp: posts_only_def)
    have "used_up env s' (submission_token sub)"
      using p(4) handed_out_mono [OF record_handed_out [OF ok p(1)] step(2)] by (simp add: used_up_def)
    then show ?thesis using p by (simp add: sent_def used_up_def spent_def)
  qed (simp add: sent_def)
qed

text \<open>Ids are handed out in order, whatever happens.\<close>

definition counting :: "('w watched, 'a) service \<Rightarrow> bool" where
  "counting m \<longleftrightarrow> (\<forall>s r s'. m s = (r, s') \<longrightarrow> world_ids s \<le> world_ids s')"

named_theorems counts \<open>operations that hand out ids in order\<close>

lemma countingD: "counting m \<Longrightarrow> m s = (r, s') \<Longrightarrow> world_ids s \<le> world_ids s'"
  by (simp add: counting_def)

lemma counting_quiet: "quiet m \<Longrightarrow> counting m"
  by (auto simp: counting_def still_def dest: quietD)

lemma counting_bind [counts]: "counting m \<Longrightarrow> (\<And>x. counting (k x)) \<Longrightarrow> counting (io_bind m k)"
  unfolding counting_def io_bind_def by (fastforce split: prod.splits sum.splits intro: order_trans)

lemma counting_cases [counts]:
  "(\<And>a b. counting (f a b)) \<Longrightarrow> counting (case x of (a, b) \<Rightarrow> f a b)"
  "counting m \<Longrightarrow> (\<And>y. counting (g y)) \<Longrightarrow> counting (case z of None \<Rightarrow> m | Some y \<Rightarrow> g y)"
  "(\<And>e. counting (h e)) \<Longrightarrow> (\<And>y. counting (g y)) \<Longrightarrow> counting (case w of Inl e \<Rightarrow> h e | Inr y \<Rightarrow> g y)"
  "counting m \<Longrightarrow> counting m' \<Longrightarrow> counting (if b then m else m')"
  by (simp_all split: prod.splits option.splits sum.splits)

lemma counting_saves [counts]:
  "counting (save_publication (observed env) p session)" "counting (save_with_annotations (observed env) p session active)"
  "counting (submit_answer (observed env) url prepared)"
  by (auto simp: counting_def dest: save_effect save_with_effect submit_answer_effect)

lemmas counting_lookups [counts] = quiet_lookups [THEN counting_quiet] quiet_parts [THEN counting_quiet]
  quiet_return [THEN counting_quiet] quiet_unresolved [THEN counting_quiet] quiet_now [THEN counting_quiet]
  quiet_finish_target [THEN counting_quiet]

lemma counting_operations [counts]:
  "counting (preview_github_review (observed env) q)" "counting (abandon_github_review_publication (observed env) sub)"
  "counting (reconcile_round (observed env) url w c)" "counting (submit_preview (observed env) url x)"
  unfolding preview_github_review_def preview_new_def abandon_github_review_publication_def reconcile_round_def
    reconcile_one_def submit_preview_def conclude_submission_def Let_def
  by (intro counts)+

lemma finish_counts:
  assumes "finish_github_review_preview (observed env) sub s = Some (r, s')"
  shows "world_ids s \<le> world_ids s'"
proof -
  have reconcile: "world_ids s \<le> world_ids s'"
    if "reconcile_unresolved_publications (observed env) url w s = Some (r, s')" for url w r and s s' :: "'a watched World"
    using that unfolding reconcile_unresolved_publications_def
    by (rule run_loop_keeps [where I = "\<lambda>c t. world_ids s \<le> world_ids t"])
      (auto simp: run_io_def intro: order_trans dest!: countingD [OF counting_operations(3)])
  have rest: "counting (io_bind (submittable (observed env) sub review url) (submit_preview (observed env) url))" for review url
    by (intro counts)
  show ?thesis
    using assms unfolding finish_split
    by (fastforce simp: run_bind_Some run_io_def run_return_def split: option.splits prod.splits
        dest: reconcile countingD [OF rest] countingD [OF quiet_finish_target [THEN counting_quiet]])
qed

definition orderly :: "'w GitHubEnv \<Rightarrow> (string \<times> GhCommand) list \<Rightarrow> 'w watched World \<Rightarrow> bool" where
  "orderly env tr s \<longleftrightarrow> publications_ok env s \<and> distinct (map fst tr) \<and> (\<forall>a\<in>set (map fst tr). used_up env s a)"

lemma run_keeps:
  assumes "hub_run env s tr s'" "publications_ok env s" "reads_back env"
    "inj_on (service_uuid (hub_service env)) {..<world_ids s'}"
  shows "orderly env tr s'"
  using assms
proof (induction rule: hub_run.induct)
  case (hub_preview tr t q r u)
  have "orderly env tr t"
    using hub_preview.IH [OF hub_preview.prems(1,2) inj_on_subset [OF hub_preview.prems(3)]] countingD [OF counting_operations(1) hub_preview.hyps(2)]
    by simp
  then show ?case
    using preview_used_up [OF hub_preview.hyps(2) _ hub_preview.prems(2,3)] by (simp add: orderly_def)
next
  case (hub_finish tr t sub r u)
  have t: "orderly env tr t"
    using hub_finish.IH [OF hub_finish.prems(1,2) inj_on_subset [OF hub_finish.prems(3)]] finish_counts [OF hub_finish.hyps(2)]
    by simp
  then show ?case
    using finish_used_up [OF hub_finish.hyps(2) _ hub_finish.prems(2)] by (auto simp: orderly_def)
next
  case (hub_abandon tr t sub r u)
  have "orderly env tr t"
    using hub_abandon.IH [OF hub_abandon.prems(1,2) inj_on_subset [OF hub_abandon.prems(3)]] countingD [OF counting_operations(2) hub_abandon.hyps(2)]
    by simp
  moreover from this have "moves env t u"
    using abandon_effect [OF _ hub_abandon.prems(2) hub_abandon.hyps(2)] by (simp add: orderly_def settled_def)
  ultimately show ?case
    using moves_used_up [of env t u] by (simp add: orderly_def moves_def)
next
  case (hub_elsewhere tr t u)
  have "orderly env tr t"
    using hub_elsewhere.IH [OF hub_elsewhere.prems(1,2) inj_on_subset [OF hub_elsewhere.prems(3)]] hub_elsewhere.hyps(2)
    by (simp add: elsewhere_def)
  then show ?case using elsewhere_used_up [OF _ hub_elsewhere.hyps(2)] by (simp add: orderly_def)
qed (simp add: orderly_def)

section \<open>Every submission returns\<close>

text \<open>Each round of the reconciliation leaves one outcome fewer unknown.\<close>

definition unresolved_attempts :: "'w GitHubEnv \<Rightarrow> 'v World \<Rightarrow> string set" where
  "unresolved_attempts env s = {a. \<exists>p. recs env s a = Some p \<and> publication_status p = Prepared}"

lemma finite_unresolved: "finite (unresolved_attempts env s)"
proof -
  have "unresolved_attempts env s \<subseteq> publication_row_attempt ` set (rows s)"
    by (auto simp: unresolved_attempts_def record_of_def bind_eq_Some_conv lookup_row_def find_Some_iff)
  then show ?thesis by (rule finite_subset) simp
qed

lemma reconcile_round_less:
  assumes ok: "publications_ok env s" and json: "reads_back env"
    and run: "reconcile_round (observed env) url w c s = (Inr (Inl c'), s')"
  shows "publications_ok env s' \<and> card (unresolved_attempts env s') < card (unresolved_attempts env s)"
proof -
  obtain x s1 where x: "unresolved_github_publication (observed env) w s = (Inr x, s1)"
    and rest: "(case x of None \<Rightarrow> io_return (Inr (Inr c))
      | Some p \<Rightarrow> io_bind (reconcile_one (observed env) url p) (\<lambda>p. io_return (Inr (Inl (Some p))))) s1 = (Inr (Inl c'), s')"
    using run unfolding reconcile_round_def io_bind_eq_Inr by auto
  obtain p where p: "x = Some p" using rest by (cases x) auto
  note same = unresolved_reads [OF x ok]
  obtain q where q: "reconcile_one (observed env) url p s = (Inr q, s')" using rest p same by auto
  have "settled env s s'" "recs env s' = (recs env s)(publication_attempt p \<mapsto> q)" "publication_status q = Reconciled"
    using reconcile_one_effect [OF ok json _ _ q] same p by auto
  then have "publications_ok env s'" "unresolved_attempts env s' = unresolved_attempts env s - {publication_attempt p}"
    by (auto simp: unresolved_attempts_def settled_ok)
  moreover have "publication_attempt p \<in> unresolved_attempts env s" using same p by (auto simp: unresolved_attempts_def)
  ultimately show ?thesis using card_Diff1_less [OF finite_unresolved] by metis
qed

lemma reconciliation_returns:
  assumes "publications_ok env s" "reads_back env"
  shows "\<exists>r s'. reconcile_unresolved_publications (observed env) url w s = Some (r, s')"
  unfolding reconcile_unresolved_publications_def
proof (rule run_loop_returns [where I = "\<lambda>_. publications_ok env" and m = "\<lambda>_ s. card (unresolved_attempts env s)"])
  fix c c' and s s' :: "'a watched World"
  assume "publications_ok env s" "run_io (reconcile_round (observed env) url w c) s = Some (Inr (Inl c'), s')"
  then show "publications_ok env s' \<and> card (unresolved_attempts env s') < card (unresolved_attempts env s)"
    using reconcile_round_less assms(2) by (simp add: run_io_def)
qed (use assms in \<open>simp_all add: run_io_def\<close>)

text \<open>The concrete world satisfies what is asked of a world.\<close>

lemma demo_reads_back: "reads_back demo_hub"
  by (simp add: reads_back_def demo_hub_def publication_text_back)

lemma demo_publications_ok: "publications_ok demo_hub demo_hub_world"
proof -
  have "\<exists>i<2. demo_token = show_uuid (service_uuid demo_service i)"
    using demo_uuids(1) by (intro exI [of _ 0]) simp
  moreover have "\<exists>i<2. publication_id demo_preview_record = ''github-publication-'' @ show_uuid (service_uuid demo_service i)"
    using demo_uuids(2) by (intro exI [of _ 1]) simp
  ultimately show ?thesis
    by (simp add: table_ok_def row_ok_def demo_hub_world_def demo_hub_def publication_text_back demo_preview_record_def)
qed

lemma demo_ids: "inj_on (service_uuid (hub_service demo_hub)) {..<3}"
  by (simp add: inj_on_def demo_hub_def demo_service_def lessThan_nat_numeral lessThan_Suc)

text \<open>C23: The loop that reconciles the reviews of unknown outcome ends, so a submission always
  returns: whatever GitHub answers, every round resolves one attempt or stops with an error.\<close>

theorem submission_returns:
  assumes "publications_ok env s" "reads_back env"
  shows "\<exists>r s'. finish_github_review_preview (observed env) sub s = Some (r, s')"
proof -
  have "finish_github_review_preview (observed env) sub s \<noteq> None"
  proof
    assume "finish_github_review_preview (observed env) sub s = None"
    then obtain x s1 where s1: "finish_target (observed env) sub s = (Inr x, s1)"
      and stuck: "reconcile_unresolved_publications (observed env) (snd x) (submission_workspace sub) s1 = None"
      by (auto simp: finish_split run_bind_def run_io_def run_return_def split: option.splits prod.splits sum.splits)
    from still_ok [OF assms(1) quietD [OF quiet_finish_target s1]] show False
      using reconciliation_returns [OF _ assms(2)] stuck by (metis option.distinct(1))
  qed
  then show ?thesis by auto
qed

lemma submission_returns_witness:
  "\<exists>r s'. finish_github_review_preview (observed demo_hub) demo_submission demo_hub_world = Some (r, s')"
  by (rule submission_returns [OF demo_publications_ok demo_reads_back])

section \<open>No preview is posted twice\<close>

text \<open>C1: In every run of previews, submissions and abandonments, with other operations
  anywhere between them, at most one review is sent to GitHub for each preview token, even when
  a submission is repeated, when its outcome was never learnt, or when the record is deleted.
  The ids of the service must not repeat and the JSON of a record must read back what it wrote.\<close>

theorem native_reviews_posted_once:
  assumes "hub_run env s tr s'" "publications_ok env s" "reads_back env"
    "inj_on (service_uuid (hub_service env)) {..<world_ids s'}"
  shows "distinct (map fst tr)"
  using run_keeps [OF assms] by (simp add: orderly_def)

lemma native_reviews_posted_once_witness:
  "\<exists>c s'. hub_run demo_hub demo_hub_world [(demo_token, c)] s' \<and> distinct (map fst [(demo_token, c)])"
proof -
  obtain r s' where s': "finish_github_review_preview (observed demo_hub) demo_submission demo_hub_world = Some (r, s')"
      "length (posted s') = 1" "world_ids s' = 3"
    using demo_submits by auto
  have start: "posted demo_hub_world = []" by (simp add: posted_def demo_hub_world_def)
  obtain c where c: "sent demo_hub_world s' = [c]"
    using s'(2) by (auto simp: sent_def start length_Suc_conv)
  have run: "hub_run demo_hub demo_hub_world [(demo_token, c)] s'"
    using hub_finish [OF hub_start s'(1)] by (simp add: c demo_submission_def)
  then show ?thesis
    using native_reviews_posted_once [OF run demo_publications_ok demo_reads_back] demo_ids s'(3) by auto
qed

text \<open>C2: A submission sends GitHub the payload that was stored with the preview its token
  names, at most once and only while that preview is waiting; afterwards the attempt is spent.
  Whatever happens, the preview itself never changes, an attempt never goes back to waiting, and
  one that has ended keeps its status.\<close>

theorem submission_sends_the_preview:
  assumes "publications_ok env s" "reads_back env" "finish_github_review_preview (observed env) sub s = Some (r, s')"
  shows "moves env s s' \<and> posts_only env (submission_token sub) s s'"
  using finish_effect [OF assms] .

lemma submission_sends_the_preview_witness:
  "\<exists>r s'. finish_github_review_preview (observed demo_hub) demo_submission demo_hub_world = Some (r, s')
    \<and> length (posted s') = 1 \<and> moves demo_hub demo_hub_world s'
    \<and> posts_only demo_hub demo_token demo_hub_world s'"
proof -
  obtain r s' where s': "finish_github_review_preview (observed demo_hub) demo_submission demo_hub_world = Some (r, s')"
      "length (posted s') = 1"
    using demo_submits by auto
  then show ?thesis
    using submission_sends_the_preview [OF demo_publications_ok demo_reads_back s'(1)] by (simp add: demo_submission_def)
qed

end
