(* ===== verification/Desktop_Rpc.thy ===== *)
theory Desktop_Rpc
  imports Protocol_Frame Service_Documents
begin

text \<open>
  \<open>src-tauri/src/rpc.rs\<close> and the replay guard of \<open>controller.rs\<close>: what happens to a frame
  that arrives at the desktop socket.  A request is run only when its shape is valid, its proof
  verifies, its time is recent and its id has not been seen.  The controller that runs it is a
  parameter here (\<open>Desktop_Dispatch\<close> has its dispatch), as are the clock and the window.
\<close>

section \<open>Errors\<close>

datatype DispatchError =
    DispatchInvalid string
  | DispatchCancelled
  | DispatchNotFound string
  | DispatchAmbiguous string
  | DispatchService ServiceError
  | DispatchPersistence PersistenceError
  | DispatchRemote string
  | DispatchInternal

fun dispatch_error_code :: "DispatchError \<Rightarrow> RpcErrorCode" where
  "dispatch_error_code (DispatchInvalid _) = RpcInvalidRequest"
| "dispatch_error_code (DispatchAmbiguous _) = RpcInvalidRequest"
| "dispatch_error_code DispatchCancelled = RpcInvalidRequest"
| "dispatch_error_code (DispatchNotFound _) = RpcNotFound"
| "dispatch_error_code (DispatchService _) = RpcInternal"
| "dispatch_error_code (DispatchPersistence _) = RpcInternal"
| "dispatch_error_code (DispatchRemote _) = RpcInternal"
| "dispatch_error_code DispatchInternal = RpcInternal"

definition protocol_error_code :: "ProtocolError \<Rightarrow> RpcErrorCode" where
  "protocol_error_code e = (case e of
      UnsupportedVersion _ _ \<Rightarrow> RpcUnsupportedVersion
    | AuthenticationFailed \<Rightarrow> RpcAuthenticationFailed
    | _ \<Rightarrow> RpcInvalidRequest)"

section \<open>The replay guard\<close>

record ReplayGuard =
  guard_seen :: "string set"
  guard_ordered :: "(nat \<times> string) list"

definition empty_guard :: ReplayGuard where
  "empty_guard = \<lparr>guard_seen = {}, guard_ordered = []\<rparr>"

definition RETENTION_SECONDS :: nat where "RETENTION_SECONDS = 5 * 60"

definition MAX_IDS :: nat where "MAX_IDS = 4096"

fun expire :: "nat \<Rightarrow> (nat \<times> string) list \<Rightarrow> string set \<Rightarrow> (nat \<times> string) list \<times> string set" where
  "expire now [] seen = ([], seen)"
| "expire now ((timestamp, i) # rest) seen =
    (if now - timestamp \<le> RETENTION_SECONDS \<and> Suc (length rest) \<le> MAX_IDS then ((timestamp, i) # rest, seen)
     else expire now rest (seen - {i}))"

definition accept_request_id :: "nat \<Rightarrow> string \<Rightarrow> nat \<Rightarrow> ReplayGuard \<Rightarrow> (DispatchError + unit) \<times> ReplayGuard" where
  "accept_request_id now i issued_at g =
    (case expire now (guard_ordered g) (guard_seen g) of (ordered, seen) \<Rightarrow>
       if i \<in> seen then (Inl (DispatchInvalid ''request has already been processed''),
         \<lparr>guard_seen = seen, guard_ordered = ordered\<rparr>)
       else (Inr (), \<lparr>guard_seen = insert i seen, guard_ordered = ordered @ [(issued_at, i)]\<rparr>))"

section \<open>Requests\<close>

datatype DesktopOperation = OperationWorkspace string

record 'w desktop =
  desktop_guard :: ReplayGuard
  desktop_guard_poisoned :: bool
  desktop_world :: 'w

record ('w, 'json) desktop_env =
  desktop_clock :: "'w \<Rightarrow> nat \<times> 'w"
  desktop_controller :: "LocalCommand \<Rightarrow> string \<Rightarrow> 'w \<Rightarrow> (DispatchError + 'json LocalResponse) \<times> 'w"
  desktop_activate :: "DesktopOperation \<Rightarrow> 'w \<Rightarrow> 'w"
  desktop_crypto :: crypto
  desktop_error_text :: "DispatchError \<Rightarrow> string"
  desktop_protocol_text :: "ProtocolError \<Rightarrow> string"

type_synonym ('w, 'json) desktop_answer = "'w desktop \<Rightarrow> 'json LocalResponse \<times> 'w desktop"

definition REQUEST_MAX_AGE :: nat where "REQUEST_MAX_AGE = 120"

definition request_is_fresh :: "nat \<Rightarrow> nat \<Rightarrow> bool" where
  "request_is_fresh now issued_at \<longleftrightarrow> (now - issued_at) + (issued_at - now) \<le> REQUEST_MAX_AGE"

definition read_clock :: "('w, 'json) desktop_env \<Rightarrow> 'w desktop \<Rightarrow> nat \<times> 'w desktop" where
  "read_clock env s = (case desktop_clock env (desktop_world s) of (now, w) \<Rightarrow> (now, s\<lparr>desktop_world := w\<rparr>))"

definition workspace_operation_for_response :: "'json LocalResponse \<Rightarrow> DesktopOperation option" where
  "workspace_operation_for_response r = (case r of
      RespOpened _ w _ \<Rightarrow> Some (OperationWorkspace (summary_id w))
    | RespFocused _ w \<Rightarrow> Some (OperationWorkspace (summary_id w))
    | _ \<Rightarrow> None)"

definition error_response :: "('w, 'json) desktop_env \<Rightarrow> string option \<Rightarrow> ProtocolError \<Rightarrow> 'json LocalResponse" where
  "error_response env i e = RespError i (protocol_error_code e) (desktop_protocol_text env e)"

definition dispatch_error :: "('w, 'json) desktop_env \<Rightarrow> string option \<Rightarrow> DispatchError \<Rightarrow> 'json LocalResponse" where
  "dispatch_error env i e = RespError i (dispatch_error_code e) (desktop_error_text env e)"

text \<open>The check of the id reads the clock again and holds the lock of the guard.\<close>

definition accept_now ::
  "('w, 'json) desktop_env \<Rightarrow> string \<Rightarrow> nat \<Rightarrow> 'w desktop \<Rightarrow> (DispatchError + unit) \<times> 'w desktop" where
  "accept_now env i issued_at s =
    (case read_clock env s of (now, s) \<Rightarrow>
       if desktop_guard_poisoned s then (Inl DispatchInternal, s)
       else (case accept_request_id now i issued_at (desktop_guard s) of (r, g) \<Rightarrow> (r, s\<lparr>desktop_guard := g\<rparr>)))"

definition run_request :: "('w, 'json) desktop_env \<Rightarrow> LocalCommand \<Rightarrow> string \<Rightarrow> ('w, 'json) desktop_answer" where
  "run_request env c i s =
    (case desktop_controller env c i (desktop_world s) of
       (Inl e, w) \<Rightarrow> (dispatch_error env None e, s\<lparr>desktop_world := w\<rparr>)
     | (Inr response, w) \<Rightarrow>
         (response, s\<lparr>desktop_world := (case workspace_operation_for_response response of
            None \<Rightarrow> w
          | Some operation \<Rightarrow> desktop_activate env operation w)\<rparr>))"

definition dispatch_request ::
  "('w, 'json) desktop_env \<Rightarrow> InstallationSecret \<Rightarrow> AuthProof LocalRequest \<Rightarrow> ('w, 'json) desktop_answer" where
  "dispatch_request env secret r s =
    (let i = req_request_id r in
     case validate_shape r of
       Inl e \<Rightarrow> (error_response env (Some i) e, s)
     | Inr _ \<Rightarrow>
         if \<not> is_ok (verify_request (desktop_crypto env) secret r)
         then (RespError (Some i) RpcAuthenticationFailed ''desktop authentication failed'', s)
         else (case read_clock env s of (now, s) \<Rightarrow>
           if \<not> request_is_fresh now (req_issued_at r)
           then (RespError (Some i) RpcInvalidRequest ''request timestamp is outside the allowed freshness window'', s)
           else (case accept_now env i (req_issued_at r) s of
             (Inl e, s) \<Rightarrow> (dispatch_error env (Some i) e, s)
           | (Inr _, s) \<Rightarrow> run_request env (req_command r) i s)))"

text \<open>One connection: one frame in, one frame out; the answer is lost when it cannot be written.\<close>

definition handle_connection ::
  "('w, 'json) desktop_env \<Rightarrow> AuthProof LocalRequest wire \<Rightarrow> 'json LocalResponse wire \<Rightarrow> InstallationSecret
    \<Rightarrow> string \<Rightarrow> 'w desktop \<Rightarrow> string option \<times> 'w desktop" where
  "handle_connection env requests responses secret bytes s =
    (let (response, s) = (case read_frame requests bytes of
         Inr (r, _) \<Rightarrow> dispatch_request env secret r s
       | Inl e \<Rightarrow> (RespError None RpcInvalidRequest (desktop_protocol_text env e), s))
     in (case write_frame responses [] response of
         Inr out \<Rightarrow> (Some out, s)
       | Inl e \<Rightarrow> (None, s)))"

end
