(* ===== verification/Desktop_Rpc_Props.thy ===== *)
theory Desktop_Rpc_Props
  imports Desktop_Rpc
begin

text \<open>
  What the desktop socket guarantees: the replay guard stays small and consistent, a request
  that was run is never run again, and a request that fails a check has no effect at all.
\<close>

section \<open>The guard\<close>

definition guard_ok :: "ReplayGuard \<Rightarrow> bool" where
  "guard_ok g \<longleftrightarrow> guard_seen g = snd ` set (guard_ordered g) \<and> distinct (map snd (guard_ordered g))
    \<and> length (guard_ordered g) \<le> Suc MAX_IDS"

lemma empty_guard_ok: "guard_ok empty_guard"
  by (simp add: guard_ok_def empty_guard_def)

lemma expire_ok:
  "distinct (map snd xs) \<Longrightarrow> expire now xs (snd ` set xs) = (ys, seen) \<Longrightarrow>
    seen = snd ` set ys \<and> suffix ys xs \<and> length ys \<le> MAX_IDS"
proof (induction now xs "snd ` set xs" arbitrary: ys seen rule: expire.induct)
  case (2 now t i rest)
  have rest: "insert i (snd ` set rest) - {i} = snd ` set rest" using "2.prems"(1) by auto
  show ?case
  proof (cases "now - t \<le> RETENTION_SECONDS \<and> Suc (length rest) \<le> MAX_IDS")
    case True
    then show ?thesis using "2.prems" by auto
  next
    case False
    have "seen = snd ` set ys \<and> suffix ys rest \<and> length ys \<le> MAX_IDS"
      by (rule "2.hyps" [OF False]) (use False "2.prems" rest in auto)
    then show ?thesis by (blast intro: suffix_ConsI)
  qed
qed (auto simp: MAX_IDS_def)

text \<open>The replay guard never holds more than 4097 ids, each once, and its set and its queue
  always agree, whatever requests and clock readings come.\<close>

theorem replay_guard_bounded:
  assumes "guard_ok g"
  shows "guard_ok (snd (accept_request_id now i t g))"
proof -
  obtain ys seen where e: "expire now (guard_ordered g) (guard_seen g) = (ys, seen)" by fastforce
  with assms expire_ok [of "guard_ordered g" now ys seen]
  have "seen = snd ` set ys" "suffix ys (guard_ordered g)" "length ys \<le> MAX_IDS" by (auto simp: guard_ok_def)
  moreover from this(2) have "distinct (map snd ys)"
    using assms by (auto simp: guard_ok_def suffix_def)
  ultimately show ?thesis by (auto simp: accept_request_id_def e guard_ok_def)
qed

lemma replay_guard_bounded_witness: "guard_ok (snd (accept_request_id 1000 ''r1'' 990 empty_guard))"
  by (rule replay_guard_bounded [OF empty_guard_ok])

text \<open>An id stays while its time is within the retention and few enough ids follow it.\<close>

definition remembers :: "nat \<Rightarrow> nat \<Rightarrow> string \<Rightarrow> ReplayGuard \<Rightarrow> bool" where
  "remembers k t i g \<longleftrightarrow> guard_ok g \<and> (\<exists>xs ys. guard_ordered g = xs @ (t, i) # ys \<and> length ys \<le> k)"

lemma expire_keeps:
  "now \<le> t + RETENTION_SECONDS \<Longrightarrow> length ys < MAX_IDS \<Longrightarrow> \<exists>xs'. fst (expire now (xs @ (t, i) # ys) seen) = xs' @ (t, i) # ys"
proof (induction xs arbitrary: seen)
  case (Cons x xs)
  obtain a b where x: "x = (a, b)" by (cases x)
  show ?case
  proof (cases "now - a \<le> RETENTION_SECONDS \<and> Suc (length (xs @ (t, i) # ys)) \<le> MAX_IDS")
    case True
    then show ?thesis by (auto simp: x intro: exI [of _ "(a, b) # xs"])
  next
    case False
    then show ?thesis using Cons.IH [OF Cons.prems, of "seen - {b}"] by (simp only: x append_Cons expire.simps if_False)
  qed
qed auto

lemma accept_remembers:
  assumes "remembers k t i g" "now \<le> t + RETENTION_SECONDS" "k < MAX_IDS"
  shows "remembers (Suc k) t i (snd (accept_request_id now j u g))" "\<not> is_ok (fst (accept_request_id now i u g))"
proof -
  obtain xs ys where g: "guard_ok g" "guard_ordered g = xs @ (t, i) # ys" "length ys \<le> k"
    using assms(1) by (auto simp: remembers_def)
  obtain os seen where e: "expire now (guard_ordered g) (guard_seen g) = (os, seen)" by fastforce
  obtain xs' where os: "os = xs' @ (t, i) # ys"
    using expire_keeps [of now t ys xs i "guard_seen g"] assms g e by auto
  have "seen = snd ` set os" using expire_ok [of "guard_ordered g" now os seen] g(1) e by (simp add: guard_ok_def)
  then show "\<not> is_ok (fst (accept_request_id now i u g))" using os by (simp add: accept_request_id_def e is_ok_def)
  have "\<exists>xs' ys'. guard_ordered (snd (accept_request_id now j u g)) = xs' @ (t, i) # ys' \<and> length ys' \<le> Suc k"
  proof (cases "j \<in> seen")
    case True
    then show ?thesis using os g(3) by (intro exI [of _ xs'] exI [of _ ys]) (simp add: accept_request_id_def e)
  next
    case False
    then show ?thesis using os g(3)
      by (intro exI [of _ xs'] exI [of _ "ys @ [(u, j)]"]) (simp add: accept_request_id_def e)
  qed
  then show "remembers (Suc k) t i (snd (accept_request_id now j u g))"
    using replay_guard_bounded [OF g(1)] by (simp add: remembers_def)
qed

lemma accepted_remembers:
  assumes "guard_ok g" "accept_request_id now i t g = (Inr u, g')"
  shows "remembers 0 t i g'"
  using assms replay_guard_bounded [OF assms(1), of now i t]
  by (auto simp: remembers_def accept_request_id_def split: prod.splits if_splits)

section \<open>Requests\<close>

definition demo_controller :: "LocalCommand \<Rightarrow> string \<Rightarrow> nat \<Rightarrow> (DispatchError + unit LocalResponse) \<times> nat" where
  "demo_controller c i w = (Inl (DispatchNotFound ''workspace''), Suc w)"

definition demo_crypto :: crypto where
  "demo_crypto = \<lparr>hex_encode = (\<lambda>b. b), hex_decode = Some, hmac_sha256 = (\<lambda>k b. k @ b),
    payload_cbor = (\<lambda>p. Some (payload_request_id p))\<rparr>"

definition demo_env :: "(nat, unit) desktop_env" where
  "demo_env = \<lparr>desktop_clock = (\<lambda>w. (w, Suc w)), desktop_controller = demo_controller,
    desktop_activate = (\<lambda>_ w. Suc w), desktop_crypto = demo_crypto,
    desktop_error_text = (\<lambda>_. ''error''), desktop_protocol_text = (\<lambda>_. ''protocol error'')\<rparr>"

definition demo_request :: "string \<Rightarrow> string \<Rightarrow> AuthProof LocalRequest" where
  "demo_request i mac =
    \<lparr>req_version = 5, req_request_id = i, req_issued_at = 100, req_command = ListWorkspaces,
     req_authentication = \<lparr>mac_hex = mac\<rparr>\<rparr>"

definition demo_desktop :: "nat desktop" where
  "demo_desktop = \<lparr>desktop_guard = empty_guard, desktop_guard_poisoned = False, desktop_world = 90\<rparr>"

text \<open>The checks between a frame and the controller.\<close>

definition admitted :: "('w, 'json) desktop_env \<Rightarrow> InstallationSecret \<Rightarrow> AuthProof LocalRequest \<Rightarrow> 'w desktop \<Rightarrow> bool" where
  "admitted env secret r s \<longleftrightarrow> validate_shape r = Inr () \<and> is_ok (verify_request (desktop_crypto env) secret r)
    \<and> (case read_clock env s of (now, s) \<Rightarrow> request_is_fresh now (req_issued_at r)
        \<and> is_ok (fst (accept_now env (req_request_id r) (req_issued_at r) s)))"

lemma same_clock:
  "read_clock (env\<lparr>desktop_controller := controller, desktop_activate := activate\<rparr>) = read_clock env"
  by (simp add: read_clock_def fun_eq_iff)

lemma same_accept:
  "accept_now (env\<lparr>desktop_controller := controller, desktop_activate := activate\<rparr>) = accept_now env"
  by (simp add: accept_now_def same_clock fun_eq_iff)

text \<open>C13: A request whose shape, proof, time or id is refused is answered with an error and has no
  effect: whatever the controller would do with it, the answer and the state are the same, and
  only the clock has been read and the guard been tidied.\<close>

theorem refused_requests_have_no_effect:
  assumes "\<not> admitted env secret r s"
  shows "\<exists>i code message s'. \<forall>controller activate.
    dispatch_request (env\<lparr>desktop_controller := controller, desktop_activate := activate\<rparr>) secret r s
      = (RespError i code message, s')"
proof -
  obtain now s1 where r: "read_clock env s = (now, s1)" by fastforce
  obtain v s2 where a: "accept_now env (req_request_id r) (req_issued_at r) s1 = (v, s2)" by fastforce
  note step = dispatch_request_def Let_def error_response_def dispatch_error_def same_clock same_accept r
  consider (shape) e where "validate_shape r = Inl e"
    | (forged) "validate_shape r = Inr ()" "\<not> is_ok (verify_request (desktop_crypto env) secret r)"
    | (old) "validate_shape r = Inr ()" "is_ok (verify_request (desktop_crypto env) secret r)"
        "\<not> request_is_fresh now (req_issued_at r)"
    | (seen) e where "validate_shape r = Inr ()" "is_ok (verify_request (desktop_crypto env) secret r)"
        "request_is_fresh now (req_issued_at r)" "v = Inl e"
    using assms a r by (cases "validate_shape r"; cases v) (auto simp: admitted_def is_ok_def)
  then show ?thesis
  proof cases
    case shape
    then show ?thesis by (auto simp: step)
  next
    case forged
    then show ?thesis by (auto simp: step)
  next
    case old
    then show ?thesis by (auto simp: step)
  next
    case seen
    then show ?thesis using a by (auto simp: step)
  qed
qed

lemma refused_requests_have_no_effect_witness:
  "\<exists>i code message s'. \<forall>controller activate.
    dispatch_request (demo_env\<lparr>desktop_controller := controller, desktop_activate := activate\<rparr>)
      (InstallationSecret ''key'') (demo_request ''r1'' ''guess'') demo_desktop = (RespError i code message, s')"
  by (rule refused_requests_have_no_effect) code_simp

section \<open>Replays\<close>

text \<open>What is relied on of the clock: it does not go back, and a request does not rest for more
  than three minutes between its two looks at it.\<close>

definition steady :: "('w, 'json) desktop_env \<Rightarrow> ('w \<Rightarrow> nat) \<Rightarrow> bool" where
  "steady env time \<longleftrightarrow>
    (\<forall>w. time w \<le> fst (desktop_clock env w) \<and> fst (desktop_clock env w) \<le> time (snd (desktop_clock env w)))
    \<and> (\<forall>w. fst (desktop_clock env (snd (desktop_clock env w))) \<le> fst (desktop_clock env w) + 180)
    \<and> (\<forall>c i w. time w \<le> time (snd (desktop_controller env c i w)))
    \<and> (\<forall>operation w. time w \<le> time (desktop_activate env operation w))"

abbreviation instant :: "('w \<Rightarrow> nat) \<Rightarrow> 'w desktop \<Rightarrow> nat" where
  "instant time s \<equiv> time (desktop_world s)"

lemma steady_read:
  assumes "steady env time" "read_clock env s = (now, s')"
  shows "instant time s \<le> now" "now \<le> instant time s'" "desktop_guard s' = desktop_guard s"
    "read_clock env s' = (now', s'') \<Longrightarrow> now' \<le> now + 180"
  using assms unfolding steady_def read_clock_def
  by (auto split: prod.splits) (metis fst_conv snd_conv)+

lemma steady_run:
  assumes "steady env time" "run_request env c i s = (a, s')"
  shows "instant time s \<le> instant time s'" "desktop_guard s' = desktop_guard s"
proof -
  obtain v w where c: "desktop_controller env c i (desktop_world s) = (v, w)" by fastforce
  have "instant time s \<le> time w" using assms(1) c unfolding steady_def by (metis snd_conv)
  moreover have "\<And>operation. time w \<le> time (desktop_activate env operation w)" using assms(1) by (simp add: steady_def)
  ultimately show "instant time s \<le> instant time s'" "desktop_guard s' = desktop_guard s"
    using assms(2) c by (auto simp: run_request_def split: sum.splits option.splits intro: order_trans)
qed

text \<open>The id of a request that was run: remembered, or so old that its request is refused.\<close>

definition kept_out :: "('w \<Rightarrow> nat) \<Rightarrow> nat \<Rightarrow> nat \<Rightarrow> string \<Rightarrow> 'w desktop \<Rightarrow> bool" where
  "kept_out time k t i s \<longleftrightarrow> remembers k t i (desktop_guard s) \<or> t + RETENTION_SECONDS < instant time s"

lemma remembers_mono: "remembers k t i g \<Longrightarrow> k \<le> m \<Longrightarrow> remembers m t i g"
  unfolding remembers_def by (meson le_trans)

lemma kept_out_later:
  "kept_out time k t i s \<Longrightarrow> k \<le> m \<Longrightarrow> instant time s \<le> instant time s' \<Longrightarrow> desktop_guard s' = desktop_guard s \<Longrightarrow>
    kept_out time m t i s'"
  unfolding kept_out_def by (metis remembers_mono order_less_le_trans)

lemma accept_keeps_out:
  assumes "steady env time" "accept_now env j u s = (v, s')" "kept_out time k t i s" "k < MAX_IDS"
  shows "kept_out time (Suc k) t i s'" "instant time s \<le> instant time s'"
proof -
  obtain now s1 where r: "read_clock env s = (now, s1)" by fastforce
  note time = steady_read [OF assms(1) r]
  have s': "s' = s1 \<or> s' = s1\<lparr>desktop_guard := snd (accept_request_id now j u (desktop_guard s))\<rparr>"
    using assms(2) time(3) by (auto simp: accept_now_def r split: if_splits prod.splits)
  then have t: "now \<le> instant time s'" using time(2) by auto
  then show "instant time s \<le> instant time s'" using time(1) by linarith
  show "kept_out time (Suc k) t i s'"
  proof (cases "t + RETENTION_SECONDS < now")
    case True
    then show ?thesis using t by (simp add: kept_out_def)
  next
    case False
    then have "remembers k t i (desktop_guard s)" using assms(3) time(1) by (auto simp: kept_out_def)
    then have "remembers (Suc k) t i (desktop_guard s')"
      using s' time(3) False accept_remembers(1) [of k t i "desktop_guard s" now j u] assms(4) remembers_mono
      by auto
    then show ?thesis by (simp add: kept_out_def)
  qed
qed

lemma dispatch_keeps_out:
  assumes "steady env time" "kept_out time k t i s" "k < MAX_IDS"
  shows "kept_out time (Suc k) t i (snd (dispatch_request env secret r s))"
proof -
  obtain now s1 where r: "read_clock env s = (now, s1)" by fastforce
  obtain v s2 where a: "accept_now env (req_request_id r) (req_issued_at r) s1 = (v, s2)" by fastforce
  obtain b s3 where d: "run_request env (req_command r) (req_request_id r) s2 = (b, s3)" by fastforce
  note time = steady_read [OF assms(1) r]
  have s: "kept_out time (Suc k) t i s" by (rule kept_out_later [OF assms(2)]) auto
  have k1: "kept_out time k t i s1" by (rule kept_out_later [OF assms(2)]) (use time in auto)
  have s1: "kept_out time (Suc k) t i s1" by (rule kept_out_later [OF k1]) auto
  note s2 = accept_keeps_out(1) [OF assms(1) a k1 assms(3)]
  have s3: "kept_out time (Suc k) t i s3"
    by (rule kept_out_later [OF s2]) (use steady_run [OF assms(1) d] in auto)
  show ?thesis using s s1 s2 s3 a d r
    by (auto simp: dispatch_request_def Let_def split: sum.splits)
qed

fun answer_all :: "('w, 'json) desktop_env \<Rightarrow> InstallationSecret \<Rightarrow> AuthProof LocalRequest list \<Rightarrow> 'w desktop \<Rightarrow> 'w desktop" where
  "answer_all env secret [] s = s"
| "answer_all env secret (r # rs) s = answer_all env secret rs (snd (dispatch_request env secret r s))"

lemma answering_keeps_out:
  assumes "steady env time"
  shows "kept_out time k t i s \<Longrightarrow> k + length rs \<le> MAX_IDS \<Longrightarrow> kept_out time (k + length rs) t i (answer_all env secret rs s)"
proof (induction rs arbitrary: k s)
  case (Cons r rs)
  have "kept_out time (Suc k) t i (snd (dispatch_request env secret r s))"
    by (rule dispatch_keeps_out [OF assms Cons.prems(1)]) (use Cons.prems(2) in auto)
  from Cons.IH [OF this] Cons.prems(2) show ?case by simp
qed simp

lemma kept_out_refused:
  assumes "steady env time" "kept_out time k (req_issued_at r) (req_request_id r) s" "k < MAX_IDS"
  shows "\<not> admitted env secret r s"
proof
  assume "admitted env secret r s"
  moreover obtain now s1 where r: "read_clock env s = (now, s1)" by fastforce
  moreover obtain later s2 where r': "read_clock env s1 = (later, s2)" by fastforce
  ultimately have fresh: "request_is_fresh now (req_issued_at r)"
    and ok: "is_ok (fst (accept_request_id later (req_request_id r) (req_issued_at r) (desktop_guard s2)))"
    by (auto simp: admitted_def accept_now_def is_ok_def split: if_splits prod.splits sum.splits)
  note time = steady_read [OF assms(1) r]
  have "instant time s \<le> now" "later \<le> req_issued_at r + RETENTION_SECONDS"
    using fresh time(1) time(4) [OF r'] by (auto simp: request_is_fresh_def REQUEST_MAX_AGE_def RETENTION_SECONDS_def)
  moreover have "now \<le> req_issued_at r + RETENTION_SECONDS"
    using fresh by (auto simp: request_is_fresh_def REQUEST_MAX_AGE_def RETENTION_SECONDS_def)
  ultimately have "remembers k (req_issued_at r) (req_request_id r) (desktop_guard s2)"
    using assms(2) time(3) steady_read(3) [OF assms(1) r'] by (auto simp: kept_out_def)
  from accept_remembers(2) [OF this \<open>later \<le> _\<close> assms(3)] ok show False by simp
qed

lemma admitted_kept_out:
  assumes "steady env time" "guard_ok (desktop_guard s)" "admitted env secret r s"
  shows "kept_out time 0 (req_issued_at r) (req_request_id r) (snd (dispatch_request env secret r s))"
proof -
  obtain now s1 where r: "read_clock env s = (now, s1)" by fastforce
  obtain later s2 where r': "read_clock env s1 = (later, s2)" by fastforce
  obtain v g where a: "accept_request_id later (req_request_id r) (req_issued_at r) (desktop_guard s2) = (v, g)" by fastforce
  let ?s3 = "s2\<lparr>desktop_guard := g\<rparr>"
  obtain b s4 where d: "run_request env (req_command r) (req_request_id r) ?s3 = (b, s4)" by fastforce
  have v: "v = Inr ()" and s4: "snd (dispatch_request env secret r s) = s4"
    using assms(3) r r' a d
    by (auto simp: admitted_def accept_now_def dispatch_request_def Let_def is_ok_def split: if_splits sum.splits)
  have "remembers 0 (req_issued_at r) (req_request_id r) g"
    by (rule accepted_remembers [OF _ a [unfolded v]])
      (use assms(2) steady_read(3) [OF assms(1) r] steady_read(3) [OF assms(1) r'] in simp)
  then show ?thesis using steady_run(2) [OF assms(1) d] by (simp add: s4 kept_out_def)
qed

text \<open>C12: A request that was run is not run again: after it, and after any further requests (fewer than
  4096 of them), a request with its id and its time is refused, whoever sends it.\<close>

theorem request_runs_once:
  assumes "steady env time" "guard_ok (desktop_guard s)" "admitted env secret r s"
    "length rs < MAX_IDS" "req_request_id r' = req_request_id r" "req_issued_at r' = req_issued_at r"
  shows "\<not> admitted env secret r' (answer_all env secret rs (snd (dispatch_request env secret r s)))"
proof -
  have "kept_out time (0 + length rs) (req_issued_at r) (req_request_id r)
      (answer_all env secret rs (snd (dispatch_request env secret r s)))"
    by (rule answering_keeps_out [OF assms(1) admitted_kept_out [OF assms(1-3)]]) (use assms(4) in simp)
  then show ?thesis using kept_out_refused [OF assms(1), of "length rs" r'] assms(4-6) by simp
qed

lemma request_runs_once_witness:
  "\<not> admitted demo_env (InstallationSecret ''key'') (demo_request ''r1'' ''keyr1'')
    (answer_all demo_env (InstallationSecret ''key'') [demo_request ''r2'' ''keyr2'']
      (snd (dispatch_request demo_env (InstallationSecret ''key'') (demo_request ''r1'' ''keyr1'') demo_desktop)))"
proof (rule request_runs_once)
  show "steady demo_env (\<lambda>w. w)" by (simp add: steady_def demo_env_def demo_controller_def)
  show "guard_ok (desktop_guard demo_desktop)" using empty_guard_ok by (simp add: demo_desktop_def)
  show "admitted demo_env (InstallationSecret ''key'') (demo_request ''r1'' ''keyr1'') demo_desktop"
    by code_simp
qed (simp_all add: MAX_IDS_def)

end
