(* ===== verification/Desktop_Jobs.thy ===== *)
theory Desktop_Jobs
  imports Desktop_Rpc
begin

text \<open>
  \<open>src-tauri/src/controller.rs\<close>, the scheduling of presentation work: the registry of the
  viewport job of each file and the pool of workers.  A cancellation is a cell shared by its
  clones (an \<open>Arc\<close> of an atomic), so it is a number here and the state holds the cells that were
  set.  The shared state of the pool is one \<open>nat\<close>; an acquisition is the turns of its loop.
\<close>

section \<open>Jobs and leases\<close>

type_synonym cancellation = nat

record PresentationJob =
  job_generation :: nat
  job_highlight :: cancellation
  job_difftastic :: cancellation

record PresentationJobLease =
  lease_file :: string
  lease_generation :: nat
  lease_tracked :: bool
  lease_highlight :: cancellation
  lease_difftastic :: cancellation

record PresentationJobRegistry =
  registered :: "string \<rightharpoonup> PresentationJob"
  job_order :: "string list"
  cancelled :: "cancellation set"
  fresh_cancellation :: cancellation

definition no_jobs :: PresentationJobRegistry where
  "no_jobs = \<lparr>registered = Map.empty, job_order = [], cancelled = {}, fresh_cancellation = 0\<rparr>"

definition MAX_PRESENTATION_JOBS :: nat where "MAX_PRESENTATION_JOBS = 128"

definition MAX_PRESENTATION_WORKERS :: nat where "MAX_PRESENTATION_WORKERS = 4"

definition new_cancellation :: "PresentationJobRegistry \<Rightarrow> cancellation \<times> PresentationJobRegistry" where
  "new_cancellation s = (fresh_cancellation s, s\<lparr>fresh_cancellation := Suc (fresh_cancellation s)\<rparr>)"

definition cancel_job :: "PresentationJob \<Rightarrow> PresentationJobRegistry \<Rightarrow> PresentationJobRegistry" where
  "cancel_job job s = s\<lparr>cancelled := insert (job_difftastic job) (insert (job_highlight job) (cancelled s))\<rparr>"

definition ephemeral ::
  "string \<Rightarrow> nat \<Rightarrow> PresentationJobRegistry \<Rightarrow> PresentationJobLease \<times> PresentationJobRegistry" where
  "ephemeral file generation s =
    (case new_cancellation s of (h, s) \<Rightarrow> (case new_cancellation s of (d, s) \<Rightarrow>
      (\<lparr>lease_file = file, lease_generation = generation, lease_tracked = False,
        lease_highlight = h, lease_difftastic = d\<rparr>, s)))"

definition is_cancelled :: "PresentationJobLease \<Rightarrow> PresentationJobRegistry \<Rightarrow> bool" where
  "is_cancelled lease s \<longleftrightarrow> lease_highlight lease \<in> cancelled s \<or> lease_difftastic lease \<in> cancelled s"

definition job_lease :: "string \<Rightarrow> PresentationJob \<Rightarrow> PresentationJobLease" where
  "job_lease file job =
    \<lparr>lease_file = file, lease_generation = job_generation job, lease_tracked = True,
     lease_highlight = job_highlight job, lease_difftastic = job_difftastic job\<rparr>"

definition touch :: "string \<Rightarrow> PresentationJobRegistry \<Rightarrow> PresentationJobRegistry" where
  "touch file s = s\<lparr>job_order := filter (\<lambda>c. c \<noteq> file) (job_order s) @ [file]\<rparr>"

definition expire_job :: "string \<Rightarrow> PresentationJobRegistry \<Rightarrow> PresentationJobRegistry" where
  "expire_job file s =
    (case registered s file of
       None \<Rightarrow> s
     | Some job \<Rightarrow> cancel_job job (s\<lparr>registered := (registered s)(file := None)\<rparr>))"

lemma job_order_expire_job [simp]: "job_order (expire_job file s) = job_order s"
  by (simp add: expire_job_def cancel_job_def split: option.splits)

function evict :: "PresentationJobRegistry \<Rightarrow> PresentationJobRegistry" where
  "evict s = (case job_order s of
      [] \<Rightarrow> s
    | expired # rest \<Rightarrow>
        if length (job_order s) > MAX_PRESENTATION_JOBS
        then evict (expire_job expired (s\<lparr>job_order := rest\<rparr>)) else s)"
  by auto

termination
  by (relation "measure (\<lambda>s. length (job_order s))") auto

declare evict.simps [simp del]

definition install_job ::
  "string \<Rightarrow> nat \<Rightarrow> PresentationJobRegistry \<Rightarrow> PresentationJobLease \<times> PresentationJobRegistry" where
  "install_job file generation s =
    (case new_cancellation s of (h, s) \<Rightarrow> (case new_cancellation s of (d, s) \<Rightarrow>
      let job = \<lparr>job_generation = generation, job_highlight = h, job_difftastic = d\<rparr>
      in (job_lease file job, evict (touch file (s\<lparr>registered := (registered s)(file \<mapsto> job)\<rparr>)))))"

definition acquire_job ::
  "ReviewFileId \<Rightarrow> nat \<Rightarrow> PresentationJobRegistry \<Rightarrow>
    (DispatchError + PresentationJobLease) \<times> PresentationJobRegistry" where
  "acquire_job f generation s =
    (let file = show_file_id f in
     if generation = 0 then (case ephemeral file generation s of (lease, s) \<Rightarrow> (Inr lease, s))
     else (case registered s file of
         None \<Rightarrow> (case install_job file generation s of (lease, s) \<Rightarrow> (Inr lease, s))
       | Some existing \<Rightarrow>
           if generation < job_generation existing then (Inl DispatchCancelled, s)
           else if generation = job_generation existing then (Inr (job_lease file existing), touch file s)
           else (case install_job file generation (cancel_job existing s) of (lease, s) \<Rightarrow> (Inr lease, s))))"

definition job_is_current :: "PresentationJobLease \<Rightarrow> PresentationJobRegistry \<Rightarrow> bool" where
  "job_is_current lease s \<longleftrightarrow> \<not> lease_tracked lease \<or> (\<not> is_cancelled lease s \<and>
    (case registered s (lease_file lease) of
       None \<Rightarrow> False
     | Some job \<Rightarrow> job_generation job = lease_generation lease \<and>
         job_highlight job \<notin> cancelled s \<and> job_difftastic job \<notin> cancelled s))"

definition cancel_file :: "ReviewFileId \<Rightarrow> PresentationJobRegistry \<Rightarrow> PresentationJobRegistry" where
  "cancel_file f s =
    (let s = expire_job (show_file_id f) s
     in s\<lparr>job_order := filter (\<lambda>c. c \<noteq> show_file_id f) (job_order s)\<rparr>)"

definition ensure_presentation_job_current ::
  "bool \<Rightarrow> PresentationJobLease \<Rightarrow> PresentationJobRegistry \<Rightarrow> DispatchError + unit" where
  "ensure_presentation_job_current poisoned lease s =
    (if is_cancelled lease s then Inl DispatchCancelled
     else if poisoned then Inl DispatchInternal
     else ensure (job_is_current lease s) DispatchCancelled)"

section \<open>The pool of workers\<close>

record PresentationWorkPool =
  pool_available :: nat
  pool_maximum :: nat

definition new_pool :: "nat \<Rightarrow> PresentationWorkPool" where
  "new_pool maximum = \<lparr>pool_available = max 1 maximum, pool_maximum = max 1 maximum\<rparr>"

text \<open>One turn of the loop of an acquisition: an error, a permit, or (\<open>None\<close>) another turn
  when the pool is woken or eight milliseconds have passed.\<close>

definition acquire_turn ::
  "bool \<Rightarrow> PresentationWorkPool \<Rightarrow> (DispatchError + unit) option \<times> PresentationWorkPool" where
  "acquire_turn stop pool =
    (if stop then (Some (Inl DispatchCancelled), pool)
     else if 0 < pool_available pool
     then (Some (Inr ()), pool\<lparr>pool_available := pool_available pool - 1\<rparr>)
     else (None, pool))"

definition release_permit :: "PresentationWorkPool \<Rightarrow> PresentationWorkPool" where
  "release_permit pool = pool\<lparr>pool_available := min (pool_available pool + 1) (pool_maximum pool)\<rparr>"

section \<open>Steps of the two\<close>

datatype job_operation = AcquireJob ReviewFileId nat | CancelFile ReviewFileId

fun run_job_operation :: "job_operation \<Rightarrow> PresentationJobRegistry \<Rightarrow> PresentationJobRegistry" where
  "run_job_operation (AcquireJob f generation) s = snd (acquire_job f generation s)"
| "run_job_operation (CancelFile f) s = cancel_file f s"

definition run_job_operations :: "job_operation list \<Rightarrow> PresentationJobRegistry \<Rightarrow> PresentationJobRegistry" where
  "run_job_operations operations s = foldl (\<lambda>s operation. run_job_operation operation s) s operations"

text \<open>The threads of the pool: those that wait in the loop and those that hold a permit.\<close>

record pool_threads =
  pool_of :: PresentationWorkPool
  waiting_threads :: "nat set"
  working_threads :: "nat set"

inductive pool_step :: "pool_threads \<Rightarrow> pool_threads \<Rightarrow> bool" where
  pool_enters: "thread \<notin> waiting_threads s \<union> working_threads s \<Longrightarrow>
    pool_step s (s\<lparr>waiting_threads := insert thread (waiting_threads s)\<rparr>)"
| pool_granted: "thread \<in> waiting_threads s \<Longrightarrow> acquire_turn stop (pool_of s) = (Some (Inr ()), pool) \<Longrightarrow>
    pool_step s (s\<lparr>pool_of := pool, waiting_threads := waiting_threads s - {thread},
      working_threads := insert thread (working_threads s)\<rparr>)"
| pool_refused: "thread \<in> waiting_threads s \<Longrightarrow> acquire_turn stop (pool_of s) = (Some (Inl e), pool) \<Longrightarrow>
    pool_step s (s\<lparr>pool_of := pool, waiting_threads := waiting_threads s - {thread}\<rparr>)"
| pool_waits: "thread \<in> waiting_threads s \<Longrightarrow> acquire_turn stop (pool_of s) = (None, pool) \<Longrightarrow>
    pool_step s (s\<lparr>pool_of := pool\<rparr>)"
| pool_drops: "thread \<in> working_threads s \<Longrightarrow>
    pool_step s (s\<lparr>pool_of := release_permit (pool_of s), working_threads := working_threads s - {thread}\<rparr>)"

definition idle_pool :: "nat \<Rightarrow> pool_threads" where
  "idle_pool maximum = \<lparr>pool_of = new_pool maximum, waiting_threads = {}, working_threads = {}\<rparr>"

end
