(* ===== verification/Desktop_Jobs_Props.thy ===== *)
theory Desktop_Jobs_Props
  imports Desktop_Jobs
begin

text \<open>
  The registry of presentation jobs is bounded and a superseded job never becomes current
  again; the pool runs at most as many workers as it was made for and a free worker is never
  lost.
\<close>

section \<open>The registry\<close>

text \<open>The queue and the map name the same files; the cells of the registered jobs are all
  different, in use and not set.\<close>

definition job_cells :: "PresentationJob \<Rightarrow> cancellation set" where
  "job_cells job = {job_highlight job, job_difftastic job}"

definition jobs_consistent :: "PresentationJobRegistry \<Rightarrow> bool" where
  "jobs_consistent s \<longleftrightarrow> distinct (job_order s) \<and> set (job_order s) = dom (registered s)
    \<and> (\<forall>file job. registered s file = Some job \<longrightarrow>
        job_cells job \<subseteq> {..<fresh_cancellation s} - cancelled s)
    \<and> (\<forall>f g j k. registered s f = Some j \<longrightarrow> registered s g = Some k \<longrightarrow> f \<noteq> g \<longrightarrow> job_cells j \<inter> job_cells k = {})
    \<and> cancelled s \<subseteq> {..<fresh_cancellation s}"

definition jobs_ok :: "PresentationJobRegistry \<Rightarrow> bool" where
  "jobs_ok s \<longleftrightarrow> jobs_consistent s \<and> length (job_order s) \<le> MAX_PRESENTATION_JOBS"

text \<open>A lease that was given out is cancelled or is the lease of a registered job.\<close>

definition given_out :: "PresentationJobLease \<Rightarrow> PresentationJobRegistry \<Rightarrow> bool" where
  "given_out lease s \<longleftrightarrow> is_cancelled lease s \<or>
    (\<exists>job. registered s (lease_file lease) = Some job \<and> lease = job_lease (lease_file lease) job)"

lemma no_jobs_ok: "jobs_ok no_jobs"
  by (simp add: jobs_ok_def jobs_consistent_def no_jobs_def)

lemma cancel_job_simps [simp]:
  "registered (cancel_job job s) = registered s" "job_order (cancel_job job s) = job_order s"
  "fresh_cancellation (cancel_job job s) = fresh_cancellation s"
  "cancelled (cancel_job job s) = job_cells job \<union> cancelled s"
  by (auto simp: cancel_job_def job_cells_def)

lemma touch_simps [simp]:
  "registered (touch file s) = registered s" "cancelled (touch file s) = cancelled s"
  "fresh_cancellation (touch file s) = fresh_cancellation s"
  "job_order (touch file s) = filter (\<lambda>c. c \<noteq> file) (job_order s) @ [file]"
  by (simp_all add: touch_def)

lemma jobs_fresh: "jobs_consistent s \<Longrightarrow> registered s f = Some j \<Longrightarrow> job_cells j \<subseteq> {..<fresh_cancellation s}"
  by (auto simp: jobs_consistent_def)

lemma jobs_unset: "jobs_consistent s \<Longrightarrow> registered s f = Some j \<Longrightarrow> job_cells j \<inter> cancelled s = {}"
  by (auto simp: jobs_consistent_def)

lemma jobs_apart:
  "jobs_consistent s \<Longrightarrow> registered s f = Some j \<Longrightarrow> registered s g = Some k \<Longrightarrow> f \<noteq> g \<Longrightarrow> job_cells j \<inter> job_cells k = {}"
  by (simp add: jobs_consistent_def)

lemma jobs_consistent_iff:
  "jobs_consistent s \<longleftrightarrow> distinct (job_order s) \<and> set (job_order s) = dom (registered s)
    \<and> (\<forall>f j. registered s f = Some j \<longrightarrow> job_cells j \<subseteq> {..<fresh_cancellation s} \<and> job_cells j \<inter> cancelled s = {})
    \<and> (\<forall>f g j k. registered s f = Some j \<longrightarrow> registered s g = Some k \<longrightarrow> f \<noteq> g \<longrightarrow> job_cells j \<inter> job_cells k = {})
    \<and> cancelled s \<subseteq> {..<fresh_cancellation s}"
  unfolding jobs_consistent_def by blast

text \<open>Removing a job, with its cells set, keeps everything but the queue, which its callers adjust.\<close>

lemma expire_job_simps:
  "registered (expire_job file s) = (registered s)(file := None)"
  "fresh_cancellation (expire_job file s) = fresh_cancellation s"
  "cancelled s \<subseteq> cancelled (expire_job file s)"
  by (auto simp: expire_job_def split: option.splits)

lemma expire_job_consistent:
  assumes "jobs_consistent s"
  shows "jobs_consistent (expire_job file s\<lparr>job_order := filter (\<lambda>c. c \<noteq> file) (job_order s)\<rparr>)"
proof (cases "registered s file")
  case None
  then have "filter (\<lambda>c. c \<noteq> file) (job_order s) = job_order s"
    using assms by (auto simp: jobs_consistent_def filter_id_conv)
  then show ?thesis using assms None by (simp add: expire_job_def)
next
  case (Some job)
  have "job_cells job \<subseteq> {..<fresh_cancellation s}" by (rule jobs_fresh [OF assms Some])
  moreover have "job_cells k \<inter> job_cells job = {}" if "registered s f = Some k" "f \<noteq> file" for f k
    by (rule jobs_apart [OF assms that(1) Some that(2)])
  moreover note jobs_unset [OF assms] jobs_fresh [OF assms] jobs_apart [OF assms]
  ultimately show ?thesis
    using assms Some by (simp add: jobs_consistent_iff expire_job_def) blast
qed

lemma is_cancelled_mono: "is_cancelled lease s \<Longrightarrow> cancelled s \<subseteq> cancelled s' \<Longrightarrow> is_cancelled lease s'"
  by (auto simp: is_cancelled_def)

lemma is_cancelled_job: "job_cells job \<subseteq> cancelled s \<Longrightarrow> is_cancelled (job_lease file job) s"
  by (simp add: is_cancelled_def job_lease_def job_cells_def)

text \<open>An operation that sets the cells of the jobs it drops keeps the leases accounted for.\<close>

lemma given_out_kept:
  assumes "given_out lease s" "cancelled s \<subseteq> cancelled s'"
    "\<And>job. registered s (lease_file lease) = Some job \<Longrightarrow>
      registered s' (lease_file lease) = Some job \<or> job_cells job \<subseteq> cancelled s'"
  shows "given_out lease s'"
proof (cases "is_cancelled lease s")
  case True
  then show ?thesis using is_cancelled_mono [OF _ assms(2)] by (simp add: given_out_def)
next
  case False
  then obtain job where "registered s (lease_file lease) = Some job" "lease = job_lease (lease_file lease) job"
    using assms(1) by (auto simp: given_out_def)
  then show ?thesis using assms(3) is_cancelled_job [of job s' "lease_file lease"] by (auto simp: given_out_def)
qed

lemma expire_job_given_out:
  assumes "given_out lease s"
  shows "given_out lease (expire_job file s)"
proof (rule given_out_kept [OF assms expire_job_simps(3)])
  fix job assume "registered s (lease_file lease) = Some job"
  then show "registered (expire_job file s) (lease_file lease) = Some job \<or> job_cells job \<subseteq> cancelled (expire_job file s)"
    by (cases "lease_file lease = file") (simp_all add: expire_job_simps(1), simp add: expire_job_def)
qed

lemma job_order_rest:
  assumes "jobs_consistent s" "job_order s = f # rest"
  shows "expire_job f (s\<lparr>job_order := rest\<rparr>) = expire_job f s\<lparr>job_order := filter (\<lambda>c. c \<noteq> f) (job_order s)\<rparr>"
proof -
  have "filter (\<lambda>c. c \<noteq> f) rest = rest" using assms by (auto simp: jobs_consistent_def filter_id_conv)
  then show ?thesis using assms(2) by (auto simp: expire_job_def cancel_job_def split: option.splits)
qed

lemma evict_keeps:
  "jobs_consistent s \<Longrightarrow> jobs_ok (evict s) \<and> (\<forall>lease. given_out lease s \<longrightarrow> given_out lease (evict s))
    \<and> cancelled s \<subseteq> cancelled (evict s)
    \<and> (job_order s \<noteq> [] \<longrightarrow> registered (evict s) (last (job_order s)) = registered s (last (job_order s)))"
proof (induction s rule: evict.induct)
  case (1 s)
  show ?case
  proof (cases "MAX_PRESENTATION_JOBS < length (job_order s)")
    case False
    then have "evict s = s" by (cases "job_order s") (auto simp: evict.simps [of s])
    then show ?thesis using False 1 by (simp add: jobs_ok_def)
  next
    case True
    then obtain f rest where s: "job_order s = f # rest" by (cases "job_order s") auto
    let ?t = "expire_job f (s\<lparr>job_order := rest\<rparr>)"
    have e: "evict s = evict ?t" using True by (simp add: evict.simps [of s] s)
    have t: "jobs_consistent ?t"
      unfolding job_order_rest [OF 1(2) s] by (rule expire_job_consistent [OF 1(2)])
    have "rest \<noteq> []" using True s by (auto simp: MAX_PRESENTATION_JOBS_def)
    then have "last rest \<noteq> f" using 1(2) s last_in_set [of rest] by (auto simp: jobs_consistent_def)
    moreover have "given_out lease ?t" if "given_out lease s" for lease
      using expire_job_given_out [of lease s f] that by (simp add: job_order_rest [OF 1(2) s] given_out_def is_cancelled_def)
    moreover have "cancelled s \<subseteq> cancelled ?t"
      using expire_job_simps(3) [of s f] by (simp add: job_order_rest [OF 1(2) s])
    ultimately show ?thesis
      using 1(1) [OF s True t] \<open>rest \<noteq> []\<close> by (auto simp add: e s expire_job_simps)
  qed
qed

section \<open>Operations\<close>

definition dropped_cells :: "string \<Rightarrow> PresentationJobRegistry \<Rightarrow> cancellation set" where
  "dropped_cells file s = (case registered s file of None \<Rightarrow> {} | Some job \<Rightarrow> job_cells job)"

text \<open>A new job: the state before the eviction, from a consistent one whose old job was cancelled.\<close>

definition with_new_job :: "string \<Rightarrow> nat \<Rightarrow> PresentationJobRegistry \<Rightarrow> PresentationJobRegistry" where
  "with_new_job file generation s =
    \<lparr>registered = (registered s)(file \<mapsto> \<lparr>job_generation = generation, job_highlight = fresh_cancellation s,
        job_difftastic = Suc (fresh_cancellation s)\<rparr>),
     job_order = filter (\<lambda>c. c \<noteq> file) (job_order s) @ [file],
     cancelled = cancelled s \<union> dropped_cells file s,
     fresh_cancellation = Suc (Suc (fresh_cancellation s))\<rparr>"

lemma with_new_job_consistent:
  assumes "jobs_consistent s"
  shows "jobs_consistent (with_new_job file generation s)"
proof -
  let ?n = "fresh_cancellation s"
  have old: "job_cells j \<subseteq> {..<?n}" "job_cells j \<inter> cancelled s = {}" if "registered s f = Some j" for f j
    using jobs_fresh [OF assms that] jobs_unset [OF assms that] by auto
  have apart: "job_cells j \<inter> dropped_cells file s = {}" if "registered s f = Some j" "f \<noteq> file" for f j
    using jobs_apart [OF assms that(1) _ that(2)] by (auto simp: dropped_cells_def split: option.splits)
  have dropped: "dropped_cells file s \<subseteq> {..<?n}" "cancelled s \<subseteq> {..<?n}"
    using old(1) assms by (auto simp: dropped_cells_def jobs_consistent_def split: option.splits)
  show ?thesis unfolding jobs_consistent_iff
  proof (intro conjI allI impI)
    fix f j assume f: "registered (with_new_job file generation s) f = Some j"
    show "job_cells j \<subseteq> {..<fresh_cancellation (with_new_job file generation s)}"
      using f old(1) [of f j] by (fastforce simp: with_new_job_def job_cells_def split: if_splits)
    show "job_cells j \<inter> cancelled (with_new_job file generation s) = {}"
      using f old [of f j] apart [of f j] dropped
      by (cases "f = file") (auto simp: with_new_job_def job_cells_def)
  next
    fix f g j k
    assume "registered (with_new_job file generation s) f = Some j"
      "registered (with_new_job file generation s) g = Some k" "f \<noteq> g"
    then show "job_cells j \<inter> job_cells k = {}"
      using jobs_apart [OF assms, of f j g k] old(1) [of f j] old(1) [of g k]
      by (auto simp: with_new_job_def job_cells_def split: if_splits)
  qed (use assms dropped in \<open>auto simp: jobs_consistent_def with_new_job_def\<close>)
qed

lemma with_new_job_given_out: "given_out lease s \<Longrightarrow> given_out lease (with_new_job file generation s)"
  by (erule given_out_kept) (auto simp: with_new_job_def dropped_cells_def)

lemma with_new_job_eq:
  "with_new_job file generation s = touch file (s\<lparr>fresh_cancellation := Suc (Suc (fresh_cancellation s)),
    registered := (registered s)(file \<mapsto> \<lparr>job_generation = generation, job_highlight = fresh_cancellation s,
        job_difftastic = Suc (fresh_cancellation s)\<rparr>),
    cancelled := cancelled s \<union> dropped_cells file s\<rparr>)"
  by (rule PresentationJobRegistry.equality) (simp_all add: with_new_job_def)

lemma install_job_eq:
  "registered s file = None \<Longrightarrow>
    install_job file generation s = (job_lease file (the (registered (with_new_job file generation s) file)), evict (with_new_job file generation s))"
  "registered s file = Some existing \<Longrightarrow>
    install_job file generation (cancel_job existing s) =
      (job_lease file (the (registered (with_new_job file generation s) file)), evict (with_new_job file generation s))"
  unfolding with_new_job_eq install_job_def new_cancellation_def Let_def cancel_job_def dropped_cells_def job_cells_def
  by (auto simp: Un_commute intro!: arg_cong [where f = evict] arg_cong [where f = "touch file"] PresentationJobRegistry.equality)

lemma with_new_job_last [simp]: "job_order (with_new_job file generation s) \<noteq> []" "last (job_order (with_new_job file generation s)) = file"
  "registered (with_new_job file generation s) file = Some \<lparr>job_generation = generation, job_highlight = fresh_cancellation s,
        job_difftastic = Suc (fresh_cancellation s)\<rparr>"
  "cancelled (with_new_job file generation s) = cancelled s \<union> dropped_cells file s"
  by (simp_all add: with_new_job_def)

text \<open>What an acquisition does, in its five cases.\<close>

lemma acquire_job_cases:
  obtains (ephemeral) lease where "generation = 0" "lease_tracked lease = False"
      "acquire_job f generation s = (Inr lease, s\<lparr>fresh_cancellation := Suc (Suc (fresh_cancellation s))\<rparr>)"
  | (refused) job where "generation \<noteq> 0" "registered s (show_file_id f) = Some job" "generation < job_generation job"
      "acquire_job f generation s = (Inl DispatchCancelled, s)"
  | (again) job where "generation \<noteq> 0" "registered s (show_file_id f) = Some job" "generation = job_generation job"
      "acquire_job f generation s = (Inr (job_lease (show_file_id f) job), touch (show_file_id f) s)"
  | (fresh) "generation \<noteq> 0" "\<forall>job. registered s (show_file_id f) = Some job \<longrightarrow> job_generation job < generation"
      "acquire_job f generation s =
        (Inr (job_lease (show_file_id f) (the (registered (with_new_job (show_file_id f) generation s) (show_file_id f)))),
         evict (with_new_job (show_file_id f) generation s))"
proof (cases "generation = 0")
  case True
  then show ?thesis
    by (intro ephemeral [of "fst (Desktop_Jobs.ephemeral (show_file_id f) generation s)"])
      (simp_all add: acquire_job_def ephemeral_def new_cancellation_def)
next
  case False
  show ?thesis
  proof (cases "registered s (show_file_id f)")
    case None
    then show ?thesis using False fresh by (simp add: acquire_job_def install_job_eq Let_def)
  next
    case (Some job)
    then show ?thesis using False refused again fresh
      by (cases generation "job_generation job" rule: linorder_cases)
        (simp_all add: acquire_job_def install_job_eq(2) [OF Some] Let_def)
  qed
qed

lemma new_job_keeps:
  fixes f generation
  assumes "jobs_consistent s"
  defines "t \<equiv> evict (with_new_job f generation s)"
  shows "jobs_ok t" "given_out lease s \<Longrightarrow> given_out lease t" "cancelled s \<union> dropped_cells f s \<subseteq> cancelled t"
    "registered t f = registered (with_new_job f generation s) f"
  using evict_keeps [OF with_new_job_consistent [OF assms(1), of f generation]] with_new_job_given_out [of lease s f generation]
  by (auto simp: t_def)

lemma given_out_same:
  "registered s' = registered s \<Longrightarrow> cancelled s' = cancelled s \<Longrightarrow> given_out lease s' = given_out lease s"
  by (simp add: given_out_def is_cancelled_def)

lemma touch_ok: "jobs_ok s \<Longrightarrow> registered s file = Some job \<Longrightarrow> jobs_ok (touch file s)"
proof -
  assume s: "jobs_ok s" "registered s file = Some job"
  then have "file \<in> set (job_order s)" "distinct (job_order s)" by (auto simp: jobs_ok_def jobs_consistent_def)
  then have "length (filter (\<lambda>c. c \<noteq> file) (job_order s)) < length (job_order s)"
    by (intro length_filter_less) auto
  then show ?thesis using s by (auto simp: jobs_ok_def jobs_consistent_def)
qed

lemma acquire_keeps:
  assumes "jobs_ok s"
  shows "jobs_ok (snd (acquire_job f generation s)) \<and> cancelled s \<subseteq> cancelled (snd (acquire_job f generation s))
    \<and> (given_out lease s \<longrightarrow> given_out lease (snd (acquire_job f generation s)))"
proof (cases rule: acquire_job_cases [of generation f s])
  case ephemeral
  then show ?thesis using assms given_out_same [of "s\<lparr>fresh_cancellation := Suc (Suc (fresh_cancellation s))\<rparr>" s lease]
    by (fastforce simp: jobs_ok_def jobs_consistent_def)
next
  case (again job)
  then show ?thesis using touch_ok [OF assms] given_out_same [of "touch (show_file_id f) s" s lease] by simp
next
  case fresh
  have "jobs_consistent s" using assms by (simp add: jobs_ok_def)
  from new_job_keeps(1,3) [OF this, of "show_file_id f" generation] new_job_keeps(2) [OF this, of lease "show_file_id f" generation]
  show ?thesis using fresh by auto
qed (use assms in simp)

lemma cancel_file_eq:
  "cancel_file f s = expire_job (show_file_id f) s\<lparr>job_order := filter (\<lambda>c. c \<noteq> show_file_id f) (job_order s)\<rparr>"
  by (simp add: cancel_file_def Let_def)

lemma operation_keeps:
  assumes "jobs_ok s"
  shows "jobs_ok (run_job_operation operation s) \<and> cancelled s \<subseteq> cancelled (run_job_operation operation s)
    \<and> (given_out lease s \<longrightarrow> given_out lease (run_job_operation operation s))"
proof (cases operation)
  case (CancelFile f)
  have "length (filter (\<lambda>c. c \<noteq> show_file_id f) (job_order s)) \<le> MAX_PRESENTATION_JOBS"
    using assms le_trans [OF length_filter_le] by (auto simp: jobs_ok_def)
  then show ?thesis
    using assms expire_job_consistent [of s "show_file_id f"] expire_job_simps(3) [of s "show_file_id f"]
      expire_job_given_out [of lease s "show_file_id f"] given_out_same [of "cancel_file f s" "expire_job (show_file_id f) s" lease]
    by (simp add: CancelFile cancel_file_eq jobs_ok_def)
qed (use acquire_keeps [OF assms] in simp)

lemma operations_keep:
  "jobs_ok s \<Longrightarrow> jobs_ok (run_job_operations operations s) \<and> cancelled s \<subseteq> cancelled (run_job_operations operations s)
    \<and> (given_out lease s \<longrightarrow> given_out lease (run_job_operations operations s))"
proof (induction operations arbitrary: s)
  case (Cons operation operations)
  note one = operation_keeps [OF Cons.prems, of operation lease]
  with Cons.IH [of "run_job_operation operation s"] show ?case by (auto simp: run_job_operations_def)
qed (simp add: run_job_operations_def)

section \<open>Properties of the registry\<close>

text \<open>However viewports move and files are discarded, at most 128 jobs are registered, each with
  its own cancellation cells, none of them set, and the queue lists exactly their files.\<close>

theorem presentation_jobs_bounded:
  "jobs_ok (run_job_operations operations no_jobs)"
  using operations_keep [OF no_jobs_ok] by blast

lemma acquired_given_out:
  assumes "jobs_ok s" "acquire_job f generation s = (Inr lease, s')" "0 < generation"
  shows "given_out lease s'" "lease_file lease = show_file_id f" "lease_generation lease = generation" "lease_tracked lease"
    "job_is_current lease s'"
proof -
  have ok: "jobs_ok s'" using acquire_keeps [OF assms(1), of f generation] assms(2) by simp
  obtain job where "registered s' (show_file_id f) = Some job" "job_generation job = generation"
    "lease = job_lease (show_file_id f) job"
  proof (cases rule: acquire_job_cases [of generation f s])
    case (again job)
    then show ?thesis using assms(2) that by auto
  next
    case fresh
    then show ?thesis using assms(1,2) that new_job_keeps(4) [of s "show_file_id f" generation]
      by (auto simp: jobs_ok_def)
  qed (use assms in auto)
  with jobs_unset [of s' "show_file_id f"] ok
  show "given_out lease s'" "lease_file lease = show_file_id f" "lease_generation lease = generation" "lease_tracked lease"
    "job_is_current lease s'"
    by (auto simp: given_out_def job_lease_def job_is_current_def is_cancelled_def jobs_ok_def job_cells_def)
qed

lemma cancelled_not_current: "is_cancelled lease s \<Longrightarrow> lease_tracked lease \<Longrightarrow> \<not> job_is_current lease s"
  by (simp add: job_is_current_def)



section \<open>The pool\<close>

lemma pool_keeps:
  assumes "pool_step s s'" "finite (working_threads s)" "waiting_threads s \<inter> working_threads s = {}"
    "card (working_threads s) + pool_available (pool_of s) = pool_maximum (pool_of s)"
  shows "finite (working_threads s') \<and> waiting_threads s' \<inter> working_threads s' = {}
    \<and> card (working_threads s') + pool_available (pool_of s') = pool_maximum (pool_of s')
    \<and> pool_maximum (pool_of s') = pool_maximum (pool_of s)"
  using assms(1)
proof (cases rule: pool_step.cases)
  case (pool_granted thread stop pool)
  then have "thread \<notin> working_threads s" using assms(3) by blast
  with pool_granted assms show ?thesis by (auto simp: acquire_turn_def split: if_splits)
next
  case (pool_drops thread)
  with assms have "0 < card (working_threads s)" "card (working_threads s - {thread}) = card (working_threads s) - 1"
    by (auto simp: card_gt_0_iff)
  with pool_drops assms show ?thesis by (auto simp: release_permit_def)
qed (use assms in \<open>auto simp: acquire_turn_def split: if_splits\<close>)

text \<open>However threads ask for, get, are refused and drop permits, the workers and the free permits
  always add up to the size of the pool: no more than that many work at once and no permit is
  lost.\<close>

theorem work_pool_conserves_permits:
  assumes "pool_step\<^sup>*\<^sup>* (idle_pool maximum) s"
  shows "finite (working_threads s) \<and> card (working_threads s) + pool_available (pool_of s) = max 1 maximum"
proof -
  have "finite (working_threads s) \<and> waiting_threads s \<inter> working_threads s = {}
    \<and> card (working_threads s) + pool_available (pool_of s) = pool_maximum (pool_of s)
    \<and> pool_maximum (pool_of s) = max 1 maximum"
    using assms
  proof (induction rule: rtranclp_induct)
    case (step s s')
    then show ?case using pool_keeps [OF step.hyps(2)] by simp
  qed (simp add: idle_pool_def new_pool_def)
  then show ?thesis by simp
qed

lemma work_pool_conserves_permits_witness:
  "finite (working_threads (idle_pool MAX_PRESENTATION_WORKERS\<lparr>waiting_threads := {1 :: nat}\<rparr>))
    \<and> card (working_threads (idle_pool MAX_PRESENTATION_WORKERS\<lparr>waiting_threads := {1}\<rparr>))
      + pool_available (pool_of (idle_pool MAX_PRESENTATION_WORKERS\<lparr>waiting_threads := {1}\<rparr>))
      = max 1 MAX_PRESENTATION_WORKERS"
proof (rule work_pool_conserves_permits)
  have "pool_step (idle_pool MAX_PRESENTATION_WORKERS)
    (idle_pool MAX_PRESENTATION_WORKERS\<lparr>waiting_threads := insert 1 (waiting_threads (idle_pool MAX_PRESENTATION_WORKERS))\<rparr>)"
    by (rule pool_enters) (simp add: idle_pool_def)
  then show "pool_step\<^sup>*\<^sup>* (idle_pool MAX_PRESENTATION_WORKERS) (idle_pool MAX_PRESENTATION_WORKERS\<lparr>waiting_threads := {1}\<rparr>)"
    by (simp add: idle_pool_def r_into_rtranclp)
qed

end
