(* ===== verification/Desktop_Views.thy ===== *)
theory Desktop_Views
  imports Desktop_Rpc "HOL-Library.AList"
begin

text \<open>
  \<open>src-tauri/src/controller.rs\<close>, the pure half of the presentations: the rows the window shows
  of a canonical document (unified, side by side and the full file with its gates), the byte
  offsets of the captured sources, and the search for the row of a source line.  A \<open>BTreeMap\<close>
  or \<open>BTreeSet\<close> is a map or a set; \<open>u32\<close> is \<open>nat\<close> with the saturation written out.
\<close>

section \<open>Rows\<close>

record DiffRowView =
  rv_id :: string
  rv_kind :: string
  rv_hunk_id :: "string option"
  rv_old_line :: "nat option"
  rv_new_line :: "nat option"
  rv_old_text :: "string option"
  rv_new_text :: "string option"
  rv_text :: "string option"
  rv_hunk :: "string option"
  rv_has_annotation :: bool
  rv_old_source_start_byte :: "nat option"
  rv_new_source_start_byte :: "nat option"
  rv_omitted_block_id :: "string option"
  rv_omitted_count :: "nat option"
  rv_omitted_end_line :: "nat option"
  rv_omitted_side :: "string option"
  rv_omitted_expanded :: "bool option"

record HunkLocationView =
  location_id :: string
  location_row_index :: nat
  location_old_line :: "nat option"
  location_new_line :: "nat option"
  location_header :: string
  location_context_lines :: "nat option"

record FullFileOmittedBlockView =
  omitted_view_id :: string
  omitted_view_side :: string
  omitted_view_start_line :: nat
  omitted_view_end_line :: nat
  omitted_view_count :: nat
  omitted_view_expanded :: bool
  omitted_view_row_index :: nat

record CachedCanonicalPresentation =
  presented_rows :: "DiffRowView list"
  presented_hunks :: "HunkLocationView list"
  presented_omitted_blocks :: "FullFileOmittedBlockView list"

text \<open>A row in which every optional field is absent; the literals of the source spell it out.\<close>

definition bare_row :: "string \<Rightarrow> string \<Rightarrow> DiffRowView" where
  "bare_row i kind = \<lparr>rv_id = i, rv_kind = kind, rv_hunk_id = None, rv_old_line = None, rv_new_line = None,
    rv_old_text = None, rv_new_text = None, rv_text = None, rv_hunk = None, rv_has_annotation = False,
    rv_old_source_start_byte = None, rv_new_source_start_byte = None, rv_omitted_block_id = None,
    rv_omitted_count = None, rv_omitted_end_line = None, rv_omitted_side = None, rv_omitted_expanded = None\<rparr>"

definition side_name :: "DiffSide \<Rightarrow> string" where
  "side_name side = (case side of Old \<Rightarrow> ''old'' | New \<Rightarrow> ''new'')"

definition view_row_kind :: "DiffLineKind \<Rightarrow> string" where
  "view_row_kind kind = (case kind of Context \<Rightarrow> ''context'' | Addition \<Rightarrow> ''addition'' | Removal \<Rightarrow> ''deletion'')"

definition format_hunk_header :: "ReviewHunk \<Rightarrow> string" where
  "format_hunk_header h = ''@@ -'' @ show_nat (old_start (hunk_header h)) @ '','' @ show_nat (old_count (hunk_header h))
    @ '' +'' @ show_nat (new_start (hunk_header h)) @ '','' @ show_nat (new_count (hunk_header h)) @ '' @@''
    @ (case header_context (hunk_header h) of None \<Rightarrow> [] | Some context \<Rightarrow> '' '' @ context)"

definition header_row :: "ReviewHunk \<Rightarrow> DiffRowView" where
  "header_row h = (bare_row (''header:'' @ hunk_id_str (hunk_id h)) ''header'')\<lparr>
    rv_hunk_id := Some (hunk_id_str (hunk_id h)), rv_hunk := Some (format_hunk_header h)\<rparr>"

section \<open>Offsets in the captured source\<close>

definition source_line_offsets :: "string \<Rightarrow> nat list" where
  "source_line_offsets source =
    0 # map (\<lambda>index. to_u32 (index + 1))
      (filter (\<lambda>index. source ! index = NL \<and> index + 1 < length source) [0..<length source])"

definition source_offset :: "nat list \<Rightarrow> nat \<Rightarrow> nat" where
  "source_offset offsets line =
    (case (if line = 0 then None else nth_opt offsets (line - 1)) of None \<Rightarrow> 0 | Some offset \<Rightarrow> offset)"

text \<open>\<open>source_line_range\<close> gives the bytes from the first of them to before the second.\<close>

definition source_line_range :: "string \<Rightarrow> nat option \<Rightarrow> nat option \<Rightarrow> DispatchError + nat \<times> nat" where
  "source_line_range source requested_start requested_end =
    (if source = [] then Inr (0, 0)
     else let offsets = source_line_offsets source;
         start_line = unwrap_or requested_start 1;
         end_line = unwrap_or requested_end start_line
       in if start_line = 0 \<or> end_line < start_line then Inl (DispatchInvalid ''source line range is invalid'')
       else (case nth_opt offsets (start_line - 1) of
           None \<Rightarrow> Inl (DispatchInvalid ''source line is outside captured snapshot'')
         | Some start \<Rightarrow> Inr (start, (case nth_opt offsets end_line of None \<Rightarrow> length source | Some n \<Rightarrow> n))))"

definition byte_range :: "string \<Rightarrow> nat \<times> nat \<Rightarrow> string" where
  "byte_range source r = take (snd r - fst r) (drop (fst r) source)"

definition numbered_source :: "string \<Rightarrow> nat \<times> nat \<Rightarrow> nat \<Rightarrow> string" where
  "numbered_source source r start_line =
    concat (map (\<lambda>(index, line). show_nat (min (start_line + to_u32 index) U32_MAX) @ [TAB] @ line)
      (enumerate 0 (split_inclusive NL (byte_range source r))))"

definition patch_prefix :: "DiffLineKind \<Rightarrow> char" where
  "patch_prefix kind = (case kind of Context \<Rightarrow> CHR '' '' | Addition \<Rightarrow> CHR ''+'' | Removal \<Rightarrow> CHR ''-'')"

definition patch_row :: "UnifiedRow \<Rightarrow> string" where
  "patch_row row = patch_prefix (row_kind row) #
    (case row_new row of
       Some cell \<Rightarrow> cell_text cell
     | None \<Rightarrow> (case row_old row of Some cell \<Rightarrow> cell_text cell | None \<Rightarrow> [])) @ [NL]"

definition hunk_text :: "ReviewHunk \<Rightarrow> string" where
  "hunk_text h = format_hunk_header h @ [NL] @ concat (map patch_row (unified_rows h))"

definition row_at :: "DiffSide \<Rightarrow> nat \<Rightarrow> UnifiedRow \<Rightarrow> bool" where
  "row_at side line row =
    (case (case side of Old \<Rightarrow> row_old row | New \<Rightarrow> row_new row) of
      None \<Rightarrow> False | Some cell \<Rightarrow> line_number cell = line)"

definition canonical_hunk_text :: "ReviewDiffDocument \<Rightarrow> DiffSide \<Rightarrow> nat option \<Rightarrow> DispatchError + string" where
  "canonical_hunk_text document side line =
    (case List.find (\<lambda>h. list_ex (row_at side (unwrap_or line 1)) (unified_rows h)) (doc_hunks document) of
       None \<Rightarrow> Inl (DispatchNotFound ''no immutable hunk at the requested line'')
     | Some h \<Rightarrow> Inr (hunk_text h))"

definition canonical_patch_text :: "ReviewDiffDocument \<Rightarrow> string" where
  "canonical_patch_text document =
    (let new = path_str (file_path (doc_file document));
         old = (case file_old_path (doc_file document) of None \<Rightarrow> new | Some p \<Rightarrow> path_str p)
     in ''diff --git a/'' @ old @ '' b/'' @ new @ [NL] @ ''--- a/'' @ old @ [NL] @ ''+++ b/'' @ new @ [NL]
       @ concat (map hunk_text (doc_hunks document)))"

section \<open>Unified and side-by-side rows\<close>

definition cell_row ::
  "string \<Rightarrow> string \<Rightarrow> string \<Rightarrow> DiffCell option \<Rightarrow> DiffCell option \<Rightarrow> nat list \<Rightarrow> nat list \<Rightarrow> DiffRowView" where
  "cell_row i kind hunk old new old_offsets new_offsets = (bare_row i kind)\<lparr>
    rv_hunk_id := Some hunk,
    rv_old_line := map_option line_number old, rv_new_line := map_option line_number new,
    rv_old_text := map_option cell_text old, rv_new_text := map_option cell_text new,
    rv_old_source_start_byte := map_option (\<lambda>c. source_offset old_offsets (line_number c)) old,
    rv_new_source_start_byte := map_option (\<lambda>c. source_offset new_offsets (line_number c)) new\<rparr>"

definition hunk_line_bounds :: "ReviewHunk \<Rightarrow> nat option \<times> nat option \<times> nat option \<times> nat option" where
  "hunk_line_bounds h = foldl (\<lambda>(first_old, last_old, first_new, last_new) row.
      let (first_old, last_old) = (case row_old row of
            None \<Rightarrow> (first_old, last_old)
          | Some old \<Rightarrow> (get_or_insert first_old (line_number old), Some (line_number old)));
          (first_new, last_new) = (case row_new row of
            None \<Rightarrow> (first_new, last_new)
          | Some new \<Rightarrow> (get_or_insert first_new (line_number new), Some (line_number new)))
      in (first_old, last_old, first_new, last_new))
    (None, None, None, None) (unified_rows h)"

definition context_line :: "bool \<Rightarrow> nat \<Rightarrow> nat \<Rightarrow> nat option" where
  "context_line before boundary offset =
    (if before then (if offset \<le> boundary then Some (boundary - offset) else None)
     else (if boundary + offset \<le> U32_MAX then Some (boundary + offset) else None))"

definition context_text :: "string list \<Rightarrow> nat option \<Rightarrow> string option" where
  "context_text lines line = Option.bind line (\<lambda>line. nth_opt lines (line - 1))"

definition expanded_row ::
  "string \<Rightarrow> string \<Rightarrow> nat option \<Rightarrow> nat option \<Rightarrow> string option \<Rightarrow> string option \<Rightarrow> nat list \<Rightarrow> nat list \<Rightarrow> DiffRowView" where
  "expanded_row hunk phase old_line new_line old_text new_text old_offsets new_offsets =
    (bare_row (''expanded:'' @ hunk @ '':'' @ phase @ '':'' @ show_nat (unwrap_or old_line 0) @ '':'' @
        show_nat (unwrap_or new_line 0)) ''context'')\<lparr>
      rv_hunk_id := Some hunk, rv_old_line := old_line, rv_new_line := new_line,
      rv_old_text := old_text, rv_new_text := new_text,
      rv_old_source_start_byte := map_option (source_offset old_offsets) old_line,
      rv_new_source_start_byte := map_option (source_offset new_offsets) new_line\<rparr>"

definition expanded_context_rows ::
  "string \<Rightarrow> string \<Rightarrow> nat option \<Rightarrow> nat option \<Rightarrow> nat \<Rightarrow> string list \<Rightarrow> string list \<Rightarrow> nat list \<Rightarrow> nat list
    \<Rightarrow> bool \<Rightarrow> DiffRowView list" where
  "expanded_context_rows hunk phase old_boundary new_boundary extra old_lines new_lines old_offsets new_offsets before =
    (let rows = List.map_filter (\<lambda>offset.
          let old_line = context_line before (unwrap_or old_boundary 1) offset;
              new_line = context_line before (unwrap_or new_boundary 1) offset;
              old_text = context_text old_lines old_line;
              new_text = context_text new_lines new_line
          in if old_text = None \<and> new_text = None then None
             else Some (expanded_row hunk phase old_line new_line old_text new_text old_offsets new_offsets))
        [1..<Suc extra]
     in if before then rev rows else rows)"

section \<open>The full file and its gates\<close>

record FullFileOmittedBlock =
  block_id :: string
  block_side :: DiffSide
  block_rows :: "FullFileRow list"

definition block_start_line :: "FullFileOmittedBlock \<Rightarrow> nat" where
  "block_start_line b = (case block_rows b of [] \<Rightarrow> 0 | row # _ \<Rightarrow> full_line_number row)"

definition block_end_line :: "FullFileOmittedBlock \<Rightarrow> nat" where
  "block_end_line b = (if block_rows b = [] then 0 else full_line_number (last (block_rows b)))"

datatype FullFileView = OldView | NewView | BothView

definition view_name :: "FullFileView \<Rightarrow> string" where
  "view_name view = (case view of OldView \<Rightarrow> ''old'' | NewView \<Rightarrow> ''new'' | BothView \<Rightarrow> ''both'')"

definition primary_side :: "FullFileView \<Rightarrow> DiffSide" where
  "primary_side view = (case view of OldView \<Rightarrow> Old | NewView \<Rightarrow> New | BothView \<Rightarrow> New)"

datatype FullFileProjectedRow =
    ProjectedLine FullFileRow
  | OmittedGate FullFileOmittedBlock bool

definition view_rows :: "ReviewDiffDocument \<Rightarrow> FullFileView \<Rightarrow> FullFileRow list" where
  "view_rows document view =
    (if view = OldView then full_file_base_rows document else full_file_current_rows document)"

definition is_omitted :: "FullFileView \<Rightarrow> FullFileRow \<Rightarrow> bool" where
  "is_omitted view row = (case view of
      OldView \<Rightarrow> full_side row = New
    | NewView \<Rightarrow> full_side row = Old
    | BothView \<Rightarrow> full_changed row)"

definition omitted_block :: "ReviewDiffDocument \<Rightarrow> FullFileRow list \<Rightarrow> FullFileOmittedBlock" where
  "omitted_block document rows =
    (let side = full_side (hd rows);
         lines = show_nat (full_line_number (hd rows)) @ ''-'' @ show_nat (full_line_number (last rows));
         prefix = show_comparison_id (doc_comparison document) @ '':'' @ show_file_id (file_id (doc_file document)) @ '':''
     in \<lparr>block_id = prefix @ (if side = Old then [] else ''new:'') @ lines, block_side = side, block_rows = rows\<rparr>)"

function full_file_omitted_blocks_from_rows ::
  "ReviewDiffDocument \<Rightarrow> FullFileView \<Rightarrow> FullFileRow list \<Rightarrow> FullFileOmittedBlock list" where
  "full_file_omitted_blocks_from_rows document view [] = []"
| "full_file_omitted_blocks_from_rows document view (row # rows) =
    (if \<not> is_omitted view row then full_file_omitted_blocks_from_rows document view rows
     else let more = (\<lambda>r. is_omitted view r \<and> full_side r = full_side row)
       in omitted_block document (row # takeWhile more rows)
         # full_file_omitted_blocks_from_rows document view (dropWhile more rows))"
  by pat_completeness auto

termination
  by (relation "measure (\<lambda>(document, view, rows). length rows)") (auto simp: le_imp_less_Suc length_dropWhile_le)

definition full_file_omitted_blocks :: "ReviewDiffDocument \<Rightarrow> FullFileView \<Rightarrow> FullFileOmittedBlock list" where
  "full_file_omitted_blocks document view =
    full_file_omitted_blocks_from_rows document view (view_rows document view)"

definition valid_full_file_deletion_block_ids :: "ReviewDiffDocument list \<Rightarrow> string set" where
  "valid_full_file_deletion_block_ids documents =
    set (map block_id (concat (map (\<lambda>document.
      concat (map (full_file_omitted_blocks document) [OldView, NewView, BothView])) documents)))"

definition is_expanded :: "FullFileView \<Rightarrow> string set \<Rightarrow> string set \<Rightarrow> FullFileOmittedBlock \<Rightarrow> bool" where
  "is_expanded view expanded collapsed block =
    (if view = BothView \<and> block_side block = New then block_id block \<notin> collapsed else block_id block \<in> expanded)"

text \<open>The blocks wait in a map keyed by side and first line, the later one under an equal key;
  each is removed when the walk over the rows reaches it.\<close>

lemma length_delete: "map_of m k = Some b \<Longrightarrow> length (AList.delete k m) < length m"
  using length_filter_less [OF map_of_SomeD, of m k b "\<lambda>(k', _). k \<noteq> k'"] by (simp add: AList.delete_eq)

function project_rows ::
  "FullFileView \<Rightarrow> string set \<Rightarrow> string set \<Rightarrow> ((string \<times> nat) \<times> FullFileOmittedBlock) list \<Rightarrow> FullFileRow list
    \<Rightarrow> FullFileProjectedRow list" where
  "project_rows view expanded collapsed blocks [] = []"
| "project_rows view expanded collapsed blocks (row # rows) =
    (if \<not> is_omitted view row then ProjectedLine row # project_rows view expanded collapsed blocks rows
     else (case map_of blocks (side_name (full_side row), full_line_number row) of
         None \<Rightarrow> ProjectedLine row # project_rows view expanded collapsed blocks rows
       | Some block \<Rightarrow>
           let rest = project_rows view expanded collapsed
                 (AList.delete (side_name (full_side row), full_line_number row) blocks)
                 (drop (length (block_rows block)) (row # rows));
               open = is_expanded view expanded collapsed block
           in OmittedGate block open # (if open then map ProjectedLine (block_rows block) else []) @ rest))"
  by pat_completeness auto

termination
  by (relation "measure (\<lambda>(view, expanded, collapsed, blocks, rows). length rows + length blocks)")
    (auto dest!: length_delete)

definition full_file_projection ::
  "ReviewDiffDocument \<Rightarrow> FullFileView \<Rightarrow> string set \<Rightarrow> string set
    \<Rightarrow> FullFileProjectedRow list \<times> FullFileOmittedBlock list" where
  "full_file_projection document view expanded collapsed =
    (let rows = view_rows document view;
         blocks = full_file_omitted_blocks_from_rows document view rows;
         blocks_by_start = rev (map (\<lambda>b. ((side_name (block_side b), block_start_line b), b)) blocks)
     in (project_rows view expanded collapsed blocks_by_start rows, blocks))"

section \<open>Rows of a source line\<close>

definition abs_diff :: "nat \<Rightarrow> nat \<Rightarrow> nat" where
  "abs_diff a b = (a - b) + (b - a)"

fun find_index :: "('a \<Rightarrow> bool) \<Rightarrow> 'a list \<Rightarrow> nat option" where
  "find_index p [] = None"
| "find_index p (x # xs) = (if p x then Some 0 else map_option Suc (find_index p xs))"

text \<open>\<open>min_by_key\<close> over the rows that have a distance, the earlier row first among equals.\<close>

definition nearest_index :: "('a \<Rightarrow> nat option) \<Rightarrow> 'a list \<Rightarrow> nat option" where
  "nearest_index distance xs =
    (case List.map_filter (\<lambda>(i, x). map_option (\<lambda>d. (d, i)) (distance x)) (enumerate 0 xs) of
      [] \<Rightarrow> None
    | k # ks \<Rightarrow> Some (snd (foldl min k ks)))"

definition row_line :: "DiffSide \<Rightarrow> DiffRowView \<Rightarrow> nat option" where
  "row_line side row = (case side of Old \<Rightarrow> rv_old_line row | New \<Rightarrow> rv_new_line row)"

definition nearest_canonical_row :: "DiffRowView list \<Rightarrow> DiffSide \<Rightarrow> nat \<Rightarrow> nat" where
  "nearest_canonical_row rows side line =
    (case find_index (\<lambda>row. row_line side row = Some line) rows of
      Some index \<Rightarrow> index
    | None \<Rightarrow> unwrap_or (nearest_index (\<lambda>row. map_option (\<lambda>l. abs_diff l line) (row_line side row)) rows) 0)"

definition exact_full_file_row :: "FullFileProjectedRow list \<Rightarrow> DiffSide \<Rightarrow> nat \<Rightarrow> nat option" where
  "exact_full_file_row rows side line =
    (case find_index (\<lambda>row. case row of
          ProjectedLine r \<Rightarrow> full_side r = side \<and> full_line_number r = line | OmittedGate _ _ \<Rightarrow> False) rows of
      Some index \<Rightarrow> Some index
    | None \<Rightarrow> find_index (\<lambda>row. case row of
          OmittedGate b _ \<Rightarrow> side = block_side b \<and> block_start_line b \<le> line \<and> line \<le> block_end_line b
        | ProjectedLine _ \<Rightarrow> False) rows)"

definition projected_distance :: "DiffSide \<Rightarrow> nat \<Rightarrow> FullFileProjectedRow \<Rightarrow> nat option" where
  "projected_distance side line row = (case row of
      ProjectedLine r \<Rightarrow> if full_side r = side then Some (abs_diff (full_line_number r) line) else None
    | OmittedGate b _ \<Rightarrow> if side = block_side b
        then Some (min (abs_diff (block_start_line b) line) (abs_diff (block_end_line b) line)) else None)"

definition nearest_full_file_row :: "FullFileProjectedRow list \<Rightarrow> DiffSide \<Rightarrow> nat \<Rightarrow> nat" where
  "nearest_full_file_row rows side line =
    (case exact_full_file_row rows side line of
      Some index \<Rightarrow> index
    | None \<Rightarrow> unwrap_or (nearest_index (projected_distance side line) rows) 0)"

definition saturating_add_32 :: "nat \<Rightarrow> nat \<Rightarrow> nat" where
  "saturating_add_32 a b = min (a + b) U32_MAX"

definition source_of :: "ReviewDiffDocument \<Rightarrow> DiffSide \<Rightarrow> SourceDocument" where
  "source_of document side = (case side of Old \<Rightarrow> doc_old document | New \<Rightarrow> doc_new document)"

definition line_pairs :: "ReviewDiffDocument \<Rightarrow> DiffSide \<Rightarrow> (nat \<times> nat) list" where
  "line_pairs document side = List.map_filter (\<lambda>row. case (split_old row, split_new row) of
      (Some old, Some new) \<Rightarrow> Some (case side of
        Old \<Rightarrow> (line_number old, line_number new) | New \<Rightarrow> (line_number new, line_number old))
    | _ \<Rightarrow> None) (concat (map split_rows (doc_hunks document)))"

definition clamp :: "nat \<Rightarrow> nat \<Rightarrow> nat \<Rightarrow> nat" where
  "clamp lo hi x = max lo (min x hi)"

definition align_line :: "(nat \<times> nat) list \<Rightarrow> nat \<Rightarrow> nat \<Rightarrow> nat \<Rightarrow> nat" where
  "align_line pairs source_count target_count line =
    (let end = (saturating_add_32 source_count 1, saturating_add_32 target_count 1);
         pairs = remdups_adj (sort (pairs @ [(0, 0), end]))
     in case List.find (\<lambda>p. fst p = line) pairs of
          Some p \<Rightarrow> clamp 1 target_count (snd p)
        | None \<Rightarrow>
            (let before = (case List.find (\<lambda>p. fst p < line) (rev pairs) of None \<Rightarrow> (0, 0) | Some p \<Rightarrow> p);
                 after = (case List.find (\<lambda>p. line < fst p) pairs of None \<Rightarrow> end | Some p \<Rightarrow> p)
             in clamp 1 target_count
                  (min (saturating_add_32 (snd before) (line - fst before)) (snd after))))"

definition aligned_source_line :: "ReviewDiffDocument \<Rightarrow> DiffSide \<Rightarrow> nat \<Rightarrow> DiffSide \<Rightarrow> nat" where
  "aligned_source_line document source_side source_line target_side =
    (if source_side = target_side then source_line
     else if line_count (source_of document target_side) = 0 then 0
     else align_line (line_pairs document source_side) (line_count (source_of document source_side))
       (line_count (source_of document target_side)) source_line)"

definition bounded_window :: "nat \<Rightarrow> nat \<Rightarrow> nat \<Rightarrow> nat \<Rightarrow> nat \<times> nat" where
  "bounded_window start end total_rows max_rows =
    (let start = min start total_rows
     in (start, min (min (max end start) total_rows) (min (start + max_rows) U64_MAX)))"

section \<open>Views of the full file\<close>

definition full_file_row_view :: "nat list \<Rightarrow> nat list \<Rightarrow> FullFileProjectedRow \<Rightarrow> DiffRowView" where
  "full_file_row_view old_offsets new_offsets projected = (case projected of
      ProjectedLine row \<Rightarrow>
        (let old = (full_side row = Old); n = full_line_number row
         in (bare_row (''full:'' @ side_name (full_side row) @ '':'' @ show_nat n)
             (if full_changed row then (if old then ''deletion'' else ''addition'') else ''context''))\<lparr>
           rv_old_line := (if old then Some n else None), rv_new_line := (if old then None else Some n),
           rv_old_text := (if old then Some (full_text row) else None),
           rv_new_text := (if old then None else Some (full_text row)),
           rv_text := Some (full_text row),
           rv_old_source_start_byte := (if old then Some (source_offset old_offsets n) else None),
           rv_new_source_start_byte := (if old then None else Some (source_offset new_offsets n))\<rparr>)
    | OmittedGate block expanded \<Rightarrow>
        (let count = to_u32 (length (block_rows block)); old = (block_side block = Old);
             omission = (if old then ''deleted'' else ''added'')
         in (bare_row (''full:'' @ omission @ ''-gate:'' @ block_id block)
             (if old then ''deletion_gate'' else ''addition_gate''))\<lparr>
           rv_old_line := (if old then Some (block_start_line block) else None),
           rv_new_line := (if old then None else Some (block_start_line block)),
           rv_text := Some (show_nat count @ '' '' @ omission @ '' '' @ (if count = 1 then ''line'' else ''lines'')),
           rv_omitted_block_id := Some (block_id block), rv_omitted_count := Some count,
           rv_omitted_end_line := Some (block_end_line block),
           rv_omitted_side := Some (side_name (block_side block)), rv_omitted_expanded := Some expanded\<rparr>))"

definition full_file_omitted_block_views ::
  "FullFileOmittedBlock list \<Rightarrow> FullFileProjectedRow list \<Rightarrow> FullFileOmittedBlockView list" where
  "full_file_omitted_block_views blocks projection = map (\<lambda>block.
    \<lparr>omitted_view_id = block_id block, omitted_view_side = side_name (block_side block),
     omitted_view_start_line = block_start_line block, omitted_view_end_line = block_end_line block,
     omitted_view_count = to_u32 (length (block_rows block)),
     omitted_view_expanded = list_ex (\<lambda>row. case row of
       OmittedGate candidate True \<Rightarrow> block_id candidate = block_id block | _ \<Rightarrow> False) projection,
     omitted_view_row_index = to_u32 (nearest_full_file_row projection (block_side block) (block_start_line block))\<rparr>) blocks"

definition first_change :: "(UnifiedRow \<Rightarrow> DiffCell option) \<Rightarrow> UnifiedRow list \<Rightarrow> nat option" where
  "first_change cell block = (case List.map_filter cell block of [] \<Rightarrow> None | c # _ \<Rightarrow> Some (line_number c))"

definition review_block_location ::
  "DiffSide \<Rightarrow> FullFileProjectedRow list \<Rightarrow> ReviewHunk \<Rightarrow> nat \<times> UnifiedRow list \<Rightarrow> HunkLocationView" where
  "review_block_location side rows h = (\<lambda>(block_index, block).
    let old = first_change row_old block; new = first_change row_new block;
        row_index = (case (old, new) of
            (Some l, Some n) \<Rightarrow> min (nearest_full_file_row rows Old l) (nearest_full_file_row rows New n)
          | (Some l, None) \<Rightarrow> nearest_full_file_row rows Old l
          | (None, Some n) \<Rightarrow> nearest_full_file_row rows New n
          | (None, None) \<Rightarrow> nearest_full_file_row rows side
              (max 1 (case side of Old \<Rightarrow> old_start (hunk_header h) | New \<Rightarrow> new_start (hunk_header h))))
    in \<lparr>location_id = hunk_id_str (hunk_id h) @ '':review-block:'' @ show_nat block_index,
        location_row_index = to_u32 row_index, location_old_line = old, location_new_line = new,
        location_header = format_hunk_header h @ '' '' @ [CHR 0xC2, CHR 0xB7] @ '' change '' @ show_nat (block_index + 1),
        location_context_lines = None\<rparr>)"

definition full_file_hunk_locations ::
  "ReviewDiffDocument \<Rightarrow> DiffSide \<Rightarrow> FullFileProjectedRow list \<Rightarrow> HunkLocationView list" where
  "full_file_hunk_locations document side rows = sort_key location_row_index (concat (map (\<lambda>h.
    map (review_block_location side rows h)
      (enumerate 0 (filter (\<lambda>b. b \<noteq> []) (split_by (\<lambda>row. row_kind row = Context) (unified_rows h)))))
    (doc_hunks document)))"

end
