(* ===== verification/Desktop_Presentation.thy ===== *)
theory Desktop_Presentation
  imports Desktop_Views
begin

text \<open>
  \<open>src-tauri/src/controller.rs\<close>: the complete canonical presentation of a document, built from
  the rows of \<open>Desktop_Views\<close> and the state of the review window, its cache with a budget of
  rows, and what a viewport is given of it.  A floating-point value of the window is any type.
\<close>

section \<open>The state of the review window\<close>

record 'f ReviewUiState =
  ui_viewed_file_ids :: "string set"
  ui_active_file_id :: "string option"
  ui_mode :: "string option"
  ui_full_file_side :: "string option"
  ui_nearest_source_line :: "nat option"
  ui_nearest_source_side :: "string option"
  ui_scroll_top :: "'f option"
  ui_split_ratio :: "'f option"
  ui_right_tab :: "string option"
  ui_selected_annotation_ids :: "string set option"
  ui_hunk_context_lines :: "string \<rightharpoonup> nat"
  ui_expanded_blocks :: "string set"
  ui_collapsed_blocks :: "string set"

definition default_ui_state :: "'f ReviewUiState" where
  "default_ui_state = \<lparr>ui_viewed_file_ids = {}, ui_active_file_id = None, ui_mode = None, ui_full_file_side = None,
    ui_nearest_source_line = None, ui_nearest_source_side = None, ui_scroll_top = None, ui_split_ratio = None,
    ui_right_tab = None, ui_selected_annotation_ids = None, ui_hunk_context_lines = Map.empty,
    ui_expanded_blocks = {}, ui_collapsed_blocks = {}\<rparr>"

definition validate_diff_mode :: "string \<Rightarrow> DispatchError + string" where
  "validate_diff_mode value =
    (if value \<in> {''unified'', ''split'', ''full'', ''difftastic''} then Inr value
     else Inl (DispatchInvalid ''unsupported diff mode''))"

definition parse_side :: "string \<Rightarrow> DispatchError + DiffSide" where
  "parse_side value =
    (if value = ''old'' then Inr Old else if value = ''new'' then Inr New
     else Inl (DispatchInvalid ''annotation side must be old or new''))"

definition parse_full_file_view :: "string \<Rightarrow> DispatchError + FullFileView" where
  "parse_full_file_view value =
    (if value = ''old'' then Inr OldView else if value = ''new'' then Inr NewView
     else if value = ''both'' then Inr BothView
     else Inl (DispatchInvalid ''fullFileSide must be old, new, or both''))"

section \<open>The canonical presentation\<close>

definition unified_row_view :: "nat list \<Rightarrow> nat list \<Rightarrow> ReviewHunk \<Rightarrow> UnifiedRow \<Rightarrow> DiffRowView" where
  "unified_row_view old_offsets new_offsets h row =
    cell_row (row_id row) (view_row_kind (row_kind row)) (hunk_id_str (hunk_id h)) (row_old row) (row_new row)
      old_offsets new_offsets"

definition split_row_view :: "nat list \<Rightarrow> nat list \<Rightarrow> ReviewHunk \<Rightarrow> SplitRow \<Rightarrow> DiffRowView" where
  "split_row_view old_offsets new_offsets h row =
    cell_row (split_row_id row)
      (case (split_old row, split_new row) of
         (None, Some _) \<Rightarrow> ''addition'' | (Some _, None) \<Rightarrow> ''deletion'' | _ \<Rightarrow> ''context'')
      (hunk_id_str (hunk_id h)) (split_old row) (split_new row) old_offsets new_offsets"

definition hunk_context :: "'f ReviewUiState \<Rightarrow> ReviewHunk \<Rightarrow> nat" where
  "hunk_context state h =
    clamp 3 1200 (case ui_hunk_context_lines state (hunk_id_str (hunk_id h)) of None \<Rightarrow> 3 | Some n \<Rightarrow> n)"

definition hunk_location :: "'f ReviewUiState \<Rightarrow> nat \<Rightarrow> ReviewHunk \<Rightarrow> HunkLocationView" where
  "hunk_location state row_index h = (case hunk_line_bounds h of (first_old, _, first_new, _) \<Rightarrow>
    \<lparr>location_id = hunk_id_str (hunk_id h), location_row_index = row_index,
     location_old_line = (case first_old of Some n \<Rightarrow> Some n
       | None \<Rightarrow> if 0 < old_count (hunk_header h) then Some (old_start (hunk_header h)) else None),
     location_new_line = (case first_new of Some n \<Rightarrow> Some n
       | None \<Rightarrow> if 0 < new_count (hunk_header h) then Some (new_start (hunk_header h)) else None),
     location_header = format_hunk_header h, location_context_lines = Some (hunk_context state h)\<rparr>)"

text \<open>The rows of one hunk: its header, the expanded lines before it, its rows, those after.\<close>

definition hunk_rows :: "ReviewDiffDocument \<Rightarrow> bool \<Rightarrow> 'f ReviewUiState \<Rightarrow> ReviewHunk \<Rightarrow> DiffRowView list" where
  "hunk_rows document split state h =
    (let old_offsets = source_line_offsets (content (doc_old document));
         new_offsets = source_line_offsets (content (doc_new document));
         old_lines = str_lines (content (doc_old document));
         new_lines = str_lines (content (doc_new document));
         extra = hunk_context state h - 3;
         hunk = hunk_id_str (hunk_id h)
     in (case hunk_line_bounds h of (first_old, last_old, first_new, last_new) \<Rightarrow>
       header_row h
       # expanded_context_rows hunk ''before'' first_old first_new extra old_lines new_lines old_offsets new_offsets True
       @ (if split then map (split_row_view old_offsets new_offsets h) (split_rows h)
          else map (unified_row_view old_offsets new_offsets h) (unified_rows h))
       @ expanded_context_rows hunk ''after'' last_old last_new extra old_lines new_lines old_offsets new_offsets False))"

definition present_hunks ::
  "ReviewDiffDocument \<Rightarrow> bool \<Rightarrow> 'f ReviewUiState \<Rightarrow> DiffRowView list \<times> HunkLocationView list" where
  "present_hunks document split state = foldl (\<lambda>(rows, hunks) h.
      (rows @ hunk_rows document split state h, hunks @ [hunk_location state (to_u32 (length rows)) h]))
    ([], []) (doc_hunks document)"

definition displayed_view :: "ReviewDiffDocument \<Rightarrow> FullFileView \<Rightarrow> FullFileView" where
  "displayed_view document view = (if file_status (doc_file document) = ReviewFileStatus.FileDeleted then OldView else view)"

definition build_canonical_presentation ::
  "ReviewDiffDocument \<Rightarrow> string \<Rightarrow> FullFileView \<Rightarrow> 'f ReviewUiState \<Rightarrow> DispatchError + CachedCanonicalPresentation" where
  "build_canonical_presentation document mode full_file_view state =
    (if mode = ''unified'' \<or> mode = ''split'' then
       (case present_hunks document (mode = ''split'') state of (rows, hunks) \<Rightarrow>
         Inr \<lparr>presented_rows = rows, presented_hunks = hunks, presented_omitted_blocks = []\<rparr>)
     else if mode = ''full'' then
       (let view = displayed_view document full_file_view;
            old_offsets = source_line_offsets (content (doc_old document));
            new_offsets = source_line_offsets (content (doc_new document))
        in (case full_file_projection document view (ui_expanded_blocks state) (ui_collapsed_blocks state) of
          (projection, blocks) \<Rightarrow>
            Inr \<lparr>presented_rows = map (full_file_row_view old_offsets new_offsets) projection,
              presented_hunks = full_file_hunk_locations document (primary_side view) projection,
              presented_omitted_blocks = full_file_omitted_block_views blocks projection\<rparr>))
     else Inl (DispatchInvalid ''unsupported canonical diff mode''))"

section \<open>What a viewport is given\<close>

definition is_soft_deleted :: "Annotation \<Rightarrow> bool" where
  "is_soft_deleted a \<longleftrightarrow> ''localreview:deleted'' \<in> set (annotation_labels a)"

definition annotation_overlaps ::
  "Annotation list \<Rightarrow> ReviewDiffDocument \<Rightarrow> DiffSide \<Rightarrow> nat \<Rightarrow> nat \<Rightarrow> bool" where
  "annotation_overlaps notes document side start_line end_line = list_ex (\<lambda>a.
    \<not> is_soft_deleted a \<and> (case annotation_anchor a of
      None \<Rightarrow> False
    | Some anchor \<Rightarrow> anchor_comparison_id anchor = doc_comparison document
        \<and> anchor_file_path anchor = file_path (doc_file document) \<and> anchor_side anchor = Some side
        \<and> unwrap_or (anchor_start_line anchor) 0 \<le> end_line \<and> start_line \<le> unwrap_or (anchor_end_line anchor) 0)) notes"

definition mark_annotation_row :: "Annotation list \<Rightarrow> ReviewDiffDocument \<Rightarrow> DiffRowView \<Rightarrow> DiffRowView" where
  "mark_annotation_row notes document row = row\<lparr>rv_has_annotation :=
    (case rv_old_line row of None \<Rightarrow> False
      | Some line \<Rightarrow> annotation_overlaps notes document Old line (unwrap_or (rv_omitted_end_line row) line))
    \<or> (case rv_new_line row of None \<Rightarrow> False
      | Some line \<Rightarrow> annotation_overlaps notes document New line (unwrap_or (rv_omitted_end_line row) line))\<rparr>"

text \<open>The rows \<open>start..end\<close> of a presentation, marked; the slice never leaves the rows.\<close>

definition window_rows ::
  "Annotation list \<Rightarrow> ReviewDiffDocument \<Rightarrow> DiffRowView list \<Rightarrow> nat \<Rightarrow> nat \<Rightarrow> nat \<Rightarrow> DiffRowView list" where
  "window_rows notes document rows start end max_rows =
    (case bounded_window start end (length rows) max_rows of (start, end) \<Rightarrow>
      map (mark_annotation_row notes document) (take (end - start) (drop start rows)))"

definition display_side :: "string \<Rightarrow> DiffRowView \<Rightarrow> DiffSide option" where
  "display_side mode row =
    (if mode = ''split'' then None
     else if mode = ''full'' then Some (if rv_old_line row \<noteq> None \<and> rv_new_line row = None then Old else New)
     else Some (if rv_kind row = ''deletion'' then Old else New))"

definition row_source :: "DiffSide \<Rightarrow> DiffRowView \<Rightarrow> (nat \<times> string) option" where
  "row_source side row =
    (let (offset, text) = (case side of
        Old \<Rightarrow> (rv_old_source_start_byte row, case rv_old_text row of None \<Rightarrow> rv_text row | Some t \<Rightarrow> Some t)
      | New \<Rightarrow> (rv_new_source_start_byte row, case rv_new_text row of None \<Rightarrow> rv_text row | Some t \<Rightarrow> Some t))
     in (case (offset, text) of (Some l, Some t) \<Rightarrow> Some (l, t) | _ \<Rightarrow> None))"

definition add_byte_range :: "nat \<Rightarrow> nat \<Rightarrow> (nat \<times> nat) list \<Rightarrow> (nat \<times> nat) list" where
  "add_byte_range offset end ranges =
    (if ranges \<noteq> [] \<and> offset \<le> saturating_add_32 (snd (last ranges)) 1
     then butlast ranges @ [(fst (last ranges), max (snd (last ranges)) end)]
     else ranges @ [(offset, end)])"

definition row_byte_ranges :: "DiffRowView list \<Rightarrow> DiffSide \<Rightarrow> string \<Rightarrow> (nat \<times> nat) list" where
  "row_byte_ranges rows side mode = foldl (\<lambda>ranges row.
      if display_side mode row \<notin> {None, Some side} then ranges
      else (case row_source side row of
          None \<Rightarrow> ranges
        | Some (offset, text) \<Rightarrow> add_byte_range offset (saturating_add_32 offset (to_u32 (length text))) ranges))
    [] rows"

end
