(* ===== verification/Desktop_Cache.thy ===== *)
theory Desktop_Cache
  imports Desktop_Presentation
begin

text \<open>
  \<open>src-tauri/src/controller.rs\<close>, the caches of the window: documents by their bytes and canonical
  presentations by their rows, each a map, the queue of its keys from the least recently used
  and a running weight.  The code of the two is the same but for the weight and the limits, so
  the operations take them as arguments.  A \<open>BTreeMap\<close> is an association list; the loop that
  sheds entries does not return (\<open>None\<close>) when its queue is empty and its weight is not.  A lock
  that a panic has poisoned is the first argument of what takes it.
\<close>

section \<open>A cache with a budget\<close>

record 'v budget_cache =
  entries :: "(string \<times> 'v) list"
  recency :: "string list"
  cached_weight :: nat

definition empty_cache :: "'v budget_cache" where
  "empty_cache = \<lparr>entries = [], recency = [], cached_weight = 0\<rparr>"

definition use_key :: "string \<Rightarrow> 'v budget_cache \<Rightarrow> 'v budget_cache" where
  "use_key key c = c\<lparr>recency := filter (\<lambda>k. k \<noteq> key) (recency c) @ [key]\<rparr>"

definition drop_key :: "('v \<Rightarrow> nat) \<Rightarrow> string \<Rightarrow> 'v budget_cache \<Rightarrow> 'v budget_cache" where
  "drop_key weigh key c = (case map_of (entries c) key of
      None \<Rightarrow> c
    | Some v \<Rightarrow> c\<lparr>entries := AList.delete key (entries c), cached_weight := cached_weight c - weigh v\<rparr>)"

lemma recency_drop_key [simp]: "recency (drop_key weigh key c) = recency c"
  by (simp add: drop_key_def split: option.splits)

function shed :: "('v \<Rightarrow> nat) \<Rightarrow> nat \<Rightarrow> nat \<Rightarrow> 'v budget_cache \<Rightarrow> 'v budget_cache option" where
  "shed weigh max_entries max_weight c =
    (if max_entries < length (recency c) \<or> max_weight < cached_weight c
     then (case recency c of
         [] \<Rightarrow> None
       | expired # rest \<Rightarrow> shed weigh max_entries max_weight (drop_key weigh expired (c\<lparr>recency := rest\<rparr>)))
     else Some c)"
  by auto

termination
  by (relation "measure (\<lambda>(weigh, max_entries, max_weight, c). length (recency c))") auto

declare shed.simps [simp del]

definition cache_insert ::
  "('v \<Rightarrow> nat) \<Rightarrow> nat \<Rightarrow> nat \<Rightarrow> string \<Rightarrow> 'v \<Rightarrow> 'v budget_cache \<Rightarrow> 'v budget_cache option" where
  "cache_insert weigh max_entries max_weight key v c =
    (let left = (case map_of (entries c) key of
           None \<Rightarrow> cached_weight c
         | Some previous \<Rightarrow> cached_weight c - weigh previous)
     in shed weigh max_entries max_weight
          (use_key key (c\<lparr>entries := AList.update key v (entries c), cached_weight := min (left + weigh v) U64_MAX\<rparr>)))"

definition cache_forget :: "('v \<Rightarrow> nat) \<Rightarrow> (string \<Rightarrow> bool) \<Rightarrow> 'v budget_cache \<Rightarrow> 'v budget_cache" where
  "cache_forget weigh forgotten c =
    (let kept = filter (\<lambda>e. \<not> forgotten (fst e)) (entries c)
     in c\<lparr>entries := kept, cached_weight := sum_list (map (\<lambda>e. weigh (snd e)) kept),
          recency := filter (\<lambda>k. \<not> forgotten k) (recency c)\<rparr>)"

text \<open>Reading through a cache: from it, or from the origin and then kept when light enough.\<close>

definition read_through ::
  "('v \<Rightarrow> nat) \<Rightarrow> nat \<Rightarrow> nat \<Rightarrow> string \<Rightarrow> (DispatchError + 'v) \<Rightarrow> 'v budget_cache
    \<Rightarrow> ((DispatchError + 'v) \<times> 'v budget_cache) option" where
  "read_through weigh max_entries max_weight key origin c =
    (case map_of (entries c) key of
       Some v \<Rightarrow> Some (Inr v, use_key key c)
     | None \<Rightarrow> (case origin of
           Inl e \<Rightarrow> Some (Inl e, c)
         | Inr v \<Rightarrow> if weigh v \<le> max_weight
             then map_option (Pair (Inr v)) (cache_insert weigh max_entries max_weight key v c)
             else Some (Inr v, c)))"

section \<open>The two caches\<close>

definition document_bytes :: "PersistedReviewDocument \<Rightarrow> nat" where
  "document_bytes d = min (length (content (doc_old d)) + length (content (doc_new d))) U64_MAX"

definition MAX_DOCUMENT_ENTRIES :: nat where "MAX_DOCUMENT_ENTRIES = 16"

definition MAX_DOCUMENT_BYTES :: nat where "MAX_DOCUMENT_BYTES = 32 * 1024 * 1024"

definition document_key :: "ReviewFileId \<Rightarrow> ComparisonId option \<Rightarrow> string" where
  "document_key file comparison =
    (case comparison of None \<Rightarrow> ''latest'' | Some c \<Rightarrow> show_comparison_id c) @ '':'' @ show_file_id file"

definition cached_persisted_review_document ::
  "bool \<Rightarrow> (ReviewFileId \<Rightarrow> ComparisonId option \<Rightarrow> DispatchError + PersistedReviewDocument) \<Rightarrow> ReviewFileId \<Rightarrow> ComparisonId option
    \<Rightarrow> PersistedReviewDocument budget_cache
    \<Rightarrow> ((DispatchError + PersistedReviewDocument) \<times> PersistedReviewDocument budget_cache) option" where
  "cached_persisted_review_document poisoned stored file comparison c =
    (if poisoned then Some (Inl DispatchInternal, c)
     else read_through document_bytes MAX_DOCUMENT_ENTRIES MAX_DOCUMENT_BYTES (document_key file comparison)
       (stored file comparison) c)"

definition presentation_weight :: "CachedCanonicalPresentation \<Rightarrow> nat" where
  "presentation_weight p = length (presented_rows p)"

definition MAX_CANONICAL_ENTRIES :: nat where "MAX_CANONICAL_ENTRIES = 16"

definition MAX_CANONICAL_ROWS :: nat where "MAX_CANONICAL_ROWS = 100000"

type_synonym expansion_text = "(string \<rightharpoonup> nat) \<Rightarrow> string set \<Rightarrow> string set \<Rightarrow> string option"

definition presentation_key :: "ReviewDiffDocument \<Rightarrow> string \<Rightarrow> FullFileView \<Rightarrow> string \<Rightarrow> string" where
  "presentation_key document mode view expansion =
    show_file_id (file_id (doc_file document)) @ '':'' @ show_comparison_id (doc_comparison document) @ '':'' @
    mode @ '':'' @ view_name view @ '':'' @ expansion"

definition cached_canonical_rows ::
  "bool \<Rightarrow> expansion_text \<Rightarrow> ReviewDiffDocument \<Rightarrow> string \<Rightarrow> FullFileView \<Rightarrow> 'f ReviewUiState
    \<Rightarrow> CachedCanonicalPresentation budget_cache
    \<Rightarrow> ((DispatchError + CachedCanonicalPresentation) \<times> CachedCanonicalPresentation budget_cache) option" where
  "cached_canonical_rows poisoned json document mode view state c =
    (case json (ui_hunk_context_lines state) (ui_expanded_blocks state) (ui_collapsed_blocks state) of
       None \<Rightarrow> Some (Inl DispatchInternal, c)
     | Some expansion \<Rightarrow>
         if poisoned then Some (Inl DispatchInternal, c)
         else read_through presentation_weight MAX_CANONICAL_ENTRIES MAX_CANONICAL_ROWS
           (presentation_key document mode view expansion)
           (build_canonical_presentation document mode view state) c)"

text \<open>What a change of the expansion of a hunk and the arrival of a remote file forget.\<close>

definition forget_presentations ::
  "ReviewFileId \<Rightarrow> CachedCanonicalPresentation budget_cache \<Rightarrow> CachedCanonicalPresentation budget_cache" where
  "forget_presentations file = cache_forget presentation_weight (\<lambda>key. starts_with key (show_file_id file @ '':''))"

definition forget_documents ::
  "ReviewFileId \<Rightarrow> PersistedReviewDocument budget_cache \<Rightarrow> PersistedReviewDocument budget_cache" where
  "forget_documents file = cache_forget document_bytes (\<lambda>key. ends_with key ('':'' @ show_file_id file))"

end
