(* ===== verification/Desktop_Cache_Props.thy ===== *)
theory Desktop_Cache_Props
  imports Desktop_Cache
begin

text \<open>
  A budgeted cache never exceeds its budget and its operations return; reading through the cache
  of presentations gives what building the presentation would give.
\<close>

section \<open>Budgets\<close>

definition total_weight :: "('v \<Rightarrow> nat) \<Rightarrow> (string \<times> 'v) list \<Rightarrow> nat" where
  "total_weight weigh es = sum_list (map (\<lambda>e. weigh (snd e)) es)"

definition cache_consistent :: "('v \<Rightarrow> nat) \<Rightarrow> 'v budget_cache \<Rightarrow> bool" where
  "cache_consistent weigh c \<longleftrightarrow> distinct (map fst (entries c)) \<and> distinct (recency c)
    \<and> set (recency c) = fst ` set (entries c) \<and> cached_weight c = total_weight weigh (entries c)"

definition within_budget :: "('v \<Rightarrow> nat) \<Rightarrow> nat \<Rightarrow> nat \<Rightarrow> 'v budget_cache \<Rightarrow> bool" where
  "within_budget weigh max_entries max_weight c \<longleftrightarrow> cache_consistent weigh c
    \<and> length (recency c) \<le> max_entries \<and> cached_weight c \<le> max_weight"

lemma total_weight_delete:
  "distinct (map fst es) \<Longrightarrow> map_of es key = Some v \<Longrightarrow>
    weigh v + total_weight weigh (AList.delete key es) = total_weight weigh es"
proof (induction es)
  case (Cons e es)
  show ?case
  proof (cases "fst e = key")
    case True
    then have "AList.delete key es = es"
      using Cons.prems(1) by (auto simp: AList.delete_eq filter_id_conv intro: rev_image_eqI)
    then show ?thesis using True Cons.prems by (cases e) (simp add: total_weight_def AList.delete_eq)
  qed (use Cons in \<open>auto simp: total_weight_def AList.delete_eq\<close>)
qed simp

lemma total_weight_update:
  "distinct (map fst es) \<Longrightarrow> total_weight weigh (AList.update key v es) + (case map_of es key of None \<Rightarrow> 0 | Some w \<Rightarrow> weigh w)
    = total_weight weigh es + weigh v"
  by (induction es) (auto simp: total_weight_def split: option.splits)

lemma fst_delete: "fst ` set (AList.delete key es) = fst ` set es - {key}"
  by (auto simp: AList.delete_eq image_iff)

lemma drop_key_consistent:
  assumes "cache_consistent weigh c" "recency c = key # rest"
  shows "cache_consistent weigh (drop_key weigh key (c\<lparr>recency := rest\<rparr>))"
proof -
  have "key \<in> fst ` set (entries c)" using assms by (auto simp: cache_consistent_def)
  then obtain v where v: "map_of (entries c) key = Some v" by (metis map_of_eq_None_iff not_Some_eq)
  have d: "distinct (map fst (entries c))" using assms by (simp add: cache_consistent_def)
  have "set rest = fst ` set (AList.delete key (entries c))" "distinct rest"
    using assms by (auto simp: cache_consistent_def fst_delete)
  moreover have "distinct (map fst (AList.delete key (entries c)))" by (rule distinct_delete [OF d])
  moreover have "cached_weight c - weigh v = total_weight weigh (AList.delete key (entries c))"
    using total_weight_delete [OF d v, of weigh] assms(1) by (simp add: cache_consistent_def)
  ultimately show ?thesis by (simp add: cache_consistent_def drop_key_def v)
qed

lemma map_of_drop_key: "map_of (entries (drop_key weigh key c)) k = Some v \<Longrightarrow> map_of (entries c) k = Some v"
  by (auto simp: drop_key_def delete_conv' split: option.splits if_splits)

locale budget =
  fixes weigh :: "'v \<Rightarrow> nat" and max_entries max_weight :: nat
  assumes room: "0 < max_entries" and small: "2 * max_weight \<le> U64_MAX"
begin

text \<open>Shedding returns, within the budget, and adds nothing.\<close>

lemma shed_returns:
  "cache_consistent weigh c \<Longrightarrow> \<exists>c'. shed weigh max_entries max_weight c = Some c'
    \<and> within_budget weigh max_entries max_weight c' \<and> (\<forall>k v. map_of (entries c') k = Some v \<longrightarrow> map_of (entries c) k = Some v)"
proof (induction "length (recency c)" arbitrary: c rule: less_induct)
  case less
  show ?case
  proof (cases "max_entries < length (recency c) \<or> max_weight < cached_weight c")
    case False
    then show ?thesis using less.prems by (simp add: shed.simps [of _ _ _ c] within_budget_def not_less)
  next
    case True
    have "recency c \<noteq> []"
    proof
      assume "recency c = []"
      then have "entries c = []" using less.prems by (simp add: cache_consistent_def)
      then show False using True less.prems \<open>recency c = []\<close> by (simp add: cache_consistent_def total_weight_def)
    qed
    then obtain key rest where r: "recency c = key # rest" by (cases "recency c") auto
    let ?d = "drop_key weigh key (c\<lparr>recency := rest\<rparr>)"
    have "shed weigh max_entries max_weight c = shed weigh max_entries max_weight ?d"
      using True by (simp add: shed.simps [of _ _ _ c] r)
    moreover have "map_of (entries ?d) k = Some v \<Longrightarrow> map_of (entries c) k = Some v" for k v
      using map_of_drop_key [of weigh key "c\<lparr>recency := rest\<rparr>" k v] by simp
    ultimately show ?thesis using less.hyps [of ?d] drop_key_consistent [OF less.prems r] r by auto
  qed
qed

lemma use_key_within:
  assumes "within_budget weigh max_entries max_weight c" "map_of (entries c) key = Some v"
  shows "within_budget weigh max_entries max_weight (use_key key c)"
proof -
  have "key \<in> fst ` set (entries c)" using map_of_SomeD [OF assms(2)] by (metis fst_conv image_eqI)
  then have "key \<in> set (recency c)" using assms(1) by (simp add: within_budget_def cache_consistent_def)
  then have "length (filter (\<lambda>k. k \<noteq> key) (recency c)) < length (recency c)" by (intro length_filter_less) auto
  then show ?thesis using assms(1) \<open>key \<in> set (recency c)\<close> by (auto simp: within_budget_def cache_consistent_def use_key_def)
qed

lemma insert_returns:
  assumes "within_budget weigh max_entries max_weight c" "weigh v \<le> max_weight"
  shows "\<exists>c'. cache_insert weigh max_entries max_weight key v c = Some c' \<and> within_budget weigh max_entries max_weight c'
    \<and> (\<forall>k w. map_of (entries c') k = Some w \<longrightarrow> map_of ((entries c)) k = Some w \<or> k = key \<and> w = v)"
proof -
  define left where "left = (case map_of (entries c) key of None \<Rightarrow> cached_weight c | Some p \<Rightarrow> cached_weight c - weigh p)"
  let ?c = "use_key key (c\<lparr>entries := AList.update key v (entries c), cached_weight := min (left + weigh v) U64_MAX\<rparr>)"
  have d: "distinct (map fst (entries c))" and w: "cached_weight c = total_weight weigh (entries c)" "cached_weight c \<le> max_weight"
    and r: "distinct (recency c)" "set (recency c) = fst ` set (entries c)"
    using assms(1) by (auto simp: within_budget_def cache_consistent_def)
  have "left + weigh v = total_weight weigh (AList.update key v (entries c))"
    using total_weight_update [OF d, of weigh key v] total_weight_delete [OF d, of key _ weigh] w
    by (fastforce simp: left_def split: option.splits)
  moreover have "left + weigh v \<le> U64_MAX" using assms(2) w(2) small by (auto simp: left_def split: option.splits)
  ultimately have "cache_consistent weigh ?c"
    using d r by (auto simp: cache_consistent_def use_key_def update_keys distinct_update dom_update)
  from shed_returns [OF this] show ?thesis
    by (auto simp: cache_insert_def left_def [symmetric] Let_def use_key_def update_conv' split: if_splits)
qed

lemma read_through_returns:
  assumes "within_budget weigh max_entries max_weight c"
  shows "\<exists>r c'. read_through weigh max_entries max_weight key origin c = Some (r, c')
    \<and> within_budget weigh max_entries max_weight c'
    \<and> r = (case map_of (entries c) key of None \<Rightarrow> origin | Some v \<Rightarrow> Inr v)
    \<and> (\<forall>k w. map_of (entries c') k = Some w \<longrightarrow> map_of (entries c) k = Some w \<or> k = key \<and> origin = Inr w)"
proof (cases "map_of (entries c) key")
  case (Some v)
  then show ?thesis using use_key_within [OF assms Some] by (simp add: read_through_def use_key_def)
next
  case None
  show ?thesis
  proof (cases origin)
    case (Inr v)
    show ?thesis
    proof (cases "weigh v \<le> max_weight")
      case True
      from insert_returns [OF assms True, of key] show ?thesis using None Inr True by (fastforce simp: read_through_def)
    qed (use None Inr assms in \<open>simp add: read_through_def\<close>)
  qed (use None assms in \<open>simp add: read_through_def\<close>)
qed

lemma forget_within:
  assumes "within_budget weigh max_entries max_weight c"
  shows "within_budget weigh max_entries max_weight (cache_forget weigh forgotten c)"
proof -
  have le: "total_weight weigh (filter p es) \<le> total_weight weigh es" for p and es :: "(string \<times> 'v) list"
    by (induction es) (auto simp: total_weight_def)
  have "distinct (map fst (filter p es))" if "distinct (map fst es)" for p and es :: "(string \<times> 'v) list"
    using that by (simp add: distinct_map_filter)
  then show ?thesis
    using assms le [of "\<lambda>e. \<not> forgotten (fst e)" "entries c"] le_trans [OF length_filter_le]
    by (auto simp: within_budget_def cache_consistent_def cache_forget_def Let_def total_weight_def)
qed

end

interpretation document_cache: budget document_bytes MAX_DOCUMENT_ENTRIES MAX_DOCUMENT_BYTES
  by unfold_locales (simp_all add: MAX_DOCUMENT_ENTRIES_def MAX_DOCUMENT_BYTES_def)

interpretation row_cache: budget presentation_weight MAX_CANONICAL_ENTRIES MAX_CANONICAL_ROWS
  by unfold_locales (simp_all add: MAX_CANONICAL_ENTRIES_def MAX_CANONICAL_ROWS_def)

section \<open>Reading presentations through the cache\<close>

lemma length_show_uuid: "length (show_uuid u) = 36"
  by (simp add: show_uuid_def Let_def)

lemma length_show_ids: "length (show_file_id f) = 36" "length (show_comparison_id c) = 36"
  by (cases f, simp add: length_show_uuid) (cases c, simp add: length_show_uuid)

lemma show_ids_inject: "show_file_id f = show_file_id g \<longleftrightarrow> f = g" "show_comparison_id c = show_comparison_id d \<longleftrightarrow> c = d"
  by (cases f; cases g; simp add: show_uuid_inject) (cases c; cases d; simp add: show_uuid_inject)

definition canonical_modes :: "string set" where
  "canonical_modes = {''unified'', ''split'', ''full''}"

lemma presentation_key_inject:
  assumes "presentation_key d m v e = presentation_key d' m' v' e'" "m \<in> canonical_modes" "m' \<in> canonical_modes"
  shows "file_id (doc_file d) = file_id (doc_file d')" "doc_comparison d = doc_comparison d'" "m = m'" "v = v'" "e = e'"
proof -
  have "show_file_id (file_id (doc_file d)) = show_file_id (file_id (doc_file d'))"
    "show_comparison_id (doc_comparison d) = show_comparison_id (doc_comparison d')"
    and rest: "m @ '':'' @ view_name v @ '':'' @ e = m' @ '':'' @ view_name v' @ '':'' @ e'"
    using assms(1) by (auto simp: presentation_key_def append_eq_append_conv length_show_ids)
  then show "file_id (doc_file d) = file_id (doc_file d')" "doc_comparison d = doc_comparison d'"
    by (simp_all add: show_ids_inject)
  have "m = m'" using rest assms(2,3) by (auto simp: canonical_modes_def)
  with rest have "view_name v @ '':'' @ e = view_name v' @ '':'' @ e'" by simp
  then have "v = v' \<and> e = e'" by (cases v; cases v') (simp_all add: view_name_def)
  with \<open>m = m'\<close> show "m = m'" "v = v'" "e = e'" by simp_all
qed

text \<open>A presentation depends on the state of the window only by its expansions.\<close>

lemma build_depends_on_expansions:
  assumes "ui_hunk_context_lines s = ui_hunk_context_lines t" "ui_expanded_blocks s = ui_expanded_blocks t"
    "ui_collapsed_blocks s = ui_collapsed_blocks t"
  shows "build_canonical_presentation d mode view s = build_canonical_presentation d mode view t"
proof -
  have "hunk_context s = hunk_context t" by (simp add: fun_eq_iff hunk_context_def assms)
  then have "hunk_rows d split s = hunk_rows d split t" "hunk_location s = hunk_location t" for split
    by (simp_all add: fun_eq_iff hunk_rows_def hunk_location_def)
  then show ?thesis by (simp add: build_canonical_presentation_def present_hunks_def assms)
qed

text \<open>The entries were built from documents that their identities determine; the JSON of the
  expansions is faithful.\<close>

definition faithful_cache ::
  "'f itself \<Rightarrow> (ReviewDiffDocument \<Rightarrow> bool) \<Rightarrow> expansion_text \<Rightarrow> CachedCanonicalPresentation budget_cache \<Rightarrow> bool" where
  "faithful_cache (_ :: 'f itself) documents json c \<longleftrightarrow> (\<forall>k p. map_of (entries c) k = Some p \<longrightarrow>
    (\<exists>d mode view (state :: 'f ReviewUiState) e. documents d \<and> mode \<in> canonical_modes
      \<and> json (ui_hunk_context_lines state) (ui_expanded_blocks state) (ui_collapsed_blocks state) = Some e
      \<and> k = presentation_key d mode view e \<and> build_canonical_presentation d mode view state = Inr p))"

definition identified_documents :: "(ReviewDiffDocument \<Rightarrow> bool) \<Rightarrow> bool" where
  "identified_documents documents \<longleftrightarrow> (\<forall>d d'. documents d \<longrightarrow> documents d' \<longrightarrow>
    file_id (doc_file d) = file_id (doc_file d') \<longrightarrow> doc_comparison d = doc_comparison d' \<longrightarrow> d = d')"

definition faithful_json :: "expansion_text \<Rightarrow> bool" where
  "faithful_json json \<longleftrightarrow> (\<forall>a b c a' b' c' e. json a b c = Some e \<longrightarrow> json a' b' c' = Some e \<longrightarrow>
    a = a' \<and> b = b' \<and> c = c')"

text \<open>C16: Reading a presentation through the cache returns, gives exactly what building it gives, and
  leaves a cache of at most 16 presentations and 100000 rows that is as faithful as before.\<close>

theorem presentation_cache_transparent:
  fixes state :: "'f ReviewUiState"
  assumes "within_budget presentation_weight MAX_CANONICAL_ENTRIES MAX_CANONICAL_ROWS c"
    "faithful_cache TYPE('f) documents json c" "identified_documents documents" "faithful_json json"
    "documents d" "mode \<in> canonical_modes"
    "json (ui_hunk_context_lines state) (ui_expanded_blocks state) (ui_collapsed_blocks state) = Some e"
  shows "\<exists>c'. cached_canonical_rows False json d mode view state c = Some (build_canonical_presentation d mode view state, c')
    \<and> within_budget presentation_weight MAX_CANONICAL_ENTRIES MAX_CANONICAL_ROWS c' \<and> faithful_cache TYPE('f) documents json c'"
proof -
  let ?key = "presentation_key d mode view e" and ?built = "build_canonical_presentation d mode view state"
  obtain r c' where run: "cached_canonical_rows False json d mode view state c = Some (r, c')"
    and ok: "within_budget presentation_weight MAX_CANONICAL_ENTRIES MAX_CANONICAL_ROWS c'"
    and r: "r = (case map_of (entries c) ?key of None \<Rightarrow> ?built | Some v \<Rightarrow> Inr v)"
    and new: "\<And>k w. map_of (entries c') k = Some w \<Longrightarrow> map_of (entries c) k = Some w \<or> k = ?key \<and> ?built = Inr w"
    using row_cache.read_through_returns [OF assms(1), of ?key ?built] assms(7) by (auto simp: cached_canonical_rows_def)
  have "r = ?built"
  proof (cases "map_of (entries c) ?key")
    case (Some p)
    with assms(2) obtain d' mode' view' and state' :: "'f ReviewUiState" and e' where
      other: "documents d'" "mode' \<in> canonical_modes"
        "json (ui_hunk_context_lines state') (ui_expanded_blocks state') (ui_collapsed_blocks state') = Some e'"
        "?key = presentation_key d' mode' view' e'" "build_canonical_presentation d' mode' view' state' = Inr p"
      unfolding faithful_cache_def by blast
    note same = presentation_key_inject [OF other(4) assms(6) other(2)]
    have "d = d'" using assms(3,5) other(1) same(1,2) unfolding identified_documents_def by blast
    moreover have "build_canonical_presentation d mode view state = build_canonical_presentation d mode view state'"
      using assms(4,7) other(3) same(5) unfolding faithful_json_def by (intro build_depends_on_expansions) blast+
    ultimately show ?thesis using r Some same(3,4) other(5) by simp
  qed (use r in simp)
  moreover have "faithful_cache TYPE('f) documents json c'"
    unfolding faithful_cache_def using new assms(2,5,6,7) unfolding faithful_cache_def by blast
  ultimately show ?thesis using run ok by blast
qed

definition demo_shown_document :: ReviewDiffDocument where
  "demo_shown_document = \<lparr>doc_comparison = ComparisonId 1,
    doc_file = \<lparr>file_id = ReviewFileId 2, file_path = StoredPath ''a'', file_old_path = None, file_status = ReviewFileStatus.FileModified\<rparr>,
    doc_old = \<lparr>content = ''x'', source_fingerprint = ''f'', line_count = 1, has_final_newline = False\<rparr>,
    doc_new = \<lparr>content = ''x'', source_fingerprint = ''f'', line_count = 1, has_final_newline = False\<rparr>,
    doc_hunks = [], changed_old_lines = {}, changed_new_lines = {}\<rparr>"

definition demo_json :: expansion_text where
  "demo_json a b c = (if a = Map.empty \<and> b = {} \<and> c = {} then Some ''[]'' else None)"

lemma presentation_cache_transparent_witness:
  "\<exists>c'. cached_canonical_rows False demo_json demo_shown_document ''full'' BothView (default_ui_state :: nat ReviewUiState) empty_cache
      = Some (build_canonical_presentation demo_shown_document ''full'' BothView (default_ui_state :: nat ReviewUiState), c')
    \<and> within_budget presentation_weight MAX_CANONICAL_ENTRIES MAX_CANONICAL_ROWS c'
    \<and> faithful_cache TYPE(nat) (\<lambda>d. d = demo_shown_document) demo_json c'"
proof (rule presentation_cache_transparent)
  show "within_budget presentation_weight MAX_CANONICAL_ENTRIES MAX_CANONICAL_ROWS empty_cache"
    by (simp add: within_budget_def cache_consistent_def total_weight_def empty_cache_def)
  show "faithful_json demo_json" by (simp add: faithful_json_def demo_json_def)
  show "demo_json (ui_hunk_context_lines (default_ui_state :: nat ReviewUiState))
    (ui_expanded_blocks (default_ui_state :: nat ReviewUiState)) (ui_collapsed_blocks (default_ui_state :: nat ReviewUiState))
    = Some ''[]''" by (simp add: demo_json_def default_ui_state_def)
qed (simp_all add: faithful_cache_def empty_cache_def identified_documents_def canonical_modes_def)

text \<open>A document that was read without naming its comparison stays in the cache: a later read of
  the latest one gives it again, whatever has been captured since.\<close>

lemma latest_document_is_kept:
  assumes "stored file None = Inr d" "document_bytes d \<le> MAX_DOCUMENT_BYTES"
  shows "\<exists>c. cached_persisted_review_document False stored file None empty_cache = Some (Inr d, c)
    \<and> (\<forall>later. cached_persisted_review_document False later file None c = Some (Inr d, c))"
  using assms
  by (simp add: cached_persisted_review_document_def read_through_def cache_insert_def empty_cache_def use_key_def
      shed.simps [where c = "_ :: PersistedReviewDocument budget_cache"] MAX_DOCUMENT_ENTRIES_def MAX_DOCUMENT_BYTES_def)

end
