(* ===== verification/Desktop_Views_Props.thy ===== *)
theory Desktop_Views_Props
  imports Desktop_Presentation Diff_Views
begin

text \<open>
  What the window shows: the offsets of the captured source, the ranges cut out of it, the gates
  of the full file, the search for a line, and the bounds of a viewport.
\<close>

section \<open>Offsets\<close>

fun starts :: "nat \<Rightarrow> 'a list list \<Rightarrow> nat list" where
  "starts n [] = []"
| "starts n (p # ps) = n # starts (n + length p) ps"

lemma starts_shift: "starts (n + k) ps = map (\<lambda>i. i + k) (starts n ps)"
proof (induction ps arbitrary: n)
  case (Cons p ps)
  from Cons [of "n + length p"] show ?case by (simp add: add.commute add.left_commute)
qed simp

lemma length_starts [simp]: "length (starts n ps) = length ps"
  by (induction ps arbitrary: n) auto

lemma starts_nth: "i < length ps \<Longrightarrow> starts n ps ! i = n + length (concat (take i ps))"
  by (induction ps arbitrary: n i) (auto simp: nth_Cons' take_Cons')

definition line_ends :: "string \<Rightarrow> nat list" where
  "line_ends s = filter (\<lambda>i. s ! i = NL \<and> i + 1 < length s) [0..<length s]"

lemma line_ends_Nil [simp]: "line_ends [] = []"
  by (simp add: line_ends_def)

lemma line_ends_Cons: "line_ends (c # s) = (if c = NL \<and> s \<noteq> [] then [0] else []) @ map Suc (line_ends s)"
proof -
  have "[0..<length (c # s)] = 0 # map Suc [0..<length s]" by (simp add: upt_conv_Cons map_Suc_upt del: upt_Suc)
  then show ?thesis by (auto simp: line_ends_def filter_map o_def)
qed

lemma starts_line_ends: "s \<noteq> [] \<Longrightarrow> starts 0 (split_inclusive NL s) = 0 # map Suc (line_ends s)"
proof (induction s)
  case (Cons c s)
  show ?case
  proof (cases "s = []")
    case True
    then show ?thesis by (simp add: line_ends_Cons)
  next
    case False
    then obtain p ps where s: "split_inclusive NL s = p # ps"
      by (cases "split_inclusive NL s") (auto dest: arg_cong [where f = concat])
    note ih = Cons.IH [OF False]
    show ?thesis using ih False starts_shift [of 0 1 "p # ps"] starts_shift [of "length p" 1 ps]
      by (auto simp: line_ends_Cons s)
  qed
qed simp

lemma source_line_offsets_starts:
  assumes "s \<noteq> []" "length s \<le> U32_MAX"
  shows "source_line_offsets s = starts 0 (split_inclusive NL s)"
proof -
  have "to_u32 (i + 1) = Suc i" if "i \<in> set (line_ends s)" for i
    using that assms(2) by (auto simp: line_ends_def to_u32_def)
  then show ?thesis
    unfolding starts_line_ends [OF assms(1)] by (auto simp: source_line_offsets_def line_ends_def)
qed

lemma drop_lines: "i \<le> length ps \<Longrightarrow> drop (length (concat (take i ps))) (concat ps) = concat (drop i ps)"
  by (metis append_eq_conv_conj append_take_drop_id concat_append)

lemma take_lines: "take (length (concat (take i ps))) (concat ps) = concat (take i ps)"
  by (metis append_eq_conv_conj append_take_drop_id concat_append)

section \<open>Ranges of lines\<close>

text \<open>C17: The text cut out of a captured source for the lines \<open>start\<close> to \<open>end\<close> is exactly those lines
  with their line ends, for every source below four gibibytes and every range inside it.\<close>

theorem captured_lines_exact:
  assumes "source \<noteq> []" "length source \<le> U32_MAX" "1 \<le> start" "start \<le> finish"
    "finish \<le> length (split_inclusive NL source)"
  shows "\<exists>r. source_line_range source (Some start) (Some finish) = Inr r
    \<and> byte_range source r = concat (take (Suc finish - start) (drop (start - 1) (split_inclusive NL source)))"
proof -
  let ?ps = "split_inclusive NL source"
  let ?at = "\<lambda>i. length (concat (take i ?ps))"
  have offsets: "source_line_offsets source = starts 0 ?ps" by (rule source_line_offsets_starts [OF assms(1,2)])
  have "nth_opt (starts 0 ?ps) (start - 1) = Some (?at (start - 1))"
    using assms(3-5) starts_nth [of "start - 1" ?ps 0] by (simp add: nth_opt_def)
  moreover have finish: "(case nth_opt (starts 0 ?ps) finish of None \<Rightarrow> length source | Some n \<Rightarrow> n) = ?at finish"
    using assms(5) starts_nth [of finish ?ps 0] by (auto simp: nth_opt_def)
  ultimately have range: "source_line_range source (Some start) (Some finish) = Inr (?at (start - 1), ?at finish)"
    using assms(1,3,4) by (simp add: source_line_range_def offsets unwrap_or_def)
  have "start - 1 + (Suc finish - start) = finish" using assms(3,4) by simp
  then have "take finish ?ps = take (start - 1) ?ps @ take (Suc finish - start) (drop (start - 1) ?ps)"
    by (metis take_add)
  then have "?at finish = ?at (start - 1) + length (concat (take (Suc finish - start) (drop (start - 1) ?ps)))"
    by simp
  moreover have "drop (?at (start - 1)) source = concat (drop (start - 1) ?ps)"
    using drop_lines [of "start - 1" ?ps] assms(4,5) by simp
  ultimately have "byte_range source (?at (start - 1), ?at finish)
      = concat (take (Suc finish - start) (drop (start - 1) ?ps))"
    using take_lines [of "Suc finish - start" "drop (start - 1) ?ps"] by (simp add: byte_range_def)
  with range show ?thesis by blast
qed

lemma captured_lines_exact_witness:
  "\<exists>r. source_line_range (''a'' @ [NL] @ ''b'' @ [NL] @ ''c'') (Some 2) (Some 3) = Inr r
    \<and> byte_range (''a'' @ [NL] @ ''b'' @ [NL] @ ''c'') r
      = concat (take (Suc 3 - 2) (drop (2 - 1) (split_inclusive NL (''a'' @ [NL] @ ''b'' @ [NL] @ ''c''))))"
  by (rule captured_lines_exact) simp_all

section \<open>Gates\<close>

fun revealed :: "FullFileProjectedRow \<Rightarrow> FullFileRow list" where
  "revealed (ProjectedLine r) = [r]"
| "revealed (OmittedGate b True) = []"
| "revealed (OmittedGate b False) = block_rows b"

definition shown_lines :: "FullFileProjectedRow list \<Rightarrow> FullFileRow list" where
  "shown_lines rows = List.map_filter (\<lambda>p. case p of ProjectedLine r \<Rightarrow> Some r | OmittedGate _ _ \<Rightarrow> None) rows"

lemma shown_lines_simps [simp]:
  "shown_lines [] = []" "shown_lines (ProjectedLine r # ps) = r # shown_lines ps"
  "shown_lines (OmittedGate b open # ps) = shown_lines ps" "shown_lines (ps @ qs) = shown_lines ps @ shown_lines qs"
  "shown_lines (map ProjectedLine rs) = rs"
  by (induction ps) (simp_all add: shown_lines_def List.map_filter_def o_def filter_True)

definition row_key :: "FullFileRow \<Rightarrow> string \<times> nat" where
  "row_key r = (side_name (full_side r), full_line_number r)"

definition block_key :: "FullFileOmittedBlock \<Rightarrow> string \<times> nat" where
  "block_key b = (side_name (block_side b), block_start_line b)"

lemma omitted_block_simps [simp]:
  "block_rows (omitted_block d (row # rows)) = row # rows" "block_key (omitted_block d (row # rows)) = row_key row"
  by (simp_all add: omitted_block_def Let_def block_key_def row_key_def block_start_line_def)

lemma block_keys_of_rows:
  "b \<in> set (full_file_omitted_blocks_from_rows d view rows) \<Longrightarrow> block_key b \<in> row_key ` set rows"
proof (induction d view rows rule: full_file_omitted_blocks_from_rows.induct)
  case (2 d view row rows)
  show ?case
  proof (cases "is_omitted view row")
    case True
    then show ?thesis using 2 by (auto simp: Let_def dest: set_dropWhileD)
  qed (use 2 in auto)
qed simp

lemma project_rows_lossless:
  assumes "distinct (map row_key rows)"
    "\<And>b. b \<in> set (full_file_omitted_blocks_from_rows d view rows) \<Longrightarrow> map_of blocks (block_key b) = Some b"
  shows "concat (map revealed (project_rows view e c blocks rows)) = rows
    \<and> filter (\<lambda>r. \<not> is_omitted view r) (shown_lines (project_rows view e c blocks rows)) = filter (\<lambda>r. \<not> is_omitted view r) rows"
  using assms
proof (induction d view rows arbitrary: blocks rule: full_file_omitted_blocks_from_rows.induct)
  case (2 d view row rows)
  show ?case
  proof (cases "is_omitted view row")
    case False
    have "map_of blocks (block_key b) = Some b" if "b \<in> set (full_file_omitted_blocks_from_rows d view rows)" for b
      using 2(4) [of b] that False by simp
    with 2(1) [OF False, of blocks] 2(3) False show ?thesis by simp
  next
    case True
    define more where "more = (\<lambda>r. is_omitted view r \<and> full_side r = full_side row)"
    let ?block = "omitted_block d (row # takeWhile more rows)" and ?rest = "dropWhile more rows"
    let ?blocks = "AList.delete (row_key row) blocks"
    have blocks: "full_file_omitted_blocks_from_rows d view (row # rows)
        = ?block # full_file_omitted_blocks_from_rows d view ?rest"
      using True by (simp add: Let_def more_def)
    have found: "map_of blocks (row_key row) = Some ?block" using 2(4) [of ?block, unfolded blocks] by simp
    have rest: "drop (length (block_rows ?block)) (row # rows) = ?rest"
      by (simp add: dropWhile_eq_drop)
    have "row_key row \<notin> row_key ` set ?rest" using 2(3) by (auto dest: set_dropWhileD)
    then have "map_of ?blocks (block_key b) = Some b" if "b \<in> set (full_file_omitted_blocks_from_rows d view ?rest)" for b
      using 2(4) [of b, unfolded blocks] that block_keys_of_rows [OF that] by (auto simp: delete_conv')
    moreover have "distinct (map row_key ?rest)"
      using 2(3) by (simp add: dropWhile_eq_drop drop_map [symmetric])
    ultimately have ih: "concat (map revealed (project_rows view e c ?blocks ?rest)) = ?rest
      \<and> filter (\<lambda>r. \<not> is_omitted view r) (shown_lines (project_rows view e c ?blocks ?rest)) = filter (\<lambda>r. \<not> is_omitted view r) ?rest"
      using 2(2) [OF _ more_def, of ?blocks] True by simp
    have lines: "concat (map (revealed \<circ> ProjectedLine) rs) = rs" for rs by (induction rs) auto
    have hidden: "filter (\<lambda>r. \<not> is_omitted view r) (takeWhile more rows) = []"
      by (auto simp: filter_empty_conv more_def dest: set_takeWhileD)
    have "filter (\<lambda>r. \<not> is_omitted view r) rows = filter (\<lambda>r. \<not> is_omitted view r) ?rest"
      by (metis takeWhile_dropWhile_id filter_append hidden append_Nil)
    moreover have "project_rows view e c blocks (row # rows) = OmittedGate ?block (is_expanded view e c ?block)
      # (if is_expanded view e c ?block then map ProjectedLine (row # takeWhile more rows) else []) @ project_rows view e c ?blocks ?rest"
      using True found rest by (simp add: row_key_def Let_def)
    ultimately show ?thesis using ih True by (cases "is_expanded view e c ?block") (simp_all add: lines hidden)
  qed
qed simp

text \<open>The complete source of the primary side, from the projections of the diff.\<close>

lemma primary_rows:
  "filter (\<lambda>r. full_side r = primary_side view) (view_rows d view) = full_file_rows d (primary_side view)"
  using projection_lossless [of New Old Removal row_old row_new "\<lambda>h. new_start (hunk_header h)" d "doc_hunks d"]
    projection_lossless [of Old New Addition row_new row_old "\<lambda>h. old_start (hunk_header h)" d "doc_hunks d"]
  by (cases view)
    (simp_all add: view_rows_def primary_side_def full_file_current_rows_def full_file_base_rows_def Let_def length_full_file_rows)

definition identified_rows :: "ReviewDiffDocument \<Rightarrow> FullFileView \<Rightarrow> bool" where
  "identified_rows d view \<longleftrightarrow> distinct (map (\<lambda>r. (full_side r, full_line_number r)) (view_rows d view))"

lemma side_name_inject: "side_name a = side_name b \<longleftrightarrow> a = b"
  by (cases a; cases b) (simp_all add: side_name_def)

lemma identified_rows_keys: "identified_rows d view \<Longrightarrow> distinct (map row_key (view_rows d view))"
  by (auto simp: identified_rows_def distinct_map row_key_def inj_on_def side_name_inject)

lemma block_keys_distinct:
  "distinct (map row_key rows) \<Longrightarrow> distinct (map block_key (full_file_omitted_blocks_from_rows d view rows))"
proof (induction d view rows rule: full_file_omitted_blocks_from_rows.induct)
  case (2 d view row rows)
  show ?case
  proof (cases "is_omitted view row")
    case True
    let ?more = "\<lambda>r. is_omitted view r \<and> full_side r = full_side row"
    have "row_key row \<notin> block_key ` set (full_file_omitted_blocks_from_rows d view (dropWhile ?more rows))"
      using 2(3) block_keys_of_rows [of _ d view "dropWhile ?more rows"] by (fastforce dest: set_dropWhileD)
    moreover have "distinct (map row_key (dropWhile ?more rows))"
      using 2(3) by (simp add: dropWhile_eq_drop drop_map [symmetric])
    ultimately show ?thesis using 2(2) True by (simp add: Let_def)
  qed (use 2 in simp)
qed simp

text \<open>C14: The full file hides nothing for good.  Whatever gates are open, the lines shown together with
  the lines behind the closed gates are the rows of the view, each once and in order; the lines
  that no gate may hide are all shown, and a view of one side shows its complete source.\<close>

theorem full_file_gates_lose_nothing:
  assumes "identified_rows d view"
  shows "concat (map revealed (fst (full_file_projection d view expanded collapsed))) = view_rows d view
    \<and> filter (\<lambda>r. \<not> is_omitted view r) (shown_lines (fst (full_file_projection d view expanded collapsed)))
      = filter (\<lambda>r. \<not> is_omitted view r) (view_rows d view)
    \<and> (view = BothView \<or> filter (\<lambda>r. full_side r = primary_side view)
        (shown_lines (fst (full_file_projection d view expanded collapsed))) = full_file_rows d (primary_side view))"
proof -
  let ?rows = "view_rows d view" and ?blocks = "full_file_omitted_blocks_from_rows d view (view_rows d view)"
  note keys = identified_rows_keys [OF assms]
  have found: "map_of (rev (map (\<lambda>b. ((side_name (block_side b), block_start_line b), b)) ?blocks)) (block_key b) = Some b"
    if "b \<in> set ?blocks" for b
  proof (rule map_of_is_SomeI)
    have "map fst (rev (map (\<lambda>b. ((side_name (block_side b), block_start_line b), b)) ?blocks)) = rev (map block_key ?blocks)"
      by (simp add: rev_map block_key_def)
    then show "distinct (map fst (rev (map (\<lambda>b. ((side_name (block_side b), block_start_line b), b)) ?blocks)))"
      using block_keys_distinct [OF keys] by simp
  qed (use that in \<open>auto simp: block_key_def\<close>)
  note lossless = project_rows_lossless [where d = d and view = view and e = expanded and c = collapsed, OF keys found]
  moreover have "is_omitted view r \<longleftrightarrow> full_side r \<noteq> primary_side view" if "view \<noteq> BothView" for r
    using that by (cases view; cases "full_side r") (simp_all add: is_omitted_def primary_side_def)
  ultimately show ?thesis using primary_rows [of view d]
    by (cases "view = BothView") (simp_all add: full_file_projection_def Let_def)
qed

definition demo_cell :: "DiffSide \<Rightarrow> nat \<Rightarrow> DiffLineKind \<Rightarrow> string \<Rightarrow> DiffCell" where
  "demo_cell side n kind text = \<lparr>cell_side = side, line_number = n, cell_kind = kind, source_line_index = n - 1,
    cell_text = text, has_trailing_newline = True\<rparr>"

definition demo_hunk :: ReviewHunk where
  "demo_hunk = make_hunk (\<lambda>_. ''id'') (StoredPath ''f'')
    \<lparr>old_start = 1, old_count = 2, new_start = 1, new_count = 1, header_context = None\<rparr>
    [\<lparr>row_id = ''r0'', row_kind = Context, row_old = Some (demo_cell Old 1 Context ''a''),
       row_new = Some (demo_cell New 1 Context ''a'')\<rparr>,
     \<lparr>row_id = ''r1'', row_kind = Removal, row_old = Some (demo_cell Old 2 Removal ''b''), row_new = None\<rparr>]"

definition demo_source :: "string \<Rightarrow> SourceDocument" where
  "demo_source text = SourceDocument_new (\<lambda>_. ''f'') text"

definition demo_diff :: ReviewDiffDocument where
  "demo_diff = \<lparr>doc_comparison = ComparisonId 1,
    doc_file = \<lparr>file_id = ReviewFileId 2, file_path = StoredPath ''f'', file_old_path = None,
      file_status = ReviewFileStatus.FileModified\<rparr>,
    doc_old = demo_source (''a'' @ [NL] @ ''b'' @ [NL]), doc_new = demo_source (''a'' @ [NL]),
    doc_hunks = [demo_hunk], changed_old_lines = {2}, changed_new_lines = {}\<rparr>"

lemma full_file_gates_lose_nothing_witness:
  "concat (map revealed (fst (full_file_projection demo_diff BothView {} {}))) = view_rows demo_diff BothView
    \<and> filter (\<lambda>r. \<not> is_omitted BothView r) (shown_lines (fst (full_file_projection demo_diff BothView {} {})))
      = filter (\<lambda>r. \<not> is_omitted BothView r) (view_rows demo_diff BothView)
    \<and> (BothView = BothView \<or> filter (\<lambda>r. full_side r = primary_side BothView)
        (shown_lines (fst (full_file_projection demo_diff BothView {} {}))) = full_file_rows demo_diff (primary_side BothView))"
  by (rule full_file_gates_lose_nothing) code_simp

section \<open>Searching for a line\<close>

lemma find_index_Some:
  "find_index p xs = Some i \<longleftrightarrow> i < length xs \<and> p (xs ! i) \<and> (\<forall>j<i. \<not> p (xs ! j))"
proof (induction xs arbitrary: i)
  case (Cons x xs)
  then show ?case by (cases i) (auto simp: All_less_Suc2)
qed simp

lemma find_index_None: "find_index p xs = None \<longleftrightarrow> (\<forall>x\<in>set xs. \<not> p x)"
  by (induction xs) auto

lemma foldl_min: "foldl min k ks \<in> set (k # ks) \<and> (\<forall>m\<in>set (k # ks). foldl min k ks \<le> m)" for k :: "'k :: linorder"
proof (induction ks arbitrary: k)
  case (Cons m ks)
  from Cons [of "min k m"] show ?case by (auto simp: min_def split: if_splits intro: order_trans)
qed simp

lemma nearest_index_Some:
  assumes "nearest_index distance xs = Some i"
  shows "\<exists>d. i < length xs \<and> distance (xs ! i) = Some d
    \<and> (\<forall>j m. j < length xs \<longrightarrow> distance (xs ! j) = Some m \<longrightarrow> d \<le> m \<and> (j < i \<longrightarrow> d < m))"
proof -
  let ?keys = "List.map_filter (\<lambda>(i, x). map_option (\<lambda>d. (d, i)) (distance x)) (enumerate 0 xs)"
  have keys: "(d, j) \<in> set ?keys \<longleftrightarrow> j < length xs \<and> distance (xs ! j) = Some d" for d j
    by (auto simp: List.map_filter_def in_set_enumerate_eq image_iff Bex_def split: prod.splits)
  obtain k ks where k: "?keys = k # ks" "i = snd (foldl min k ks)"
    using assms by (auto simp: nearest_index_def split: list.splits)
  let ?d = "fst (foldl min k ks)"
  have "(?d, i) \<in> set ?keys" "\<forall>m\<in>set ?keys. (?d, i) \<le> m" using foldl_min [of k ks] k by (simp_all del: set_simps)
  then have "i < length xs" "distance (xs ! i) = Some ?d" using keys by blast+
  moreover have least: "(?d, i) \<le> (m, j)" if "j < length xs" "distance (xs ! j) = Some m" for j m
    using keys \<open>\<forall>m\<in>set ?keys. (?d, i) \<le> m\<close> that by blast
  moreover have "?d \<le> m \<and> (j < i \<longrightarrow> ?d < m)" if "j < length xs" "distance (xs ! j) = Some m" for j m
    using least [OF that] by auto
  ultimately show ?thesis by blast
qed

lemma nearest_index_None: "nearest_index distance xs = None \<longleftrightarrow> (\<forall>x\<in>set xs. distance x = None)"
proof -
  have "List.map_filter (\<lambda>(i, x). map_option (\<lambda>d. (d, i)) (distance x)) (enumerate n xs) = [] \<longleftrightarrow> (\<forall>x\<in>set xs. distance x = None)" for n
    by (induction xs arbitrary: n) (auto split: option.splits)
  from this [of 0] show ?thesis
    by (cases "List.map_filter (\<lambda>(i, x). map_option (\<lambda>d. (d, i)) (distance x)) (enumerate 0 xs)")
      (simp_all add: nearest_index_def)
qed

text \<open>A jump to a source line lands on a row of that side whose line is as near as any, and on the
  first such row; an exact row is therefore found whenever there is one.\<close>

theorem jump_lands_nearest:
  assumes "row \<in> set rows" "row_line side row = Some n"
  shows "\<exists>l. nearest_canonical_row rows side line < length rows
    \<and> row_line side (rows ! nearest_canonical_row rows side line) = Some l
    \<and> (\<forall>j m. j < length rows \<longrightarrow> row_line side (rows ! j) = Some m \<longrightarrow>
        abs_diff l line \<le> abs_diff m line \<and> (j < nearest_canonical_row rows side line \<longrightarrow> abs_diff l line < abs_diff m line))"
proof (cases "find_index (\<lambda>row. row_line side row = Some line) rows")
  case (Some i)
  then have "nearest_canonical_row rows side line = i" by (simp add: nearest_canonical_row_def)
  moreover from Some have "i < length rows" "row_line side (rows ! i) = Some line"
    and first: "\<And>j. j < i \<Longrightarrow> row_line side (rows ! j) \<noteq> Some line" by (auto simp: find_index_Some)
  moreover have "abs_diff line line \<le> abs_diff m line \<and> (j < i \<longrightarrow> abs_diff line line < abs_diff m line)"
    if "row_line side (rows ! j) = Some m" for j m
    using first [of j] that by (auto simp: abs_diff_def)
  ultimately show ?thesis by blast
next
  case None
  let ?distance = "\<lambda>row. map_option (\<lambda>l. abs_diff l line) (row_line side row)"
  obtain i where i: "nearest_index ?distance rows = Some i"
    using assms nearest_index_None [of ?distance rows] by (cases "nearest_index ?distance rows") auto
  then have "nearest_canonical_row rows side line = i" by (simp add: nearest_canonical_row_def None unwrap_or_def)
  with nearest_index_Some [OF i] show ?thesis by auto
qed

lemma jump_lands_nearest_witness:
  "\<exists>l. nearest_canonical_row [bare_row ''h'' ''header'', (bare_row ''r'' ''context'')\<lparr>rv_new_line := Some 7\<rparr>] New 9
      < length [bare_row ''h'' ''header'', (bare_row ''r'' ''context'')\<lparr>rv_new_line := Some 7\<rparr>]
    \<and> row_line New ([bare_row ''h'' ''header'', (bare_row ''r'' ''context'')\<lparr>rv_new_line := Some 7\<rparr>]
        ! nearest_canonical_row [bare_row ''h'' ''header'', (bare_row ''r'' ''context'')\<lparr>rv_new_line := Some 7\<rparr>] New 9) = Some l
    \<and> (\<forall>j m. j < length [bare_row ''h'' ''header'', (bare_row ''r'' ''context'')\<lparr>rv_new_line := Some 7\<rparr>] \<longrightarrow>
        row_line New ([bare_row ''h'' ''header'', (bare_row ''r'' ''context'')\<lparr>rv_new_line := Some 7\<rparr>] ! j) = Some m \<longrightarrow>
        abs_diff l 9 \<le> abs_diff m 9
        \<and> (j < nearest_canonical_row [bare_row ''h'' ''header'', (bare_row ''r'' ''context'')\<lparr>rv_new_line := Some 7\<rparr>] New 9
          \<longrightarrow> abs_diff l 9 < abs_diff m 9))"
  by (rule jump_lands_nearest [where row = "(bare_row ''r'' ''context'')\<lparr>rv_new_line := Some 7\<rparr>" and n = 7])
    (simp_all add: row_line_def)

end
