(* ===== verification/Desktop_Window_Props.thy ===== *)
theory Desktop_Window_Props
  imports Desktop_Views_Props
begin

text \<open>
  The viewport: its bounds, the ranges of source it highlights, the alignment of the two sides and
  the lines an expanded hunk shows.
\<close>

section \<open>Bounds\<close>

lemma slice_bounds:
  fixes s t m u k :: nat
  assumes "s \<le> t" "t \<le> u"
  defines "e \<equiv> min (min (max k s) t) (min (s + m) u)"
  shows "s \<le> e" "e \<le> t" "e - s \<le> m" "e = t \<or> e = s + m \<or> e = max k s"
  using assms(1,2) unfolding e_def min_def max_def by (auto split: if_splits)

text \<open>A viewport lies inside the presentation, has at most the largest number of rows, gives the
  rows from the requested start and all of them up to the requested end or its limits.\<close>

theorem viewport_bounded:
  assumes "total_rows \<le> U64_MAX"
  shows "\<exists>s e. bounded_window start end total_rows max_rows = (s, e) \<and> s \<le> e \<and> e \<le> total_rows \<and> e - s \<le> max_rows
    \<and> s = min start total_rows \<and> (e = total_rows \<or> e = s + max_rows \<or> e = max end s)"
  unfolding bounded_window_def Let_def
  by (intro exI conjI, rule refl) (rule slice_bounds [OF min.cobounded2 assms] refl)+

lemma viewport_bounded_witness:
  "\<exists>s e. bounded_window 10 4000 3000 2048 = (s, e) \<and> s \<le> e \<and> e \<le> 3000 \<and> e - s \<le> 2048
    \<and> s = min 10 3000 \<and> (e = 3000 \<or> e = s + 2048 \<or> e = max 4000 s)"
  by (rule viewport_bounded [of 3000 10 4000 2048]) simp

lemma length_window_rows:
  assumes "length rows \<le> U64_MAX"
  shows "length (window_rows notes d rows start end max_rows) \<le> max_rows"
  using slice_bounds(3) [OF min.cobounded2 [of start "length rows"] assms, of "end" max_rows]
  unfolding window_rows_def bounded_window_def Let_def by (simp only: prod.case length_map length_take) linarith

section \<open>Navigation\<close>

lemma present_hunks_index:
  assumes "foldl (\<lambda>(rows, hunks) h. (rows @ hunk_rows d split state h, hunks @ [hunk_location state (to_u32 (length rows)) h]))
      ([], []) hs = (rows, hunks)" "length rows \<le> U32_MAX"
  shows "length hunks = length hs \<and> (\<forall>i<length hs. location_id (hunks ! i) = hunk_id_str (hunk_id (hs ! i))
    \<and> location_row_index (hunks ! i) < length rows \<and> rows ! location_row_index (hunks ! i) = header_row (hs ! i))"
  using assms
proof (induction hs arbitrary: rows hunks rule: rev_induct)
  case (snoc h hs)
  obtain rows' hunks' where before: "foldl (\<lambda>(rows, hunks) h. (rows @ hunk_rows d split state h,
      hunks @ [hunk_location state (to_u32 (length rows)) h])) ([], []) hs = (rows', hunks')" by fastforce
  have rows: "rows = rows' @ hunk_rows d split state h" and hunks: "hunks = hunks' @ [hunk_location state (to_u32 (length rows')) h]"
    using snoc.prems(1) before by auto
  have "length rows' \<le> U32_MAX" using snoc.prems(2) rows by simp
  note ih = snoc.IH [OF before this]
  have "hunk_rows d split state h \<noteq> [] \<and> hunk_rows d split state h ! 0 = header_row h"
    by (simp add: hunk_rows_def Let_def split: prod.splits)
  moreover have "location_row_index (hunk_location state (to_u32 (length rows')) h) = length rows'"
    "location_id (hunk_location state (to_u32 (length rows')) h) = hunk_id_str (hunk_id h)"
    using \<open>length rows' \<le> U32_MAX\<close> by (simp_all add: hunk_location_def to_u32_def split: prod.splits)
  ultimately show ?case using ih by (auto simp: rows hunks nth_append less_Suc_eq)
qed simp

text \<open>The navigation of a presentation is right: there is one entry for each hunk, in order, and
  its row index is the row of that hunk's header.\<close>

theorem hunk_navigation_points_at_headers:
  assumes "present_hunks d split state = (rows, hunks)" "length rows \<le> U32_MAX"
  shows "length hunks = length (doc_hunks d) \<and> (\<forall>i<length (doc_hunks d).
    location_id (hunks ! i) = hunk_id_str (hunk_id (doc_hunks d ! i)) \<and> location_row_index (hunks ! i) < length rows
    \<and> rows ! location_row_index (hunks ! i) = header_row (doc_hunks d ! i))"
  by (rule present_hunks_index [OF assms(1) [unfolded present_hunks_def] assms(2)])

lemma hunk_navigation_points_at_headers_witness:
  "length (snd (present_hunks demo_diff False (default_ui_state :: nat ReviewUiState))) = length (doc_hunks demo_diff)
    \<and> (\<forall>i<length (doc_hunks demo_diff).
      location_id (snd (present_hunks demo_diff False (default_ui_state :: nat ReviewUiState)) ! i)
        = hunk_id_str (hunk_id (doc_hunks demo_diff ! i))
      \<and> location_row_index (snd (present_hunks demo_diff False (default_ui_state :: nat ReviewUiState)) ! i)
        < length (fst (present_hunks demo_diff False (default_ui_state :: nat ReviewUiState)))
      \<and> fst (present_hunks demo_diff False (default_ui_state :: nat ReviewUiState))
          ! location_row_index (snd (present_hunks demo_diff False (default_ui_state :: nat ReviewUiState)) ! i)
        = header_row (doc_hunks demo_diff ! i))"
proof (rule hunk_navigation_points_at_headers)
  show "length (fst (present_hunks demo_diff False (default_ui_state :: nat ReviewUiState))) \<le> U32_MAX"
    by code_simp
qed simp

section \<open>Highlighted ranges\<close>

definition shown_ranges :: "DiffRowView list \<Rightarrow> DiffSide \<Rightarrow> string \<Rightarrow> (nat \<times> nat) list" where
  "shown_ranges rows side mode = List.map_filter (\<lambda>row.
    if display_side mode row \<notin> {None, Some side} then None
    else map_option (\<lambda>(offset, text). (offset, saturating_add_32 offset (to_u32 (length text)))) (row_source side row)) rows"

lemma row_byte_ranges_fold:
  "row_byte_ranges rows side mode = foldl (\<lambda>ranges (a, b). add_byte_range a b ranges) [] (shown_ranges rows side mode)"
proof -
  have "foldl (\<lambda>ranges row.
      if display_side mode row \<notin> {None, Some side} then ranges
      else (case row_source side row of
          None \<Rightarrow> ranges
        | Some (offset, text) \<Rightarrow> add_byte_range offset (saturating_add_32 offset (to_u32 (length text))) ranges)) rs rows
    = foldl (\<lambda>ranges (a, b). add_byte_range a b ranges) rs (shown_ranges rows side mode)" for rs
    by (induction rows arbitrary: rs) (auto simp: shown_ranges_def split: option.splits)
  then show ?thesis by (simp add: row_byte_ranges_def)
qed

definition covered :: "nat \<times> nat \<Rightarrow> (nat \<times> nat) list \<Rightarrow> bool" where
  "covered r ranges \<longleftrightarrow> (\<exists>s\<in>set ranges. fst s \<le> fst r \<and> snd r \<le> snd s)"

lemma add_byte_range_covers:
  assumes "ranges = [] \<or> fst (last ranges) \<le> a"
  shows "covered (a, b) (add_byte_range a b ranges)" "covered r ranges \<Longrightarrow> covered r (add_byte_range a b ranges)"
    "fst (last (add_byte_range a b ranges)) \<le> a" "add_byte_range a b ranges \<noteq> []"
proof -
  have r: "ranges = butlast ranges @ [last ranges]" if "ranges \<noteq> []" using that by simp
  show "covered (a, b) (add_byte_range a b ranges)" "fst (last (add_byte_range a b ranges)) \<le> a" "add_byte_range a b ranges \<noteq> []"
    using assms by (auto simp: add_byte_range_def covered_def)
  show "covered r (add_byte_range a b ranges)" if c: "covered r ranges"
  proof (cases "ranges \<noteq> [] \<and> a \<le> saturating_add_32 (snd (last ranges)) 1")
    case True
    from c obtain s where "s \<in> set ranges" "fst s \<le> fst r" "snd r \<le> snd s" by (auto simp: covered_def)
    moreover from this(1) r True have "s \<in> set (butlast ranges) \<or> s = last ranges" by (metis Un_iff set_append set_ConsD empty_iff empty_set)
    ultimately show ?thesis using True by (auto simp: add_byte_range_def covered_def)
  qed (use c in \<open>auto simp: add_byte_range_def covered_def\<close>)
qed

lemma fold_covers:
  "sorted (map fst rs) \<Longrightarrow> ranges = [] \<or> (rs \<noteq> [] \<longrightarrow> fst (last ranges) \<le> fst (hd rs)) \<Longrightarrow> r \<in> set rs \<or> covered r ranges \<Longrightarrow>
    covered r (foldl (\<lambda>ranges (a, b). add_byte_range a b ranges) ranges rs)"
proof (induction rs arbitrary: ranges)
  case (Cons x rs)
  obtain a b where x: "x = (a, b)" by (cases x)
  have "ranges = [] \<or> fst (last ranges) \<le> a" using Cons.prems(2) x by auto
  note one = add_byte_range_covers(1,3) [OF this, of b] add_byte_range_covers(2) [OF this, of r b]
  have "r \<in> set rs \<or> covered r (add_byte_range a b ranges)" using Cons.prems(3) one(1,3) by (auto simp: x)
  moreover have "rs \<noteq> [] \<longrightarrow> fst (last (add_byte_range a b ranges)) \<le> fst (hd rs)"
    using one(2) Cons.prems(1) by (cases rs) (auto simp: x)
  ultimately show ?case using Cons.IH [of "add_byte_range a b ranges"] Cons.prems(1) by (simp add: x)
qed simp

text \<open>When the rows of a viewport follow the order of the source, the ranges that are highlighted
  cover the text of every row that is shown on that side.\<close>

theorem highlighting_covers_rows:
  assumes "sorted (map fst (shown_ranges rows side mode))" "r \<in> set (shown_ranges rows side mode)"
  shows "covered r (row_byte_ranges rows side mode)"
  unfolding row_byte_ranges_fold by (rule fold_covers) (use assms in simp_all)

definition demo_row :: "nat \<Rightarrow> nat \<Rightarrow> string \<Rightarrow> DiffRowView" where
  "demo_row n offset text = (bare_row ''row'' ''context'')\<lparr>rv_new_line := Some n, rv_new_text := Some text,
    rv_new_source_start_byte := Some offset\<rparr>"

lemma highlighting_covers_rows_witness:
  "covered (6, 12) (row_byte_ranges [demo_row 1 0 ''first'', demo_row 2 6 ''second''] New ''unified'')"
  by (rule highlighting_covers_rows) code_simp+

text \<open>Without that order a row can be left out: a range that reaches back before the last one is
  taken as a part of it although only its end is used.\<close>

lemma expanded_rows_lose_highlighting:
  "row_byte_ranges [demo_row 10 100 ''tenth'', demo_row 1 0 ''first''] New ''unified'' = [(100, 105)]"
  by code_simp

section \<open>Expanded context\<close>

text \<open>The text of a line stands at its offset.\<close>

lemma line_at_offset:
  assumes "0 < n" "nth_opt (str_lines source) (n - 1) = Some t" "length source \<le> U32_MAX"
  shows "prefix t (drop (source_offset (source_line_offsets source) n) source)"
proof -
  let ?ps = "split_inclusive NL source"
  have n: "n - 1 < length ?ps" and t: "t = strip_line_end (?ps ! (n - 1))"
    using assms(2) by (auto simp: nth_opt_def str_lines_def split: if_splits)
  then have "source \<noteq> []" by auto
  then have "source_offset (source_line_offsets source) n = length (concat (take (n - 1) ?ps))"
    using assms(1) n starts_nth [of "n - 1" ?ps 0]
    by (simp add: source_offset_def source_line_offsets_starts [OF _ assms(3)] nth_opt_def)
  then have "drop (source_offset (source_line_offsets source) n) source = concat (drop (n - 1) ?ps)"
    using drop_lines [of "n - 1" ?ps] n by simp
  also have "\<dots> = ?ps ! (n - 1) @ concat (drop n ?ps)"
    using n assms(1) Cons_nth_drop_Suc [OF n] by (metis Suc_diff_1 concat.simps(2))
  finally have "prefix (?ps ! (n - 1)) (drop (source_offset (source_line_offsets source) n) source)" by simp
  moreover have "prefix t (?ps ! (n - 1))"
    unfolding t strip_line_end_def by (auto split: option.splits intro: prefixI prefix_order.trans)
  ultimately show ?thesis by (rule prefix_order.trans [rotated])
qed

lemma set_map_filter: "set (List.map_filter f xs) = {y. \<exists>x\<in>set xs. f x = Some y}"
  by (force simp: List.map_filter_def)

lemma expanded_context_rowsD:
  assumes "row \<in> set (expanded_context_rows hunk phase ob nb extra old_lines new_lines oos nos before)"
  shows "\<exists>old_line new_line. row = expanded_row hunk phase old_line new_line
    (context_text old_lines old_line) (context_text new_lines new_line) oos nos"
  using assms by (auto simp: expanded_context_rows_def Let_def set_map_filter split: if_splits)

text \<open>An expanded line shows the captured source: the text of a row with a line number above zero
  is that line of the source, and its byte offset is where that line begins.\<close>

theorem expanded_context_is_captured:
  assumes "row \<in> set (expanded_context_rows hunk phase ob nb extra (str_lines old) (str_lines new)
      (source_line_offsets old) (source_line_offsets new) before)"
    "source = (case side of Old \<Rightarrow> old | New \<Rightarrow> new)" "length source \<le> U32_MAX"
    "row_line side row = Some n" "0 < n" "row_source side row = Some (offset, t)"
  shows "nth_opt (str_lines source) (n - 1) = Some t \<and> prefix t (drop offset source)"
proof -
  obtain ol nl where row: "row = expanded_row hunk phase ol nl (context_text (str_lines old) ol) (context_text (str_lines new) nl)
      (source_line_offsets old) (source_line_offsets new)"
    using expanded_context_rowsD [OF assms(1)] by blast
  have "nth_opt (str_lines source) (n - 1) = Some t" "offset = source_offset (source_line_offsets source) n"
    using assms(2,4,6) unfolding row
    by (cases side; auto simp: row_line_def row_source_def expanded_row_def bare_row_def context_text_def split: option.splits)+
  with line_at_offset [OF assms(5) _ assms(3)] show ?thesis by simp
qed

lemma expanded_context_is_captured_witness:
  "nth_opt (str_lines (''a'' @ [NL] @ ''b'')) (2 - 1) = Some ''b'' \<and> prefix ''b'' (drop 2 (''a'' @ [NL] @ ''b''))"
proof (rule expanded_context_is_captured)
  let ?row = "expanded_row ''h'' ''after'' (Some 2) None (Some ''b'') None [0, 2] [0]"
  show "?row \<in> set (expanded_context_rows ''h'' ''after'' (Some 1) (Some U32_MAX) 1 (str_lines (''a'' @ [NL] @ ''b''))
    (str_lines []) (source_line_offsets (''a'' @ [NL] @ ''b'')) (source_line_offsets []) False)" by code_simp
  show "''a'' @ [NL] @ ''b'' = (case Old of Old \<Rightarrow> ''a'' @ [NL] @ ''b'' | New \<Rightarrow> [])" by simp
  show "row_line Old ?row = Some 2" by code_simp
  show "row_source Old ?row = Some (2, ''b'')" by code_simp
qed simp_all

text \<open>The line above the first one is expanded as well: number zero, with the text of line one.\<close>

lemma first_line_shown_twice:
  assumes "old_lines \<noteq> []" "0 < extra"
  shows "\<exists>row\<in>set (expanded_context_rows hunk phase (Some 1) (Some 1) extra old_lines new_lines oos nos True).
    rv_old_line row = Some 0 \<and> rv_old_text row = Some (hd old_lines)"
proof -
  have first: "context_text old_lines (context_line True 1 1) = Some (hd old_lines)"
    using assms(1) by (cases old_lines) (simp_all add: context_text_def context_line_def nth_opt_def)
  let ?row = "expanded_row hunk phase (context_line True 1 1) (context_line True 1 1)
    (Some (hd old_lines)) (context_text new_lines (context_line True 1 1)) oos nos"
  have "?row \<in> set (expanded_context_rows hunk phase (Some 1) (Some 1) extra old_lines new_lines oos nos True)"
    using assms(2) first
    by (auto simp: expanded_context_rows_def Let_def set_map_filter unwrap_or_def simp del: upt_Suc intro!: bexI [of _ 1])
  then show ?thesis by (rule bexI [rotated]) (simp add: expanded_row_def context_line_def)
qed

end
