(* ===== verification/Spec2Isabelle.thy ===== *)
theory Spec2Isabelle
  imports Boundary Transport Diff_Views Diff_Patch_Ok Diff_Patch_Roundtrip Git_Queries
    Git_Discover_Props Git_Pool_Props Git_Pool_Lock Git_Pool_Paths
    Service_Config_Props Service_Session_Props Service_Prompt_Props Service_Review_Props
    Store_Contents Store_Lifecycle Store_Backups_Props Store_Schema
    GitHub_Props Service_GitHub_Refresh Service_GitHub_Runs
    Desktop_Rpc_Props Desktop_Jobs_Props Desktop_Cache_Props Desktop_Window_Props
begin

text \<open>
  LocalReview is a desktop tool for reviewing the uncommitted and committed changes of the Git
  repositories of a workspace.  A client (the window, the command line, or a companion
  forwarding over SSH) sends commands; the service captures a comparison of each repository
  from Git, parses it into canonical documents, stores every generation in SQLite with
  content-addressed blobs, moves annotations from one generation to the next, and formats
  prompts from them; pull requests of GitHub get a managed worktree, and their reviews are
  published through the GitHub command line.  This development models the Rust crates that
  carry this logic and proves what they guarantee to each other.

  Shared theories.
  \<^item> \<open>Prelude\<close>: bytes, results (\<open>Inl\<close> is the error), guards, the effect monad \<open>io_bind\<close>.
  \<^item> \<open>Rust_Text\<close>, \<open>Rust_Path\<close>, \<open>Rust_Net\<close>: the operations of \<open>str\<close>, slices, integer
    parsing, \<open>Path\<close> and \<open>SocketAddr\<close> the program uses.  A Rust string is its UTF-8 bytes,
    one HOL \<open>char\<close> for each.

  \<open>crates/domain\<close> and \<open>crates/protocol\<close>.
  \<^item> \<open>Domain\<close> (\<open>domain/src/lib.rs\<close>): the review records and their constructors.
  \<^item> \<open>Protocol_Text\<close>, \<open>Protocol_Local\<close> (\<open>local.rs\<close>): the closed command set and every
    validator; \<open>Protocol_Agent\<close> (\<open>agent.rs\<close>, \<open>reverse.rs\<close>): the companion's operations;
    \<open>Protocol_Frame\<close> (\<open>frame.rs\<close>, \<open>auth.rs\<close>): frames and request proofs; \<open>Protocol_Paths\<close>
    (\<open>paths.rs\<close>): the private files, over a file system with modes.
  \<^item> \<open>Boundary\<close>, \<open>Transport\<close>: accepted paths stay below the workspace, frames round trip
    within their bounds, a proof binds the fields it signs, the installation secret is
    stable and private.

  \<open>crates/git\<close>.
  \<^item> \<open>Git_Parse\<close>, \<open>Git_Metadata\<close> (with \<open>Git_Metadata_Props\<close>): the parsers of Git's
    machine-readable output, with their round trips.
  \<^item> \<open>Git_Repository\<close>: \<open>GitRepository\<close> over a record of the outside world (Git, files,
    clock); every operation is a function of the world.  \<open>Git_Effects\<close>: a logging world and
    which commands run; \<open>Git_Capture\<close>: a returned capture is coherent, a repository at rest
    is captured, a restless one is given up after three attempts; \<open>Git_Queries\<close>: blame,
    commit context and blobs.
  \<^item> \<open>Git_Discover\<close>, \<open>Git_Discover_Props\<close>: the breadth-first discovery of repositories.
  \<^item> \<open>Git_Pool\<close> (\<open>pool.rs\<close>): mirrors, worktrees, registry and lock file; \<open>Git_Pool_Props\<close>:
    what the pool may do to the machine; \<open>Git_Pool_Lock\<close>: the lock as a step relation
    between processes and as the loop of one; \<open>Git_Pool_Paths\<close>: paths and registry.

  \<open>crates/diff\<close>.
  \<^item> \<open>Diff_Model\<close>: the canonical document, split rows, full-file projections; \<open>Diff_Patch\<close>:
    the unified patch parser.  \<open>Diff_Views\<close>: every presentation is a lossless projection;
    \<open>Diff_Patch_Ok\<close>: accepted documents are well formed; \<open>Diff_Patch_Roundtrip\<close>: the
    parser inverts Git's rendering.

  \<open>crates/persistence\<close>.
  \<^item> \<open>Store_Tables\<close>, \<open>Store_Db\<close>: tables with primary, unique and foreign keys, one
    definition for each SQL statement; \<open>Store_Ops\<close>: the operations of \<open>StateStore\<close> and
    \<open>BlobStore\<close> with their transactions; \<open>Store_Schema\<close>: the migration; \<open>Store_Backups\<close>:
    backups, the startup check and recovery.
  \<^item> \<open>Store_Invariant\<close>, \<open>Store_Reach\<close>: the schema holds in every reachable store;
    \<open>Store_History\<close>, \<open>Store_Contents\<close>, \<open>Store_Lifecycle\<close>, \<open>Store_Backups_Props\<close>: what a
    refresh, a new review, garbage collection, deletion and a restore keep.

  \<open>crates/service\<close>.
  \<^item> \<open>Service_Config\<close> (\<open>config.rs\<close>): the configuration layers; \<open>Service_Review\<close>: reanchoring
    and history; \<open>Service_Prompt\<close>: the prompt; \<open>Service_Documents\<close>: the documents of a
    capture; \<open>Service_Session\<close>: the operations of \<open>ReviewService\<close>, which compose discovery,
    capture, documents, the store and reanchoring.  The theories ending in \<open>_Props\<close> hold
    their theorems.

  \<open>crates/github\<close> and \<open>crates/service/src/github.rs\<close>.
  \<^item> \<open>GitHub_Client\<close> (\<open>client.rs\<close>): commands for \<open>gh\<close>, the executor that runs it with a
    deadline and bounded readers, authentication; \<open>GitHub_Pull\<close> (\<open>pull_request.rs\<close>): URLs and
    pinned metadata; \<open>GitHub_Review\<close>, \<open>GitHub_Publish\<close> (\<open>review.rs\<close>): importing threads, and
    the draft, payload, marker, submission and reconciliation of a native review.
    \<open>GitHub_Props\<close>: bounds of outputs and imports, canonical URLs.
  \<^item> \<open>Service_GitHub\<close> (\<open>github.rs\<close>): opening a pull request, preview, submission,
    reconciliation and abandonment of its review; \<open>Service_GitHub_Refresh\<close>: refresh, deletion
    and repair.  \<open>Service_GitHub_Props\<close> runs the operations on an environment that writes
    down every command given to \<open>gh\<close> and shows which only read; \<open>Service_GitHub_Once\<close> says
    what each operation does to the publications as a finite map; \<open>Service_GitHub_Runs\<close>: no
    sequence of operations posts a preview twice, and every submission returns;
    \<open>Service_GitHub_Demo\<close>: a concrete pull request for the witnesses.

  \<open>src-tauri\<close>, the desktop.
  \<^item> \<open>Desktop_Rpc\<close> (\<open>rpc.rs\<close>, the replay guard of \<open>controller.rs\<close>): the checks of a request that
    arrives at the socket; \<open>Desktop_Rpc_Props\<close>: a refused request has no effect, one that was
    run is not run again.
  \<^item> \<open>Desktop_Jobs\<close>, \<open>Desktop_Jobs_Props\<close> (\<open>controller.rs\<close>): the viewport jobs with their
    cancellation and the pool of workers.
  \<^item> \<open>Desktop_Views\<close>, \<open>Desktop_Presentation\<close> (\<open>controller.rs\<close>): the rows of every presentation;
    \<open>Desktop_Views_Props\<close>, \<open>Desktop_Window_Props\<close>: offsets and ranges of the source, gates,
    navigation, bounds of a viewport.
  \<^item> \<open>Desktop_Cache\<close>, \<open>Desktop_Cache_Props\<close> (\<open>controller.rs\<close>): the caches with a budget; the locale
    \<open>budget\<close> has their laws.

  Interfaces.  Where a component relies on another, a locale states what it needs
  (\<open>keyed_table\<close> for the tables, \<open>hunk_view\<close> for the presentations, \<open>lock_clock\<close> for the
  pool's lock and others) and an interpretation proves it of the definitions of the program.

  The outside world.  Git, the GitHub command line, the file system, clocks and fresh
  identifiers are fields of a record over a type of worlds, so a theorem holds for every
  answer they may give; what a theorem needs of them is a hypothesis, and its witness gives
  a concrete world.  Hash functions, CBOR, zstd, TOML and JSON readers and the line diff of
  the \<open>similar\<close> crate are parameters.  SQLite is modelled by its tables: a statement
  succeeds with the new tables or fails on a violated key, and a transaction that fails
  leaves the old state.

  Bounds.  Creating directories recurses on the path, with its length as fuel; a capture makes
  at most three attempts, as in the code; the discovery walk terminates by a multiset
  measure on the directories still queued; string loops terminate by the remaining length.
  Loops that depend on the outside world (taking the lock, reading pages) are partial
  functions, where \<open>None\<close> means that they do not return.

  Not modelled: the process executor of Git (threads, pipes and time limits), serde
  attributes, file modes and write-ahead logging of SQLite, and what is not about the review
  itself: syntax highlighting, the structural diff, the SSH transport, the command line,
  the installation of external tools, the commands of the desktop controller with the window
  interface, and the Svelte front end.
\<close>

end
